(* ===== verification/Prelude.thy ===== *)
theory Prelude
  imports Main "HOL-Library.Word" "HOL-Library.Char_ord" "HOL-Library.List_Lexorder"
begin

section \<open>Prelude: machine types, results and the effect monad\<close>

text \<open>
  What every component of the model shares: the names of Rust's fixed-width integers,
  \<open>Result\<close> values as sums with the error on the left, the exception-and-state monad in
  which the engine and the state store are written, and the semantic triples that carry
  the proofs about it.  A monadic operation maps a world to a result and the new world;
  an error keeps the world it happened in, because a failed operation of the program
  leaves behind whatever it had already made durable.
\<close>

named_theorems eff_defs \<open>unfolding of the monad's combinators\<close>
named_theorems eff_intro \<open>introduction rules for semantic triples\<close>

type_synonym u16 = "16 word"
type_synonym u32 = "32 word"
type_synonym u64 = "64 word"
type_synonym i32 = int
type_synonym uuid = "128 word"
type_synonym path = string
type_synonym time = int

subsection \<open>Results\<close>

definition res_bind :: "'e + 'a \<Rightarrow> ('a \<Rightarrow> 'e + 'b) \<Rightarrow> 'e + 'b" where
  "res_bind r f = (case r of Inl e \<Rightarrow> Inl e | Inr x \<Rightarrow> f x)"

definition res_map_err :: "('e \<Rightarrow> 'f) \<Rightarrow> 'e + 'a \<Rightarrow> 'f + 'a" where
  "res_map_err g r = (case r of Inl e \<Rightarrow> Inl (g e) | Inr x \<Rightarrow> Inr x)"

definition ensure :: "bool \<Rightarrow> 'e \<Rightarrow> 'e + unit" where
  "ensure b e = (if b then Inr () else Inl e)"

definition ok_or :: "'a option \<Rightarrow> 'e \<Rightarrow> 'e + 'a" where
  "ok_or x e = (case x of None \<Rightarrow> Inl e | Some y \<Rightarrow> Inr y)"

definition is_ok :: "'e + 'a \<Rightarrow> bool" where
  "is_ok r = (case r of Inl _ \<Rightarrow> False | Inr _ \<Rightarrow> True)"

text \<open>A \<open>for\<close> loop whose body may return early with an error.\<close>

fun res_for :: "'a list \<Rightarrow> ('a \<Rightarrow> 'e + unit) \<Rightarrow> 'e + unit" where
  "res_for [] f = Inr ()"
| "res_for (x # xs) f = (case f x of Inl e \<Rightarrow> Inl e | Inr _ \<Rightarrow> res_for xs f)"

fun res_mapM :: "('a \<Rightarrow> 'e + 'b) \<Rightarrow> 'a list \<Rightarrow> 'e + 'b list" where
  "res_mapM f [] = Inr []"
| "res_mapM f (x # xs) =
     (case f x of Inl e \<Rightarrow> Inl e
      | Inr y \<Rightarrow> (case res_mapM f xs of Inl e \<Rightarrow> Inl e | Inr ys \<Rightarrow> Inr (y # ys)))"

subsection \<open>Checked and saturating arithmetic on unsigned words\<close>

definition checked_add :: "'a::len word \<Rightarrow> 'a word \<Rightarrow> 'a word option" where
  "checked_add a b = (if unat a + unat b < 2 ^ LENGTH('a) then Some (a + b) else None)"

definition checked_mul :: "'a::len word \<Rightarrow> 'a word \<Rightarrow> 'a word option" where
  "checked_mul a b = (if unat a * unat b < 2 ^ LENGTH('a) then Some (a * b) else None)"

definition saturating_add :: "'a::len word \<Rightarrow> 'a word \<Rightarrow> 'a word" where
  "saturating_add a b = (case checked_add a b of Some c \<Rightarrow> c | None \<Rightarrow> - 1)"

subsection \<open>The effect monad\<close>

type_synonym ('w, 'e, 'a) eff = "'w \<Rightarrow> ('e + 'a) \<times> 'w"

definition ret :: "'a \<Rightarrow> ('w, 'e, 'a) eff" where
  "ret x = (\<lambda>w. (Inr x, w))"

definition throw :: "'e \<Rightarrow> ('w, 'e, 'a) eff" where
  "throw e = (\<lambda>w. (Inl e, w))"

definition bindE :: "('w, 'e, 'a) eff \<Rightarrow> ('a \<Rightarrow> ('w, 'e, 'b) eff) \<Rightarrow> ('w, 'e, 'b) eff" where
  "bindE m f = (\<lambda>w. case m w of (Inl e, w') \<Rightarrow> (Inl e, w') | (Inr x, w') \<Rightarrow> f x w')"

definition liftR :: "'e + 'a \<Rightarrow> ('w, 'e, 'a) eff" where
  "liftR r = (\<lambda>w. (r, w))"

definition mapE :: "('e \<Rightarrow> 'f) \<Rightarrow> ('w, 'e, 'a) eff \<Rightarrow> ('w, 'f, 'a) eff" where
  "mapE g m = (\<lambda>w. case m w of (Inl e, w') \<Rightarrow> (Inl (g e), w') | (Inr x, w') \<Rightarrow> (Inr x, w'))"

text \<open>\<open>attempt m\<close> makes the result of \<open>m\<close> a value, for a \<open>match\<close> on a \<open>Result\<close>.\<close>

definition attempt :: "('w, 'e, 'a) eff \<Rightarrow> ('w, 'f, 'e + 'a) eff" where
  "attempt m = (\<lambda>w. case m w of (r, w') \<Rightarrow> (Inr r, w'))"

definition gets :: "('w \<Rightarrow> 'a) \<Rightarrow> ('w, 'e, 'a) eff" where
  "gets f = (\<lambda>w. (Inr (f w), w))"

definition modify :: "('w \<Rightarrow> 'w) \<Rightarrow> ('w, 'e, unit) eff" where
  "modify f = (\<lambda>w. (Inr (), f w))"

definition condE :: "bool \<Rightarrow> ('w, 'e, 'a) eff \<Rightarrow> ('w, 'e, 'a) eff \<Rightarrow> ('w, 'e, 'a) eff" where
  "condE b m n = (if b then m else n)"

text \<open>\<open>finallyE m f\<close> runs the destructor \<open>f\<close> on every exit path of \<open>m\<close> (Rust's \<open>Drop\<close>).\<close>

definition finallyE :: "('w, 'e, 'a) eff \<Rightarrow> ('w \<Rightarrow> 'w) \<Rightarrow> ('w, 'e, 'a) eff" where
  "finallyE m f = (\<lambda>w. case m w of (r, w') \<Rightarrow> (r, f w'))"

text \<open>
  The triple \<open>validE P m Q R\<close>: started in a world satisfying \<open>P\<close>, \<open>m\<close> either returns a
  value with \<open>Q\<close> or fails with an error and \<open>R\<close>.  \<open>preserves I m\<close> is the special case of an
  invariant kept on both exits.
\<close>

definition validE ::
  "('w \<Rightarrow> bool) \<Rightarrow> ('w, 'e, 'a) eff \<Rightarrow> ('a \<Rightarrow> 'w \<Rightarrow> bool) \<Rightarrow> ('e \<Rightarrow> 'w \<Rightarrow> bool) \<Rightarrow> bool" where
  "validE P m Q R \<longleftrightarrow>
     (\<forall>w. P w \<longrightarrow> (case m w of (Inl e, w') \<Rightarrow> R e w' | (Inr x, w') \<Rightarrow> Q x w'))"

definition preserves :: "('w \<Rightarrow> bool) \<Rightarrow> ('w, 'e, 'a) eff \<Rightarrow> bool" where
  "preserves I m \<longleftrightarrow> (\<forall>w. I w \<longrightarrow> I (snd (m w)))"

lemmas eff_combinators [eff_defs] =
  ret_def throw_def bindE_def liftR_def mapE_def attempt_def gets_def modify_def condE_def
  finallyE_def

subsection \<open>Lemmas on results\<close>

lemma res_bind_simps [simp]:
  "res_bind (Inl e) f = Inl e" "res_bind (Inr x) f = f x"
  by (simp_all add: res_bind_def)

lemma res_bind_Inr_iff [simp]: "res_bind r f = Inr y \<longleftrightarrow> (\<exists>x. r = Inr x \<and> f x = Inr y)"
  by (cases r) auto

lemma res_bind_Inl_iff: "res_bind r f = Inl e \<longleftrightarrow> r = Inl e \<or> (\<exists>x. r = Inr x \<and> f x = Inl e)"
  by (cases r) auto

lemma ensure_Inr_iff [simp]: "ensure b e = Inr u \<longleftrightarrow> b"
  by (simp add: ensure_def)

lemma ensure_Inl_iff [simp]: "ensure b e = Inl e' \<longleftrightarrow> \<not> b \<and> e' = e"
  by (auto simp: ensure_def)

lemma res_map_err_Inr_iff [simp]: "res_map_err g r = Inr x \<longleftrightarrow> r = Inr x"
  by (cases r) (auto simp: res_map_err_def)

lemma res_map_err_Inl_iff: "res_map_err g r = Inl e \<longleftrightarrow> (\<exists>e'. r = Inl e' \<and> e = g e')"
  by (cases r) (auto simp: res_map_err_def)

lemma ok_or_Inr_iff [simp]: "ok_or x e = Inr y \<longleftrightarrow> x = Some y"
  by (cases x) (auto simp: ok_or_def)

lemma ok_or_Inl_iff [simp]: "ok_or x e = Inl e' \<longleftrightarrow> x = None \<and> e' = e"
  by (cases x) (auto simp: ok_or_def)

lemma is_ok_simps [simp]: "is_ok (Inr x)" "\<not> is_ok (Inl e)"
  by (simp_all add: is_ok_def)

lemma is_ok_iff: "is_ok r \<longleftrightarrow> (\<exists>x. r = Inr x)"
  by (cases r) auto

lemma res_for_ok_iff: "res_for xs f = Inr u \<longleftrightarrow> (\<forall>x \<in> set xs. is_ok (f x))"
  by (induction xs) (auto split: sum.splits)

lemma res_for_errD: "res_for xs f = Inl e \<Longrightarrow> \<exists>x \<in> set xs. f x = Inl e"
  by (induction xs) (auto split: sum.splits)

lemma res_mapM_ok: "res_mapM f xs = Inr ys \<Longrightarrow> list_all2 (\<lambda>x y. f x = Inr y) xs ys"
  by (induction xs arbitrary: ys) (auto split: sum.splits)

subsection \<open>Lemmas on checked arithmetic\<close>

lemma checked_add_Some_iff:
  fixes a b :: "'a::len word"
  shows "checked_add a b = Some c \<longleftrightarrow> unat a + unat b < 2 ^ LENGTH('a) \<and> unat c = unat a + unat b"
  by (auto simp: checked_add_def unat_word_ariths word_unat_eq_iff split: if_splits)

lemma checked_mul_Some_iff:
  fixes a b :: "'a::len word"
  shows "checked_mul a b = Some c \<longleftrightarrow> unat a * unat b < 2 ^ LENGTH('a) \<and> unat c = unat a * unat b"
  by (auto simp: checked_mul_def unat_word_ariths word_unat_eq_iff split: if_splits)

lemma saturating_add_eq:
  fixes a b :: "'a::len word"
  shows "unat (saturating_add a b) = min (unat a + unat b) (2 ^ LENGTH('a) - 1)"
proof -
  have "unat (- 1 :: 'a word) = 2 ^ LENGTH('a) - 1"
    by (simp add: unsigned_minus_1_eq_mask mask_eq_exp_minus_1)
  then show ?thesis
    by (auto simp: saturating_add_def checked_add_def unat_word_ariths split: if_splits)
qed

subsection \<open>Lemmas on the monad\<close>

lemma bindE_ok:
  "bindE m f w = (Inr y, w'') \<longleftrightarrow> (\<exists>x w'. m w = (Inr x, w') \<and> f x w' = (Inr y, w''))"
  by (auto simp: bindE_def split: prod.splits sum.splits)

lemma bindE_err:
  "bindE m f w = (Inl e, w'') \<longleftrightarrow>
     m w = (Inl e, w'') \<or> (\<exists>x w'. m w = (Inr x, w') \<and> f x w' = (Inl e, w''))"
  by (auto simp: bindE_def split: prod.splits sum.splits)

lemma liftR_ok [simp]: "liftR r w = (Inr x, w') \<longleftrightarrow> r = Inr x \<and> w' = w"
  by (auto simp: liftR_def)

lemma liftR_err [simp]: "liftR r w = (Inl e, w') \<longleftrightarrow> r = Inl e \<and> w' = w"
  by (auto simp: liftR_def)

lemma bindE_liftR_Inr [simp]: "bindE (liftR (Inr x)) f = f x"
  by (simp add: bindE_def liftR_def)

lemma bindE_ret [simp]: "bindE (ret x) f = f x"
  by (simp add: bindE_def ret_def)

lemma bindE_throw [simp]: "bindE (throw e) f = throw e"
  by (simp add: bindE_def throw_def)

lemma bindE_assoc: "bindE (bindE m f) g = bindE m (\<lambda>x. bindE (f x) g)"
  by (auto simp: bindE_def fun_eq_iff split: prod.splits sum.splits)

lemma validE_bind [eff_intro]:
  assumes "validE P m I R" and "\<And>x. validE (I x) (f x) Q R"
  shows "validE P (bindE m f) Q R"
  using assms by (fastforce simp: validE_def bindE_def split: prod.splits sum.splits)

lemma validE_weaken:
  assumes "validE P' m Q' R'" and "\<And>w. P w \<Longrightarrow> P' w"
    and "\<And>x w. Q' x w \<Longrightarrow> Q x w" and "\<And>e w. R' e w \<Longrightarrow> R e w"
  shows "validE P m Q R"
  using assms by (fastforce simp: validE_def split: prod.splits sum.splits)

lemma validE_ret: "(\<And>w. P w \<Longrightarrow> Q x w) \<Longrightarrow> validE P (ret x) Q R"
  by (simp add: validE_def ret_def)

lemma validE_throw: "(\<And>w. P w \<Longrightarrow> R e w) \<Longrightarrow> validE P (throw e) Q R"
  by (simp add: validE_def throw_def)

lemma validE_liftR:
  "(\<And>w x. P w \<Longrightarrow> r = Inr x \<Longrightarrow> Q x w) \<Longrightarrow> (\<And>w e. P w \<Longrightarrow> r = Inl e \<Longrightarrow> R e w)
    \<Longrightarrow> validE P (liftR r) Q R"
  by (auto simp: validE_def liftR_def split: sum.splits)

text \<open>A pure check in front of a continuation contributes its success as a fact.\<close>

lemma validE_bind_liftR:
  assumes "\<And>x. r = Inr x \<Longrightarrow> validE P (f x) Q R" and "\<And>w e. P w \<Longrightarrow> r = Inl e \<Longrightarrow> R e w"
  shows "validE P (bindE (liftR r) f) Q R"
  using assms by (cases r) (auto simp: validE_def bindE_def liftR_def)

lemma validE_if:
  "(b \<Longrightarrow> validE P m Q R) \<Longrightarrow> (\<not> b \<Longrightarrow> validE P n Q R) \<Longrightarrow> validE P (if b then m else n) Q R"
  by simp

lemma validE_attempt:
  "validE P m (\<lambda>x w. Q (Inr x) w) (\<lambda>e w. Q (Inl e) w) \<Longrightarrow> validE P (attempt m) Q R"
  unfolding validE_def attempt_def by (auto split: prod.splits) (metis sum.exhaust old.sum.simps(5,6))

lemma validE_mapE:
  "validE P m Q (\<lambda>e w. R (g e) w) \<Longrightarrow> validE P (mapE g m) Q R"
  by (fastforce simp: validE_def mapE_def split: prod.splits sum.splits)

lemma validE_gets: "(\<And>w. P w \<Longrightarrow> Q (f w) w) \<Longrightarrow> validE P (gets f) Q R"
  by (simp add: validE_def gets_def)

lemma validE_modify: "(\<And>w. P w \<Longrightarrow> Q () (f w)) \<Longrightarrow> validE P (modify f) Q R"
  by (simp add: validE_def modify_def)

lemma validE_finally:
  "validE P m (\<lambda>x w. Q x (f w)) (\<lambda>e w. R e (f w)) \<Longrightarrow> validE P (finallyE m f) Q R"
  by (fastforce simp: validE_def finallyE_def split: prod.splits sum.splits)

text \<open>A ghost variable names what the world shows of \<open>g\<close> at the start.\<close>

lemma validE_ghost:
  "(\<And>x. validE (\<lambda>w. P w \<and> g w = x) m Q R) \<Longrightarrow> validE P m Q R"
  by (simp add: validE_def)

lemma validE_okD: "validE P m Q R \<Longrightarrow> P w \<Longrightarrow> m w = (Inr x, w') \<Longrightarrow> Q x w'"
  by (fastforce simp: validE_def)

lemma validE_errD: "validE P m Q R \<Longrightarrow> P w \<Longrightarrow> m w = (Inl e, w') \<Longrightarrow> R e w'"
  by (fastforce simp: validE_def)

lemma preserves_iff_validE: "preserves I m \<longleftrightarrow> validE I m (\<lambda>_. I) (\<lambda>_. I)"
proof -
  have "I (snd p) \<longleftrightarrow> (case p of (Inl e, w') \<Rightarrow> I w' | (Inr x, w') \<Rightarrow> I w')" for p :: "('b + 'c) \<times> 'a"
    by (cases p; cases "fst p") auto
  then show ?thesis by (simp add: preserves_def validE_def)
qed

end
