(* ===== verification/RustStd.thy ===== *)
theory RustStd
  imports Prelude
begin

section \<open>The parts of Rust's standard library the program uses\<close>

text \<open>
  Strings are UTF-8 byte sequences (\<open>char list\<close>, one \<open>char\<close> per byte), so \<open>length\<close> is
  \<open>str::len\<close>.  Functions of the standard library that look at code points go through
  \<open>utf8_chars\<close>, which decodes a valid UTF-8 string.  Paths are strings; their component
  structure is the one \<open>std::path\<close> documents for Unix.  The Windows path identities of the
  program are modelled in the components that define them.
\<close>

subsection \<open>ASCII\<close>

definition byte :: "char \<Rightarrow> nat" where
  "byte c = of_char c"

definition is_ascii_digit :: "char \<Rightarrow> bool" where
  "is_ascii_digit c \<longleftrightarrow> 48 \<le> byte c \<and> byte c \<le> 57"

definition is_ascii_lowercase :: "char \<Rightarrow> bool" where
  "is_ascii_lowercase c \<longleftrightarrow> 97 \<le> byte c \<and> byte c \<le> 122"

definition is_ascii_uppercase :: "char \<Rightarrow> bool" where
  "is_ascii_uppercase c \<longleftrightarrow> 65 \<le> byte c \<and> byte c \<le> 90"

definition is_ascii_alphanumeric :: "char \<Rightarrow> bool" where
  "is_ascii_alphanumeric c \<longleftrightarrow> is_ascii_digit c \<or> is_ascii_lowercase c \<or> is_ascii_uppercase c"

definition ascii_up :: "char \<Rightarrow> char" where
  "ascii_up c = (if is_ascii_lowercase c then char_of (byte c - 32) else c)"

definition ascii_low :: "char \<Rightarrow> char" where
  "ascii_low c = (if is_ascii_uppercase c then char_of (byte c + 32) else c)"

definition to_ascii_uppercase :: "string \<Rightarrow> string" where
  "to_ascii_uppercase s = map ascii_up s"

definition to_ascii_lowercase :: "string \<Rightarrow> string" where
  "to_ascii_lowercase s = map ascii_low s"

definition eq_ignore_ascii_case :: "string \<Rightarrow> string \<Rightarrow> bool" where
  "eq_ignore_ascii_case s t \<longleftrightarrow> to_ascii_lowercase s = to_ascii_lowercase t"

definition nul :: char where
  "nul = CHR 0x00"

definition backslash :: char where
  "backslash = CHR 0x5C"

subsection \<open>Code points\<close>

fun utf8_chars :: "nat list \<Rightarrow> nat list" where
  "utf8_chars [] = []"
| "utf8_chars (b # bs) =
     (if b < 0x80 then b # utf8_chars bs
      else if b < 0xE0 then
        (case bs of c1 # r \<Rightarrow> ((b mod 32) * 64 + c1 mod 64) # utf8_chars r | _ \<Rightarrow> [])
      else if b < 0xF0 then
        (case bs of c1 # c2 # r \<Rightarrow>
           ((b mod 16) * 4096 + (c1 mod 64) * 64 + c2 mod 64) # utf8_chars r | _ \<Rightarrow> [])
      else
        (case bs of c1 # c2 # c3 # r \<Rightarrow>
           ((b mod 8) * 262144 + (c1 mod 64) * 4096 + (c2 mod 64) * 64 + c3 mod 64) # utf8_chars r
         | _ \<Rightarrow> []))"

definition chars :: "string \<Rightarrow> nat list" where
  "chars s = utf8_chars (map byte s)"

text \<open>Validity as \<open>std::str::from_utf8\<close> decides it: no overlong form, no surrogate, at most U+10FFFF.\<close>

definition utf8_cont :: "nat \<Rightarrow> bool" where
  "utf8_cont b \<longleftrightarrow> 0x80 \<le> b \<and> b < 0xC0"

fun utf8_valid :: "nat list \<Rightarrow> bool" where
  "utf8_valid [] = True"
| "utf8_valid (b # bs) =
     (if b < 0x80 then utf8_valid bs
      else if b < 0xE0 then
        (case bs of c1 # r \<Rightarrow> 0xC2 \<le> b \<and> utf8_cont c1 \<and> utf8_valid r | _ \<Rightarrow> False)
      else if b < 0xF0 then
        (case bs of c1 # c2 # r \<Rightarrow>
           utf8_cont c1 \<and> utf8_cont c2 \<and> (b = 0xE0 \<longrightarrow> 0xA0 \<le> c1) \<and> (b = 0xED \<longrightarrow> c1 < 0xA0)
           \<and> utf8_valid r
         | _ \<Rightarrow> False)
      else
        (case bs of c1 # c2 # c3 # r \<Rightarrow>
           b \<le> 0xF4 \<and> utf8_cont c1 \<and> utf8_cont c2 \<and> utf8_cont c3 \<and> (b = 0xF0 \<longrightarrow> 0x90 \<le> c1)
           \<and> (b = 0xF4 \<longrightarrow> c1 < 0x90) \<and> utf8_valid r
         | _ \<Rightarrow> False))"

definition is_utf8 :: "string \<Rightarrow> bool" where
  "is_utf8 s = utf8_valid (map byte s)"

definition char_is_control :: "nat \<Rightarrow> bool" where
  "char_is_control c \<longleftrightarrow> c \<le> 0x1F \<or> (0x7F \<le> c \<and> c \<le> 0x9F)"

definition char_is_whitespace :: "nat \<Rightarrow> bool" where
  "char_is_whitespace c \<longleftrightarrow>
     (9 \<le> c \<and> c \<le> 13) \<or> c = 32 \<or> c = 0x85 \<or> c = 0xA0 \<or> c = 0x1680
     \<or> (0x2000 \<le> c \<and> c \<le> 0x200A) \<or> c = 0x2028 \<or> c = 0x2029 \<or> c = 0x202F
     \<or> c = 0x205F \<or> c = 0x3000"

definition any_control :: "string \<Rightarrow> bool" where
  "any_control s \<longleftrightarrow> list_ex char_is_control (chars s)"

text \<open>\<open>s.trim().is_empty()\<close>.\<close>

definition is_blank :: "string \<Rightarrow> bool" where
  "is_blank s \<longleftrightarrow> list_all char_is_whitespace (chars s)"

subsection \<open>Splitting, replacing, prefixes\<close>

fun split_on :: "char \<Rightarrow> string \<Rightarrow> string list" where
  "split_on c [] = [[]]"
| "split_on c (x # xs) =
     (if x = c then [] # split_on c xs
      else (case split_on c xs of [] \<Rightarrow> [[x]] | s # ss \<Rightarrow> (x # s) # ss))"

fun join_with :: "string \<Rightarrow> string list \<Rightarrow> string" where
  "join_with sep [] = []"
| "join_with sep [s] = s"
| "join_with sep (s # ss) = s @ sep @ join_with sep ss"

definition replace_char :: "char \<Rightarrow> char \<Rightarrow> string \<Rightarrow> string" where
  "replace_char a b s = map (\<lambda>c. if c = a then b else c) s"

definition starts_with :: "string \<Rightarrow> string \<Rightarrow> bool" where
  "starts_with s p \<longleftrightarrow> take (length p) s = p"

definition ends_with :: "string \<Rightarrow> string \<Rightarrow> bool" where
  "ends_with s p \<longleftrightarrow> length p \<le> length s \<and> drop (length s - length p) s = p"

definition contains_char :: "string \<Rightarrow> char \<Rightarrow> bool" where
  "contains_char s c \<longleftrightarrow> c \<in> set s"

definition contains_str :: "string list \<Rightarrow> string \<Rightarrow> bool" where
  "contains_str xs v \<longleftrightarrow> v \<in> set xs"

text \<open>\<open>s.get(..n).is_some_and(|prefix| prefix.eq_ignore_ascii_case(p))\<close> for an ASCII \<open>p\<close> of length \<open>n\<close>.\<close>

definition prefix_ignore_case :: "string \<Rightarrow> string \<Rightarrow> bool" where
  "prefix_ignore_case p s \<longleftrightarrow> length p \<le> length s \<and> eq_ignore_ascii_case (take (length p) s) p"

subsection \<open>Decimal rendering\<close>

fun dec_digits :: "nat \<Rightarrow> string" where
  "dec_digits n =
     (if n < 10 then [char_of (48 + n)] else dec_digits (n div 10) @ [char_of (48 + n mod 10)])"

declare dec_digits.simps [simp del]

text \<open>\<open>format!("{n:04}")\<close>.\<close>

definition dec_pad4 :: "nat \<Rightarrow> string" where
  "dec_pad4 n = (let d = dec_digits n in replicate (4 - length d) CHR ''0'' @ d)"

subsection \<open>Paths\<close>

datatype component = RootDir | CurDir | ParentDir | Normal string

definition path_part :: "string \<Rightarrow> component" where
  "path_part s = (if s = ''..'' then ParentDir else Normal s)"

definition components :: "path \<Rightarrow> component list" where
  "components p =
     (let segs = split_on CHR ''/'' p;
          parts = map path_part (filter (\<lambda>s. s \<noteq> [] \<and> s \<noteq> ''.'') segs)
      in if starts_with p ''/'' then RootDir # parts
         else if hd segs = ''.'' then CurDir # parts
         else parts)"

definition is_absolute :: "path \<Rightarrow> bool" where
  "is_absolute p \<longleftrightarrow> starts_with p ''/''"

text \<open>\<open>Path\<close> equality compares components.\<close>

definition path_eq :: "path \<Rightarrow> path \<Rightarrow> bool" where
  "path_eq p q \<longleftrightarrow> components p = components q"

definition path_join :: "path \<Rightarrow> path \<Rightarrow> path" where
  "path_join p q =
     (if is_absolute q then q
      else if p = [] \<or> last p = CHR ''/'' then p @ q
      else p @ ''/'' @ q)"

text \<open>\<open>Path::parent\<close>, as the path of the components before the last.\<close>

fun component_str :: "component \<Rightarrow> string" where
  "component_str RootDir = []"
| "component_str CurDir = ''.''"
| "component_str ParentDir = ''..''"
| "component_str (Normal s) = s"

definition path_of_components :: "component list \<Rightarrow> path" where
  "path_of_components cs = (if cs = [RootDir] then ''/'' else join_with ''/'' (map component_str cs))"

definition path_parent :: "path \<Rightarrow> path option" where
  "path_parent p = (let cs = components p in
     if cs = [] \<or> last cs = RootDir then None else Some (path_of_components (butlast cs)))"

text \<open>\<open>Path::ancestors\<close>: the path itself, then its parents.\<close>

definition ancestors :: "path \<Rightarrow> path list" where
  "ancestors p = (let cs = components p; m = (if cs \<noteq> [] \<and> hd cs = RootDir then 1 else 0) in
     p # map (\<lambda>n. path_of_components (take n cs)) (rev [m..<length cs]))"

text \<open>\<open>file_stem\<close> and \<open>extension\<close> of a file name: split at the last dot, unless it leads the name.\<close>

definition last_dot :: "string \<Rightarrow> nat option" where
  "last_dot name =
     (let n = length (takeWhile (\<lambda>c. c \<noteq> CHR ''.'') (rev name))
      in if n < length name \<and> n + 1 < length name then Some (length name - n - 1) else None)"

definition name_stem :: "string \<Rightarrow> string" where
  "name_stem name = (case last_dot name of None \<Rightarrow> name | Some i \<Rightarrow> take i name)"

definition name_extension :: "string \<Rightarrow> string option" where
  "name_extension name =
     (case last_dot name of None \<Rightarrow> None | Some i \<Rightarrow> Some (drop (i + 1) name))"

definition file_name :: "path \<Rightarrow> string option" where
  "file_name p =
     (case rev (components p) of Normal s # _ \<Rightarrow> Some s | _ \<Rightarrow> None)"

definition file_stem :: "path \<Rightarrow> string option" where
  "file_stem p = map_option name_stem (file_name p)"

definition extension :: "path \<Rightarrow> string option" where
  "extension p = (case file_name p of None \<Rightarrow> None | Some n \<Rightarrow> name_extension n)"

subsection \<open>Lemmas\<close>

lemma split_on_not_Nil [simp]: "split_on c s \<noteq> []"
  by (induction s) (auto split: list.splits)

lemma split_on_no_sep: "seg \<in> set (split_on c s) \<Longrightarrow> c \<notin> set seg"
  by (induction s arbitrary: seg) (auto split: if_splits list.splits)

lemma split_on_set: "seg \<in> set (split_on c s) \<Longrightarrow> set seg \<subseteq> set s"
  by (induction s arbitrary: seg) (fastforce split: if_splits list.splits)+

lemma split_on_fresh: "c \<notin> set s \<Longrightarrow> split_on c s = [s]"
  by (induction s) auto

lemma join_split [simp]: "join_with [c] (split_on c s) = s"
proof (induction s)
  case Nil
  then show ?case by simp
next
  case (Cons x s)
  obtain t ts where split: "split_on c s = t # ts"
    by (cases "split_on c s") auto
  with Cons show ?case
    by (cases ts) auto
qed

lemma split_on_append_sep: "c \<notin> set s \<Longrightarrow> split_on c (s @ c # t) = s # split_on c t"
  by (induction s) auto

lemma replace_char_absent: "a \<noteq> b \<Longrightarrow> a \<notin> set (replace_char a b s)"
  by (auto simp: replace_char_def)

lemma replace_char_id: "a \<notin> set s \<Longrightarrow> replace_char a b s = s"
  by (induction s) (auto simp: replace_char_def)

lemma length_replace_char [simp]: "length (replace_char a b s) = length s"
  by (simp add: replace_char_def)

lemma starts_with_iff: "starts_with s p \<longleftrightarrow> (\<exists>t. s = p @ t)"
  by (metis append_eq_conv_conj starts_with_def)

lemma starts_with_singleton [simp]: "starts_with s [c] \<longleftrightarrow> s \<noteq> [] \<and> hd s = c"
  by (cases s) (auto simp: starts_with_def)

lemma eq_ignore_ascii_case_refl [simp]: "eq_ignore_ascii_case s s"
  by (simp add: eq_ignore_ascii_case_def)

lemma eq_ignore_ascii_case_sym: "eq_ignore_ascii_case s t \<longleftrightarrow> eq_ignore_ascii_case t s"
  by (auto simp: eq_ignore_ascii_case_def)

lemma eq_ignore_ascii_case_trans:
  "eq_ignore_ascii_case s t \<Longrightarrow> eq_ignore_ascii_case t u \<Longrightarrow> eq_ignore_ascii_case s u"
  by (simp add: eq_ignore_ascii_case_def)

lemma path_eq_equivp: "equivp path_eq"
  by (auto intro!: equivpI reflpI sympI transpI simp: path_eq_def)

lemma path_eq_refl [simp]: "path_eq p p"
  by (simp add: path_eq_def)

lemma components_simple:
  assumes "s \<noteq> []" "CHR ''/'' \<notin> set s" "s \<noteq> ''.''" "s \<noteq> ''..''"
  shows "components s = [Normal s]"
  using assms by (cases s) (auto simp: components_def split_on_fresh path_part_def)

lemma split_on_append: "split_on c (s @ c # t) = split_on c s @ split_on c t"
proof (induction s)
  case (Cons x s)
  then show ?case by (cases "split_on c s") auto
qed simp

lemma split_on_replace:
  "b \<notin> set s \<Longrightarrow> split_on b (replace_char a b s) = split_on a s"
  by (induction s) (auto simp: replace_char_def split: list.splits)

lemma replace_replace: "b \<notin> set s \<Longrightarrow> replace_char b a (replace_char a b s) = s"
  by (induction s) (auto simp: replace_char_def)

lemma byte_eq_iff: "byte c = byte d \<longleftrightarrow> c = d"
  by (simp add: byte_def)

text \<open>Replacing one ASCII character by another touches no multi-byte sequence: every code point of
  the result is the replacement or a code point of the original.\<close>

lemma utf8_chars_map:
  assumes f: "\<And>x. 0x80 \<le> x \<Longrightarrow> f x = x" "\<And>x. x < 0x80 \<Longrightarrow> f x < 0x80 \<and> (f x = x \<or> f x = b)"
  shows "utf8_valid bs \<Longrightarrow> utf8_valid (map f bs)
    \<and> set (utf8_chars (map f bs)) \<subseteq> insert b (set (utf8_chars bs))"
proof (induction bs rule: utf8_valid.induct)
  case (2 x bs)
  have cont: "utf8_cont c \<Longrightarrow> f c = c" for c
    using f(1) by (simp add: utf8_cont_def)
  consider "x < 0x80" | "0x80 \<le> x" "x < 0xE0" | "0xE0 \<le> x" "x < 0xF0" | "0xF0 \<le> x" by linarith
  then show ?case
  proof cases
    case 1
    with 2 f(2) [of x] show ?thesis by auto
  next
    case c: 2
    with "2.prems" obtain c1 r where "bs = c1 # r" "utf8_cont c1" "utf8_valid r" "0xC2 \<le> x"
      by (cases bs) auto
    with c "2.IH"(2) f(1) [of x] show ?thesis by (auto simp: cont)
  next
    case c: 3
    with "2.prems" obtain c1 c2 r where "bs = c1 # c2 # r" "utf8_cont c1" "utf8_cont c2" "utf8_valid r"
      "x = 0xE0 \<longrightarrow> 0xA0 \<le> c1" "x = 0xED \<longrightarrow> c1 < 0xA0"
      by (cases bs; cases "tl bs") auto
    with c "2.IH"(3) f(1) [of x] show ?thesis by (auto simp: cont)
  next
    case c: 4
    with "2.prems" obtain c1 c2 c3 r where "bs = c1 # c2 # c3 # r"
      "utf8_cont c1" "utf8_cont c2" "utf8_cont c3" "utf8_valid r"
      "x \<le> 0xF4" "x = 0xF0 \<longrightarrow> 0x90 \<le> c1" "x = 0xF4 \<longrightarrow> c1 < 0x90"
      by (cases bs; cases "tl bs"; cases "tl (tl bs)") auto
    with c "2.IH"(4) f(1) [of x] show ?thesis by (auto simp: cont)
  qed
qed simp

lemma chars_replace:
  assumes "is_utf8 s" "byte a < 0x80" "byte b < 0x80"
  shows "is_utf8 (replace_char a b s) \<and> set (chars (replace_char a b s)) \<subseteq> insert (byte b) (set (chars s))"
proof -
  define f where "f = (\<lambda>x. if x = byte a then byte b else x)"
  have "map byte (replace_char a b s) = map f (map byte s)"
    by (simp add: replace_char_def byte_eq_iff f_def)
  moreover have "utf8_valid (map f (map byte s))
      \<and> set (utf8_chars (map f (map byte s))) \<subseteq> insert (byte b) (set (utf8_chars (map byte s)))"
    using assms by (intro utf8_chars_map) (auto simp: f_def is_utf8_def)
  ultimately show ?thesis
    by (simp add: is_utf8_def chars_def)
qed

end
