(* ===== verification/CoreModel.thy ===== *)
theory CoreModel
  imports RustStd
begin

section \<open>Core data model: cells, images, guest operations, jobs, ownership\<close>

text \<open>
  The durable and in-memory records of \<open>src/core/\<close>: \<open>cell.rs\<close>, \<open>image.rs\<close>, \<open>guest.rs\<close>,
  \<open>job.rs\<close>, \<open>ownership.rs\<close>, \<open>capability.rs\<close> and \<open>automation.rs\<close>, with their constructors and
  validators.  The \<open>uuid\<close> and \<open>sha2\<close> crates are parameters (\<open>crates\<close>);
  \<open>uuid_laws\<close> states the documented behaviour the program relies on: rendering is the canonical
  lower-case hyphenated form and parsing inverts it.  \<open>sha256_hex\<close> is the lower-case hexadecimal
  digest of a byte string.  Timestamps (\<open>chrono::DateTime<Utc>\<close>) are integers counting nanoseconds.
\<close>

subsection \<open>The external crates\<close>

record crates =
  uuid_to_string :: "uuid \<Rightarrow> string"
  uuid_parse_str :: "string \<Rightarrow> uuid option"
  sha256_hex :: "string \<Rightarrow> string"

definition uuid_char :: "char \<Rightarrow> bool" where
  "uuid_char c \<longleftrightarrow> is_ascii_digit c \<or> (97 \<le> byte c \<and> byte c \<le> 102) \<or> c = CHR ''-''"

definition uuid_laws :: "crates \<Rightarrow> bool" where
  "uuid_laws X \<longleftrightarrow>
     (\<forall>u. uuid_parse_str X (uuid_to_string X u) = Some u) \<and>
     (\<forall>u. length (uuid_to_string X u) = 36) \<and>
     (\<forall>u. list_all uuid_char (uuid_to_string X u))"

subsection \<open>automation.rs and capability.rs\<close>

definition AUTOMATION_SCHEMA_VERSION :: u32 where
  "AUTOMATION_SCHEMA_VERSION = 1"

datatype ownership_classification =
  Own_Proven | Own_PhaseProven | Own_Unproven | Own_Mismatch | Own_NotApplicable

datatype required_action =
  Act_None | Act_RetryLifecycle | Act_RecoveryRequired | Act_ManualReview

record provider_capabilities =
  cap_schema_version :: u32
  cap_full_system_vm :: bool
  cap_cow_overlay :: bool
  cap_hardware_acceleration :: bool
  cap_accelerators :: "string list"
  cap_guest_os :: "string list"
  cap_guest_arch :: "string list"
  cap_guest_transports :: "string list"
  cap_networkless_guest_exec :: bool

definition capabilities_unavailable :: provider_capabilities where
  "capabilities_unavailable =
     \<lparr>cap_schema_version = AUTOMATION_SCHEMA_VERSION, cap_full_system_vm = False,
      cap_cow_overlay = False, cap_hardware_acceleration = False, cap_accelerators = [],
      cap_guest_os = [], cap_guest_arch = [], cap_guest_transports = [],
      cap_networkless_guest_exec = False\<rparr>"

subsection \<open>image.rs\<close>

definition IMAGE_SCHEMA_VERSION :: u32 where
  "IMAGE_SCHEMA_VERSION = 1"

datatype image_id = ImageId (image_str: string)

datatype image_id_error = ImageIdError string

definition image_id_byte :: "char \<Rightarrow> bool" where
  "image_id_byte c \<longleftrightarrow>
     is_ascii_alphanumeric c \<or> c = CHR ''-'' \<or> c = CHR ''_'' \<or> c = CHR ''.''"

definition image_id_parse :: "string \<Rightarrow> image_id_error + image_id" where
  "image_id_parse v =
     (let valid_length = v \<noteq> [] \<and> length v \<le> 128;
          valid_characters = list_all image_id_byte v
      in if \<not> valid_length \<or> \<not> valid_characters \<or> v = ''.'' \<or> v = ''..''
         then Inl (ImageIdError v) else Inr (ImageId v))"

datatype guest_os = Os_Windows | Os_Linux | Os_Macos

datatype architecture = X86_64 | Aarch64

record image_variant =
  var_provider :: string
  var_disk_format :: string
  var_path :: path
  var_sha256 :: string
  var_file_size :: u64

record image_record =
  img_schema_version :: u32
  img_id :: image_id
  img_guest_os :: guest_os
  img_guest_arch :: architecture
  img_variants :: "image_variant list"
  img_registered_at :: time

record image_binding =
  bnd_image_id :: image_id
  bnd_guest_os :: "guest_os option"
  bnd_provider :: string
  bnd_disk_format :: string
  bnd_path :: path
  bnd_sha256 :: string
  bnd_file_size :: u64

definition binding_from_variant :: "image_id \<Rightarrow> guest_os \<Rightarrow> image_variant \<Rightarrow> image_binding" where
  "binding_from_variant i os v =
     \<lparr>bnd_image_id = i, bnd_guest_os = Some os, bnd_provider = var_provider v,
      bnd_disk_format = var_disk_format v, bnd_path = var_path v, bnd_sha256 = var_sha256 v,
      bnd_file_size = var_file_size v\<rparr>"

subsection \<open>job.rs\<close>

datatype job_id = JobId (job_uuid: uuid)

datatype job_run_context_error = InvalidJobId | InvalidSpecDigest

record job_correlation =
  jc_job_id :: job_id
  jc_job_spec_sha256 :: string
  jc_started_at :: time

definition is_lowercase_sha256 :: "string \<Rightarrow> bool" where
  "is_lowercase_sha256 v \<longleftrightarrow>
     length v = 64 \<and> list_all (\<lambda>c. is_ascii_digit c \<or> (97 \<le> byte c \<and> byte c \<le> 102)) v"

definition job_correlation_new ::
  "job_id \<Rightarrow> string \<Rightarrow> time \<Rightarrow> job_run_context_error + job_correlation" where
  "job_correlation_new i sha t =
     (if job_uuid i = 0 then Inl InvalidJobId
      else if \<not> is_lowercase_sha256 sha then Inl InvalidSpecDigest
      else Inr \<lparr>jc_job_id = i, jc_job_spec_sha256 = sha, jc_started_at = t\<rparr>)"

definition has_valid_spec_digest :: "job_correlation \<Rightarrow> bool" where
  "has_valid_spec_digest c = is_lowercase_sha256 (jc_job_spec_sha256 c)"

record job_run_context =
  ctx_job_id :: job_id
  ctx_job_spec_sha256 :: string
  ctx_started_at :: time

text \<open>\<open>JobRunContext::new\<close>; the fresh identity \<open>JobId::new()\<close> is the argument \<open>i\<close>.\<close>

definition job_run_context_new ::
  "job_id \<Rightarrow> string \<Rightarrow> time \<Rightarrow> job_run_context_error + job_run_context" where
  "job_run_context_new i sha t =
     (if \<not> is_lowercase_sha256 sha then Inl InvalidSpecDigest
      else Inr \<lparr>ctx_job_id = i, ctx_job_spec_sha256 = sha, ctx_started_at = t\<rparr>)"

definition job_context_correlation :: "job_run_context \<Rightarrow> job_correlation" where
  "job_context_correlation c =
     \<lparr>jc_job_id = ctx_job_id c, jc_job_spec_sha256 = ctx_job_spec_sha256 c,
      jc_started_at = ctx_started_at c\<rparr>"

definition JOB_RESULT_SCHEMA_VERSION :: u32 where
  "JOB_RESULT_SCHEMA_VERSION = 1"

definition JOB_RESULT_CONTRACT :: string where
  "JOB_RESULT_CONTRACT = ''vmcell.job-result.v1''"

record job_result_metadata =
  jr_schema_version :: u32
  jr_contract :: string
  jr_job_id :: job_id
  jr_job_spec_sha256 :: string
  jr_started_at :: time
  jr_completed_at :: time
  jr_elapsed_milliseconds :: u64

definition job_result_metadata_at :: "job_run_context \<Rightarrow> time \<Rightarrow> job_result_metadata" where
  "job_result_metadata_at c now =
     (let completed = max now (ctx_started_at c);
          elapsed = max 0 ((completed - ctx_started_at c) div 1000000)
      in \<lparr>jr_schema_version = JOB_RESULT_SCHEMA_VERSION, jr_contract = JOB_RESULT_CONTRACT,
          jr_job_id = ctx_job_id c, jr_job_spec_sha256 = ctx_job_spec_sha256 c,
          jr_started_at = ctx_started_at c, jr_completed_at = completed,
          jr_elapsed_milliseconds = word_of_int elapsed\<rparr>)"

subsection \<open>cell.rs and ownership.rs\<close>

definition CELL_SCHEMA_VERSION :: u32 where "CELL_SCHEMA_VERSION = 1"
definition JOB_CORRELATED_CELL_SCHEMA_VERSION :: u32 where "JOB_CORRELATED_CELL_SCHEMA_VERSION = 2"
definition MAX_CELL_SCHEMA_VERSION :: u32 where
  "MAX_CELL_SCHEMA_VERSION = JOB_CORRELATED_CELL_SCHEMA_VERSION"
definition MIN_MEMORY_MIB :: u64 where "MIN_MEMORY_MIB = 512"
definition MAX_MEMORY_MIB :: u64 where "MAX_MEMORY_MIB = 1048576"
definition MAX_CPU_COUNT :: u16 where "MAX_CPU_COUNT = 64"
definition OWNERSHIP_MARKER_SCHEMA :: u32 where "OWNERSHIP_MARKER_SCHEMA = 1"

datatype cell_id = CellId (cell_uuid: uuid)

datatype cell_state =
  Cell_Creating | Cell_Stopped | Cell_Running | Cell_Destroying | Cell_Destroyed | Cell_Failed

datatype cell_phase =
  Phase_IntentRecorded | Phase_OverlayCreated | Phase_ProviderObjectCreated
| Phase_ProviderObjectClaimed | Phase_Ready | Phase_Destroying | Phase_DestroyingProvisioning
| Phase_Destroyed

record cell_spec =
  spec_image :: image_id
  spec_provider :: "string option"
  spec_cpu_count :: u16
  spec_memory_mib :: u64
  spec_ttl_seconds :: "u64 option"
  spec_accelerator :: "string option"
  spec_allow_tcg :: bool

record cell_ownership =
  own_schema_version :: u32
  own_install_id :: uuid
  own_operation_id :: uuid
  own_provider_object_name :: string
  own_provider_marker :: string
  own_configuration_path :: path
  own_overlay_path :: path

record provider_object_identity =
  poi_id :: string
  poi_name :: string

record cell_record =
  cell_schema_version :: u32
  cell_id :: cell_id
  cell_provider :: string
  cell_spec :: cell_spec
  cell_image :: image_binding
  cell_ownership :: cell_ownership
  cell_provider_object :: "provider_object_identity option"
  cell_state :: cell_state
  cell_phase :: cell_phase
  cell_created_at :: time
  cell_updated_at :: time
  cell_expires_at :: "time option"
  cell_last_error :: "string option"
  cell_job :: "job_correlation option"

definition cell_schema_version_for_job :: "job_correlation option \<Rightarrow> u32" where
  "cell_schema_version_for_job job =
     (case job of Some _ \<Rightarrow> JOB_CORRELATED_CELL_SCHEMA_VERSION | None \<Rightarrow> CELL_SCHEMA_VERSION)"

definition cell_object_name :: "crates \<Rightarrow> cell_id \<Rightarrow> string" where
  "cell_object_name X c = ''vmcell-'' @ uuid_to_string X (cell_uuid c)"

definition ownership_marker :: "crates \<Rightarrow> uuid \<Rightarrow> cell_id \<Rightarrow> uuid \<Rightarrow> string" where
  "ownership_marker X install c op =
     ''vmcell:v'' @ dec_digits (unat OWNERSHIP_MARKER_SCHEMA) @ '':'' @ uuid_to_string X install
     @ '':'' @ uuid_to_string X (cell_uuid c) @ '':'' @ uuid_to_string X op"

definition cell_ownership_new ::
  "crates \<Rightarrow> uuid \<Rightarrow> cell_id \<Rightarrow> uuid \<Rightarrow> path \<Rightarrow> path \<Rightarrow> cell_ownership" where
  "cell_ownership_new X install c op config overlay =
     \<lparr>own_schema_version = OWNERSHIP_MARKER_SCHEMA, own_install_id = install,
      own_operation_id = op, own_provider_object_name = cell_object_name X c,
      own_provider_marker = ownership_marker X install c op,
      own_configuration_path = config, own_overlay_path = overlay\<rparr>"

subsection \<open>guest.rs\<close>

definition GUEST_OPERATION_SCHEMA_VERSION :: u32 where "GUEST_OPERATION_SCHEMA_VERSION = 1"
definition JOB_CORRELATED_GUEST_OPERATION_SCHEMA_VERSION :: u32 where
  "JOB_CORRELATED_GUEST_OPERATION_SCHEMA_VERSION = 2"
definition MAX_GUEST_OPERATION_SCHEMA_VERSION :: u32 where
  "MAX_GUEST_OPERATION_SCHEMA_VERSION = JOB_CORRELATED_GUEST_OPERATION_SCHEMA_VERSION"
definition ARTIFACT_SCHEMA_VERSION :: u32 where "ARTIFACT_SCHEMA_VERSION = 1"
definition JOB_CORRELATED_ARTIFACT_SCHEMA_VERSION :: u32 where
  "JOB_CORRELATED_ARTIFACT_SCHEMA_VERSION = 2"
definition MAX_ARTIFACT_SCHEMA_VERSION :: u32 where
  "MAX_ARTIFACT_SCHEMA_VERSION = JOB_CORRELATED_ARTIFACT_SCHEMA_VERSION"
definition MAX_ARTIFACT_FILES :: nat where "MAX_ARTIFACT_FILES = 16"
definition MAX_ARTIFACT_FILE_BYTES :: u64 where "MAX_ARTIFACT_FILE_BYTES = 64 * 1024 * 1024"
definition MAX_ARTIFACT_TOTAL_BYTES :: u64 where "MAX_ARTIFACT_TOTAL_BYTES = 1024 * 1024 * 1024"

datatype guest_operation_id = GuestOperationId (op_uuid: uuid)

datatype guest_operation_kind = Kind_Exec | Kind_CopyIn | Kind_CopyOut | Kind_ArtifactCollect

datatype guest_operation_phase =
  Op_IntentRecorded | Op_TransportActive | Op_ArtifactCommitted | Op_Completed | Op_Failed

definition is_terminal :: "guest_operation_phase \<Rightarrow> bool" where
  "is_terminal p \<longleftrightarrow> p = Op_Completed \<or> p = Op_Failed"

datatype guest_failure_class =
  Fail_Interrupted | Fail_GuestNotReady | Fail_Authentication | Fail_Session | Fail_Timeout
| Fail_OutputLimit | Fail_InvalidEncoding | Fail_PathViolation | Fail_PartialCopy
| Fail_OwnershipChanged | Fail_Unknown

record guest_operation_record =
  op_schema_version :: u32
  op_id :: guest_operation_id
  op_cell_id :: cell_id
  op_kind :: guest_operation_kind
  op_phase :: guest_operation_phase
  op_created_at :: time
  op_updated_at :: time
  op_completed_at :: "time option"
  op_failure :: "guest_failure_class option"
  op_exit_code :: "i32 option"
  op_stdout_bytes :: "u64 option"
  op_stderr_bytes :: "u64 option"
  op_artifact_id :: "guest_operation_id option"
  op_artifact_pruned_at :: "time option"
  op_job_id :: "job_id option"

definition op_schema_version_for_job :: "job_id option \<Rightarrow> u32" where
  "op_schema_version_for_job job =
     (case job of Some _ \<Rightarrow> JOB_CORRELATED_GUEST_OPERATION_SCHEMA_VERSION
      | None \<Rightarrow> GUEST_OPERATION_SCHEMA_VERSION)"

text \<open>\<open>GuestOperationRecord::intent_with_job\<close>; the fresh \<open>GuestOperationId::new()\<close> is the first argument.\<close>

definition intent_with_job ::
  "guest_operation_id \<Rightarrow> cell_id \<Rightarrow> guest_operation_kind \<Rightarrow> time \<Rightarrow> job_id option
    \<Rightarrow> guest_operation_record" where
  "intent_with_job i c k now job =
     \<lparr>op_schema_version = op_schema_version_for_job job, op_id = i, op_cell_id = c, op_kind = k,
      op_phase = Op_IntentRecorded, op_created_at = now, op_updated_at = now,
      op_completed_at = None, op_failure = None, op_exit_code = None, op_stdout_bytes = None,
      op_stderr_bytes = None, op_artifact_id = None, op_artifact_pruned_at = None,
      op_job_id = job\<rparr>"

record artifact_entry =
  ent_guest_path :: string
  ent_host_relative_path :: string
  ent_sha256 :: string
  ent_size :: u64

record artifact_record =
  art_schema_version :: u32
  art_id :: guest_operation_id
  art_cell_id :: cell_id
  art_created_at :: time
  art_entries :: "artifact_entry list"
  art_job_id :: "job_id option"

definition artifact_schema_version_for_job :: "job_id option \<Rightarrow> u32" where
  "artifact_schema_version_for_job job =
     (case job of Some _ \<Rightarrow> JOB_CORRELATED_ARTIFACT_SCHEMA_VERSION
      | None \<Rightarrow> ARTIFACT_SCHEMA_VERSION)"

subsection \<open>The canonical rendering of a uuid\<close>

text \<open>A concrete \<open>crates\<close>: lower-case hexadecimal digits with hyphens after the 8th, 12th, 16th
  and 20th; parsing accepts exactly the canonical form.  It shows that \<open>uuid_laws\<close> can hold and
  serves the evaluation of concrete examples; its digest is a placeholder of the right shape.\<close>

definition hex_digit :: "nat \<Rightarrow> char" where
  "hex_digit n = (if n < 10 then char_of (48 + n) else char_of (87 + n))"

definition hex_val :: "char \<Rightarrow> nat" where
  "hex_val c = (if byte c < 58 then byte c - 48 else byte c - 87)"

fun hex_digits :: "nat \<Rightarrow> nat \<Rightarrow> string" where
  "hex_digits 0 n = []"
| "hex_digits (Suc k) n = hex_digits k (n div 16) @ [hex_digit (n mod 16)]"

definition hyphenate :: "string \<Rightarrow> string" where
  "hyphenate h =
     take 8 h @ ''-'' @ take 4 (drop 8 h) @ ''-'' @ take 4 (drop 12 h) @ ''-''
     @ take 4 (drop 16 h) @ ''-'' @ drop 20 h"

definition canonical_uuid :: "uuid \<Rightarrow> string" where
  "canonical_uuid u = hyphenate (hex_digits 32 (unat u))"

definition canonical_crates :: crates where
  "canonical_crates =
     \<lparr>uuid_to_string = canonical_uuid,
      uuid_parse_str = (\<lambda>s.
        let u = word_of_nat (foldl (\<lambda>a c. a * 16 + hex_val c) 0 (filter (\<lambda>c. c \<noteq> CHR ''-'') s))
        in if canonical_uuid u = s then Some u else None),
      sha256_hex = (\<lambda>bs. hex_digits 64 (length bs))\<rparr>"

subsection \<open>Lemmas\<close>

lemmas cell_schema_defs =
  CELL_SCHEMA_VERSION_def JOB_CORRELATED_CELL_SCHEMA_VERSION_def MAX_CELL_SCHEMA_VERSION_def
  OWNERSHIP_MARKER_SCHEMA_def

lemmas op_schema_defs =
  GUEST_OPERATION_SCHEMA_VERSION_def JOB_CORRELATED_GUEST_OPERATION_SCHEMA_VERSION_def
  MAX_GUEST_OPERATION_SCHEMA_VERSION_def

lemmas artifact_schema_defs =
  ARTIFACT_SCHEMA_VERSION_def JOB_CORRELATED_ARTIFACT_SCHEMA_VERSION_def
  MAX_ARTIFACT_SCHEMA_VERSION_def

lemma uuid_laws_parse: "uuid_laws X \<Longrightarrow> uuid_parse_str X (uuid_to_string X u) = Some u"
  by (simp add: uuid_laws_def)

lemma uuid_laws_inj: "uuid_laws X \<Longrightarrow> uuid_to_string X u = uuid_to_string X v \<longleftrightarrow> u = v"
  by (metis option.inject uuid_laws_parse)

lemma uuid_laws_length: "uuid_laws X \<Longrightarrow> length (uuid_to_string X u) = 36"
  by (simp add: uuid_laws_def)

lemma uuid_laws_chars: "uuid_laws X \<Longrightarrow> c \<in> set (uuid_to_string X u) \<Longrightarrow> uuid_char c"
  by (simp add: uuid_laws_def list_all_iff)

lemma uuid_char_exclusions [simp]:
  "\<not> uuid_char CHR '':''" "\<not> uuid_char CHR ''/''" "\<not> uuid_char CHR ''.''"
  by (simp_all add: uuid_char_def is_ascii_digit_def byte_def)

lemma uuid_not_in [simp]:
  assumes "uuid_laws X"
  shows "CHR '':'' \<notin> set (uuid_to_string X u)" "CHR ''/'' \<notin> set (uuid_to_string X u)"
    "CHR ''.'' \<notin> set (uuid_to_string X u)"
  using assms uuid_laws_chars by fastforce+

lemma hex_digit_val [simp]: "n < 16 \<Longrightarrow> hex_val (hex_digit n) = n"
  by (simp add: hex_val_def hex_digit_def byte_def)

lemma hex_digit_char: "n < 16 \<Longrightarrow> uuid_char (hex_digit n) \<and> hex_digit n \<noteq> CHR ''-''"
  by (auto simp: uuid_char_def is_ascii_digit_def hex_digit_def byte_def
      dest: arg_cong [of _ _ "of_char :: char \<Rightarrow> nat"])

lemma hex_digits_chars: "c \<in> set (hex_digits k n) \<Longrightarrow> uuid_char c \<and> c \<noteq> CHR ''-''"
  by (induction k n rule: hex_digits.induct) (auto simp: hex_digit_char)

lemma length_hex_digits [simp]: "length (hex_digits k n) = k"
  by (induction k n rule: hex_digits.induct) auto

lemma hex_digits_value:
  "n < 16 ^ k \<Longrightarrow> foldl (\<lambda>a c. a * 16 + hex_val c) 0 (hex_digits k n) = n"
  by (induction k n rule: hex_digits.induct) (auto simp: less_mult_imp_div_less mult.commute)

lemma set_hyphenate: "c \<in> set (hyphenate h) \<Longrightarrow> c = CHR ''-'' \<or> c \<in> set h"
  by (auto simp: hyphenate_def dest: in_set_takeD in_set_dropD)

lemma filter_hyphenate:
  assumes "\<forall>c \<in> set h. c \<noteq> CHR ''-''"
  shows "filter (\<lambda>c. c \<noteq> CHR ''-'') (hyphenate h) = h"
proof -
  have keep: "filter (\<lambda>c. c \<noteq> CHR ''-'') (take i (drop j h)) = take i (drop j h)" for i j
    using assms by (auto intro!: filter_True dest: in_set_takeD in_set_dropD)
  have "filter (\<lambda>c. c \<noteq> CHR ''-'') (hyphenate h) =
      take 8 h @ take 4 (drop 8 h) @ take 4 (drop 12 h) @ take 4 (drop 16 h) @ drop 20 h"
    using keep [of 8 0] keep [of 4 8] keep [of 4 12] keep [of 4 16] keep [of "length h" 20]
    by (simp add: hyphenate_def)
  also have "\<dots> = h"
    using append_take_drop_id [of 4 "drop 16 h"] append_take_drop_id [of 4 "drop 12 h"]
      append_take_drop_id [of 4 "drop 8 h"] append_take_drop_id [of 8 h]
    by simp
  finally show ?thesis .
qed

lemma canonical_uuid_laws: "uuid_laws canonical_crates"
proof -
  have "filter (\<lambda>c. c \<noteq> CHR ''-'') (canonical_uuid u) = hex_digits 32 (unat u)" for u
    unfolding canonical_uuid_def by (rule filter_hyphenate) (use hex_digits_chars in blast)
  moreover have "foldl (\<lambda>a c. a * 16 + hex_val c) 0 (hex_digits 32 (unat u)) = unat u" for u :: uuid
    using unsigned_less [of u] by (intro hex_digits_value) simp
  moreover have "length (canonical_uuid u) = 36" for u
    by (simp add: canonical_uuid_def hyphenate_def)
  moreover have "list_all uuid_char (canonical_uuid u)" for u
    using set_hyphenate hex_digits_chars unfolding list_all_iff canonical_uuid_def
    by (metis uuid_char_def)
  ultimately show ?thesis
    by (simp add: uuid_laws_def canonical_crates_def)
qed

lemma ownership_marker_inj:
  assumes "uuid_laws X" and "ownership_marker X i c op = ownership_marker X i' c' op'"
  shows "i = i' \<and> c = c' \<and> op = op'"
proof -
  have len: "length (uuid_to_string X u) = length (uuid_to_string X v)" for u v
    using assms(1) by (simp add: uuid_laws_length)
  from assms(2) have "uuid_to_string X i = uuid_to_string X i'
      \<and> uuid_to_string X (cell_uuid c) = uuid_to_string X (cell_uuid c')
      \<and> uuid_to_string X op = uuid_to_string X op'"
    by (simp add: ownership_marker_def len append_eq_append_conv)
  then show ?thesis
    using assms(1) by (simp add: uuid_laws_inj cell_id.expand)
qed

text \<open>
  The ownership marker binds the installation, the cell and the create operation: two
  markers written by \<open>CellOwnership::new\<close> are equal only if all three identities are.
\<close>

theorem ownership_marker_binds:
  assumes "uuid_laws X"
    and "own_provider_marker (cell_ownership_new X i c op p q)
       = own_provider_marker (cell_ownership_new X i' c' op' p' q')"
  shows "i = i' \<and> c = c' \<and> op = op'"
  using assms(2) ownership_marker_inj [OF assms(1)] by (simp add: cell_ownership_new_def)

theorem ownership_marker_binds_witness:
  "own_provider_marker (cell_ownership_new canonical_crates 1 (CellId 2) 3 ''/c'' ''/o'')
     = own_provider_marker (cell_ownership_new canonical_crates 1 (CellId 2) 3 ''/d'' ''/p'')
   \<and> own_provider_marker (cell_ownership_new canonical_crates 1 (CellId 2) 3 ''/c'' ''/o'')
     \<noteq> own_provider_marker (cell_ownership_new canonical_crates 1 (CellId 2) 4 ''/c'' ''/o'')"
  using ownership_marker_binds [OF canonical_uuid_laws, of 1 "CellId 2" 3 "''/c''" "''/o''" 1
      "CellId 2" 4 "''/c''" "''/o''"]
  by (auto simp: cell_ownership_new_def)

text \<open>
  An accepted image id is a single safe path component: no separator, not a dot segment,
  and the manifest file name derived from it is one normal component of bounded length.
\<close>

theorem image_id_parse_safe:
  assumes "image_id_parse v = Inr i"
  shows "image_str i = v \<and> components v = [Normal v]
    \<and> components (v @ ''.json'') = [Normal (v @ ''.json'')] \<and> length v \<le> 128"
proof -
  from assms have ok: "v \<noteq> []" "length v \<le> 128" "list_all image_id_byte v" "v \<noteq> ''.''" "v \<noteq> ''..''"
    and i: "i = ImageId v"
    by (auto simp: image_id_parse_def Let_def split: if_splits)
  have "\<not> image_id_byte CHR ''/''"
    by (simp add: image_id_byte_def is_ascii_alphanumeric_def is_ascii_digit_def
        is_ascii_lowercase_def is_ascii_uppercase_def byte_def)
  with ok(3) have slash: "CHR ''/'' \<notin> set v"
    by (auto simp: list_all_iff)
  moreover from ok(1) have "v @ ''.json'' \<noteq> ''.''" "v @ ''.json'' \<noteq> ''..''"
    by (cases v; simp)+
  ultimately show ?thesis
    using ok i by (auto intro!: components_simple)
qed

theorem image_id_parse_safe_witness:
  "image_id_parse ''windows-11.v2'' = Inr (ImageId ''windows-11.v2'')
   \<and> components ''windows-11.v2'' = [Normal ''windows-11.v2'']"
proof -
  have "image_id_parse ''windows-11.v2'' = Inr (ImageId ''windows-11.v2'')"
    by code_simp
  with image_id_parse_safe [OF this] show ?thesis by simp
qed

end
