(* ===== verification/Support.thy ===== *)
theory Support
  imports CoreModel "HOL-Library.Product_Lexorder"
begin

section \<open>The platform support matrix\<close>

text \<open>
  \<open>core/support.rs\<close>: the vocabularies of hosts, providers, accelerators, transports and
  statuses, the declared \<open>SUPPORT_MATRIX\<close>, its validation, lookup and rendering.  A rank maps
  every key to a tuple compared lexicographically; the locale \<open>ranked_table\<close> gives what a
  strictly rank-sorted table promises a client that looks keys up.  A lookup of a file's
  metadata is the argument \<open>metadata\<close> (\<open>None\<close> for any error of \<open>symlink_metadata\<close>).
\<close>

type_synonym u8 = "8 word"

definition SUPPORT_MATRIX_SCHEMA_VERSION :: u32 where
  "SUPPORT_MATRIX_SCHEMA_VERSION = 1"

datatype host_os = Host_Windows | Host_Linux | Host_Macos

fun host_os_as_str :: "host_os \<Rightarrow> string" where
  "host_os_as_str Host_Windows = ''windows''"
| "host_os_as_str Host_Linux = ''linux''"
| "host_os_as_str Host_Macos = ''macos''"

datatype provider_id = Prov_Hyperv | Prov_Qemu

fun provider_as_str :: "provider_id \<Rightarrow> string" where
  "provider_as_str Prov_Hyperv = ''hyperv''"
| "provider_as_str Prov_Qemu = ''qemu''"

datatype accelerator = Acc_HyperV | Acc_Whpx | Acc_Kvm | Acc_Hvf | Acc_Tcg

fun accelerator_as_str :: "accelerator \<Rightarrow> string" where
  "accelerator_as_str Acc_HyperV = ''hyper-v''"
| "accelerator_as_str Acc_Whpx = ''whpx''"
| "accelerator_as_str Acc_Kvm = ''kvm''"
| "accelerator_as_str Acc_Hvf = ''hvf''"
| "accelerator_as_str Acc_Tcg = ''tcg''"

definition is_hardware :: "accelerator \<Rightarrow> bool" where
  "is_hardware a \<longleftrightarrow> a \<noteq> Acc_Tcg"

datatype guest_transport_id = Tr_PowerShellDirect | Tr_Qga | Tr_Ssh

fun transport_as_str :: "guest_transport_id \<Rightarrow> string" where
  "transport_as_str Tr_PowerShellDirect = ''powershell-direct''"
| "transport_as_str Tr_Qga = ''qga''"
| "transport_as_str Tr_Ssh = ''ssh''"

datatype support_status =
  Sup_Supported | Sup_Experimental | Sup_DevelopmentOnly | Sup_Untested | Sup_Unsupported

fun status_as_str :: "support_status \<Rightarrow> string" where
  "status_as_str Sup_Supported = ''supported''"
| "status_as_str Sup_Experimental = ''experimental''"
| "status_as_str Sup_DevelopmentOnly = ''development-only''"
| "status_as_str Sup_Untested = ''untested''"
| "status_as_str Sup_Unsupported = ''unsupported''"

definition requires_real_platform_evidence :: "support_status \<Rightarrow> bool" where
  "requires_real_platform_evidence s \<longleftrightarrow> s = Sup_Supported \<or> s = Sup_Experimental"

datatype acceptance_scope = Scope_RepositoryLocal | Scope_RealPlatform

fun scope_as_str :: "acceptance_scope \<Rightarrow> string" where
  "scope_as_str Scope_RepositoryLocal = ''repository-local''"
| "scope_as_str Scope_RealPlatform = ''real-platform''"

record acceptance_evidence =
  ev_scope :: acceptance_scope
  ev_reference :: string

record support_key =
  k_host_os :: host_os
  k_host_architecture :: architecture
  k_provider :: provider_id
  k_accelerator :: accelerator
  k_guest_os :: guest_os
  k_guest_architecture :: architecture
  k_guest_transport :: guest_transport_id

record support_matrix_entry =
  sm_key :: support_key
  sm_status :: support_status
  sm_acceptance_evidence :: "acceptance_evidence list"

definition NO_EVIDENCE :: "acceptance_evidence list" where
  "NO_EVIDENCE = []"

definition sm_row ::
  "host_os \<Rightarrow> architecture \<Rightarrow> provider_id \<Rightarrow> accelerator \<Rightarrow> guest_os \<Rightarrow> architecture
    \<Rightarrow> guest_transport_id \<Rightarrow> support_status \<Rightarrow> support_matrix_entry" where
  "sm_row h ha p a g ga t s =
     \<lparr>sm_key = \<lparr>k_host_os = h, k_host_architecture = ha, k_provider = p, k_accelerator = a,
        k_guest_os = g, k_guest_architecture = ga, k_guest_transport = t\<rparr>,
      sm_status = s, sm_acceptance_evidence = NO_EVIDENCE\<rparr>"

definition SUPPORT_MATRIX :: "support_matrix_entry list" where
  "SUPPORT_MATRIX =
    [sm_row Host_Windows X86_64 Prov_Hyperv Acc_HyperV Os_Windows X86_64 Tr_PowerShellDirect Sup_Untested,
     sm_row Host_Windows X86_64 Prov_Hyperv Acc_Whpx Os_Windows X86_64 Tr_PowerShellDirect Sup_Unsupported,
     sm_row Host_Windows X86_64 Prov_Qemu Acc_Whpx Os_Windows X86_64 Tr_Qga Sup_Unsupported,
     sm_row Host_Windows X86_64 Prov_Qemu Acc_Whpx Os_Linux X86_64 Tr_Qga Sup_Untested,
     sm_row Host_Windows X86_64 Prov_Qemu Acc_Whpx Os_Linux X86_64 Tr_Ssh Sup_Unsupported,
     sm_row Host_Windows X86_64 Prov_Qemu Acc_Tcg Os_Linux X86_64 Tr_Qga Sup_DevelopmentOnly,
     sm_row Host_Linux X86_64 Prov_Qemu Acc_Kvm Os_Windows X86_64 Tr_Qga Sup_Unsupported,
     sm_row Host_Linux X86_64 Prov_Qemu Acc_Kvm Os_Linux X86_64 Tr_Qga Sup_Untested,
     sm_row Host_Linux X86_64 Prov_Qemu Acc_Kvm Os_Linux X86_64 Tr_Ssh Sup_Unsupported,
     sm_row Host_Linux X86_64 Prov_Qemu Acc_Tcg Os_Linux X86_64 Tr_Qga Sup_DevelopmentOnly]"

datatype support_matrix_error =
  SM_Empty
| DuplicateKey support_key
| NonCanonicalOrder support_key
| ImpossibleCombination support_key
| MissingRealPlatformEvidence support_key
| InvalidEvidenceReference string
| MissingEvidenceFile string

datatype support_lookup_error = UndocumentedCombination

subsection \<open>Ranks\<close>

fun host_os_rank :: "host_os \<Rightarrow> u8" where
  "host_os_rank Host_Windows = 0" | "host_os_rank Host_Linux = 1" | "host_os_rank Host_Macos = 2"

fun architecture_rank :: "architecture \<Rightarrow> u8" where
  "architecture_rank X86_64 = 0" | "architecture_rank Aarch64 = 1"

fun provider_rank :: "provider_id \<Rightarrow> u8" where
  "provider_rank Prov_Hyperv = 0" | "provider_rank Prov_Qemu = 1"

fun accelerator_rank :: "accelerator \<Rightarrow> u8" where
  "accelerator_rank Acc_HyperV = 0" | "accelerator_rank Acc_Whpx = 1"
| "accelerator_rank Acc_Kvm = 2" | "accelerator_rank Acc_Hvf = 3" | "accelerator_rank Acc_Tcg = 4"

fun guest_os_rank :: "guest_os \<Rightarrow> u8" where
  "guest_os_rank Os_Windows = 0" | "guest_os_rank Os_Linux = 1" | "guest_os_rank Os_Macos = 2"

fun guest_transport_rank :: "guest_transport_id \<Rightarrow> u8" where
  "guest_transport_rank Tr_PowerShellDirect = 0" | "guest_transport_rank Tr_Qga = 1"
| "guest_transport_rank Tr_Ssh = 2"

type_synonym rank = "u8 \<times> u8 \<times> u8 \<times> u8 \<times> u8 \<times> u8 \<times> u8"

definition support_key_rank :: "support_key \<Rightarrow> rank" where
  "support_key_rank k =
     (host_os_rank (k_host_os k), architecture_rank (k_host_architecture k),
      provider_rank (k_provider k), accelerator_rank (k_accelerator k),
      guest_os_rank (k_guest_os k), architecture_rank (k_guest_architecture k),
      guest_transport_rank (k_guest_transport k))"

subsection \<open>Validation\<close>

definition combination_is_possible :: "support_key \<Rightarrow> bool" where
  "combination_is_possible k =
     (let provider_accelerator = (case k_provider k of
            Prov_Hyperv \<Rightarrow> k_host_os k = Host_Windows \<and> k_accelerator k = Acc_HyperV
          | Prov_Qemu \<Rightarrow> (case k_accelerator k of
                Acc_HyperV \<Rightarrow> False
              | Acc_Whpx \<Rightarrow> k_host_os k = Host_Windows
              | Acc_Kvm \<Rightarrow> k_host_os k = Host_Linux
              | Acc_Hvf \<Rightarrow> k_host_os k = Host_Macos
              | Acc_Tcg \<Rightarrow> True));
          architecture = (\<not> is_hardware (k_accelerator k)
            \<or> k_host_architecture k = k_guest_architecture k);
          transport = (case (k_provider k, k_guest_os k, k_guest_transport k) of
            (Prov_Hyperv, Os_Windows, Tr_PowerShellDirect) \<Rightarrow> True
          | (Prov_Qemu, Os_Linux, Tr_Qga) \<Rightarrow> True
          | _ \<Rightarrow> False)
      in provider_accelerator \<and> architecture \<and> transport)"

definition is_normal :: "component \<Rightarrow> bool" where
  "is_normal c = (case c of Normal _ \<Rightarrow> True | _ \<Rightarrow> False)"

definition validate_evidence_reference :: "acceptance_evidence \<Rightarrow> support_matrix_error + unit" where
  "validate_evidence_reference ev =
     (let reference = ev_reference ev;
          safe_components = (\<not> is_absolute reference \<and> list_all is_normal (components reference));
          receipt_path = (ev_scope ev \<noteq> Scope_RealPlatform
            \<or> starts_with reference ''docs/receipts/'' \<and> ends_with reference ''.md'')
      in if reference = [] \<or> \<not> safe_components \<or> \<not> receipt_path
         then Inl (InvalidEvidenceReference reference) else Inr ())"

text \<open>The body of the validation loop after the two order checks, and the loop itself; its
  state is the set of ranks seen and the previous rank.\<close>

definition validate_row :: "support_matrix_entry \<Rightarrow> support_matrix_error + unit" where
  "validate_row entry =
     res_bind (ensure (combination_is_possible (sm_key entry) \<or> sm_status entry = Sup_Unsupported)
                 (ImpossibleCombination (sm_key entry)))
     (\<lambda>_. res_bind (res_for (sm_acceptance_evidence entry) validate_evidence_reference)
     (\<lambda>_. ensure (\<not> (requires_real_platform_evidence (sm_status entry)
              \<and> \<not> list_ex (\<lambda>ev. ev_scope ev = Scope_RealPlatform) (sm_acceptance_evidence entry)))
            (MissingRealPlatformEvidence (sm_key entry))))"

fun validate_rows ::
  "rank set \<Rightarrow> rank option \<Rightarrow> support_matrix_entry list \<Rightarrow> support_matrix_error + unit" where
  "validate_rows keys previous [] = Inr ()"
| "validate_rows keys previous (entry # rest) =
     (let rank = support_key_rank (sm_key entry)
      in if (case previous of None \<Rightarrow> False | Some p \<Rightarrow> rank \<le> p) then
           (if rank \<in> keys then Inl (DuplicateKey (sm_key entry))
            else Inl (NonCanonicalOrder (sm_key entry)))
         else if rank \<in> keys then Inl (DuplicateKey (sm_key entry))
         else (case validate_row entry of
             Inl e \<Rightarrow> Inl e
           | Inr _ \<Rightarrow> validate_rows (insert rank keys) (Some rank) rest))"

definition validate_support_matrix :: "support_matrix_entry list \<Rightarrow> support_matrix_error + unit" where
  "validate_support_matrix entries =
     (if entries = [] then Inl SM_Empty else validate_rows {} None entries)"

datatype file_kind = Fk_File | Fk_Directory | Fk_Symlink | Fk_Other

definition validate_support_matrix_evidence ::
  "(path \<Rightarrow> file_kind option) \<Rightarrow> support_matrix_entry list \<Rightarrow> path \<Rightarrow> support_matrix_error + unit" where
  "validate_support_matrix_evidence metadata entries root =
     res_bind (validate_support_matrix entries) (\<lambda>_.
       res_for (concat (map sm_acceptance_evidence entries)) (\<lambda>ev.
         case metadata (path_join root (ev_reference ev)) of
           None \<Rightarrow> Inl (MissingEvidenceFile (ev_reference ev))
         | Some k \<Rightarrow> ensure (k = Fk_File) (MissingEvidenceFile (ev_reference ev))))"

definition support_for :: "support_key \<Rightarrow> support_lookup_error + support_matrix_entry" where
  "support_for key =
     ok_or (find (\<lambda>entry. sm_key entry = key) SUPPORT_MATRIX) UndocumentedCombination"

subsection \<open>Rendering\<close>

fun architecture_name :: "architecture \<Rightarrow> string" where
  "architecture_name X86_64 = ''x86_64''" | "architecture_name Aarch64 = ''aarch64''"

fun guest_os_name :: "guest_os \<Rightarrow> string" where
  "guest_os_name Os_Windows = ''windows''" | "guest_os_name Os_Linux = ''linux''"
| "guest_os_name Os_Macos = ''macos''"

definition status_definitions :: "(support_status \<times> string) list" where
  "status_definitions =
    [(Sup_Supported, ''Accepted for the named release by declared real-platform evidence.''),
     (Sup_Experimental, ''Real-platform evidence exists, but the path is not a release guarantee.''),
     (Sup_DevelopmentOnly, ''Repository, mock, fake-protocol, or WSL2 evidence only; not real-platform acceptance.''),
     (Sup_Untested, ''The path is intended, but its required real-platform acceptance is absent.''),
     (Sup_Unsupported, ''The combination is rejected or not implemented and must not be selected.'')]"

definition backtick :: string where
  "backtick = [CHR 0x60]"

definition evidence_cell :: "acceptance_evidence list \<Rightarrow> string" where
  "evidence_cell evs =
     (if evs = [] then ''none''
      else join_with ''<br>'' (map (\<lambda>ev. scope_as_str (ev_scope ev) @ '': '' @ backtick
             @ ev_reference ev @ backtick) evs))"

definition matrix_line :: "support_matrix_entry \<Rightarrow> string" where
  "matrix_line entry =
     (let k = sm_key entry in
      ''| '' @ join_with '' | ''
        [host_os_as_str (k_host_os k), architecture_name (k_host_architecture k),
         provider_as_str (k_provider k), accelerator_as_str (k_accelerator k),
         guest_os_name (k_guest_os k), architecture_name (k_guest_architecture k),
         transport_as_str (k_guest_transport k),
         backtick @ status_as_str (sm_status entry) @ backtick,
         evidence_cell (sm_acceptance_evidence entry)] @ '' |'')"

text \<open>The lines that \<open>writeln!\<close> appends, each followed by a newline in the document.\<close>

definition support_matrix_lines :: "string list" where
  "support_matrix_lines =
    [''# Platform Support Matrix'', [],
     ''This document is rendered from the typed '' @ backtick @ ''SUPPORT_MATRIX'' @ backtick
       @ '' in '' @ backtick @ ''src/core/support.rs'' @ backtick @ ''.'',
     ''Repository-local tests validate the source and require this file to match it byte for byte.'',
     [], ''## Status vocabulary'', [], ''| Status | Meaning |'', ''|---|---|'']
    @ map (\<lambda>(status, meaning). ''| '' @ backtick @ status_as_str status @ backtick @ '' | ''
             @ meaning @ '' |'') status_definitions
    @ [[], ''## Declared combinations'', [],
       ''| Host OS | Host architecture | Provider | Accelerator | Guest OS | Guest architecture | Guest transport | Status | Acceptance evidence |'',
       ''|---|---|---|---|---|---|---|---|---|'']
    @ map matrix_line SUPPORT_MATRIX
    @ [[], ''An absent combination is undocumented and must fail closed; it never inherits support from a similar row.'',
       ''No current row is '' @ backtick @ ''supported'' @ backtick @ '' or '' @ backtick
         @ ''experimental'' @ backtick @ ''. Repository CI, mocks, fake protocols, and WSL2 development evidence cannot promote a row; those statuses require declared real-platform acceptance evidence.'']"

definition render_support_matrix_markdown :: string where
  "render_support_matrix_markdown = concat (map (\<lambda>l. l @ [CHR 0x0A]) support_matrix_lines)"

subsection \<open>Tables sorted by an injective rank\<close>

locale ranked_table =
  fixes key_of :: "'e \<Rightarrow> 'k" and rank_of :: "'k \<Rightarrow> 'r::linorder"
  assumes rank_inj: "rank_of k = rank_of k' \<Longrightarrow> k = k'"
begin

lemma sorted_rows_distinct:
  "sorted_wrt (<) (map (\<lambda>e. rank_of (key_of e)) es) \<Longrightarrow> distinct (map key_of es)"
  by (induction es) (auto simp: sorted_wrt_map)

lemma sorted_rows_lookup:
  assumes "sorted_wrt (<) (map (\<lambda>e. rank_of (key_of e)) es)"
  shows "find (\<lambda>x. key_of x = k) es = Some e \<longleftrightarrow> e \<in> set es \<and> key_of e = k"
proof -
  have "distinct (map key_of es) \<Longrightarrow>
      find (\<lambda>x. key_of x = k) es = Some e \<longleftrightarrow> e \<in> set es \<and> key_of e = k"
    by (induction es) auto
  with assms show ?thesis by (simp add: sorted_rows_distinct)
qed

lemma rank_eq_iff: "rank_of k = rank_of k' \<longleftrightarrow> k = k'"
  using rank_inj by blast

end

lemma rank_inj_components:
  "host_os_rank a = host_os_rank b \<longleftrightarrow> a = b"
  "architecture_rank c = architecture_rank d \<longleftrightarrow> c = d"
  "provider_rank e = provider_rank f \<longleftrightarrow> e = f"
  "accelerator_rank g = accelerator_rank h \<longleftrightarrow> g = h"
  "guest_os_rank i = guest_os_rank j \<longleftrightarrow> i = j"
  "guest_transport_rank k = guest_transport_rank l \<longleftrightarrow> k = l"
  by ((cases a; cases b; simp), (cases c; cases d; simp), (cases e; cases f; simp),
      (cases g; cases h; simp), (cases i; cases j; simp), (cases k; cases l; simp))

interpretation sm: ranked_table sm_key support_key_rank
  by unfold_locales (simp add: support_key_rank_def rank_inj_components)

subsection \<open>What validation decides\<close>

definition evidence_ok :: "acceptance_evidence \<Rightarrow> bool" where
  "evidence_ok ev \<longleftrightarrow>
     ev_reference ev \<noteq> [] \<and> \<not> is_absolute (ev_reference ev)
     \<and> list_all is_normal (components (ev_reference ev))
     \<and> (ev_scope ev = Scope_RealPlatform \<longrightarrow>
          starts_with (ev_reference ev) ''docs/receipts/'' \<and> ends_with (ev_reference ev) ''.md'')"

definition row_ok :: "support_matrix_entry \<Rightarrow> bool" where
  "row_ok e \<longleftrightarrow>
     (combination_is_possible (sm_key e) \<or> sm_status e = Sup_Unsupported)
     \<and> list_all evidence_ok (sm_acceptance_evidence e)
     \<and> (requires_real_platform_evidence (sm_status e) \<longrightarrow>
          list_ex (\<lambda>ev. ev_scope ev = Scope_RealPlatform) (sm_acceptance_evidence e))"

lemma validate_evidence_reference_ok: "validate_evidence_reference ev = Inr u \<longleftrightarrow> evidence_ok ev"
  by (auto simp: validate_evidence_reference_def evidence_ok_def Let_def)

lemma validate_row_ok: "validate_row e = Inr u \<longleftrightarrow> row_ok e"
  by (auto simp: validate_row_def row_ok_def res_for_ok_iff is_ok_iff list_all_iff
      validate_evidence_reference_ok)

abbreviation row_rank :: "support_matrix_entry \<Rightarrow> rank" where
  "row_rank e \<equiv> support_key_rank (sm_key e)"

text \<open>The loop invariant: the previous rank bounds every rank seen so far.\<close>

definition out_of_order :: "rank option \<Rightarrow> rank \<Rightarrow> bool" where
  "out_of_order prev r = (case prev of None \<Rightarrow> False | Some p \<Rightarrow> r \<le> p)"

definition seen_below :: "rank set \<Rightarrow> rank option \<Rightarrow> bool" where
  "seen_below keys prev \<longleftrightarrow> (case prev of None \<Rightarrow> keys = {} | Some p \<Rightarrow> p \<in> keys \<and> (\<forall>k \<in> keys. k \<le> p))"

lemma validate_rows_step:
  assumes "seen_below keys prev"
  shows "validate_rows keys prev (e # es) =
    (if out_of_order prev (row_rank e) then
       Inl (if row_rank e \<in> keys then DuplicateKey (sm_key e) else NonCanonicalOrder (sm_key e))
     else res_bind (validate_row e) (\<lambda>_. validate_rows (insert (row_rank e) keys) (Some (row_rank e)) es))"
proof -
  have "\<not> out_of_order prev (row_rank e) \<Longrightarrow> row_rank e \<notin> keys"
    using assms by (cases prev) (auto simp: seen_below_def out_of_order_def)
  then show ?thesis
    by (simp add: Let_def res_bind_def flip: out_of_order_def)
qed

lemma seen_below_step:
  "seen_below keys prev \<Longrightarrow> \<not> out_of_order prev (row_rank e)
    \<Longrightarrow> seen_below (insert (row_rank e) keys) (Some (row_rank e))"
  unfolding seen_below_def out_of_order_def
  by (cases prev) (simp, simp, meson linorder_le_cases order_trans)

lemma validate_rows_ok:
  "seen_below keys prev \<Longrightarrow> validate_rows keys prev es = Inr u \<longleftrightarrow>
     sorted_wrt (<) (map row_rank es) \<and> list_all (\<lambda>e. \<not> out_of_order prev (row_rank e)) es
     \<and> list_all row_ok es"
proof (induction es arbitrary: keys prev)
  case Nil
  then show ?case by simp
next
  case (Cons e es)
  show ?case
  proof (cases "out_of_order prev (row_rank e)")
    case True
    then show ?thesis
      unfolding validate_rows_step [OF Cons.prems] by simp
  next
    case False
    have "\<not> out_of_order prev (row_rank f)" if "row_rank e < row_rank f" for f
      using False that by (auto simp: out_of_order_def split: option.splits)
    moreover have "\<not> out_of_order (Some (row_rank e)) (row_rank f) \<longleftrightarrow> row_rank e < row_rank f" for f
      by (simp add: out_of_order_def not_le)
    ultimately show ?thesis
      using False Cons.IH [OF seen_below_step [OF Cons.prems False]]
      unfolding validate_rows_step [OF Cons.prems]
      by (auto simp: validate_row_ok list_all_iff)
  qed
qed

lemma validate_row_no_order_error:
  "validate_row e \<noteq> Inl (DuplicateKey k)" "validate_row e \<noteq> Inl (NonCanonicalOrder k)"
  by (auto simp: validate_row_def res_bind_def ensure_def validate_evidence_reference_def Let_def
      dest!: res_for_errD split: sum.splits if_splits)

text \<open>An order error names the first row at fault; what distinguishes its two kinds is whether
  the row's rank was seen before.\<close>

lemma validate_rows_order_error:
  assumes "seen_below keys prev" "err \<in> {DuplicateKey k, NonCanonicalOrder k}"
    "validate_rows keys prev es = Inl err"
  shows "\<exists>xs e ys. es = xs @ e # ys \<and> sm_key e = k \<and> list_all row_ok xs
    \<and> (err = DuplicateKey k \<longleftrightarrow> support_key_rank k \<in> keys \<union> row_rank ` set xs)"
  using assms
proof (induction es arbitrary: keys prev)
  case Nil
  then show ?case by simp
next
  case (Cons e es)
  note step = validate_rows_step [OF Cons.prems(1)]
  show ?case
  proof (cases "out_of_order prev (row_rank e)")
    case True
    with Cons.prems(2,3) show ?thesis
      unfolding step by (intro exI [of _ "[]"] exI [of _ e] exI [of _ es]) (auto split: if_splits)
  next
    case False
    with Cons.prems(2,3) have row: "row_ok e"
      and rest: "validate_rows (insert (row_rank e) keys) (Some (row_rank e)) es = Inl err"
      unfolding step using validate_row_no_order_error [of e k]
      by (auto simp: res_bind_def validate_row_ok split: sum.splits)
    from Cons.IH [OF seen_below_step [OF Cons.prems(1) False] Cons.prems(2) rest]
    obtain xs f ys where "es = xs @ f # ys" "sm_key f = k" "list_all row_ok xs"
      "err = DuplicateKey k \<longleftrightarrow> support_key_rank k \<in> insert (row_rank e) keys \<union> row_rank ` set xs"
      by blast
    with row show ?thesis
      by (intro exI [of _ "e # xs"] exI [of _ f] exI [of _ ys]) simp
  qed
qed

lemma support_matrix_valid: "validate_support_matrix SUPPORT_MATRIX = Inr ()"
  by code_simp

lemma support_matrix_sorted: "sorted_wrt (<) (map row_rank SUPPORT_MATRIX)"
  using support_matrix_valid validate_rows_ok [of "{}" None SUPPORT_MATRIX]
  by (simp add: validate_support_matrix_def seen_below_def split: if_splits)

lemma support_for_iff: "support_for k = Inr e \<longleftrightarrow> e \<in> set SUPPORT_MATRIX \<and> sm_key e = k"
  using sm.sorted_rows_lookup [OF support_matrix_sorted, of k e] by (simp add: support_for_def)

text \<open>
  Validation accepts a support matrix exactly when it is non-empty, its rows are in strictly
  increasing canonical order (hence without duplicate keys), and every row is individually
  acceptable: an impossible combination is declared unsupported, every evidence reference is a
  relative path of normal components, and a supported or experimental row has real-platform
  evidence.
\<close>

theorem validate_support_matrix_decides:
  "is_ok (validate_support_matrix entries) \<longleftrightarrow>
     entries \<noteq> [] \<and> sorted_wrt (<) (map (\<lambda>e. support_key_rank (sm_key e)) entries)
     \<and> distinct (map sm_key entries) \<and> list_all row_ok entries"
proof -
  have "seen_below {} None" by (simp add: seen_below_def)
  from validate_rows_ok [OF this] show ?thesis
    using sm.sorted_rows_distinct [of entries]
    by (auto simp: is_ok_iff validate_support_matrix_def out_of_order_def list_all_iff)
qed

text \<open>
  The order errors of support-matrix validation are exact.  The reported key is the key of a
  row all of whose predecessors are acceptable, and the error is \<open>DuplicateKey\<close> exactly when an
  earlier row has the same key.
\<close>

theorem support_matrix_order_error_exact:
  assumes "validate_support_matrix entries = Inl err"
    and "err \<in> {DuplicateKey k, NonCanonicalOrder k}"
  shows "\<exists>xs e ys. entries = xs @ e # ys \<and> sm_key e = k \<and> list_all row_ok xs
    \<and> (err = DuplicateKey k \<longleftrightarrow> k \<in> sm_key ` set xs)"
proof -
  have seen: "seen_below {} None" by (simp add: seen_below_def)
  have "validate_rows {} None entries = Inl err"
    using assms by (auto simp: validate_support_matrix_def split: if_splits)
  from validate_rows_order_error [OF seen assms(2) this] obtain xs e ys where *: "entries = xs @ e # ys" "sm_key e = k" "list_all row_ok xs"
    "err = DuplicateKey k \<longleftrightarrow> support_key_rank k \<in> row_rank ` set xs"
    by auto
  have "support_key_rank k \<in> row_rank ` set xs \<longleftrightarrow> k \<in> sm_key ` set xs"
    by (auto simp: image_iff sm.rank_eq_iff)
  with * show ?thesis by blast
qed

definition sample_row :: support_matrix_entry where
  "sample_row = sm_row Host_Linux X86_64 Prov_Qemu Acc_Kvm Os_Linux X86_64 Tr_Qga Sup_Untested"

theorem support_matrix_order_error_exact_witness:
  "validate_support_matrix [sample_row, sample_row] = Inl (DuplicateKey (sm_key sample_row))
   \<and> (\<exists>xs e ys. [sample_row, sample_row] = xs @ e # ys \<and> sm_key e = sm_key sample_row
        \<and> list_all row_ok xs \<and> sm_key sample_row \<in> sm_key ` set xs)"
proof -
  have "validate_support_matrix [sample_row, sample_row] = Inl (DuplicateKey (sm_key sample_row))"
    by code_simp
  with support_matrix_order_error_exact [OF this] show ?thesis by blast
qed

text \<open>
  The declared matrix is valid and lookup in it is exact and fails closed: \<open>support_for\<close>
  returns a row exactly when it is the one declared row with that key, and every declared row
  that is not \<open>unsupported\<close> is a possible combination for which no release support is claimed.
\<close>

theorem support_for_exact:
  "validate_support_matrix SUPPORT_MATRIX = Inr ()
   \<and> (support_for k = Inr e \<longleftrightarrow> e \<in> set SUPPORT_MATRIX \<and> sm_key e = k)
   \<and> (support_for k = Inl UndocumentedCombination \<longleftrightarrow> k \<notin> sm_key ` set SUPPORT_MATRIX)
   \<and> list_all (\<lambda>r. sm_status r \<in> {Sup_Unsupported, Sup_Untested, Sup_DevelopmentOnly}
        \<and> (sm_status r = Sup_Unsupported \<or> combination_is_possible (sm_key r))) SUPPORT_MATRIX"
proof -
  have "support_for k = Inl UndocumentedCombination \<longleftrightarrow> k \<notin> sm_key ` set SUPPORT_MATRIX"
    by (auto simp: support_for_def find_None_iff)
  moreover have "list_all (\<lambda>r. sm_status r \<in> {Sup_Unsupported, Sup_Untested, Sup_DevelopmentOnly}
      \<and> (sm_status r = Sup_Unsupported \<or> combination_is_possible (sm_key r))) SUPPORT_MATRIX"
    by code_simp
  ultimately show ?thesis
    using support_matrix_valid support_for_iff by blast
qed

end
