(* ===== verification/Provider.thy ===== *)
theory Provider
  imports CoreModel
begin

section \<open>The provider interface\<close>

text \<open>
  \<open>providers/mod.rs\<close>: the requests, replies and errors of a local VM provider, its interface
  (trait \<open>LocalVmProvider\<close>, here a record of operations over the provider's own state \<open>'p\<close>)
  and \<open>ProviderMutationAuthority\<close>, the token every mutating verb must present.  The guards an
  authority borrows are records of what they pin; whether the pinned file-system identities still
  hold when the authority is used is the argument \<open>guard_status\<close>, decided by the environment.
  \<open>host_env\<close> holds what the standard library and the target platform supply: the \<open>cfg\<close> of the
  build, the uuid crate and \<open>Path::canonicalize\<close> (\<open>None\<close> for an error).
\<close>

record host_env =
  he_windows :: bool
  he_crates :: crates
  he_canonicalize :: "path \<Rightarrow> path option"

record installation_authority =
  inst_install_id :: uuid

record cell_runtime_guard =
  rt_cell_id :: cell_id
  rt_configuration_path :: path
  rt_overlay_path :: path

record guard_status =
  gs_mutation_identity :: bool
  gs_runtime_identity :: bool

subsection \<open>Data\<close>

datatype provider_power_state = Power_Off | Power_Running | Power_Paused | Power_Saved | Power_Other string

definition power_state_serialize :: "provider_power_state \<Rightarrow> string" where
  "power_state_serialize s = (case s of
      Power_Off \<Rightarrow> ''off'' | Power_Running \<Rightarrow> ''running'' | Power_Paused \<Rightarrow> ''paused''
    | Power_Saved \<Rightarrow> ''saved'' | Power_Other v \<Rightarrow> v)"

definition power_state_deserialize :: "string \<Rightarrow> provider_power_state" where
  "power_state_deserialize v =
     (let l = to_ascii_lowercase v
      in if l = ''off'' then Power_Off
         else if l = ''running'' then Power_Running
         else if l = ''paused'' then Power_Paused
         else if l = ''saved'' then Power_Saved
         else Power_Other v)"

datatype provider_probe_status = Probe_Ready | Probe_UnsupportedHost | Probe_Unavailable | Probe_Failed

record provider_probe =
  pp_name :: string
  pp_status :: provider_probe_status
  pp_available :: bool
  pp_detail :: string
  pp_capabilities :: provider_capabilities

definition probe_normalized :: "provider_probe \<Rightarrow> provider_probe" where
  "probe_normalized p =
     (let caps = pp_capabilities p;
          capabilities_are_usable = (cap_schema_version caps = AUTOMATION_SCHEMA_VERSION
            \<and> cap_full_system_vm caps \<and> cap_cow_overlay caps);
          p1 = (if pp_status p = Probe_Ready \<and> \<not> capabilities_are_usable
                then p\<lparr>pp_status := Probe_Failed,
                  pp_detail := ''provider readiness response omitted required lifecycle capabilities''\<rparr>
                else p);
          p2 = p1\<lparr>pp_available := (pp_status p1 = Probe_Ready)\<rparr>
      in if \<not> pp_available p2 then p2\<lparr>pp_capabilities := capabilities_unavailable\<rparr> else p2)"

record provider_image_info =
  pi_path :: path
  pi_disk_format :: string
  pi_disk_type :: string
  pi_parent_path :: "path option"
  pi_file_size :: u64
  pi_virtual_size :: u64

record create_overlay_request =
  co_parent_path :: path
  co_overlay_path :: path

record create_vm_request =
  cv_name :: string
  cv_configuration_path :: path
  cv_overlay_path :: path
  cv_parent_path :: path
  cv_memory_mib :: u64
  cv_cpu_count :: u16
  cv_accelerator :: "string option"
  cv_allow_tcg :: bool

record provider_vm =
  vm_id :: string
  vm_name :: string
  vm_power_state :: provider_power_state
  vm_ownership_marker :: string
  vm_configuration_path :: path
  vm_attached_disks :: "path list"
  vm_network_adapter_count :: u32
  vm_cpu_count :: u16
  vm_memory_mib :: u64

record claim_vm_request =
  cl_expected :: provider_vm
  cl_ownership_marker :: string

record configure_vm_request =
  cf_expected :: provider_vm
  cf_cpu_count :: u16

record provider_vm_identity =
  vi_id :: string
  vi_name :: string

datatype vm_lookup = Lookup_Id string | Lookup_Name string

datatype provider_error =
  PE_Unsupported string string
| PE_Command string
| PE_Timeout string
| PE_OutputLimit string
| PE_InvalidResponse string
| PE_NotFound string
| PE_Collision string
| PE_OwnershipChanged string
| PE_Authority string

subsection \<open>Path identity\<close>

fun trim_trailing_backslash :: "string \<Rightarrow> string" where
  "trim_trailing_backslash v =
     (if 3 < length v \<and> last v = backslash then trim_trailing_backslash (butlast v) else v)"

declare trim_trailing_backslash.simps [simp del]

definition windows_normalize :: "path \<Rightarrow> string" where
  "windows_normalize p =
     (let v = replace_char CHR ''/'' backslash p;
          unc = [backslash, backslash, CHR ''?'', backslash, CHR ''U'', CHR ''N'', CHR ''C'', backslash];
          dev = [backslash, backslash, CHR ''?'', backslash];
          v1 = (if prefix_ignore_case unc v then [backslash, backslash] @ drop 8 v
                else if prefix_ignore_case dev v then drop 4 v
                else v)
      in trim_trailing_backslash v1)"

definition canonical_or_self :: "host_env \<Rightarrow> path \<Rightarrow> path" where
  "canonical_or_self H p = (case he_canonicalize H p of Some q \<Rightarrow> q | None \<Rightarrow> p)"

definition provider_paths_equal :: "host_env \<Rightarrow> path \<Rightarrow> path \<Rightarrow> bool" where
  "provider_paths_equal H l r =
     (if he_windows H then eq_ignore_ascii_case (windows_normalize l) (windows_normalize r)
      else path_eq (canonical_or_self H l) (canonical_or_self H r))"

subsection \<open>Mutation authority\<close>

record provider_mutation_authority =
  pa_install_id :: uuid
  pa_cell_id :: cell_id
  pa_provider_name :: string
  pa_provider_id :: "string option"
  pa_provider_marker :: string
  pa_configuration_path :: path
  pa_overlay_path :: path
  pa_parent_image_path :: path
  pa_phase :: cell_phase
  pa_cpu_count :: u16
  pa_memory_mib :: u64
  pa_accelerator :: "string option"
  pa_allow_tcg :: bool
  pa_installation :: installation_authority
  pa_runtime :: cell_runtime_guard

record qemu_definition =
  qd_provider_id :: string
  qd_provider_name :: string
  qd_provider_marker :: string
  qd_configuration_path :: path
  qd_overlay_path :: path
  qd_parent_path :: path
  qd_accelerator :: string
  qd_cpu_count :: u16
  qd_memory_mib :: u64
  qd_require_marker :: bool

definition provider_authority_new ::
  "cell_record \<Rightarrow> installation_authority \<Rightarrow> cell_runtime_guard \<Rightarrow> provider_mutation_authority" where
  "provider_authority_new r inst rt =
     \<lparr>pa_install_id = own_install_id (cell_ownership r), pa_cell_id = cell_record.cell_id r,
      pa_provider_name = cell_provider r,
      pa_provider_id = map_option poi_id (cell_provider_object r),
      pa_provider_marker = own_provider_marker (cell_ownership r),
      pa_configuration_path = own_configuration_path (cell_ownership r),
      pa_overlay_path = own_overlay_path (cell_ownership r),
      pa_parent_image_path = bnd_path (cell_image r), pa_phase = cell_phase r,
      pa_cpu_count = spec_cpu_count (cell_spec r), pa_memory_mib = spec_memory_mib (cell_spec r),
      pa_accelerator = spec_accelerator (cell_spec r), pa_allow_tcg = spec_allow_tcg (cell_spec r),
      pa_installation = inst, pa_runtime = rt\<rparr>"

definition validate_common ::
  "host_env \<Rightarrow> guard_status \<Rightarrow> provider_mutation_authority \<Rightarrow> provider_error + unit" where
  "validate_common H g a =
     res_bind (ensure (gs_mutation_identity g)
       (PE_Authority ''provider mutation state-root identity changed''))
     (\<lambda>_. res_bind (ensure (gs_runtime_identity g)
       (PE_Authority ''provider mutation CellId runtime identity changed''))
     (\<lambda>_. if pa_provider_name a = []
           \<or> pa_install_id a \<noteq> inst_install_id (pa_installation a)
           \<or> pa_cell_id a \<noteq> rt_cell_id (pa_runtime a)
           \<or> \<not> provider_paths_equal H (pa_configuration_path a) (rt_configuration_path (pa_runtime a))
           \<or> \<not> provider_paths_equal H (pa_overlay_path a) (rt_overlay_path (pa_runtime a))
         then Inl (PE_Authority
           ''provider mutation authority no longer matches installation/runtime identity'')
         else Inr ()))"

definition authority_object_name :: "host_env \<Rightarrow> provider_mutation_authority \<Rightarrow> string" where
  "authority_object_name H a = ''vmcell-'' @ uuid_to_string (he_crates H) (cell_uuid (pa_cell_id a))"

definition validate_overlay_request ::
  "host_env \<Rightarrow> guard_status \<Rightarrow> provider_mutation_authority \<Rightarrow> create_overlay_request \<Rightarrow> provider_error + unit" where
  "validate_overlay_request H g a q =
     res_bind (validate_common H g a) (\<lambda>_.
       if \<not> provider_paths_equal H (co_parent_path q) (pa_parent_image_path a)
         \<or> \<not> provider_paths_equal H (co_overlay_path q) (pa_overlay_path a)
       then Inl (PE_Authority ''overlay request is outside the authorized CellId runtime'')
       else Inr ())"

definition validate_create_request ::
  "host_env \<Rightarrow> guard_status \<Rightarrow> provider_mutation_authority \<Rightarrow> create_vm_request \<Rightarrow> provider_error + unit" where
  "validate_create_request H g a q =
     res_bind (validate_common H g a) (\<lambda>_.
       if cv_name q \<noteq> authority_object_name H a
         \<or> \<not> provider_paths_equal H (cv_configuration_path q) (pa_configuration_path a)
         \<or> \<not> provider_paths_equal H (cv_overlay_path q) (pa_overlay_path a)
         \<or> \<not> provider_paths_equal H (cv_parent_path q) (pa_parent_image_path a)
         \<or> cv_memory_mib q \<noteq> pa_memory_mib a
         \<or> cv_cpu_count q \<noteq> pa_cpu_count a
         \<or> cv_accelerator q \<noteq> pa_accelerator a
         \<or> cv_allow_tcg q \<noteq> pa_allow_tcg a
       then Inl (PE_Authority ''VM create request does not match the authorized CellId'')
       else Inr ())"

text \<open>\<open>disks.len() == 1 && provider_paths_equal(&disks[0], overlay)\<close>.\<close>

definition sole_disk :: "host_env \<Rightarrow> path list \<Rightarrow> path \<Rightarrow> bool" where
  "sole_disk H disks overlay =
     (case disks of [d] \<Rightarrow> provider_paths_equal H d overlay | _ \<Rightarrow> False)"

definition validate_vm ::
  "host_env \<Rightarrow> guard_status \<Rightarrow> provider_mutation_authority \<Rightarrow> provider_vm \<Rightarrow> provider_error + unit" where
  "validate_vm H g a vm =
     res_bind (validate_common H g a) (\<lambda>_.
       if vm_name vm \<noteq> authority_object_name H a
         \<or> pa_provider_id a \<noteq> Some (vm_id vm)
         \<or> vm_ownership_marker vm \<noteq> pa_provider_marker a
         \<or> \<not> provider_paths_equal H (vm_configuration_path vm) (pa_configuration_path a)
         \<or> \<not> sole_disk H (vm_attached_disks vm) (pa_overlay_path a)
         \<or> (pa_phase a \<in> {Phase_Ready, Phase_Destroying}
             \<and> (vm_network_adapter_count vm \<noteq> 0 \<or> vm_cpu_count vm \<noteq> pa_cpu_count a
               \<or> vm_memory_mib vm \<noteq> pa_memory_mib a))
       then Inl (PE_Authority ''provider VM snapshot does not match the authorized owned cell'')
       else Inr ())"

definition validate_claim_request ::
  "host_env \<Rightarrow> guard_status \<Rightarrow> provider_mutation_authority \<Rightarrow> claim_vm_request \<Rightarrow> provider_error + unit" where
  "validate_claim_request H g a q =
     res_bind (validate_common H g a) (\<lambda>_.
       if cl_ownership_marker q \<noteq> pa_provider_marker a
         \<or> pa_provider_id a \<noteq> Some (vm_id (cl_expected q))
         \<or> vm_name (cl_expected q) \<noteq> authority_object_name H a
         \<or> \<not> provider_paths_equal H (vm_configuration_path (cl_expected q)) (pa_configuration_path a)
         \<or> \<not> sole_disk H (vm_attached_disks (cl_expected q)) (pa_overlay_path a)
         \<or> vm_memory_mib (cl_expected q) \<noteq> pa_memory_mib a
         \<or> (vm_ownership_marker (cl_expected q) \<noteq> []
             \<and> vm_ownership_marker (cl_expected q) \<noteq> pa_provider_marker a)
       then Inl (PE_Authority ''VM claim request does not match the authorized creation receipt'')
       else Inr ())"

definition validate_configure_request ::
  "host_env \<Rightarrow> guard_status \<Rightarrow> provider_mutation_authority \<Rightarrow> configure_vm_request \<Rightarrow> provider_error + unit" where
  "validate_configure_request H g a q =
     res_bind (validate_common H g a) (\<lambda>_.
       if cf_cpu_count q \<noteq> pa_cpu_count a
         \<or> pa_provider_id a \<noteq> Some (vm_id (cf_expected q))
         \<or> vm_name (cf_expected q) \<noteq> authority_object_name H a
         \<or> vm_ownership_marker (cf_expected q) \<noteq> pa_provider_marker a
         \<or> \<not> provider_paths_equal H (vm_configuration_path (cf_expected q)) (pa_configuration_path a)
         \<or> \<not> sole_disk H (vm_attached_disks (cf_expected q)) (pa_overlay_path a)
         \<or> vm_memory_mib (cf_expected q) \<noteq> pa_memory_mib a
         \<or> vm_power_state (cf_expected q) \<noteq> Power_Off
         \<or> 1 < vm_network_adapter_count (cf_expected q)
       then Inl (PE_Authority ''VM configure request does not match the authorized cell specification'')
       else Inr ())"

definition validate_qemu_definition ::
  "host_env \<Rightarrow> guard_status \<Rightarrow> provider_mutation_authority \<Rightarrow> qemu_definition \<Rightarrow> provider_error + unit" where
  "validate_qemu_definition H g a d =
     res_bind (validate_common H g a) (\<lambda>_.
       let native = (qd_accelerator d \<in> {''whpx'', ''kvm'', ''hvf''}
             \<or> (qd_accelerator d = ''tcg'' \<and> pa_allow_tcg a));
           accelerator_matches = (case pa_accelerator a of
               Some value \<Rightarrow> if value \<noteq> ''auto'' then value = qd_accelerator d else native
             | None \<Rightarrow> native);
           marker_matches = (qd_provider_marker d = pa_provider_marker a
             \<or> (\<not> qd_require_marker d \<and> qd_provider_marker d = []))
       in if pa_provider_name a \<noteq> ''qemu''
           \<or> pa_provider_id a \<noteq> Some (qd_provider_id d)
           \<or> qd_provider_name d \<noteq> authority_object_name H a
           \<or> \<not> marker_matches
           \<or> \<not> provider_paths_equal H (qd_configuration_path d) (pa_configuration_path a)
           \<or> \<not> provider_paths_equal H (qd_overlay_path d) (pa_overlay_path a)
           \<or> \<not> provider_paths_equal H (qd_parent_path d) (pa_parent_image_path a)
           \<or> qd_cpu_count d \<noteq> pa_cpu_count a
           \<or> qd_memory_mib d \<noteq> pa_memory_mib a
           \<or> \<not> accelerator_matches
         then Inl (PE_Authority ''QEMU definition does not match the engine-issued provider authority'')
         else Inr ())"

subsection \<open>The provider trait\<close>

record 'p provider =
  pv_name :: string
  pv_probe :: "'p \<Rightarrow> provider_probe"
  pv_inspect_image :: "path \<Rightarrow> ('p, provider_error, provider_image_info) eff"
  pv_create_overlay :: "provider_mutation_authority \<Rightarrow> create_overlay_request
      \<Rightarrow> ('p, provider_error, provider_image_info) eff"
  pv_create_vm :: "provider_mutation_authority \<Rightarrow> create_vm_request
      \<Rightarrow> ('p, provider_error, provider_vm_identity) eff"
  pv_claim_vm :: "provider_mutation_authority \<Rightarrow> claim_vm_request
      \<Rightarrow> ('p, provider_error, provider_vm) eff"
  pv_configure_vm :: "provider_mutation_authority \<Rightarrow> configure_vm_request
      \<Rightarrow> ('p, provider_error, provider_vm) eff"
  pv_inspect_vm :: "vm_lookup \<Rightarrow> ('p, provider_error, provider_vm option) eff"
  pv_start_vm :: "provider_mutation_authority \<Rightarrow> provider_vm \<Rightarrow> ('p, provider_error, unit) eff"
  pv_stop_vm :: "provider_mutation_authority \<Rightarrow> provider_vm \<Rightarrow> ('p, provider_error, unit) eff"
  pv_remove_vm :: "provider_mutation_authority \<Rightarrow> provider_vm \<Rightarrow> ('p, provider_error, unit) eff"

text \<open>The trait's default methods; only \<open>name\<close> and \<open>probe\<close> have to be supplied.\<close>

definition default_provider :: "string \<Rightarrow> ('p \<Rightarrow> provider_probe) \<Rightarrow> 'p provider" where
  "default_provider name prb =
     \<lparr>pv_name = name, pv_probe = prb,
      pv_inspect_image = (\<lambda>_. throw (PE_Unsupported name ''inspect_image'')),
      pv_create_overlay = (\<lambda>_ _. throw (PE_Unsupported name ''create_overlay'')),
      pv_create_vm = (\<lambda>_ _. throw (PE_Unsupported name ''create_vm'')),
      pv_claim_vm = (\<lambda>_ _. throw (PE_Unsupported name ''claim_vm'')),
      pv_configure_vm = (\<lambda>_ _. throw (PE_Unsupported name ''configure_vm'')),
      pv_inspect_vm = (\<lambda>_. throw (PE_Unsupported name ''inspect_vm'')),
      pv_start_vm = (\<lambda>_ _. throw (PE_Unsupported name ''start_vm'')),
      pv_stop_vm = (\<lambda>_ _. throw (PE_Unsupported name ''stop_vm'')),
      pv_remove_vm = (\<lambda>_ _. throw (PE_Unsupported name ''remove_vm''))\<rparr>"

subsection \<open>Path identities are equivalences\<close>

locale path_identity =
  fixes same :: "path \<Rightarrow> path \<Rightarrow> bool"
  assumes same_refl: "same p p"
    and same_sym: "same p q \<Longrightarrow> same q p"
    and same_trans: "same p q \<Longrightarrow> same q r \<Longrightarrow> same p r"
begin

lemma same_cong: "same p q \<Longrightarrow> same p r \<longleftrightarrow> same q r"
  using same_sym same_trans by blast

lemma same_target: "same p r \<Longrightarrow> same q r \<Longrightarrow> same p q"
  using same_sym same_trans by blast

end

interpretation pid: path_identity "provider_paths_equal H" for H
  by unfold_locales (auto simp: provider_paths_equal_def eq_ignore_ascii_case_def path_eq_def)

subsection \<open>Lemmas on authorities\<close>

lemma sole_disk_iff: "sole_disk H ds ov \<longleftrightarrow> (\<exists>d. ds = [d] \<and> provider_paths_equal H d ov)"
  by (auto simp: sole_disk_def split: list.splits)

lemma sole_disk_cong: "provider_paths_equal H p q \<Longrightarrow> sole_disk H ds p \<longleftrightarrow> sole_disk H ds q"
  unfolding sole_disk_iff by (auto dest: pid.same_trans pid.same_sym intro: pid.same_target)

lemma validate_common_ok:
  "validate_common H g a = Inr u \<longleftrightarrow>
     gs_mutation_identity g \<and> gs_runtime_identity g \<and> pa_provider_name a \<noteq> []
     \<and> pa_install_id a = inst_install_id (pa_installation a)
     \<and> pa_cell_id a = rt_cell_id (pa_runtime a)
     \<and> provider_paths_equal H (pa_configuration_path a) (rt_configuration_path (pa_runtime a))
     \<and> provider_paths_equal H (pa_overlay_path a) (rt_overlay_path (pa_runtime a))"
  by (auto simp: validate_common_def)

lemma validate_vm_ok:
  "validate_vm H g a vm = Inr u \<longleftrightarrow>
     is_ok (validate_common H g a) \<and> vm_name vm = authority_object_name H a
     \<and> pa_provider_id a = Some (vm_id vm) \<and> vm_ownership_marker vm = pa_provider_marker a
     \<and> provider_paths_equal H (vm_configuration_path vm) (pa_configuration_path a)
     \<and> sole_disk H (vm_attached_disks vm) (pa_overlay_path a)
     \<and> (pa_phase a \<in> {Phase_Ready, Phase_Destroying} \<longrightarrow>
          vm_network_adapter_count vm = 0 \<and> vm_cpu_count vm = pa_cpu_count a
          \<and> vm_memory_mib vm = pa_memory_mib a)"
  unfolding validate_vm_def by (auto simp: is_ok_iff)

lemma authority_new_simps [simp]:
  "pa_install_id (provider_authority_new r i rt) = own_install_id (cell_ownership r)"
  "pa_cell_id (provider_authority_new r i rt) = cell_record.cell_id r"
  "pa_provider_name (provider_authority_new r i rt) = cell_provider r"
  "pa_provider_id (provider_authority_new r i rt) = map_option poi_id (cell_provider_object r)"
  "pa_provider_marker (provider_authority_new r i rt) = own_provider_marker (cell_ownership r)"
  "pa_configuration_path (provider_authority_new r i rt) = own_configuration_path (cell_ownership r)"
  "pa_overlay_path (provider_authority_new r i rt) = own_overlay_path (cell_ownership r)"
  "pa_parent_image_path (provider_authority_new r i rt) = bnd_path (cell_image r)"
  "pa_phase (provider_authority_new r i rt) = cell_phase r"
  "pa_cpu_count (provider_authority_new r i rt) = spec_cpu_count (cell_spec r)"
  "pa_memory_mib (provider_authority_new r i rt) = spec_memory_mib (cell_spec r)"
  "pa_accelerator (provider_authority_new r i rt) = spec_accelerator (cell_spec r)"
  "pa_allow_tcg (provider_authority_new r i rt) = spec_allow_tcg (cell_spec r)"
  "pa_installation (provider_authority_new r i rt) = i"
  "pa_runtime (provider_authority_new r i rt) = rt"
  by (simp_all add: provider_authority_new_def)

text \<open>
  A mutation authority never covers a foreign virtual machine.  If the VM presented to a verb
  passes the authority of a cell whose ownership was created for installation \<open>i\<close>, cell \<open>c\<close> and
  operation \<open>op\<close>, and the VM's marker was written for \<open>i'\<close>, \<open>c'\<close>, \<open>op'\<close>, then these are the same
  identities, the installation and runtime guards pin them, and the VM carries the object name
  of \<open>c\<close> and exactly one disk, the cell's own overlay.
\<close>

theorem authority_excludes_foreign_vm:
  assumes "uuid_laws (he_crates H)"
    and "cell_ownership r = cell_ownership_new (he_crates H) i c op cfg ovl"
    and "cell_record.cell_id r = c"
    and "validate_vm H g (provider_authority_new r inst rt) vm = Inr ()"
    and "vm_ownership_marker vm = ownership_marker (he_crates H) i' c' op'"
  shows "(i', c', op') = (i, c, op) \<and> inst_install_id inst = i \<and> rt_cell_id rt = c
    \<and> vm_name vm = cell_object_name (he_crates H) c
    \<and> (\<exists>d. vm_attached_disks vm = [d] \<and> provider_paths_equal H d (rt_overlay_path rt))"
proof -
  have own: "own_provider_marker (cell_ownership r) = ownership_marker (he_crates H) i c op"
    "own_install_id (cell_ownership r) = i"
    "own_configuration_path (cell_ownership r) = cfg" "own_overlay_path (cell_ownership r) = ovl"
    using assms(2) by (simp_all add: cell_ownership_new_def)
  have vm: "ownership_marker (he_crates H) i' c' op' = ownership_marker (he_crates H) i c op"
    "vm_name vm = cell_object_name (he_crates H) c" "sole_disk H (vm_attached_disks vm) ovl"
    and guards: "inst_install_id inst = i" "rt_cell_id rt = c"
      "provider_paths_equal H ovl (rt_overlay_path rt)"
    using assms(3-5) own
    by (auto simp: validate_vm_ok validate_common_ok is_ok_iff authority_object_name_def
        cell_object_name_def)
  have "(i', c', op') = (i, c, op)"
    using ownership_marker_inj [OF assms(1) vm(1)] by simp
  moreover from vm(3) have "sole_disk H (vm_attached_disks vm) (rt_overlay_path rt)"
    by (simp add: sole_disk_cong [OF guards(3)])
  ultimately show ?thesis
    using vm guards by (simp add: sole_disk_iff)
qed

text \<open>A concrete cell, its guards and its virtual machine, for worked examples.\<close>

definition sample_env :: host_env where
  "sample_env = \<lparr>he_windows = False, he_crates = canonical_crates, he_canonicalize = (\<lambda>p. Some p)\<rparr>"

definition sample_cell :: cell_record where
  "sample_cell =
     \<lparr>cell_schema_version = 1, cell_id = CellId 7, cell_provider = ''qemu'',
      cell_spec = \<lparr>spec_image = ImageId ''linux'', spec_provider = Some ''qemu'', spec_cpu_count = 2,
        spec_memory_mib = 2048, spec_ttl_seconds = None, spec_accelerator = Some ''kvm'',
        spec_allow_tcg = False\<rparr>,
      cell_image = \<lparr>bnd_image_id = ImageId ''linux'', bnd_guest_os = Some Os_Linux,
        bnd_provider = ''qemu'', bnd_disk_format = ''qcow2'', bnd_path = ''/images/linux.qcow2'',
        bnd_sha256 = replicate 64 CHR ''a'', bnd_file_size = 1024\<rparr>,
      cell_ownership = cell_ownership_new canonical_crates 5 (CellId 7) 9 ''/cells/7/config'' ''/cells/7/overlay.qcow2'',
      cell_provider_object = Some \<lparr>poi_id = ''id-7'', poi_name = cell_object_name canonical_crates (CellId 7)\<rparr>,
      cell_state = Cell_Stopped, cell_phase = Phase_Ready, cell_created_at = 0,
      cell_updated_at = 0, cell_expires_at = None, cell_last_error = None, cell_job = None\<rparr>"

definition sample_installation :: installation_authority where
  "sample_installation = \<lparr>inst_install_id = 5\<rparr>"

definition sample_runtime :: cell_runtime_guard where
  "sample_runtime = \<lparr>rt_cell_id = CellId 7, rt_configuration_path = ''/cells/7/config'',
     rt_overlay_path = ''/cells/7/overlay.qcow2''\<rparr>"

definition sample_vm :: provider_vm where
  "sample_vm =
     \<lparr>vm_id = ''id-7'', vm_name = cell_object_name canonical_crates (CellId 7),
      vm_power_state = Power_Off, vm_ownership_marker = ownership_marker canonical_crates 5 (CellId 7) 9,
      vm_configuration_path = ''/cells/7/config'', vm_attached_disks = [''/cells/7/overlay.qcow2''],
      vm_network_adapter_count = 0, vm_cpu_count = 2, vm_memory_mib = 2048\<rparr>"

lemmas sample_defs =
  sample_env_def sample_cell_def sample_installation_def sample_runtime_def sample_vm_def

theorem authority_excludes_foreign_vm_witness:
  "validate_vm sample_env \<lparr>gs_mutation_identity = True, gs_runtime_identity = True\<rparr>
     (provider_authority_new sample_cell sample_installation sample_runtime) sample_vm = Inr ()
   \<and> inst_install_id sample_installation = 5 \<and> rt_cell_id sample_runtime = CellId 7"
proof -
  have "validate_vm sample_env \<lparr>gs_mutation_identity = True, gs_runtime_identity = True\<rparr>
     (provider_authority_new sample_cell sample_installation sample_runtime) sample_vm = Inr ()"
    by (simp add: validate_vm_ok validate_common_ok is_ok_iff sole_disk_iff pid.same_refl
        authority_object_name_def cell_object_name_def cell_ownership_new_def sample_defs)
  moreover from this have "inst_install_id sample_installation = 5 \<and> rt_cell_id sample_runtime = CellId 7"
    using authority_excludes_foreign_vm [of sample_env sample_cell 5 "CellId 7" 9
        "''/cells/7/config''" "''/cells/7/overlay.qcow2''" _ sample_installation sample_runtime
        sample_vm 5 "CellId 7" 9] canonical_uuid_laws
    by (simp add: sample_defs)
  ultimately show ?thesis by blast
qed

text \<open>
  Normalising a probe makes its duplicated readiness fields agree: it is available exactly when
  its status is \<open>Ready\<close>, a ready probe has the required lifecycle capabilities, any other probe
  advertises none, and normalising again changes nothing.
\<close>

theorem probe_normalized_consistent:
  "pp_available (probe_normalized p) = (pp_status (probe_normalized p) = Probe_Ready)
   \<and> (if pp_status (probe_normalized p) = Probe_Ready
      then pp_capabilities (probe_normalized p) = pp_capabilities p
        \<and> cap_full_system_vm (pp_capabilities p) \<and> cap_cow_overlay (pp_capabilities p)
        \<and> cap_schema_version (pp_capabilities p) = AUTOMATION_SCHEMA_VERSION
      else pp_capabilities (probe_normalized p) = capabilities_unavailable)
   \<and> pp_name (probe_normalized p) = pp_name p
   \<and> probe_normalized (probe_normalized p) = probe_normalized p"
  by (cases p) (simp add: probe_normalized_def Let_def)

text \<open>
  The wire form of a power state round-trips: deserialising a serialised state gives it back
  unless it is an \<open>Other\<close> that spells a known state in some letter case, and what deserialisation
  yields always round-trips.
\<close>

theorem power_state_roundtrip:
  "(power_state_deserialize (power_state_serialize s) = s \<longleftrightarrow>
      \<not> (\<exists>v. s = Power_Other v
           \<and> to_ascii_lowercase v \<in> {''off'', ''running'', ''paused'', ''saved''}))
   \<and> power_state_deserialize (power_state_serialize (power_state_deserialize w))
      = power_state_deserialize w"
proof -
  have lower: "to_ascii_lowercase ''off'' = ''off''" "to_ascii_lowercase ''running'' = ''running''"
    "to_ascii_lowercase ''paused'' = ''paused''" "to_ascii_lowercase ''saved'' = ''saved''"
    by code_simp+
  have "power_state_deserialize (power_state_serialize s) = s \<longleftrightarrow>
      \<not> (\<exists>v. s = Power_Other v
           \<and> to_ascii_lowercase v \<in> {''off'', ''running'', ''paused'', ''saved''})"
    by (cases s) (auto simp: power_state_serialize_def power_state_deserialize_def lower Let_def)
  moreover have "power_state_deserialize (power_state_serialize (power_state_deserialize w))
      = power_state_deserialize w"
    by (simp add: power_state_serialize_def power_state_deserialize_def lower Let_def)
  ultimately show ?thesis by blast
qed

end
