(* ===== verification/RunSelection.thy ===== *)
theory RunSelection
  imports Support Provider
begin

section \<open>Selecting and revalidating a run plan\<close>

text \<open>
  \<open>core/run_selection.rs\<close>: from the host platform, an image manifest, the provider probes and the
  user's intent, \<open>resolve_run_execution_plan\<close> chooses one execution path of the support matrix;
  \<open>revalidate_run_execution_plan\<close> checks a plan against fresh evidence before it is used.
  \<open>BTreeSet\<close> values are sets; the two accumulating loops are folds over their state.
\<close>

definition RUN_PLAN_SCHEMA_VERSION :: u32 where "RUN_PLAN_SCHEMA_VERSION = 1"
definition RUN_PLAN_CONTRACT :: string where "RUN_PLAN_CONTRACT = ''vmcell.run-plan.v1''"

record host_platform =
  hp_os :: host_os
  hp_architecture :: architecture

datatype requested_accelerator = Req_Auto | Req_Whpx | Req_Kvm | Req_Hvf | Req_Tcg

fun exact :: "requested_accelerator \<Rightarrow> accelerator option" where
  "exact Req_Auto = None"
| "exact Req_Whpx = Some Acc_Whpx"
| "exact Req_Kvm = Some Acc_Kvm"
| "exact Req_Hvf = Some Acc_Hvf"
| "exact Req_Tcg = Some Acc_Tcg"

record run_selection_intent =
  in_explicit_provider :: "provider_id option"
  in_config_provider_preference :: "provider_id option"
  in_explicit_accelerator :: "requested_accelerator option"
  in_allow_tcg :: bool

datatype run_selection_source = Src_ExplicitCli | Src_ConfigPreference | Src_NativeDefault

record run_execution_plan =
  rp_schema_version :: u32
  rp_contract :: string
  rp_image :: image_id
  rp_host_os :: host_os
  rp_host_architecture :: architecture
  rp_guest_os :: guest_os
  rp_guest_architecture :: architecture
  rp_provider :: provider_id
  rp_accelerator :: accelerator
  rp_guest_transport :: guest_transport_id
  rp_support_status :: support_status
  rp_selection_source :: run_selection_source
  rp_authorizing :: bool

datatype run_selection_error =
  RS_UnsupportedHost | RS_UnsupportedHostArchitecture | RS_Ambiguous | RS_IncompatibleImageVariant
| RS_ProviderUnavailable | RS_AcceleratorUnavailable | RS_ArchitectureMismatch
| RS_UnsupportedGuestTransport | RS_ContradictoryCapabilityEvidence | RS_UndocumentedCombination
| RS_UnsupportedCombination | RS_TcgRequiresExplicitOptIn | RS_ImpossibleProviderAccelerator
| RS_PlanDrift

fun run_selection_code :: "run_selection_error \<Rightarrow> string" where
  "run_selection_code RS_UnsupportedHost = ''vmcell.run_plan.host_unsupported''"
| "run_selection_code RS_UnsupportedHostArchitecture = ''vmcell.run_plan.host_unsupported''"
| "run_selection_code RS_Ambiguous = ''vmcell.run_plan.ambiguous''"
| "run_selection_code RS_IncompatibleImageVariant = ''vmcell.run_plan.incompatible_image_variant''"
| "run_selection_code RS_ProviderUnavailable = ''vmcell.run_plan.provider_unavailable''"
| "run_selection_code RS_AcceleratorUnavailable = ''vmcell.run_plan.accelerator_unavailable''"
| "run_selection_code RS_ArchitectureMismatch = ''vmcell.run_plan.architecture_mismatch''"
| "run_selection_code RS_UnsupportedGuestTransport = ''vmcell.run_plan.guest_transport_unsupported''"
| "run_selection_code RS_ContradictoryCapabilityEvidence = ''vmcell.run_plan.capability_conflict''"
| "run_selection_code RS_UndocumentedCombination = ''vmcell.run_plan.undocumented_combination''"
| "run_selection_code RS_UnsupportedCombination = ''vmcell.run_plan.unsupported_combination''"
| "run_selection_code RS_TcgRequiresExplicitOptIn = ''vmcell.run_plan.tcg_requires_explicit_opt_in''"
| "run_selection_code RS_ImpossibleProviderAccelerator = ''vmcell.run_plan.impossible_provider_accelerator''"
| "run_selection_code RS_PlanDrift = ''vmcell.run_plan.drift''"

text \<open>\<open>HostPlatform::current\<close>, given \<open>std::env::consts::OS\<close> and \<open>ARCH\<close>.\<close>

definition host_platform_current :: "string \<Rightarrow> string \<Rightarrow> run_selection_error + host_platform" where
  "host_platform_current os_const arch_const =
     res_bind (if os_const = ''windows'' then Inr Host_Windows
               else if os_const = ''linux'' then Inr Host_Linux
               else if os_const = ''macos'' then Inr Host_Macos
               else Inl RS_UnsupportedHost)
     (\<lambda>os. res_bind (if arch_const = ''x86_64'' then Inr X86_64
               else if arch_const = ''aarch64'' then Inr Aarch64
               else Inl RS_UnsupportedHostArchitecture)
     (\<lambda>arch. Inr \<lparr>hp_os = os, hp_architecture = arch\<rparr>))"

record rejections =
  rj_provider_unavailable :: bool
  rj_accelerator_unavailable :: bool
  rj_architecture_mismatch :: bool
  rj_transport_unsupported :: bool
  rj_undocumented :: bool
  rj_unsupported :: bool

definition no_rejections :: rejections where
  "no_rejections =
     \<lparr>rj_provider_unavailable = False, rj_accelerator_unavailable = False,
      rj_architecture_mismatch = False, rj_transport_unsupported = False,
      rj_undocumented = False, rj_unsupported = False\<rparr>"

definition rejection_error :: "rejections \<Rightarrow> run_selection_error" where
  "rejection_error r =
     (if rj_architecture_mismatch r then RS_ArchitectureMismatch
      else if rj_provider_unavailable r then RS_ProviderUnavailable
      else if rj_accelerator_unavailable r then RS_AcceleratorUnavailable
      else if rj_transport_unsupported r then RS_UnsupportedGuestTransport
      else if rj_unsupported r then RS_UnsupportedCombination
      else if rj_undocumented r then RS_UndocumentedCombination
      else RS_IncompatibleImageVariant)"

definition native_qemu_accelerator :: "host_os \<Rightarrow> accelerator" where
  "native_qemu_accelerator h =
     (case h of Host_Windows \<Rightarrow> Acc_Whpx | Host_Linux \<Rightarrow> Acc_Kvm | Host_Macos \<Rightarrow> Acc_Hvf)"

definition native_provider_rank :: "host_os \<Rightarrow> provider_id \<Rightarrow> u8" where
  "native_provider_rank h p =
     (case (h, p) of
        (Host_Windows, Prov_Hyperv) \<Rightarrow> 0
      | (Host_Windows, Prov_Qemu) \<Rightarrow> 1
      | (_, Prov_Qemu) \<Rightarrow> 0
      | (_, Prov_Hyperv) \<Rightarrow> 1)"

definition provider_id_of :: "string \<Rightarrow> provider_id option" where
  "provider_id_of v =
     (if v = ''hyperv'' then Some Prov_Hyperv else if v = ''qemu'' then Some Prov_Qemu else None)"

subsection \<open>Evidence checks\<close>

definition validate_tcg_intent :: "run_selection_intent \<Rightarrow> run_selection_error + unit" where
  "validate_tcg_intent i =
     (let explicit_tcg = (in_explicit_accelerator i = Some Req_Tcg)
      in if explicit_tcg \<noteq> in_allow_tcg i then Inl RS_TcgRequiresExplicitOptIn else Inr ())"

definition has_duplicates :: "string list \<Rightarrow> bool" where
  "has_duplicates vs \<longleftrightarrow> \<not> distinct vs"

definition probe_capabilities_ok :: "provider_id \<Rightarrow> provider_capabilities \<Rightarrow> bool" where
  "probe_capabilities_ok p c =
     (if cap_schema_version c \<noteq> AUTOMATION_SCHEMA_VERSION
        \<or> \<not> cap_full_system_vm c
        \<or> \<not> cap_cow_overlay c
        \<or> has_duplicates (cap_accelerators c)
        \<or> has_duplicates (cap_guest_os c)
        \<or> has_duplicates (cap_guest_arch c)
        \<or> has_duplicates (cap_guest_transports c)
        \<or> list_ex (\<lambda>v. v \<notin> {''hyper-v'', ''whpx'', ''kvm'', ''hvf'', ''tcg''}) (cap_accelerators c)
        \<or> list_ex (\<lambda>v. v \<notin> {''windows'', ''linux'', ''macos''}) (cap_guest_os c)
        \<or> list_ex (\<lambda>v. v \<notin> {''x86_64'', ''aarch64''}) (cap_guest_arch c)
        \<or> list_ex (\<lambda>v. v \<notin> {''powershell-direct'', ''qga'', ''ssh''}) (cap_guest_transports c)
      then False
      else (let hardware = list_ex (\<lambda>v. v \<in> {''hyper-v'', ''whpx'', ''kvm'', ''hvf''}) (cap_accelerators c)
        in case p of
             Prov_Hyperv \<Rightarrow> cap_accelerators c = [''hyper-v''] \<and> cap_hardware_acceleration c
           | Prov_Qemu \<Rightarrow> \<not> list_ex (\<lambda>v. v = ''hyper-v'') (cap_accelerators c)
               \<and> cap_hardware_acceleration c = hardware))"

fun validate_probes_from :: "u8 set \<Rightarrow> provider_probe list \<Rightarrow> run_selection_error + unit" where
  "validate_probes_from seen [] = Inr ()"
| "validate_probes_from seen (probe # rest) =
     (case provider_id_of (pp_name probe) of
        None \<Rightarrow> Inl RS_ContradictoryCapabilityEvidence
      | Some p \<Rightarrow>
          if provider_rank p \<in> seen \<or> pp_available probe \<noteq> (pp_status probe = Probe_Ready)
          then Inl RS_ContradictoryCapabilityEvidence
          else if pp_status probe \<noteq> Probe_Ready then
            (if pp_capabilities probe \<noteq> capabilities_unavailable
             then Inl RS_ContradictoryCapabilityEvidence
             else validate_probes_from (insert (provider_rank p) seen) rest)
          else if \<not> probe_capabilities_ok p (pp_capabilities probe)
          then Inl RS_ContradictoryCapabilityEvidence
          else validate_probes_from (insert (provider_rank p) seen) rest)"

definition validate_probe_snapshots :: "provider_probe list \<Rightarrow> run_selection_error + unit" where
  "validate_probe_snapshots probes = validate_probes_from {} probes"

subsection \<open>Resolution\<close>

definition selected_provider :: "run_selection_intent \<Rightarrow> provider_id option" where
  "selected_provider i =
     (case in_explicit_provider i of Some p \<Rightarrow> Some p
      | None \<Rightarrow> (case in_explicit_accelerator i of Some _ \<Rightarrow> Some Prov_Qemu
          | None \<Rightarrow> in_config_provider_preference i))"

definition selection_source :: "run_selection_intent \<Rightarrow> run_selection_source" where
  "selection_source i =
     (if in_explicit_provider i \<noteq> None \<or> in_explicit_accelerator i \<noteq> None then Src_ExplicitCli
      else if in_config_provider_preference i \<noteq> None then Src_ConfigPreference
      else Src_NativeDefault)"

fun check_variant_providers :: "u8 set \<Rightarrow> image_variant list \<Rightarrow> run_selection_error + unit" where
  "check_variant_providers seen [] = Inr ()"
| "check_variant_providers seen (v # vs) =
     (case provider_id_of (var_provider v) of
        None \<Rightarrow> Inl RS_IncompatibleImageVariant
      | Some p \<Rightarrow> if provider_rank p \<in> seen then Inl RS_Ambiguous
          else check_variant_providers (insert (provider_rank p) seen) vs)"

definition chosen_accelerator :: "host_platform \<Rightarrow> run_selection_intent \<Rightarrow> provider_id \<Rightarrow> accelerator" where
  "chosen_accelerator h i p =
     (case p of
        Prov_Hyperv \<Rightarrow> Acc_HyperV
      | Prov_Qemu \<Rightarrow> (case Option.bind (in_explicit_accelerator i) exact of
            Some a \<Rightarrow> a | None \<Rightarrow> native_qemu_accelerator (hp_os h)))"

definition row_matches ::
  "host_platform \<Rightarrow> image_record \<Rightarrow> provider_id \<Rightarrow> accelerator \<Rightarrow> support_matrix_entry \<Rightarrow> bool" where
  "row_matches h img p a e \<longleftrightarrow>
     k_host_os (sm_key e) = hp_os h \<and> k_host_architecture (sm_key e) = hp_architecture h
     \<and> k_provider (sm_key e) = p \<and> k_accelerator (sm_key e) = a
     \<and> k_guest_os (sm_key e) = img_guest_os img \<and> k_guest_architecture (sm_key e) = img_guest_arch img"

definition plan_for ::
  "host_platform \<Rightarrow> image_record \<Rightarrow> run_selection_intent \<Rightarrow> provider_id \<Rightarrow> accelerator
    \<Rightarrow> support_matrix_entry \<Rightarrow> run_execution_plan" where
  "plan_for h img i p a e =
     \<lparr>rp_schema_version = RUN_PLAN_SCHEMA_VERSION, rp_contract = RUN_PLAN_CONTRACT,
      rp_image = img_id img, rp_host_os = hp_os h, rp_host_architecture = hp_architecture h,
      rp_guest_os = img_guest_os img, rp_guest_architecture = img_guest_arch img,
      rp_provider = p, rp_accelerator = a, rp_guest_transport = k_guest_transport (sm_key e),
      rp_support_status = sm_status e, rp_selection_source = selection_source i,
      rp_authorizing = False\<rparr>"

type_synonym candidates = "(u8 \<times> run_execution_plan) list"

text \<open>The inner loop over the matching rows: its state is \<open>selectable_row\<close>, the candidates and
  the rejections.\<close>

definition transport_available :: "provider_capabilities \<Rightarrow> support_matrix_entry \<Rightarrow> bool" where
  "transport_available c e \<longleftrightarrow>
     contains_str (cap_guest_transports c) (transport_as_str (k_guest_transport (sm_key e)))
     \<and> cap_networkless_guest_exec c"

fun consider_rows ::
  "host_platform \<Rightarrow> image_record \<Rightarrow> run_selection_intent \<Rightarrow> provider_id \<Rightarrow> accelerator
    \<Rightarrow> provider_capabilities \<Rightarrow> support_matrix_entry list \<Rightarrow> bool \<times> candidates \<times> rejections
    \<Rightarrow> bool \<times> candidates \<times> rejections" where
  "consider_rows h img i p a c [] st = st"
| "consider_rows h img i p a c (e # es) (selectable, cands, rej) =
     (if sm_status e = Sup_Unsupported then
        consider_rows h img i p a c es (selectable, cands, rej\<lparr>rj_unsupported := True\<rparr>)
      else if \<not> transport_available c e then
        consider_rows h img i p a c es (True, cands, rej\<lparr>rj_transport_unsupported := True\<rparr>)
      else consider_rows h img i p a c es
        (True, cands @ [(native_provider_rank (hp_os h) p, plan_for h img i p a e)], rej))"

text \<open>One turn of the outer loop, for a variant whose provider is known.\<close>

definition consider_variant ::
  "host_platform \<Rightarrow> image_record \<Rightarrow> provider_probe list \<Rightarrow> run_selection_intent
    \<Rightarrow> support_matrix_entry list \<Rightarrow> provider_id \<Rightarrow> candidates \<times> rejections \<Rightarrow> candidates \<times> rejections" where
  "consider_variant h img probes i matrix p st =
     (let (cands, rej) = st in
      if (case selected_provider i of Some s \<Rightarrow> s \<noteq> p | None \<Rightarrow> False) then st
      else if img_guest_arch img \<noteq> hp_architecture h then
        (cands, rej\<lparr>rj_architecture_mismatch := True\<rparr>)
      else (case find (\<lambda>probe. pp_name probe = provider_as_str p) probes of
          None \<Rightarrow> (cands, rej\<lparr>rj_provider_unavailable := True\<rparr>)
        | Some probe \<Rightarrow>
            (let c = pp_capabilities probe; a = chosen_accelerator h i p in
             if pp_status probe \<noteq> Probe_Ready \<or> \<not> pp_available probe then
               (cands, rej\<lparr>rj_provider_unavailable := True\<rparr>)
             else if \<not> contains_str (cap_guest_os c) (guest_os_name (img_guest_os img)) then st
             else if \<not> contains_str (cap_guest_arch c) (architecture_name (img_guest_arch img)) then
               (cands, rej\<lparr>rj_architecture_mismatch := True\<rparr>)
             else if \<not> contains_str (cap_accelerators c) (accelerator_as_str a) then
               (cands, rej\<lparr>rj_accelerator_unavailable := True\<rparr>)
             else (let rows = filter (row_matches h img p a) matrix in
               if rows = [] then (cands, rej\<lparr>rj_undocumented := True\<rparr>)
               else (let (selectable, cands', rej') = consider_rows h img i p a c rows (False, cands, rej)
                 in if selectable \<and> cands' = [] then (cands', rej'\<lparr>rj_transport_unsupported := True\<rparr>)
                    else (cands', rej'))))))"

fun consider_variants ::
  "host_platform \<Rightarrow> image_record \<Rightarrow> provider_probe list \<Rightarrow> run_selection_intent
    \<Rightarrow> support_matrix_entry list \<Rightarrow> image_variant list \<Rightarrow> candidates \<times> rejections
    \<Rightarrow> run_selection_error + (candidates \<times> rejections)" where
  "consider_variants h img probes i matrix [] st = Inr st"
| "consider_variants h img probes i matrix (v # vs) st =
     (case provider_id_of (var_provider v) of
        None \<Rightarrow> Inl RS_IncompatibleImageVariant
      | Some p \<Rightarrow> consider_variants h img probes i matrix vs
          (consider_variant h img probes i matrix p st))"

definition choose_candidate :: "candidates \<times> rejections \<Rightarrow> run_selection_error + run_execution_plan" where
  "choose_candidate st =
     (let (cands, rej) = st in
      if cands = [] then Inl (rejection_error rej)
      else (let sorted_cands = sort_key fst cands; best_rank = fst (hd sorted_cands)
        in if length (filter (\<lambda>(rank, _). rank = best_rank) sorted_cands) \<noteq> 1
           then Inl RS_Ambiguous
           else Inr (snd (hd sorted_cands))))"

definition resolve_run_execution_plan_with_matrix ::
  "host_platform \<Rightarrow> image_record \<Rightarrow> provider_probe list \<Rightarrow> run_selection_intent
    \<Rightarrow> support_matrix_entry list \<Rightarrow> run_selection_error + run_execution_plan" where
  "resolve_run_execution_plan_with_matrix h img probes i matrix =
     res_bind (validate_probe_snapshots probes)
     (\<lambda>_. res_bind (validate_tcg_intent i)
     (\<lambda>_. if in_explicit_provider i = Some Prov_Hyperv \<and> in_explicit_accelerator i \<noteq> None
       then Inl RS_ImpossibleProviderAccelerator
       else res_bind (check_variant_providers {} (img_variants img))
     (\<lambda>_. if img_variants img = []
         \<or> (case selected_provider i of None \<Rightarrow> False
            | Some p \<Rightarrow> \<not> list_ex (\<lambda>v. provider_id_of (var_provider v) = Some p) (img_variants img))
       then Inl RS_IncompatibleImageVariant
       else res_bind (consider_variants h img probes i matrix (img_variants img) ([], no_rejections))
     choose_candidate)))"

definition resolve_run_execution_plan ::
  "host_platform \<Rightarrow> image_record \<Rightarrow> provider_probe list \<Rightarrow> run_selection_intent
    \<Rightarrow> run_selection_error + run_execution_plan" where
  "resolve_run_execution_plan h img probes i =
     resolve_run_execution_plan_with_matrix h img probes i SUPPORT_MATRIX"

subsection \<open>Revalidation\<close>

definition plan_key :: "run_execution_plan \<Rightarrow> support_key" where
  "plan_key plan =
     \<lparr>k_host_os = rp_host_os plan, k_host_architecture = rp_host_architecture plan,
      k_provider = rp_provider plan, k_accelerator = rp_accelerator plan,
      k_guest_os = rp_guest_os plan, k_guest_architecture = rp_guest_architecture plan,
      k_guest_transport = rp_guest_transport plan\<rparr>"

definition revalidate_run_execution_plan ::
  "run_execution_plan \<Rightarrow> host_platform \<Rightarrow> image_record \<Rightarrow> provider_probe \<Rightarrow> run_selection_error + unit" where
  "revalidate_run_execution_plan plan h img probe =
     (let c = pp_capabilities probe in
      if rp_schema_version plan \<noteq> RUN_PLAN_SCHEMA_VERSION
        \<or> rp_contract plan \<noteq> RUN_PLAN_CONTRACT
        \<or> rp_authorizing plan
        \<or> rp_host_os plan \<noteq> hp_os h
        \<or> rp_host_architecture plan \<noteq> hp_architecture h
        \<or> rp_image plan \<noteq> img_id img
        \<or> rp_guest_os plan \<noteq> img_guest_os img
        \<or> rp_guest_architecture plan \<noteq> img_guest_arch img
        \<or> pp_name probe \<noteq> provider_as_str (rp_provider plan)
        \<or> length (filter (\<lambda>v. provider_id_of (var_provider v) = Some (rp_provider plan)) (img_variants img)) \<noteq> 1
      then Inl RS_PlanDrift
      else res_bind (validate_probe_snapshots [probe]) (\<lambda>_.
        if pp_status probe \<noteq> Probe_Ready \<or> \<not> pp_available probe then Inl RS_ProviderUnavailable
        else if \<not> contains_str (cap_accelerators c) (accelerator_as_str (rp_accelerator plan))
          then Inl RS_AcceleratorUnavailable
        else if \<not> contains_str (cap_guest_arch c) (architecture_name (rp_guest_architecture plan))
          then Inl RS_ArchitectureMismatch
        else if \<not> contains_str (cap_guest_os c) (guest_os_name (rp_guest_os plan))
          \<or> \<not> contains_str (cap_guest_transports c) (transport_as_str (rp_guest_transport plan))
          \<or> \<not> cap_networkless_guest_exec c
          then Inl RS_UnsupportedGuestTransport
        else res_bind (res_map_err (\<lambda>_. RS_UndocumentedCombination) (support_for (plan_key plan)))
          (\<lambda>entry. if sm_status entry = Sup_Unsupported then Inl RS_UnsupportedCombination
            else if sm_status entry \<noteq> rp_support_status plan then Inl RS_PlanDrift
            else Inr ())))"

subsection \<open>What resolution decides\<close>

text \<open>The declarative reading of one execution path: provider \<open>p\<close> with matrix row \<open>e\<close> is viable.\<close>

definition path_viable ::
  "host_platform \<Rightarrow> image_record \<Rightarrow> provider_probe list \<Rightarrow> run_selection_intent \<Rightarrow> provider_id
    \<Rightarrow> support_matrix_entry \<Rightarrow> bool" where
  "path_viable h img probes i p e \<longleftrightarrow>
     selected_provider i \<in> {None, Some p} \<and> img_guest_arch img = hp_architecture h
     \<and> (case find (\<lambda>probe. pp_name probe = provider_as_str p) probes of
          None \<Rightarrow> False
        | Some probe \<Rightarrow> pp_status probe = Probe_Ready \<and> pp_available probe
            \<and> contains_str (cap_guest_os (pp_capabilities probe)) (guest_os_name (img_guest_os img))
            \<and> contains_str (cap_guest_arch (pp_capabilities probe)) (architecture_name (img_guest_arch img))
            \<and> contains_str (cap_accelerators (pp_capabilities probe))
                (accelerator_as_str (chosen_accelerator h i p))
            \<and> transport_available (pp_capabilities probe) e)
     \<and> row_matches h img p (chosen_accelerator h i p) e \<and> sm_status e \<noteq> Sup_Unsupported"

definition path_candidate ::
  "host_platform \<Rightarrow> image_record \<Rightarrow> run_selection_intent \<Rightarrow> provider_id \<Rightarrow> support_matrix_entry
    \<Rightarrow> u8 \<times> run_execution_plan" where
  "path_candidate h img i p e =
     (native_provider_rank (hp_os h) p, plan_for h img i p (chosen_accelerator h i p) e)"

definition inputs_ok :: "image_record \<Rightarrow> provider_probe list \<Rightarrow> run_selection_intent \<Rightarrow> bool" where
  "inputs_ok img probes i \<longleftrightarrow>
     validate_probe_snapshots probes = Inr () \<and> validate_tcg_intent i = Inr ()
     \<and> \<not> (in_explicit_provider i = Some Prov_Hyperv \<and> in_explicit_accelerator i \<noteq> None)
     \<and> list_all (\<lambda>v. provider_id_of (var_provider v) \<noteq> None) (img_variants img)
     \<and> distinct (map (\<lambda>v. provider_id_of (var_provider v)) (img_variants img))"

lemma consider_rows_candidates:
  "fst (snd (consider_rows h img i p a c es (b, cs, r))) =
     cs @ map (\<lambda>e. (native_provider_rank (hp_os h) p, plan_for h img i p a e))
            (filter (\<lambda>e. sm_status e \<noteq> Sup_Unsupported \<and> transport_available c e) es)"
  by (induction es arbitrary: b cs r) auto

text \<open>The conditions on the provider alone, before matrix rows are considered.\<close>

definition provider_gate ::
  "host_platform \<Rightarrow> image_record \<Rightarrow> provider_probe list \<Rightarrow> run_selection_intent \<Rightarrow> provider_id
    \<Rightarrow> provider_probe option" where
  "provider_gate h img probes i p =
     (if selected_provider i \<in> {None, Some p} \<and> img_guest_arch img = hp_architecture h
      then (case find (\<lambda>probe. pp_name probe = provider_as_str p) probes of
          None \<Rightarrow> None
        | Some probe \<Rightarrow>
            if pp_status probe = Probe_Ready \<and> pp_available probe
              \<and> contains_str (cap_guest_os (pp_capabilities probe)) (guest_os_name (img_guest_os img))
              \<and> contains_str (cap_guest_arch (pp_capabilities probe)) (architecture_name (img_guest_arch img))
              \<and> contains_str (cap_accelerators (pp_capabilities probe))
                  (accelerator_as_str (chosen_accelerator h i p))
            then Some probe else None)
      else None)"

lemma path_viable_gate:
  "path_viable h img probes i p e \<longleftrightarrow>
     (case provider_gate h img probes i p of None \<Rightarrow> False
      | Some probe \<Rightarrow> row_matches h img p (chosen_accelerator h i p) e
          \<and> sm_status e \<noteq> Sup_Unsupported \<and> transport_available (pp_capabilities probe) e)"
  by (auto simp: path_viable_def provider_gate_def split: option.splits)

lemma consider_variant_gate:
  "fst (consider_variant h img probes i matrix p (cs, r)) =
     (case provider_gate h img probes i p of None \<Rightarrow> cs
      | Some probe \<Rightarrow> fst (snd (consider_rows h img i p (chosen_accelerator h i p)
          (pp_capabilities probe) (filter (row_matches h img p (chosen_accelerator h i p)) matrix)
          (False, cs, r))))"
proof -
  have rows: "fst (case consider_rows h img i p a c es st of (selectable, cands', rej') \<Rightarrow>
      if selectable \<and> cands' = [] then (cands', f rej') else (cands', rej'))
    = fst (snd (consider_rows h img i p a c es st))" for a c es st f
    by (simp add: split_beta)
  show ?thesis
    unfolding consider_variant_def provider_gate_def Let_def
    by (cases "img_guest_arch img = hp_architecture h";
        cases "find (\<lambda>probe. pp_name probe = provider_as_str p) probes")
      (auto simp: rows split: option.split)
qed

lemma consider_variant_candidates:
  "fst (consider_variant h img probes i matrix p (cs, r)) =
     cs @ map (path_candidate h img i p) (filter (path_viable h img probes i p) matrix)"
proof -
  have cand: "path_candidate h img i p =
      (\<lambda>e. (native_provider_rank (hp_os h) p, plan_for h img i p (chosen_accelerator h i p) e))"
    by (simp add: path_candidate_def fun_eq_iff)
  show ?thesis
    unfolding consider_variant_gate cand
    by (auto simp: consider_rows_candidates path_viable_gate filter_empty_conv split: option.split
        intro!: arg_cong [of _ _ "map _"] filter_cong)
qed

lemma consider_variants_candidates:
  assumes "list_all (\<lambda>v. provider_id_of (var_provider v) \<noteq> None) vs"
  shows "\<exists>r'. consider_variants h img probes i matrix vs (cs, r) =
    Inr (cs @ concat (map (\<lambda>v. let p = the (provider_id_of (var_provider v)) in
       map (path_candidate h img i p) (filter (path_viable h img probes i p) matrix)) vs), r')"
  using assms
proof (induction vs arbitrary: cs r)
  case Nil
  then show ?case by simp
next
  case (Cons v vs)
  then obtain p where p: "provider_id_of (var_provider v) = Some p" by auto
  obtain cs' r' where st: "consider_variant h img probes i matrix p (cs, r) = (cs', r')"
    by (cases "consider_variant h img probes i matrix p (cs, r)")
  then have "cs' = cs @ map (path_candidate h img i p) (filter (path_viable h img probes i p) matrix)"
    using consider_variant_candidates by (metis fst_conv)
  with Cons.IH [of cs' r'] Cons.prems p st show ?case by (simp add: Let_def)
qed

lemma provider_rank_inj: "provider_rank p \<in> provider_rank ` S \<longleftrightarrow> p \<in> S"
  by (auto simp: rank_inj_components)

lemma check_variant_providers_ok:
  "check_variant_providers (provider_rank ` S) vs = Inr u \<longleftrightarrow>
     list_all (\<lambda>v. provider_id_of (var_provider v) \<noteq> None) vs
     \<and> distinct (map (\<lambda>v. provider_id_of (var_provider v)) vs)
     \<and> (\<forall>p \<in> S. Some p \<notin> (\<lambda>v. provider_id_of (var_provider v)) ` set vs)"
proof (induction vs arbitrary: S)
  case Nil
  then show ?case by simp
next
  case (Cons v vs)
  show ?case
  proof (cases "provider_id_of (var_provider v)")
    case (Some p)
    with Cons.IH [of "insert p S"] show ?thesis
      by (auto simp: provider_rank_inj rank_inj_components image_iff)
  qed simp
qed

lemma check_variant_providers_ambiguous:
  "check_variant_providers (provider_rank ` S) vs = Inl RS_Ambiguous \<Longrightarrow>
     \<not> (distinct (map (\<lambda>v. provider_id_of (var_provider v)) vs)
        \<and> (\<forall>p \<in> S. Some p \<notin> (\<lambda>v. provider_id_of (var_provider v)) ` set vs))"
proof (induction vs arbitrary: S)
  case Nil
  then show ?case by simp
next
  case (Cons v vs)
  show ?case
  proof (cases "provider_id_of (var_provider v)")
    case (Some p)
    with Cons.prems Cons.IH [of "insert p S"] show ?thesis
      by (auto simp: provider_rank_inj rank_inj_components image_iff split: if_splits)
  qed (use Cons.prems in simp)
qed

lemma choose_candidate_distinct:
  assumes "distinct (map fst cs)"
  shows "choose_candidate (cs, rej) = Inr plan \<longleftrightarrow>
    (\<exists>k. (k, plan) \<in> set cs \<and> (\<forall>(k', _) \<in> set cs. k \<le> k'))"
proof (cases "cs = []")
  case True
  then show ?thesis by (simp add: choose_candidate_def)
next
  case False
  obtain k x xs where sorted: "sort_key fst cs = (k, x) # xs"
    using False by (cases "sort_key fst cs") (auto dest: arg_cong [of _ _ length])
  then have set: "set cs = insert (k, x) (set xs)"
    by (metis list.simps(15) set_sort)
  have "distinct (map fst (sort_key fst cs))"
    using assms by (simp add: distinct_map)
  then have dist: "distinct (k # map fst xs)"
    by (simp add: sorted)
  have min: "\<forall>(k', _) \<in> set cs. k \<le> k'"
    using sorted_sort_key [of fst cs] unfolding sorted set by auto
  have "filter (\<lambda>(r, _). r = k) xs = []"
    using dist by (force simp: filter_empty_conv)
  then have res: "choose_candidate (cs, rej) = Inr x"
    using False by (simp add: choose_candidate_def sorted)
  have uniq: "y = x" if "(k', y) \<in> set cs" "\<forall>(j, _) \<in> set cs. k' \<le> j" for k' y
  proof -
    have "k' = k"
      using that min unfolding set by (intro order_antisym) auto
    with that(1) dist show ?thesis
      unfolding set by force
  qed
  have "(k, x) \<in> set cs" by (simp add: set)
  with min uniq show ?thesis
    unfolding res by (intro iffI) (blast, metis)
qed

lemma choose_candidate_ok:
  assumes "distinct (map fst cs)"
  shows "choose_candidate (cs, rej) = Inl (rejection_error rej) \<or> is_ok (choose_candidate (cs, rej))"
proof (cases "cs = []")
  case False
  define k where "k = Min (fst ` set cs)"
  have "k \<in> fst ` set cs" and min: "\<forall>(k', _) \<in> set cs. k \<le> k'"
    unfolding k_def using False by (auto intro!: Min_in Min_le rev_image_eqI)
  then obtain x where "(k, x) \<in> set cs" by auto
  with min have "choose_candidate (cs, rej) = Inr x"
    unfolding choose_candidate_distinct [OF assms] by blast
  then show ?thesis by simp
qed (simp add: choose_candidate_def)

lemma native_provider_rank_inj: "native_provider_rank h p = native_provider_rank h q \<longleftrightarrow> p = q"
  by (cases h; cases p; cases q) (simp_all add: native_provider_rank_def)

text \<open>The declared matrix has at most one selectable row per host, provider, accelerator and guest.\<close>

lemma selectable_row_unique:
  assumes "e \<in> set SUPPORT_MATRIX" "e' \<in> set SUPPORT_MATRIX"
    and "row_matches h img p a e" "row_matches h img p a e'"
    and "sm_status e \<noteq> Sup_Unsupported" "sm_status e' \<noteq> Sup_Unsupported"
  shows "e = e'"
proof -
  have "list_all (\<lambda>e. list_all (\<lambda>e'. sm_status e \<noteq> Sup_Unsupported \<longrightarrow> sm_status e' \<noteq> Sup_Unsupported \<longrightarrow>
      k_host_os (sm_key e) = k_host_os (sm_key e') \<longrightarrow>
      k_provider (sm_key e) = k_provider (sm_key e') \<longrightarrow>
      k_accelerator (sm_key e) = k_accelerator (sm_key e') \<longrightarrow>
      k_guest_os (sm_key e) = k_guest_os (sm_key e') \<longrightarrow> e = e') SUPPORT_MATRIX) SUPPORT_MATRIX"
    by code_simp
  with assms(1,2,5,6) have "k_host_os (sm_key e) = k_host_os (sm_key e') \<longrightarrow>
      k_provider (sm_key e) = k_provider (sm_key e') \<longrightarrow>
      k_accelerator (sm_key e) = k_accelerator (sm_key e') \<longrightarrow>
      k_guest_os (sm_key e) = k_guest_os (sm_key e') \<longrightarrow> e = e'"
    unfolding list_all_iff by blast
  with assms(3,4) show ?thesis by (simp add: row_matches_def)
qed

lemma distinct_support_matrix: "distinct SUPPORT_MATRIX"
  using sm.sorted_rows_distinct [OF support_matrix_sorted] by (simp add: distinct_map)

lemma at_most_one:
  assumes "distinct xs" "\<And>x y. x \<in> set xs \<Longrightarrow> y \<in> set xs \<Longrightarrow> x = y"
  shows "xs = [] \<or> (\<exists>x. xs = [x])"
proof (cases xs)
  case (Cons x ys)
  have "ys = []"
  proof (cases ys)
    case (Cons y zs)
    with \<open>xs = x # ys\<close> have "x = y" by (intro assms(2)) simp_all
    with assms(1) \<open>xs = x # ys\<close> Cons show ?thesis by simp
  qed
  with Cons show ?thesis by simp
qed simp

lemma viable_rows:
  "filter (path_viable h img probes i p) SUPPORT_MATRIX = [] \<or>
   (\<exists>e. filter (path_viable h img probes i p) SUPPORT_MATRIX = [e])"
proof (rule at_most_one)
  show "distinct (filter (path_viable h img probes i p) SUPPORT_MATRIX)"
    by (simp add: distinct_support_matrix)
qed (auto simp: path_viable_def intro: selectable_row_unique)

text \<open>The candidates of an image: one per viable provider, with distinct ranks.\<close>

definition image_candidates ::
  "host_platform \<Rightarrow> image_record \<Rightarrow> provider_probe list \<Rightarrow> run_selection_intent \<Rightarrow> image_variant list
    \<Rightarrow> candidates" where
  "image_candidates h img probes i vs =
     concat (map (\<lambda>v. let p = the (provider_id_of (var_provider v)) in
       map (path_candidate h img i p) (filter (path_viable h img probes i p) SUPPORT_MATRIX)) vs)"

lemma image_candidates_mem:
  assumes "list_all (\<lambda>v. provider_id_of (var_provider v) \<noteq> None) vs"
  shows "c \<in> set (image_candidates h img probes i vs) \<longleftrightarrow>
    (\<exists>p e. Some p \<in> (\<lambda>v. provider_id_of (var_provider v)) ` set vs \<and> e \<in> set SUPPORT_MATRIX
      \<and> path_viable h img probes i p e \<and> c = path_candidate h img i p e)"
  using assms by (force simp: image_candidates_def Let_def list_all_iff image_iff)

lemma image_candidates_distinct:
  assumes "list_all (\<lambda>v. provider_id_of (var_provider v) \<noteq> None) vs"
    and "distinct (map (\<lambda>v. provider_id_of (var_provider v)) vs)"
  shows "distinct (map fst (image_candidates h img probes i vs))"
  using assms
proof (induction vs)
  case Nil
  then show ?case by (simp add: image_candidates_def)
next
  case (Cons v vs)
  then obtain p where p: "provider_id_of (var_provider v) = Some p" by auto
  have rest: "native_provider_rank (hp_os h) p \<notin> fst ` set (image_candidates h img probes i vs)"
    using Cons.prems p
    by (force simp: image_candidates_mem path_candidate_def native_provider_rank_inj)
  have split: "image_candidates h img probes i (v # vs) =
      map (path_candidate h img i p) (filter (path_viable h img probes i p) SUPPORT_MATRIX)
      @ image_candidates h img probes i vs"
    by (simp add: image_candidates_def p)
  from viable_rows [of h img probes i p] Cons rest show ?case
    unfolding split by (auto simp: path_candidate_def)
qed

abbreviation variant_providers :: "image_record \<Rightarrow> provider_id option set" where
  "variant_providers img \<equiv> (\<lambda>v. provider_id_of (var_provider v)) ` set (img_variants img)"

lemma resolve_inputs_ok:
  "is_ok (resolve_run_execution_plan h img probes i) \<Longrightarrow> inputs_ok img probes i"
  using check_variant_providers_ok [of "{}" "img_variants img"]
  by (auto simp: resolve_run_execution_plan_def resolve_run_execution_plan_with_matrix_def inputs_ok_def
      is_ok_iff split: if_splits)

lemma resolve_ok_candidates:
  assumes "inputs_ok img probes i"
  shows "\<exists>rej. resolve_run_execution_plan h img probes i =
    (if img_variants img = [] \<or> (\<exists>p. selected_provider i = Some p \<and> Some p \<notin> variant_providers img)
     then Inl RS_IncompatibleImageVariant
     else choose_candidate (image_candidates h img probes i (img_variants img), rej))"
proof -
  have vs: "check_variant_providers {} (img_variants img) = Inr ()"
    using assms check_variant_providers_ok [of "{}" "img_variants img"] by (simp add: inputs_ok_def)
  obtain rej where "consider_variants h img probes i SUPPORT_MATRIX (img_variants img) ([], no_rejections)
      = Inr (image_candidates h img probes i (img_variants img), rej)"
    using consider_variants_candidates [of "img_variants img" h img probes i SUPPORT_MATRIX "[]"] assms
    unfolding inputs_ok_def image_candidates_def by auto
  with assms vs show ?thesis
    by (auto simp: resolve_run_execution_plan_def resolve_run_execution_plan_with_matrix_def
        inputs_ok_def image_iff list_ex_iff split: option.splits intro!: exI [of _ rej])
qed

lemma resolve_plan_iff:
  "resolve_run_execution_plan h img probes i = Inr plan \<longleftrightarrow>
     inputs_ok img probes i
     \<and> (\<exists>p e. Some p \<in> variant_providers img \<and> e \<in> set SUPPORT_MATRIX
          \<and> path_viable h img probes i p e
          \<and> plan = plan_for h img i p (chosen_accelerator h i p) e
          \<and> (\<forall>p' e'. Some p' \<in> variant_providers img \<and> e' \<in> set SUPPORT_MATRIX
               \<and> path_viable h img probes i p' e' \<longrightarrow>
               native_provider_rank (hp_os h) p \<le> native_provider_rank (hp_os h) p'))"
proof (cases "inputs_ok img probes i")
  case False
  then show ?thesis using resolve_inputs_ok [of h img probes i] by (auto simp: is_ok_iff)
next
  case True
  then have known: "list_all (\<lambda>v. provider_id_of (var_provider v) \<noteq> None) (img_variants img)"
    and dist: "distinct (map (\<lambda>v. provider_id_of (var_provider v)) (img_variants img))"
    by (simp_all add: inputs_ok_def)
  note mem = image_candidates_mem [OF known, of _ h img probes i]
  note choose = choose_candidate_distinct [OF image_candidates_distinct [OF known dist],
      of h img probes i _ plan]
  obtain rej where res: "resolve_run_execution_plan h img probes i =
    (if img_variants img = [] \<or> (\<exists>p. selected_provider i = Some p \<and> Some p \<notin> variant_providers img)
     then Inl RS_IncompatibleImageVariant
     else choose_candidate (image_candidates h img probes i (img_variants img), rej))"
    using resolve_ok_candidates [OF True] by blast
  have sel: "selected_provider i = None \<or> selected_provider i = Some p" if "path_viable h img probes i p e" for p e
    using that by (auto simp: path_viable_def)
  show ?thesis
  proof (cases "img_variants img = [] \<or> (\<exists>p. selected_provider i = Some p \<and> Some p \<notin> variant_providers img)")
    case empty: True
    then show ?thesis unfolding res using sel by fastforce
  next
    case False
    have "resolve_run_execution_plan h img probes i = Inr plan \<longleftrightarrow>
      (\<exists>k. (k, plan) \<in> set (image_candidates h img probes i (img_variants img))
        \<and> (\<forall>(k', _) \<in> set (image_candidates h img probes i (img_variants img)). k \<le> k'))"
      unfolding res if_not_P [OF False] by (rule choose)
    with True show ?thesis
      by (simp add: mem path_candidate_def Ball_def) blast
  qed
qed

lemma viable_minimum:
  assumes "V p" shows "\<exists>q. V q \<and> (\<forall>q'. V q' \<longrightarrow> native_provider_rank h q \<le> native_provider_rank h q')"
proof -
  have "\<exists>q. V q \<and> native_provider_rank h q = Min (native_provider_rank h ` Collect V)"
    using Min_in [of "native_provider_rank h ` Collect V"] assms
    by (metis (mono_tags, lifting) empty_iff finite finite_imageI imageE imageI mem_Collect_eq)
  then show ?thesis by (metis Min_le finite finite_imageI imageI mem_Collect_eq)
qed

lemma chosen_accelerator_tcg:
  assumes "inputs_ok img probes i" "selected_provider i \<in> {None, Some p}"
  shows "chosen_accelerator h i p = Acc_Tcg \<longleftrightarrow> in_allow_tcg i"
proof -
  have tcg: "in_allow_tcg i \<longleftrightarrow> in_explicit_accelerator i = Some Req_Tcg"
    and hv: "in_explicit_accelerator i \<noteq> None \<Longrightarrow> in_explicit_provider i \<noteq> Some Prov_Hyperv"
    using assms(1) by (auto simp: inputs_ok_def validate_tcg_intent_def Let_def split: if_splits)
  have ex: "exact a = Some Acc_Tcg \<longleftrightarrow> a = Req_Tcg" for a
    by (cases a) simp_all
  have nat: "native_qemu_accelerator x \<noteq> Acc_Tcg" for x
    by (cases x) (simp_all add: native_qemu_accelerator_def)
  show ?thesis
    using assms(2) hv
    by (cases "in_explicit_accelerator i"; cases "in_explicit_provider i"; cases p)
      (auto simp: tcg chosen_accelerator_def selected_provider_def ex nat split: option.splits)
qed

definition probe_consistent :: "provider_probe \<Rightarrow> bool" where
  "probe_consistent probe \<longleftrightarrow>
     (case provider_id_of (pp_name probe) of None \<Rightarrow> False
      | Some p \<Rightarrow> pp_available probe = (pp_status probe = Probe_Ready)
          \<and> (if pp_status probe = Probe_Ready then probe_capabilities_ok p (pp_capabilities probe)
             else pp_capabilities probe = capabilities_unavailable))"

lemma validate_probes_Cons:
  "validate_probes_from seen (probe # rest) = Inr () \<longleftrightarrow>
     probe_consistent probe \<and> provider_rank (the (provider_id_of (pp_name probe))) \<notin> seen
     \<and> validate_probes_from (insert (provider_rank (the (provider_id_of (pp_name probe)))) seen) rest = Inr ()"
  by (simp add: probe_consistent_def split: option.split)

lemma validate_probes_each:
  "validate_probes_from seen probes = Inr () \<Longrightarrow> probe \<in> set probes \<Longrightarrow> probe_consistent probe"
proof (induction probes arbitrary: seen)
  case (Cons x xs)
  then show ?case unfolding validate_probes_Cons by auto
qed simp

lemma filter_distinct_length:
  "distinct (map f xs) \<Longrightarrow> y \<in> f ` set xs \<Longrightarrow> length (filter (\<lambda>x. f x = y) xs) = 1"
proof (induction xs)
  case (Cons x xs)
  have "y \<notin> f ` set xs \<Longrightarrow> filter (\<lambda>x. f x = y) xs = []"
    by (auto simp: filter_empty_conv)
  with Cons show ?case by auto
qed simp

lemma plan_for_simps [simp]:
  "rp_provider (plan_for h img i p a e) = p" "rp_accelerator (plan_for h img i p a e) = a"
  "rp_support_status (plan_for h img i p a e) = sm_status e"
  "\<not> rp_authorizing (plan_for h img i p a e)"
  "rp_selection_source (plan_for h img i p a e) = selection_source i"
  by (simp_all add: plan_for_def)

lemma plan_key_row:
  "row_matches h img p a e \<Longrightarrow> plan_key (plan_for h img i p a e) = sm_key e"
  by (cases "sm_key e") (auto simp: plan_key_def plan_for_def row_matches_def)

text \<open>
  C38: a plan is produced exactly when the inputs are consistent and some declared, selectable path
  is viable on the ready providers; the plan is then one of the viable paths, of the provider
  ranked first on this host, and it is never authorizing.
\<close>

theorem run_plan_resolution_complete:
  "(is_ok (resolve_run_execution_plan h img probes i) \<longleftrightarrow>
      inputs_ok img probes i \<and> (\<exists>p e. Some p \<in> variant_providers img \<and> e \<in> set SUPPORT_MATRIX
        \<and> path_viable h img probes i p e))
   \<and> (\<forall>plan. resolve_run_execution_plan h img probes i = Inr plan \<longrightarrow>
        \<not> rp_authorizing plan
        \<and> (\<exists>e \<in> set SUPPORT_MATRIX. path_viable h img probes i (rp_provider plan) e
             \<and> plan_key plan = sm_key e \<and> rp_support_status plan = sm_status e)
        \<and> (\<forall>p e. Some p \<in> variant_providers img \<and> e \<in> set SUPPORT_MATRIX
             \<and> path_viable h img probes i p e \<longrightarrow>
             native_provider_rank (hp_os h) (rp_provider plan) \<le> native_provider_rank (hp_os h) p))"
proof (intro conjI allI impI)
  show "is_ok (resolve_run_execution_plan h img probes i) \<longleftrightarrow>
      inputs_ok img probes i \<and> (\<exists>p e. Some p \<in> variant_providers img \<and> e \<in> set SUPPORT_MATRIX
        \<and> path_viable h img probes i p e)" (is "_ \<longleftrightarrow> _ \<and> (\<exists>p. ?V p)")
  proof
    assume r: "inputs_ok img probes i \<and> (\<exists>p e. Some p \<in> variant_providers img
        \<and> e \<in> set SUPPORT_MATRIX \<and> path_viable h img probes i p e)"
    then obtain p where p: "?V p" by blast
    from viable_minimum [of ?V, OF p, of "hp_os h"] r show "is_ok (resolve_run_execution_plan h img probes i)"
      unfolding is_ok_iff resolve_plan_iff by blast
  qed (auto simp: is_ok_iff resolve_plan_iff)
next
  fix plan
  assume res: "resolve_run_execution_plan h img probes i = Inr plan"
  then obtain p e where *: "e \<in> set SUPPORT_MATRIX" "path_viable h img probes i p e"
      "plan = plan_for h img i p (chosen_accelerator h i p) e"
    and min: "\<forall>p' e'. Some p' \<in> variant_providers img \<and> e' \<in> set SUPPORT_MATRIX
      \<and> path_viable h img probes i p' e' \<longrightarrow> native_provider_rank (hp_os h) p \<le> native_provider_rank (hp_os h) p'"
    unfolding resolve_plan_iff by blast
  have plan: "rp_provider plan = p" "rp_support_status plan = sm_status e" "plan_key plan = sm_key e"
    using * by (auto simp: path_viable_def plan_key_row)
  show "\<not> rp_authorizing plan" by (simp add: *)
  show "\<exists>e \<in> set SUPPORT_MATRIX. path_viable h img probes i (rp_provider plan) e
      \<and> plan_key plan = sm_key e \<and> rp_support_status plan = sm_status e"
    using * plan by (intro bexI [of _ e]) auto
  show "native_provider_rank (hp_os h) (rp_provider plan) \<le> native_provider_rank (hp_os h) p'"
    if "Some p' \<in> variant_providers img \<and> e' \<in> set SUPPORT_MATRIX \<and> path_viable h img probes i p' e'" for p' e'
    using that min plan(1) by blast
qed

definition sample_image :: image_record where
  "sample_image =
     \<lparr>img_schema_version = 1, img_id = ImageId ''linux'', img_guest_os = Os_Linux, img_guest_arch = X86_64,
      img_variants = [\<lparr>var_provider = ''qemu'', var_disk_format = ''qcow2'', var_path = ''/images/linux.qcow2'',
        var_sha256 = replicate 64 CHR ''a'', var_file_size = 1024\<rparr>],
      img_registered_at = 0\<rparr>"

definition sample_probe :: provider_probe where
  "sample_probe =
     \<lparr>pp_name = ''qemu'', pp_status = Probe_Ready, pp_available = True, pp_detail = [],
      pp_capabilities = \<lparr>cap_schema_version = 1, cap_full_system_vm = True, cap_cow_overlay = True,
        cap_hardware_acceleration = True, cap_accelerators = [''kvm'', ''tcg''], cap_guest_os = [''linux''],
        cap_guest_arch = [''x86_64''], cap_guest_transports = [''qga''], cap_networkless_guest_exec = True\<rparr>\<rparr>"

definition sample_host :: host_platform where
  "sample_host = \<lparr>hp_os = Host_Linux, hp_architecture = X86_64\<rparr>"

definition sample_intent :: run_selection_intent where
  "sample_intent = \<lparr>in_explicit_provider = None, in_config_provider_preference = None,
     in_explicit_accelerator = Some Req_Tcg, in_allow_tcg = True\<rparr>"

definition sample_plan :: run_execution_plan where
  "sample_plan = plan_for sample_host sample_image sample_intent Prov_Qemu Acc_Tcg
     (sm_row Host_Linux X86_64 Prov_Qemu Acc_Tcg Os_Linux X86_64 Tr_Qga Sup_DevelopmentOnly)"

lemma sample_resolution:
  "resolve_run_execution_plan sample_host sample_image [sample_probe] sample_intent = Inr sample_plan"
  by code_simp

theorem run_plan_resolution_complete_witness:
  "is_ok (resolve_run_execution_plan sample_host sample_image [sample_probe] sample_intent)
   \<and> \<not> rp_authorizing sample_plan \<and> (\<exists>e \<in> set SUPPORT_MATRIX. plan_key sample_plan = sm_key e)"
  using run_plan_resolution_complete [of sample_host sample_image "[sample_probe]" sample_intent]
    sample_resolution
  by auto

text \<open>
  TCG is never chosen silently, and an explicit choice is never overridden.  In a resolved plan
  the accelerator is TCG exactly when the user both asked for it and allowed it; an explicit
  provider is the plan's provider, and any explicit accelerator selects QEMU.
\<close>

theorem run_plan_respects_intent:
  assumes "resolve_run_execution_plan h img probes i = Inr plan"
  shows "(rp_accelerator plan = Acc_Tcg \<longleftrightarrow> in_allow_tcg i \<and> in_explicit_accelerator i = Some Req_Tcg)
    \<and> (\<forall>p. in_explicit_provider i = Some p \<longrightarrow> rp_provider plan = p)
    \<and> (in_explicit_accelerator i \<noteq> None \<longrightarrow> rp_provider plan = Prov_Qemu)
    \<and> (\<forall>a. in_explicit_accelerator i = Some a \<and> exact a \<noteq> None \<longrightarrow> exact a = Some (rp_accelerator plan))
    \<and> (rp_selection_source plan = Src_NativeDefault \<longleftrightarrow> selected_provider i = None)"
proof -
  obtain p e where ok: "inputs_ok img probes i" and via: "path_viable h img probes i p e"
    and plan: "plan = plan_for h img i p (chosen_accelerator h i p) e"
    using assms unfolding resolve_plan_iff by blast
  have sel: "selected_provider i \<in> {None, Some p}"
    using via by (simp add: path_viable_def)
  have tcg: "in_allow_tcg i \<longleftrightarrow> in_explicit_accelerator i = Some Req_Tcg"
    and hv: "in_explicit_accelerator i \<noteq> None \<Longrightarrow> in_explicit_provider i \<noteq> Some Prov_Hyperv"
    using ok by (auto simp: inputs_ok_def validate_tcg_intent_def Let_def split: if_splits)
  have qemu: "in_explicit_accelerator i \<noteq> None \<Longrightarrow> p = Prov_Qemu"
    using sel hv
    by (cases "in_explicit_provider i"; cases p) (auto simp: selected_provider_def split: option.splits)
  show ?thesis
    unfolding plan plan_for_simps chosen_accelerator_tcg [OF ok sel]
    using sel tcg qemu
    by (auto simp: selected_provider_def selection_source_def chosen_accelerator_def
        split: option.splits if_splits provider_id.splits)
qed

theorem run_plan_respects_intent_witness:
  "resolve_run_execution_plan sample_host sample_image [sample_probe] sample_intent = Inr sample_plan
   \<and> rp_accelerator sample_plan = Acc_Tcg \<and> rp_provider sample_plan = Prov_Qemu"
  using run_plan_respects_intent [OF sample_resolution] sample_resolution
  by (simp add: sample_intent_def)

text \<open>
  A freshly resolved plan revalidates.  The provider's probe among the evidence the plan was
  resolved from passes \<open>revalidate_run_execution_plan\<close>, so revalidation only fails when the
  evidence has changed.
\<close>

theorem resolved_plan_revalidates:
  assumes "resolve_run_execution_plan h img probes i = Inr plan"
  shows "\<exists>probe \<in> set probes. pp_name probe = provider_as_str (rp_provider plan)
    \<and> revalidate_run_execution_plan plan h img probe = Inr ()"
proof -
  obtain p e where ok: "inputs_ok img probes i" and via: "path_viable h img probes i p e"
    and p: "Some p \<in> variant_providers img" and e: "e \<in> set SUPPORT_MATRIX"
    and plan: "plan = plan_for h img i p (chosen_accelerator h i p) e"
    using assms unfolding resolve_plan_iff by blast
  from via obtain probe where find: "find (\<lambda>probe. pp_name probe = provider_as_str p) probes = Some probe"
    and ready: "pp_status probe = Probe_Ready" "pp_available probe"
      "contains_str (cap_guest_os (pp_capabilities probe)) (guest_os_name (img_guest_os img))"
      "contains_str (cap_guest_arch (pp_capabilities probe)) (architecture_name (img_guest_arch img))"
      "contains_str (cap_accelerators (pp_capabilities probe)) (accelerator_as_str (chosen_accelerator h i p))"
      "transport_available (pp_capabilities probe) e"
    and row: "row_matches h img p (chosen_accelerator h i p) e" "sm_status e \<noteq> Sup_Unsupported"
    by (auto simp: path_viable_def split: option.splits)
  from find have mem: "probe \<in> set probes" and name: "pp_name probe = provider_as_str p"
    by (auto simp: find_Some_iff)
  have "probe_consistent probe"
    using ok mem validate_probes_each by (auto simp: inputs_ok_def validate_probe_snapshots_def)
  then have snap: "validate_probe_snapshots [probe] = Inr ()"
    unfolding validate_probe_snapshots_def validate_probes_Cons by simp
  have count: "length (filter (\<lambda>v. provider_id_of (var_provider v) = Some p) (img_variants img)) = 1"
    using ok p by (intro filter_distinct_length) (auto simp: inputs_ok_def)
  have sup: "support_for (plan_key plan) = Inr e"
    unfolding plan plan_key_row [OF row(1)] support_for_iff using e by simp
  have "revalidate_run_execution_plan plan h img probe = Inr ()"
    unfolding revalidate_run_execution_plan_def sup Let_def
    using ready row snap count name
    by (simp add: plan plan_for_def transport_available_def)
  with mem name show ?thesis by (auto simp: plan)
qed

theorem resolved_plan_revalidates_witness:
  "revalidate_run_execution_plan sample_plan sample_host sample_image sample_probe = Inr ()"
  using resolved_plan_revalidates [OF sample_resolution] by simp

text \<open>
  With the declared matrix, \<open>Ambiguous\<close> only ever reports an image manifest with two variants
  for one provider; two providers are never equally preferred, and no provider has two selectable
  paths.
\<close>

theorem ambiguous_only_for_duplicate_variants:
  assumes "resolve_run_execution_plan h img probes i = Inl RS_Ambiguous"
  shows "\<not> distinct (map (\<lambda>v. provider_id_of (var_provider v)) (img_variants img))"
proof
  assume dist: "distinct (map (\<lambda>v. provider_id_of (var_provider v)) (img_variants img))"
  have chk: "check_variant_providers {} (img_variants img) \<noteq> Inl RS_Ambiguous"
    using check_variant_providers_ambiguous [of "{}" "img_variants img"] dist by auto
  have probes: "validate_probes_from seen ps \<noteq> Inl RS_Ambiguous" for seen ps
    by (induction ps arbitrary: seen) (auto split: option.splits)
  have ok: "inputs_ok img probes i"
    using assms chk dist check_variant_providers_ok [of "{}" "img_variants img"] probes
    by (auto simp: resolve_run_execution_plan_def resolve_run_execution_plan_with_matrix_def
        inputs_ok_def res_bind_def validate_probe_snapshots_def validate_tcg_intent_def Let_def
        split: sum.splits if_splits)
  then have known: "list_all (\<lambda>v. provider_id_of (var_provider v) \<noteq> None) (img_variants img)"
    by (simp add: inputs_ok_def)
  obtain rej where "choose_candidate (image_candidates h img probes i (img_variants img), rej) = Inl RS_Ambiguous"
    using resolve_ok_candidates [OF ok, of h] assms by (auto split: if_splits)
  moreover have "choose_candidate (cs, rej) \<noteq> Inl RS_Ambiguous" if "distinct (map fst cs)" for cs rej
    using choose_candidate_ok [OF that, of rej] by (auto simp: rejection_error_def split: if_splits)
  ultimately show False
    using image_candidates_distinct [OF known dist] by blast
qed

theorem ambiguous_only_for_duplicate_variants_witness:
  "resolve_run_execution_plan sample_host
     (sample_image\<lparr>img_variants := img_variants sample_image @ img_variants sample_image\<rparr>)
     [sample_probe] sample_intent = Inl RS_Ambiguous
   \<and> \<not> distinct (map (\<lambda>v. provider_id_of (var_provider v))
        (img_variants sample_image @ img_variants sample_image))"
proof -
  have "resolve_run_execution_plan sample_host
     (sample_image\<lparr>img_variants := img_variants sample_image @ img_variants sample_image\<rparr>)
     [sample_probe] sample_intent = Inl RS_Ambiguous"
    by code_simp
  with ambiguous_only_for_duplicate_variants [OF this] show ?thesis by simp
qed

end
