(* ===== verification/GuestIo.thy ===== *)
theory GuestIo
  imports Provider
begin

section \<open>The guest interface\<close>

text \<open>
  \<open>guest/mod.rs\<close>: credentials, guest-relative paths, commands, the transport trait (a record of
  operations over the transport's own state \<open>'g\<close>) and \<open>GuestActionAuthority\<close>, the token each
  guest action presents.  A \<open>Duration\<close> is a number of nanoseconds.
\<close>

type_synonym duration = nat

definition duration_from_secs :: "u64 \<Rightarrow> duration" where
  "duration_from_secs s = unat s * 1000000000"

definition DEFAULT_READINESS_TIMEOUT_SECONDS :: u64 where "DEFAULT_READINESS_TIMEOUT_SECONDS = 120"
definition DEFAULT_ACTION_TIMEOUT_SECONDS :: u64 where "DEFAULT_ACTION_TIMEOUT_SECONDS = 300"
definition DEFAULT_MAX_OUTPUT_BYTES :: u64 where "DEFAULT_MAX_OUTPUT_BYTES = 1048576"
definition DEFAULT_MAX_COPY_BYTES :: u64 where "DEFAULT_MAX_COPY_BYTES = 67108864"
definition MAX_ACTION_TIMEOUT_SECONDS :: u64 where "MAX_ACTION_TIMEOUT_SECONDS = 3600"
definition MAX_OUTPUT_BYTES :: u64 where "MAX_OUTPUT_BYTES = 16777216"
definition MAX_COPY_BYTES :: u64 where "MAX_COPY_BYTES = 67108864"

datatype guest_io_error =
  GE_NotImplemented string
| GE_InvalidRequest string
| GE_PathViolation
| GE_OwnershipChanged
| GE_GuestNotReady
| GE_AuthenticationFailed
| GE_SessionFailed
| GE_Timeout
| GE_OutputLimit
| GE_InvalidResponse
| GE_PartialCopy
| GE_Transport

subsection \<open>Credentials\<close>

record guest_credentials =
  gc_username :: string
  gc_password :: string

definition guest_credentials_new :: "string \<Rightarrow> string \<Rightarrow> guest_io_error + guest_credentials" where
  "guest_credentials_new username password =
     (if is_blank username \<or> 256 < length username \<or> contains_char username nul \<or> any_control username
      then Inl (GE_InvalidRequest ''guest username is outside the supported bounds'')
      else if password = [] \<or> 4096 < length password \<or> contains_char password nul
      then Inl (GE_InvalidRequest ''guest password is outside the supported bounds'')
      else Inr \<lparr>gc_username = username, gc_password = password\<rparr>)"

definition credentials_not_required :: guest_credentials where
  "credentials_not_required = \<lparr>gc_username = [], gc_password = []\<rparr>"

subsection \<open>Guest paths\<close>

datatype guest_path = GuestPath (guest_path_str: string)

definition superscript_one :: string where "superscript_one = [CHR 0xC2, CHR 0xB9]"
definition superscript_two :: string where "superscript_two = [CHR 0xC2, CHR 0xB2]"
definition superscript_three :: string where "superscript_three = [CHR 0xC2, CHR 0xB3]"

definition windows_device_names :: "string list" where
  "windows_device_names =
     [''CON'', ''PRN'', ''AUX'', ''NUL'', ''COM1'', ''COM2'', ''COM3'', ''COM4'', ''COM5'', ''COM6'',
      ''COM7'', ''COM8'', ''COM9'', ''COM'' @ superscript_one, ''COM'' @ superscript_two,
      ''COM'' @ superscript_three, ''LPT1'', ''LPT2'', ''LPT3'', ''LPT4'', ''LPT5'', ''LPT6'',
      ''LPT7'', ''LPT8'', ''LPT9'', ''LPT'' @ superscript_one, ''LPT'' @ superscript_two,
      ''LPT'' @ superscript_three]"

definition is_windows_device_name :: "string \<Rightarrow> bool" where
  "is_windows_device_name segment =
     (let base = hd (split_on CHR ''.'' segment)
      in contains_str windows_device_names (to_ascii_uppercase base))"

definition unsafe_segment :: "string \<Rightarrow> bool" where
  "unsafe_segment segment \<longleftrightarrow>
     segment = [] \<or> segment = ''.'' \<or> segment = ''..''
     \<or> last segment = CHR ''.'' \<or> last segment = CHR '' '' \<or> is_windows_device_name segment"

definition guest_path_parse :: "string \<Rightarrow> guest_io_error + guest_path" where
  "guest_path_parse v =
     (if v = [] \<or> hd v = backslash \<or> hd v = CHR ''/'' \<or> contains_char v CHR '':''
        \<or> contains_char v nul \<or> any_control v
      then Inl GE_PathViolation
      else (let normalized = replace_char CHR ''/'' backslash v;
                segments = split_on backslash normalized
        in if list_ex unsafe_segment segments then Inl GE_PathViolation
           else Inr (GuestPath normalized)))"

definition guest_path_file_name :: "guest_path \<Rightarrow> string" where
  "guest_path_file_name p = last (split_on backslash (guest_path_str p))"

definition as_posix :: "guest_path \<Rightarrow> string" where
  "as_posix p = replace_char backslash CHR ''/'' (guest_path_str p)"

subsection \<open>Commands and policies\<close>

datatype overwrite_policy = Overwrite_Deny | Overwrite_Replace

record readiness_policy =
  rd_timeout :: duration
  rd_poll_interval :: duration

definition readiness_policy_default :: readiness_policy where
  "readiness_policy_default =
     \<lparr>rd_timeout = duration_from_secs DEFAULT_READINESS_TIMEOUT_SECONDS,
      rd_poll_interval = duration_from_secs 2\<rparr>"

datatype guest_readiness = GR_Ready | GR_GuestNotReady | GR_AuthenticationFailed | GR_SessionFailed

record guest_command =
  gcmd_program :: string
  gcmd_args :: "string list"
  gcmd_timeout :: duration
  gcmd_max_output_bytes :: u64

definition guest_command_validate :: "guest_command \<Rightarrow> guest_io_error + unit" where
  "guest_command_validate c =
     (if is_blank (gcmd_program c) \<or> contains_char (gcmd_program c) nul
        \<or> list_ex (\<lambda>a. contains_char a nul) (gcmd_args c)
      then Inl (GE_InvalidRequest ''guest program and arguments must contain no NUL'')
      else if gcmd_timeout c = 0 \<or> duration_from_secs MAX_ACTION_TIMEOUT_SECONDS < gcmd_timeout c
      then Inl (GE_InvalidRequest ''guest action timeout is outside the supported bounds'')
      else if gcmd_max_output_bytes c = 0 \<or> MAX_OUTPUT_BYTES < gcmd_max_output_bytes c
      then Inl (GE_InvalidRequest ''guest output limit is outside the supported bounds'')
      else Inr ())"

record guest_command_result =
  gr_exit_code :: i32
  gr_stdout :: string
  gr_stderr :: string
  gr_encoding :: string
  gr_stdout_bytes :: u64
  gr_stderr_bytes :: u64
  gr_truncated :: bool

record guest_copy_in_action =
  ci_operation_id :: guest_operation_id
  ci_destination :: guest_path
  ci_content :: string
  ci_overwrite :: overwrite_policy
  ci_timeout :: duration

record guest_copy_out_action =
  cp_operation_id :: guest_operation_id
  cp_source :: guest_path
  cp_max_bytes :: u64
  cp_timeout :: duration

subsection \<open>Action authority\<close>

definition path_identity_equal :: "path \<Rightarrow> path \<Rightarrow> bool" where
  "path_identity_equal l r = eq_ignore_ascii_case (windows_normalize l) (windows_normalize r)"

record guest_action_authority =
  ga_install_id :: uuid
  ga_cell_id :: cell_id
  ga_provider_id :: string
  ga_provider :: string
  ga_provider_name :: string
  ga_provider_marker :: string
  ga_configuration_path :: path
  ga_overlay_path :: path
  ga_cpu_count :: u16
  ga_memory_mib :: u64
  ga_installation :: installation_authority
  ga_runtime :: cell_runtime_guard

definition guest_authority_validate ::
  "guard_status \<Rightarrow> guest_action_authority \<Rightarrow> provider_vm \<Rightarrow> guest_io_error + unit" where
  "guest_authority_validate g a vm =
     res_bind (ensure (gs_mutation_identity g) GE_OwnershipChanged) (\<lambda>_.
       if ga_install_id a \<noteq> inst_install_id (ga_installation a)
         \<or> ga_cell_id a \<noteq> rt_cell_id (ga_runtime a)
         \<or> ga_provider a \<notin> {''hyperv'', ''qemu''}
         \<or> vm_id vm \<noteq> ga_provider_id a
         \<or> vm_name vm \<noteq> ga_provider_name a
         \<or> vm_ownership_marker vm \<noteq> ga_provider_marker a
         \<or> \<not> path_identity_equal (vm_configuration_path vm) (ga_configuration_path a)
         \<or> \<not> (case vm_attached_disks vm of [d] \<Rightarrow> path_identity_equal d (ga_overlay_path a) | _ \<Rightarrow> False)
         \<or> vm_network_adapter_count vm \<noteq> 0
         \<or> vm_cpu_count vm \<noteq> ga_cpu_count a
         \<or> vm_memory_mib vm \<noteq> ga_memory_mib a
         \<or> vm_power_state vm \<noteq> Power_Running
       then Inl GE_OwnershipChanged else Inr ())"

definition guest_authority_new ::
  "guard_status \<Rightarrow> cell_record \<Rightarrow> provider_vm \<Rightarrow> installation_authority \<Rightarrow> cell_runtime_guard
    \<Rightarrow> guest_io_error + guest_action_authority" where
  "guest_authority_new g r vm inst rt =
     res_bind (ok_or (cell_provider_object r) GE_OwnershipChanged) (\<lambda>obj.
       let a = \<lparr>ga_install_id = own_install_id (cell_ownership r), ga_cell_id = cell_record.cell_id r,
                 ga_provider_id = poi_id obj, ga_provider = cell_provider r,
                 ga_provider_name = own_provider_object_name (cell_ownership r),
                 ga_provider_marker = own_provider_marker (cell_ownership r),
                 ga_configuration_path = own_configuration_path (cell_ownership r),
                 ga_overlay_path = own_overlay_path (cell_ownership r),
                 ga_cpu_count = spec_cpu_count (cell_spec r),
                 ga_memory_mib = spec_memory_mib (cell_spec r),
                 ga_installation = inst, ga_runtime = rt\<rparr>
       in res_bind (guest_authority_validate g a vm) (\<lambda>_. Inr a))"

subsection \<open>The transport trait\<close>

record 'g guest_transport =
  gt_name :: string
  gt_supports :: "string \<Rightarrow> guest_os \<Rightarrow> bool"
  gt_probe_ready :: "guest_action_authority \<Rightarrow> provider_vm \<Rightarrow> guest_credentials \<Rightarrow> duration
      \<Rightarrow> ('g, guest_io_error, guest_readiness) eff"
  gt_exec :: "guest_action_authority \<Rightarrow> provider_vm \<Rightarrow> guest_credentials \<Rightarrow> guest_command
      \<Rightarrow> ('g, guest_io_error, guest_command_result) eff"
  gt_copy_in :: "guest_action_authority \<Rightarrow> provider_vm \<Rightarrow> guest_credentials \<Rightarrow> guest_copy_in_action
      \<Rightarrow> ('g, guest_io_error, unit) eff"
  gt_copy_out :: "guest_action_authority \<Rightarrow> provider_vm \<Rightarrow> guest_credentials \<Rightarrow> guest_copy_out_action
      \<Rightarrow> ('g, guest_io_error, string) eff"

definition default_transport :: "string \<Rightarrow> 'g guest_transport" where
  "default_transport name =
     \<lparr>gt_name = name, gt_supports = (\<lambda>_ _. False),
      gt_probe_ready = (\<lambda>_ _ _ _. throw (GE_NotImplemented name)),
      gt_exec = (\<lambda>_ _ _ _. throw (GE_NotImplemented name)),
      gt_copy_in = (\<lambda>_ _ _ _. throw (GE_NotImplemented name)),
      gt_copy_out = (\<lambda>_ _ _ _. throw (GE_NotImplemented name))\<rparr>"

subsection \<open>Lemmas\<close>

interpretation gid: path_identity path_identity_equal
  by unfold_locales (auto simp: path_identity_equal_def eq_ignore_ascii_case_def)

lemma byte_separators [simp]: "byte CHR ''/'' = 47" "byte backslash = 92"
  by (simp_all add: byte_def backslash_def)

lemma backslash_neq [simp]: "backslash \<noteq> CHR ''/''" "CHR ''/'' \<noteq> backslash" "backslash \<noteq> CHR '':''"
    "nul \<noteq> CHR ''/''" "backslash \<noteq> nul" "CHR '':'' \<noteq> backslash" "nul \<noteq> backslash"
  by (simp_all add: backslash_def nul_def)

definition guest_path_ok :: "string \<Rightarrow> bool" where
  "guest_path_ok v \<longleftrightarrow>
     CHR ''/'' \<notin> set v \<and> CHR '':'' \<notin> set v \<and> nul \<notin> set v \<and> \<not> any_control v
     \<and> list_all (\<lambda>seg. \<not> unsafe_segment seg) (split_on backslash v)"

lemma any_control_replace:
  assumes "is_utf8 v" "\<not> any_control v"
  shows "\<not> any_control (replace_char CHR ''/'' backslash v)"
  using chars_replace [OF assms(1), of "CHR ''/''" backslash] assms(2)
  by (auto simp: any_control_def list_ex_iff char_is_control_def)

lemma guest_path_parse_ok:
  assumes "is_utf8 v" "guest_path_parse v = Inr p"
  shows "guest_path_str p = replace_char CHR ''/'' backslash v \<and> guest_path_ok (guest_path_str p)"
  using assms any_control_replace [OF assms(1)]
  by (auto simp: guest_path_parse_def guest_path_ok_def contains_char_def Let_def list_all_iff
      list_ex_iff replace_char_absent split: if_splits)
    (auto simp: replace_char_def split: if_splits)

lemma guest_path_ok_nonempty:
  assumes "guest_path_ok v" shows "v \<noteq> [] \<and> hd v \<noteq> backslash \<and> hd v \<noteq> CHR ''/''"
  using assms by (cases v) (auto simp: guest_path_ok_def unsafe_segment_def split: if_splits)

lemma guest_path_ok_parses: "guest_path_ok v \<Longrightarrow> guest_path_parse v = Inr (GuestPath v)"
  using guest_path_ok_nonempty [of v]
  by (auto simp: guest_path_parse_def guest_path_ok_def contains_char_def replace_char_id Let_def
      list_all_iff list_ex_iff)

lemma components_segments:
  assumes "\<And>seg. seg \<in> set (split_on CHR ''/'' s) \<Longrightarrow> seg \<notin> {[], ''.'', ''..''}"
  shows "components s = map Normal (split_on CHR ''/'' s)"
proof -
  have "s \<noteq> []" using assms by force
  moreover have "hd s \<noteq> CHR ''/''"
    using assms [of "[]"] by (cases s) auto
  moreover have "hd (split_on CHR ''/'' s) \<noteq> ''.''"
    using assms [of "hd (split_on CHR ''/'' s)"] by auto
  moreover have "filter (\<lambda>seg. seg \<noteq> [] \<and> seg \<noteq> ''.'') (split_on CHR ''/'' s) = split_on CHR ''/'' s"
    using assms by (auto simp: filter_id_conv)
  moreover have "map path_part (split_on CHR ''/'' s) = map Normal (split_on CHR ''/'' s)"
    using assms by (auto simp: path_part_def)
  ultimately show ?thesis by (simp add: components_def)
qed

lemma components_append_slash:
  "components (w @ CHR ''/'' # q) =
     components (w @ ''/'') @ map path_part (filter (\<lambda>s. s \<noteq> [] \<and> s \<noteq> ''.'') (split_on CHR ''/'' q))"
proof -
  have "starts_with (w @ CHR ''/'' # q) ''/'' \<longleftrightarrow> starts_with (w @ ''/'') ''/''" by (cases w) auto
  moreover have "hd (split_on CHR ''/'' (w @ CHR ''/'' # q)) = hd (split_on CHR ''/'' (w @ ''/''))"
    by (simp add: split_on_append)
  ultimately show ?thesis
    by (simp add: components_def split_on_append Let_def)
qed

lemma components_slash:
  assumes "w \<noteq> []" shows "components (w @ ''/'') = components w"
proof -
  have "split_on CHR ''/'' (w @ ''/'') = split_on CHR ''/'' w @ [[]]"
    using split_on_append [of _ w "[]"] by simp
  then show ?thesis
    using assms by (simp add: components_def Let_def)
qed

lemma components_path_join:
  assumes "w \<noteq> []" "components q = map Normal (split_on CHR ''/'' q)"
  shows "components (path_join w q) = components w @ components q"
proof -
  have rel: "\<not> is_absolute q"
    using assms(2) by (auto simp: is_absolute_def components_def Let_def)
  have parts: "map path_part (filter (\<lambda>s. s \<noteq> [] \<and> s \<noteq> ''.'') (split_on CHR ''/'' q)) = components q"
    using assms(2) rel
    by (cases "split_on CHR ''/'' q")
      (auto simp: components_def is_absolute_def Let_def split: if_splits)
  show ?thesis
  proof (cases "last w = CHR ''/''")
    case True
    then obtain u where w: "w = u @ ''/''"
      using assms(1) by (metis append_butlast_last_id)
    with rel True show ?thesis
      using components_append_slash [of u q] parts by (simp add: path_join_def)
  next
    case False
    with rel assms(1) show ?thesis
      using components_append_slash [of w q] parts by (simp add: path_join_def components_slash)
  qed
qed

text \<open>
  C39: an accepted guest path cannot leave the workspace it is joined to, in either separator
  convention.  Its segments are non-empty, none is a dot segment, a Windows device name or ends in
  a dot or a space; joining its POSIX form below any directory appends exactly these segments as
  normal components; and both renderings parse back to the same path.
\<close>

theorem guest_path_confined:
  assumes "is_utf8 v" and "guest_path_parse v = Inr p" and "workspace \<noteq> []"
  shows "components (path_join workspace (as_posix p))
      = components workspace @ map Normal (split_on backslash (guest_path_str p))
    \<and> list_all (\<lambda>seg. \<not> unsafe_segment seg) (split_on backslash (guest_path_str p))
    \<and> CHR '':'' \<notin> set (guest_path_str p) \<and> \<not> any_control (guest_path_str p)
    \<and> guest_path_parse (guest_path_str p) = Inr p \<and> guest_path_parse (as_posix p) = Inr p"
proof -
  have str: "guest_path_str p = replace_char CHR ''/'' backslash v"
    and ok: "guest_path_ok (guest_path_str p)"
    using guest_path_parse_ok [OF assms(1,2)] by auto
  then have no_slash: "CHR ''/'' \<notin> set (guest_path_str p)" by (simp add: guest_path_ok_def)
  have split_eq: "split_on CHR ''/'' (as_posix p) = split_on backslash (guest_path_str p)"
    unfolding as_posix_def by (rule split_on_replace [OF no_slash])
  have segs: "seg \<notin> {[], ''.'', ''..''}" if "seg \<in> set (split_on backslash (guest_path_str p))" for seg
    using ok that by (auto simp: guest_path_ok_def list_all_iff unsafe_segment_def)
  have comp: "components (as_posix p) = map Normal (split_on CHR ''/'' (as_posix p))"
    using segs by (intro components_segments) (simp add: split_eq)
  have restore: "replace_char CHR ''/'' backslash (as_posix p) = guest_path_str p"
    unfolding as_posix_def by (rule replace_replace [OF no_slash])
  have "is_utf8 (guest_path_str p)"
    unfolding str using chars_replace [OF assms(1), of "CHR ''/''" backslash] by simp
  then have posix_chars: "set (chars (as_posix p)) \<subseteq> insert 47 (set (chars (guest_path_str p)))"
    using chars_replace [of "guest_path_str p" backslash "CHR ''/''"] by (simp add: as_posix_def)
  have "guest_path_parse (as_posix p) = Inr p"
    using ok guest_path_ok_nonempty [OF ok] posix_chars
    unfolding guest_path_parse_def restore
    by (cases p; cases "guest_path_str p")
      (auto simp: guest_path_ok_def as_posix_def contains_char_def replace_char_def any_control_def
        list_ex_iff list_all_iff char_is_control_def split: if_splits)
  then show ?thesis
    using comp ok guest_path_ok_parses [OF ok] components_path_join [OF assms(3) comp]
    by (simp add: split_eq guest_path_ok_def)
qed

theorem guest_path_confined_witness:
  "guest_path_parse ''results/output.txt'' =
     Inr (GuestPath (''results'' @ [backslash] @ ''output.txt''))
   \<and> components (path_join ''/workspace'' (as_posix (GuestPath (''results'' @ [backslash] @ ''output.txt''))))
     = components ''/workspace'' @ map Normal (split_on backslash (''results'' @ [backslash] @ ''output.txt''))"
proof -
  have parse: "guest_path_parse ''results/output.txt'' =
      Inr (GuestPath (''results'' @ [backslash] @ ''output.txt''))" by code_simp
  have "is_utf8 ''results/output.txt''" by code_simp
  from guest_path_confined [OF this parse, of "''/workspace''"] parse show ?thesis by simp
qed

text \<open>
  A guest action is only authorised on a running, network-less virtual machine that is the
  cell's own: constructing the authority succeeds only if the VM carries the recorded provider
  identity, name, marker, sole overlay disk, configuration path and resources, and the guards pin
  the same installation and cell.
\<close>

theorem guest_authority_sound:
  assumes "guest_authority_new g r vm inst rt = Inr a"
  shows "gs_mutation_identity g
    \<and> inst_install_id inst = own_install_id (cell_ownership r) \<and> rt_cell_id rt = cell_record.cell_id r
    \<and> cell_provider r \<in> {''hyperv'', ''qemu''}
    \<and> (\<exists>obj. cell_provider_object r = Some obj \<and> vm_id vm = poi_id obj)
    \<and> vm_name vm = own_provider_object_name (cell_ownership r)
    \<and> vm_ownership_marker vm = own_provider_marker (cell_ownership r)
    \<and> path_identity_equal (vm_configuration_path vm) (own_configuration_path (cell_ownership r))
    \<and> (\<exists>d. vm_attached_disks vm = [d] \<and> path_identity_equal d (own_overlay_path (cell_ownership r)))
    \<and> vm_network_adapter_count vm = 0 \<and> vm_power_state vm = Power_Running
    \<and> vm_cpu_count vm = spec_cpu_count (cell_spec r) \<and> vm_memory_mib vm = spec_memory_mib (cell_spec r)
    \<and> guest_authority_validate g a vm = Inr ()"
  using assms
  by (simp add: guest_authority_new_def Let_def) (auto simp: guest_authority_validate_def split: if_splits list.splits)

theorem guest_authority_sound_witness:
  "is_ok (guest_authority_new \<lparr>gs_mutation_identity = True, gs_runtime_identity = True\<rparr> sample_cell
     (sample_vm\<lparr>vm_power_state := Power_Running\<rparr>) sample_installation sample_runtime)
   \<and> inst_install_id sample_installation = own_install_id (cell_ownership sample_cell)"
proof -
  have "is_ok (guest_authority_new \<lparr>gs_mutation_identity = True, gs_runtime_identity = True\<rparr> sample_cell
     (sample_vm\<lparr>vm_power_state := Power_Running\<rparr>) sample_installation sample_runtime)"
    by (simp add: guest_authority_new_def guest_authority_validate_def gid.same_refl
        cell_ownership_new_def sample_defs Let_def ok_or_def ensure_def)
  with guest_authority_sound [of "\<lparr>gs_mutation_identity = True, gs_runtime_identity = True\<rparr>" sample_cell
      "sample_vm\<lparr>vm_power_state := Power_Running\<rparr>" sample_installation sample_runtime]
  show ?thesis by (auto simp: is_ok_iff)
qed

end
