(* ===== verification/JobSpec.thy ===== *)
theory JobSpec
  imports RunSelection GuestIo
begin

section \<open>Job specifications and plans\<close>

text \<open>
  \<open>core/job_spec.rs\<close> and \<open>core/job_plan.rs\<close>: validation of an untrusted job document into a bounded
  \<open>job_spec\<close>, and the descriptive plan resolved from it.  The TOML parser (crate \<open>toml\<close> with serde)
  is the argument \<open>toml\<close> of \<open>parse_job_spec\<close>: it yields the raw document or no result.
\<close>

definition JOB_SPEC_SCHEMA_VERSION :: u32 where "JOB_SPEC_SCHEMA_VERSION = 1"
definition JOB_SPEC_CONTRACT :: string where "JOB_SPEC_CONTRACT = ''vmcell.job-spec.v1''"
definition MAX_JOB_SPEC_BYTES :: u64 where "MAX_JOB_SPEC_BYTES = 64 * 1024"
definition MAX_JOB_COPY_IN_FILES :: nat where "MAX_JOB_COPY_IN_FILES = 16"
definition MIN_TTL_SECONDS :: u64 where "MIN_TTL_SECONDS = 1"
definition MAX_TTL_SECONDS :: u64 where "MAX_TTL_SECONDS = 31536000"

datatype job_accelerator = Job_Whpx | Job_Kvm | Job_Hvf | Job_Tcg

record job_command_spec =
  jcs_program :: string
  jcs_args :: "string list"

record job_cleanup_policy =
  jcl_keep :: bool
  jcl_keep_on_failure :: bool

record job_copy_in_spec =
  jci_source :: path
  jci_destination :: guest_path
  jci_overwrite :: overwrite_policy
  jci_timeout_seconds :: u64
  jci_max_bytes :: u64

record job_artifact_spec =
  jas_sources :: "guest_path list"
  jas_timeout_seconds :: u64
  jas_max_bytes_per_file :: u64

record job_spec =
  js_schema_version :: u32
  js_image :: image_id
  js_cpu_count :: u16
  js_memory_mib :: u64
  js_ttl_seconds :: "u64 option"
  js_provider :: "provider_id option"
  js_accelerator :: "job_accelerator option"
  js_allow_tcg :: bool
  js_command :: job_command_spec
  js_readiness_timeout_seconds :: u64
  js_action_timeout_seconds :: u64
  js_max_output_bytes :: u64
  js_cleanup :: job_cleanup_policy
  js_copy_in :: "job_copy_in_spec list"
  js_artifacts :: job_artifact_spec

record loaded_job_spec =
  ljs_path :: path
  ljs_source_sha256 :: string
  ljs_spec :: job_spec

record raw_job_copy_in_spec =
  rci_source :: path
  rci_destination :: string
  rci_overwrite :: overwrite_policy
  rci_timeout_seconds :: u64
  rci_max_bytes :: u64

record raw_job_artifact_spec =
  ras_sources :: "string list"
  ras_timeout_seconds :: u64
  ras_max_bytes_per_file :: u64

record raw_job_spec =
  rjs_schema_version :: u32
  rjs_image :: image_id
  rjs_cpu_count :: u16
  rjs_memory_mib :: u64
  rjs_ttl_seconds :: "u64 option"
  rjs_provider :: "provider_id option"
  rjs_accelerator :: "job_accelerator option"
  rjs_allow_tcg :: bool
  rjs_command :: job_command_spec
  rjs_readiness_timeout_seconds :: u64
  rjs_action_timeout_seconds :: u64
  rjs_max_output_bytes :: u64
  rjs_cleanup :: job_cleanup_policy
  rjs_copy_in :: "raw_job_copy_in_spec list"
  rjs_artifacts :: raw_job_artifact_spec

datatype job_spec_error =
  JS_NotFound | JS_UnsafePath | JS_TooLarge | JS_InvalidEncoding | JS_Toml
| JS_UnsupportedSchema u32 u32
| JS_InvalidValue string
| JS_Io

fun job_spec_error_code :: "job_spec_error \<Rightarrow> string" where
  "job_spec_error_code JS_NotFound = ''vmcell.job_spec.not_found''"
| "job_spec_error_code JS_UnsafePath = ''vmcell.job_spec.unsafe_path''"
| "job_spec_error_code JS_TooLarge = ''vmcell.job_spec.too_large''"
| "job_spec_error_code JS_InvalidEncoding = ''vmcell.job_spec.invalid_document''"
| "job_spec_error_code JS_Toml = ''vmcell.job_spec.invalid_document''"
| "job_spec_error_code (JS_UnsupportedSchema _ _) = ''vmcell.job_spec.unsupported_schema''"
| "job_spec_error_code (JS_InvalidValue _) = ''vmcell.job_spec.invalid_value''"
| "job_spec_error_code JS_Io = ''vmcell.job_spec.io''"

subsection \<open>Validation\<close>

definition validate_timeout :: "u64 \<Rightarrow> string \<Rightarrow> job_spec_error + unit" where
  "validate_timeout v msg = ensure (1 \<le> v \<and> v \<le> MAX_ACTION_TIMEOUT_SECONDS) (JS_InvalidValue msg)"

definition validate_accelerator_intent ::
  "provider_id option \<Rightarrow> job_accelerator option \<Rightarrow> bool \<Rightarrow> job_spec_error + unit" where
  "validate_accelerator_intent p a allow_tcg =
     (if p = Some Prov_Hyperv \<and> a \<noteq> None
      then Inl (JS_InvalidValue ''accelerator may be selected only with the qemu provider'')
      else if (a = Some Job_Tcg) \<noteq> allow_tcg
      then Inl (JS_InvalidValue ''TCG requires accelerator = tcg and allow_tcg = true together'')
      else Inr ())"

definition validate_relative_input_path :: "path \<Rightarrow> job_spec_error + unit" where
  "validate_relative_input_path p =
     (if p = [] \<or> is_absolute p \<or> contains_char p backslash \<or> contains_char p CHR '':''
        \<or> list_ex (\<lambda>c. \<not> is_normal c) (components p)
      then Inl (JS_InvalidValue ''copy_in source must be a non-empty relative path without dot segments'')
      else Inr ())"

text \<open>The two loops; their state is the set of guest paths seen so far.\<close>

fun convert_copy_in ::
  "string set \<Rightarrow> raw_job_copy_in_spec list \<Rightarrow> job_spec_error + job_copy_in_spec list" where
  "convert_copy_in seen [] = Inr []"
| "convert_copy_in seen (input # rest) =
     res_bind (validate_relative_input_path (rci_source input))
     (\<lambda>_. res_bind (validate_timeout (rci_timeout_seconds input)
            ''copy_in timeout_seconds is outside the engine-supported range'')
     (\<lambda>_. if rci_max_bytes input = 0 \<or> MAX_COPY_BYTES < rci_max_bytes input
       then Inl (JS_InvalidValue ''copy_in max_bytes is outside the engine-supported range'')
       else res_bind (res_map_err (\<lambda>_. JS_InvalidValue ''copy_in destination is outside the supported policy'')
              (guest_path_parse (rci_destination input)))
     (\<lambda>dest. if guest_path_str dest \<in> seen
       then Inl (JS_InvalidValue ''copy_in destinations must be unique'')
       else res_bind (convert_copy_in (insert (guest_path_str dest) seen) rest)
     (\<lambda>tail. Inr (\<lparr>jci_source = rci_source input, jci_destination = dest,
         jci_overwrite = rci_overwrite input, jci_timeout_seconds = rci_timeout_seconds input,
         jci_max_bytes = rci_max_bytes input\<rparr> # tail)))))"

fun convert_artifact_sources :: "string set \<Rightarrow> string list \<Rightarrow> job_spec_error + guest_path list" where
  "convert_artifact_sources seen [] = Inr []"
| "convert_artifact_sources seen (source # rest) =
     res_bind (res_map_err (\<lambda>_. JS_InvalidValue ''artifact source is outside the supported policy'')
       (guest_path_parse source))
     (\<lambda>src. if guest_path_str src \<in> seen
       then Inl (JS_InvalidValue ''artifact sources must be unique'')
       else res_bind (convert_artifact_sources (insert (guest_path_str src) seen) rest)
     (\<lambda>tail. Inr (src # tail)))"

definition convert_artifacts :: "raw_job_artifact_spec \<Rightarrow> job_spec_error + job_artifact_spec" where
  "convert_artifacts raw =
     (if MAX_ARTIFACT_FILES < length (ras_sources raw)
      then Inl (JS_InvalidValue ''artifact sources exceed the engine-supported file count'')
      else res_bind (validate_timeout (ras_timeout_seconds raw)
        ''artifacts timeout_seconds is outside the engine-supported range'')
     (\<lambda>_. if ras_max_bytes_per_file raw = 0 \<or> MAX_ARTIFACT_FILE_BYTES < ras_max_bytes_per_file raw
       then Inl (JS_InvalidValue ''artifacts max_bytes_per_file is outside the engine-supported range'')
       else res_bind (ok_or (checked_mul (word_of_nat (length (ras_sources raw))) (ras_max_bytes_per_file raw))
         (JS_InvalidValue ''artifact size calculation overflow''))
     (\<lambda>maximum_total. if MAX_ARTIFACT_TOTAL_BYTES < maximum_total
       then Inl (JS_InvalidValue ''artifact total size exceeds the engine-supported range'')
       else res_bind (convert_artifact_sources {} (ras_sources raw))
     (\<lambda>sources. Inr \<lparr>jas_sources = sources, jas_timeout_seconds = ras_timeout_seconds raw,
         jas_max_bytes_per_file = ras_max_bytes_per_file raw\<rparr>))))"

definition job_command_of :: "job_command_spec \<Rightarrow> u64 \<Rightarrow> u64 \<Rightarrow> guest_command" where
  "job_command_of c timeout limit =
     \<lparr>gcmd_program = jcs_program c, gcmd_args = jcs_args c,
      gcmd_timeout = duration_from_secs timeout, gcmd_max_output_bytes = limit\<rparr>"

definition job_spec_try_from :: "raw_job_spec \<Rightarrow> job_spec_error + job_spec" where
  "job_spec_try_from raw =
     res_bind (ensure (rjs_schema_version raw = JOB_SPEC_SCHEMA_VERSION)
       (JS_UnsupportedSchema JOB_SPEC_SCHEMA_VERSION (rjs_schema_version raw)))
     (\<lambda>_. res_bind (ensure (1 \<le> rjs_cpu_count raw \<and> rjs_cpu_count raw \<le> MAX_CPU_COUNT)
       (JS_InvalidValue ''cpu_count is outside the engine-supported range''))
     (\<lambda>_. res_bind (ensure (MIN_MEMORY_MIB \<le> rjs_memory_mib raw \<and> rjs_memory_mib raw \<le> MAX_MEMORY_MIB)
       (JS_InvalidValue ''memory_mib is outside the engine-supported range''))
     (\<lambda>_. res_bind (ensure (case rjs_ttl_seconds raw of None \<Rightarrow> True
         | Some ttl \<Rightarrow> MIN_TTL_SECONDS \<le> ttl \<and> ttl \<le> MAX_TTL_SECONDS)
       (JS_InvalidValue ''ttl_seconds is outside the engine-supported range''))
     (\<lambda>_. res_bind (validate_timeout (rjs_readiness_timeout_seconds raw)
       ''readiness_timeout_seconds is outside the engine-supported range'')
     (\<lambda>_. res_bind (validate_timeout (rjs_action_timeout_seconds raw)
       ''action_timeout_seconds is outside the engine-supported range'')
     (\<lambda>_. res_bind (ensure (\<not> (rjs_max_output_bytes raw = 0 \<or> MAX_OUTPUT_BYTES < rjs_max_output_bytes raw))
       (JS_InvalidValue ''max_output_bytes is outside the engine-supported range''))
     (\<lambda>_. res_bind (validate_accelerator_intent (rjs_provider raw) (rjs_accelerator raw) (rjs_allow_tcg raw))
     (\<lambda>_. res_bind (res_map_err (\<lambda>_. JS_InvalidValue ''command is outside the engine-supported range'')
       (guest_command_validate (job_command_of (rjs_command raw) (rjs_action_timeout_seconds raw)
         (rjs_max_output_bytes raw))))
     (\<lambda>_. res_bind (ensure (length (rjs_copy_in raw) \<le> MAX_JOB_COPY_IN_FILES)
       (JS_InvalidValue ''copy_in exceeds the engine-supported file count''))
     (\<lambda>_. res_bind (convert_copy_in {} (rjs_copy_in raw))
     (\<lambda>copy_in. res_bind (convert_artifacts (rjs_artifacts raw))
     (\<lambda>artifacts. Inr
       \<lparr>js_schema_version = rjs_schema_version raw, js_image = rjs_image raw,
        js_cpu_count = rjs_cpu_count raw, js_memory_mib = rjs_memory_mib raw,
        js_ttl_seconds = rjs_ttl_seconds raw, js_provider = rjs_provider raw,
        js_accelerator = rjs_accelerator raw, js_allow_tcg = rjs_allow_tcg raw,
        js_command = rjs_command raw, js_readiness_timeout_seconds = rjs_readiness_timeout_seconds raw,
        js_action_timeout_seconds = rjs_action_timeout_seconds raw,
        js_max_output_bytes = rjs_max_output_bytes raw, js_cleanup = rjs_cleanup raw,
        js_copy_in = copy_in, js_artifacts = artifacts\<rparr>))))))))))))"

definition parse_job_spec :: "(string \<Rightarrow> raw_job_spec option) \<Rightarrow> string \<Rightarrow> job_spec_error + job_spec" where
  "parse_job_spec toml input = res_bind (ok_or (toml input) JS_Toml) job_spec_try_from"

definition job_guest_command :: "job_spec \<Rightarrow> guest_command" where
  "job_guest_command s =
     job_command_of (js_command s) (js_action_timeout_seconds s) (js_max_output_bytes s)"

subsection \<open>Plans\<close>

definition JOB_PLAN_SCHEMA_VERSION :: u32 where "JOB_PLAN_SCHEMA_VERSION = 1"
definition JOB_PLAN_CONTRACT :: string where "JOB_PLAN_CONTRACT = ''vmcell.job-plan.v1''"

record job_resource_plan =
  jrp_cpu_count :: u16
  jrp_memory_mib :: u64
  jrp_ttl_seconds :: "u64 option"

record job_timeout_plan =
  jtp_readiness_timeout_seconds :: u64
  jtp_action_timeout_seconds :: u64
  jtp_max_output_bytes :: u64

record resolved_job_plan =
  rjp_schema_version :: u32
  rjp_contract :: string
  rjp_authorizing :: bool
  rjp_job_spec_contract :: string
  rjp_job_spec_schema_version :: u32
  rjp_job_spec_sha256 :: string
  rjp_execution :: run_execution_plan
  rjp_resources :: job_resource_plan
  rjp_timeouts :: job_timeout_plan
  rjp_cleanup :: job_cleanup_policy
  rjp_declared_copy_in_count :: nat
  rjp_declared_artifact_count :: nat

fun requested_accelerator_of :: "job_accelerator \<Rightarrow> requested_accelerator" where
  "requested_accelerator_of Job_Whpx = Req_Whpx"
| "requested_accelerator_of Job_Kvm = Req_Kvm"
| "requested_accelerator_of Job_Hvf = Req_Hvf"
| "requested_accelerator_of Job_Tcg = Req_Tcg"

definition job_intent :: "job_spec \<Rightarrow> run_selection_intent" where
  "job_intent s =
     \<lparr>in_explicit_provider = js_provider s, in_config_provider_preference = None,
      in_explicit_accelerator = map_option requested_accelerator_of (js_accelerator s),
      in_allow_tcg = js_allow_tcg s\<rparr>"

definition resolve_job_plan ::
  "loaded_job_spec \<Rightarrow> host_platform \<Rightarrow> image_record \<Rightarrow> provider_probe list
    \<Rightarrow> run_selection_error + resolved_job_plan" where
  "resolve_job_plan loaded h img probes =
     (let s = ljs_spec loaded in
      res_bind (resolve_run_execution_plan h img probes (job_intent s)) (\<lambda>execution. Inr
        \<lparr>rjp_schema_version = JOB_PLAN_SCHEMA_VERSION, rjp_contract = JOB_PLAN_CONTRACT,
         rjp_authorizing = False, rjp_job_spec_contract = JOB_SPEC_CONTRACT,
         rjp_job_spec_schema_version = js_schema_version s,
         rjp_job_spec_sha256 = ljs_source_sha256 loaded, rjp_execution = execution,
         rjp_resources = \<lparr>jrp_cpu_count = js_cpu_count s, jrp_memory_mib = js_memory_mib s,
           jrp_ttl_seconds = js_ttl_seconds s\<rparr>,
         rjp_timeouts = \<lparr>jtp_readiness_timeout_seconds = js_readiness_timeout_seconds s,
           jtp_action_timeout_seconds = js_action_timeout_seconds s,
           jtp_max_output_bytes = js_max_output_bytes s\<rparr>,
         rjp_cleanup = js_cleanup s, rjp_declared_copy_in_count = length (js_copy_in s),
         rjp_declared_artifact_count = length (jas_sources (js_artifacts s))\<rparr>))"

subsection \<open>Lemmas\<close>

lemmas job_limit_defs =
  MAX_ARTIFACT_FILES_def MAX_ARTIFACT_FILE_BYTES_def MAX_ARTIFACT_TOTAL_BYTES_def
  MAX_JOB_COPY_IN_FILES_def MAX_COPY_BYTES_def MAX_OUTPUT_BYTES_def MAX_ACTION_TIMEOUT_SECONDS_def
  MAX_CPU_COUNT_def MIN_MEMORY_MIB_def MAX_MEMORY_MIB_def MIN_TTL_SECONDS_def MAX_TTL_SECONDS_def
  JOB_SPEC_SCHEMA_VERSION_def

lemma validate_timeout_ok: "validate_timeout v msg = Inr u \<longleftrightarrow> 1 \<le> v \<and> v \<le> MAX_ACTION_TIMEOUT_SECONDS"
  by (simp add: validate_timeout_def)

definition copy_in_ok :: "job_copy_in_spec \<Rightarrow> bool" where
  "copy_in_ok c \<longleftrightarrow>
     validate_relative_input_path (jci_source c) = Inr ()
     \<and> 1 \<le> jci_timeout_seconds c \<and> jci_timeout_seconds c \<le> MAX_ACTION_TIMEOUT_SECONDS
     \<and> 0 < jci_max_bytes c \<and> jci_max_bytes c \<le> MAX_COPY_BYTES"

lemma convert_copy_in_ok:
  "convert_copy_in seen raws = Inr cs \<Longrightarrow>
     length cs = length raws \<and> list_all copy_in_ok cs
     \<and> distinct (map (\<lambda>c. guest_path_str (jci_destination c)) cs)
     \<and> (\<forall>c \<in> set cs. guest_path_str (jci_destination c) \<notin> seen)"
proof (induction raws arbitrary: seen cs)
  case Nil
  then show ?case by simp
next
  case (Cons r raws)
  from Cons.prems obtain dest tail where
    ok: "validate_relative_input_path (rci_source r) = Inr ()"
      "1 \<le> rci_timeout_seconds r" "rci_timeout_seconds r \<le> MAX_ACTION_TIMEOUT_SECONDS"
      "rci_max_bytes r \<noteq> 0" "rci_max_bytes r \<le> MAX_COPY_BYTES"
    and fresh: "guest_path_str dest \<notin> seen"
    and tail: "convert_copy_in (insert (guest_path_str dest) seen) raws = Inr tail"
    and cs: "cs = \<lparr>jci_source = rci_source r, jci_destination = dest,
         jci_overwrite = rci_overwrite r, jci_timeout_seconds = rci_timeout_seconds r,
         jci_max_bytes = rci_max_bytes r\<rparr> # tail"
    by (auto simp: validate_timeout_ok not_less split: if_splits)
  from Cons.IH [OF tail] ok fresh show ?case
    by (auto simp: cs copy_in_ok_def word_neq_0_conv)
qed

lemma convert_artifact_sources_ok:
  "convert_artifact_sources seen raws = Inr ps \<Longrightarrow>
     length ps = length raws \<and> distinct (map guest_path_str ps)
     \<and> (\<forall>p \<in> set ps. guest_path_str p \<notin> seen)"
proof (induction raws arbitrary: seen ps)
  case Nil
  then show ?case by simp
next
  case (Cons r raws)
  then show ?case by (auto split: if_splits) (metis insertI1 insertI2)+
qed

text \<open>At most sixteen files of at most 64 MiB: the product neither overflows nor exceeds 1 GiB.\<close>

lemma artifact_product_bounded:
  assumes "n \<le> MAX_ARTIFACT_FILES" "w \<le> MAX_ARTIFACT_FILE_BYTES"
  shows "\<exists>t. checked_mul (word_of_nat n) w = Some t \<and> unat t = n * unat w \<and> t \<le> MAX_ARTIFACT_TOTAL_BYTES"
proof -
  have n: "n \<le> 16" and w: "unat w \<le> 67108864"
    using assms by (simp_all add: job_limit_defs word_le_nat_alt)
  from n have un: "unat (word_of_nat n :: u64) = n"
    by (simp add: unat_of_nat)
  have prod: "n * unat w \<le> 16 * 67108864"
    using n w by (rule mult_le_mono)
  then have small: "unat (word_of_nat n :: u64) * unat w < 2 ^ LENGTH(64)"
    unfolding un by simp
  then have "checked_mul (word_of_nat n) w = Some (word_of_nat n * w)"
    and "unat (word_of_nat n * w) = n * unat w"
    using prod by (simp_all add: checked_mul_def unat_word_ariths un)
  with prod show ?thesis
    by (simp add: job_limit_defs word_le_nat_alt)
qed

lemma convert_artifacts_ok:
  "convert_artifacts raw = Inr a \<Longrightarrow>
     length (jas_sources a) \<le> MAX_ARTIFACT_FILES \<and> distinct (map guest_path_str (jas_sources a))
     \<and> 1 \<le> jas_timeout_seconds a \<and> jas_timeout_seconds a \<le> MAX_ACTION_TIMEOUT_SECONDS
     \<and> 0 < jas_max_bytes_per_file a \<and> jas_max_bytes_per_file a \<le> MAX_ARTIFACT_FILE_BYTES"
  by (auto simp: convert_artifacts_def validate_timeout_ok not_less word_neq_0_conv
      dest: convert_artifact_sources_ok split: if_splits)

lemma job_spec_try_fromD:
  assumes "job_spec_try_from raw = Inr s"
  shows "convert_copy_in {} (rjs_copy_in raw) = Inr (js_copy_in s)"
    and "convert_artifacts (rjs_artifacts raw) = Inr (js_artifacts s)"
    and "length (rjs_copy_in raw) \<le> MAX_JOB_COPY_IN_FILES"
    and "js_schema_version s = 1" "1 \<le> js_cpu_count s" "js_cpu_count s \<le> MAX_CPU_COUNT"
    and "MIN_MEMORY_MIB \<le> js_memory_mib s" "js_memory_mib s \<le> MAX_MEMORY_MIB"
    and "\<And>ttl. js_ttl_seconds s = Some ttl \<Longrightarrow> MIN_TTL_SECONDS \<le> ttl \<and> ttl \<le> MAX_TTL_SECONDS"
    and "1 \<le> js_readiness_timeout_seconds s" "js_readiness_timeout_seconds s \<le> MAX_ACTION_TIMEOUT_SECONDS"
    and "validate_accelerator_intent (js_provider s) (js_accelerator s) (js_allow_tcg s) = Inr ()"
    and "guest_command_validate (job_guest_command s) = Inr ()"
  using assms
  by (auto simp: job_spec_try_from_def validate_timeout_ok job_guest_command_def
      JOB_SPEC_SCHEMA_VERSION_def split: option.splits)

lemma accelerator_intent_ok:
  "validate_accelerator_intent p a t = Inr u \<longleftrightarrow>
     \<not> (p = Some Prov_Hyperv \<and> a \<noteq> None) \<and> (a = Some Job_Tcg \<longleftrightarrow> t)"
  by (auto simp: validate_accelerator_intent_def)

lemma requested_tcg: "requested_accelerator_of a = Req_Tcg \<longleftrightarrow> a = Job_Tcg"
  by (cases a) simp_all

lemma job_intent_consistent:
  assumes "job_spec_try_from raw = Inr s"
  shows "validate_tcg_intent (job_intent s) = Inr ()"
    and "\<not> (in_explicit_provider (job_intent s) = Some Prov_Hyperv
           \<and> in_explicit_accelerator (job_intent s) \<noteq> None)"
  using job_spec_try_fromD(12) [OF assms]
  by (auto simp: accelerator_intent_ok validate_tcg_intent_def job_intent_def requested_tcg Let_def)

lemma run_plan_error_sources:
  assumes "validate_tcg_intent i = Inr ()"
    and "\<not> (in_explicit_provider i = Some Prov_Hyperv \<and> in_explicit_accelerator i \<noteq> None)"
  shows "resolve_run_execution_plan h img probes i \<noteq> Inl RS_TcgRequiresExplicitOptIn"
    and "resolve_run_execution_plan h img probes i \<noteq> Inl RS_ImpossibleProviderAccelerator"
proof -
  let ?bad = "{RS_TcgRequiresExplicitOptIn, RS_ImpossibleProviderAccelerator}"
  have probes: "validate_probes_from seen ps = Inl e \<Longrightarrow> e \<notin> ?bad" for seen ps e
    by (induction ps arbitrary: seen) (auto split: option.splits if_splits)
  have vars: "check_variant_providers seen vs = Inl e \<Longrightarrow> e \<notin> ?bad" for seen vs e
    by (induction vs arbitrary: seen) (auto split: option.splits if_splits)
  have cons: "consider_variants h img probes i m vs st = Inl e \<Longrightarrow> e \<notin> ?bad" for m vs st e
    by (induction vs arbitrary: st) (auto split: option.splits if_splits)
  have choose: "choose_candidate st = Inl e \<Longrightarrow> e \<notin> ?bad" for st e
    by (auto simp: choose_candidate_def rejection_error_def Let_def split: prod.splits if_splits)
  have "e \<notin> ?bad" if "resolve_run_execution_plan h img probes i = Inl e" for e
    using that assms probes vars cons choose
    unfolding resolve_run_execution_plan_def resolve_run_execution_plan_with_matrix_def
      validate_probe_snapshots_def res_bind_def
    by (fastforce split: sum.splits if_splits)
  then show "resolve_run_execution_plan h img probes i \<noteq> Inl RS_TcgRequiresExplicitOptIn"
    and "resolve_run_execution_plan h img probes i \<noteq> Inl RS_ImpossibleProviderAccelerator"
    by blast+
qed

text \<open>
  A validated job specification is within every engine bound: resources, time to live and
  timeouts in range, a command the guest interface accepts, at most sixteen copy-in files and
  artifact sources with pairwise distinct guest paths, every copy-in source relative without dot
  segments, and at most 1 GiB of artifacts in all.
\<close>

theorem job_spec_bounded:
  assumes "job_spec_try_from raw = Inr s"
  shows "1 \<le> js_cpu_count s \<and> js_cpu_count s \<le> 64
    \<and> 512 \<le> js_memory_mib s \<and> js_memory_mib s \<le> 1048576
    \<and> (\<forall>ttl. js_ttl_seconds s = Some ttl \<longrightarrow> 1 \<le> ttl \<and> ttl \<le> 31536000)
    \<and> guest_command_validate (job_guest_command s) = Inr ()
    \<and> length (js_copy_in s) \<le> 16 \<and> list_all copy_in_ok (js_copy_in s)
    \<and> distinct (map (\<lambda>c. guest_path_str (jci_destination c)) (js_copy_in s))
    \<and> length (jas_sources (js_artifacts s)) \<le> 16
    \<and> distinct (map guest_path_str (jas_sources (js_artifacts s)))
    \<and> length (jas_sources (js_artifacts s)) * unat (jas_max_bytes_per_file (js_artifacts s)) \<le> 2 ^ 30"
proof -
  note parts = job_spec_try_fromD [OF assms]
  note copy = convert_copy_in_ok [OF parts(1)] and art = convert_artifacts_ok [OF parts(2)]
  obtain t where t: "unat t = length (jas_sources (js_artifacts s)) * unat (jas_max_bytes_per_file (js_artifacts s))"
    "t \<le> MAX_ARTIFACT_TOTAL_BYTES"
    using artifact_product_bounded [of "length (jas_sources (js_artifacts s))"
        "jas_max_bytes_per_file (js_artifacts s)"] art by blast
  from t(2) have "unat t \<le> 2 ^ 30"
    by (simp add: job_limit_defs word_le_nat_alt)
  with t(1) show ?thesis
    using parts(3,5-9,13) copy art by (simp add: job_limit_defs)
qed

definition sample_raw_job :: raw_job_spec where
  "sample_raw_job =
     \<lparr>rjs_schema_version = 1, rjs_image = ImageId ''linux'', rjs_cpu_count = 2, rjs_memory_mib = 2048,
      rjs_ttl_seconds = Some 3600, rjs_provider = None, rjs_accelerator = Some Job_Tcg, rjs_allow_tcg = True,
      rjs_command = \<lparr>jcs_program = ''/bin/true'', jcs_args = []\<rparr>, rjs_readiness_timeout_seconds = 120,
      rjs_action_timeout_seconds = 300, rjs_max_output_bytes = 1048576,
      rjs_cleanup = \<lparr>jcl_keep = False, jcl_keep_on_failure = False\<rparr>,
      rjs_copy_in = [\<lparr>rci_source = ''input.txt'', rci_destination = ''in/input.txt'',
        rci_overwrite = Overwrite_Deny, rci_timeout_seconds = 300, rci_max_bytes = 4096\<rparr>],
      rjs_artifacts = \<lparr>ras_sources = [''out/a.txt'', ''out/b.txt''], ras_timeout_seconds = 300,
        ras_max_bytes_per_file = 4096\<rparr>\<rparr>"

definition sample_job :: job_spec where
  "sample_job =
     \<lparr>js_schema_version = 1, js_image = ImageId ''linux'', js_cpu_count = 2, js_memory_mib = 2048,
      js_ttl_seconds = Some 3600, js_provider = None, js_accelerator = Some Job_Tcg, js_allow_tcg = True,
      js_command = \<lparr>jcs_program = ''/bin/true'', jcs_args = []\<rparr>, js_readiness_timeout_seconds = 120,
      js_action_timeout_seconds = 300, js_max_output_bytes = 1048576,
      js_cleanup = \<lparr>jcl_keep = False, jcl_keep_on_failure = False\<rparr>,
      js_copy_in = [\<lparr>jci_source = ''input.txt'', jci_destination = GuestPath (''in'' @ backslash # ''input.txt''),
        jci_overwrite = Overwrite_Deny, jci_timeout_seconds = 300, jci_max_bytes = 4096\<rparr>],
      js_artifacts = \<lparr>jas_sources = [GuestPath (''out'' @ backslash # ''a.txt''),
        GuestPath (''out'' @ backslash # ''b.txt'')], jas_timeout_seconds = 300,
        jas_max_bytes_per_file = 4096\<rparr>\<rparr>"

lemma sample_raw_job_accepted: "job_spec_try_from sample_raw_job = Inr sample_job"
proof -
  have paths: "guest_path_parse ''in/input.txt'' = Inr (GuestPath (''in'' @ backslash # ''input.txt''))"
    "guest_path_parse ''out/a.txt'' = Inr (GuestPath (''out'' @ backslash # ''a.txt''))"
    "guest_path_parse ''out/b.txt'' = Inr (GuestPath (''out'' @ backslash # ''b.txt''))"
    "validate_relative_input_path ''input.txt'' = Inr ()"
    "\<not> is_blank ''/bin/true''" "\<not> contains_char ''/bin/true'' nul"
    by code_simp+
  show ?thesis
    by (simp add: job_spec_try_from_def sample_raw_job_def sample_job_def job_limit_defs paths
        validate_timeout_def validate_accelerator_intent_def guest_command_validate_def job_command_of_def
        duration_from_secs_def convert_artifacts_def checked_mul_def ensure_def ok_or_def res_map_err_def
        del: append_Cons append_Nil)
qed

theorem job_spec_bounded_witness:
  "\<exists>s. job_spec_try_from sample_raw_job = Inr s \<and> length (js_copy_in s) \<le> 16
     \<and> length (jas_sources (js_artifacts s)) * unat (jas_max_bytes_per_file (js_artifacts s)) \<le> 2 ^ 30"
  using sample_raw_job_accepted job_spec_bounded [OF sample_raw_job_accepted] by blast

text \<open>
  The two artifact-size errors of job validation are dead code: with the declared limits the
  product of file count and size bound never overflows and never exceeds the total, so a document
  is never rejected with either message.
\<close>

theorem artifact_size_errors_unreachable:
  "job_spec_try_from raw \<noteq> Inl (JS_InvalidValue ''artifact size calculation overflow'')
   \<and> job_spec_try_from raw \<noteq> Inl (JS_InvalidValue ''artifact total size exceeds the engine-supported range'')"
proof -
  let ?bad = "{JS_InvalidValue ''artifact size calculation overflow'',
    JS_InvalidValue ''artifact total size exceeds the engine-supported range''}"
  have sources: "convert_artifact_sources seen rs = Inl e \<Longrightarrow> e \<notin> ?bad" for seen rs e
    by (induction rs arbitrary: seen)
      (auto simp: res_bind_def res_map_err_def split: sum.splits if_splits)
  have artifacts: "e \<notin> ?bad" if "convert_artifacts r = Inl e" for r e
    using that sources artifact_product_bounded [of "length (ras_sources r)" "ras_max_bytes_per_file r"]
    by (auto simp: convert_artifacts_def res_bind_def ok_or_def validate_timeout_def ensure_def not_less
        split: sum.splits if_splits)
  have copy: "convert_copy_in seen rs = Inl e \<Longrightarrow> e \<notin> ?bad" for seen rs e
    by (induction rs arbitrary: seen)
      (auto simp: res_bind_def res_map_err_def validate_timeout_def validate_relative_input_path_def
        ensure_def split: sum.splits if_splits)
  have "e \<notin> ?bad" if "job_spec_try_from raw = Inl e" for e
    using that
    by (auto simp: job_spec_try_from_def res_bind_Inl_iff res_map_err_Inl_iff validate_timeout_def
        validate_accelerator_intent_def dest: artifacts copy split: if_splits)
  then show ?thesis by blast
qed

text \<open>
  C40: a validated job is a consistent selection request: resolving its plan never fails for a
  contradictory accelerator or a half-given TCG opt-in, and a resolved plan is never authorizing,
  is bound to the document's digest and resources, ignores any configured provider preference, and
  uses TCG exactly when the document allows it.
\<close>

theorem job_plan_follows_spec:
  assumes "job_spec_try_from raw = Inr (ljs_spec loaded)"
  shows "resolve_job_plan loaded h img probes \<noteq> Inl RS_TcgRequiresExplicitOptIn
    \<and> resolve_job_plan loaded h img probes \<noteq> Inl RS_ImpossibleProviderAccelerator
    \<and> (\<forall>plan. resolve_job_plan loaded h img probes = Inr plan \<longrightarrow>
         \<not> rjp_authorizing plan \<and> \<not> rp_authorizing (rjp_execution plan)
         \<and> rjp_job_spec_sha256 plan = ljs_source_sha256 loaded
         \<and> jrp_cpu_count (rjp_resources plan) \<le> 64
         \<and> rp_selection_source (rjp_execution plan) \<noteq> Src_ConfigPreference
         \<and> (rp_accelerator (rjp_execution plan) = Acc_Tcg \<longleftrightarrow> js_allow_tcg (ljs_spec loaded))
         \<and> (\<forall>p. js_provider (ljs_spec loaded) = Some p \<longrightarrow> rp_provider (rjp_execution plan) = p))"
proof -
  note intent = job_intent_consistent [OF assms]
  note errs = run_plan_error_sources [OF intent, of h img probes]
  have plan: "\<not> rp_authorizing ex \<and> rp_selection_source ex \<noteq> Src_ConfigPreference
      \<and> (rp_accelerator ex = Acc_Tcg \<longleftrightarrow> js_allow_tcg (ljs_spec loaded))
      \<and> (\<forall>p. js_provider (ljs_spec loaded) = Some p \<longrightarrow> rp_provider ex = p)"
    if res: "resolve_run_execution_plan h img probes (job_intent (ljs_spec loaded)) = Inr ex" for ex
  proof -
    obtain p e where ok: "inputs_ok img probes (job_intent (ljs_spec loaded))"
      and via: "path_viable h img probes (job_intent (ljs_spec loaded)) p e"
      and ex: "ex = plan_for h img (job_intent (ljs_spec loaded)) p
        (chosen_accelerator h (job_intent (ljs_spec loaded)) p) e"
      using res unfolding resolve_plan_iff by blast
    have sel: "selected_provider (job_intent (ljs_spec loaded)) \<in> {None, Some p}"
      using via by (simp add: path_viable_def)
    have "rp_accelerator ex = Acc_Tcg \<longleftrightarrow> js_allow_tcg (ljs_spec loaded)"
      using chosen_accelerator_tcg [OF ok sel, of h] by (simp add: ex job_intent_def)
    moreover have "rp_selection_source ex \<noteq> Src_ConfigPreference"
      by (simp add: ex selection_source_def job_intent_def)
    moreover have "\<forall>q. js_provider (ljs_spec loaded) = Some q \<longrightarrow> rp_provider ex = q"
      using sel by (auto simp: ex selected_provider_def job_intent_def)
    ultimately show ?thesis by (simp add: ex)
  qed
  have cpu: "js_cpu_count (ljs_spec loaded) \<le> 64"
    using job_spec_try_fromD(6) [OF assms] by (simp add: job_limit_defs)
  show ?thesis
    using errs plan cpu by (auto simp: resolve_job_plan_def Let_def res_bind_def split: sum.splits)
qed

definition sample_loaded_job :: loaded_job_spec where
  "sample_loaded_job =
     \<lparr>ljs_path = ''/jobs/a.toml'', ljs_source_sha256 = replicate 64 CHR ''b'', ljs_spec = sample_job\<rparr>"

theorem job_plan_follows_spec_witness:
  "\<exists>plan. resolve_job_plan sample_loaded_job sample_host sample_image [sample_probe] = Inr plan
     \<and> rp_accelerator (rjp_execution plan) = Acc_Tcg"
proof -
  have "job_intent sample_job = sample_intent"
    by (simp add: job_intent_def sample_job_def sample_intent_def)
  then have ok: "is_ok (resolve_job_plan sample_loaded_job sample_host sample_image [sample_probe])"
    by (simp add: resolve_job_plan_def sample_loaded_job_def sample_resolution)
  have "job_spec_try_from sample_raw_job = Inr (ljs_spec sample_loaded_job)"
    by (simp add: sample_raw_job_accepted sample_loaded_job_def)
  from job_plan_follows_spec [OF this, of sample_host sample_image "[sample_probe]"] ok show ?thesis
    by (auto simp: is_ok_iff sample_loaded_job_def sample_job_def)
qed

end
