(* ===== verification/StateStore.thy ===== *)
theory StateStore
  imports GuestIo "HOL-Library.AList"
begin

section \<open>The durable state store\<close>

text \<open>
  \<open>state/mod.rs\<close>: the directories of JSON records below the state root, their validators, and the
  guarded load, list and save operations.  A directory is an association list from file names to
  documents; a document is a decoded record, bytes that do not decode, or a file that fails the
  ordinary/private-file checks.  The environment \<open>fs_env\<close> decides, per step of a global tick, whether
  a read or an identity check fails (\<open>fs_fault\<close>), how an atomic write ends (\<open>fs_write\<close>: failing
  before or after the rename), whether another process holds the lock (\<open>fs_busy\<close>), the time and the
  fresh uuids.  All reads of one store operation share one fault decision, because an I/O error in
  any of them ends the operation with that error.
\<close>

subsection \<open>Data\<close>

definition INSTALL_SCHEMA_VERSION :: u32 where "INSTALL_SCHEMA_VERSION = 1"
definition REDACTED_LEGACY_ERROR_CODE :: string where
  "REDACTED_LEGACY_ERROR_CODE = ''vmcell.legacy.redacted''"

record installation_record =
  ins_schema_version :: u32
  ins_install_id :: uuid

datatype state_error =
  SE_Io path
| SE_Json path
| SE_NotFound path
| SE_AlreadyExists path
| SE_MutationBusy
| SE_UnsafeRuntimePath path
| SE_IdentityMismatch string path string
| SE_UnsupportedSchema string path u32 u32
| SE_UpgradeRequired string u32 u32
| SE_ArtifactIntegrity path string
| SE_GuestOperationIntegrity path string
| SE_JobCorrelationIntegrity path string

datatype 'a doc = Doc 'a | BadJson | UnsafeFile

type_synonym 'a dir = "(string \<times> 'a doc) list"

text \<open>An artifact directory: the files below \<open>files/\<close> and the manifest, when it has been committed.\<close>

record artifact_dir =
  ad_files :: "string dir"
  ad_manifest :: "artifact_record doc option"

record store =
  sto_installation :: "installation_record doc option"
  sto_images :: "image_record dir"
  sto_cells :: "cell_record dir"
  sto_operations :: "guest_operation_record dir"
  sto_runtime :: "cell_id list"
  sto_artifacts :: "((cell_id \<times> guest_operation_id) \<times> artifact_dir) list"

datatype fs_fault = Fault_Io path | Fault_Unsafe path

datatype fs_write_outcome = Write_Ok | Write_FailBefore fs_fault | Write_FailAfter fs_fault

definition fault_error :: "fs_fault \<Rightarrow> state_error" where
  "fault_error f = (case f of Fault_Io p \<Rightarrow> SE_Io p | Fault_Unsafe p \<Rightarrow> SE_UnsafeRuntimePath p)"

text \<open>What opening a variant's file finds: nothing, an I/O failure, no ordinary file, or a file that is
  or is not the manifest file itself.\<close>

datatype variant_file = Variant_Missing | Variant_Fault fs_fault | Variant_Irregular | Variant_File bool

record fs_env =
  fe_host :: host_env
  fe_root :: path
  fs_fault :: "nat \<Rightarrow> fs_fault option"
  fs_write :: "nat \<Rightarrow> fs_write_outcome"
  fs_busy :: "nat \<Rightarrow> bool"
  fs_now :: "nat \<Rightarrow> time"
  fs_uuid :: "nat \<Rightarrow> uuid"
  fs_lock_retries :: nat
  fs_variant :: "nat \<Rightarrow> path \<Rightarrow> path \<Rightarrow> variant_file"

record world =
  w_store :: store
  w_tick :: nat
  w_locked :: bool

abbreviation env_crates :: "'z fs_env_scheme \<Rightarrow> crates" where
  "env_crates E \<equiv> he_crates (fe_host E)"

subsection \<open>Paths\<close>

definition uuid_json :: "crates \<Rightarrow> uuid \<Rightarrow> string" where
  "uuid_json X u = uuid_to_string X u @ ''.json''"

definition image_path :: "path \<Rightarrow> image_id \<Rightarrow> path" where
  "image_path root i = path_join (path_join root ''images'') (image_str i @ ''.json'')"

definition cell_path :: "crates \<Rightarrow> path \<Rightarrow> cell_id \<Rightarrow> path" where
  "cell_path X root c = path_join (path_join root ''cells'') (uuid_json X (cell_uuid c))"

definition guest_operation_path :: "crates \<Rightarrow> path \<Rightarrow> guest_operation_id \<Rightarrow> path" where
  "guest_operation_path X root i = path_join (path_join root ''operations'') (uuid_json X (op_uuid i))"

definition cell_runtime_root :: "crates \<Rightarrow> path \<Rightarrow> cell_id \<Rightarrow> path" where
  "cell_runtime_root X root c = path_join (path_join root ''runtime'') (uuid_to_string X (cell_uuid c))"

definition cell_overlay_path_for :: "crates \<Rightarrow> path \<Rightarrow> cell_id \<Rightarrow> string \<Rightarrow> path" where
  "cell_overlay_path_for X root c fmt = path_join (cell_runtime_root X root c) (''cell.'' @ fmt)"

definition cell_configuration_path_for :: "crates \<Rightarrow> path \<Rightarrow> cell_id \<Rightarrow> string \<Rightarrow> path" where
  "cell_configuration_path_for X root c prov = path_join (cell_runtime_root X root c) prov"

subsection \<open>Record validation\<close>

definition ensure_schema :: "path \<Rightarrow> string \<Rightarrow> u32 \<Rightarrow> u32 \<Rightarrow> state_error + unit" where
  "ensure_schema p kind actual expected =
     ensure (actual = expected) (SE_UnsupportedSchema kind p expected actual)"

definition ensure_schema_one_of ::
  "path \<Rightarrow> string \<Rightarrow> u32 \<Rightarrow> u32 list \<Rightarrow> u32 \<Rightarrow> state_error + unit" where
  "ensure_schema_one_of p kind actual supported highest =
     ensure (actual \<in> set supported) (SE_UnsupportedSchema kind p highest actual)"

definition ensure_stem :: "path \<Rightarrow> string \<Rightarrow> string \<Rightarrow> state_error + unit" where
  "ensure_stem p kind ident =
     ensure (file_stem p = Some ident)
       (SE_IdentityMismatch kind p (case file_stem p of Some s \<Rightarrow> s | None \<Rightarrow> ''<non-utf8>''))"

definition redact_cell_diagnostic :: "cell_record \<Rightarrow> cell_record" where
  "redact_cell_diagnostic r =
     (let is_safe = (case cell_last_error r of None \<Rightarrow> True
        | Some v \<Rightarrow> length v \<le> 128 \<and> starts_with v ''vmcell.''
            \<and> list_all (\<lambda>b. is_ascii_lowercase b \<or> is_ascii_digit b \<or> b \<in> set ''._-'') v)
      in if \<not> is_safe then r\<lparr>cell_last_error := Some REDACTED_LEGACY_ERROR_CODE\<rparr> else r)"

definition validate_image_schema :: "path \<Rightarrow> image_record \<Rightarrow> state_error + unit" where
  "validate_image_schema p r =
     res_bind (ensure_schema p ''image record'' (img_schema_version r) IMAGE_SCHEMA_VERSION)
     (\<lambda>_. ensure_stem p ''image record'' (image_str (img_id r)))"

definition validate_job_correlation :: "path \<Rightarrow> job_correlation \<Rightarrow> state_error + unit" where
  "validate_job_correlation p c =
     (if job_uuid (jc_job_id c) = 0
      then Inl (SE_JobCorrelationIntegrity p ''job id must not be nil'')
      else if \<not> has_valid_spec_digest c
      then Inl (SE_JobCorrelationIntegrity p ''job specification digest is not canonical SHA-256'')
      else Inr ())"

definition validate_cell_schema :: "crates \<Rightarrow> path \<Rightarrow> cell_record \<Rightarrow> state_error + unit" where
  "validate_cell_schema X p r =
     res_bind (ensure_schema_one_of p ''cell record'' (cell_schema_version r)
       [CELL_SCHEMA_VERSION, JOB_CORRELATED_CELL_SCHEMA_VERSION] MAX_CELL_SCHEMA_VERSION)
     (\<lambda>_. res_bind (ensure_schema p ''cell ownership'' (own_schema_version (cell_ownership r))
       OWNERSHIP_MARKER_SCHEMA)
     (\<lambda>_. res_bind (ensure_stem p ''cell record'' (uuid_to_string X (cell_uuid (cell_record.cell_id r))))
     (\<lambda>_. if cell_schema_version r = CELL_SCHEMA_VERSION then
         (case cell_job r of None \<Rightarrow> Inr ()
          | Some _ \<Rightarrow> Inl (SE_JobCorrelationIntegrity p ''cell schema v1 must not carry job correlation''))
       else
         (case cell_job r of Some job \<Rightarrow> validate_job_correlation p job
          | None \<Rightarrow> Inl (SE_JobCorrelationIntegrity p ''cell schema v2 requires job correlation'')))))"

text \<open>\<open>HashMap::insert\<close> returns the previous binding of the job id, if any.\<close>

fun unique_job_ids_from ::
  "path \<Rightarrow> (job_id \<rightharpoonup> cell_id) \<Rightarrow> cell_record list \<Rightarrow> state_error + unit" where
  "unique_job_ids_from p seen [] = Inr ()"
| "unique_job_ids_from p seen (c # cs) =
     (case cell_job c of
        None \<Rightarrow> unique_job_ids_from p seen cs
      | Some job \<Rightarrow>
          (case seen (jc_job_id job) of
             Some other \<Rightarrow> Inl (SE_JobCorrelationIntegrity p
               (if other = cell_record.cell_id c then ''cell job correlation is not unique''
                else ''job id is already bound to a different cell''))
           | None \<Rightarrow> unique_job_ids_from p (seen(jc_job_id job \<mapsto> cell_record.cell_id c)) cs))"

definition validate_unique_cell_job_ids_for_path :: "path \<Rightarrow> cell_record list \<Rightarrow> state_error + unit" where
  "validate_unique_cell_job_ids_for_path p cells = unique_job_ids_from p Map.empty cells"

definition validate_unique_cell_job_ids :: "path \<Rightarrow> cell_record list \<Rightarrow> state_error + unit" where
  "validate_unique_cell_job_ids root cells =
     validate_unique_cell_job_ids_for_path (path_join root ''cells'') cells"

definition validate_operation_job_binding ::
  "path \<Rightarrow> cell_record \<Rightarrow> guest_operation_record \<Rightarrow> state_error + unit" where
  "validate_operation_job_binding p cell op =
     (case op_job_id op of
        None \<Rightarrow> Inr ()
      | Some j \<Rightarrow> ensure (map_option jc_job_id (cell_job cell) = Some j)
          (SE_JobCorrelationIntegrity p ''guest operation job id does not match its cell''))"

definition artifact_kind :: "guest_operation_kind \<Rightarrow> bool" where
  "artifact_kind k \<longleftrightarrow> k \<in> {Kind_CopyOut, Kind_ArtifactCollect}"

definition no_result_fields :: "guest_operation_record \<Rightarrow> bool" where
  "no_result_fields r \<longleftrightarrow>
     op_exit_code r = None \<and> op_stdout_bytes r = None \<and> op_stderr_bytes r = None"

definition operation_fields_valid :: "guest_operation_record \<Rightarrow> bool" where
  "operation_fields_valid r =
     (case op_phase r of
        Op_IntentRecorded \<Rightarrow>
          op_completed_at r = None \<and> op_failure r = None \<and> op_artifact_id r = None
          \<and> op_artifact_pruned_at r = None \<and> no_result_fields r
      | Op_TransportActive \<Rightarrow>
          op_completed_at r = None \<and> op_artifact_id r = None
          \<and> op_artifact_pruned_at r = None \<and> no_result_fields r
      | Op_ArtifactCommitted \<Rightarrow>
          op_completed_at r = None \<and> op_failure r = None \<and> op_artifact_id r = Some (op_id r)
          \<and> artifact_kind (op_kind r) \<and> op_artifact_pruned_at r = None \<and> no_result_fields r
      | Op_Completed \<Rightarrow>
          op_completed_at r \<noteq> None \<and> op_failure r = None
          \<and> (case op_artifact_id r of None \<Rightarrow> True | Some a \<Rightarrow> a = op_id r)
          \<and> (case op_artifact_id r of None \<Rightarrow> True | Some _ \<Rightarrow> artifact_kind (op_kind r))
          \<and> (case op_artifact_pruned_at r of None \<Rightarrow> True
             | Some _ \<Rightarrow> op_artifact_id r = Some (op_id r) \<and> artifact_kind (op_kind r)
                 \<and> no_result_fields r)
      | Op_Failed \<Rightarrow>
          op_completed_at r \<noteq> None
          \<and> (case op_failure r of None \<Rightarrow> False | Some f \<Rightarrow> f \<noteq> Fail_Unknown)
          \<and> op_artifact_id r = None \<and> op_artifact_pruned_at r = None \<and> no_result_fields r)"

definition operation_times_valid :: "guest_operation_record \<Rightarrow> bool" where
  "operation_times_valid r \<longleftrightarrow>
     \<not> (op_updated_at r < op_created_at r
        \<or> (case op_completed_at r of None \<Rightarrow> False | Some t \<Rightarrow> t < op_created_at r)
        \<or> (case op_artifact_pruned_at r of
             Some pruned \<Rightarrow> (case op_completed_at r of None \<Rightarrow> True | Some t \<Rightarrow> pruned < t)
               \<or> pruned \<noteq> op_updated_at r
           | None \<Rightarrow> (case op_completed_at r of None \<Rightarrow> False | Some t \<Rightarrow> t \<noteq> op_updated_at r)))"

definition validate_guest_operation_schema ::
  "crates \<Rightarrow> path \<Rightarrow> guest_operation_record \<Rightarrow> state_error + unit" where
  "validate_guest_operation_schema X p r =
     res_bind (ensure_schema_one_of p ''guest operation record'' (op_schema_version r)
       [GUEST_OPERATION_SCHEMA_VERSION, JOB_CORRELATED_GUEST_OPERATION_SCHEMA_VERSION]
       MAX_GUEST_OPERATION_SCHEMA_VERSION)
     (\<lambda>_. res_bind (ensure_stem p ''guest operation record'' (uuid_to_string X (op_uuid (op_id r))))
     (\<lambda>_. res_bind
       (if op_schema_version r = GUEST_OPERATION_SCHEMA_VERSION then
          (case op_job_id r of None \<Rightarrow> Inr ()
           | Some _ \<Rightarrow> Inl (SE_JobCorrelationIntegrity p
               ''guest operation schema v1 must not carry job correlation''))
        else (case op_job_id r of Some _ \<Rightarrow> Inr ()
           | None \<Rightarrow> Inl (SE_JobCorrelationIntegrity p
               ''guest operation schema v2 requires job correlation'')))
     (\<lambda>_. ensure (operation_fields_valid r \<and> operation_times_valid r)
       (SE_GuestOperationIntegrity p ''phase and durable fields are inconsistent''))))"

fun checked_sum :: "u64 \<Rightarrow> u64 list \<Rightarrow> u64 option" where
  "checked_sum acc [] = Some acc"
| "checked_sum acc (x # xs) = (case checked_add acc x of None \<Rightarrow> None | Some s \<Rightarrow> checked_sum s xs)"

definition validate_artifact_schema :: "path \<Rightarrow> artifact_record \<Rightarrow> state_error + unit" where
  "validate_artifact_schema p r =
     res_bind (ensure_schema_one_of p ''artifact record'' (art_schema_version r)
       [ARTIFACT_SCHEMA_VERSION, JOB_CORRELATED_ARTIFACT_SCHEMA_VERSION] MAX_ARTIFACT_SCHEMA_VERSION)
     (\<lambda>_. res_bind
       (if art_schema_version r = ARTIFACT_SCHEMA_VERSION then
          (case art_job_id r of None \<Rightarrow> Inr ()
           | Some _ \<Rightarrow> Inl (SE_JobCorrelationIntegrity p ''artifact schema v1 must not carry job correlation''))
        else (case art_job_id r of Some _ \<Rightarrow> Inr ()
           | None \<Rightarrow> Inl (SE_JobCorrelationIntegrity p ''artifact schema v2 requires job correlation'')))
     (\<lambda>_. if art_entries r = [] \<or> MAX_ARTIFACT_FILES < length (art_entries r)
       then Inl (SE_ArtifactIntegrity p ''artifact file count is outside the bounded policy'')
       else if list_ex (\<lambda>e. MAX_ARTIFACT_FILE_BYTES < ent_size e) (art_entries r)
       then Inl (SE_ArtifactIntegrity p ''artifact file size exceeds the bounded policy'')
       else (case checked_sum 0 (map ent_size (art_entries r)) of
           None \<Rightarrow> Inl (SE_ArtifactIntegrity p ''artifact total size exceeds the bounded policy'')
         | Some tot \<Rightarrow> ensure (tot \<le> MAX_ARTIFACT_TOTAL_BYTES)
             (SE_ArtifactIntegrity p ''artifact total size exceeds the bounded policy''))))"

definition validate_artifact_job_binding ::
  "path \<Rightarrow> guest_operation_record \<Rightarrow> artifact_record \<Rightarrow> state_error + unit" where
  "validate_artifact_job_binding p op a =
     (if art_cell_id a \<noteq> op_cell_id op
      then Inl (SE_JobCorrelationIntegrity p ''artifact cell id does not match its guest operation'')
      else if art_job_id a \<noteq> op_job_id op
      then Inl (SE_JobCorrelationIntegrity p ''artifact job id does not match its guest operation'')
      else Inr ())"

definition as_upgrade_required :: "state_error \<Rightarrow> state_error" where
  "as_upgrade_required e =
     (case e of SE_UnsupportedSchema kind _ expected actual \<Rightarrow> SE_UpgradeRequired kind expected actual
      | _ \<Rightarrow> e)"

subsection \<open>Reading\<close>

text \<open>\<open>read_json\<close> on a directory entry, and \<open>read_json_directory\<close>: the \<open>.json\<close> entries in path order,
  each decoded and validated against its own path.\<close>

definition read_doc :: "path \<Rightarrow> 'a doc option \<Rightarrow> state_error + 'a" where
  "read_doc p d =
     (case d of None \<Rightarrow> Inl (SE_NotFound p)
      | Some (Doc x) \<Rightarrow> Inr x
      | Some BadJson \<Rightarrow> Inl (SE_Json p)
      | Some UnsafeFile \<Rightarrow> Inl (SE_UnsafeRuntimePath p))"

definition json_names :: "'a dir \<Rightarrow> string list" where
  "json_names d = sort (filter (\<lambda>n. name_extension n = Some ''json'') (remdups (map fst d)))"

definition read_json_directory ::
  "path \<Rightarrow> 'a dir \<Rightarrow> (path \<Rightarrow> 'a \<Rightarrow> state_error + unit) \<Rightarrow> state_error + 'a list" where
  "read_json_directory dir d validate =
     res_mapM (\<lambda>n. res_bind (read_doc (path_join dir n) (map_of d n))
       (\<lambda>v. res_bind (validate (path_join dir n) v) (\<lambda>_. Inr v))) (json_names d)"

definition read_cells :: "crates \<Rightarrow> path \<Rightarrow> store \<Rightarrow> state_error + cell_record list" where
  "read_cells X root st = read_json_directory (path_join root ''cells'') (sto_cells st) (validate_cell_schema X)"

definition validate_unique_cell_job_id ::
  "crates \<Rightarrow> path \<Rightarrow> store \<Rightarrow> path \<Rightarrow> cell_record \<Rightarrow> state_error + unit" where
  "validate_unique_cell_job_id X root st p r =
     res_bind (read_cells X root st) (\<lambda>cells.
       validate_unique_cell_job_ids_for_path p
         (filter (\<lambda>c. cell_record.cell_id c \<noteq> cell_record.cell_id r) cells @ [r]))"

definition load_cell_from :: "crates \<Rightarrow> path \<Rightarrow> store \<Rightarrow> cell_id \<Rightarrow> state_error + cell_record" where
  "load_cell_from X root st c =
     (let p = cell_path X root c in
      res_bind (read_doc p (map_of (sto_cells st) (uuid_json X (cell_uuid c))))
      (\<lambda>r. res_bind (validate_cell_schema X p r)
      (\<lambda>_. res_bind (ensure (cell_record.cell_id r = c)
        (SE_IdentityMismatch ''cell record'' p (uuid_to_string X (cell_uuid c))))
      (\<lambda>_. let r' = redact_cell_diagnostic r in
        res_bind (validate_unique_cell_job_id X root st p r') (\<lambda>_. Inr r')))))"

definition list_cells_from :: "crates \<Rightarrow> path \<Rightarrow> store \<Rightarrow> state_error + cell_record list" where
  "list_cells_from X root st =
     res_bind (read_cells X root st)
     (\<lambda>cells. res_bind (validate_unique_cell_job_ids root cells)
     (\<lambda>_. Inr (map redact_cell_diagnostic cells)))"

definition load_image_from :: "path \<Rightarrow> store \<Rightarrow> image_id \<Rightarrow> state_error + image_record" where
  "load_image_from root st i =
     (let p = image_path root i in
      res_bind (read_doc p (map_of (sto_images st) (image_str i @ ''.json'')))
      (\<lambda>r. res_bind (validate_image_schema p r)
      (\<lambda>_. res_bind (ensure (img_id r = i) (SE_IdentityMismatch ''image record'' p (image_str i)))
      (\<lambda>_. Inr r))))"

definition list_images_from :: "path \<Rightarrow> store \<Rightarrow> state_error + image_record list" where
  "list_images_from root st =
     read_json_directory (path_join root ''images'') (sto_images st) validate_image_schema"

definition load_installation_from :: "path \<Rightarrow> store \<Rightarrow> state_error + installation_record" where
  "load_installation_from root st =
     (let p = path_join root ''installation.json'' in
      res_bind (read_doc p (sto_installation st))
      (\<lambda>r. res_bind (ensure_schema p ''installation record'' (ins_schema_version r) INSTALL_SCHEMA_VERSION)
      (\<lambda>_. Inr r)))"

definition validate_operation_parent_binding ::
  "crates \<Rightarrow> path \<Rightarrow> store \<Rightarrow> path \<Rightarrow> guest_operation_record \<Rightarrow> state_error + unit" where
  "validate_operation_parent_binding X root st p op =
     (case load_cell_from X root st (op_cell_id op) of
        Inr cell \<Rightarrow> validate_operation_job_binding p cell op
      | Inl (SE_NotFound q) \<Rightarrow>
          (if op_job_id op = None then Inr ()
           else Inl (SE_JobCorrelationIntegrity p ''guest operation references a missing cell''))
      | Inl e \<Rightarrow> Inl e)"

definition validate_operation_parent_binding_for_write ::
  "crates \<Rightarrow> path \<Rightarrow> store \<Rightarrow> path \<Rightarrow> guest_operation_record \<Rightarrow> state_error + unit" where
  "validate_operation_parent_binding_for_write X root st p op =
     res_bind (res_map_err (\<lambda>e. case e of
         SE_NotFound _ \<Rightarrow> SE_JobCorrelationIntegrity p ''guest operation references a missing cell''
       | _ \<Rightarrow> e) (load_cell_from X root st (op_cell_id op)))
     (\<lambda>cell. validate_operation_job_binding p cell op)"

definition load_guest_operation_from ::
  "crates \<Rightarrow> path \<Rightarrow> store \<Rightarrow> guest_operation_id \<Rightarrow> state_error + guest_operation_record" where
  "load_guest_operation_from X root st i =
     (let p = guest_operation_path X root i in
      res_bind (read_doc p (map_of (sto_operations st) (uuid_json X (op_uuid i))))
      (\<lambda>r. res_bind (validate_guest_operation_schema X p r)
      (\<lambda>_. res_bind (ensure (op_id r = i)
        (SE_IdentityMismatch ''guest operation record'' p (uuid_to_string X (op_uuid i))))
      (\<lambda>_. res_bind (validate_operation_parent_binding X root st p r) (\<lambda>_. Inr r)))))"

definition list_guest_operations_from ::
  "crates \<Rightarrow> path \<Rightarrow> store \<Rightarrow> state_error + guest_operation_record list" where
  "list_guest_operations_from X root st =
     res_bind (read_json_directory (path_join root ''operations'') (sto_operations st)
       (validate_guest_operation_schema X))
     (\<lambda>rs. res_bind (res_for rs (\<lambda>r. validate_operation_parent_binding X root st
         (guest_operation_path X root (op_id r)) r))
     (\<lambda>_. Inr rs))"

subsection \<open>Steps of the environment\<close>

definition next_tick :: "('z world_scheme, 'e, nat) eff" where
  "next_tick = bindE (gets w_tick) (\<lambda>n. bindE (modify (\<lambda>w. w\<lparr>w_tick := Suc n\<rparr>)) (\<lambda>_. ret n))"

definition utc_now :: "'y fs_env_scheme \<Rightarrow> ('z world_scheme, 'e, time) eff" where
  "utc_now E = bindE next_tick (\<lambda>n. ret (fs_now E n))"

definition new_uuid :: "'y fs_env_scheme \<Rightarrow> ('z world_scheme, 'e, uuid) eff" where
  "new_uuid E = bindE next_tick (\<lambda>n. ret (fs_uuid E n))"

definition io_point :: "'y fs_env_scheme \<Rightarrow> ('z world_scheme, state_error, unit) eff" where
  "io_point E = bindE next_tick (\<lambda>n. case fs_fault E n of None \<Rightarrow> ret () | Some f \<Rightarrow> throw (fault_error f))"

definition read_op ::
  "'y fs_env_scheme \<Rightarrow> (store \<Rightarrow> state_error + 'a) \<Rightarrow> ('z world_scheme, state_error, 'a) eff" where
  "read_op E f = bindE (io_point E) (\<lambda>_. bindE (gets w_store) (\<lambda>st. liftR (f st)))"

text \<open>\<open>write_json_atomic\<close>: the rename is the commit point.  A failure before it leaves the old
  document, a failure after it reports an error although the new document is in place.\<close>

definition write_atomic ::
  "'y fs_env_scheme \<Rightarrow> (store \<Rightarrow> store) \<Rightarrow> ('z world_scheme, state_error, unit) eff" where
  "write_atomic E f = bindE next_tick (\<lambda>n. case fs_write E n of
       Write_Ok \<Rightarrow> modify (\<lambda>w. w\<lparr>w_store := f (w_store w)\<rparr>)
     | Write_FailBefore e \<Rightarrow> throw (fault_error e)
     | Write_FailAfter e \<Rightarrow> bindE (modify (\<lambda>w. w\<lparr>w_store := f (w_store w)\<rparr>)) (\<lambda>_. throw (fault_error e)))"

text \<open>\<open>MutationGuard::validate_for_state_root\<close>; a guard is always used with the store it was taken on.\<close>

definition validate_mutation_guard :: "'y fs_env_scheme \<Rightarrow> ('z world_scheme, state_error, unit) eff" where
  "validate_mutation_guard E = io_point E"

definition with_mutation ::
  "'y fs_env_scheme \<Rightarrow> ('z world_scheme, state_error, 'a) eff \<Rightarrow> ('z world_scheme, state_error, 'a) eff" where
  "with_mutation E m =
     bindE (validate_mutation_guard E) (\<lambda>_. bindE m (\<lambda>x.
       bindE (validate_mutation_guard E) (\<lambda>_. ret x)))"

subsection \<open>Operations\<close>

definition load_cell :: "'y fs_env_scheme \<Rightarrow> cell_id \<Rightarrow> ('z world_scheme, state_error, cell_record) eff" where
  "load_cell E c = read_op E (\<lambda>st. load_cell_from (env_crates E) (fe_root E) st c)"

definition list_cells :: "'y fs_env_scheme \<Rightarrow> ('z world_scheme, state_error, cell_record list) eff" where
  "list_cells E = read_op E (list_cells_from (env_crates E) (fe_root E))"

definition load_image :: "'y fs_env_scheme \<Rightarrow> image_id \<Rightarrow> ('z world_scheme, state_error, image_record) eff" where
  "load_image E i = read_op E (\<lambda>st. load_image_from (fe_root E) st i)"

definition list_images :: "'y fs_env_scheme \<Rightarrow> ('z world_scheme, state_error, image_record list) eff" where
  "list_images E = read_op E (list_images_from (fe_root E))"

definition load_guest_operation ::
  "'y fs_env_scheme \<Rightarrow> guest_operation_id \<Rightarrow> ('z world_scheme, state_error, guest_operation_record) eff" where
  "load_guest_operation E i = read_op E (\<lambda>st. load_guest_operation_from (env_crates E) (fe_root E) st i)"

definition list_guest_operations ::
  "'y fs_env_scheme \<Rightarrow> ('z world_scheme, state_error, guest_operation_record list) eff" where
  "list_guest_operations E = read_op E (list_guest_operations_from (env_crates E) (fe_root E))"

text \<open>What \<open>save_cell_unchecked\<close> checks before it writes; the value is the redacted record.\<close>

definition save_cell_check :: "crates \<Rightarrow> path \<Rightarrow> store \<Rightarrow> cell_record \<Rightarrow> state_error + cell_record" where
  "save_cell_check X root st rec =
     (let p = cell_path X root (cell_record.cell_id rec); r = redact_cell_diagnostic rec in
      res_bind (validate_cell_schema X p r)
      (\<lambda>_. res_bind (case load_cell_from X root st (cell_record.cell_id r) of
          Inr existing \<Rightarrow> if cell_job existing \<noteq> cell_job r
            then Inl (SE_JobCorrelationIntegrity p ''cell job correlation is immutable'')
            else Inr ()
        | Inl (SE_NotFound _) \<Rightarrow> Inr ()
        | Inl e \<Rightarrow> Inl e)
      (\<lambda>_. res_bind (validate_unique_cell_job_id X root st p r) (\<lambda>_. Inr r))))"

definition put_cell :: "crates \<Rightarrow> cell_record \<Rightarrow> store \<Rightarrow> store" where
  "put_cell X r st =
     st\<lparr>sto_cells := AList.update (uuid_json X (cell_uuid (cell_record.cell_id r))) (Doc r) (sto_cells st)\<rparr>"

definition save_cell_unchecked :: "'y fs_env_scheme \<Rightarrow> cell_record \<Rightarrow> ('z world_scheme, state_error, unit) eff" where
  "save_cell_unchecked E rec =
     bindE (read_op E (\<lambda>st. save_cell_check (env_crates E) (fe_root E) st rec))
       (\<lambda>r. write_atomic E (put_cell (env_crates E) r))"

definition save_cell_with_mutation ::
  "'y fs_env_scheme \<Rightarrow> cell_record \<Rightarrow> ('z world_scheme, state_error, unit) eff" where
  "save_cell_with_mutation E rec = with_mutation E (save_cell_unchecked E rec)"

definition save_operation_check ::
  "crates \<Rightarrow> path \<Rightarrow> store \<Rightarrow> guest_operation_record \<Rightarrow> state_error + unit" where
  "save_operation_check X root st r =
     (let p = guest_operation_path X root (op_id r) in
      res_bind (validate_guest_operation_schema X p r)
      (\<lambda>_. res_bind (case load_guest_operation_from X root st (op_id r) of
          Inr existing \<Rightarrow> if op_job_id existing \<noteq> op_job_id r
            then Inl (SE_JobCorrelationIntegrity p ''guest operation job correlation is immutable'')
            else Inr ()
        | Inl (SE_NotFound _) \<Rightarrow> Inr ()
        | Inl e \<Rightarrow> Inl e)
      (\<lambda>_. validate_operation_parent_binding_for_write X root st p r)))"

definition put_operation :: "crates \<Rightarrow> guest_operation_record \<Rightarrow> store \<Rightarrow> store" where
  "put_operation X r st =
     st\<lparr>sto_operations := AList.update (uuid_json X (op_uuid (op_id r))) (Doc r) (sto_operations st)\<rparr>"

definition save_guest_operation_with_mutation ::
  "'y fs_env_scheme \<Rightarrow> guest_operation_record \<Rightarrow> ('z world_scheme, state_error, unit) eff" where
  "save_guest_operation_with_mutation E r =
     with_mutation E (bindE (read_op E (\<lambda>st. save_operation_check (env_crates E) (fe_root E) st r))
       (\<lambda>_. write_atomic E (put_operation (env_crates E) r)))"

definition put_image :: "image_record \<Rightarrow> store \<Rightarrow> store" where
  "put_image r st = st\<lparr>sto_images := AList.update (image_str (img_id r) @ ''.json'') (Doc r) (sto_images st)\<rparr>"

definition save_image_new_with_mutation ::
  "'y fs_env_scheme \<Rightarrow> image_record \<Rightarrow> ('z world_scheme, state_error, unit) eff" where
  "save_image_new_with_mutation E r =
     with_mutation E (bindE (read_op E (\<lambda>st.
         let p = image_path (fe_root E) (img_id r) in
         res_bind (validate_image_schema p r) (\<lambda>_.
           ensure (map_of (sto_images st) (image_str (img_id r) @ ''.json'') = None) (SE_AlreadyExists p))))
       (\<lambda>_. write_atomic E (put_image r)))"

subsection \<open>Removing an image record\<close>

text \<open>The non-Windows build: \<open>lexically_normalized_absolute_path\<close> on Unix components, where popping the
  root fails, and \<open>windows_path_has_stream_or_device_ambiguity\<close> is constantly false.\<close>

fun normalize_components :: "component list \<Rightarrow> component list \<Rightarrow> component list option" where
  "normalize_components acc [] = Some (rev acc)"
| "normalize_components acc (CurDir # cs) = normalize_components acc cs"
| "normalize_components acc (ParentDir # cs) =
     (case acc of [] \<Rightarrow> None | RootDir # _ \<Rightarrow> None | _ # acc' \<Rightarrow> normalize_components acc' cs)"
| "normalize_components acc (c # cs) = normalize_components (c # acc) cs"

definition lexically_normalized_absolute_path :: "path \<Rightarrow> component list option" where
  "lexically_normalized_absolute_path p =
     (if is_absolute p then normalize_components [] (components p) else None)"

definition removable_paths_equal :: "path \<Rightarrow> path \<Rightarrow> bool" where
  "removable_paths_equal l r =
     (case (lexically_normalized_absolute_path l, lexically_normalized_absolute_path r) of
        (Some a, Some b) \<Rightarrow> a = b | _ \<Rightarrow> False)"

definition validate_variant_file_identity :: "path \<Rightarrow> variant_file \<Rightarrow> state_error + unit" where
  "validate_variant_file_identity manifest v = (case v of
      Variant_Missing \<Rightarrow> Inr ()
    | Variant_Fault f \<Rightarrow> Inl (fault_error f)
    | Variant_Irregular \<Rightarrow> Inl (SE_UnsafeRuntimePath manifest)
    | Variant_File same \<Rightarrow> ensure (\<not> same) (SE_UnsafeRuntimePath manifest))"

definition validate_image_record_for_metadata_removal ::
  "(path \<Rightarrow> variant_file) \<Rightarrow> path \<Rightarrow> image_record \<Rightarrow> state_error + unit" where
  "validate_image_record_for_metadata_removal vf manifest r =
     res_bind (ensure (img_variants r \<noteq> []) (SE_UnsafeRuntimePath manifest)) (\<lambda>_.
       res_for (img_variants r) (\<lambda>v.
         res_bind (if var_provider v = ''hyperv'' then Inr ''vhdx''
             else if var_provider v = ''qemu'' then Inr ''qcow2''
             else Inl (SE_UnsafeRuntimePath manifest)) (\<lambda>expected.
         if \<not> is_absolute (var_path v) \<or> \<not> eq_ignore_ascii_case (var_disk_format v) expected
           \<or> \<not> (case extension (var_path v) of None \<Rightarrow> False | Some e \<Rightarrow> eq_ignore_ascii_case e expected)
           \<or> removable_paths_equal (var_path v) manifest
         then Inl (SE_UnsafeRuntimePath manifest)
         else validate_variant_file_identity manifest (vf (var_path v)))))"

definition image_removal_check ::
  "(path \<Rightarrow> path \<Rightarrow> variant_file) \<Rightarrow> path \<Rightarrow> store \<Rightarrow> image_id \<Rightarrow> state_error + unit" where
  "image_removal_check vf root st i =
     res_bind (load_image_from root st i) (\<lambda>r.
       validate_image_record_for_metadata_removal (vf (image_path root i)) (image_path root i) r)"

definition validate_image_removal_candidate ::
  "'y fs_env_scheme \<Rightarrow> image_id \<Rightarrow> ('z world_scheme, state_error, unit) eff" where
  "validate_image_removal_candidate E i =
     bindE next_tick (\<lambda>n. read_op E (\<lambda>st. image_removal_check (fs_variant E n) (fe_root E) st i))"

text \<open>The record is renamed to a name whose extension is no longer \<open>json\<close>; the rename is the commit point.\<close>

definition retire_image :: "crates \<Rightarrow> uuid \<Rightarrow> image_id \<Rightarrow> store \<Rightarrow> store" where
  "retire_image X u i st =
     (let name = image_str i @ ''.json'' in
      case map_of (sto_images st) name of None \<Rightarrow> st
      | Some d \<Rightarrow> st\<lparr>sto_images := AList.update (name @ ''.unregistered-'' @ uuid_to_string X u) d
          (AList.delete name (sto_images st))\<rparr>)"

definition remove_image_record ::
  "'y fs_env_scheme \<Rightarrow> image_id \<Rightarrow> ('z world_scheme, state_error, bool) eff" where
  "remove_image_record E i =
     bindE (validate_mutation_guard E) (\<lambda>_.
     bindE (attempt (validate_image_removal_candidate E i)) (\<lambda>res. case res of
         Inl (SE_NotFound _) \<Rightarrow> ret False
       | Inl e \<Rightarrow> throw e
       | Inr _ \<Rightarrow> bindE (validate_mutation_guard E) (\<lambda>_. bindE (new_uuid E) (\<lambda>u.
           bindE (write_atomic E (retire_image (env_crates E) u i)) (\<lambda>_.
           bindE (validate_mutation_guard E) (\<lambda>_. ret True))))))"

subsection \<open>Installation\<close>

definition installation_with_mutation ::
  "'y fs_env_scheme \<Rightarrow> ('z world_scheme, state_error, installation_record) eff" where
  "installation_with_mutation E =
     with_mutation E (bindE (gets w_store) (\<lambda>st.
       if sto_installation st \<noteq> None then read_op E (load_installation_from (fe_root E))
       else bindE (new_uuid E) (\<lambda>u.
         let r = \<lparr>ins_schema_version = INSTALL_SCHEMA_VERSION, ins_install_id = u\<rparr> in
         bindE (write_atomic E (\<lambda>s. s\<lparr>sto_installation := Some (Doc r)\<rparr>)) (\<lambda>_. ret r))))"

definition acquire_installation_authority ::
  "'y fs_env_scheme \<Rightarrow> ('z world_scheme, state_error, installation_authority) eff" where
  "acquire_installation_authority E =
     bindE (read_op E (load_installation_from (fe_root E)))
       (\<lambda>r. ret \<lparr>inst_install_id = ins_install_id r\<rparr>)"

subsection \<open>Runtime directories\<close>

definition is_direct_child :: "path \<Rightarrow> path \<Rightarrow> bool" where
  "is_direct_child parent p \<longleftrightarrow>
     components p \<noteq> [] \<and> components p \<noteq> [RootDir] \<and> butlast (components p) = components parent"

definition prepare_cell_runtime_for_with_mutation ::
  "'y fs_env_scheme \<Rightarrow> cell_id \<Rightarrow> path \<Rightarrow> path \<Rightarrow> ('z world_scheme, state_error, cell_runtime_guard) eff" where
  "prepare_cell_runtime_for_with_mutation E c config overlay =
     (let rr = cell_runtime_root (env_crates E) (fe_root E) c in
      bindE (with_mutation E (bindE (io_point E) (\<lambda>_.
        if \<not> is_direct_child rr config \<or> \<not> is_direct_child rr overlay
        then throw (SE_UnsafeRuntimePath rr)
        else bindE (write_atomic E (\<lambda>s. s\<lparr>sto_runtime := List.insert c (sto_runtime s)\<rparr>)) (\<lambda>_.
          bindE (io_point E) (\<lambda>_.
          ret \<lparr>rt_cell_id = c, rt_configuration_path = config, rt_overlay_path = overlay\<rparr>)))))
      (\<lambda>g. bindE (io_point E) (\<lambda>_. ret g)))"

definition pin_cell_runtime_for ::
  "'y fs_env_scheme \<Rightarrow> cell_id \<Rightarrow> path \<Rightarrow> path \<Rightarrow> ('z world_scheme, state_error, cell_runtime_guard) eff" where
  "pin_cell_runtime_for E c config overlay =
     (let rr = cell_runtime_root (env_crates E) (fe_root E) c in
      bindE (io_point E) (\<lambda>_.
        if \<not> is_direct_child rr config \<or> \<not> is_direct_child rr overlay
        then throw (SE_UnsafeRuntimePath rr)
        else bindE (gets w_store) (\<lambda>st.
          if c \<notin> set (sto_runtime st) then throw (SE_Io rr)
          else ret \<lparr>rt_cell_id = c, rt_configuration_path = config, rt_overlay_path = overlay\<rparr>)))"

definition runtime_entry_exists :: "'y fs_env_scheme \<Rightarrow> cell_id \<Rightarrow> ('z world_scheme, state_error, bool) eff" where
  "runtime_entry_exists E c = read_op E (\<lambda>st. Inr (c \<in> set (sto_runtime st)))"

definition remove_cell_runtime_with_mutation ::
  "'y fs_env_scheme \<Rightarrow> cell_id \<Rightarrow> cell_runtime_guard \<Rightarrow> ('z world_scheme, state_error, unit) eff" where
  "remove_cell_runtime_with_mutation E c g =
     with_mutation E (
       if rt_cell_id g \<noteq> c
       then throw (SE_UnsafeRuntimePath (cell_runtime_root (env_crates E) (fe_root E) c))
       else bindE (io_point E) (\<lambda>_.
         write_atomic E (\<lambda>s. s\<lparr>sto_runtime := removeAll c (sto_runtime s)\<rparr>)))"

subsection \<open>The mutation lock\<close>

definition try_acquire_mutation_lock :: "'y fs_env_scheme \<Rightarrow> ('z world_scheme, state_error, unit) eff" where
  "try_acquire_mutation_lock E =
     bindE (io_point E) (\<lambda>_. bindE (gets w_locked) (\<lambda>held. bindE next_tick (\<lambda>n.
       if held \<or> fs_busy E n then throw SE_MutationBusy
       else modify (\<lambda>w. w\<lparr>w_locked := True\<rparr>))))"

fun acquire_mutation_lock_retry :: "nat \<Rightarrow> 'y fs_env_scheme \<Rightarrow> ('z world_scheme, state_error, unit) eff" where
  "acquire_mutation_lock_retry 0 E = try_acquire_mutation_lock E"
| "acquire_mutation_lock_retry (Suc k) E =
     bindE (attempt (try_acquire_mutation_lock E)) (\<lambda>r. case r of
       Inl SE_MutationBusy \<Rightarrow> acquire_mutation_lock_retry k E
     | _ \<Rightarrow> liftR r)"

text \<open>\<open>acquire_mutation_lock\<close> retries a busy lock until its deadline; \<open>fs_lock_retries\<close> is the number
  of polls that fit.  The guard is released when it is dropped, on every exit path.\<close>

definition acquire_mutation_lock :: "'y fs_env_scheme \<Rightarrow> ('z world_scheme, state_error, unit) eff" where
  "acquire_mutation_lock E = acquire_mutation_lock_retry (fs_lock_retries E) E"

definition release_mutation_lock :: "'z world_scheme \<Rightarrow> 'z world_scheme" where
  "release_mutation_lock w = w\<lparr>w_locked := False\<rparr>"

end
