(* ===== verification/StoreLaws.thy ===== *)
theory StoreLaws
  imports StateStore
begin

section \<open>Laws of the record store\<close>

text \<open>
  What the validated load and save operations of \<open>StateStore\<close> promise.  Cells and guest operations
  are instances of one interface, the locale \<open>record_store\<close>: a record accepted by the save check is
  what a load returns afterwards, other records are untouched, and its job correlation is the one
  already stored.
\<close>

subsection \<open>File names\<close>

definition file_name_ok :: "string \<Rightarrow> bool" where
  "file_name_ok n \<longleftrightarrow> n \<noteq> [] \<and> CHR ''/'' \<notin> set n \<and> n \<noteq> ''.'' \<and> n \<noteq> ''..''"

definition dir_ok :: "'a dir \<Rightarrow> bool" where
  "dir_ok d \<longleftrightarrow> (\<forall>n \<in> fst ` set d. file_name_ok n)"

lemma file_name_join:
  assumes "w \<noteq> []" "file_name_ok n"
  shows "file_name (path_join w n) = Some n"
proof -
  have n: "components n = [Normal n]"
    using assms(2) by (intro components_simple) (auto simp: file_name_ok_def)
  moreover have "split_on CHR ''/'' n = [n]"
    using assms(2) by (simp add: split_on_fresh file_name_ok_def)
  ultimately have "components (path_join w n) = components w @ [Normal n]"
    using components_path_join [OF assms(1), of n] by simp
  then show ?thesis by (simp add: file_name_def)
qed

lemma path_join_nonempty [simp]: "q \<noteq> [] \<Longrightarrow> path_join p q \<noteq> []"
  by (simp add: path_join_def)

lemma last_dot_split:
  assumes "last_dot n = Some i"
  shows "n = take i n @ CHR ''.'' # drop (i + 1) n \<and> CHR ''.'' \<notin> set (drop (i + 1) n)"
proof -
  define k where "k = length (takeWhile (\<lambda>c. c \<noteq> CHR ''.'') (rev n))"
  from assms have k: "k < length n" "i = length n - k - 1"
    by (auto simp: last_dot_def Let_def k_def split: if_splits)
  have "rev n ! k = CHR ''.''"
    using nth_length_takeWhile [of "\<lambda>c. c \<noteq> CHR ''.''" "rev n"] k(1) unfolding k_def by simp
  then have dot: "n ! i = CHR ''.''"
    using k by (simp add: rev_nth)
  have "drop (i + 1) n = rev (take k (rev n))"
    using k by (simp add: take_rev Suc_diff_Suc)
  also have "take k (rev n) = takeWhile (\<lambda>c. c \<noteq> CHR ''.'') (rev n)"
    unfolding k_def by (rule takeWhile_eq_take [symmetric])
  finally have "CHR ''.'' \<notin> set (drop (i + 1) n)"
    by (auto dest: set_takeWhileD)
  moreover have "n = take i n @ n ! i # drop (i + 1) n"
    using k by (simp add: id_take_nth_drop)
  ultimately show ?thesis using dot by simp
qed

lemma name_of_stem_json:
  assumes "name_extension n = Some ''json''" shows "n = name_stem n @ ''.json''"
proof -
  obtain i where i: "last_dot n = Some i" "drop (i + 1) n = ''json''"
    using assms by (auto simp: name_extension_def split: option.splits)
  then show ?thesis
    using last_dot_split [OF i(1)] by (simp add: name_stem_def)
qed

lemma last_dot_json:
  assumes "u \<noteq> []" shows "last_dot (u @ ''.json'') = Some (length u)"
  using assms by (simp add: last_dot_def Let_def)

lemma name_json [simp]:
  "u \<noteq> [] \<Longrightarrow> name_stem (u @ ''.json'') = u" "u \<noteq> [] \<Longrightarrow> name_extension (u @ ''.json'') = Some ''json''"
  by (simp_all add: name_stem_def name_extension_def last_dot_json)

lemma uuid_nonempty [simp]: "uuid_laws X \<Longrightarrow> uuid_to_string X u \<noteq> []"
  using uuid_laws_length [of X u] by force

lemma file_name_ok_uuid_json: "uuid_laws X \<Longrightarrow> file_name_ok (uuid_json X u)"
  using uuid_not_in(2) [of X u]
  by (cases "uuid_to_string X u") (auto simp: file_name_ok_def uuid_json_def)

lemma uuid_json_inj [simp]: "uuid_laws X \<Longrightarrow> uuid_json X u = uuid_json X v \<longleftrightarrow> u = v"
  by (simp add: uuid_json_def uuid_laws_inj)

lemma file_stem_json:
  assumes "uuid_laws X" "w \<noteq> []"
  shows "file_stem (path_join w (uuid_json X u)) = Some (uuid_to_string X u)"
  using assms by (simp add: file_stem_def file_name_join file_name_ok_uuid_json)
    (simp add: uuid_json_def)

text \<open>A validated record is stored under its own identity.\<close>

lemma stem_determines_name:
  assumes "w \<noteq> []" "file_name_ok n" "name_extension n = Some ''json''"
    and "file_stem (path_join w n) = Some (uuid_to_string X u)"
  shows "n = uuid_json X u"
  using assms name_of_stem_json [of n] by (simp add: file_stem_def file_name_join uuid_json_def)

subsection \<open>Directories of validated documents\<close>

definition dir_valid :: "path \<Rightarrow> 'a dir \<Rightarrow> (path \<Rightarrow> 'a \<Rightarrow> state_error + unit) \<Rightarrow> bool" where
  "dir_valid dir d validate \<longleftrightarrow>
     (\<forall>n doc. name_extension n = Some ''json'' \<longrightarrow> map_of d n = Some doc \<longrightarrow>
        (\<exists>r. doc = Doc r \<and> validate (path_join dir n) r = Inr ()))"

definition dir_docs :: "'a dir \<Rightarrow> 'a set" where
  "dir_docs d = {r. \<exists>n. name_extension n = Some ''json'' \<and> map_of d n = Some (Doc r)}"

definition doc_at :: "'a dir \<Rightarrow> string \<Rightarrow> 'a" where
  "doc_at d n = (case map_of d n of Some (Doc r) \<Rightarrow> r | _ \<Rightarrow> undefined)"

lemma dir_names: "n \<in> fst ` set d \<longleftrightarrow> (\<exists>doc. map_of d n = Some doc)"
  using map_of_eq_None_iff [of d n] by auto

lemma json_names_set:
  "set (json_names d) = {n. name_extension n = Some ''json'' \<and> (\<exists>doc. map_of d n = Some doc)}"
  using dir_names [of _ d] by (simp add: json_names_def) blast

lemma json_names_distinct [simp]: "distinct (json_names d)"
  by (simp add: json_names_def)

lemma read_json_directory_ok:
  "read_json_directory dir d validate = Inr rs \<longleftrightarrow>
     dir_valid dir d validate \<and> rs = map (doc_at d) (json_names d)"
proof -
  let ?f = "\<lambda>n. res_bind (read_doc (path_join dir n) (map_of d n))
       (\<lambda>v. res_bind (validate (path_join dir n) v) (\<lambda>_. Inr v))"
  have f: "?f n = Inr r \<longleftrightarrow> map_of d n = Some (Doc r) \<and> validate (path_join dir n) r = Inr ()" for n r
    by (auto simp: read_doc_def split: option.splits doc.splits)
  have "res_mapM ?f xs = Inr rs \<longleftrightarrow>
      rs = map (doc_at d) xs \<and> (\<forall>n \<in> set xs. \<exists>r. ?f n = Inr r)" for xs
  proof (induction xs arbitrary: rs)
    case Nil
    then show ?case by auto
  next
    case (Cons n xs)
    have "doc_at d n = r" if "?f n = Inr r" for r
      using that unfolding f by (simp add: doc_at_def)
    with Cons show ?case by (auto simp del: res_bind_Inr_iff split: sum.splits)
  qed
  moreover have "(\<forall>n \<in> set (json_names d). \<exists>r. ?f n = Inr r) \<longleftrightarrow> dir_valid dir d validate"
    unfolding f dir_valid_def json_names_set by fastforce
  ultimately show ?thesis
    by (auto simp: read_json_directory_def)
qed

lemma dir_docs_listing:
  "dir_valid dir d validate \<Longrightarrow> set (map (doc_at d) (json_names d)) = dir_docs d"
  unfolding dir_docs_def dir_valid_def set_map json_names_set
  by (force simp: doc_at_def image_iff)

subsection \<open>Cells\<close>

abbreviation cid :: "cell_record \<Rightarrow> cell_id" where "cid \<equiv> cell_record.cell_id"

abbreviation cell_key :: "crates \<Rightarrow> cell_id \<Rightarrow> string" where
  "cell_key X c \<equiv> uuid_json X (cell_uuid c)"

lemma redact_simps [simp]:
  "cid (redact_cell_diagnostic r) = cid r" "cell_job (redact_cell_diagnostic r) = cell_job r"
  "cell_schema_version (redact_cell_diagnostic r) = cell_schema_version r"
  "cell_ownership (redact_cell_diagnostic r) = cell_ownership r"
  "cell_state (redact_cell_diagnostic r) = cell_state r"
  "cell_phase (redact_cell_diagnostic r) = cell_phase r"
  "cell_provider_object (redact_cell_diagnostic r) = cell_provider_object r"
  "cell_provider (redact_cell_diagnostic r) = cell_provider r"
  "cell_expires_at (redact_cell_diagnostic r) = cell_expires_at r"
  "cell_image (redact_cell_diagnostic r) = cell_image r"
  "cell_spec (redact_cell_diagnostic r) = cell_spec r"
  by (simp_all add: redact_cell_diagnostic_def Let_def)

lemma redact_idem [simp]: "redact_cell_diagnostic (redact_cell_diagnostic r) = redact_cell_diagnostic r"
proof -
  have "length REDACTED_LEGACY_ERROR_CODE \<le> 128" "starts_with REDACTED_LEGACY_ERROR_CODE ''vmcell.''"
    "list_all (\<lambda>b. is_ascii_lowercase b \<or> is_ascii_digit b \<or> b \<in> set ''._-'') REDACTED_LEGACY_ERROR_CODE"
    by code_simp+
  then show ?thesis by (simp add: redact_cell_diagnostic_def Let_def)
qed

lemma validate_cell_schema_redact [simp]:
  "validate_cell_schema X p (redact_cell_diagnostic r) = validate_cell_schema X p r"
  by (simp add: validate_cell_schema_def)

lemma validate_cell_schema_stem:
  "validate_cell_schema X p r = Inr u \<Longrightarrow> file_stem p = Some (uuid_to_string X (cell_uuid (cid r)))"
  by (simp add: validate_cell_schema_def ensure_stem_def)

lemma cell_path_eq: "cell_path X root c = path_join (path_join root ''cells'') (cell_key X c)"
  by (simp add: cell_path_def)

definition cells_valid :: "crates \<Rightarrow> path \<Rightarrow> store \<Rightarrow> bool" where
  "cells_valid X root st \<longleftrightarrow> dir_valid (path_join root ''cells'') (sto_cells st) (validate_cell_schema X)"

lemma read_cells_ok:
  "read_cells X root st = Inr cs \<longleftrightarrow>
     cells_valid X root st \<and> cs = map (doc_at (sto_cells st)) (json_names (sto_cells st))"
  by (simp add: read_cells_def cells_valid_def read_json_directory_ok)

lemma valid_cell_name:
  assumes "dir_ok (sto_cells st)" "cells_valid X root st"
    and "name_extension n = Some ''json''" "map_of (sto_cells st) n = Some (Doc r)"
  shows "n = cell_key X (cid r)"
proof (rule stem_determines_name)
  show "file_name_ok n"
    using assms(1,4) by (force simp: dir_ok_def dest: map_of_SomeD)
  show "file_stem (path_join (path_join root ''cells'') n) = Some (uuid_to_string X (cell_uuid (cid r)))"
    using assms(2-4) by (auto simp: cells_valid_def dir_valid_def dest!: validate_cell_schema_stem)
qed (use assms(3) in simp_all)

lemma cell_docs_key:
  assumes "uuid_laws X" "dir_ok (sto_cells st)" "cells_valid X root st"
  shows "r \<in> dir_docs (sto_cells st) \<longleftrightarrow> map_of (sto_cells st) (cell_key X (cid r)) = Some (Doc r)"
proof
  assume "r \<in> dir_docs (sto_cells st)"
  then obtain n where "name_extension n = Some ''json''" "map_of (sto_cells st) n = Some (Doc r)"
    by (auto simp: dir_docs_def)
  with valid_cell_name [OF assms(2,3)] show "map_of (sto_cells st) (cell_key X (cid r)) = Some (Doc r)"
    by metis
next
  assume "map_of (sto_cells st) (cell_key X (cid r)) = Some (Doc r)"
  moreover have "name_extension (cell_key X (cid r)) = Some ''json''"
    using assms(1) by (simp add: uuid_json_def)
  ultimately show "r \<in> dir_docs (sto_cells st)"
    unfolding dir_docs_def by blast
qed

lemma cell_key_doc:
  assumes "uuid_laws X" "dir_ok (sto_cells st)" "cells_valid X root st"
    and "map_of (sto_cells st) (cell_key X c) = Some d"
  shows "\<exists>r. d = Doc r \<and> cid r = c \<and> validate_cell_schema X (cell_path X root c) r = Inr ()"
proof -
  have ext: "name_extension (cell_key X c) = Some ''json''"
    using assms(1) by (simp add: uuid_json_def)
  with assms(3,4) obtain r where r: "d = Doc r" "validate_cell_schema X (cell_path X root c) r = Inr ()"
    by (auto simp: cells_valid_def dir_valid_def cell_path_eq)
  with valid_cell_name [OF assms(2,3) ext] assms(1,4) have "cell_uuid c = cell_uuid (cid r)"
    by simp
  with r show ?thesis by (metis cell_id.expand)
qed

lemma distinct_cell_ids:
  assumes "uuid_laws X" "dir_ok (sto_cells st)" "cells_valid X root st"
  shows "distinct (map (\<lambda>n. cid (doc_at (sto_cells st) n)) (json_names (sto_cells st)))"
proof -
  have "n = cell_key X (cid (doc_at (sto_cells st) n))" if "n \<in> set (json_names (sto_cells st))" for n
  proof -
    from that obtain doc where n: "name_extension n = Some ''json''" "map_of (sto_cells st) n = Some doc"
      by (auto simp: json_names_set)
    with assms(3) obtain r where "doc = Doc r" by (auto simp: cells_valid_def dir_valid_def)
    with n valid_cell_name [OF assms(2,3) n(1)] show ?thesis by (simp add: doc_at_def)
  qed
  then have "inj_on (\<lambda>n. cid (doc_at (sto_cells st) n)) (set (json_names (sto_cells st)))"
    by (intro inj_onI) metis
  then show ?thesis by (simp add: distinct_map)
qed

subsection \<open>Unique job ids\<close>

definition job_ids :: "cell_record list \<Rightarrow> job_id list" where
  "job_ids cs = concat (map (\<lambda>c. case cell_job c of None \<Rightarrow> [] | Some j \<Rightarrow> [jc_job_id j]) cs)"

definition job_ids_unique :: "cell_record set \<Rightarrow> bool" where
  "job_ids_unique S \<longleftrightarrow>
     (\<forall>c \<in> S. \<forall>c' \<in> S. \<forall>j j'. cell_job c = Some j \<longrightarrow> cell_job c' = Some j' \<longrightarrow>
        jc_job_id j = jc_job_id j' \<longrightarrow> cid c = cid c')"

lemma job_ids_simps [simp]:
  "job_ids [] = []"
  "job_ids (c # cs) = (case cell_job c of None \<Rightarrow> job_ids cs | Some j \<Rightarrow> jc_job_id j # job_ids cs)"
  by (simp_all add: job_ids_def split: option.split)

lemma job_ids_mem: "i \<in> set (job_ids cs) \<longleftrightarrow> (\<exists>c \<in> set cs. \<exists>j. cell_job c = Some j \<and> jc_job_id j = i)"
  by (induction cs) (auto split: option.splits)

lemma unique_job_ids_from_ok:
  "unique_job_ids_from p seen cs = Inr u \<longleftrightarrow>
     distinct (job_ids cs) \<and> (\<forall>i \<in> set (job_ids cs). seen i = None)"
proof (induction cs arbitrary: seen)
  case Nil
  then show ?case by simp
next
  case (Cons c cs)
  show ?case
  proof (cases "cell_job c")
    case (Some j)
    with Cons show ?thesis by (auto split: option.splits)
  qed (use Cons in simp)
qed

lemma distinct_job_ids_iff:
  "distinct (map cid cs) \<Longrightarrow> distinct (job_ids cs) \<longleftrightarrow> job_ids_unique (set cs)"
proof (induction cs)
  case Nil
  then show ?case by (simp add: job_ids_unique_def)
next
  case (Cons c cs)
  have fresh: "cid c' \<noteq> cid c" if "c' \<in> set cs" for c'
    using Cons.prems that by (auto simp: image_iff)
  have "job_ids_unique (insert c (set cs)) \<longleftrightarrow> job_ids_unique (set cs)
      \<and> (\<forall>j. cell_job c = Some j \<longrightarrow> jc_job_id j \<notin> set (job_ids cs))"
  proof
    assume u: "job_ids_unique (insert c (set cs))"
    then show "job_ids_unique (set cs) \<and> (\<forall>j. cell_job c = Some j \<longrightarrow> jc_job_id j \<notin> set (job_ids cs))"
      unfolding job_ids_unique_def job_ids_mem by (metis fresh insertCI)
  next
    assume "job_ids_unique (set cs) \<and> (\<forall>j. cell_job c = Some j \<longrightarrow> jc_job_id j \<notin> set (job_ids cs))"
    then show "job_ids_unique (insert c (set cs))"
      unfolding job_ids_unique_def job_ids_mem by (metis insertE)
  qed
  with Cons show ?case by (auto split: option.splits)
qed

subsection \<open>Loading and saving a cell\<close>

abbreviation other_cells :: "store \<Rightarrow> cell_id \<Rightarrow> cell_record set" where
  "other_cells st c \<equiv> {r \<in> dir_docs (sto_cells st). cid r \<noteq> c}"

definition cells_sound :: "crates \<Rightarrow> path \<Rightarrow> store \<Rightarrow> bool" where
  "cells_sound X root st \<longleftrightarrow> cells_valid X root st \<and> job_ids_unique (dir_docs (sto_cells st))"

lemma validate_unique_cell_job_id_ok:
  assumes "uuid_laws X" "dir_ok (sto_cells st)"
  shows "validate_unique_cell_job_id X root st p r = Inr u \<longleftrightarrow>
    cells_valid X root st \<and> job_ids_unique (insert r (other_cells st (cid r)))"
proof (cases "cells_valid X root st")
  case False
  then show ?thesis by (auto simp: validate_unique_cell_job_id_def read_cells_ok)
next
  case True
  define cs where "cs = map (doc_at (sto_cells st)) (json_names (sto_cells st))"
  have set_cs: "set cs = dir_docs (sto_cells st)"
    unfolding cs_def using True by (intro dir_docs_listing) (simp add: cells_valid_def)
  have "distinct (map cid cs)"
    using distinct_cell_ids [OF assms True] by (simp add: cs_def comp_def)
  then have "distinct (map cid (filter (\<lambda>c. cid c \<noteq> cid r) cs @ [r]))"
    by (auto simp: distinct_map_filter)
  from distinct_job_ids_iff [OF this] True show ?thesis
    by (simp add: validate_unique_cell_job_id_def validate_unique_cell_job_ids_for_path_def
        read_cells_ok unique_job_ids_from_ok set_cs flip: cs_def)
qed

lemma job_ids_unique_cong:
  assumes "\<And>c. c \<in> S \<Longrightarrow> \<exists>c' \<in> T. cid c' = cid c \<and> cell_job c' = cell_job c"
  shows "job_ids_unique T \<Longrightarrow> job_ids_unique S"
  unfolding job_ids_unique_def using assms by metis

lemma unique_replace_same:
  assumes "r0 \<in> S" "cid r0 = cid r" "cell_job r0 = cell_job r" "\<And>c. c \<in> S \<Longrightarrow> cid c = cid r \<Longrightarrow> c = r0"
  shows "job_ids_unique (insert r {c \<in> S. cid c \<noteq> cid r}) \<longleftrightarrow> job_ids_unique S"
proof
  assume "job_ids_unique S"
  then show "job_ids_unique (insert r {c \<in> S. cid c \<noteq> cid r})"
    using assms(1-3) by (elim job_ids_unique_cong [rotated]) auto
next
  assume "job_ids_unique (insert r {c \<in> S. cid c \<noteq> cid r})"
  moreover have "\<exists>c' \<in> insert r {c \<in> S. cid c \<noteq> cid r}. cid c' = cid c \<and> cell_job c' = cell_job c"
    if "c \<in> S" for c
    using assms(2-4) that by (cases "cid c = cid r") auto
  ultimately show "job_ids_unique S" by (rule job_ids_unique_cong [rotated])
qed

lemma load_cell_from_ok:
  assumes "uuid_laws X" "dir_ok (sto_cells st)"
  shows "load_cell_from X root st c = Inr r \<longleftrightarrow>
    cells_sound X root st \<and> (\<exists>r0. map_of (sto_cells st) (cell_key X c) = Some (Doc r0)
      \<and> r = redact_cell_diagnostic r0)"
proof (cases "\<exists>r0. map_of (sto_cells st) (cell_key X c) = Some (Doc r0)")
  case False
  then show ?thesis
    by (auto simp: load_cell_from_def read_doc_def Let_def split: option.splits doc.splits)
next
  case True
  then obtain r0 where r0: "map_of (sto_cells st) (cell_key X c) = Some (Doc r0)" by blast
  have sound: "cid r0 = c \<and> validate_cell_schema X (cell_path X root c) r0 = Inr ()
      \<and> job_ids_unique (insert (redact_cell_diagnostic r0) (other_cells st (cid r0)))
      \<longleftrightarrow> job_ids_unique (dir_docs (sto_cells st))" if valid: "cells_valid X root st"
  proof -
    note key = cell_docs_key [OF assms valid]
    have id: "cid r0 = c" "validate_cell_schema X (cell_path X root c) r0 = Inr ()"
      using cell_key_doc [OF assms valid r0] by auto
    have "job_ids_unique (insert (redact_cell_diagnostic r0)
        {c \<in> dir_docs (sto_cells st). cid c \<noteq> cid (redact_cell_diagnostic r0)})
      \<longleftrightarrow> job_ids_unique (dir_docs (sto_cells st))"
      using r0 id by (intro unique_replace_same [of r0]) (auto simp: key)
    with id show ?thesis by simp
  qed
  show ?thesis
    unfolding load_cell_from_def cells_sound_def Let_def
    using r0 sound by (auto simp: read_doc_def validate_unique_cell_job_id_ok [OF assms])
qed

lemma validate_cell_schema_error: "validate_cell_schema X p r \<noteq> Inl (SE_NotFound q)"
  by (auto simp: validate_cell_schema_def ensure_schema_one_of_def ensure_schema_def ensure_stem_def
      validate_job_correlation_def res_bind_Inl_iff split: if_splits option.splits)

lemma read_cells_error: "read_cells X root st \<noteq> Inl (SE_NotFound q)"
proof -
  have "res_mapM f ns = Inl e \<Longrightarrow> \<exists>n \<in> set ns. f n = Inl e" for f :: "string \<Rightarrow> state_error + cell_record" and ns e
    by (induction ns) (auto split: sum.splits)
  from this [of _ "json_names (sto_cells st)" "SE_NotFound q"] show ?thesis
    by (force simp: read_cells_def read_json_directory_def json_names_set res_bind_Inl_iff read_doc_def
        validate_cell_schema_error split: option.splits doc.splits)
qed

lemma load_cell_from_not_found:
  "load_cell_from X root st c = Inl (SE_NotFound q) \<longleftrightarrow>
     map_of (sto_cells st) (cell_key X c) = None \<and> q = cell_path X root c"
proof -
  have uniq: "unique_job_ids_from p seen cs \<noteq> Inl (SE_NotFound q)" for p seen cs
    by (induction cs arbitrary: seen) (auto split: option.splits)
  show ?thesis
    by (auto simp: load_cell_from_def Let_def res_bind_Inl_iff read_doc_def validate_cell_schema_error
        validate_unique_cell_job_id_def validate_unique_cell_job_ids_for_path_def uniq read_cells_error
        split: option.splits doc.splits)
qed

definition cell_put_allowed :: "crates \<Rightarrow> path \<Rightarrow> store \<Rightarrow> cell_record \<Rightarrow> bool" where
  "cell_put_allowed X root st r \<longleftrightarrow>
     validate_cell_schema X (cell_path X root (cid r)) r = Inr () \<and> cells_valid X root st
     \<and> job_ids_unique (insert r (other_cells st (cid r)))
     \<and> (\<forall>old. load_cell_from X root st (cid r) = Inr old \<longrightarrow> cell_job old = cell_job r)"

lemma save_cell_check_ok:
  assumes "uuid_laws X" "dir_ok (sto_cells st)" "save_cell_check X root st rec = Inr r"
  shows "r = redact_cell_diagnostic rec \<and> cell_put_allowed X root st r"
  using assms(3)
  by (auto simp: save_cell_check_def cell_put_allowed_def Let_def
      validate_unique_cell_job_id_ok [OF assms(1,2)] split: sum.splits if_splits state_error.splits)

lemma map_of_put_cell:
  "map_of (sto_cells (put_cell X r st)) = (map_of (sto_cells st))(cell_key X (cid r) \<mapsto> Doc r)"
  by (simp add: put_cell_def update_conv')

lemma dir_ok_put_cell: "uuid_laws X \<Longrightarrow> dir_ok (sto_cells st) \<Longrightarrow> dir_ok (sto_cells (put_cell X r st))"
  by (auto simp: dir_ok_def put_cell_def dom_update file_name_ok_uuid_json)

lemma dir_docs_put_cell:
  assumes "uuid_laws X" "dir_ok (sto_cells st)" "cells_valid X root st"
  shows "dir_docs (sto_cells (put_cell X r st)) = insert r (other_cells st (cid r))"
proof -
  have ext: "name_extension (cell_key X (cid r)) = Some ''json''"
    using assms(1) by (simp add: uuid_json_def)
  have name: "n = cell_key X (cid x)" if "name_extension n = Some ''json''" "map_of (sto_cells st) n = Some (Doc x)" for n x
    using valid_cell_name [OF assms(2,3)] that .
  have "x \<in> dir_docs (sto_cells (put_cell X r st)) \<longleftrightarrow> x \<in> insert r (other_cells st (cid r))" for x
    unfolding dir_docs_def map_of_put_cell
    using ext name assms(1) by (auto simp: cell_id.expand) (metis cell_id.expand uuid_json_inj)+
  then show ?thesis by blast
qed

lemma put_cell_sound:
  assumes "uuid_laws X" "dir_ok (sto_cells st)" "cell_put_allowed X root st r"
  shows "cells_sound X root (put_cell X r st)"
proof -
  have valid: "cells_valid X root st" and uniq: "job_ids_unique (insert r (other_cells st (cid r)))"
    using assms(3) by (auto simp: cell_put_allowed_def)
  have "cells_valid X root (put_cell X r st)"
    using valid assms(3)
    by (auto simp: cells_valid_def dir_valid_def map_of_put_cell cell_put_allowed_def cell_path_eq)
  with uniq show ?thesis
    by (simp add: cells_sound_def dir_docs_put_cell [OF assms(1,2) valid])
qed

lemma load_put_cell_other:
  assumes "uuid_laws X" "dir_ok (sto_cells st)" "cell_put_allowed X root st r" "c \<noteq> cid r"
    and "load_cell_from X root st c = Inr x"
  shows "load_cell_from X root (put_cell X r st) c = Inr x"
proof -
  have "cell_key X (cid r) \<noteq> cell_key X c"
    using assms(1,4) by (auto simp: cell_id.expand)
  then show ?thesis
    using assms put_cell_sound [OF assms(1-3)]
    by (auto simp: load_cell_from_ok dir_ok_put_cell map_of_put_cell)
qed

lemma load_put_cell_same:
  assumes "uuid_laws X" "dir_ok (sto_cells st)" "save_cell_check X root st rec = Inr r"
  shows "load_cell_from X root (put_cell X r st) (cid r) = Inr r"
  using save_cell_check_ok [OF assms] put_cell_sound [OF assms(1,2), of root r]
  by (auto simp: load_cell_from_ok [OF assms(1) dir_ok_put_cell] assms map_of_put_cell)

subsection \<open>The record store interface\<close>

fun save_all :: "('st \<Rightarrow> 'v \<Rightarrow> 'e + 'v) \<Rightarrow> ('v \<Rightarrow> 'st \<Rightarrow> 'st) \<Rightarrow> 'st \<Rightarrow> 'v list \<Rightarrow> 'e + 'st" where
  "save_all check put st [] = Inr st"
| "save_all check put st (v # vs) =
     (case check st v of Inl e \<Rightarrow> Inl e | Inr r \<Rightarrow> save_all check put (put r st) vs)"

locale record_store =
  fixes ok :: "'st \<Rightarrow> bool" and load :: "'st \<Rightarrow> 'k \<Rightarrow> 'e + 'v" and check :: "'st \<Rightarrow> 'v \<Rightarrow> 'e + 'v"
    and put :: "'v \<Rightarrow> 'st \<Rightarrow> 'st" and key :: "'v \<Rightarrow> 'k" and tag :: "'v \<Rightarrow> 'j"
  assumes put_ok: "ok st \<Longrightarrow> check st v = Inr r \<Longrightarrow> ok (put r st)"
    and check_key: "check st v = Inr r \<Longrightarrow> key r = key v"
    and load_put: "ok st \<Longrightarrow> check st v = Inr r \<Longrightarrow> load (put r st) (key r) = Inr r"
    and load_put_other: "ok st \<Longrightarrow> check st v = Inr r \<Longrightarrow> k \<noteq> key r \<Longrightarrow> load st k = Inr x
      \<Longrightarrow> load (put r st) k = Inr x"
    and check_tag: "ok st \<Longrightarrow> check st v = Inr r \<Longrightarrow> load st (key r) = Inr old \<Longrightarrow> tag old = tag r"
begin

lemma saves_ok: "save_all check put st vs = Inr st' \<Longrightarrow> ok st \<Longrightarrow> ok st'"
  by (induction vs arbitrary: st) (auto split: sum.splits dest: put_ok)

text \<open>No sequence of saves loses a record or changes its tag.\<close>

lemma saves_tag:
  "save_all check put st vs = Inr st' \<Longrightarrow> ok st \<Longrightarrow> load st k = Inr old \<Longrightarrow>
     \<exists>new. load st' k = Inr new \<and> tag new = tag old"
proof (induction vs arbitrary: st old)
  case Nil
  then show ?case by simp
next
  case (Cons v vs)
  from Cons.prems(1) obtain r where r: "check st v = Inr r"
    and rest: "save_all check put (put r st) vs = Inr st'"
    by (auto split: sum.splits)
  have "\<exists>x. load (put r st) k = Inr x \<and> tag x = tag old"
  proof (cases "k = key r")
    case True
    with Cons.prems(2,3) load_put [OF _ r] check_tag [OF _ r] show ?thesis by simp
  next
    case False
    with Cons.prems(2,3) load_put_other [OF _ r] show ?thesis by simp
  qed
  with Cons.IH [OF rest] put_ok [OF Cons.prems(2) r] show ?case by metis
qed

text \<open>A sequence of saves of other records leaves a record unchanged.\<close>

lemma saves_frame:
  "save_all check put st vs = Inr st' \<Longrightarrow> ok st \<Longrightarrow> k \<notin> key ` set vs \<Longrightarrow> load st k = Inr x
    \<Longrightarrow> load st' k = Inr x"
proof (induction vs arbitrary: st)
  case (Cons v vs)
  from Cons.prems(1) obtain r where r: "check st v = Inr r"
    and rest: "save_all check put (put r st) vs = Inr st'"
    by (auto split: sum.splits)
  have "k \<noteq> key r" using Cons.prems(3) check_key [OF r] by simp
  from load_put_other [OF Cons.prems(2) r this Cons.prems(4)] Cons.IH [OF rest put_ok [OF Cons.prems(2) r]]
    Cons.prems(3) show ?case by simp
qed simp

end

interpretation cells: record_store "\<lambda>st. uuid_laws X \<and> dir_ok (sto_cells st)" "load_cell_from X root"
  "save_cell_check X root" "put_cell X" cid cell_job for X root
proof
  fix st v r assume "save_cell_check X root st v = Inr r"
  then show "cid r = cid v"
    by (auto simp: save_cell_check_def Let_def split: sum.splits if_splits state_error.splits)
next
  fix st v r k x
  assume *: "uuid_laws X \<and> dir_ok (sto_cells st)" "save_cell_check X root st v = Inr r" "k \<noteq> cid r"
    "load_cell_from X root st k = Inr x"
  with save_cell_check_ok [of X st root v r] show "load_cell_from X root (put_cell X r st) k = Inr x"
    by (intro load_put_cell_other) auto
next
  fix st v r old
  assume *: "uuid_laws X \<and> dir_ok (sto_cells st)" "save_cell_check X root st v = Inr r"
    "load_cell_from X root st (cid r) = Inr old"
  with save_cell_check_ok [of X st root v r] show "cell_job old = cell_job r"
    by (auto simp: cell_put_allowed_def)
qed (simp_all add: dir_ok_put_cell load_put_cell_same)

end
