(* ===== verification/ArtifactStore.thy ===== *)
theory ArtifactStore
  imports StoreLaws
begin

section \<open>The artifact store and the compatibility check\<close>

text \<open>
  The artifact half of \<open>state/mod.rs\<close>: the directory of one guest operation's collected files, its
  manifest, the integrity check that binds the two, and \<open>check_compatibility\<close>, the read-only scan
  over every durable record.  An \<open>ArtifactGuard\<close> pins the directory of one operation; its
  file-system identity checks are \<open>io_point\<close>s.
\<close>

definition STATE_COMPATIBILITY_SCHEMA_VERSION :: u32 where "STATE_COMPATIBILITY_SCHEMA_VERSION = 1"
definition LEGACY_DURABLE_STATE_FORMAT_VERSION :: u32 where "LEGACY_DURABLE_STATE_FORMAT_VERSION = 1"
definition DURABLE_STATE_FORMAT_VERSION :: u32 where "DURABLE_STATE_FORMAT_VERSION = 2"
definition STATE_COMPATIBILITY_CONTRACT :: string where
  "STATE_COMPATIBILITY_CONTRACT = ''vmcell.state-compatibility.v1''"

record artifact_guard =
  ag_cell_id :: cell_id
  ag_operation_id :: guest_operation_id

abbreviation art_key :: "artifact_guard \<Rightarrow> cell_id \<times> guest_operation_id" where
  "art_key g \<equiv> (ag_cell_id g, ag_operation_id g)"

definition artifact_root :: "crates \<Rightarrow> path \<Rightarrow> cell_id \<Rightarrow> guest_operation_id \<Rightarrow> path" where
  "artifact_root X root c i = path_join (path_join (path_join root ''artifacts'')
     (uuid_to_string X (cell_uuid c))) (uuid_to_string X (op_uuid i))"

definition artifact_file_name :: "nat \<Rightarrow> string" where
  "artifact_file_name index = dec_pad4 index @ ''.bin''"

definition artifact_prefix :: "crates \<Rightarrow> cell_id \<Rightarrow> guest_operation_id \<Rightarrow> string" where
  "artifact_prefix X c i =
     ''artifacts/'' @ uuid_to_string X (cell_uuid c) @ ''/'' @ uuid_to_string X (op_uuid i) @ ''/files/''"

subsection \<open>Integrity of the files\<close>

definition check_artifact_file ::
  "crates \<Rightarrow> path \<Rightarrow> artifact_record \<Rightarrow> string dir \<Rightarrow> nat \<times> artifact_entry \<Rightarrow> state_error + unit" where
  "check_artifact_file X root r files ie =
     (let file_name = artifact_file_name (fst ie); e = snd ie;
          p = path_join (path_join root ''files'') file_name in
      res_bind (ensure (ent_host_relative_path e = artifact_prefix X (art_cell_id r) (art_id r) @ file_name)
        (SE_ArtifactIntegrity (path_join root ''manifest.json'') ''manifest path is not operation-bound''))
      (\<lambda>_. res_bind (read_doc p (map_of files file_name))
      (\<lambda>bytes. res_bind (ensure (length bytes = unat (ent_size e))
        (SE_ArtifactIntegrity p ''file size does not match manifest''))
      (\<lambda>_. ensure (sha256_hex X bytes = ent_sha256 e)
        (SE_ArtifactIntegrity p ''file hash does not match manifest'')))))"

definition validate_artifact_files ::
  "crates \<Rightarrow> path \<Rightarrow> artifact_dir \<Rightarrow> artifact_record \<Rightarrow> state_error + unit" where
  "validate_artifact_files X root d r =
     res_bind (ensure (set (map fst (ad_files d)) = set (map artifact_file_name [0..<length (art_entries r)]))
       (SE_ArtifactIntegrity (path_join root ''files'') ''artifact file set does not exactly match manifest''))
     (\<lambda>_. res_for (enumerate 0 (art_entries r)) (check_artifact_file X root r (ad_files d)))"

definition artifact_record_check ::
  "crates \<Rightarrow> path \<Rightarrow> cell_id \<Rightarrow> guest_operation_id \<Rightarrow> artifact_record \<Rightarrow> state_error + unit" where
  "artifact_record_check X root c i r =
     (let p = path_join (artifact_root X root c i) ''manifest.json'' in
      res_bind (validate_artifact_schema p r)
      (\<lambda>_. ensure (art_id r = i \<and> art_cell_id r = c)
        (SE_IdentityMismatch ''artifact record'' p
          (uuid_to_string X (cell_uuid c) @ ''/'' @ uuid_to_string X (op_uuid i)))))"

definition load_artifact_from ::
  "crates \<Rightarrow> path \<Rightarrow> store \<Rightarrow> cell_id \<Rightarrow> guest_operation_id \<Rightarrow> state_error + artifact_record" where
  "load_artifact_from X root st c i =
     (let ar = artifact_root X root c i; p = path_join ar ''manifest.json'' in
      res_bind (ok_or (map_of (sto_artifacts st) (c, i)) (SE_Io ar))
      (\<lambda>d. res_bind (read_doc p (ad_manifest d))
      (\<lambda>r. res_bind (artifact_record_check X root c i r)
      (\<lambda>_. res_bind (load_guest_operation_from X root st i)
      (\<lambda>op. res_bind (validate_artifact_job_binding p op r)
      (\<lambda>_. res_bind (validate_artifact_files X ar d r)
      (\<lambda>_. Inr r)))))))"

definition load_artifact ::
  "'y fs_env_scheme \<Rightarrow> cell_id \<Rightarrow> guest_operation_id \<Rightarrow> ('z world_scheme, state_error, artifact_record) eff" where
  "load_artifact E c i = read_op E (\<lambda>st. load_artifact_from (env_crates E) (fe_root E) st c i)"

subsection \<open>Writing\<close>

definition validate_artifact_guard :: "'y fs_env_scheme \<Rightarrow> ('z world_scheme, state_error, unit) eff" where
  "validate_artifact_guard E = io_point E"

definition create_artifact_dir :: "cell_id \<times> guest_operation_id \<Rightarrow> store \<Rightarrow> store" where
  "create_artifact_dir k st =
     (case map_of (sto_artifacts st) k of
        None \<Rightarrow> st\<lparr>sto_artifacts := AList.update k \<lparr>ad_files = [], ad_manifest = None\<rparr> (sto_artifacts st)\<rparr>
      | Some _ \<Rightarrow> st)"

definition update_artifact_dir ::
  "cell_id \<times> guest_operation_id \<Rightarrow> (artifact_dir \<Rightarrow> artifact_dir) \<Rightarrow> store \<Rightarrow> store" where
  "update_artifact_dir k f st =
     (case map_of (sto_artifacts st) k of
        None \<Rightarrow> st | Some d \<Rightarrow> st\<lparr>sto_artifacts := AList.update k (f d) (sto_artifacts st)\<rparr>)"

definition prepare_artifact_root_with_mutation ::
  "'y fs_env_scheme \<Rightarrow> cell_id \<Rightarrow> guest_operation_id \<Rightarrow> ('z world_scheme, state_error, artifact_guard) eff" where
  "prepare_artifact_root_with_mutation E c i =
     bindE (with_mutation E (bindE (io_point E) (\<lambda>_. bindE (write_atomic E (create_artifact_dir (c, i)))
       (\<lambda>_. bindE (io_point E) (\<lambda>_. ret \<lparr>ag_cell_id = c, ag_operation_id = i\<rparr>)))))
     (\<lambda>g. bindE (validate_artifact_guard E) (\<lambda>_. ret g))"

definition write_artifact_file_with_mutation ::
  "'y fs_env_scheme \<Rightarrow> artifact_guard \<Rightarrow> nat \<Rightarrow> string \<Rightarrow> ('z world_scheme, state_error, string) eff" where
  "write_artifact_file_with_mutation E g index bytes =
     (let name = artifact_file_name index;
          ar = artifact_root (env_crates E) (fe_root E) (ag_cell_id g) (ag_operation_id g) in
      bindE (with_mutation E (
        bindE (validate_artifact_guard E) (\<lambda>_.
        bindE (read_op E (\<lambda>st.
          res_bind (ok_or (map_of (sto_artifacts st) (art_key g)) (SE_Io ar)) (\<lambda>d.
            ensure (map_of (ad_files d) name = None)
              (SE_AlreadyExists (path_join (path_join ar ''files'') name))))) (\<lambda>_.
        bindE (write_atomic E (update_artifact_dir (art_key g)
          (\<lambda>d. d\<lparr>ad_files := AList.update name (Doc bytes) (ad_files d)\<rparr>))) (\<lambda>_.
        bindE (validate_artifact_guard E) (\<lambda>_.
        ret (artifact_prefix (env_crates E) (ag_cell_id g) (ag_operation_id g) @ name)))))))
      (\<lambda>relative. bindE (validate_artifact_guard E) (\<lambda>_. ret relative)))"

definition entry_in_directory :: "string \<Rightarrow> artifact_entry \<Rightarrow> bool" where
  "entry_in_directory prefix e \<longleftrightarrow>
     starts_with (ent_host_relative_path e) prefix
     \<and> \<not> contains_char (drop (length prefix) (ent_host_relative_path e)) CHR ''/''"

definition save_artifact_check ::
  "crates \<Rightarrow> path \<Rightarrow> store \<Rightarrow> artifact_guard \<Rightarrow> artifact_record \<Rightarrow> state_error + unit" where
  "save_artifact_check X root st g r =
     (let c = ag_cell_id g; i = ag_operation_id g; ar = artifact_root X root c i;
          p = path_join ar ''manifest.json'' in
      res_bind (artifact_record_check X root c i r)
      (\<lambda>_. res_bind (load_guest_operation_from X root st (art_id r))
      (\<lambda>op. res_bind (validate_operation_parent_binding_for_write X root st
          (guest_operation_path X root (op_id op)) op)
      (\<lambda>_. res_bind (validate_artifact_job_binding p op r)
      (\<lambda>_. res_bind (ensure (list_all (entry_in_directory (artifact_prefix X c i)) (art_entries r))
          (SE_UnsafeRuntimePath p))
      (\<lambda>_. res_bind (ok_or (map_of (sto_artifacts st) (c, i)) (SE_Io ar))
      (\<lambda>d. res_bind (validate_artifact_files X ar d r)
      (\<lambda>_. ensure (ad_manifest d = None) (SE_AlreadyExists p)))))))))"

definition recheck_artifact_files ::
  "crates \<Rightarrow> path \<Rightarrow> store \<Rightarrow> artifact_guard \<Rightarrow> artifact_record \<Rightarrow> state_error + unit" where
  "recheck_artifact_files X root st g r =
     (let ar = artifact_root X root (ag_cell_id g) (ag_operation_id g) in
      res_bind (ok_or (map_of (sto_artifacts st) (art_key g)) (SE_Io ar))
        (\<lambda>d. validate_artifact_files X ar d r))"

definition save_artifact_new_with_mutation ::
  "'y fs_env_scheme \<Rightarrow> artifact_guard \<Rightarrow> artifact_record \<Rightarrow> ('z world_scheme, state_error, unit) eff" where
  "save_artifact_new_with_mutation E g r =
     bindE (with_mutation E (
       bindE (validate_artifact_guard E) (\<lambda>_.
       bindE (read_op E (\<lambda>st. save_artifact_check (env_crates E) (fe_root E) st g r)) (\<lambda>_.
       bindE (write_atomic E (update_artifact_dir (art_key g) (\<lambda>d. d\<lparr>ad_manifest := Some (Doc r)\<rparr>))) (\<lambda>_.
       bindE (validate_artifact_guard E) (\<lambda>_.
       read_op E (\<lambda>st. recheck_artifact_files (env_crates E) (fe_root E) st g r)))))))
     (\<lambda>_. validate_artifact_guard E)"

subsection \<open>Removal\<close>

definition remove_artifact_root ::
  "'y fs_env_scheme \<Rightarrow> cell_id \<Rightarrow> guest_operation_id \<Rightarrow> ('z world_scheme, state_error, bool) eff" where
  "remove_artifact_root E c i =
     bindE (validate_mutation_guard E) (\<lambda>_.
     bindE (read_op E (\<lambda>st. Inr (map_of (sto_artifacts st) (c, i) \<noteq> None))) (\<lambda>present.
       if \<not> present then ret False
       else bindE (validate_mutation_guard E) (\<lambda>_.
         bindE (write_atomic E (\<lambda>st. st\<lparr>sto_artifacts := AList.delete (c, i) (sto_artifacts st)\<rparr>)) (\<lambda>_.
         bindE (validate_mutation_guard E) (\<lambda>_. ret True)))))"

definition artifact_root_exists ::
  "'y fs_env_scheme \<Rightarrow> cell_id \<Rightarrow> guest_operation_id \<Rightarrow> ('z world_scheme, state_error, bool) eff" where
  "artifact_root_exists E c i = read_op E (\<lambda>st. Inr (map_of (sto_artifacts st) (c, i) \<noteq> None))"

definition require_guest_operation_parent_for_mutation ::
  "'y fs_env_scheme \<Rightarrow> guest_operation_record \<Rightarrow> ('z world_scheme, state_error, unit) eff" where
  "require_guest_operation_parent_for_mutation E op =
     read_op E (\<lambda>st. validate_operation_parent_binding_for_write (env_crates E) (fe_root E) st
       (guest_operation_path (env_crates E) (fe_root E) (op_id op)) op)"

subsection \<open>Compatibility\<close>

datatype state_compatibility_status = Compat_Empty | Compat_Compatible

record state_compatibility_counts =
  scc_installations :: u64
  scc_images :: u64
  scc_cells :: u64
  scc_guest_operations :: u64
  scc_artifacts :: u64

definition counts_is_empty :: "state_compatibility_counts \<Rightarrow> bool" where
  "counts_is_empty c \<longleftrightarrow> scc_installations c = 0 \<and> scc_images c = 0 \<and> scc_cells c = 0
     \<and> scc_guest_operations c = 0 \<and> scc_artifacts c = 0"

record state_compatibility_report =
  scr_schema_version :: u32
  scr_contract :: string
  scr_durable_state_format_version :: u32
  scr_status :: state_compatibility_status
  scr_checked_at :: time
  scr_counts :: state_compatibility_counts

text \<open>Collecting into a \<open>HashMap\<close> keeps the last cell of an id.\<close>

definition cells_by_id :: "cell_record list \<Rightarrow> cell_id \<rightharpoonup> cell_record" where
  "cells_by_id cs = map_of (rev (map (\<lambda>c. (cid c, c)) cs))"

definition validate_job_operation_bindings ::
  "crates \<Rightarrow> path \<Rightarrow> cell_record list \<Rightarrow> guest_operation_record list \<Rightarrow> state_error + unit" where
  "validate_job_operation_bindings X root cells operations =
     res_for operations (\<lambda>op.
       let p = guest_operation_path X root (op_id op) in
       case cells_by_id cells (op_cell_id op) of
         Some cell \<Rightarrow> validate_operation_job_binding p cell op
       | None \<Rightarrow> if op_job_id op = None then Inr ()
           else Inl (SE_JobCorrelationIntegrity p ''guest operation references a missing cell''))"

definition has_live_artifact :: "guest_operation_record \<Rightarrow> bool" where
  "has_live_artifact op \<longleftrightarrow> op_artifact_id op = Some (op_id op) \<and> op_artifact_pruned_at op = None"

fun scan_artifacts ::
  "crates \<Rightarrow> path \<Rightarrow> store \<Rightarrow> u32 \<times> u64 \<Rightarrow> guest_operation_record list \<Rightarrow> state_error + u32 \<times> u64" where
  "scan_artifacts X root st (v, n) [] = Inr (v, n)"
| "scan_artifacts X root st (v, n) (op # ops) =
     (if has_live_artifact op then
        res_bind (load_artifact_from X root st (op_cell_id op) (op_id op)) (\<lambda>a.
        res_bind (validate_artifact_job_binding
          (path_join (artifact_root X root (op_cell_id op) (op_id op)) ''manifest.json'') op a) (\<lambda>_.
        scan_artifacts X root st (max v (art_schema_version a), saturating_add n 1) ops))
      else scan_artifacts X root st (v, n) ops)"

definition durable_format ::
  "cell_record list \<Rightarrow> guest_operation_record list \<Rightarrow> u32" where
  "durable_format cells operations =
     (case map cell_schema_version cells @ map op_schema_version operations of
        [] \<Rightarrow> LEGACY_DURABLE_STATE_FORMAT_VERSION | v # vs \<Rightarrow> fold max vs v)"

definition compatibility_report ::
  "u32 \<times> state_compatibility_counts \<Rightarrow> time \<Rightarrow> state_compatibility_report" where
  "compatibility_report vc now =
     \<lparr>scr_schema_version = STATE_COMPATIBILITY_SCHEMA_VERSION, scr_contract = STATE_COMPATIBILITY_CONTRACT,
      scr_durable_state_format_version = fst vc,
      scr_status = (if counts_is_empty (snd vc) then Compat_Empty else Compat_Compatible),
      scr_checked_at = now, scr_counts = snd vc\<rparr>"

definition check_compatibility_from ::
  "crates \<Rightarrow> path \<Rightarrow> store \<Rightarrow> state_error + u32 \<times> state_compatibility_counts" where
  "check_compatibility_from X root st = res_map_err as_upgrade_required (
     res_bind (if sto_installation st = None then Inr 0
       else res_bind (load_installation_from root st) (\<lambda>_. Inr 1))
     (\<lambda>installations. res_bind (list_images_from root st)
     (\<lambda>images. res_bind (list_cells_from X root st)
     (\<lambda>cells. res_bind (validate_unique_cell_job_ids root cells)
     (\<lambda>_. res_bind (list_guest_operations_from X root st)
     (\<lambda>operations. res_bind (validate_job_operation_bindings X root cells operations)
     (\<lambda>_. res_bind (scan_artifacts X root st (durable_format cells operations, 0) operations)
     (\<lambda>(v, artifacts). Inr (v,
       \<lparr>scc_installations = installations, scc_images = word_of_nat (length images),
        scc_cells = word_of_nat (length cells),
        scc_guest_operations = word_of_nat (length operations), scc_artifacts = artifacts\<rparr>)))))))))"

definition check_compatibility ::
  "'y fs_env_scheme \<Rightarrow> ('z world_scheme, state_error, state_compatibility_report) eff" where
  "check_compatibility E =
     bindE (read_op E (check_compatibility_from (env_crates E) (fe_root E))) (\<lambda>vc.
     bindE (utc_now E) (\<lambda>now. ret (compatibility_report vc now)))"

end
