(* ===== verification/StoreOps.thy ===== *)
theory StoreOps
  imports ArtifactStore "HOL-Library.Sublist"
begin

section \<open>Effects of the store operations\<close>

text \<open>
  How the monadic store operations change the world.  Every record write has one shape, a check on
  the current store followed by an atomic write between two validations of the mutation guard
  (\<open>guarded_save\<close>); \<open>guarded_save_cases\<close> says once what such a write can leave behind when it fails
  at any point.  On top of it: round trips, crash atomicity, immutability of the job correlation
  over arbitrary sequences of failing and succeeding writes, and the behaviour of the lock.
\<close>

subsection \<open>Elementary steps\<close>

lemma world_swap: "w\<lparr>w_tick := n, w_store := st\<rparr> = w\<lparr>w_store := st, w_tick := n\<rparr>"
  by (cases w) simp

lemma next_tick_run: "next_tick w = (Inr (w_tick w), w\<lparr>w_tick := Suc (w_tick w)\<rparr>)"
  by (simp add: next_tick_def eff_defs)

lemma io_point_run:
  "io_point E w = ((case fs_fault E (w_tick w) of None \<Rightarrow> Inr () | Some f \<Rightarrow> Inl (fault_error f)),
     w\<lparr>w_tick := Suc (w_tick w)\<rparr>)"
  by (simp add: io_point_def bindE_def next_tick_run ret_def throw_def split: option.split)

lemma read_op_run:
  "read_op E f w = ((case fs_fault E (w_tick w) of None \<Rightarrow> f (w_store w) | Some e \<Rightarrow> Inl (fault_error e)),
     w\<lparr>w_tick := Suc (w_tick w)\<rparr>)"
  by (simp add: read_op_def bindE_def io_point_run gets_def liftR_def split: option.split)

lemma write_atomic_run:
  "write_atomic E f w =
     (let w1 = w\<lparr>w_tick := Suc (w_tick w)\<rparr>; w2 = w1\<lparr>w_store := f (w_store w)\<rparr> in
      case fs_write E (w_tick w) of Write_Ok \<Rightarrow> (Inr (), w2)
      | Write_FailBefore e \<Rightarrow> (Inl (fault_error e), w1)
      | Write_FailAfter e \<Rightarrow> (Inl (fault_error e), w2))"
  by (simp add: write_atomic_def bindE_def next_tick_run modify_def throw_def Let_def
      split: fs_write_outcome.split)

lemmas store_steps = next_tick_run io_point_run read_op_run write_atomic_run

lemma new_uuid_run: "new_uuid E w = (Inr (fs_uuid E (w_tick w)), w\<lparr>w_tick := Suc (w_tick w)\<rparr>)"
  by (simp add: new_uuid_def bindE_def next_tick_run ret_def)

lemma utc_now_run: "utc_now E w = (Inr (fs_now E (w_tick w)), w\<lparr>w_tick := Suc (w_tick w)\<rparr>)"
  by (simp add: utc_now_def bindE_def next_tick_run ret_def)

definition calm :: "'y fs_env_scheme \<Rightarrow> bool" where
  "calm E \<longleftrightarrow> (\<forall>n. fs_fault E n = None) \<and> (\<forall>n. fs_write E n = Write_Ok)"

subsection \<open>Guarded writes\<close>

definition guarded_save ::
  "'y fs_env_scheme \<Rightarrow> (store \<Rightarrow> state_error + 'a) \<Rightarrow> ('a \<Rightarrow> store \<Rightarrow> store)
    \<Rightarrow> ('z world_scheme, state_error, unit) eff" where
  "guarded_save E chk upd = with_mutation E (bindE (read_op E chk) (\<lambda>r. write_atomic E (upd r)))"

lemma save_cell_guarded:
  "save_cell_with_mutation E rec =
     guarded_save E (\<lambda>st. save_cell_check (env_crates E) (fe_root E) st rec) (put_cell (env_crates E))"
  by (simp add: save_cell_with_mutation_def save_cell_unchecked_def guarded_save_def)

lemma save_operation_guarded:
  "save_guest_operation_with_mutation E r =
     guarded_save E (\<lambda>st. save_operation_check (env_crates E) (fe_root E) st r)
       (\<lambda>_. put_operation (env_crates E) r)"
  by (simp add: save_guest_operation_with_mutation_def guarded_save_def)

lemma guarded_save_run:
  "guarded_save E chk upd w =
     (let t = w_tick w; at = (\<lambda>k. w\<lparr>w_tick := t + k\<rparr>); fault = (\<lambda>k. fs_fault E (t + k)) in
      case fault 0 of Some e \<Rightarrow> (Inl (fault_error e), at 1)
      | None \<Rightarrow> (case fault 1 of Some e \<Rightarrow> (Inl (fault_error e), at 2)
      | None \<Rightarrow> (case chk (w_store w) of Inl e \<Rightarrow> (Inl e, at 2)
      | Inr r \<Rightarrow> (case fs_write E (t + 2) of
            Write_FailBefore e \<Rightarrow> (Inl (fault_error e), at 3)
          | Write_FailAfter e \<Rightarrow> (Inl (fault_error e), at 3\<lparr>w_store := upd r (w_store w)\<rparr>)
          | Write_Ok \<Rightarrow> ((case fault 3 of Some e \<Rightarrow> Inl (fault_error e) | None \<Rightarrow> Inr ()),
              at 4\<lparr>w_store := upd r (w_store w)\<rparr>)))))"
  by (simp add: guarded_save_def with_mutation_def validate_mutation_guard_def bindE_def store_steps
      ret_def Let_def numeral_2_eq_2 numeral_3_eq_3 eval_nat_numeral
      split: option.split sum.split fs_write_outcome.split)

lemma guarded_save_cases:
  assumes "guarded_save E chk upd w = (res, w')"
  obtains (kept) n e where "w' = w\<lparr>w_tick := n\<rparr>" "res = Inl e"
  | (written) n r where "chk (w_store w) = Inr r" "w' = w\<lparr>w_tick := n, w_store := upd r (w_store w)\<rparr>"
  using assms unfolding guarded_save_run Let_def
  by (auto split: option.splits sum.splits fs_write_outcome.splits)

lemma guarded_save_ok:
  assumes "guarded_save E chk upd w = (Inr u, w')"
  obtains n r where "chk (w_store w) = Inr r" "w' = w\<lparr>w_tick := n, w_store := upd r (w_store w)\<rparr>"
  using assms by (rule guarded_save_cases) auto

lemma guarded_save_calm:
  assumes "calm E" "chk (w_store w) = Inr r"
  shows "guarded_save E chk upd w = (Inr (), w\<lparr>w_tick := w_tick w + 4, w_store := upd r (w_store w)\<rparr>)"
  using assms by (simp add: guarded_save_run calm_def Let_def)

subsection \<open>Guest operations are a record store\<close>

lemma load_cell_from_cong:
  "sto_cells st = sto_cells st' \<Longrightarrow> load_cell_from X root st = load_cell_from X root st'"
  by (simp add: load_cell_from_def validate_unique_cell_job_id_def read_cells_def fun_eq_iff)

lemma put_operation_cells [simp]: "sto_cells (put_operation X r st) = sto_cells st"
  by (simp add: put_operation_def)

lemma put_cell_operations [simp]: "sto_operations (put_cell X r st) = sto_operations st"
  by (simp add: put_cell_def)

lemma map_of_put_operation:
  "map_of (sto_operations (put_operation X r st)) =
     (map_of (sto_operations st))(uuid_json X (op_uuid (op_id r)) \<mapsto> Doc r)"
  by (simp add: put_operation_def update_conv')

definition save_operation_value ::
  "crates \<Rightarrow> path \<Rightarrow> store \<Rightarrow> guest_operation_record \<Rightarrow> state_error + guest_operation_record" where
  "save_operation_value X root st r = res_bind (save_operation_check X root st r) (\<lambda>_. Inr r)"

lemma operation_binding_write_read:
  assumes "validate_operation_parent_binding_for_write X root st p op = Inr u"
  shows "validate_operation_parent_binding X root st p op = Inr u"
  using assms
  by (auto simp: validate_operation_parent_binding_for_write_def validate_operation_parent_binding_def)

lemma validate_operation_parent_binding_cong:
  "sto_cells st = sto_cells st' \<Longrightarrow>
     validate_operation_parent_binding X root st = validate_operation_parent_binding X root st'"
  using load_cell_from_cong [of st st' X root]
  by (simp add: validate_operation_parent_binding_def fun_eq_iff)

lemma save_operation_check_ok:
  assumes "save_operation_check X root st r = Inr u"
  shows "validate_guest_operation_schema X (guest_operation_path X root (op_id r)) r = Inr ()
    \<and> validate_operation_parent_binding X root st (guest_operation_path X root (op_id r)) r = Inr ()
    \<and> (\<exists>cell. load_cell_from X root st (op_cell_id r) = Inr cell)
    \<and> (\<forall>old. load_guest_operation_from X root st (op_id r) = Inr old \<longrightarrow> op_job_id old = op_job_id r)"
proof -
  from assms have bind:
      "validate_operation_parent_binding_for_write X root st (guest_operation_path X root (op_id r)) r = Inr ()"
    by (auto simp: save_operation_check_def Let_def)
  then have "\<exists>cell. load_cell_from X root st (op_cell_id r) = Inr cell"
    by (auto simp: validate_operation_parent_binding_for_write_def)
  with bind operation_binding_write_read [OF bind] assms show ?thesis
    by (auto simp: save_operation_check_def Let_def split: if_splits)
qed

interpretation ops: record_store "\<lambda>st. uuid_laws X" "load_guest_operation_from X root"
  "save_operation_value X root" "put_operation X" op_id op_job_id for X root
proof
  fix st v r assume "save_operation_value X root st v = Inr r"
  then show "op_id r = op_id v" by (auto simp: save_operation_value_def)
next
  fix st v r assume *: "uuid_laws X" "save_operation_value X root st v = Inr r"
  then have "save_operation_check X root st r = Inr ()" by (auto simp: save_operation_value_def)
  note ok = save_operation_check_ok [OF this]
  show "load_guest_operation_from X root (put_operation X r st) (op_id r) = Inr r"
    using ok validate_operation_parent_binding_cong [of "put_operation X r st" st X root]
    by (simp add: load_guest_operation_from_def map_of_put_operation read_doc_def Let_def)
next
  fix st v r k x
  assume *: "uuid_laws X" "save_operation_value X root st v = Inr r" "k \<noteq> op_id r"
    "load_guest_operation_from X root st k = Inr x"
  have "uuid_json X (op_uuid k) \<noteq> uuid_json X (op_uuid (op_id r))"
    using *(1,3) by (auto simp: guest_operation_id.expand)
  then show "load_guest_operation_from X root (put_operation X r st) k = Inr x"
    using *(4) validate_operation_parent_binding_cong [of "put_operation X r st" st X root]
    by (simp add: load_guest_operation_from_def map_of_put_operation Let_def)
next
  fix st v r old
  assume "uuid_laws X" "save_operation_value X root st v = Inr r"
    "load_guest_operation_from X root st (op_id r) = Inr old"
  then show "op_job_id old = op_job_id r"
    using save_operation_check_ok [of X root st r] by (auto simp: save_operation_value_def)
qed simp

subsection \<open>Sequences of writes under faults\<close>

fun run_saves :: "('v \<Rightarrow> ('w, 'e, unit) eff) \<Rightarrow> 'v list \<Rightarrow> 'w \<Rightarrow> 'w" where
  "run_saves save [] w = w"
| "run_saves save (v # vs) w = run_saves save vs (snd (save v w))"

lemma run_saves_refines:
  assumes "\<And>v. save v = guarded_save E (\<lambda>st. check st v) put"
  shows "\<exists>ws. subseq ws vs \<and> save_all check put (w_store w) ws = Inr (w_store (run_saves save vs w))"
proof (induction vs arbitrary: w)
  case Nil
  show ?case by (rule exI [of _ "[]"]) simp
next
  case (Cons v vs)
  obtain res w' where run: "save v w = (res, w')" by (cases "save v w") auto
  obtain ws where ws: "subseq ws vs"
    "save_all check put (w_store w') ws = Inr (w_store (run_saves save vs w'))"
    using Cons.IH by blast
  from run assms have "guarded_save E (\<lambda>st. check st v) put w = (res, w')" by simp
  then show ?case
  proof (cases rule: guarded_save_cases)
    case (kept n e)
    with ws run show ?thesis by (intro exI [of _ ws]) auto
  next
    case (written n r)
    with ws run show ?thesis by (intro exI [of _ "v # ws"]) auto
  qed
qed

lemma save_operation_guarded_value:
  "save_guest_operation_with_mutation E r =
     guarded_save E (\<lambda>st. save_operation_value (env_crates E) (fe_root E) st r) (put_operation (env_crates E))"
  unfolding save_operation_guarded fun_eq_iff guarded_save_run save_operation_value_def Let_def
  by (auto split: option.splits sum.splits)

subsection \<open>A worked store\<close>

text \<open>A fault-free file system, an initial store, a job-correlated cell in it and a guest operation of
  that cell, for worked examples.\<close>

definition sample_fs :: fs_env where
  "sample_fs = \<lparr>fe_host = sample_env, fe_root = ''/state'', fs_fault = (\<lambda>_. None),
     fs_write = (\<lambda>_. Write_Ok), fs_busy = (\<lambda>n. n < 2), fs_now = int, fs_uuid = (\<lambda>n. word_of_nat (n + 100)),
     fs_lock_retries = 3, fs_variant = (\<lambda>_ _ _. Variant_Missing)\<rparr>"

definition empty_store :: store where
  "empty_store = \<lparr>sto_installation = Some (Doc \<lparr>ins_schema_version = 1, ins_install_id = 5\<rparr>),
     sto_images = [], sto_cells = [], sto_operations = [], sto_runtime = [], sto_artifacts = []\<rparr>"

definition empty_world :: world where
  "empty_world = \<lparr>w_store = empty_store, w_tick = 0, w_locked = False\<rparr>"

definition job_cell :: cell_record where
  "job_cell = sample_cell\<lparr>cell_schema_version := 2, cell_job := Some
     \<lparr>jc_job_id = JobId 3, jc_job_spec_sha256 = replicate 64 CHR ''a'', jc_started_at = 0\<rparr>\<rparr>"

definition job_operation :: guest_operation_record where
  "job_operation = intent_with_job (GuestOperationId 21) (CellId 7) Kind_Exec 0 (Some (JobId 3))"

definition job_store :: store where
  "job_store = put_operation canonical_crates job_operation (put_cell canonical_crates job_cell empty_store)"

lemmas sample_fs_simps [simp] =
  arg_cong [OF sample_fs_def, of fe_root, simplified] arg_cong [OF sample_fs_def, of fe_host, simplified]

lemma he_crates_sample [simp]: "he_crates sample_env = canonical_crates"
  by (simp add: sample_env_def)

lemma calm_sample_fs: "calm sample_fs"
  by (simp add: calm_def sample_fs_def)

lemma uuid_stem_state:
  "file_stem (cell_path canonical_crates ''/state'' c) = Some (uuid_to_string canonical_crates (cell_uuid c))"
  "file_stem (guest_operation_path canonical_crates ''/state'' i) = Some (uuid_to_string canonical_crates (op_uuid i))"
  by (simp_all add: cell_path_eq guest_operation_path_def file_stem_json canonical_uuid_laws)

lemma put_first_cell:
  assumes "validate_cell_schema X (cell_path X root (cid r)) r = Inr ()" "redact_cell_diagnostic r = r"
  shows "save_cell_check X root empty_store r = Inr r"
  using assms
  by (simp add: save_cell_check_def empty_store_def load_cell_from_def read_doc_def Let_def
      validate_unique_cell_job_id_def read_cells_def read_json_directory_def json_names_def
      validate_unique_cell_job_ids_for_path_def split: option.split)

lemma job_cell_check: "save_cell_check canonical_crates ''/state'' empty_store job_cell = Inr job_cell"
proof (rule put_first_cell)
  have "has_valid_spec_digest \<lparr>jc_job_id = JobId 3, jc_job_spec_sha256 = replicate 64 CHR ''a'', jc_started_at = 0\<rparr>"
    by (simp add: has_valid_spec_digest_def is_lowercase_sha256_def byte_def list_all_iff)
  then show "validate_cell_schema canonical_crates (cell_path canonical_crates ''/state'' (cid job_cell)) job_cell = Inr ()"
    by (simp add: validate_cell_schema_def job_cell_def sample_cell_def ensure_stem_def uuid_stem_state
        ensure_schema_one_of_def ensure_schema_def ensure_def cell_schema_defs cell_ownership_new_def
        validate_job_correlation_def)
qed (simp add: redact_cell_diagnostic_def job_cell_def sample_cell_def)

lemma empty_store_ok: "uuid_laws canonical_crates \<and> dir_ok (sto_cells empty_store)"
  by (simp add: canonical_uuid_laws dir_ok_def empty_store_def)

lemma cell_id_job_cell [simp]: "cid job_cell = CellId 7" "op_id job_operation = GuestOperationId 21"
  by (simp_all add: job_cell_def sample_cell_def job_operation_def intent_with_job_def)

lemma job_cell_loads:
  "load_cell_from canonical_crates ''/state'' (put_cell canonical_crates job_cell empty_store) (CellId 7) = Inr job_cell"
  using cells.load_put [OF empty_store_ok job_cell_check] by simp

lemma job_operation_check:
  "save_operation_value canonical_crates ''/state'' (put_cell canonical_crates job_cell empty_store) job_operation
     = Inr job_operation"
  using job_cell_loads
  by (simp add: save_operation_value_def save_operation_check_def load_guest_operation_from_def Let_def
      read_doc_def empty_store_def put_cell_def validate_operation_parent_binding_for_write_def res_map_err_def
      job_operation_def intent_with_job_def validate_guest_operation_schema_def ensure_schema_one_of_def
      ensure_stem_def uuid_stem_state op_schema_version_for_job_def ensure_def operation_fields_valid_def
      operation_times_valid_def no_result_fields_def op_schema_defs validate_operation_job_binding_def
      job_cell_def)

lemma job_store_loads:
  "load_cell_from canonical_crates ''/state'' job_store (CellId 7) = Inr job_cell"
  "load_guest_operation_from canonical_crates ''/state'' job_store (GuestOperationId 21) = Inr job_operation"
  using job_cell_loads ops.load_put [OF canonical_uuid_laws job_operation_check]
    load_cell_from_cong [of job_store "put_cell canonical_crates job_cell empty_store"]
  by (simp_all add: job_store_def)

lemma job_store_ok: "dir_ok (sto_cells job_store)"
  using dir_ok_put_cell empty_store_ok by (simp add: job_store_def)

subsection \<open>Schema versions\<close>

lemma validate_cell_schema_version:
  "validate_cell_schema X p r = Inr u \<Longrightarrow>
     cell_schema_version r = cell_schema_version_for_job (cell_job r)
     \<and> own_schema_version (cell_ownership r) = OWNERSHIP_MARKER_SCHEMA
     \<and> (\<forall>j. cell_job r = Some j \<longrightarrow> job_uuid (jc_job_id j) \<noteq> 0 \<and> has_valid_spec_digest j)"
  by (cases "cell_job r") (auto simp: validate_cell_schema_def validate_job_correlation_def
      cell_schema_version_for_job_def ensure_schema_one_of_def ensure_schema_def cell_schema_defs
      split: if_splits)

lemma validate_operation_schema_version:
  "validate_guest_operation_schema X p r = Inr u \<Longrightarrow>
     op_schema_version r = op_schema_version_for_job (op_job_id r)"
  by (auto simp: validate_guest_operation_schema_def op_schema_version_for_job_def
      ensure_schema_one_of_def op_schema_defs split: if_splits option.splits)

lemma dir_docs_valid:
  "dir_valid dir d validate \<Longrightarrow> r \<in> dir_docs d \<Longrightarrow> \<exists>p. validate p r = Inr ()"
  by (force simp: dir_valid_def dir_docs_def)

subsection \<open>Properties of record writes\<close>

abbreviation cells_ok :: "'y fs_env_scheme \<Rightarrow> 'z world_scheme \<Rightarrow> bool" where
  "cells_ok E w \<equiv> uuid_laws (env_crates E) \<and> dir_ok (sto_cells (w_store w))"

text \<open>
  C34: a cell write is all or nothing, and what it writes is what is read back.  Whatever fails, and
  whenever it fails, the store is afterwards either untouched or contains exactly the written
  record with its diagnostic redacted; in the second case every directory invariant holds and every
  other readable cell reads as before.  A write that reports success is always of the second kind.
\<close>

theorem save_cell_atomic:
  assumes "cells_ok E w" and "save_cell_with_mutation E rec w = (res, w')"
  shows "(w_store w' = w_store w \<and> (\<exists>e. res = Inl e))
    \<or> (load_cell_from (env_crates E) (fe_root E) (w_store w') (cell_record.cell_id rec)
         = Inr (redact_cell_diagnostic rec)
       \<and> cells_sound (env_crates E) (fe_root E) (w_store w')
       \<and> (\<forall>c x. c \<noteq> cell_record.cell_id rec \<longrightarrow>
            load_cell_from (env_crates E) (fe_root E) (w_store w) c = Inr x \<longrightarrow>
            load_cell_from (env_crates E) (fe_root E) (w_store w') c = Inr x))"
proof -
  let ?X = "env_crates E" and ?root = "fe_root E"
  from assms(2) have "guarded_save E (\<lambda>st. save_cell_check ?X ?root st rec) (put_cell ?X) w = (res, w')"
    by (simp add: save_cell_guarded)
  then show ?thesis
  proof (cases rule: guarded_save_cases)
    case (written n r)
    have r: "r = redact_cell_diagnostic rec" "cell_put_allowed ?X ?root (w_store w) r"
      using save_cell_check_ok [OF _ _ written(1)] assms(1) by auto
    have "load_cell_from ?X ?root (put_cell ?X r (w_store w)) (cid r) = Inr r"
      using cells.load_put [OF assms(1) written(1)] .
    moreover have "cells_sound ?X ?root (put_cell ?X r (w_store w))"
      using put_cell_sound assms(1) r(2) by blast
    ultimately show ?thesis
      using written(2) r cells.load_put_other [OF assms(1) written(1)] by auto
  qed auto
qed

theorem save_cell_atomic_witness:
  "\<exists>w'. save_cell_with_mutation sample_fs job_cell empty_world = (Inr (), w')
     \<and> load_cell_from canonical_crates ''/state'' (w_store w') (CellId 7) = Inr job_cell"
proof -
  let ?w = "empty_world\<lparr>w_tick := 4, w_store := put_cell canonical_crates job_cell empty_store\<rparr>"
  have run: "save_cell_with_mutation sample_fs job_cell empty_world = (Inr (), ?w)"
    using guarded_save_calm [OF calm_sample_fs, of _ empty_world job_cell] job_cell_check
    by (simp add: save_cell_guarded empty_world_def)
  have "redact_cell_diagnostic job_cell = job_cell"
    by (simp add: redact_cell_diagnostic_def job_cell_def sample_cell_def)
  with save_cell_atomic [OF _ run] empty_store_ok run show ?thesis
    by (simp add: empty_world_def)
qed


text \<open>
  The job correlation of a durable record is immutable.  After any sequence of writes, with any
  faults, a cell that could be loaded can still be loaded and carries the same job correlation, and
  a guest operation that could be loaded carries the same job id.
\<close>

theorem job_correlation_immutable:
  assumes "cells_ok E w"
    and "load_cell_from (env_crates E) (fe_root E) (w_store w) c = Inr cell"
    and "load_guest_operation_from (env_crates E) (fe_root E) (w_store w) i = Inr op"
  shows "(\<exists>cell'. load_cell_from (env_crates E) (fe_root E)
            (w_store (run_saves (save_cell_with_mutation E) cs w)) c = Inr cell'
          \<and> cell_job cell' = cell_job cell)
    \<and> (\<exists>op'. load_guest_operation_from (env_crates E) (fe_root E)
            (w_store (run_saves (save_guest_operation_with_mutation E) os w)) i = Inr op'
          \<and> op_job_id op' = op_job_id op)"
proof -
  obtain ds es where ds: "save_all (save_cell_check (env_crates E) (fe_root E)) (put_cell (env_crates E))
      (w_store w) ds = Inr (w_store (run_saves (save_cell_with_mutation E) cs w))"
    and es: "save_all (save_operation_value (env_crates E) (fe_root E)) (put_operation (env_crates E))
      (w_store w) es = Inr (w_store (run_saves (save_guest_operation_with_mutation E) os w))"
    using run_saves_refines [of "save_cell_with_mutation E", OF save_cell_guarded, of cs w]
      run_saves_refines [of "save_guest_operation_with_mutation E", OF save_operation_guarded_value, of os w]
    by blast
  from cells.saves_tag [OF ds assms(1,2)] ops.saves_tag [OF es _ assms(3)] assms(1) show ?thesis by blast
qed

theorem job_correlation_immutable_witness:
  "\<exists>cell'. load_cell_from canonical_crates ''/state''
      (w_store (run_saves (save_cell_with_mutation sample_fs) [job_cell\<lparr>cell_job := None\<rparr>]
        \<lparr>w_store = job_store, w_tick = 0, w_locked = True\<rparr>)) (CellId 7) = Inr cell'
    \<and> cell_job cell' \<noteq> None"
  using job_correlation_immutable [of sample_fs "\<lparr>w_store = job_store, w_tick = 0, w_locked = True\<rparr>"
      "CellId 7" job_cell "GuestOperationId 21" job_operation "[job_cell\<lparr>cell_job := None\<rparr>]" "[]"]
    job_store_ok job_store_loads canonical_uuid_laws
  by (auto simp: job_cell_def)

text \<open>
  C36: what a loaded cell guarantees.  A cell that the store hands out carries the requested identity,
  schema version 1 exactly when it has no job and version 2 exactly when it has one, a job id that is
  not nil with a canonical digest, a diagnostic that is already redacted, and no other readable cell
  shares its job id.
\<close>

theorem loaded_cell_well_typed:
  assumes "uuid_laws X" and "dir_ok (sto_cells st)" and "load_cell_from X root st c = Inr r"
  shows "cell_record.cell_id r = c
    \<and> cell_schema_version r = cell_schema_version_for_job (cell_job r)
    \<and> own_schema_version (cell_ownership r) = OWNERSHIP_MARKER_SCHEMA
    \<and> redact_cell_diagnostic r = r
    \<and> (case cell_job r of None \<Rightarrow> True
       | Some j \<Rightarrow> job_uuid (jc_job_id j) \<noteq> 0 \<and> has_valid_spec_digest j
           \<and> (\<forall>c' r' j'. load_cell_from X root st c' = Inr r' \<longrightarrow> cell_job r' = Some j' \<longrightarrow>
                jc_job_id j' = jc_job_id j \<longrightarrow> c' = c))"
proof -
  note load = load_cell_from_ok [OF assms(1,2)]
  have sound: "cells_sound X root st" using assms(3) by (simp add: load)
  then have valid: "cells_valid X root st" and uniq: "job_ids_unique (dir_docs (sto_cells st))"
    by (simp_all add: cells_sound_def)
  have doc: "cid x = d \<and> validate_cell_schema X (cell_path X root d) x = Inr () \<and> redact_cell_diagnostic x = x
      \<and> (\<exists>y \<in> dir_docs (sto_cells st). cid y = cid x \<and> cell_job y = cell_job x)"
    if ld: "load_cell_from X root st d = Inr x" for d x
  proof -
    obtain x0 where x0: "map_of (sto_cells st) (cell_key X d) = Some (Doc x0)" "x = redact_cell_diagnostic x0"
      using ld by (auto simp: load)
    with cell_key_doc [OF assms(1,2) valid x0(1)] cell_docs_key [OF assms(1,2) valid, of x0]
    show ?thesis by auto
  qed
  have r: "cid r = c" "validate_cell_schema X (cell_path X root c) r = Inr ()" "redact_cell_diagnostic r = r"
    using doc [OF assms(3)] by auto
  note shape = validate_cell_schema_version [OF r(2)]
  have other: "c' = c" if "load_cell_from X root st c' = Inr r'" "cell_job r' = Some j'" "cell_job r = Some j"
    "jc_job_id j' = jc_job_id j" for c' r' j j'
    using doc [OF that(1)] doc [OF assms(3)] uniq that(2-4) unfolding job_ids_unique_def by metis
  from r shape other show ?thesis by (auto split: option.split)
qed

theorem loaded_cell_well_typed_witness:
  "load_cell_from canonical_crates ''/state'' job_store (CellId 7) = Inr job_cell
   \<and> cell_schema_version job_cell = cell_schema_version_for_job (cell_job job_cell)"
  using loaded_cell_well_typed [OF canonical_uuid_laws job_store_ok job_store_loads(1)] job_store_loads(1)
  by simp

subsection \<open>The mutation lock\<close>

lemma try_acquire_run:
  "try_acquire_mutation_lock E w =
     (case fs_fault E (w_tick w) of Some e \<Rightarrow> (Inl (fault_error e), w\<lparr>w_tick := w_tick w + 1\<rparr>)
      | None \<Rightarrow> if w_locked w \<or> fs_busy E (w_tick w + 1)
          then (Inl SE_MutationBusy, w\<lparr>w_tick := w_tick w + 2\<rparr>)
          else (Inr (), w\<lparr>w_tick := w_tick w + 2, w_locked := True\<rparr>))"
  by (simp add: try_acquire_mutation_lock_def bindE_def io_point_run next_tick_run gets_def throw_def
      modify_def split: option.split)

lemma acquire_retry_run:
  "acquire_mutation_lock_retry (Suc k) E w =
     (case try_acquire_mutation_lock E w of
        (Inl SE_MutationBusy, w1) \<Rightarrow> acquire_mutation_lock_retry k E w1
      | r \<Rightarrow> r)"
  by (auto simp: bindE_def attempt_def liftR_def split: prod.split sum.split state_error.split)

lemma acquire_retry_effect:
  "acquire_mutation_lock_retry k E w = (res, w') \<Longrightarrow>
     (\<exists>n. w_tick w < n \<and> n \<le> w_tick w + 2 * Suc k \<and>
       (case res of Inr _ \<Rightarrow> \<not> w_locked w \<and> w' = w\<lparr>w_tick := n, w_locked := True\<rparr>
        | Inl e \<Rightarrow> w' = w\<lparr>w_tick := n\<rparr>))"
proof (induction k arbitrary: w)
  case 0
  then show ?case
    by (auto simp: try_acquire_run split: option.splits if_splits intro: exI [of _ "w_tick w + 1"] exI [of _ "w_tick w + 2"])
next
  case (Suc k)
  show ?case
  proof (cases "fst (try_acquire_mutation_lock E w) = Inl SE_MutationBusy")
    case True
    moreover have "fault_error e \<noteq> SE_MutationBusy" for e
      by (cases e) (simp_all add: fault_error_def)
    ultimately have busy: "try_acquire_mutation_lock E w = (Inl SE_MutationBusy, w\<lparr>w_tick := w_tick w + 2\<rparr>)"
      by (auto simp: try_acquire_run split: option.splits if_splits)
    with Suc.prems have "acquire_mutation_lock_retry k E (w\<lparr>w_tick := w_tick w + 2\<rparr>) = (res, w')"
      by (simp add: acquire_retry_run del: acquire_mutation_lock_retry.simps)
    from Suc.IH [OF this] obtain n where n: "w_tick w + 2 < n" "n \<le> w_tick w + 2 + 2 * Suc k"
      "case res of Inr _ \<Rightarrow> \<not> w_locked w \<and> w' = w\<lparr>w_tick := n, w_locked := True\<rparr>
        | Inl e \<Rightarrow> w' = w\<lparr>w_tick := n\<rparr>"
      by (cases res) auto
    then show ?thesis by (intro exI [of _ n]) auto
  next
    case False
    with Suc.prems have "try_acquire_mutation_lock E w = (res, w')"
      by (auto simp: acquire_retry_run simp del: acquire_mutation_lock_retry.simps
          split: prod.splits sum.splits state_error.splits)
    then show ?thesis
      by (auto simp: try_acquire_run split: option.splits if_splits intro: exI [of _ "w_tick w + 1"] exI [of _ "w_tick w + 2"])
  qed
qed

lemma acquire_retry_calm:
  assumes "\<And>n. fs_fault E n = None"
  shows "fst (acquire_mutation_lock_retry k E w) =
    (if \<not> w_locked w \<and> (\<exists>j \<le> k. \<not> fs_busy E (w_tick w + 2 * j + 1)) then Inr () else Inl SE_MutationBusy)"
proof (induction k arbitrary: w)
  case 0
  then show ?case by (simp add: try_acquire_run assms)
next
  case (Suc k)
  have first: "(\<exists>j \<le> Suc k. P j) \<longleftrightarrow> P 0 \<or> (\<exists>j \<le> k. P (Suc j))" for P
    by (metis Suc_le_mono le0 not0_implies_Suc)
  show ?case
    using Suc [of "w\<lparr>w_tick := w_tick w + 2\<rparr>"]
    by (simp add: acquire_retry_run try_acquire_run assms first del: acquire_mutation_lock_retry.simps)
qed

text \<open>
  Taking the mutation lock terminates and excludes.  Whatever other processes do, the attempt ends
  after at most \<open>fs_lock_retries + 1\<close> polls; it returns a guard only when the lock was free in this
  process, then the lock is held; an error leaves it as it was, and the store is never touched.
\<close>

theorem lock_excludes_and_terminates:
  "\<exists>res n. acquire_mutation_lock E w =
     (res, if is_ok res then w\<lparr>w_tick := n, w_locked := True\<rparr> else w\<lparr>w_tick := n\<rparr>)
   \<and> n \<le> w_tick w + 2 * Suc (fs_lock_retries E) \<and> (is_ok res \<longrightarrow> \<not> w_locked w)"
proof -
  obtain res w' where "acquire_mutation_lock_retry (fs_lock_retries E) E w = (res, w')"
    by (cases "acquire_mutation_lock_retry (fs_lock_retries E) E w") auto
  from acquire_retry_effect [OF this] this show ?thesis
    by (cases res) (force simp: acquire_mutation_lock_def)+
qed

theorem lock_excludes_and_terminates_witness:
  "\<exists>res n. acquire_mutation_lock sample_fs empty_world =
     (res, if is_ok res then empty_world\<lparr>w_tick := n, w_locked := True\<rparr> else empty_world\<lparr>w_tick := n\<rparr>)
   \<and> n \<le> 8"
  using lock_excludes_and_terminates [of sample_fs empty_world]
  by (auto simp: sample_fs_def empty_world_def)

text \<open>
  A free lock is eventually taken.  When the file system works, acquiring succeeds exactly when
  the lock is not held in this process and some poll before the deadline finds it free; otherwise the
  caller learns that another mutation is active.
\<close>

theorem free_lock_is_acquired:
  assumes "\<And>n. fs_fault E n = None"
  shows "fst (acquire_mutation_lock E w) =
    (if \<not> w_locked w \<and> (\<exists>j \<le> fs_lock_retries E. \<not> fs_busy E (w_tick w + 2 * j + 1))
     then Inr () else Inl SE_MutationBusy)"
  unfolding acquire_mutation_lock_def by (rule acquire_retry_calm [OF assms])

theorem free_lock_is_acquired_witness:
  "fs_busy sample_fs 1 \<and> fst (acquire_mutation_lock sample_fs empty_world) = Inr ()"
proof -
  have "\<exists>j \<le> fs_lock_retries sample_fs. \<not> fs_busy sample_fs (w_tick empty_world + 2 * j + 1)"
    by (rule exI [of _ 1]) (simp add: sample_fs_def empty_world_def)
  then show ?thesis
    using free_lock_is_acquired [of sample_fs empty_world] calm_sample_fs
    by (simp add: calm_def empty_world_def) (simp add: sample_fs_def)
qed

subsection \<open>Guest operation records\<close>

text \<open>
  A stored guest operation is internally consistent.  In a record the schema check accepts, the
  operation is terminal exactly when it has a completion time, an unknown failure is only ever
  recorded for an operation that may still be running, a collected artifact belongs to the operation
  itself and to a collecting kind, results and pruning occur only on completion, times are ordered,
  and the schema version tells whether there is a job.
\<close>

theorem guest_operation_consistent:
  assumes "validate_guest_operation_schema X p r = Inr ()"
  shows "(is_terminal (op_phase r) \<longleftrightarrow> op_completed_at r \<noteq> None)
    \<and> (op_failure r = Some Fail_Unknown \<longrightarrow> op_phase r = Op_TransportActive)
    \<and> (op_phase r = Op_Failed \<longrightarrow> op_failure r \<noteq> None)
    \<and> (\<forall>a. op_artifact_id r = Some a \<longrightarrow> a = op_id r \<and> artifact_kind (op_kind r)
         \<and> op_phase r \<in> {Op_ArtifactCommitted, Op_Completed})
    \<and> (op_phase r \<noteq> Op_Completed \<longrightarrow> no_result_fields r \<and> op_artifact_pruned_at r = None)
    \<and> op_created_at r \<le> op_updated_at r
    \<and> (\<forall>t. op_completed_at r = Some t \<longrightarrow> op_created_at r \<le> t \<and> t \<le> op_updated_at r)
    \<and> op_schema_version r = op_schema_version_for_job (op_job_id r)"
proof -
  have fields: "operation_fields_valid r" and times: "operation_times_valid r"
    using assms by (auto simp: validate_guest_operation_schema_def)
  note job = validate_operation_schema_version [OF assms]
  have "op_created_at r \<le> op_updated_at r
      \<and> (\<forall>t. op_completed_at r = Some t \<longrightarrow> op_created_at r \<le> t \<and> t \<le> op_updated_at r)"
    using times by (auto simp: operation_times_valid_def split: option.splits)
  with fields job show ?thesis
    by (cases "op_phase r") (auto simp: operation_fields_valid_def is_terminal_def split: option.splits)
qed

theorem guest_operation_consistent_witness:
  "validate_guest_operation_schema canonical_crates
     (guest_operation_path canonical_crates ''/state'' (GuestOperationId 21)) job_operation = Inr ()
   \<and> op_schema_version job_operation = op_schema_version_for_job (op_job_id job_operation)"
proof -
  have "validate_guest_operation_schema canonical_crates
     (guest_operation_path canonical_crates ''/state'' (GuestOperationId 21)) job_operation = Inr ()"
    using job_operation_check save_operation_check_ok
    by (fastforce simp: save_operation_value_def)
  with guest_operation_consistent [OF this] show ?thesis by blast
qed

end
