(* ===== verification/ArtifactLaws.thy ===== *)
theory ArtifactLaws
  imports StoreOps
begin

section \<open>Laws of the artifact store\<close>

text \<open>
  A committed artifact is immutable and verifiable: its manifest is written once, it loads back, and
  whatever loads has been compared byte for byte (by length and digest) with the files on disk.  The
  compatibility scan is read-only and, when it succeeds, every durable record can be loaded.
\<close>

subsection \<open>Bounds\<close>

lemma checked_sum_Some:
  "checked_sum acc xs = Some t \<Longrightarrow> unat t = unat acc + sum_list (map unat xs)"
  by (induction xs arbitrary: acc) (auto simp: checked_add_Some_iff split: option.splits)

lemma validate_artifact_schema_ok:
  assumes "validate_artifact_schema p r = Inr u"
  shows "art_schema_version r = artifact_schema_version_for_job (art_job_id r)
    \<and> 0 < length (art_entries r) \<and> length (art_entries r) \<le> MAX_ARTIFACT_FILES
    \<and> (\<forall>e \<in> set (art_entries r). ent_size e \<le> MAX_ARTIFACT_FILE_BYTES)
    \<and> sum_list (map (\<lambda>e. unat (ent_size e)) (art_entries r)) \<le> unat MAX_ARTIFACT_TOTAL_BYTES"
proof -
  have job: "art_schema_version r = artifact_schema_version_for_job (art_job_id r)"
    using assms by (auto simp: validate_artifact_schema_def ensure_schema_one_of_def artifact_schema_defs
        artifact_schema_version_for_job_def split: if_splits option.splits)
  have rest: "art_entries r \<noteq> []" "length (art_entries r) \<le> MAX_ARTIFACT_FILES"
    "list_all (\<lambda>e. \<not> MAX_ARTIFACT_FILE_BYTES < ent_size e) (art_entries r)"
    "\<exists>t. checked_sum 0 (map ent_size (art_entries r)) = Some t \<and> t \<le> MAX_ARTIFACT_TOTAL_BYTES"
    using assms by (auto simp: validate_artifact_schema_def list_ex_iff list_all_iff
        split: if_splits option.splits)
  from rest(4) obtain t where t: "checked_sum 0 (map ent_size (art_entries r)) = Some t"
    "t \<le> MAX_ARTIFACT_TOTAL_BYTES" by blast
  have "sum_list (map (\<lambda>e. unat (ent_size e)) (art_entries r)) \<le> unat MAX_ARTIFACT_TOTAL_BYTES"
    using checked_sum_Some [OF t(1)] t(2) by (simp add: word_le_nat_alt comp_def)
  with job rest show ?thesis by (auto simp: list_all_iff not_less)
qed

subsection \<open>Files\<close>

lemma read_doc_Inr_iff [simp]: "read_doc p d = Inr x \<longleftrightarrow> d = Some (Doc x)"
  by (auto simp: read_doc_def split: option.splits doc.splits)

lemma validate_artifact_files_ok:
  assumes "validate_artifact_files X root d r = Inr u"
  shows "set (map fst (ad_files d)) = set (map artifact_file_name [0..<length (art_entries r)])
    \<and> (\<forall>k < length (art_entries r). \<exists>bytes.
        map_of (ad_files d) (artifact_file_name k) = Some (Doc bytes)
        \<and> length bytes = unat (ent_size (art_entries r ! k))
        \<and> sha256_hex X bytes = ent_sha256 (art_entries r ! k)
        \<and> ent_host_relative_path (art_entries r ! k)
            = artifact_prefix X (art_cell_id r) (art_id r) @ artifact_file_name k)"
proof -
  have each: "is_ok (check_artifact_file X root r (ad_files d) (k, art_entries r ! k))"
    if "k < length (art_entries r)" for k
    using assms that
    by (force simp: validate_artifact_files_def res_for_ok_iff in_set_enumerate_eq)
  have "\<exists>bytes. map_of (ad_files d) (artifact_file_name k) = Some (Doc bytes)
        \<and> length bytes = unat (ent_size (art_entries r ! k))
        \<and> sha256_hex X bytes = ent_sha256 (art_entries r ! k)
        \<and> ent_host_relative_path (art_entries r ! k)
            = artifact_prefix X (art_cell_id r) (art_id r) @ artifact_file_name k"
    if "k < length (art_entries r)" for k
    using each [OF that]
    by (auto simp: is_ok_iff check_artifact_file_def Let_def)
  with assms show ?thesis by (simp add: validate_artifact_files_def)
qed

lemma load_artifact_from_ok:
  "load_artifact_from X root st c i = Inr r \<longleftrightarrow>
     (\<exists>d op. map_of (sto_artifacts st) (c, i) = Some d \<and> ad_manifest d = Some (Doc r)
       \<and> artifact_record_check X root c i r = Inr ()
       \<and> load_guest_operation_from X root st i = Inr op
       \<and> validate_artifact_job_binding (path_join (artifact_root X root c i) ''manifest.json'') op r = Inr ()
       \<and> validate_artifact_files X (artifact_root X root c i) d r = Inr ())"
  by (auto simp: load_artifact_from_def Let_def)

text \<open>
  C37: a loaded artifact is exactly what its manifest says.  An artifact that the store hands out has
  between 1 and 16 files of at most 64 MiB each and at most 1 GiB together (without overflow), the
  directory holds precisely the files \<open>0000.bin\<close>, \<open>0001.bin\<close>, \dots, every file has the recorded length
  and digest, every recorded path names that file of this operation, and cell and job agree with the
  guest operation.
\<close>

theorem loaded_artifact_verified:
  assumes "load_artifact_from X root st c i = Inr r"
  shows "art_cell_id r = c \<and> art_id r = i
    \<and> art_schema_version r = artifact_schema_version_for_job (art_job_id r)
    \<and> 0 < length (art_entries r) \<and> length (art_entries r) \<le> MAX_ARTIFACT_FILES
    \<and> sum_list (map (\<lambda>e. unat (ent_size e)) (art_entries r)) \<le> unat MAX_ARTIFACT_TOTAL_BYTES
    \<and> (\<exists>d op. map_of (sto_artifacts st) (c, i) = Some d
        \<and> load_guest_operation_from X root st i = Inr op
        \<and> op_cell_id op = c \<and> op_job_id op = art_job_id r
        \<and> set (map fst (ad_files d)) = set (map artifact_file_name [0..<length (art_entries r)])
        \<and> (\<forall>k < length (art_entries r). \<exists>bytes.
            map_of (ad_files d) (artifact_file_name k) = Some (Doc bytes)
            \<and> length bytes = unat (ent_size (art_entries r ! k))
            \<and> ent_size (art_entries r ! k) \<le> MAX_ARTIFACT_FILE_BYTES
            \<and> sha256_hex X bytes = ent_sha256 (art_entries r ! k)
            \<and> ent_host_relative_path (art_entries r ! k) = artifact_prefix X c i @ artifact_file_name k))"
proof -
  from assms obtain d op where d: "map_of (sto_artifacts st) (c, i) = Some d"
    and rc: "artifact_record_check X root c i r = Inr ()"
    and op: "load_guest_operation_from X root st i = Inr op"
    and jb: "validate_artifact_job_binding (path_join (artifact_root X root c i) ''manifest.json'') op r = Inr ()"
    and fs: "validate_artifact_files X (artifact_root X root c i) d r = Inr ()"
    unfolding load_artifact_from_ok by blast
  have id: "art_id r = i" "art_cell_id r = c"
    using rc by (auto simp: artifact_record_check_def Let_def)
  have job: "op_cell_id op = c" "op_job_id op = art_job_id r"
    using jb id by (auto simp: validate_artifact_job_binding_def split: if_splits)
  have "validate_artifact_schema (path_join (artifact_root X root c i) ''manifest.json'') r = Inr ()"
    using rc by (auto simp: artifact_record_check_def Let_def)
  from validate_artifact_schema_ok [OF this] have schema:
    "art_schema_version r = artifact_schema_version_for_job (art_job_id r)"
    "0 < length (art_entries r)" "length (art_entries r) \<le> MAX_ARTIFACT_FILES"
    "\<forall>e \<in> set (art_entries r). ent_size e \<le> MAX_ARTIFACT_FILE_BYTES"
    "sum_list (map (\<lambda>e. unat (ent_size e)) (art_entries r)) \<le> unat MAX_ARTIFACT_TOTAL_BYTES"
    by blast+
  have size: "ent_size (art_entries r ! k) \<le> MAX_ARTIFACT_FILE_BYTES" if "k < length (art_entries r)" for k
    using schema(4) that by simp
  show ?thesis
    using d op id job schema size validate_artifact_files_ok [OF fs] by auto
qed

subsection \<open>Committing a manifest\<close>

lemma load_guest_operation_from_cong:
  assumes "sto_cells st = sto_cells st'" "sto_operations st = sto_operations st'"
  shows "load_guest_operation_from X root st = load_guest_operation_from X root st'"
  using assms validate_operation_parent_binding_cong [OF assms(1), of X root]
  by (simp add: load_guest_operation_from_def fun_eq_iff)

lemma update_artifact_dir_frame [simp]:
  "sto_cells (update_artifact_dir k f st) = sto_cells st"
  "sto_operations (update_artifact_dir k f st) = sto_operations st"
  "sto_installation (update_artifact_dir k f st) = sto_installation st"
  by (simp_all add: update_artifact_dir_def split: option.split)

lemma map_of_update_artifact_dir:
  "map_of (sto_artifacts (update_artifact_dir k f st)) k' =
     (if k' = k then map_option f (map_of (sto_artifacts st) k) else map_of (sto_artifacts st) k')"
  by (simp add: update_artifact_dir_def update_conv' split: option.split)

definition commit_manifest :: "artifact_guard \<Rightarrow> artifact_record \<Rightarrow> store \<Rightarrow> store" where
  "commit_manifest g r = update_artifact_dir (art_key g) (\<lambda>d. d\<lparr>ad_manifest := Some (Doc r)\<rparr>)"

lemma save_artifact_cases:
  assumes "save_artifact_new_with_mutation E g r w = (res, w')"
  obtains (kept) n e where "w' = w\<lparr>w_tick := n\<rparr>" "res = Inl e"
  | (written) n where "save_artifact_check (env_crates E) (fe_root E) (w_store w) g r = Inr ()"
      "w' = w\<lparr>w_store := commit_manifest g r (w_store w), w_tick := n\<rparr>"
  using assms
  unfolding save_artifact_new_with_mutation_def with_mutation_def validate_mutation_guard_def
    validate_artifact_guard_def commit_manifest_def
  by (auto simp: bindE_def store_steps ret_def Let_def world_swap
      split: option.splits sum.splits fs_write_outcome.splits prod.splits) metis

lemma save_artifact_check_ok:
  assumes "save_artifact_check X root st g r = Inr u"
  obtains d op where "artifact_record_check X root (ag_cell_id g) (ag_operation_id g) r = Inr ()"
    "load_guest_operation_from X root st (ag_operation_id g) = Inr op"
    "validate_artifact_job_binding
       (path_join (artifact_root X root (ag_cell_id g) (ag_operation_id g)) ''manifest.json'') op r = Inr ()"
    "map_of (sto_artifacts st) (art_key g) = Some d" "ad_manifest d = None"
    "validate_artifact_files X (artifact_root X root (ag_cell_id g) (ag_operation_id g)) d r = Inr ()"
proof -
  have "art_id r = ag_operation_id g"
    using assms by (auto simp: save_artifact_check_def artifact_record_check_def Let_def)
  with assms that show thesis by (auto simp: save_artifact_check_def Let_def)
qed

lemma commit_manifest_loads:
  assumes "save_artifact_check X root st g r = Inr u"
  shows "load_artifact_from X root (commit_manifest g r st) (ag_cell_id g) (ag_operation_id g) = Inr r"
  using assms
proof (rule save_artifact_check_ok)
  fix d op
  assume *: "artifact_record_check X root (ag_cell_id g) (ag_operation_id g) r = Inr ()"
    "load_guest_operation_from X root st (ag_operation_id g) = Inr op"
    "validate_artifact_job_binding
       (path_join (artifact_root X root (ag_cell_id g) (ag_operation_id g)) ''manifest.json'') op r = Inr ()"
    "map_of (sto_artifacts st) (art_key g) = Some d"
    "validate_artifact_files X (artifact_root X root (ag_cell_id g) (ag_operation_id g)) d r = Inr ()"
  have "load_guest_operation_from X root (commit_manifest g r st) = load_guest_operation_from X root st"
    by (rule load_guest_operation_from_cong) (simp_all add: commit_manifest_def)
  moreover have "validate_artifact_files X ar (d\<lparr>ad_manifest := m\<rparr>) r = validate_artifact_files X ar d r" for ar m
    by (simp add: validate_artifact_files_def)
  moreover have "map_of (sto_artifacts (commit_manifest g r st)) (ag_cell_id g, ag_operation_id g)
      = Some (d\<lparr>ad_manifest := Some (Doc r)\<rparr>)"
    using *(4) by (simp add: commit_manifest_def map_of_update_artifact_dir)
  ultimately show ?thesis
    unfolding load_artifact_from_ok
    by (intro exI [of _ "d\<lparr>ad_manifest := Some (Doc r)\<rparr>"] exI [of _ op]) (use * in simp)
qed

text \<open>
  An artifact manifest is committed once and reads back.  A successful commit makes \<open>load_artifact\<close>
  return exactly the committed record; a failing one leaves the store untouched or fully committed;
  no commit ever replaces an existing manifest or changes another artifact, a collected file, a cell
  or a guest operation.
\<close>

theorem artifact_commit_roundtrip:
  assumes "save_artifact_new_with_mutation E g r w = (res, w')"
  shows "(w_store w' = w_store w \<and> \<not> is_ok res
      \<or> load_artifact_from (env_crates E) (fe_root E) (w_store w') (ag_cell_id g) (ag_operation_id g) = Inr r)
    \<and> (\<forall>k d. map_of (sto_artifacts (w_store w)) k = Some d \<longrightarrow>
        (\<exists>d'. map_of (sto_artifacts (w_store w')) k = Some d' \<and> ad_files d' = ad_files d
          \<and> (k = art_key g \<and> ad_manifest d = None \<or> ad_manifest d' = ad_manifest d)))
    \<and> sto_cells (w_store w') = sto_cells (w_store w) \<and> sto_operations (w_store w') = sto_operations (w_store w)"
  using assms
proof (cases rule: save_artifact_cases)
  case (kept n e)
  then show ?thesis by auto
next
  case (written n)
  obtain d0 where d0: "map_of (sto_artifacts (w_store w)) (art_key g) = Some d0" "ad_manifest d0 = None"
    using written(1) by (rule save_artifact_check_ok)
  have "\<exists>d'. map_of (sto_artifacts (commit_manifest g r (w_store w))) k = Some d' \<and> ad_files d' = ad_files d
      \<and> (k = art_key g \<and> ad_manifest d = None \<or> ad_manifest d' = ad_manifest d)"
    if "map_of (sto_artifacts (w_store w)) k = Some d" for k d
    using that d0 by (auto simp: commit_manifest_def map_of_update_artifact_dir)
  then show ?thesis
    using written(2) commit_manifest_loads [OF written(1)] by (simp add: commit_manifest_def)
qed

definition job_artifact :: artifact_record where
  "job_artifact = \<lparr>art_schema_version = 2, art_id = GuestOperationId 21, art_cell_id = CellId 7,
     art_created_at = 0, art_entries = [\<lparr>ent_guest_path = ''out.txt'',
       ent_host_relative_path = artifact_prefix canonical_crates (CellId 7) (GuestOperationId 21) @ ''0000.bin'',
       ent_sha256 = sha256_hex canonical_crates ''hi'', ent_size = 2\<rparr>], art_job_id = Some (JobId 3)\<rparr>"

definition artifact_store :: store where
  "artifact_store = job_store\<lparr>sto_artifacts :=
     [((CellId 7, GuestOperationId 21), \<lparr>ad_files = [(''0000.bin'', Doc ''hi'')], ad_manifest = None\<rparr>)]\<rparr>"

definition job_guard :: artifact_guard where
  "job_guard = \<lparr>ag_cell_id = CellId 7, ag_operation_id = GuestOperationId 21\<rparr>"

lemma artifact_file_name_0 [simp]: "artifact_file_name 0 = ''0000.bin''"
  by code_simp

lemma artifact_store_loads:
  "load_guest_operation_from canonical_crates ''/state'' artifact_store (GuestOperationId 21) = Inr job_operation"
  "load_cell_from canonical_crates ''/state'' artifact_store (CellId 7) = Inr job_cell"
  using job_store_loads load_guest_operation_from_cong [of artifact_store job_store]
    load_cell_from_cong [of artifact_store job_store] by (simp_all add: artifact_store_def)

lemma job_artifact_record: "artifact_record_check canonical_crates ''/state'' (CellId 7) (GuestOperationId 21) job_artifact = Inr ()"
  by (simp add: artifact_record_check_def job_artifact_def validate_artifact_schema_def ensure_schema_one_of_def
      ensure_def artifact_schema_defs MAX_ARTIFACT_FILES_def MAX_ARTIFACT_FILE_BYTES_def
      MAX_ARTIFACT_TOTAL_BYTES_def checked_add_def)

lemma job_artifact_files:
  "validate_artifact_files canonical_crates ar \<lparr>ad_files = [(''0000.bin'', Doc ''hi'')], ad_manifest = m\<rparr> job_artifact = Inr ()"
  by (simp add: validate_artifact_files_def job_artifact_def ensure_def check_artifact_file_def Let_def read_doc_def)

lemma job_artifact_check:
  "save_artifact_check canonical_crates ''/state'' artifact_store job_guard job_artifact = Inr ()"
  using artifact_store_loads job_artifact_record job_artifact_files
  by (simp add: save_artifact_check_def job_guard_def Let_def ok_or_def)
    (simp add: job_artifact_def job_operation_def intent_with_job_def validate_artifact_job_binding_def
      validate_operation_parent_binding_for_write_def res_map_err_def validate_operation_job_binding_def
      job_cell_def entry_in_directory_def artifact_store_def starts_with_def contains_char_def)

lemma save_artifact_calm:
  assumes "calm E" "save_artifact_check (env_crates E) (fe_root E) (w_store w) g r = Inr ()"
    "recheck_artifact_files (env_crates E) (fe_root E) (commit_manifest g r (w_store w)) g r = Inr ()"
  shows "\<exists>w'. save_artifact_new_with_mutation E g r w = (Inr (), w')"
  using assms
  unfolding save_artifact_new_with_mutation_def with_mutation_def validate_mutation_guard_def
    validate_artifact_guard_def commit_manifest_def
  by (auto simp: bindE_def store_steps ret_def Let_def calm_def)

theorem artifact_commit_roundtrip_witness:
  "\<exists>w'. save_artifact_new_with_mutation sample_fs job_guard job_artifact
       \<lparr>w_store = artifact_store, w_tick = 0, w_locked = True\<rparr> = (Inr (), w')
     \<and> load_artifact_from canonical_crates ''/state'' (w_store w') (CellId 7) (GuestOperationId 21) = Inr job_artifact"
proof -
  let ?w = "\<lparr>w_store = artifact_store, w_tick = 0, w_locked = True\<rparr>"
  have "recheck_artifact_files canonical_crates ''/state'' (commit_manifest job_guard job_artifact artifact_store)
      job_guard job_artifact = Inr ()"
    by (simp add: recheck_artifact_files_def job_guard_def commit_manifest_def map_of_update_artifact_dir
        artifact_store_def ok_or_def job_artifact_files)
  with save_artifact_calm [OF calm_sample_fs, of ?w job_guard job_artifact] job_artifact_check
  obtain w' where run: "save_artifact_new_with_mutation sample_fs job_guard job_artifact ?w = (Inr (), w')"
    by auto
  from artifact_commit_roundtrip [OF run] run show ?thesis
    by (auto simp: job_guard_def)
qed

theorem loaded_artifact_verified_witness:
  "load_artifact_from canonical_crates ''/state'' (commit_manifest job_guard job_artifact artifact_store)
     (CellId 7) (GuestOperationId 21) = Inr job_artifact
   \<and> sum_list (map (\<lambda>e. unat (ent_size e)) (art_entries job_artifact)) \<le> unat MAX_ARTIFACT_TOTAL_BYTES"
proof -
  have "load_artifact_from canonical_crates ''/state'' (commit_manifest job_guard job_artifact artifact_store)
     (CellId 7) (GuestOperationId 21) = Inr job_artifact"
    using commit_manifest_loads [OF job_artifact_check] by (simp add: job_guard_def)
  with loaded_artifact_verified [OF this] show ?thesis by blast
qed

subsection \<open>The compatibility scan\<close>

lemma list_cells_from_ok:
  assumes "uuid_laws X" "dir_ok (sto_cells st)" "list_cells_from X root st = Inr cs"
  shows "cells_sound X root st \<and> set cs = redact_cell_diagnostic ` dir_docs (sto_cells st)"
proof -
  define ds where "ds = map (doc_at (sto_cells st)) (json_names (sto_cells st))"
  from assms(3) have valid: "cells_valid X root st" and uniq: "distinct (job_ids ds)"
    and cs: "cs = map redact_cell_diagnostic ds"
    by (auto simp: list_cells_from_def read_cells_ok ds_def validate_unique_cell_job_ids_def
        validate_unique_cell_job_ids_for_path_def unique_job_ids_from_ok)
  have docs: "set ds = dir_docs (sto_cells st)"
    unfolding ds_def using valid by (intro dir_docs_listing) (simp add: cells_valid_def)
  have "distinct (map cid ds)"
    using distinct_cell_ids [OF assms(1,2) valid] by (simp add: ds_def comp_def)
  with distinct_job_ids_iff uniq have "job_ids_unique (set ds)" by blast
  with docs valid cs show ?thesis by (simp add: cells_sound_def)
qed

lemma validate_guest_operation_schema_stem:
  "validate_guest_operation_schema X p r = Inr u \<Longrightarrow> file_stem p = Some (uuid_to_string X (op_uuid (op_id r)))"
  by (simp add: validate_guest_operation_schema_def ensure_stem_def)

lemma guest_operation_path_eq:
  "guest_operation_path X root i = path_join (path_join root ''operations'') (uuid_json X (op_uuid i))"
  by (simp add: guest_operation_path_def)

lemma list_operations_load:
  assumes "uuid_laws X" "list_guest_operations_from X root st = Inr rs"
    and "map_of (sto_operations st) (uuid_json X (op_uuid i)) = Some doc"
  shows "\<exists>r \<in> set rs. load_guest_operation_from X root st i = Inr r"
proof -
  let ?dir = "path_join root ''operations''" and ?d = "sto_operations st"
  from assms(2) have valid: "dir_valid ?dir ?d (validate_guest_operation_schema X)"
    and rs: "rs = map (doc_at ?d) (json_names ?d)"
    and bind: "r \<in> set rs \<Longrightarrow> validate_operation_parent_binding X root st (guest_operation_path X root (op_id r)) r = Inr ()" for r
    by (auto simp: list_guest_operations_from_def read_json_directory_ok res_for_ok_iff is_ok_iff)
  have ext: "name_extension (uuid_json X (op_uuid i)) = Some ''json''"
    using assms(1) by (simp add: uuid_json_def)
  from valid ext assms(3) obtain r where r: "doc = Doc r"
    "validate_guest_operation_schema X (guest_operation_path X root i) r = Inr ()"
    unfolding dir_valid_def guest_operation_path_eq by blast
  have "file_stem (guest_operation_path X root i) = Some (uuid_to_string X (op_uuid i))"
    using assms(1) by (simp add: guest_operation_path_eq file_stem_json)
  with validate_guest_operation_schema_stem [OF r(2)] assms(1) have id: "op_id r = i"
    by (simp add: uuid_laws_inj guest_operation_id.expand)
  have "r \<in> dir_docs ?d" using ext assms(3) r(1) by (auto simp: dir_docs_def)
  then have "r \<in> set rs" using dir_docs_listing [OF valid] rs by simp
  with bind [OF this] r id assms(3) show ?thesis
    by (auto simp: load_guest_operation_from_def Let_def ensure_def intro!: bexI [of _ r])
qed

lemma scan_artifacts_ok:
  assumes "scan_artifacts X root st (v, n) ops = Inr (v', n')"
  shows "v \<le> v' \<and> (\<forall>op \<in> set ops. has_live_artifact op \<longrightarrow>
      (\<exists>a. load_artifact_from X root st (op_cell_id op) (op_id op) = Inr a))
    \<and> (v' = v \<or> (\<exists>op \<in> set ops. v' = artifact_schema_version_for_job (op_job_id op)))"
  using assms
proof (induction ops arbitrary: v n)
  case Nil
  then show ?case by simp
next
  case (Cons op ops)
  show ?case
  proof (cases "has_live_artifact op")
    case False
    with Cons.prems Cons.IH [of v n] show ?thesis by auto
  next
    case True
    with Cons.prems obtain a where a: "load_artifact_from X root st (op_cell_id op) (op_id op) = Inr a"
      and job: "art_job_id a = op_job_id op"
      and rest: "scan_artifacts X root st (max v (art_schema_version a), saturating_add n 1) ops = Inr (v', n')"
      by (auto simp: validate_artifact_job_binding_def split: if_splits)
    have "art_schema_version a = artifact_schema_version_for_job (op_job_id op)"
      using a job validate_artifact_schema_ok [of _ a]
      by (auto simp: load_artifact_from_ok artifact_record_check_def Let_def)
    with Cons.IH [OF rest] a True show ?thesis
      by (auto simp: max_def split: if_splits)
  qed
qed

lemma durable_format_max:
  assumes "\<forall>c \<in> set cells. cell_schema_version c = cell_schema_version_for_job (cell_job c)"
    "\<forall>op \<in> set ops. op_schema_version op = op_schema_version_for_job (op_job_id op)"
  shows "durable_format cells ops =
    (if (\<exists>c \<in> set cells. cell_job c \<noteq> None) \<or> (\<exists>op \<in> set ops. op_job_id op \<noteq> None) then 2 else 1)"
proof -
  let ?vs = "map cell_schema_version cells @ map op_schema_version ops"
  have ver: "x \<in> set ?vs \<Longrightarrow> x = 1 \<or> x = 2" for x
    using assms by (auto simp: cell_schema_version_for_job_def op_schema_version_for_job_def
        cell_schema_defs op_schema_defs split: option.splits)
  have two: "2 \<in> set ?vs \<longleftrightarrow> (\<exists>c \<in> set cells. cell_job c \<noteq> None) \<or> (\<exists>op \<in> set ops. op_job_id op \<noteq> None)"
    using assms by (force simp: cell_schema_version_for_job_def op_schema_version_for_job_def image_iff
        cell_schema_defs op_schema_defs split: option.splits)
  have fold: "fold max xs v = (if 2 \<in> set (v # xs) then 2 else 1)" if "set (v # xs) \<subseteq> {1, 2}" for xs and v :: u32
    using that by (induction xs arbitrary: v) (auto simp: max_def word_le_nat_alt)
  have "set ?vs \<subseteq> {1, 2}" using ver by blast
  then show ?thesis
    unfolding two [symmetric] durable_format_def
    by (cases ?vs) (simp_all add: fold LEGACY_DURABLE_STATE_FORMAT_VERSION_def)
qed

text \<open>
  The compatibility check is read-only and sound.  It never changes the store; when it reports,
  every cell and guest operation file in the store can be loaded, every artifact a completed operation
  still owns loads and verifies, and the reported durable format is 2 exactly when some cell or guest
  operation is correlated with a job, and 1 otherwise.
\<close>

theorem compatibility_check_sound:
  assumes "cells_ok E w" and "check_compatibility E w = (Inr rep, w')"
  shows "w_store w' = w_store w
    \<and> (\<forall>c. map_of (sto_cells (w_store w)) (uuid_json (env_crates E) (cell_uuid c)) \<noteq> None \<longrightarrow>
        (\<exists>r. load_cell_from (env_crates E) (fe_root E) (w_store w) c = Inr r))
    \<and> (\<forall>i. map_of (sto_operations (w_store w)) (uuid_json (env_crates E) (op_uuid i)) \<noteq> None \<longrightarrow>
        (\<exists>op. load_guest_operation_from (env_crates E) (fe_root E) (w_store w) i = Inr op
          \<and> (has_live_artifact op \<longrightarrow>
              (\<exists>a. load_artifact_from (env_crates E) (fe_root E) (w_store w) (op_cell_id op) i = Inr a))))
    \<and> (\<exists>cells ops. list_cells_from (env_crates E) (fe_root E) (w_store w) = Inr cells
        \<and> list_guest_operations_from (env_crates E) (fe_root E) (w_store w) = Inr ops
        \<and> scr_durable_state_format_version rep =
            (if (\<exists>c \<in> set cells. cell_job c \<noteq> None) \<or> (\<exists>op \<in> set ops. op_job_id op \<noteq> None) then 2 else 1))"
proof -
  let ?X = "env_crates E" and ?root = "fe_root E" and ?st = "w_store w"
  from assms(2) obtain v counts where st: "w_store w' = ?st"
    and chk: "check_compatibility_from ?X ?root ?st = Inr (v, counts)"
    and rep: "scr_durable_state_format_version rep = v"
    by (auto simp: check_compatibility_def bindE_def read_op_run utc_now_run ret_def compatibility_report_def
        split: option.splits sum.splits)
  from chk obtain cells ops n where cells: "list_cells_from ?X ?root ?st = Inr cells"
    and ops: "list_guest_operations_from ?X ?root ?st = Inr ops"
    and scan: "scan_artifacts ?X ?root ?st (durable_format cells ops, 0) ops = Inr (v, n)"
    by (auto simp: check_compatibility_from_def split: prod.splits)
  have sound: "cells_sound ?X ?root ?st" and docs: "set cells = redact_cell_diagnostic ` dir_docs (sto_cells ?st)"
    using list_cells_from_ok [OF _ _ cells] assms(1) by auto
  have load_cell: "\<exists>r. load_cell_from ?X ?root ?st c = Inr r"
    if "map_of (sto_cells ?st) (uuid_json ?X (cell_uuid c)) \<noteq> None" for c
    using that sound assms(1) cell_key_doc [of ?X ?st ?root c]
    by (auto simp: load_cell_from_ok cells_sound_def)
  have load_op: "\<exists>op. load_guest_operation_from ?X ?root ?st i = Inr op \<and> op \<in> set ops \<and> op_id op = i"
    if "map_of (sto_operations ?st) (uuid_json ?X (op_uuid i)) \<noteq> None" for i
    using list_operations_load [OF _ ops, of i] assms(1) that
    by (fastforce simp: load_guest_operation_from_def Let_def)
  have cell_versions: "\<forall>c \<in> set cells. cell_schema_version c = cell_schema_version_for_job (cell_job c)"
    using docs sound by (auto simp: cells_sound_def cells_valid_def
        dest!: dir_docs_valid validate_cell_schema_version)
  have "dir_valid (path_join ?root ''operations'') (sto_operations ?st) (validate_guest_operation_schema ?X)"
    and "set ops = dir_docs (sto_operations ?st)"
    using ops dir_docs_listing [of "path_join ?root ''operations''" "sto_operations ?st"]
    by (auto simp: list_guest_operations_from_def read_json_directory_ok)
  then have op_versions: "\<forall>op \<in> set ops. op_schema_version op = op_schema_version_for_job (op_job_id op)"
    by (auto dest!: dir_docs_valid validate_operation_schema_version)
  note fmt = durable_format_max [OF cell_versions op_versions]
  note scan' = scan_artifacts_ok [OF scan]
  have "v = durable_format cells ops"
    using scan' unfolding fmt
    by (auto simp: artifact_schema_version_for_job_def artifact_schema_defs word_le_nat_alt
        split: option.splits if_splits)
  then have "scr_durable_state_format_version rep =
      (if (\<exists>c \<in> set cells. cell_job c \<noteq> None) \<or> (\<exists>op \<in> set ops. op_job_id op \<noteq> None) then 2 else 1)"
    using rep fmt by simp
  moreover have "\<exists>op. load_guest_operation_from ?X ?root ?st i = Inr op \<and> (has_live_artifact op \<longrightarrow>
      (\<exists>a. load_artifact_from ?X ?root ?st (op_cell_id op) i = Inr a))"
    if "map_of (sto_operations ?st) (uuid_json ?X (op_uuid i)) \<noteq> None" for i
    using load_op [OF that] scan' by blast
  ultimately show ?thesis using st load_cell cells ops by blast
qed

lemma empty_store_compatible:
  "check_compatibility sample_fs empty_world =
     (Inr (compatibility_report (1, \<lparr>scc_installations = 1, scc_images = 0, scc_cells = 0,
        scc_guest_operations = 0, scc_artifacts = 0\<rparr>) 1), empty_world\<lparr>w_tick := 2\<rparr>)"
  by (simp add: check_compatibility_def bindE_def read_op_run utc_now_run ret_def empty_world_def sample_fs_def
      check_compatibility_from_def empty_store_def load_installation_from_def read_doc_def ensure_schema_def
      INSTALL_SCHEMA_VERSION_def ensure_def list_images_from_def list_cells_from_def read_cells_def
      read_json_directory_def json_names_def validate_unique_cell_job_ids_def
      validate_unique_cell_job_ids_for_path_def list_guest_operations_from_def
      validate_job_operation_bindings_def durable_format_def LEGACY_DURABLE_STATE_FORMAT_VERSION_def
      res_map_err_def)

theorem compatibility_check_sound_witness:
  "\<exists>rep w'. check_compatibility sample_fs empty_world = (Inr rep, w')
     \<and> w_store w' = empty_store \<and> scr_durable_state_format_version rep = 1"
  using compatibility_check_sound [OF _ empty_store_compatible] empty_store_ok empty_store_compatible
  by (simp add: empty_world_def compatibility_report_def)

end
