(* ===== verification/Lifecycle.thy ===== *)
theory Lifecycle
  imports CoreModel
begin

section \<open>The cell lifecycle\<close>

text \<open>
  \<open>core/lifecycle.rs\<close>: the table of accepted cell-state transitions.  The locale
  \<open>guarded_machine\<close> states what a checked transition function with a terminal state
  promises about whole runs; it is interpreted on \<open>validate_transition\<close>.
\<close>

datatype lifecycle_error = InvalidTransition cell_state cell_state

definition validate_transition :: "cell_state \<Rightarrow> cell_state \<Rightarrow> lifecycle_error + unit" where
  "validate_transition from to =
     (let valid = (case (from, to) of
          (Cell_Creating, Cell_Stopped) \<Rightarrow> True
        | (Cell_Creating, Cell_Failed) \<Rightarrow> True
        | (Cell_Stopped, Cell_Running) \<Rightarrow> True
        | (Cell_Stopped, Cell_Destroying) \<Rightarrow> True
        | (Cell_Running, Cell_Stopped) \<Rightarrow> True
        | (Cell_Running, Cell_Destroying) \<Rightarrow> True
        | (Cell_Running, Cell_Failed) \<Rightarrow> True
        | (Cell_Failed, Cell_Destroying) \<Rightarrow> True
        | (Cell_Destroying, Cell_Destroyed) \<Rightarrow> True
        | (Cell_Destroying, Cell_Failed) \<Rightarrow> True
        | _ \<Rightarrow> False)
      in if valid then Inr () else Inl (InvalidTransition from to))"

definition accepted :: "cell_state \<Rightarrow> cell_state \<Rightarrow> bool" where
  "accepted from to = is_ok (validate_transition from to)"

text \<open>A run of the machine is a path of accepted transitions.\<close>

inductive lifecycle_run :: "cell_state \<Rightarrow> cell_state list \<Rightarrow> cell_state \<Rightarrow> bool" where
  run_done: "lifecycle_run s [] s"
| run_step: "accepted s t \<Longrightarrow> lifecycle_run t ts u \<Longrightarrow> lifecycle_run s (t # ts) u"

inductive_cases lifecycle_run_stepE: "lifecycle_run s (t # ts) u"

inductive_simps lifecycle_run_Nil [simp]: "lifecycle_run s [] u"
inductive_simps lifecycle_run_Cons [simp]: "lifecycle_run s (t # ts) u"

subsection \<open>Machines with a terminal state and an irrevocable region\<close>

locale guarded_machine =
  fixes acc :: "'s \<Rightarrow> 's \<Rightarrow> bool" and run :: "'s \<Rightarrow> 's list \<Rightarrow> 's \<Rightarrow> bool"
    and terminal :: "'s \<Rightarrow> bool" and doomed :: "'s \<Rightarrow> bool"
  assumes run_Nil: "run s [] u \<longleftrightarrow> u = s"
    and run_Cons: "run s (t # ts) u \<longleftrightarrow> acc s t \<and> run t ts u"
    and terminal_stuck: "terminal s \<Longrightarrow> \<not> acc s t"
    and doomed_closed: "doomed s \<Longrightarrow> acc s t \<Longrightarrow> doomed t"
begin

lemma run_append: "run s (ts @ us) u \<longleftrightarrow> (\<exists>m. run s ts m \<and> run m us u)"
  by (induction ts arbitrary: s) (auto simp: run_Nil run_Cons)

lemma run_terminal: "terminal s \<Longrightarrow> run s ts u \<longleftrightarrow> ts = [] \<and> u = s"
  by (cases ts) (auto simp: run_Nil run_Cons terminal_stuck)

lemma run_doomed: "run s ts u \<Longrightarrow> doomed s \<Longrightarrow> (\<forall>t \<in> set ts. doomed t) \<and> doomed u"
  by (induction ts arbitrary: s) (auto simp: run_Nil run_Cons dest: doomed_closed)

text \<open>Once a run visits a doomed state, everything after it stays in the doomed region.\<close>

lemma run_after_doomed:
  "run s (ts @ d # us) u \<Longrightarrow> doomed d \<Longrightarrow> (\<forall>t \<in> set us. doomed t) \<and> doomed u"
  by (auto simp: run_append run_Cons dest: run_doomed)

end

lemma accepted_iff:
  "accepted s t \<longleftrightarrow> (s, t) \<in>
     {(Cell_Creating, Cell_Stopped), (Cell_Creating, Cell_Failed), (Cell_Stopped, Cell_Running),
      (Cell_Stopped, Cell_Destroying), (Cell_Running, Cell_Stopped),
      (Cell_Running, Cell_Destroying), (Cell_Running, Cell_Failed),
      (Cell_Failed, Cell_Destroying), (Cell_Destroying, Cell_Destroyed),
      (Cell_Destroying, Cell_Failed)}"
  by (cases s; cases t) (simp_all add: accepted_def validate_transition_def)

interpretation lc: guarded_machine accepted lifecycle_run
  "\<lambda>s. s = Cell_Destroyed" "\<lambda>s. s \<in> {Cell_Destroying, Cell_Failed, Cell_Destroyed}"
  by unfold_locales (auto simp: accepted_iff)

lemma lifecycle_can_destroy: "\<exists>ts. lifecycle_run s ts Cell_Destroyed"
proof (cases s)
  case Cell_Creating
  then show ?thesis
    by (intro exI [of _ "[Cell_Failed, Cell_Destroying, Cell_Destroyed]"]) (simp add: accepted_iff)
next
  case Cell_Failed
  then show ?thesis
    by (intro exI [of _ "[Cell_Destroying, Cell_Destroyed]"]) (simp add: accepted_iff)
next
  case Cell_Destroying
  then show ?thesis by (intro exI [of _ "[Cell_Destroyed]"]) (simp add: accepted_iff)
next
  case Cell_Destroyed
  then show ?thesis by (intro exI [of _ "[]"]) simp
qed (intro exI [of _ "[Cell_Destroying, Cell_Destroyed]"], simp add: accepted_iff)+

text \<open>
  Teardown is irrevocable and always possible.  Every state has a run of accepted
  transitions to \<open>Destroyed\<close>; \<open>Destroyed\<close> has no run but the empty one; and after a run has
  visited \<open>Destroying\<close> or \<open>Failed\<close>, the cell is never \<open>Creating\<close>, \<open>Stopped\<close> or \<open>Running\<close> again.
\<close>

theorem lifecycle_teardown_irrevocable:
  assumes "lifecycle_run s (ts @ d # us) u" and "d \<in> {Cell_Destroying, Cell_Failed}"
  shows "set (u # us) \<subseteq> {Cell_Destroying, Cell_Failed, Cell_Destroyed}
    \<and> (\<exists>vs. lifecycle_run u vs Cell_Destroyed)
    \<and> (u = Cell_Destroyed \<longrightarrow> (\<forall>vs x. lifecycle_run u vs x \<longleftrightarrow> vs = [] \<and> x = u))"
proof -
  have "(\<forall>t \<in> set us. t \<in> {Cell_Destroying, Cell_Failed, Cell_Destroyed})
      \<and> u \<in> {Cell_Destroying, Cell_Failed, Cell_Destroyed}"
    using assms by (intro lc.run_after_doomed) auto
  then show ?thesis
    using lifecycle_can_destroy lc.run_terminal by auto
qed

theorem lifecycle_teardown_irrevocable_witness:
  "lifecycle_run Cell_Creating
     ([Cell_Stopped, Cell_Running] @ Cell_Destroying # [Cell_Destroyed]) Cell_Destroyed
   \<and> set [Cell_Destroyed, Cell_Destroyed] \<subseteq> {Cell_Destroying, Cell_Failed, Cell_Destroyed}"
proof -
  have "lifecycle_run Cell_Creating
     ([Cell_Stopped, Cell_Running] @ Cell_Destroying # [Cell_Destroyed]) Cell_Destroyed"
    by (simp add: accepted_iff)
  with lifecycle_teardown_irrevocable [OF this] show ?thesis by simp
qed

end
