(* ===== verification/EngineProofs.thy ===== *)
theory EngineProofs
  imports StoreLaws RunSelection Lifecycle
begin

section \<open>Pure decisions of the engine\<close>

text \<open>
  The functions of \<open>engine/mod.rs\<close> that decide without effects: request validation, image and
  overlay validation, the ownership proofs that precede every mutation of a virtual machine, the
  reconciliation classification and the durable error codes.  \<open>Debug\<close> renderings that occur in
  error texts are spelled out for plain enums.
\<close>

definition MIN_TTL_SECONDS :: u64 where "MIN_TTL_SECONDS = 1"
definition MAX_TTL_SECONDS :: u64 where "MAX_TTL_SECONDS = 31536000"

datatype reconciliation_status =
  RS_ExactOwned
| RS_ManifestOnly
| RS_ProviderMissing
| RS_UnprovenProviderObject string
| RS_OwnershipMismatch "string list"
| RS_StateDrift cell_state provider_power_state
| RS_Provisioning cell_phase
| RS_Destroyed

datatype reconciliation_code =
  RC_ExactOwned | RC_ManifestOnly | RC_ProviderMissing | RC_UnprovenProviderObject
| RC_OwnershipMismatch | RC_StateDrift | RC_Provisioning | RC_Destroyed

record reconciliation_classification =
  rcl_code :: reconciliation_code
  rcl_ownership :: ownership_classification
  rcl_required_action :: required_action

fun classification :: "reconciliation_status \<Rightarrow> reconciliation_classification" where
  "classification RS_ExactOwned = \<lparr>rcl_code = RC_ExactOwned, rcl_ownership = Own_Proven,
     rcl_required_action = Act_None\<rparr>"
| "classification RS_ManifestOnly = \<lparr>rcl_code = RC_ManifestOnly, rcl_ownership = Own_Unproven,
     rcl_required_action = Act_ManualReview\<rparr>"
| "classification RS_ProviderMissing = \<lparr>rcl_code = RC_ProviderMissing, rcl_ownership = Own_Unproven,
     rcl_required_action = Act_ManualReview\<rparr>"
| "classification (RS_UnprovenProviderObject _) = \<lparr>rcl_code = RC_UnprovenProviderObject,
     rcl_ownership = Own_Unproven, rcl_required_action = Act_ManualReview\<rparr>"
| "classification (RS_OwnershipMismatch _) = \<lparr>rcl_code = RC_OwnershipMismatch,
     rcl_ownership = Own_Mismatch, rcl_required_action = Act_ManualReview\<rparr>"
| "classification (RS_StateDrift _ _) = \<lparr>rcl_code = RC_StateDrift, rcl_ownership = Own_Proven,
     rcl_required_action = Act_RetryLifecycle\<rparr>"
| "classification (RS_Provisioning _) = \<lparr>rcl_code = RC_Provisioning, rcl_ownership = Own_PhaseProven,
     rcl_required_action = Act_RecoveryRequired\<rparr>"
| "classification RS_Destroyed = \<lparr>rcl_code = RC_Destroyed, rcl_ownership = Own_NotApplicable,
     rcl_required_action = Act_None\<rparr>"

datatype engine_error =
  EE_State state_error
| EE_Provider provider_error
| EE_RunSelection run_selection_error
| EE_UnsupportedProvider string
| EE_ProviderUnavailable string
| EE_InvalidImage string
| EE_ImageIntegrity string
| EE_ImageConflict image_id
| EE_ImageInUse image_id nat
| EE_InvalidCellRequest string
| EE_LifecycleConflict string
| EE_Integrity string
| EE_OwnershipNotProven string
| EE_ProviderDrift string
| EE_UnexpectedPowerState provider_power_state
| EE_Guest guest_io_error

definition durable_error_code :: "engine_error \<Rightarrow> string" where
  "durable_error_code e = (case e of
      EE_State _ \<Rightarrow> ''vmcell.state.failed''
    | EE_Provider (PE_Timeout _) \<Rightarrow> ''vmcell.provider.timeout''
    | EE_Provider (PE_OutputLimit _) \<Rightarrow> ''vmcell.provider.output_limit''
    | EE_Provider _ \<Rightarrow> ''vmcell.provider.failed''
    | EE_RunSelection r \<Rightarrow> run_selection_code r
    | EE_UnsupportedProvider _ \<Rightarrow> ''vmcell.provider.unsupported''
    | EE_ProviderUnavailable _ \<Rightarrow> ''vmcell.provider.unavailable''
    | EE_InvalidImage _ \<Rightarrow> ''vmcell.image.invalid''
    | EE_ImageIntegrity _ \<Rightarrow> ''vmcell.image.integrity''
    | EE_ImageConflict _ \<Rightarrow> ''vmcell.image.conflict''
    | EE_ImageInUse _ _ \<Rightarrow> ''vmcell.image.in_use''
    | EE_InvalidCellRequest _ \<Rightarrow> ''vmcell.request.invalid''
    | EE_LifecycleConflict _ \<Rightarrow> ''vmcell.lifecycle.conflict''
    | EE_Integrity _ \<Rightarrow> ''vmcell.state.integrity''
    | EE_OwnershipNotProven _ \<Rightarrow> ''vmcell.ownership.not_proven''
    | EE_ProviderDrift _ \<Rightarrow> ''vmcell.ownership.drift''
    | EE_UnexpectedPowerState _ \<Rightarrow> ''vmcell.lifecycle.power_state''
    | EE_Guest GE_Timeout \<Rightarrow> ''vmcell.guest.timeout''
    | EE_Guest GE_OutputLimit \<Rightarrow> ''vmcell.guest.output_limit''
    | EE_Guest _ \<Rightarrow> ''vmcell.guest.failed'')"

datatype run_cleanup_disposition =
  Cleanup_NothingCreated | Cleanup_Destroyed | Cleanup_RetainedByRequest | Cleanup_RetainedOnFailure
| Cleanup_RefusedAmbiguous | Cleanup_Failed

definition cleanup_failure_disposition :: "engine_error \<Rightarrow> run_cleanup_disposition" where
  "cleanup_failure_disposition e = (case e of
      EE_OwnershipNotProven _ \<Rightarrow> Cleanup_RefusedAmbiguous
    | EE_ProviderDrift _ \<Rightarrow> Cleanup_RefusedAmbiguous
    | EE_Integrity _ \<Rightarrow> Cleanup_RefusedAmbiguous
    | EE_ImageIntegrity _ \<Rightarrow> Cleanup_RefusedAmbiguous
    | EE_UnexpectedPowerState _ \<Rightarrow> Cleanup_RefusedAmbiguous
    | EE_Guest GE_OwnershipChanged \<Rightarrow> Cleanup_RefusedAmbiguous
    | _ \<Rightarrow> Cleanup_Failed)"

definition as_image_integrity :: "engine_error \<Rightarrow> engine_error" where
  "as_image_integrity e = (case e of EE_InvalidImage m \<Rightarrow> EE_ImageIntegrity m | _ \<Rightarrow> e)"

definition guest_failure_class_of :: "engine_error \<Rightarrow> guest_failure_class \<times> bool" where
  "guest_failure_class_of e = (case e of
      EE_Guest GE_GuestNotReady \<Rightarrow> (Fail_GuestNotReady, True)
    | EE_Guest GE_AuthenticationFailed \<Rightarrow> (Fail_Authentication, True)
    | EE_Guest GE_SessionFailed \<Rightarrow> (Fail_Session, True)
    | EE_Guest GE_OwnershipChanged \<Rightarrow> (Fail_OwnershipChanged, True)
    | EE_OwnershipNotProven _ \<Rightarrow> (Fail_OwnershipChanged, True)
    | EE_ProviderDrift _ \<Rightarrow> (Fail_OwnershipChanged, True)
    | EE_Guest GE_PathViolation \<Rightarrow> (Fail_PathViolation, True)
    | EE_Guest (GE_InvalidRequest _) \<Rightarrow> (Fail_PathViolation, True)
    | EE_Guest GE_Timeout \<Rightarrow> (Fail_Timeout, False)
    | EE_Guest GE_OutputLimit \<Rightarrow> (Fail_OutputLimit, False)
    | EE_Guest GE_PartialCopy \<Rightarrow> (Fail_PartialCopy, False)
    | EE_Guest GE_InvalidResponse \<Rightarrow> (Fail_InvalidEncoding, False)
    | _ \<Rightarrow> (Fail_Unknown, False))"

subsection \<open>Requests\<close>

definition validate_cell_resources :: "u16 \<Rightarrow> u64 \<Rightarrow> u64 option \<Rightarrow> engine_error + unit" where
  "validate_cell_resources cpu memory ttl =
     res_bind (ensure (1 \<le> cpu \<and> cpu \<le> MAX_CPU_COUNT)
       (EE_InvalidCellRequest (''cpu_count must be between 1 and '' @ dec_digits (unat MAX_CPU_COUNT))))
     (\<lambda>_. res_bind (ensure (MIN_MEMORY_MIB \<le> memory \<and> memory \<le> MAX_MEMORY_MIB)
       (EE_InvalidCellRequest (''memory_mib must be between '' @ dec_digits (unat MIN_MEMORY_MIB)
         @ '' and '' @ dec_digits (unat MAX_MEMORY_MIB))))
     (\<lambda>_. case ttl of None \<Rightarrow> Inr ()
       | Some s \<Rightarrow> ensure (MIN_TTL_SECONDS \<le> s \<and> s \<le> MAX_TTL_SECONDS)
           (EE_InvalidCellRequest (''ttl_seconds must be between '' @ dec_digits (unat MIN_TTL_SECONDS)
             @ '' and '' @ dec_digits (unat MAX_TTL_SECONDS)))))"

definition validate_cell_spec :: "cell_spec \<Rightarrow> string \<Rightarrow> engine_error + unit" where
  "validate_cell_spec s provider =
     (if provider \<notin> {''hyperv'', ''qemu''} \<or> spec_provider s \<noteq> Some provider
      then Inl (EE_UnsupportedProvider (case spec_provider s of Some p \<Rightarrow> p | None \<Rightarrow> ''<missing>''))
      else if provider = ''hyperv'' \<and> (spec_accelerator s \<noteq> None \<or> spec_allow_tcg s)
      then Inl (EE_InvalidCellRequest ''QEMU accelerator policy cannot be applied to Hyper-V'')
      else if (case spec_accelerator s of None \<Rightarrow> False
               | Some a \<Rightarrow> a \<notin> {''auto'', ''whpx'', ''kvm'', ''hvf'', ''tcg''})
      then Inl (EE_InvalidCellRequest ''accelerator must be auto, whpx, kvm, hvf, or tcg'')
      else if spec_allow_tcg s \<noteq> (spec_accelerator s = Some ''tcg'')
      then Inl (EE_InvalidCellRequest ''TCG requires exact accelerator=tcg and allow_tcg opt-in together'')
      else validate_cell_resources (spec_cpu_count s) (spec_memory_mib s) (spec_ttl_seconds s))"

fun cell_state_debug :: "cell_state \<Rightarrow> string" where
  "cell_state_debug Cell_Creating = ''Creating''"
| "cell_state_debug Cell_Stopped = ''Stopped''"
| "cell_state_debug Cell_Running = ''Running''"
| "cell_state_debug Cell_Destroying = ''Destroying''"
| "cell_state_debug Cell_Destroyed = ''Destroyed''"
| "cell_state_debug Cell_Failed = ''Failed''"

fun cell_phase_debug :: "cell_phase \<Rightarrow> string" where
  "cell_phase_debug Phase_IntentRecorded = ''IntentRecorded''"
| "cell_phase_debug Phase_OverlayCreated = ''OverlayCreated''"
| "cell_phase_debug Phase_ProviderObjectCreated = ''ProviderObjectCreated''"
| "cell_phase_debug Phase_ProviderObjectClaimed = ''ProviderObjectClaimed''"
| "cell_phase_debug Phase_Ready = ''Ready''"
| "cell_phase_debug Phase_Destroying = ''Destroying''"
| "cell_phase_debug Phase_DestroyingProvisioning = ''DestroyingProvisioning''"
| "cell_phase_debug Phase_Destroyed = ''Destroyed''"

definition require_lifecycle_state ::
  "cell_record \<Rightarrow> string \<Rightarrow> cell_state list \<Rightarrow> engine_error + unit" where
  "require_lifecycle_state r operation allowed =
     ensure (cell_state r \<in> set allowed)
       (EE_LifecycleConflict (''cannot '' @ operation @ '' cell in ''
         @ cell_state_debug (cell_state r) @ '' state''))"

subsection \<open>Paths and images\<close>

definition trim_backslashes :: "string \<Rightarrow> string" where
  "trim_backslashes v = rev (dropWhile (\<lambda>c. c = backslash) (rev v))"

definition windows_path_identity :: "path \<Rightarrow> string" where
  "windows_path_identity p =
     (let v = replace_char CHR ''/'' backslash p;
          unc = [backslash, backslash, CHR ''?'', backslash, CHR ''U'', CHR ''N'', CHR ''C'', backslash];
          dev = [backslash, backslash, CHR ''?'', backslash];
          v1 = (if prefix_ignore_case unc v then [backslash, backslash] @ drop 8 v
                else if prefix_ignore_case dev v then drop 4 v
                else v)
      in trim_backslashes v1)"

definition paths_equal :: "host_env \<Rightarrow> path \<Rightarrow> path \<Rightarrow> bool" where
  "paths_equal H l r =
     (if he_windows H then eq_ignore_ascii_case (windows_path_identity l) (windows_path_identity r)
      else path_eq l r)"

definition provider_image_format :: "string \<Rightarrow> engine_error + string" where
  "provider_image_format provider =
     (if provider = ''hyperv'' then Inr ''vhdx''
      else if provider = ''qemu'' then Inr ''qcow2''
      else Inl (EE_UnsupportedProvider provider))"

definition validate_base_image ::
  "host_env \<Rightarrow> string \<Rightarrow> path \<Rightarrow> u64 \<Rightarrow> provider_image_info \<Rightarrow> engine_error + unit" where
  "validate_base_image H provider expected_path file_size info =
     res_bind (provider_image_format provider)
     (\<lambda>expected_format. res_bind (ensure (paths_equal H expected_path (pi_path info))
       (EE_InvalidImage ''provider reported a different base image path''))
     (\<lambda>_. res_bind (ensure (eq_ignore_ascii_case (pi_disk_format info) expected_format)
       (EE_InvalidImage (''provider image format is not '' @ expected_format)))
     (\<lambda>_. res_bind (ensure (pi_parent_path info = None
         \<and> \<not> eq_ignore_ascii_case (pi_disk_type info) ''differencing'')
       (EE_InvalidImage ''a registered base image cannot itself be differencing''))
     (\<lambda>_. ensure (pi_file_size info = file_size)
       (EE_InvalidImage ''filesystem and provider image sizes disagree'')))))"

definition validate_overlay :: "host_env \<Rightarrow> cell_record \<Rightarrow> provider_image_info \<Rightarrow> engine_error + unit" where
  "validate_overlay H r info =
     (if \<not> paths_equal H (own_overlay_path (cell_ownership r)) (pi_path info)
        \<or> \<not> eq_ignore_ascii_case (pi_disk_format info) (bnd_disk_format (cell_image r))
        \<or> \<not> (eq_ignore_ascii_case (pi_disk_type info) ''differencing''
             \<or> eq_ignore_ascii_case (pi_disk_type info) ''overlay'')
        \<or> (case pi_parent_path info of None \<Rightarrow> True | Some p \<Rightarrow> \<not> paths_equal H p (bnd_path (cell_image r)))
      then Inl (EE_ProviderDrift ''created overlay did not match the requested immutable parent/path'')
      else Inr ())"

definition provider_variant :: "image_record \<Rightarrow> string \<Rightarrow> engine_error + image_variant" where
  "provider_variant img provider =
     (case filter (\<lambda>v. var_provider v = provider) (img_variants img) of
        [] \<Rightarrow> Inl (EE_ImageIntegrity (''image has no '' @ provider @ '' variant''))
      | [v] \<Rightarrow> Inr v
      | _ \<Rightarrow> Inl (EE_ImageIntegrity (''image has more than one '' @ provider @ '' variant'')))"

definition same_image_identity :: "image_record \<Rightarrow> image_record \<Rightarrow> bool" where
  "same_image_identity l r \<longleftrightarrow>
     img_id l = img_id r \<and> img_guest_os l = img_guest_os r \<and> img_guest_arch l = img_guest_arch r
     \<and> img_variants l = img_variants r"

subsection \<open>Ownership proofs\<close>

definition normalize_provider_identity ::
  "crates \<Rightarrow> cell_record \<Rightarrow> provider_vm_identity \<Rightarrow> engine_error + provider_vm_identity" where
  "normalize_provider_identity X r i =
     res_bind (ok_or (uuid_parse_str X (vi_id i))
       (EE_ProviderDrift ''provider create response did not contain a GUID provider id''))
     (\<lambda>u. res_bind (ensure (vi_name i = own_provider_object_name (cell_ownership r))
       (EE_ProviderDrift ''provider create response name did not match the requested CellId name''))
     (\<lambda>_. Inr \<lparr>vi_id = uuid_to_string X u, vi_name = vi_name i\<rparr>))"

definition reason_if :: "bool \<Rightarrow> string \<Rightarrow> string list" where
  "reason_if b s = (if b then [s] else [])"

definition object_identity_reasons :: "cell_record \<Rightarrow> provider_vm \<Rightarrow> string list" where
  "object_identity_reasons r vm =
     (case cell_provider_object r of
        Some i \<Rightarrow> if poi_id i \<noteq> vm_id vm then [''provider id mismatch'']
          else if poi_name i \<noteq> vm_name vm then [''recorded name mismatch''] else []
      | None \<Rightarrow> [''provider id is not recorded''])"

definition single_disk :: "host_env \<Rightarrow> path list \<Rightarrow> path \<Rightarrow> bool" where
  "single_disk H disks overlay = (case disks of [d] \<Rightarrow> paths_equal H d overlay | _ \<Rightarrow> False)"

definition placement_reasons :: "host_env \<Rightarrow> cell_record \<Rightarrow> provider_vm \<Rightarrow> string list" where
  "placement_reasons H r vm =
     reason_if (\<not> paths_equal H (vm_configuration_path vm) (own_configuration_path (cell_ownership r)))
       ''configuration path mismatch''
     @ reason_if (\<not> single_disk H (vm_attached_disks vm) (own_overlay_path (cell_ownership r)))
       ''attached disk mismatch''"

definition ownership_drift :: "host_env \<Rightarrow> cell_record \<Rightarrow> provider_vm \<Rightarrow> string list" where
  "ownership_drift H r vm =
     object_identity_reasons r vm
     @ reason_if (vm_name vm \<noteq> own_provider_object_name (cell_ownership r)) ''ownership name mismatch''
     @ reason_if (vm_ownership_marker vm \<noteq> own_provider_marker (cell_ownership r)) ''ownership marker mismatch''
     @ placement_reasons H r vm
     @ reason_if (vm_network_adapter_count vm \<noteq> 0) ''networking is not disabled''
     @ reason_if (vm_cpu_count vm \<noteq> spec_cpu_count (cell_spec r)) ''CPU configuration mismatch''
     @ reason_if (vm_memory_mib vm \<noteq> spec_memory_mib (cell_spec r)) ''memory configuration mismatch''"

definition no_reasons :: "string list \<Rightarrow> engine_error + unit" where
  "no_reasons reasons = (if reasons = [] then Inr () else Inl (EE_OwnershipNotProven (join_with ''; '' reasons)))"

definition prove_ownership :: "host_env \<Rightarrow> cell_record \<Rightarrow> provider_vm \<Rightarrow> engine_error + unit" where
  "prove_ownership H r vm = no_reasons (ownership_drift H r vm)"

definition prove_creation_identity ::
  "host_env \<Rightarrow> cell_record \<Rightarrow> provider_vm \<Rightarrow> bool \<Rightarrow> engine_error + unit" where
  "prove_creation_identity H r vm require_marker = no_reasons (
     object_identity_reasons r vm
     @ reason_if (vm_name vm \<noteq> own_provider_object_name (cell_ownership r)) ''ownership name mismatch''
     @ reason_if (require_marker \<and> vm_ownership_marker vm \<noteq> own_provider_marker (cell_ownership r))
         ''ownership marker mismatch''
     @ reason_if (\<not> require_marker \<and> vm_ownership_marker vm \<noteq> []
         \<and> vm_ownership_marker vm \<noteq> own_provider_marker (cell_ownership r)) ''unexpected ownership marker''
     @ placement_reasons H r vm
     @ reason_if (vm_memory_mib vm \<noteq> spec_memory_mib (cell_spec r)) ''memory configuration mismatch''
     @ reason_if (1 < vm_network_adapter_count vm) ''new provider object has unexpected network adapters''
     @ reason_if (vm_power_state vm \<noteq> Power_Off) ''new provider object is not off'')"

definition prove_destroy_identity :: "host_env \<Rightarrow> cell_record \<Rightarrow> provider_vm \<Rightarrow> engine_error + unit" where
  "prove_destroy_identity H r vm = no_reasons (
     object_identity_reasons r vm
     @ reason_if (vm_name vm \<noteq> own_provider_object_name (cell_ownership r)) ''ownership name mismatch''
     @ reason_if (vm_ownership_marker vm \<noteq> own_provider_marker (cell_ownership r)) ''ownership marker mismatch''
     @ placement_reasons H r vm
     @ reason_if (vm_memory_mib vm \<noteq> spec_memory_mib (cell_spec r)) ''memory configuration mismatch'')"

definition power_state_matches :: "cell_state \<Rightarrow> provider_power_state \<Rightarrow> bool" where
  "power_state_matches c p =
     (case (c, p) of
        (Cell_Stopped, Power_Off) \<Rightarrow> True
      | (Cell_Running, Power_Running) \<Rightarrow> True
      | (Cell_Creating, _) \<Rightarrow> True
      | (Cell_Destroying, _) \<Rightarrow> True
      | (Cell_Failed, _) \<Rightarrow> True
      | _ \<Rightarrow> False)"

definition validate_local_ownership_record ::
  "host_env \<Rightarrow> path \<Rightarrow> string \<Rightarrow> cell_record \<Rightarrow> uuid \<Rightarrow> engine_error + unit" where
  "validate_local_ownership_record H root provider r current_install_id =
     (let X = he_crates H; own = cell_ownership r in
      res_bind (ensure (own_install_id own = current_install_id)
        (EE_OwnershipNotProven ''cell installation identity does not match the current state store''))
      (\<lambda>_. res_bind (ensure (cell_provider r = provider \<and> spec_provider (cell_spec r) = Some provider
          \<and> bnd_provider (cell_image r) = provider)
        (EE_OwnershipNotProven ''manifest provider binding does not match the selected provider''))
      (\<lambda>_. res_bind (ensure (spec_image (cell_spec r) = bnd_image_id (cell_image r))
        (EE_OwnershipNotProven ''manifest image binding does not match the requested image id''))
      (\<lambda>_. res_bind (ensure (own_provider_object_name own
          = ''vmcell-'' @ uuid_to_string X (cell_uuid (cell_record.cell_id r)))
        (EE_OwnershipNotProven ''manifest provider name is not derived from the CellId''))
      (\<lambda>_. res_bind (case cell_provider_object r of None \<Rightarrow> Inr ()
        | Some i \<Rightarrow> res_bind (ok_or (uuid_parse_str X (poi_id i))
            (EE_OwnershipNotProven ''recorded provider object id is not a GUID''))
          (\<lambda>u. res_bind (ensure (uuid_to_string X u = poi_id i)
            (EE_OwnershipNotProven ''recorded provider object id is not canonical''))
          (\<lambda>_. ensure (poi_name i = own_provider_object_name own)
            (EE_OwnershipNotProven ''recorded provider object name does not match the ownership name''))))
      (\<lambda>_. res_bind (ensure (own_schema_version own = OWNERSHIP_MARKER_SCHEMA)
        (EE_OwnershipNotProven ''unsupported ownership marker schema''))
      (\<lambda>_. res_bind (ensure (own_provider_marker own
          = ownership_marker X (own_install_id own) (cell_record.cell_id r) (own_operation_id own))
        (EE_OwnershipNotProven ''manifest ownership marker is internally inconsistent''))
      (\<lambda>_. ensure (paths_equal H (own_configuration_path own)
            (cell_configuration_path_for X root (cell_record.cell_id r) provider)
          \<and> paths_equal H (own_overlay_path own)
            (cell_overlay_path_for X root (cell_record.cell_id r) (bnd_disk_format (cell_image r))))
        (EE_OwnershipNotProven ''manifest runtime paths are outside the CellId-scoped root'')))))))))"

subsection \<open>Lemmas\<close>

interpretation eid: path_identity "paths_equal H" for H
  by unfold_locales (auto simp: paths_equal_def eq_ignore_ascii_case_def path_eq_def)

lemma reason_if_Nil [simp]: "reason_if b s = [] \<longleftrightarrow> \<not> b"
  by (simp add: reason_if_def)

lemma no_reasons_ok [simp]: "no_reasons rs = Inr u \<longleftrightarrow> rs = []"
  by (simp add: no_reasons_def)

lemma object_identity_Nil [simp]:
  "object_identity_reasons r vm = [] \<longleftrightarrow>
     cell_provider_object r = Some \<lparr>poi_id = vm_id vm, poi_name = vm_name vm\<rparr>"
  by (cases "cell_provider_object r") (auto simp: object_identity_reasons_def)

lemma single_disk_iff: "single_disk H ds ov \<longleftrightarrow> (\<exists>d. ds = [d] \<and> paths_equal H d ov)"
  by (auto simp: single_disk_def split: list.splits)

text \<open>What every ownership proof establishes about the presented virtual machine.\<close>

definition vm_identity :: "host_env \<Rightarrow> cell_record \<Rightarrow> provider_vm \<Rightarrow> bool" where
  "vm_identity H r vm \<longleftrightarrow>
     cell_provider_object r = Some \<lparr>poi_id = vm_id vm, poi_name = vm_name vm\<rparr>
     \<and> vm_name vm = own_provider_object_name (cell_ownership r)
     \<and> paths_equal H (vm_configuration_path vm) (own_configuration_path (cell_ownership r))
     \<and> single_disk H (vm_attached_disks vm) (own_overlay_path (cell_ownership r))
     \<and> vm_memory_mib vm = spec_memory_mib (cell_spec r)"

lemma prove_ownership_ok:
  "prove_ownership H r vm = Inr u \<longleftrightarrow>
     vm_identity H r vm \<and> vm_ownership_marker vm = own_provider_marker (cell_ownership r)
     \<and> vm_network_adapter_count vm = 0 \<and> vm_cpu_count vm = spec_cpu_count (cell_spec r)"
  by (auto simp: prove_ownership_def ownership_drift_def placement_reasons_def vm_identity_def)

lemma prove_destroy_identity_ok:
  "prove_destroy_identity H r vm = Inr u \<longleftrightarrow>
     vm_identity H r vm \<and> vm_ownership_marker vm = own_provider_marker (cell_ownership r)"
  by (auto simp: prove_destroy_identity_def placement_reasons_def vm_identity_def)

lemma prove_creation_identity_ok:
  "prove_creation_identity H r vm m = Inr u \<longleftrightarrow>
     vm_identity H r vm
     \<and> (vm_ownership_marker vm = own_provider_marker (cell_ownership r)
        \<or> \<not> m \<and> vm_ownership_marker vm = [])
     \<and> vm_network_adapter_count vm \<le> 1 \<and> vm_power_state vm = Power_Off"
  by (auto simp: prove_creation_identity_def placement_reasons_def vm_identity_def)

lemmas ownership_proofs_ok =
  prove_ownership_ok prove_destroy_identity_ok prove_creation_identity_ok

definition cell_scope :: "host_env \<Rightarrow> path \<Rightarrow> string \<Rightarrow> cell_record \<Rightarrow> bool" where
  "cell_scope H root provider r \<longleftrightarrow>
     cell_provider r = provider \<and> spec_provider (cell_spec r) = Some provider
     \<and> bnd_provider (cell_image r) = provider \<and> spec_image (cell_spec r) = bnd_image_id (cell_image r)
     \<and> own_schema_version (cell_ownership r) = OWNERSHIP_MARKER_SCHEMA
     \<and> own_provider_object_name (cell_ownership r) = cell_object_name (he_crates H) (cid r)
     \<and> own_provider_marker (cell_ownership r) = ownership_marker (he_crates H)
         (own_install_id (cell_ownership r)) (cid r) (own_operation_id (cell_ownership r))
     \<and> paths_equal H (own_configuration_path (cell_ownership r))
         (cell_configuration_path_for (he_crates H) root (cid r) provider)
     \<and> paths_equal H (own_overlay_path (cell_ownership r))
         (cell_overlay_path_for (he_crates H) root (cid r) (bnd_disk_format (cell_image r)))"

lemma validate_local_ownership_record_ok:
  "validate_local_ownership_record H root provider r i = Inr u \<Longrightarrow>
     own_install_id (cell_ownership r) = i \<and> cell_scope H root provider r"
  by (auto simp: validate_local_ownership_record_def cell_scope_def cell_object_name_def Let_def)

text \<open>On the non-Windows build the provider compares canonicalised paths; canonicalising resolves a
  path by its components, so equal paths stay equal.\<close>

definition canonicalize_respects :: "host_env \<Rightarrow> bool" where
  "canonicalize_respects H \<longleftrightarrow>
     (\<forall>p q. path_eq p q \<longrightarrow> path_eq (canonical_or_self H p) (canonical_or_self H q))"

lemma paths_equal_provider:
  "\<not> he_windows H \<Longrightarrow> canonicalize_respects H \<Longrightarrow> paths_equal H p q \<Longrightarrow> provider_paths_equal H p q"
  by (simp add: paths_equal_def provider_paths_equal_def canonicalize_respects_def)

lemma canonicalize_respects_sample: "canonicalize_respects sample_env"
  by (simp add: canonicalize_respects_def canonical_or_self_def sample_env_def)

lemma validate_cell_spec_accelerator:
  "validate_cell_spec s provider = Inr u \<Longrightarrow>
     provider \<in> {''hyperv'', ''qemu''} \<and> spec_provider s = Some provider
     \<and> (spec_allow_tcg s \<longleftrightarrow> spec_accelerator s = Some ''tcg'')
     \<and> (\<forall>a. spec_accelerator s = Some a \<longrightarrow> a \<in> {''auto'', ''whpx'', ''kvm'', ''hvf'', ''tcg''})"
  unfolding validate_cell_spec_def by (simp split: if_splits) (simp split: option.splits)

lemma qemu_definition_accelerator:
  assumes "validate_qemu_definition H g (provider_authority_new r inst rt) d = Inr u"
  shows "cell_provider r = ''qemu'' \<and>
    (case spec_accelerator (cell_spec r) of
       Some v \<Rightarrow> if v = ''auto'' then qd_accelerator d \<in> {''whpx'', ''kvm'', ''hvf''}
         \<or> qd_accelerator d = ''tcg'' \<and> spec_allow_tcg (cell_spec r) else qd_accelerator d = v
     | None \<Rightarrow> qd_accelerator d \<in> {''whpx'', ''kvm'', ''hvf''}
         \<or> qd_accelerator d = ''tcg'' \<and> spec_allow_tcg (cell_spec r))"
  using assms unfolding validate_qemu_definition_def Let_def
  by (cases "spec_accelerator (cell_spec r)") (simp_all split: if_splits)

definition durable_code :: "string \<Rightarrow> bool" where
  "durable_code v \<longleftrightarrow> length v \<le> 128 \<and> starts_with v ''vmcell.''
     \<and> list_all (\<lambda>b. is_ascii_lowercase b \<or> is_ascii_digit b \<or> b \<in> set ''._-'') v"

lemma durable_code_run_selection: "durable_code (run_selection_code e)"
  by (cases e; simp only: run_selection_code.simps; code_simp)

lemma durable_code_engine: "durable_code (durable_error_code e)"
proof -
  have codes: "list_all durable_code [''vmcell.state.failed'', ''vmcell.provider.timeout'',
      ''vmcell.provider.output_limit'', ''vmcell.provider.failed'', ''vmcell.provider.unsupported'',
      ''vmcell.provider.unavailable'', ''vmcell.image.invalid'', ''vmcell.image.integrity'',
      ''vmcell.image.conflict'', ''vmcell.image.in_use'', ''vmcell.request.invalid'',
      ''vmcell.lifecycle.conflict'', ''vmcell.state.integrity'', ''vmcell.ownership.not_proven'',
      ''vmcell.ownership.drift'', ''vmcell.lifecycle.power_state'', ''vmcell.guest.timeout'',
      ''vmcell.guest.output_limit'', ''vmcell.guest.failed'']"
    by code_simp
  then show ?thesis
    unfolding durable_error_code_def
    by (simp add: durable_code_run_selection split: engine_error.split provider_error.split guest_io_error.split)
qed

subsection \<open>Properties\<close>


text \<open>A cell whose runtime lies below the state root, and its machine.\<close>

definition owned_cell :: cell_record where
  "owned_cell = sample_cell\<lparr>
     cell_ownership := cell_ownership_new canonical_crates 5 (CellId 7) 9
       (cell_configuration_path_for canonical_crates ''/state'' (CellId 7) ''qemu'')
       (cell_overlay_path_for canonical_crates ''/state'' (CellId 7) ''qcow2''),
     cell_provider_object := Some \<lparr>poi_id = uuid_to_string canonical_crates 11,
       poi_name = cell_object_name canonical_crates (CellId 7)\<rparr>\<rparr>"

definition owned_vm :: provider_vm where
  "owned_vm = sample_vm\<lparr>vm_id := uuid_to_string canonical_crates 11,
     vm_configuration_path := cell_configuration_path_for canonical_crates ''/state'' (CellId 7) ''qemu'',
     vm_attached_disks := [cell_overlay_path_for canonical_crates ''/state'' (CellId 7) ''qcow2'']\<rparr>"

lemmas owned_defs = owned_cell_def owned_vm_def sample_defs cell_ownership_new_def

lemma uuid_parse_canonical: "uuid_parse_str canonical_crates (uuid_to_string canonical_crates u) = Some u"
  using canonical_uuid_laws by (simp add: uuid_laws_def)

lemma owned_local: "validate_local_ownership_record sample_env ''/state'' ''qemu'' owned_cell 5 = Inr ()"
  by (simp add: validate_local_ownership_record_def owned_defs Let_def cell_object_name_def
      eid.same_refl uuid_parse_canonical ok_or_def)

lemma owned_proof: "prove_ownership sample_env owned_cell owned_vm = Inr ()"
  by (simp add: prove_ownership_ok vm_identity_def single_disk_iff owned_defs eid.same_refl)


text \<open>
  C33: a virtual machine belongs to at most one cell.  If the manifests of two cells are consistent
  and a destroy, ownership or claimed-creation proof succeeds for the same machine under both, the
  cells are the same cell, created by the same operation of the same installation.
\<close>

theorem ownership_is_exclusive:
  assumes "uuid_laws (he_crates H)"
    and "validate_local_ownership_record H root provider r i = Inr ()"
    and "validate_local_ownership_record H root' provider' r' i' = Inr ()"
    and "prove_destroy_identity H r vm = Inr () \<or> prove_ownership H r vm = Inr ()
      \<or> prove_creation_identity H r vm True = Inr ()"
    and "prove_destroy_identity H r' vm = Inr () \<or> prove_ownership H r' vm = Inr ()
      \<or> prove_creation_identity H r' vm True = Inr ()"
  shows "cell_record.cell_id r = cell_record.cell_id r' \<and> i = i'
    \<and> own_operation_id (cell_ownership r) = own_operation_id (cell_ownership r')
    \<and> cell_provider_object r = cell_provider_object r'"
proof -
  have m: "vm_ownership_marker vm = own_provider_marker (cell_ownership r)" "vm_identity H r vm"
    "vm_ownership_marker vm = own_provider_marker (cell_ownership r')" "vm_identity H r' vm"
    using assms(4,5) by (auto simp: ownership_proofs_ok)
  have "ownership_marker (he_crates H) i (cid r) (own_operation_id (cell_ownership r))
      = ownership_marker (he_crates H) i' (cid r') (own_operation_id (cell_ownership r'))"
    using validate_local_ownership_record_ok [OF assms(2)]
      validate_local_ownership_record_ok [OF assms(3)] m by (auto simp: cell_scope_def)
  from ownership_marker_inj [OF assms(1) this] m(2,4) show ?thesis
    by (simp add: vm_identity_def)
qed

theorem ownership_is_exclusive_witness:
  "prove_ownership sample_env owned_cell owned_vm = Inr ()
   \<and> cell_record.cell_id owned_cell = CellId 7
   \<and> own_operation_id (cell_ownership owned_cell)
      = own_operation_id (cell_ownership (owned_cell\<lparr>cell_state := Cell_Running\<rparr>))"
proof -
  let ?r = "owned_cell\<lparr>cell_state := Cell_Running\<rparr>"
  have "validate_local_ownership_record sample_env ''/state'' ''qemu'' ?r 5 = Inr ()"
    using owned_local by (simp add: validate_local_ownership_record_def)
  moreover have "prove_ownership sample_env ?r owned_vm = Inr ()"
    using owned_proof by (simp add: prove_ownership_ok vm_identity_def)
  moreover have "uuid_laws (he_crates sample_env)"
    using canonical_uuid_laws by (simp add: sample_env_def)
  ultimately show ?thesis
    using ownership_is_exclusive [OF _ owned_local, of "''/state''" "''qemu''" ?r 5 owned_vm] owned_proof
    by (simp add: owned_defs)
qed

text \<open>
  Software emulation needs the exact opt-in.  For a cell whose specification the engine accepted,
  a QEMU definition that passes the cell's provider authority uses a known accelerator, and it is
  TCG exactly when the specification names \<open>tcg\<close> and sets \<open>allow_tcg\<close>.
\<close>

theorem tcg_needs_opt_in:
  assumes "validate_cell_spec (cell_spec r) provider = Inr ()"
    and "validate_qemu_definition H g (provider_authority_new r inst rt) d = Inr ()"
  shows "provider \<in> {''hyperv'', ''qemu''} \<and> cell_provider r = ''qemu''
    \<and> (qd_accelerator d = ''tcg'' \<longleftrightarrow>
         spec_accelerator (cell_spec r) = Some ''tcg'' \<and> spec_allow_tcg (cell_spec r))
    \<and> qd_accelerator d \<in> {''whpx'', ''kvm'', ''hvf'', ''tcg''}"
proof (cases "spec_accelerator (cell_spec r)")
  case None
  with validate_cell_spec_accelerator [OF assms(1)] qemu_definition_accelerator [OF assms(2)]
  show ?thesis by simp (elim conjE disjE; simp)
next
  case (Some a)
  have a: "a \<in> {''auto'', ''whpx'', ''kvm'', ''hvf'', ''tcg''}" "provider \<in> {''hyperv'', ''qemu''}"
    "spec_allow_tcg (cell_spec r) \<longleftrightarrow> a = ''tcg''"
    using validate_cell_spec_accelerator [OF assms(1)] Some by simp_all
  have d: "cell_provider r = ''qemu''" "if a = ''auto'' then qd_accelerator d \<in> {''whpx'', ''kvm'', ''hvf''}
      \<or> qd_accelerator d = ''tcg'' \<and> spec_allow_tcg (cell_spec r) else qd_accelerator d = a"
    using qemu_definition_accelerator [OF assms(2)] unfolding Some option.case by (rule conjunct1, rule conjunct2)
  show ?thesis
  proof (cases "a = ''auto''")
    case True
    with a(3) d(2) have "qd_accelerator d \<in> {''whpx'', ''kvm'', ''hvf''}" by simp
    then have "qd_accelerator d \<noteq> ''tcg''" by (elim insertE; simp)
    with True Some a d show ?thesis by simp
  next
    case False
    with d(2) have "qd_accelerator d = a" by simp
    moreover from False a(1) have "a \<in> {''whpx'', ''kvm'', ''hvf'', ''tcg''}" unfolding insert_iff by (elim disjE) simp_all
    ultimately show ?thesis using Some a(2,3) d(1) by simp
  qed
qed

definition owned_definition :: qemu_definition where
  "owned_definition = \<lparr>qd_provider_id = uuid_to_string canonical_crates 11,
     qd_provider_name = cell_object_name canonical_crates (CellId 7),
     qd_provider_marker = ownership_marker canonical_crates 5 (CellId 7) 9,
     qd_configuration_path = cell_configuration_path_for canonical_crates ''/state'' (CellId 7) ''qemu'',
     qd_overlay_path = cell_overlay_path_for canonical_crates ''/state'' (CellId 7) ''qcow2'',
     qd_parent_path = ''/images/linux.qcow2'', qd_accelerator = ''kvm'', qd_cpu_count = 2,
     qd_memory_mib = 2048, qd_require_marker = True\<rparr>"

lemma owned_spec_accelerator: "spec_accelerator (cell_spec owned_cell) \<noteq> Some ''tcg''"
  by (simp add: owned_defs)

theorem tcg_needs_opt_in_witness:
  "qd_accelerator owned_definition \<noteq> ''tcg'' \<and> cell_provider owned_cell = ''qemu''"
proof -
  have "validate_cell_spec (cell_spec owned_cell) ''qemu'' = Inr ()"
    by (simp add: validate_cell_spec_def validate_cell_resources_def owned_defs MAX_CPU_COUNT_def
        MIN_MEMORY_MIB_def MAX_MEMORY_MIB_def)
  moreover have "validate_qemu_definition sample_env
      \<lparr>gs_mutation_identity = True, gs_runtime_identity = True\<rparr>
      (provider_authority_new owned_cell sample_installation
        \<lparr>rt_cell_id = CellId 7,
         rt_configuration_path = own_configuration_path (cell_ownership owned_cell),
         rt_overlay_path = own_overlay_path (cell_ownership owned_cell)\<rparr>) owned_definition = Inr ()"
    by (simp add: validate_qemu_definition_def validate_common_def ensure_def owned_definition_def
        owned_defs pid.same_refl authority_object_name_def cell_object_name_def)
  ultimately show ?thesis
    using tcg_needs_opt_in by (metis owned_spec_accelerator)
qed

text \<open>
  The diagnostics the engine writes are never redacted.  Every durable error code has the shape
  that the store keeps verbatim, so a failed cell is stored and loaded with exactly its code.
\<close>

theorem durable_error_codes_survive:
  "redact_cell_diagnostic (r\<lparr>cell_last_error := Some (durable_error_code e)\<rparr>)
    = r\<lparr>cell_last_error := Some (durable_error_code e)\<rparr>"
  using durable_code_engine [of e] by (simp add: redact_cell_diagnostic_def Let_def durable_code_def)

end
