(* ===== verification/Engine.thy ===== *)
theory Engine
  imports StoreOps EngineProofs
begin

section \<open>The cell engine\<close>

text \<open>
  The stateful operations of \<open>engine/mod.rs\<close> on cells and images.  The world of the store is extended
  with the provider's own state and a ghost trace: every mutating provider call together with the
  durable store at the moment of the call, newest first.  The environment is extended with the
  provider and with what the file system shows of a base image: whether its path is ordinary, what
  opening it yields, its length and digest, and whether the pinned file is still the one at its
  path.  \<open>en_error_text\<close> and \<open>en_status_text\<close> are the derived \<open>Display\<close> and \<open>Debug\<close> renderings that occur
  inside messages.  Guards are released when their scope ends, on every exit path: \<open>with_lock\<close>.
  \<open>ew_events\<close> is the list of progress events shown to the observer of a run, newest first, each with the
  observer's answer and the durable store at that moment; \<open>ew_recorded\<close> is the variable of a run that the \<open>on_recorded\<close>
  closure of a guest operation assigns.
\<close>

subsection \<open>Environment and world\<close>

datatype engine_call =
  Call_CreateOverlay provider_mutation_authority create_overlay_request
| Call_CreateVm provider_mutation_authority create_vm_request
| Call_ClaimVm provider_mutation_authority claim_vm_request
| Call_ConfigureVm provider_mutation_authority configure_vm_request
| Call_StartVm provider_mutation_authority provider_vm
| Call_StopVm provider_mutation_authority provider_vm
| Call_RemoveVm provider_mutation_authority provider_vm

datatype run_progress_event =
  Ev_ImageVerified image_id
| Ev_CellCreated cell_id
| Ev_ProviderStarted cell_id
| Ev_GuestReady cell_id
| Ev_CommandCompleted cell_id guest_operation_id i32
| Ev_CopyInCompleted cell_id guest_operation_id u64
| Ev_ArtifactCollected cell_id guest_operation_id u32
| Ev_CleanupStarted cell_id
| Ev_CellDestroyed cell_id
| Ev_CellRetained cell_id run_cleanup_disposition
| Ev_CleanupRefused cell_id

datatype run_control = Control_Continue | Control_Cancel

record 'p engine_env = fs_env +
  en_provider :: "'p provider"
  en_image_stat :: "nat \<Rightarrow> path \<Rightarrow> string option"
  en_open_image :: "nat \<Rightarrow> path \<Rightarrow> engine_error option"
  en_image_len :: "nat \<Rightarrow> path \<Rightarrow> string + u64"
  en_image_sha256 :: "nat \<Rightarrow> path \<Rightarrow> string + string"
  en_parent_identity :: "nat \<Rightarrow> path \<Rightarrow> engine_error option"
  en_error_text :: "engine_error \<Rightarrow> string"
  en_status_text :: "reconciliation_status \<Rightarrow> string"

record 'p engine_world = world +
  ew_provider :: 'p
  ew_trace :: "(engine_call \<times> store) list"
  ew_events :: "(run_progress_event \<times> run_control \<times> store) list"
  ew_recorded :: "guest_operation_id option"

abbreviation stE :: "('w, state_error, 'a) eff \<Rightarrow> ('w, engine_error, 'a) eff" where
  "stE m \<equiv> mapE EE_State m"

abbreviation provider_name :: "('p, 'y) engine_env_scheme \<Rightarrow> string" where
  "provider_name E \<equiv> pv_name (en_provider E)"

definition run_provider ::
  "('p, provider_error, 'a) eff \<Rightarrow> (('p, 'z) engine_world_scheme, engine_error, 'a) eff" where
  "run_provider m = (\<lambda>w. case m (ew_provider w) of (r, p) \<Rightarrow> (res_map_err EE_Provider r, w\<lparr>ew_provider := p\<rparr>))"

definition provider_call ::
  "engine_call \<Rightarrow> ('p, provider_error, 'a) eff \<Rightarrow> (('p, 'z) engine_world_scheme, engine_error, 'a) eff" where
  "provider_call c m =
     bindE (modify (\<lambda>w. w\<lparr>ew_trace := (c, w_store w) # ew_trace w\<rparr>)) (\<lambda>_. run_provider m)"

definition inspect_vm ::
  "('p, 'y) engine_env_scheme \<Rightarrow> vm_lookup \<Rightarrow> (('p, 'z) engine_world_scheme, engine_error, provider_vm option) eff" where
  "inspect_vm E l = run_provider (pv_inspect_vm (en_provider E) l)"

text \<open>\<open>save_cell E r\<close>: the record write every operation uses.\<close>

definition save_cell ::
  "('p, 'y) engine_env_scheme \<Rightarrow> cell_record \<Rightarrow> (('p, 'z) engine_world_scheme, engine_error, unit) eff" where
  "save_cell E r = stE (save_cell_with_mutation E r)"

text \<open>Set state, phase and \<open>updated_at\<close> and write the record.\<close>

definition persist ::
  "('p, 'y) engine_env_scheme \<Rightarrow> cell_record \<Rightarrow> cell_state \<Rightarrow> cell_phase
    \<Rightarrow> (('p, 'z) engine_world_scheme, engine_error, cell_record) eff" where
  "persist E r s ph = bindE (utc_now E) (\<lambda>t.
     let r' = r\<lparr>cell_state := s, cell_phase := ph, cell_updated_at := t\<rparr> in
     bindE (save_cell E r') (\<lambda>_. ret r'))"

definition with_lock ::
  "('p, 'y) engine_env_scheme \<Rightarrow> (('p, 'z) engine_world_scheme, engine_error, 'a) eff
    \<Rightarrow> (('p, 'z) engine_world_scheme, engine_error, 'a) eff" where
  "with_lock E m = bindE (stE (acquire_mutation_lock E)) (\<lambda>_. finallyE m release_mutation_lock)"

subsection \<open>Provider guards\<close>

definition require_provider :: "('p, 'y) engine_env_scheme \<Rightarrow> engine_error + unit" where
  "require_provider E =
     ensure (provider_name E \<in> {''hyperv'', ''qemu''}) (EE_UnsupportedProvider (provider_name E))"

definition require_provider_available ::
  "('p, 'y) engine_env_scheme \<Rightarrow> (('p, 'z) engine_world_scheme, engine_error, unit) eff" where
  "require_provider_available E =
     bindE (liftR (require_provider E)) (\<lambda>_.
     bindE (gets (\<lambda>w. probe_normalized (pv_probe (en_provider E) (ew_provider w)))) (\<lambda>p.
       if pp_available p then ret () else throw (EE_ProviderUnavailable (pp_detail p))))"

subsection \<open>Base images\<close>

definition canonical_image_path ::
  "('p, 'y) engine_env_scheme \<Rightarrow> path \<Rightarrow> (('p, 'z) engine_world_scheme, engine_error, path) eff" where
  "canonical_image_path E p = bindE next_tick (\<lambda>n.
     case en_image_stat E n p of
       Some message \<Rightarrow> throw (EE_InvalidImage message)
     | None \<Rightarrow>
         if \<not> (case extension p of None \<Rightarrow> False
              | Some e \<Rightarrow> eq_ignore_ascii_case e ''vhdx'' \<or> eq_ignore_ascii_case e ''qcow2'')
         then throw (EE_InvalidImage ''base image must use the provider-native .vhdx or .qcow2 extension'')
         else (case he_canonicalize (fe_host E) p of
             None \<Rightarrow> throw (EE_InvalidImage ''path cannot be canonicalized'') | Some q \<Rightarrow> ret q))"

definition open_immutable_parent ::
  "('p, 'y) engine_env_scheme \<Rightarrow> path \<Rightarrow> (('p, 'z) engine_world_scheme, engine_error, unit) eff" where
  "open_immutable_parent E p = bindE next_tick (\<lambda>n.
     case en_open_image E n p of None \<Rightarrow> ret () | Some e \<Rightarrow> throw e)"

definition validate_path_identity ::
  "('p, 'y) engine_env_scheme \<Rightarrow> path \<Rightarrow> (('p, 'z) engine_world_scheme, engine_error, unit) eff" where
  "validate_path_identity E p = bindE next_tick (\<lambda>n.
     case en_parent_identity E n p of None \<Rightarrow> ret () | Some e \<Rightarrow> throw e)"

definition image_len ::
  "('p, 'y) engine_env_scheme \<Rightarrow> path \<Rightarrow> (('p, 'z) engine_world_scheme, string, u64) eff" where
  "image_len E p = bindE next_tick (\<lambda>n. liftR (en_image_len E n p))"

definition sha256_file ::
  "('p, 'y) engine_env_scheme \<Rightarrow> path \<Rightarrow> (('p, 'z) engine_world_scheme, engine_error, string) eff" where
  "sha256_file E p = bindE next_tick (\<lambda>n. mapE EE_InvalidImage (liftR (en_image_sha256 E n p)))"

text \<open>The handle of the pinned parent is represented by its canonical path.\<close>

definition verify_registered_image ::
  "('p, 'y) engine_env_scheme \<Rightarrow> image_variant \<Rightarrow> (('p, 'z) engine_world_scheme, engine_error, path) eff" where
  "verify_registered_image E v =
     bindE (mapE as_image_integrity (canonical_image_path E (var_path v))) (\<lambda>canonical.
     if \<not> paths_equal (fe_host E) canonical (var_path v)
     then throw (EE_ImageIntegrity ''registered image path no longer resolves to the same file'')
     else
     bindE (mapE as_image_integrity (open_immutable_parent E canonical)) (\<lambda>_.
     bindE (validate_path_identity E canonical) (\<lambda>_.
     bindE (mapE EE_ImageIntegrity (image_len E canonical)) (\<lambda>size.
     if size \<noteq> var_file_size v then throw (EE_ImageIntegrity ''registered image size changed'')
     else
     bindE (run_provider (pv_inspect_image (en_provider E) canonical)) (\<lambda>info.
     bindE (validate_path_identity E canonical) (\<lambda>_.
     bindE (mapE as_image_integrity (liftR
       (validate_base_image (fe_host E) (provider_name E) canonical size info))) (\<lambda>_.
     bindE (mapE as_image_integrity (sha256_file E canonical)) (\<lambda>sha.
     bindE (validate_path_identity E canonical) (\<lambda>_.
     if sha \<noteq> var_sha256 v then throw (EE_ImageIntegrity ''registered image SHA-256 changed'')
     else ret canonical)))))))))"

subsection \<open>Ownership\<close>

definition validate_local_ownership ::
  "('p, 'y) engine_env_scheme \<Rightarrow> cell_record \<Rightarrow> (('p, 'z) engine_world_scheme, engine_error, unit) eff" where
  "validate_local_ownership E r =
     bindE (stE (read_op E (load_installation_from (fe_root E)))) (\<lambda>inst.
       liftR (validate_local_ownership_record (fe_host E) (fe_root E) (provider_name E) r (ins_install_id inst)))"

definition validate_local_ownership_against ::
  "('p, 'y) engine_env_scheme \<Rightarrow> cell_record \<Rightarrow> installation_authority \<Rightarrow> engine_error + unit" where
  "validate_local_ownership_against E r inst =
     validate_local_ownership_record (fe_host E) (fe_root E) (provider_name E) r (inst_install_id inst)"

definition exact_owned_vm ::
  "('p, 'y) engine_env_scheme \<Rightarrow> cell_record \<Rightarrow> (('p, 'z) engine_world_scheme, engine_error, provider_vm) eff" where
  "exact_owned_vm E r =
     (if cell_state r = Cell_Destroyed then throw (EE_OwnershipNotProven ''cell is already destroyed'')
      else bindE (validate_local_ownership E r) (\<lambda>_.
        bindE (liftR (ok_or (cell_provider_object r)
          (EE_OwnershipNotProven ''provider object id is not recorded''))) (\<lambda>i.
        bindE (inspect_vm E (Lookup_Id (poi_id i))) (\<lambda>found.
        bindE (liftR (ok_or found (EE_OwnershipNotProven ''recorded provider object is absent''))) (\<lambda>vm.
        bindE (liftR (prove_ownership (fe_host E) r vm)) (\<lambda>_. ret vm))))))"

definition reconcile_provider_vm ::
  "host_env \<Rightarrow> cell_record \<Rightarrow> provider_vm \<Rightarrow> reconciliation_status" where
  "reconcile_provider_vm H r vm =
     (let reasons = ownership_drift H r vm in
      if cell_phase r \<in> {Phase_ProviderObjectCreated, Phase_ProviderObjectClaimed}
        \<and> is_ok (prove_creation_identity H r vm (cell_phase r = Phase_ProviderObjectClaimed
             \<or> vm_ownership_marker vm = own_provider_marker (cell_ownership r)))
      then RS_Provisioning (cell_phase r)
      else if cell_phase r = Phase_DestroyingProvisioning \<and> is_ok (prove_destroy_identity H r vm)
      then RS_Provisioning (cell_phase r)
      else if reasons \<noteq> [] then RS_OwnershipMismatch reasons
      else if \<not> power_state_matches (cell_state r) (vm_power_state vm)
      then RS_StateDrift (cell_state r) (vm_power_state vm)
      else RS_ExactOwned)"

definition reconcile_tombstone ::
  "('p, 'y) engine_env_scheme \<Rightarrow> cell_record
    \<Rightarrow> (('p, 'z) engine_world_scheme, engine_error, provider_vm option \<times> reconciliation_status) eff" where
  "reconcile_tombstone E r =
     bindE (case cell_provider_object r of None \<Rightarrow> ret None
       | Some i \<Rightarrow> inspect_vm E (Lookup_Id (poi_id i))) (\<lambda>by_id. case by_id of
       Some vm \<Rightarrow> ret (Some vm, RS_OwnershipMismatch [''provider object exists after the cell was tombstoned''])
     | None \<Rightarrow>
     bindE (inspect_vm E (Lookup_Name (own_provider_object_name (cell_ownership r)))) (\<lambda>by_name. case by_name of
       Some vm \<Rightarrow> ret (Some vm, RS_OwnershipMismatch [''provider name is occupied after the cell was tombstoned''])
     | None \<Rightarrow>
     bindE (stE (runtime_entry_exists E (cell_record.cell_id r))) (\<lambda>exists_entry.
       if exists_entry
       then ret (None, RS_OwnershipMismatch [''runtime entry exists after the cell was tombstoned''])
       else ret (None, RS_Destroyed))))"

definition reconcile_record ::
  "('p, 'y) engine_env_scheme \<Rightarrow> cell_record
    \<Rightarrow> (('p, 'z) engine_world_scheme, engine_error, provider_vm option \<times> reconciliation_status) eff" where
  "reconcile_record E r =
     bindE (attempt (validate_local_ownership E r)) (\<lambda>local. case local of
       Inl e \<Rightarrow> ret (None, RS_OwnershipMismatch [en_error_text E e])
     | Inr _ \<Rightarrow>
       if cell_state r = Cell_Destroyed then reconcile_tombstone E r
       else (case cell_provider_object r of
         None \<Rightarrow> bindE (inspect_vm E (Lookup_Name (own_provider_object_name (cell_ownership r)))) (\<lambda>found.
           case found of
             Some vm \<Rightarrow> ret (Some vm, RS_UnprovenProviderObject (vm_id vm))
           | None \<Rightarrow> ret (None, RS_ManifestOnly))
       | Some i \<Rightarrow> bindE (inspect_vm E (Lookup_Id (poi_id i))) (\<lambda>found. case found of
             None \<Rightarrow> ret (None, RS_ProviderMissing)
           | Some vm \<Rightarrow> ret (Some vm, reconcile_provider_vm (fe_host E) r vm))))"

record cell_inspection =
  ci_schema_version :: u32
  ci_cell :: cell_record
  ci_provider_vm :: "provider_vm option"
  ci_classification :: reconciliation_classification
  ci_reconciliation :: reconciliation_status

definition inspect_cell ::
  "('p, 'y) engine_env_scheme \<Rightarrow> cell_id \<Rightarrow> (('p, 'z) engine_world_scheme, engine_error, cell_inspection) eff" where
  "inspect_cell E c =
     bindE (stE (load_cell E c)) (\<lambda>r.
     bindE (reconcile_record E r) (\<lambda>(vm, status).
     ret \<lparr>ci_schema_version = AUTOMATION_SCHEMA_VERSION, ci_cell = r, ci_provider_vm = vm,
       ci_classification = classification status, ci_reconciliation = status\<rparr>))"

subsection \<open>Creating a cell\<close>

definition fail_record ::
  "('p, 'y) engine_env_scheme \<Rightarrow> cell_record \<Rightarrow> engine_error
    \<Rightarrow> (('p, 'z) engine_world_scheme, engine_error, 'a) eff" where
  "fail_record E r e = bindE (utc_now E) (\<lambda>t.
     bindE (save_cell E (r\<lparr>cell_state := Cell_Failed, cell_updated_at := t,
       cell_last_error := Some (durable_error_code e)\<rparr>)) (\<lambda>_. throw e))"

text \<open>\<open>match m { Ok(x) => x, Err(e) => return self.fail_record(..) }\<close>.\<close>

definition or_fail ::
  "('p, 'y) engine_env_scheme \<Rightarrow> cell_record \<Rightarrow> (('p, 'z) engine_world_scheme, engine_error, 'a) eff
    \<Rightarrow> (('p, 'z) engine_world_scheme, engine_error, 'a) eff" where
  "or_fail E r m = bindE (attempt m) (\<lambda>res. case res of Inl e \<Rightarrow> fail_record E r e | Inr x \<Rightarrow> ret x)"

definition expiry :: "time \<Rightarrow> u64 option \<Rightarrow> time option" where
  "expiry now ttl = map_option (\<lambda>s. now + 1000000000 * int (min (unat s) (2 ^ 63 - 1))) ttl"

definition new_cell_record ::
  "('p, 'y) engine_env_scheme \<Rightarrow> cell_spec \<Rightarrow> cell_id \<Rightarrow> job_correlation option \<Rightarrow> image_record
    \<Rightarrow> image_variant \<Rightarrow> uuid \<Rightarrow> uuid \<Rightarrow> time \<Rightarrow> cell_record" where
  "new_cell_record E spec c job img v install op now =
     \<lparr>cell_schema_version = cell_schema_version_for_job job, cell_id = c,
      cell_provider = provider_name E, cell_spec = spec,
      cell_image = binding_from_variant (img_id img) (img_guest_os img) v,
      cell_ownership = cell_ownership_new (env_crates E) install c op
        (cell_configuration_path_for (env_crates E) (fe_root E) c (provider_name E))
        (cell_overlay_path_for (env_crates E) (fe_root E) c (var_disk_format v)),
      cell_provider_object = None, cell_state = Cell_Creating, cell_phase = Phase_IntentRecorded,
      cell_created_at = now, cell_updated_at = now, cell_expires_at = expiry now (spec_ttl_seconds spec),
      cell_last_error = None, cell_job = job\<rparr>"

definition overlay_request_of :: "cell_record \<Rightarrow> create_overlay_request" where
  "overlay_request_of r = \<lparr>co_parent_path = bnd_path (cell_image r),
     co_overlay_path = own_overlay_path (cell_ownership r)\<rparr>"

definition create_request_of :: "cell_record \<Rightarrow> create_vm_request" where
  "create_request_of r =
     \<lparr>cv_name = own_provider_object_name (cell_ownership r),
      cv_configuration_path = own_configuration_path (cell_ownership r),
      cv_overlay_path = own_overlay_path (cell_ownership r), cv_parent_path = bnd_path (cell_image r),
      cv_memory_mib = spec_memory_mib (cell_spec r), cv_cpu_count = spec_cpu_count (cell_spec r),
      cv_accelerator = spec_accelerator (cell_spec r), cv_allow_tcg = spec_allow_tcg (cell_spec r)\<rparr>"

text \<open>The steps of \<open>create_cell_with_id\<close> after the durable intent, one definition per durable phase.\<close>

definition create_overlay_step ::
  "('p, 'y) engine_env_scheme \<Rightarrow> installation_authority \<Rightarrow> cell_runtime_guard \<Rightarrow> cell_record
    \<Rightarrow> (('p, 'z) engine_world_scheme, engine_error, cell_record) eff" where
  "create_overlay_step E inst rt r =
     (let auth = provider_authority_new r inst rt; q = overlay_request_of r in
      bindE (inspect_vm E (Lookup_Name (own_provider_object_name (cell_ownership r)))) (\<lambda>found. case found of
        Some vm \<Rightarrow> fail_record E r (EE_OwnershipNotProven (''VM name collision with provider id '' @ vm_id vm))
      | None \<Rightarrow>
      bindE (or_fail E r (validate_path_identity E (bnd_path (cell_image r)))) (\<lambda>_.
      bindE (or_fail E r (provider_call (Call_CreateOverlay auth q)
        (pv_create_overlay (en_provider E) auth q))) (\<lambda>overlay.
      bindE (or_fail E r (validate_path_identity E (bnd_path (cell_image r)))) (\<lambda>_.
      bindE (or_fail E r (liftR (validate_overlay (fe_host E) r overlay))) (\<lambda>_.
      persist E r (cell_state r) Phase_OverlayCreated))))))"

definition create_vm_step ::
  "('p, 'y) engine_env_scheme \<Rightarrow> installation_authority \<Rightarrow> cell_runtime_guard \<Rightarrow> cell_record
    \<Rightarrow> (('p, 'z) engine_world_scheme, engine_error, cell_record) eff" where
  "create_vm_step E inst rt r =
     (let auth = provider_authority_new r inst rt; q = create_request_of r in
      bindE (or_fail E r (provider_call (Call_CreateVm auth q) (pv_create_vm (en_provider E) auth q))) (\<lambda>i.
      bindE (or_fail E r (liftR (normalize_provider_identity (env_crates E) r i))) (\<lambda>i.
      persist E (r\<lparr>cell_provider_object := Some \<lparr>poi_id = vi_id i, poi_name = vi_name i\<rparr>\<rparr>)
        (cell_state r) Phase_ProviderObjectCreated)))"

definition claim_vm_step ::
  "('p, 'y) engine_env_scheme \<Rightarrow> installation_authority \<Rightarrow> cell_runtime_guard \<Rightarrow> cell_record
    \<Rightarrow> (('p, 'z) engine_world_scheme, engine_error, cell_record \<times> provider_vm) eff" where
  "claim_vm_step E inst rt r =
     (let auth = provider_authority_new r inst rt in
      bindE (inspect_vm E (Lookup_Id (case cell_provider_object r of Some i \<Rightarrow> poi_id i | None \<Rightarrow> []))) (\<lambda>found.
        case found of
          None \<Rightarrow> fail_record E r (EE_ProviderDrift ''new provider object disappeared after its id was persisted'')
        | Some vm \<Rightarrow>
      bindE (or_fail E r (liftR (prove_creation_identity (fe_host E) r vm False))) (\<lambda>_.
      if vm_power_state vm \<noteq> Power_Off then fail_record E r (EE_UnexpectedPowerState (vm_power_state vm))
      else
        let q = \<lparr>cl_expected = vm, cl_ownership_marker = own_provider_marker (cell_ownership r)\<rparr> in
      bindE (or_fail E r (provider_call (Call_ClaimVm auth q) (pv_claim_vm (en_provider E) auth q))) (\<lambda>claimed.
      bindE (or_fail E r (liftR (prove_creation_identity (fe_host E) r claimed True))) (\<lambda>_.
      bindE (persist E r (cell_state r) Phase_ProviderObjectClaimed) (\<lambda>r. ret (r, claimed)))))))"

definition configure_vm_step ::
  "('p, 'y) engine_env_scheme \<Rightarrow> installation_authority \<Rightarrow> cell_runtime_guard \<Rightarrow> cell_record \<Rightarrow> provider_vm
    \<Rightarrow> (('p, 'z) engine_world_scheme, engine_error, cell_record) eff" where
  "configure_vm_step E inst rt r claimed =
     (let auth = provider_authority_new r inst rt;
          q = \<lparr>cf_expected = claimed, cf_cpu_count = spec_cpu_count (cell_spec r)\<rparr> in
      bindE (or_fail E r (provider_call (Call_ConfigureVm auth q) (pv_configure_vm (en_provider E) auth q))) (\<lambda>vm.
      bindE (or_fail E r (liftR (prove_ownership (fe_host E) r vm))) (\<lambda>_.
      persist E r Cell_Stopped Phase_Ready)))"

definition provision_cell ::
  "('p, 'y) engine_env_scheme \<Rightarrow> installation_authority \<Rightarrow> cell_record
    \<Rightarrow> (('p, 'z) engine_world_scheme, engine_error, cell_record) eff" where
  "provision_cell E inst r =
     bindE (save_cell E r) (\<lambda>_.
     bindE (or_fail E r (stE (prepare_cell_runtime_for_with_mutation E (cell_record.cell_id r)
       (own_configuration_path (cell_ownership r)) (own_overlay_path (cell_ownership r))))) (\<lambda>rt.
     bindE (create_overlay_step E inst rt r) (\<lambda>r.
     bindE (create_vm_step E inst rt r) (\<lambda>r.
     bindE (claim_vm_step E inst rt r) (\<lambda>(r, claimed).
     configure_vm_step E inst rt r claimed)))))"

definition create_cell_with_id ::
  "('p, 'y) engine_env_scheme \<Rightarrow> cell_spec \<Rightarrow> cell_id \<Rightarrow> job_correlation option
    \<Rightarrow> (('p, 'z) engine_world_scheme, engine_error, cell_record) eff" where
  "create_cell_with_id E spec c job =
     bindE (require_provider_available E) (\<lambda>_.
     bindE (liftR (validate_cell_spec spec (provider_name E))) (\<lambda>_.
     with_lock E (
     bindE (stE (load_image E (spec_image spec))) (\<lambda>img.
     bindE (liftR (provider_variant img (provider_name E))) (\<lambda>v.
     bindE (verify_registered_image E v) (\<lambda>_.
     bindE (stE (installation_with_mutation E)) (\<lambda>installation.
     bindE (stE (acquire_installation_authority E)) (\<lambda>inst.
     if ins_install_id installation \<noteq> inst_install_id inst
     then throw (EE_OwnershipNotProven ''installation identity changed while creating a cell'')
     else
     bindE (utc_now E) (\<lambda>now.
     bindE (new_uuid E) (\<lambda>op.
     provision_cell E inst
       (new_cell_record E spec c job img v (ins_install_id installation) op now)))))))))))"

definition create_cell ::
  "('p, 'y) engine_env_scheme \<Rightarrow> cell_spec \<Rightarrow> (('p, 'z) engine_world_scheme, engine_error, cell_record) eff" where
  "create_cell E spec = bindE (new_uuid E) (\<lambda>u. create_cell_with_id E spec (CellId u) None)"

subsection \<open>Starting and stopping\<close>

record operation_report =
  or_schema_version :: u32
  or_cell_id :: cell_id
  or_state :: cell_state
  or_changed :: bool

definition operation_report_of :: "cell_record \<Rightarrow> bool \<Rightarrow> operation_report" where
  "operation_report_of r changed =
     \<lparr>or_schema_version = AUTOMATION_SCHEMA_VERSION, or_cell_id = cell_record.cell_id r,
      or_state = cell_state r, or_changed = changed\<rparr>"

definition bound_variant :: "cell_record \<Rightarrow> image_variant" where
  "bound_variant r =
     \<lparr>var_provider = bnd_provider (cell_image r), var_disk_format = bnd_disk_format (cell_image r),
      var_path = bnd_path (cell_image r), var_sha256 = bnd_sha256 (cell_image r),
      var_file_size = bnd_file_size (cell_image r)\<rparr>"

text \<open>Load and check the installation, and pin the runtime, for a mutation of an existing cell.\<close>

definition mutation_authority ::
  "('p, 'y) engine_env_scheme \<Rightarrow> cell_record
    \<Rightarrow> (('p, 'z) engine_world_scheme, engine_error, provider_mutation_authority) eff" where
  "mutation_authority E r =
     bindE (stE (acquire_installation_authority E)) (\<lambda>inst.
     bindE (liftR (validate_local_ownership_against E r inst)) (\<lambda>_.
     bindE (stE (pin_cell_runtime_for E (cell_record.cell_id r)
       (own_configuration_path (cell_ownership r)) (own_overlay_path (cell_ownership r)))) (\<lambda>rt.
     ret (provider_authority_new r inst rt))))"

definition start_owned ::
  "('p, 'y) engine_env_scheme \<Rightarrow> cell_record \<Rightarrow> provider_vm
    \<Rightarrow> (('p, 'z) engine_world_scheme, engine_error, operation_report) eff" where
  "start_owned E r prior =
     bindE (if cell_provider r = ''qemu'' then bindE (verify_registered_image E (bound_variant r)) (\<lambda>_. ret ())
       else ret ()) (\<lambda>_.
     bindE (mutation_authority E r) (\<lambda>auth.
     bindE (provider_call (Call_StartVm auth prior) (pv_start_vm (en_provider E) auth prior)) (\<lambda>_.
     bindE (exact_owned_vm E r) (\<lambda>after.
     if vm_power_state after \<noteq> Power_Running then throw (EE_UnexpectedPowerState (vm_power_state after))
     else bindE (persist E r Cell_Running Phase_Ready) (\<lambda>r. ret (operation_report_of r True))))))"

definition start_cell ::
  "('p, 'y) engine_env_scheme \<Rightarrow> cell_id \<Rightarrow> (('p, 'z) engine_world_scheme, engine_error, operation_report) eff" where
  "start_cell E c =
     bindE (liftR (require_provider E)) (\<lambda>_. with_lock E (
     bindE (stE (load_cell E c)) (\<lambda>r.
     bindE (liftR (require_lifecycle_state r ''start'' [Cell_Stopped, Cell_Running])) (\<lambda>_.
     bindE (exact_owned_vm E r) (\<lambda>prior.
     if vm_power_state prior = Power_Running then
       bindE (persist E r Cell_Running Phase_Ready) (\<lambda>r'.
         ret (operation_report_of r' (cell_state r \<noteq> Cell_Running)))
     else if vm_power_state prior = Power_Off \<and> cell_state r \<noteq> Cell_Destroyed then start_owned E r prior
     else if vm_power_state prior = Power_Paused \<and> cell_provider r = ''qemu'' \<and> cell_state r \<noteq> Cell_Destroyed
     then start_owned E r prior
     else throw (EE_UnexpectedPowerState (vm_power_state prior)))))))"

definition stop_cell ::
  "('p, 'y) engine_env_scheme \<Rightarrow> cell_id \<Rightarrow> (('p, 'z) engine_world_scheme, engine_error, operation_report) eff" where
  "stop_cell E c =
     bindE (liftR (require_provider E)) (\<lambda>_. with_lock E (
     bindE (stE (load_cell E c)) (\<lambda>r.
     bindE (liftR (require_lifecycle_state r ''stop'' [Cell_Stopped, Cell_Running])) (\<lambda>_.
     bindE (exact_owned_vm E r) (\<lambda>prior.
     if vm_power_state prior = Power_Off then
       bindE (persist E r Cell_Stopped Phase_Ready) (\<lambda>r'.
         ret (operation_report_of r' (cell_state r \<noteq> Cell_Stopped)))
     else if vm_power_state prior = Power_Running then
       bindE (mutation_authority E r) (\<lambda>auth.
       bindE (provider_call (Call_StopVm auth prior) (pv_stop_vm (en_provider E) auth prior)) (\<lambda>_.
       bindE (exact_owned_vm E r) (\<lambda>after.
       if vm_power_state after \<noteq> Power_Off then throw (EE_UnexpectedPowerState (vm_power_state after))
       else bindE (persist E r Cell_Stopped Phase_Ready) (\<lambda>r. ret (operation_report_of r True)))))
     else throw (EE_UnexpectedPowerState (vm_power_state prior)))))))"

subsection \<open>Destroying\<close>

text \<open>The phase-specific proof of \<open>destroy_cell_locked\<close>: the record (claimed first, when the crash came
  between creating and claiming), the machine, and whether it was still being provisioned.\<close>

definition destroy_proof ::
  "('p, 'y) engine_env_scheme \<Rightarrow> installation_authority \<Rightarrow> cell_runtime_guard \<Rightarrow> cell_record \<Rightarrow> provider_vm
    \<Rightarrow> (('p, 'z) engine_world_scheme, engine_error, cell_record \<times> provider_vm \<times> bool) eff" where
  "destroy_proof E inst rt r vm =
     (let H = fe_host E; auth = provider_authority_new r inst rt in
      if cell_phase r = Phase_ProviderObjectCreated then
        bindE (liftR (prove_creation_identity H r vm False)) (\<lambda>_.
        let q = \<lparr>cl_expected = vm, cl_ownership_marker = own_provider_marker (cell_ownership r)\<rparr> in
        bindE (provider_call (Call_ClaimVm auth q) (pv_claim_vm (en_provider E) auth q)) (\<lambda>claimed.
        bindE (liftR (prove_creation_identity H r claimed True)) (\<lambda>_.
        bindE (persist E r (cell_state r) Phase_ProviderObjectClaimed) (\<lambda>r. ret (r, claimed, True)))))
      else if cell_phase r = Phase_ProviderObjectClaimed then
        bindE (liftR (prove_creation_identity H r vm True)) (\<lambda>_. ret (r, vm, True))
      else if cell_phase r = Phase_DestroyingProvisioning then
        bindE (liftR (prove_destroy_identity H r vm)) (\<lambda>_. ret (r, vm, True))
      else if cell_phase r = Phase_Ready \<or> cell_phase r = Phase_Destroying then
        bindE (liftR (prove_ownership H r vm)) (\<lambda>_. ret (r, vm, False))
      else throw (EE_OwnershipNotProven
        (''provider id is incompatible with persisted phase '' @ cell_phase_debug (cell_phase r))))"

definition stop_for_destroy ::
  "('p, 'y) engine_env_scheme \<Rightarrow> installation_authority \<Rightarrow> cell_runtime_guard \<Rightarrow> cell_record \<Rightarrow> provider_vm
    \<Rightarrow> (('p, 'z) engine_world_scheme, engine_error, provider_vm) eff" where
  "stop_for_destroy E inst rt r vm =
     (if vm_power_state vm = Power_Off then ret vm
      else
      let auth = provider_authority_new r inst rt in
      bindE (liftR (validate_local_ownership_against E r inst)) (\<lambda>_.
      bindE (provider_call (Call_StopVm auth vm) (pv_stop_vm (en_provider E) auth vm)) (\<lambda>_.
      bindE (inspect_vm E (Lookup_Id (vm_id vm))) (\<lambda>found.
      bindE (liftR (ok_or found (EE_ProviderDrift ''provider object disappeared while stopping''))) (\<lambda>vm.
      bindE (liftR (prove_destroy_identity (fe_host E) r vm)) (\<lambda>_.
      if vm_power_state vm \<noteq> Power_Off then throw (EE_UnexpectedPowerState (vm_power_state vm))
      else ret vm))))))"

definition remove_owned ::
  "('p, 'y) engine_env_scheme \<Rightarrow> installation_authority \<Rightarrow> cell_runtime_guard \<Rightarrow> cell_record \<Rightarrow> provider_vm
    \<Rightarrow> (('p, 'z) engine_world_scheme, engine_error, unit) eff" where
  "remove_owned E inst rt r vm =
     (let auth = provider_authority_new r inst rt in
      bindE (liftR (validate_local_ownership_against E r inst)) (\<lambda>_.
      bindE (liftR (prove_destroy_identity (fe_host E) r vm)) (\<lambda>_.
      bindE (provider_call (Call_RemoveVm auth vm) (pv_remove_vm (en_provider E) auth vm)) (\<lambda>_.
      bindE (inspect_vm E (Lookup_Id (vm_id vm))) (\<lambda>by_id.
      if by_id \<noteq> None then throw (EE_ProviderDrift ''provider object still exists after remove'')
      else
      bindE (inspect_vm E (Lookup_Name (own_provider_object_name (cell_ownership r)))) (\<lambda>by_name.
      if by_name \<noteq> None
      then throw (EE_OwnershipNotProven ''provider name became occupied after removing the recorded id'')
      else
      bindE (liftR (validate_local_ownership_against E r inst)) (\<lambda>_.
      stE (remove_cell_runtime_with_mutation E (cell_record.cell_id r) rt))))))))"

definition destroy_present ::
  "('p, 'y) engine_env_scheme \<Rightarrow> installation_authority \<Rightarrow> cell_record \<Rightarrow> provider_vm
    \<Rightarrow> (('p, 'z) engine_world_scheme, engine_error, cell_record) eff" where
  "destroy_present E inst r vm =
     bindE (stE (pin_cell_runtime_for E (cell_record.cell_id r)
       (own_configuration_path (cell_ownership r)) (own_overlay_path (cell_ownership r)))) (\<lambda>rt.
     bindE (destroy_proof E inst rt r vm) (\<lambda>(r, vm, provisioning).
     bindE (persist E r Cell_Destroying
       (if provisioning then Phase_DestroyingProvisioning else Phase_Destroying)) (\<lambda>r.
     bindE (stop_for_destroy E inst rt r vm) (\<lambda>vm.
     bindE (remove_owned E inst rt r vm) (\<lambda>_. ret r)))))"

definition destroy_absent ::
  "('p, 'y) engine_env_scheme \<Rightarrow> installation_authority \<Rightarrow> cell_record
    \<Rightarrow> (('p, 'z) engine_world_scheme, engine_error, cell_record) eff" where
  "destroy_absent E inst r =
     bindE (inspect_vm E (Lookup_Name (own_provider_object_name (cell_ownership r)))) (\<lambda>by_name.
     if by_name \<noteq> None
     then throw (EE_OwnershipNotProven ''recorded provider id is absent but the name is occupied'')
     else
     bindE (stE (runtime_entry_exists E (cell_record.cell_id r))) (\<lambda>present.
     if \<not> present then ret r
     else
     bindE (stE (pin_cell_runtime_for E (cell_record.cell_id r)
       (own_configuration_path (cell_ownership r)) (own_overlay_path (cell_ownership r)))) (\<lambda>rt.
     bindE (liftR (validate_local_ownership_against E r inst)) (\<lambda>_.
     bindE (stE (remove_cell_runtime_with_mutation E (cell_record.cell_id r) rt)) (\<lambda>_.
     ret r)))))"

definition destroy_unrecorded ::
  "('p, 'y) engine_env_scheme \<Rightarrow> cell_record \<Rightarrow> (('p, 'z) engine_world_scheme, engine_error, 'a) eff" where
  "destroy_unrecorded E r =
     bindE (inspect_vm E (Lookup_Name (own_provider_object_name (cell_ownership r)))) (\<lambda>by_name.
     case by_name of
       Some vm \<Rightarrow> throw (EE_OwnershipNotProven
         (''provider object '' @ vm_id vm @ '' exists but its id was never recorded''))
     | None \<Rightarrow> throw (EE_OwnershipNotProven
         ''provider id was never durably recorded; pre-id runtime remains quarantined''))"

definition destroy_tombstone ::
  "('p, 'y) engine_env_scheme \<Rightarrow> cell_record \<Rightarrow> (('p, 'z) engine_world_scheme, engine_error, operation_report) eff" where
  "destroy_tombstone E r =
     bindE (reconcile_record E r) (\<lambda>(_, status).
       if status = RS_Destroyed then ret (operation_report_of r False)
       else throw (EE_ProviderDrift (''destroyed tombstone does not reconcile: '' @ en_status_text E status)))"

definition destroy_cell_locked ::
  "('p, 'y) engine_env_scheme \<Rightarrow> cell_id \<Rightarrow> (('p, 'z) engine_world_scheme, engine_error, operation_report) eff" where
  "destroy_cell_locked E c =
     bindE (stE (load_cell E c)) (\<lambda>r.
     if cell_state r = Cell_Destroyed then destroy_tombstone E r
     else
     bindE (stE (acquire_installation_authority E)) (\<lambda>inst.
     bindE (liftR (validate_local_ownership_against E r inst)) (\<lambda>_.
     case cell_provider_object r of
       None \<Rightarrow> destroy_unrecorded E r
     | Some i \<Rightarrow>
     bindE (inspect_vm E (Lookup_Id (poi_id i))) (\<lambda>found.
     bindE (case found of Some vm \<Rightarrow> destroy_present E inst r vm | None \<Rightarrow> destroy_absent E inst r) (\<lambda>r.
     bindE (liftR (validate_local_ownership_against E r inst)) (\<lambda>_.
     bindE (persist E r Cell_Destroyed Phase_Destroyed) (\<lambda>r.
     ret (operation_report_of r True))))))))"

definition destroy_cell ::
  "('p, 'y) engine_env_scheme \<Rightarrow> cell_id \<Rightarrow> (('p, 'z) engine_world_scheme, engine_error, operation_report) eff" where
  "destroy_cell E c = bindE (liftR (require_provider E)) (\<lambda>_. with_lock E (destroy_cell_locked E c))"

definition in_flight :: "guest_operation_record list \<Rightarrow> cell_id \<Rightarrow> bool" where
  "in_flight ops c = list_ex (\<lambda>op. op_cell_id op = c \<and> \<not> is_terminal (op_phase op)) ops"

definition destroy_cell_for_run ::
  "('p, 'y) engine_env_scheme \<Rightarrow> cell_id \<Rightarrow> (('p, 'z) engine_world_scheme, engine_error, operation_report) eff" where
  "destroy_cell_for_run E c =
     bindE (liftR (require_provider E)) (\<lambda>_. with_lock E (
     bindE (stE (list_guest_operations E)) (\<lambda>ops.
     if in_flight ops c
     then throw (EE_Integrity ''automatic run cleanup is blocked by a nonterminal guest operation'')
     else destroy_cell_locked E c)))"

subsection \<open>Garbage collection\<close>

datatype gc_disposition =
  Gc_NoTtl | Gc_NotExpired | Gc_InFlightGuestOperation | Gc_Destroyed | Gc_AlreadyDestroyed
| Gc_OwnershipMismatch | Gc_Failed

record gc_entry =
  gc_cell_id :: cell_id
  gc_expires_at :: "time option"
  gc_entry_disposition :: gc_disposition

record gc_report =
  gc_schema_version :: u32
  gc_evaluated_at :: time
  gc_entries :: "gc_entry list"

definition gc_disposition_of :: "engine_error + operation_report \<Rightarrow> gc_disposition" where
  "gc_disposition_of res = (case res of
      Inr report \<Rightarrow> if or_changed report then Gc_Destroyed else Gc_AlreadyDestroyed
    | Inl (EE_OwnershipNotProven _) \<Rightarrow> Gc_OwnershipMismatch
    | Inl (EE_ProviderDrift _) \<Rightarrow> Gc_OwnershipMismatch
    | Inl (EE_UnexpectedPowerState _) \<Rightarrow> Gc_OwnershipMismatch
    | Inl _ \<Rightarrow> Gc_Failed)"

definition gc_cell ::
  "('p, 'y) engine_env_scheme \<Rightarrow> time \<Rightarrow> guest_operation_record list \<Rightarrow> cell_record
    \<Rightarrow> (('p, 'z) engine_world_scheme, engine_error, gc_disposition) eff" where
  "gc_cell E evaluated_at ops r = (case cell_expires_at r of
      None \<Rightarrow> ret Gc_NoTtl
    | Some expires_at \<Rightarrow>
        if evaluated_at < expires_at then ret Gc_NotExpired
        else if in_flight ops (cell_record.cell_id r) then ret Gc_InFlightGuestOperation
        else bindE (attempt (destroy_cell_locked E (cell_record.cell_id r))) (\<lambda>res. ret (gc_disposition_of res)))"

fun gc_cells ::
  "('p, 'y) engine_env_scheme \<Rightarrow> time \<Rightarrow> guest_operation_record list \<Rightarrow> cell_record list
    \<Rightarrow> (('p, 'z) engine_world_scheme, engine_error, gc_entry list) eff" where
  "gc_cells E t ops [] = ret []"
| "gc_cells E t ops (r # rs) =
     (if cell_provider r \<noteq> provider_name E then gc_cells E t ops rs
      else bindE (gc_cell E t ops r) (\<lambda>d. bindE (gc_cells E t ops rs) (\<lambda>es.
        ret (\<lparr>gc_cell_id = cell_record.cell_id r, gc_expires_at = cell_expires_at r,
          gc_entry_disposition = d\<rparr> # es))))"

definition gc_expired_at ::
  "('p, 'y) engine_env_scheme \<Rightarrow> time \<Rightarrow> (('p, 'z) engine_world_scheme, engine_error, gc_report) eff" where
  "gc_expired_at E evaluated_at =
     bindE (liftR (require_provider E)) (\<lambda>_. with_lock E (
     bindE (stE (list_guest_operations E)) (\<lambda>ops.
     bindE (stE (list_cells E)) (\<lambda>cells.
     bindE (gc_cells E evaluated_at ops cells) (\<lambda>entries.
     ret \<lparr>gc_schema_version = AUTOMATION_SCHEMA_VERSION, gc_evaluated_at = evaluated_at,
       gc_entries = entries\<rparr>)))))"

end
