(* ===== verification/GuestOps.thy ===== *)
theory GuestOps
  imports Engine GuestIo ArtifactStore "HOL-Library.Char_ord" "HOL-Library.List_Lexorder" "HOL-Library.Product_Lexorder"
begin

section \<open>Guest operations\<close>

text \<open>
  The engine's operations inside a running cell: executing a command, copying in, collecting artifacts, pruning
  them and recovering interrupted operations.  The world is extended with the transport's own state
  and a ghost trace of its calls, each with the durable store at that moment; the environment with the transport, the
  monotonic clock of \<open>wait_for_guest_ready\<close>, the content of host files to copy, whether the pinned guards still hold, and
  the answers of the observer of a run.
  \<open>en_polls\<close> bounds the polls of the readiness loop: the clock is taken to have passed the deadline after that many.
  The closure \<open>on_recorded\<close> of every caller is \<open>note_recorded\<close>: it assigns the operation's id to a variable of the caller.
\<close>

subsection \<open>Environment and world\<close>

datatype guest_call =
  Guest_Probe guest_action_authority provider_vm
| Guest_Exec guest_action_authority provider_vm guest_command
| Guest_CopyIn guest_action_authority provider_vm guest_copy_in_action
| Guest_CopyOut guest_action_authority provider_vm guest_copy_out_action

record ('p, 'g) guest_env = "'p engine_env" +
  en_transport :: "'g guest_transport"
  en_instant :: "nat \<Rightarrow> nat"
  en_polls :: nat
  en_guards :: "nat \<Rightarrow> guard_status"
  en_canonical :: "nat \<Rightarrow> path \<Rightarrow> path option"
  en_copy_source :: "nat \<Rightarrow> path \<Rightarrow> engine_error + string"
  en_observe :: "nat \<Rightarrow> run_progress_event \<Rightarrow> run_control"

record ('p, 'g) guest_world = "'p engine_world" +
  gw_guest :: 'g
  gw_calls :: "(guest_call \<times> store) list"

definition guest_call ::
  "guest_call \<Rightarrow> ('g, guest_io_error, 'a) eff \<Rightarrow> (('p, 'g, 'z) guest_world_scheme, engine_error, 'a) eff" where
  "guest_call c m = (\<lambda>w. case m (gw_guest w) of (r, g) \<Rightarrow>
     (res_map_err EE_Guest r, w\<lparr>gw_guest := g, gw_calls := (c, w_store w) # gw_calls w\<rparr>))"

definition save_operation ::
  "('p, 'y) engine_env_scheme \<Rightarrow> guest_operation_record \<Rightarrow> (('p, 'z) engine_world_scheme, engine_error, unit) eff" where
  "save_operation E op = stE (save_guest_operation_with_mutation E op)"

subsection \<open>Requests\<close>

definition validate_readiness_policy :: "readiness_policy \<Rightarrow> engine_error + unit" where
  "validate_readiness_policy p =
     (if rd_timeout p = 0 \<or> duration_from_secs MAX_ACTION_TIMEOUT_SECONDS < rd_timeout p
        \<or> rd_timeout p < rd_poll_interval p
      then Inl (EE_InvalidCellRequest ''readiness timeout/poll interval is outside the supported bounds'')
      else Inr ())"

definition validate_guest_timeout_and_size :: "duration \<Rightarrow> u64 \<Rightarrow> engine_error + unit" where
  "validate_guest_timeout_and_size timeout max_bytes =
     (if timeout = 0 \<or> duration_from_secs MAX_ACTION_TIMEOUT_SECONDS < timeout
      then Inl (EE_InvalidCellRequest ''guest copy timeout is outside the supported bounds'')
      else if max_bytes = 0 \<or> MAX_COPY_BYTES < max_bytes
      then Inl (EE_InvalidCellRequest (''guest copy size must be between 1 and ''
        @ dec_digits (unat MAX_COPY_BYTES) @ '' bytes''))
      else Inr ())"

definition validate_guest_command_result :: "guest_command \<Rightarrow> guest_command_result \<Rightarrow> engine_error + unit" where
  "validate_guest_command_result c r =
     (let stdout_bytes = word_of_nat (length (gr_stdout r)); stderr_bytes = word_of_nat (length (gr_stderr r)) in
      if gr_encoding r \<noteq> ''utf-8'' \<or> gr_stdout_bytes r \<noteq> stdout_bytes \<or> gr_stderr_bytes r \<noteq> stderr_bytes
        \<or> gcmd_max_output_bytes c < saturating_add stdout_bytes stderr_bytes \<or> gr_truncated r
      then Inl (EE_Guest GE_InvalidResponse) else Inr ())"

subsection \<open>Waiting for the guest\<close>

definition not_ready_error :: "guest_readiness \<Rightarrow> guest_io_error" where
  "not_ready_error latest = (case latest of
      GR_AuthenticationFailed \<Rightarrow> GE_AuthenticationFailed | GR_SessionFailed \<Rightarrow> GE_SessionFailed | _ \<Rightarrow> GE_GuestNotReady)"

fun wait_loop ::
  "nat \<Rightarrow> ('p, 'g, 'y) guest_env_scheme \<Rightarrow> guest_action_authority \<Rightarrow> provider_vm \<Rightarrow> guest_credentials
    \<Rightarrow> nat \<Rightarrow> guest_readiness \<Rightarrow> (('p, 'g, 'z) guest_world_scheme, engine_error, unit) eff" where
  "wait_loop 0 E a vm cr deadline latest = throw (EE_Guest (not_ready_error latest))"
| "wait_loop (Suc polls) E a vm cr deadline latest = bindE next_tick (\<lambda>n.
     let remaining = deadline - en_instant E n in
     if remaining = 0 then throw (EE_Guest (not_ready_error latest))
     else bindE (guest_call (Guest_Probe a vm)
       (gt_probe_ready (en_transport E) a vm cr (min remaining (duration_from_secs 15)))) (\<lambda>status.
       case status of
         GR_Ready \<Rightarrow> ret ()
       | GR_AuthenticationFailed \<Rightarrow> throw (EE_Guest GE_AuthenticationFailed)
       | _ \<Rightarrow> wait_loop polls E a vm cr deadline status))"

definition wait_for_guest_ready ::
  "('p, 'g, 'y) guest_env_scheme \<Rightarrow> guest_action_authority \<Rightarrow> provider_vm \<Rightarrow> guest_credentials \<Rightarrow> readiness_policy
    \<Rightarrow> (('p, 'g, 'z) guest_world_scheme, engine_error, unit) eff" where
  "wait_for_guest_ready E a vm cr policy =
     bindE (mapE (\<lambda>_. EE_Guest (GE_InvalidRequest ''readiness policy is outside the supported bounds''))
       (liftR (validate_readiness_policy policy))) (\<lambda>_.
     bindE next_tick (\<lambda>n.
     wait_loop (en_polls E) E a vm cr (en_instant E n + rd_timeout policy) GR_GuestNotReady))"

subsection \<open>The operation around an action\<close>

record guest_operation_plan =
  gp_kind :: guest_operation_kind
  gp_readiness :: readiness_policy

record guest_operation_dispatch =
  gd_cell_id :: cell_id
  gd_job_id :: "job_id option"
  gd_plan :: guest_operation_plan

record guest_completion =
  gx_exit_code :: "i32 option"
  gx_stdout_bytes :: "u64 option"
  gx_stderr_bytes :: "u64 option"
  gx_artifact_id :: "guest_operation_id option"

definition guest_completion_default :: guest_completion where
  "guest_completion_default =
     \<lparr>gx_exit_code = None, gx_stdout_bytes = None, gx_stderr_bytes = None, gx_artifact_id = None\<rparr>"

definition guest_authority_step ::
  "('p, 'g, 'y) guest_env_scheme \<Rightarrow> cell_record \<Rightarrow> provider_vm
    \<Rightarrow> (('p, 'g, 'z) guest_world_scheme, engine_error, guest_action_authority) eff" where
  "guest_authority_step E r expected =
     bindE (stE (acquire_installation_authority E)) (\<lambda>inst.
     bindE (liftR (validate_local_ownership_against E r inst)) (\<lambda>_.
     bindE (stE (pin_cell_runtime_for E (cell_record.cell_id r)
       (own_configuration_path (cell_ownership r)) (own_overlay_path (cell_ownership r)))) (\<lambda>rt.
     bindE next_tick (\<lambda>n.
     mapE EE_Guest (liftR (guest_authority_new (en_guards E n) r expected inst rt))))))"

definition finish_completed ::
  "('p, 'y) engine_env_scheme \<Rightarrow> guest_operation_record \<Rightarrow> guest_completion
    \<Rightarrow> (('p, 'z) engine_world_scheme, engine_error, unit) eff" where
  "finish_completed E op c = bindE (utc_now E) (\<lambda>t.
     let op1 = op\<lparr>op_phase := (if gx_artifact_id c \<noteq> None then Op_ArtifactCommitted else Op_Completed),
           op_updated_at := t, op_exit_code := gx_exit_code c, op_stdout_bytes := gx_stdout_bytes c,
           op_stderr_bytes := gx_stderr_bytes c, op_artifact_id := gx_artifact_id c\<rparr> in
     if op_phase op1 = Op_ArtifactCommitted then
       bindE (save_operation E op1) (\<lambda>_. bindE (utc_now E) (\<lambda>t2.
         save_operation E (op1\<lparr>op_phase := Op_Completed, op_updated_at := t2, op_completed_at := Some t2\<rparr>)))
     else save_operation E (op1\<lparr>op_completed_at := Some t\<rparr>))"

definition finish_failed ::
  "('p, 'y) engine_env_scheme \<Rightarrow> guest_operation_record \<Rightarrow> engine_error
    \<Rightarrow> (('p, 'z) engine_world_scheme, engine_error, 'a) eff" where
  "finish_failed E op e = bindE (utc_now E) (\<lambda>t.
     case guest_failure_class_of e of (failure, terminal) \<Rightarrow>
     let op1 = op\<lparr>op_failure := Some failure, op_updated_at := t\<rparr>;
         op2 = (if terminal then op1\<lparr>op_phase := Op_Failed, op_completed_at := Some t\<rparr> else op1) in
     bindE (save_operation E op2) (\<lambda>_. throw e))"

text \<open>What happens once the intent is durable.  The phase is set before the write of \<open>TransportActive\<close>, so a failure
  of that write already concerns an active operation.\<close>

definition perform_operation ::
  "('p, 'g, 'y) guest_env_scheme \<Rightarrow> guest_credentials \<Rightarrow> readiness_policy \<Rightarrow> cell_record \<Rightarrow> provider_vm
    \<Rightarrow> guest_operation_record
    \<Rightarrow> (guest_action_authority \<Rightarrow> provider_vm \<Rightarrow> guest_operation_id
        \<Rightarrow> (('p, 'g, 'z) guest_world_scheme, engine_error, 'a \<times> guest_completion) eff)
    \<Rightarrow> (('p, 'g, 'z) guest_world_scheme, engine_error, 'a) eff" where
  "perform_operation E cr readiness r expected op action =
     bindE (attempt (guest_authority_step E r expected)) (\<lambda>prepared. case prepared of
       Inl e \<Rightarrow> finish_failed E op e
     | Inr a \<Rightarrow> bindE (utc_now E) (\<lambda>t.
         let active = op\<lparr>op_phase := Op_TransportActive, op_updated_at := t\<rparr> in
         bindE (attempt (
           bindE (save_operation E active) (\<lambda>_.
           bindE (wait_for_guest_ready E a expected cr readiness) (\<lambda>_.
           action a expected (op_id op))))) (\<lambda>execution. case execution of
             Inl e \<Rightarrow> finish_failed E active e
           | Inr (v, completion) \<Rightarrow> bindE (finish_completed E active completion) (\<lambda>_. ret v))))"

definition note_recorded :: "guest_operation_id \<Rightarrow> (('p, 'z) engine_world_scheme, engine_error, unit) eff" where
  "note_recorded i = modify (\<lambda>w. w\<lparr>ew_recorded := Some i\<rparr>)"

definition run_guest_operation ::
  "('p, 'g, 'y) guest_env_scheme \<Rightarrow> guest_credentials \<Rightarrow> guest_operation_dispatch
    \<Rightarrow> (guest_action_authority \<Rightarrow> provider_vm \<Rightarrow> guest_operation_id
        \<Rightarrow> (('p, 'g, 'z) guest_world_scheme, engine_error, 'a \<times> guest_completion) eff)
    \<Rightarrow> (('p, 'g, 'z) guest_world_scheme, engine_error, 'a) eff" where
  "run_guest_operation E cr d action =
     bindE (liftR (require_provider E)) (\<lambda>_. with_lock E (
     bindE (stE (load_cell E (gd_cell_id d))) (\<lambda>r.
     bindE (liftR (require_lifecycle_state r ''run a guest operation on'' [Cell_Running])) (\<lambda>_.
     if cell_phase r \<noteq> Phase_Ready then throw (EE_LifecycleConflict ''guest operations require a ready cell'')
     else
     bindE (stE (list_guest_operations E)) (\<lambda>ops.
     if in_flight ops (gd_cell_id d)
     then throw (EE_LifecycleConflict
       ''guest operations require all earlier operations to be terminal; reconcile the cell operation history first'')
     else
     bindE (liftR (ok_or (bnd_guest_os (cell_image r))
       (EE_Integrity ''guest operations require a cell with a persisted guest OS''))) (\<lambda>guest_os.
     if \<not> gt_supports (en_transport E) (cell_provider r) guest_os
     then throw (EE_InvalidCellRequest ''selected guest transport is incompatible with the provider/guest OS'')
     else
     bindE (exact_owned_vm E r) (\<lambda>expected.
     if vm_power_state expected \<noteq> Power_Running then throw (EE_UnexpectedPowerState (vm_power_state expected))
     else
     bindE (utc_now E) (\<lambda>now.
     bindE (new_uuid E) (\<lambda>u.
     let op = intent_with_job (GuestOperationId u) (gd_cell_id d) (gp_kind (gd_plan d)) now (gd_job_id d) in
     bindE (save_operation E op) (\<lambda>_.
     bindE (note_recorded (op_id op)) (\<lambda>_.
     perform_operation E cr (gp_readiness (gd_plan d)) r expected op action)))))))))))"


subsection \<open>Executing\<close>

record guest_exec_request =
  gxr_cell_id :: cell_id
  gxr_command :: guest_command
  gxr_readiness :: readiness_policy

record guest_exec_report =
  gxp_schema_version :: u32
  gxp_operation_id :: guest_operation_id
  gxp_cell_id :: cell_id
  gxp_result :: guest_command_result

definition exec_guest_with_ready_callback ::
  "('p, 'g, 'y) guest_env_scheme \<Rightarrow> guest_credentials \<Rightarrow> guest_exec_request \<Rightarrow> job_id option
    \<Rightarrow> (('p, 'g, 'z) guest_world_scheme, engine_error, unit) eff
    \<Rightarrow> (('p, 'g, 'z) guest_world_scheme, engine_error, guest_exec_report) eff" where
  "exec_guest_with_ready_callback E cr q job on_ready =
     bindE (mapE EE_Guest (liftR (guest_command_validate (gxr_command q)))) (\<lambda>_.
     bindE (liftR (validate_readiness_policy (gxr_readiness q))) (\<lambda>_.
     run_guest_operation E cr
       \<lparr>gd_cell_id = gxr_cell_id q, gd_job_id = job, gd_plan = \<lparr>gp_kind = Kind_Exec, gp_readiness = gxr_readiness q\<rparr>\<rparr>
       (\<lambda>a expected i.
         bindE on_ready (\<lambda>_.
         bindE (guest_call (Guest_Exec a expected (gxr_command q))
           (gt_exec (en_transport E) a expected cr (gxr_command q))) (\<lambda>result.
         bindE (liftR (validate_guest_command_result (gxr_command q) result)) (\<lambda>_.
         ret (\<lparr>gxp_schema_version = AUTOMATION_SCHEMA_VERSION, gxp_operation_id = i, gxp_cell_id = gxr_cell_id q,
               gxp_result = result\<rparr>,
           \<lparr>gx_exit_code = Some (gr_exit_code result), gx_stdout_bytes = Some (gr_stdout_bytes result),
            gx_stderr_bytes = Some (gr_stderr_bytes result), gx_artifact_id = None\<rparr>)))))))"

definition exec_guest ::
  "('p, 'g, 'y) guest_env_scheme \<Rightarrow> guest_credentials \<Rightarrow> guest_exec_request
    \<Rightarrow> (('p, 'g, 'z) guest_world_scheme, engine_error, guest_exec_report) eff" where
  "exec_guest E cr q = exec_guest_with_ready_callback E cr q None (ret ())"

subsection \<open>Copying in\<close>

record guest_copy_in_request =
  gci_cell_id :: cell_id
  gci_source :: path
  gci_destination :: guest_path
  gci_overwrite :: overwrite_policy
  gci_timeout :: duration
  gci_max_bytes :: u64
  gci_readiness :: readiness_policy

record job_copy_source_binding =
  jcb_root :: path
  jcb_sha256 :: string
  jcb_size :: u64

record guest_copy_in_report =
  gcp_schema_version :: u32
  gcp_operation_id :: guest_operation_id
  gcp_cell_id :: cell_id
  gcp_guest_path :: guest_path
  gcp_size :: u64
  gcp_overwrite :: overwrite_policy

text \<open>\<open>Path::starts_with\<close> compares components.\<close>

definition path_starts_with :: "path \<Rightarrow> path \<Rightarrow> bool" where
  "path_starts_with p base \<longleftrightarrow> take (length (components base)) (components p) = components base"

definition canonicalize ::
  "('p, 'g, 'y) guest_env_scheme \<Rightarrow> engine_error \<Rightarrow> path \<Rightarrow> (('p, 'g, 'z) guest_world_scheme, engine_error, path) eff" where
  "canonicalize E e p = bindE next_tick (\<lambda>n. liftR (ok_or (en_canonical E n p) e))"

text \<open>The bounds of \<open>read_ordinary_copy_source\<close>; which bytes the pinned file yields, or why it is refused, is the
  environment's answer.\<close>

definition read_ordinary_copy_source ::
  "('p, 'g, 'y) guest_env_scheme \<Rightarrow> path \<Rightarrow> u64 \<Rightarrow> (('p, 'g, 'z) guest_world_scheme, engine_error, string) eff" where
  "read_ordinary_copy_source E p max_bytes =
     (if max_bytes = 0 \<or> MAX_COPY_BYTES < max_bytes
      then throw (EE_InvalidCellRequest (''copy-in size must be between 1 and ''
        @ dec_digits (unat MAX_COPY_BYTES) @ '' bytes''))
      else bindE next_tick (\<lambda>n. bindE (liftR (en_copy_source E n p)) (\<lambda>bytes.
        if unat max_bytes < length bytes then throw (EE_Guest GE_PartialCopy) else ret bytes)))"

definition read_job_copy_source ::
  "('p, 'g, 'y) guest_env_scheme \<Rightarrow> path \<Rightarrow> path \<Rightarrow> u64 \<Rightarrow> string \<Rightarrow> u64
    \<Rightarrow> (('p, 'g, 'z) guest_world_scheme, engine_error, string) eff" where
  "read_job_copy_source E root source max_bytes expected_sha256 expected_size =
     bindE (canonicalize E (EE_Integrity ''job input root is no longer available'') root) (\<lambda>canonical_root.
     bindE (canonicalize E (EE_InvalidCellRequest ''job copy-in source is absent'') source) (\<lambda>current.
     if \<not> path_starts_with current canonical_root then throw (EE_Guest GE_PathViolation)
     else if \<not> paths_equal (fe_host E) current source then throw (EE_Guest GE_PartialCopy)
     else
     bindE (read_ordinary_copy_source E source max_bytes) (\<lambda>bytes.
     bindE (canonicalize E (EE_Guest GE_PartialCopy) source) (\<lambda>rechecked.
     if \<not> path_starts_with rechecked canonical_root \<or> \<not> paths_equal (fe_host E) rechecked source
     then throw (EE_Guest GE_PartialCopy)
     else if word_of_nat (length bytes) \<noteq> expected_size \<or> sha256_hex (env_crates E) bytes \<noteq> expected_sha256
     then throw (EE_Guest GE_PartialCopy)
     else ret bytes))))"

definition copy_into_guest_with_job ::
  "('p, 'g, 'y) guest_env_scheme \<Rightarrow> guest_credentials \<Rightarrow> guest_copy_in_request \<Rightarrow> job_copy_source_binding option
    \<Rightarrow> job_id option \<Rightarrow> (('p, 'g, 'z) guest_world_scheme, engine_error, guest_copy_in_report) eff" where
  "copy_into_guest_with_job E cr q source_binding job =
     bindE (liftR (validate_guest_timeout_and_size (gci_timeout q) (gci_max_bytes q))) (\<lambda>_.
     bindE (liftR (validate_readiness_policy (gci_readiness q))) (\<lambda>_.
     bindE (case source_binding of
         Some b \<Rightarrow> read_job_copy_source E (jcb_root b) (gci_source q) (gci_max_bytes q) (jcb_sha256 b) (jcb_size b)
       | None \<Rightarrow> read_ordinary_copy_source E (gci_source q) (gci_max_bytes q)) (\<lambda>content.
     run_guest_operation E cr
       \<lparr>gd_cell_id = gci_cell_id q, gd_job_id = job, gd_plan = \<lparr>gp_kind = Kind_CopyIn, gp_readiness = gci_readiness q\<rparr>\<rparr>
       (\<lambda>a expected i.
         let act = \<lparr>ci_operation_id = i, ci_destination = gci_destination q, ci_content = content,
               ci_overwrite = gci_overwrite q, ci_timeout = gci_timeout q\<rparr> in
         bindE (guest_call (Guest_CopyIn a expected act) (gt_copy_in (en_transport E) a expected cr act)) (\<lambda>_.
         ret (\<lparr>gcp_schema_version = AUTOMATION_SCHEMA_VERSION, gcp_operation_id = i, gcp_cell_id = gci_cell_id q,
               gcp_guest_path = gci_destination q, gcp_size = word_of_nat (length content),
               gcp_overwrite = gci_overwrite q\<rparr>, guest_completion_default))))))"

definition copy_into_guest ::
  "('p, 'g, 'y) guest_env_scheme \<Rightarrow> guest_credentials \<Rightarrow> guest_copy_in_request
    \<Rightarrow> (('p, 'g, 'z) guest_world_scheme, engine_error, guest_copy_in_report) eff" where
  "copy_into_guest E cr q = copy_into_guest_with_job E cr q None None"

subsection \<open>Collecting artifacts\<close>

record artifact_collect_request =
  acr_cell_id :: cell_id
  acr_sources :: "guest_path list"
  acr_timeout :: duration
  acr_max_bytes_per_file :: u64
  acr_readiness :: readiness_policy

record artifact_report =
  arp_schema_version :: u32
  arp_operation_id :: guest_operation_id
  arp_cell_id :: cell_id
  arp_artifact :: artifact_record

fun collect_files ::
  "('p, 'g, 'y) guest_env_scheme \<Rightarrow> guest_credentials \<Rightarrow> guest_action_authority \<Rightarrow> provider_vm \<Rightarrow> guest_operation_id
    \<Rightarrow> duration \<Rightarrow> u64 \<Rightarrow> artifact_guard \<Rightarrow> nat \<Rightarrow> guest_path list
    \<Rightarrow> (('p, 'g, 'z) guest_world_scheme, engine_error, artifact_entry list) eff" where
  "collect_files E cr a vm i timeout max_bytes g index [] = ret []"
| "collect_files E cr a vm i timeout max_bytes g index (source # sources) =
     (let act = \<lparr>cp_operation_id = i, cp_source = source, cp_max_bytes = max_bytes, cp_timeout = timeout\<rparr> in
      bindE (guest_call (Guest_CopyOut a vm act) (gt_copy_out (en_transport E) a vm cr act)) (\<lambda>bytes.
      if unat max_bytes < length bytes then throw (EE_Guest GE_InvalidResponse)
      else
      bindE (stE (write_artifact_file_with_mutation E g index bytes)) (\<lambda>relative.
      bindE (collect_files E cr a vm i timeout max_bytes g (Suc index) sources) (\<lambda>entries.
      ret (\<lparr>ent_guest_path = guest_path_str source, ent_host_relative_path = relative,
            ent_sha256 = sha256_hex (env_crates E) bytes, ent_size = word_of_nat (length bytes)\<rparr> # entries)))))"

definition collect_action ::
  "('p, 'g, 'y) guest_env_scheme \<Rightarrow> guest_credentials \<Rightarrow> artifact_collect_request \<Rightarrow> job_id option
    \<Rightarrow> guest_action_authority \<Rightarrow> provider_vm \<Rightarrow> guest_operation_id
    \<Rightarrow> (('p, 'g, 'z) guest_world_scheme, engine_error, artifact_report \<times> guest_completion) eff" where
  "collect_action E cr q job a expected i =
     bindE (stE (prepare_artifact_root_with_mutation E (acr_cell_id q) i)) (\<lambda>g.
     bindE (collect_files E cr a expected i (acr_timeout q) (acr_max_bytes_per_file q) g 0 (acr_sources q)) (\<lambda>entries.
     bindE (utc_now E) (\<lambda>now.
     let artifact = \<lparr>art_schema_version = artifact_schema_version_for_job job, art_id = i, art_cell_id = acr_cell_id q,
           art_created_at = now, art_entries = entries, art_job_id = job\<rparr> in
     bindE (stE (save_artifact_new_with_mutation E g artifact)) (\<lambda>_.
     ret (\<lparr>arp_schema_version = AUTOMATION_SCHEMA_VERSION, arp_operation_id = i, arp_cell_id = acr_cell_id q,
           arp_artifact = artifact\<rparr>, guest_completion_default\<lparr>gx_artifact_id := Some i\<rparr>)))))"

definition validate_collect_request :: "artifact_collect_request \<Rightarrow> engine_error + unit" where
  "validate_collect_request q =
     res_bind (validate_guest_timeout_and_size (acr_timeout q) (acr_max_bytes_per_file q)) (\<lambda>_.
     res_bind (validate_readiness_policy (acr_readiness q)) (\<lambda>_.
     res_bind (ensure (acr_sources q \<noteq> [] \<and> length (acr_sources q) \<le> MAX_ARTIFACT_FILES)
       (EE_InvalidCellRequest (''artifact collection requires between 1 and ''
         @ dec_digits MAX_ARTIFACT_FILES @ '' guest files''))) (\<lambda>_.
     res_bind (ok_or (checked_mul (acr_max_bytes_per_file q) (word_of_nat (length (acr_sources q))))
       (EE_InvalidCellRequest ''artifact collection size overflow'')) (\<lambda>maximum.
     ensure (maximum \<le> MAX_ARTIFACT_TOTAL_BYTES)
       (EE_InvalidCellRequest (''artifact collection maximum exceeds ''
         @ dec_digits (unat MAX_ARTIFACT_TOTAL_BYTES) @ '' bytes''))))))"

definition collect_artifacts_with_kind ::
  "('p, 'g, 'y) guest_env_scheme \<Rightarrow> guest_credentials \<Rightarrow> artifact_collect_request \<Rightarrow> guest_operation_kind
    \<Rightarrow> job_id option \<Rightarrow> (('p, 'g, 'z) guest_world_scheme, engine_error, artifact_report) eff" where
  "collect_artifacts_with_kind E cr q kind job =
     bindE (liftR (validate_collect_request q)) (\<lambda>_.
     run_guest_operation E cr
       \<lparr>gd_cell_id = acr_cell_id q, gd_job_id = job, gd_plan = \<lparr>gp_kind = kind, gp_readiness = acr_readiness q\<rparr>\<rparr>
       (collect_action E cr q job))"

definition collect_artifacts ::
  "('p, 'g, 'y) guest_env_scheme \<Rightarrow> guest_credentials \<Rightarrow> artifact_collect_request
    \<Rightarrow> (('p, 'g, 'z) guest_world_scheme, engine_error, artifact_report) eff" where
  "collect_artifacts E cr q = collect_artifacts_with_kind E cr q Kind_ArtifactCollect None"

record guest_copy_out_request =
  gco_cell_id :: cell_id
  gco_source :: guest_path
  gco_timeout :: duration
  gco_max_bytes :: u64
  gco_readiness :: readiness_policy

definition copy_out_of_guest ::
  "('p, 'g, 'y) guest_env_scheme \<Rightarrow> guest_credentials \<Rightarrow> guest_copy_out_request
    \<Rightarrow> (('p, 'g, 'z) guest_world_scheme, engine_error, artifact_report) eff" where
  "copy_out_of_guest E cr q = collect_artifacts_with_kind E cr
     \<lparr>acr_cell_id = gco_cell_id q, acr_sources = [gco_source q], acr_timeout = gco_timeout q,
      acr_max_bytes_per_file = gco_max_bytes q, acr_readiness = gco_readiness q\<rparr> Kind_CopyOut None"

subsection \<open>Inspecting\<close>

definition operations_of_cell ::
  "('p, 'y) engine_env_scheme \<Rightarrow> cell_id option
    \<Rightarrow> (('p, 'z) engine_world_scheme, engine_error, guest_operation_record list) eff" where
  "operations_of_cell E c = bindE (stE (list_guest_operations E)) (\<lambda>ops.
     ret (case c of None \<Rightarrow> ops | Some c \<Rightarrow> filter (\<lambda>op. op_cell_id op = c) ops))"

definition inspect_artifact ::
  "('p, 'y) engine_env_scheme \<Rightarrow> cell_id \<Rightarrow> guest_operation_id
    \<Rightarrow> (('p, 'z) engine_world_scheme, engine_error, artifact_record) eff" where
  "inspect_artifact E c i =
     bindE (stE (load_guest_operation E i)) (\<lambda>op.
     if op_cell_id op \<noteq> c then throw (EE_Integrity ''artifact operation is bound to a different cell'')
     else if op_artifact_pruned_at op \<noteq> None
     then throw (EE_State (SE_NotFound (artifact_root (env_crates E) (fe_root E) c i)))
     else stE (load_artifact E c i))"


subsection \<open>Pruning\<close>

definition MAX_ARTIFACT_RETENTION_SECONDS :: u64 where "MAX_ARTIFACT_RETENTION_SECONDS = 31536000"
definition MAX_ARTIFACT_PRUNE_BATCH :: nat where "MAX_ARTIFACT_PRUNE_BATCH = 256"

record artifact_prune_request =
  apr_older_than :: duration
  apr_max_artifacts :: nat
  apr_dry_run :: bool

datatype artifact_prune_disposition = Prune_Eligible | Prune_Pruned | Prune_RecoveryCompleted

record artifact_prune_entry =
  ape_cell_id :: cell_id
  ape_operation_id :: guest_operation_id
  ape_bytes :: u64
  ape_disposition :: artifact_prune_disposition

record artifact_prune_report =
  app_schema_version :: u32
  app_evaluated_at :: time
  app_cutoff :: time
  app_dry_run :: bool
  app_entries :: "artifact_prune_entry list"

definition is_recovery :: "guest_operation_record \<Rightarrow> bool" where
  "is_recovery op \<longleftrightarrow> op_artifact_pruned_at op \<noteq> None"

definition is_expired_artifact :: "time \<Rightarrow> guest_operation_record \<Rightarrow> bool" where
  "is_expired_artifact cutoff op \<longleftrightarrow>
     op_phase op = Op_Completed \<and> op_artifact_id op = Some (op_id op) \<and> op_artifact_pruned_at op = None
     \<and> (case op_completed_at op of None \<Rightarrow> False | Some t \<Rightarrow> t \<le> cutoff)"

definition prune_bytes ::
  "('p, 'y) engine_env_scheme \<Rightarrow> guest_operation_record \<Rightarrow> (('p, 'z) engine_world_scheme, engine_error, u64) eff" where
  "prune_bytes E op =
     bindE (stE (artifact_root_exists E (op_cell_id op) (op_id op))) (\<lambda>artifact_exists.
     if is_recovery op then ret 0
     else if artifact_exists then
       bindE (stE (load_artifact E (op_cell_id op) (op_id op))) (\<lambda>a.
       liftR (ok_or (checked_sum 0 (map ent_size (art_entries a))) (EE_Integrity ''artifact size overflow'')))
     else throw (EE_Integrity ''completed artifact operation is missing its artifact root''))"

definition prune_operation ::
  "('p, 'y) engine_env_scheme \<Rightarrow> bool \<Rightarrow> time \<Rightarrow> guest_operation_record
    \<Rightarrow> (('p, 'z) engine_world_scheme, engine_error, artifact_prune_entry) eff" where
  "prune_operation E dry_run evaluated_at op =
     bindE (stE (require_guest_operation_parent_for_mutation E op)) (\<lambda>_.
     bindE (prune_bytes E op) (\<lambda>bytes.
     bindE (if dry_run then ret Prune_Eligible
       else bindE (if is_recovery op then ret ()
           else save_operation E (op\<lparr>op_updated_at := evaluated_at, op_artifact_pruned_at := Some evaluated_at\<rparr>)) (\<lambda>_.
         bindE (stE (remove_artifact_root E (op_cell_id op) (op_id op))) (\<lambda>_.
         ret (if is_recovery op then Prune_RecoveryCompleted else Prune_Pruned)))) (\<lambda>d.
     ret \<lparr>ape_cell_id = op_cell_id op, ape_operation_id = op_id op, ape_bytes = bytes, ape_disposition = d\<rparr>)))"

text \<open>\<open>count\<close> is the number of entries pushed so far.\<close>

fun prune_operations ::
  "('p, 'y) engine_env_scheme \<Rightarrow> artifact_prune_request \<Rightarrow> time \<Rightarrow> time \<Rightarrow> nat \<Rightarrow> guest_operation_record list
    \<Rightarrow> (('p, 'z) engine_world_scheme, engine_error, artifact_prune_entry list) eff" where
  "prune_operations E q evaluated_at cutoff count [] = ret []"
| "prune_operations E q evaluated_at cutoff count (op # ops) =
     (if \<not> is_recovery op \<and> \<not> is_expired_artifact cutoff op then prune_operations E q evaluated_at cutoff count ops
      else if count = apr_max_artifacts q then ret []
      else bindE (prune_operation E (apr_dry_run q) evaluated_at op) (\<lambda>e.
        bindE (prune_operations E q evaluated_at cutoff (Suc count) ops) (\<lambda>es. ret (e # es))))"

definition validate_prune_request :: "artifact_prune_request \<Rightarrow> engine_error + unit" where
  "validate_prune_request q =
     res_bind (ensure (apr_max_artifacts q \<noteq> 0 \<and> apr_max_artifacts q \<le> MAX_ARTIFACT_PRUNE_BATCH)
       (EE_InvalidCellRequest (''artifact prune batch must be between 1 and '' @ dec_digits MAX_ARTIFACT_PRUNE_BATCH))) (\<lambda>_.
     ensure (apr_older_than q div 1000000000 \<le> unat MAX_ARTIFACT_RETENTION_SECONDS)
       (EE_InvalidCellRequest (''artifact retention must not exceed ''
         @ dec_digits (unat MAX_ARTIFACT_RETENTION_SECONDS) @ '' seconds'')))"

definition prune_key :: "crates \<Rightarrow> guest_operation_record \<Rightarrow> time \<times> string" where
  "prune_key X op = (op_updated_at op, uuid_to_string X (op_uuid (op_id op)))"

definition prune_artifacts ::
  "('p, 'y) engine_env_scheme \<Rightarrow> artifact_prune_request
    \<Rightarrow> (('p, 'z) engine_world_scheme, engine_error, artifact_prune_report) eff" where
  "prune_artifacts E q =
     bindE (liftR (validate_prune_request q)) (\<lambda>_.
     bindE (utc_now E) (\<lambda>evaluated_at.
     let cutoff = evaluated_at - int (apr_older_than q) in
     with_lock E (
     bindE (stE (list_guest_operations E)) (\<lambda>ops.
     bindE (prune_operations E q evaluated_at cutoff 0 (sort_key (prune_key (env_crates E)) ops)) (\<lambda>entries.
     ret \<lparr>app_schema_version = AUTOMATION_SCHEMA_VERSION, app_evaluated_at = evaluated_at, app_cutoff = cutoff,
       app_dry_run = apr_dry_run q, app_entries = entries\<rparr>)))))"

subsection \<open>Recovering\<close>

datatype guest_operation_recovery_disposition =
  Recover_AlreadyTerminal | Recover_InterruptedBeforeTransport | Recover_ArtifactCompletionRecovered
| Recover_RecoveryRequired

record guest_operation_recovery_report =
  grr_schema_version :: u32
  grr_operation :: guest_operation_record
  grr_disposition :: guest_operation_recovery_disposition
  grr_required_action :: required_action
  grr_changed :: bool

definition recovery_report ::
  "guest_operation_record \<Rightarrow> guest_operation_recovery_disposition \<Rightarrow> bool \<Rightarrow> guest_operation_recovery_report" where
  "recovery_report op d changed =
     \<lparr>grr_schema_version = AUTOMATION_SCHEMA_VERSION, grr_operation = op, grr_disposition = d,
      grr_required_action = (if d = Recover_RecoveryRequired then Act_ManualReview else Act_None), grr_changed = changed\<rparr>"

definition recover_operation ::
  "('p, 'y) engine_env_scheme \<Rightarrow> guest_operation_record
    \<Rightarrow> (('p, 'z) engine_world_scheme, engine_error, guest_operation_recovery_report) eff" where
  "recover_operation E op = (case op_phase op of
      Op_Completed \<Rightarrow> ret (recovery_report op Recover_AlreadyTerminal False)
    | Op_Failed \<Rightarrow> ret (recovery_report op Recover_AlreadyTerminal False)
    | Op_TransportActive \<Rightarrow> ret (recovery_report op Recover_RecoveryRequired False)
    | Op_IntentRecorded \<Rightarrow> bindE (utc_now E) (\<lambda>now.
        let op' = op\<lparr>op_phase := Op_Failed, op_failure := Some Fail_Interrupted, op_updated_at := now,
              op_completed_at := Some now\<rparr> in
        bindE (save_operation E op') (\<lambda>_. ret (recovery_report op' Recover_InterruptedBeforeTransport True)))
    | Op_ArtifactCommitted \<Rightarrow>
        bindE (liftR (ok_or (op_artifact_id op)
          (EE_Integrity ''artifact-committed operation is missing its artifact id''))) (\<lambda>a.
        if a \<noteq> op_id op then throw (EE_Integrity ''artifact id does not match its operation id'')
        else
        bindE (stE (load_artifact E (op_cell_id op) a)) (\<lambda>_.
        bindE (utc_now E) (\<lambda>now.
        let op' = op\<lparr>op_phase := Op_Completed, op_updated_at := now, op_completed_at := Some now\<rparr> in
        bindE (save_operation E op') (\<lambda>_. ret (recovery_report op' Recover_ArtifactCompletionRecovered True))))))"

definition reconcile_guest_operation ::
  "('p, 'y) engine_env_scheme \<Rightarrow> guest_operation_id
    \<Rightarrow> (('p, 'z) engine_world_scheme, engine_error, guest_operation_recovery_report) eff" where
  "reconcile_guest_operation E i =
     bindE (stE (load_guest_operation E i)) (\<lambda>op.
     bindE (stE (require_guest_operation_parent_for_mutation E op)) (\<lambda>_.
     if op_phase op \<in> {Op_Completed, Op_Failed} then ret (recovery_report op Recover_AlreadyTerminal False)
     else if op_phase op = Op_TransportActive then ret (recovery_report op Recover_RecoveryRequired False)
     else with_lock E (
       bindE (stE (load_guest_operation E i)) (\<lambda>op.
       bindE (stE (require_guest_operation_parent_for_mutation E op)) (\<lambda>_.
       recover_operation E op)))))"

end
