(* ===== verification/RunOps.thy ===== *)
theory RunOps
  imports GuestOps JobSpec
begin

section \<open>Runs\<close>

text \<open>
  The orchestration of \<open>engine/mod.rs\<close>: a run creates a cell, starts it, copies files in, executes one command,
  collects artifacts and cleans up, and reports at every exit what became of the cell.  The observer of a run is a
  parameter of the environment: \<open>en_observe E n ev\<close> is its answer to the event shown at step \<open>n\<close>.  A job document is turned into a
  request whose parts are bound together.
\<close>

subsection \<open>Requests and reports\<close>

record run_cleanup_policy =
  rc_keep :: bool
  rc_keep_on_failure :: bool

record run_cell_request =
  rq_plan :: run_execution_plan
  rq_spec :: cell_spec
  rq_command :: guest_command
  rq_readiness :: readiness_policy
  rq_cleanup :: run_cleanup_policy

record job_copy_in_action =
  jca_source :: path
  jca_source_root :: path
  jca_source_sha256 :: string
  jca_source_size :: u64
  jca_destination :: guest_path
  jca_overwrite :: overwrite_policy
  jca_timeout :: duration
  jca_max_bytes :: u64

record job_artifact_action =
  jaa_sources :: "guest_path list"
  jaa_timeout :: duration
  jaa_max_bytes_per_file :: u64

record job_run_actions =
  ja_copy_in :: "job_copy_in_action list"
  ja_artifacts :: "job_artifact_action option"

definition job_run_actions_default :: job_run_actions where
  "job_run_actions_default = \<lparr>ja_copy_in = [], ja_artifacts = None\<rparr>"

record job_run_request_binding =
  jb_request :: run_cell_request
  jb_job :: job_run_context
  jb_actions :: job_run_actions

record job_run_request =
  jq_request :: run_cell_request
  jq_job :: job_run_context
  jq_actions :: job_run_actions
  jq_binding :: job_run_request_binding

definition job_run_request_new :: "run_cell_request \<Rightarrow> job_run_context \<Rightarrow> job_run_actions \<Rightarrow> job_run_request" where
  "job_run_request_new q job actions =
     \<lparr>jq_request = q, jq_job = job, jq_actions = actions,
      jq_binding = \<lparr>jb_request = q, jb_job = job, jb_actions = actions\<rparr>\<rparr>"

definition job_request_into_parts ::
  "job_run_request \<Rightarrow> engine_error + run_cell_request \<times> job_run_context \<times> job_run_actions" where
  "job_request_into_parts q =
     (if jq_request q \<noteq> jb_request (jq_binding q) \<or> jq_job q \<noteq> jb_job (jq_binding q)
        \<or> jq_actions q \<noteq> jb_actions (jq_binding q)
      then Inl (EE_Integrity ''job execution request no longer matches its validated specification binding'')
      else Inr (jq_request q, jq_job q, jq_actions q))"

record job_copy_in_summary =
  jcy_operation_id :: guest_operation_id
  jcy_size :: u64

record job_artifact_summary =
  jay_operation_id :: guest_operation_id
  jay_file_count :: u32
  jay_total_bytes :: u64

record job_operation_manifest =
  jm_schema_version :: u32
  jm_contract :: string
  jm_copy_in :: "job_copy_in_summary list"
  jm_command_operation_id :: "guest_operation_id option"
  jm_artifacts :: "job_artifact_summary list"

definition JOB_OPERATION_MANIFEST_SCHEMA_VERSION :: u32 where
  "JOB_OPERATION_MANIFEST_SCHEMA_VERSION = 1"

definition JOB_OPERATION_MANIFEST_CONTRACT :: string where
  "JOB_OPERATION_MANIFEST_CONTRACT = ''vmcell.job-operations.v1''"

definition job_operation_manifest_new :: job_operation_manifest where
  "job_operation_manifest_new =
     \<lparr>jm_schema_version = JOB_OPERATION_MANIFEST_SCHEMA_VERSION, jm_contract = JOB_OPERATION_MANIFEST_CONTRACT,
      jm_copy_in = [], jm_command_operation_id = None, jm_artifacts = []\<rparr>"

definition record_copy_in :: "guest_copy_in_report \<Rightarrow> job_operation_manifest \<Rightarrow> job_operation_manifest" where
  "record_copy_in r m = m\<lparr>jm_copy_in := jm_copy_in m @ [\<lparr>jcy_operation_id = gcp_operation_id r, jcy_size = gcp_size r\<rparr>]\<rparr>"

definition record_command :: "guest_operation_id \<Rightarrow> job_operation_manifest \<Rightarrow> job_operation_manifest" where
  "record_command i m = m\<lparr>jm_command_operation_id := Some i\<rparr>"

definition record_artifact :: "artifact_report \<Rightarrow> job_operation_manifest \<Rightarrow> job_operation_manifest" where
  "record_artifact r m =
     (let entries = art_entries (arp_artifact r) in
      m\<lparr>jm_artifacts := jm_artifacts m @ [\<lparr>jay_operation_id = arp_operation_id r,
        jay_file_count = word_of_nat (length entries),
        jay_total_bytes = fold (\<lambda>e total. saturating_add total (ent_size e)) entries 0\<rparr>]\<rparr>)"

datatype run_outcome = Run_Success | Run_GuestNonZero

datatype run_stage =
  Stage_RequestValidation | Stage_ImageValidation | Stage_CellCreation | Stage_ProviderStart | Stage_GuestReadiness
| Stage_GuestCopyIn | Stage_GuestExecution | Stage_ArtifactCollection | Stage_Cleanup | Stage_Interrupted

record run_cell_report =
  rr_schema_version :: u32
  rr_plan :: "run_execution_plan option"
  rr_job :: "job_result_metadata option"
  rr_job_operations :: "job_operation_manifest option"
  rr_cell_id :: cell_id
  rr_operation_id :: guest_operation_id
  rr_outcome :: run_outcome
  rr_result :: guest_command_result
  rr_cleanup :: run_cleanup_disposition

record run_failure_report =
  rf_schema_version :: u32
  rf_plan :: "run_execution_plan option"
  rf_job :: "job_result_metadata option"
  rf_job_operations :: "job_operation_manifest option"
  rf_cell_id :: "cell_id option"
  rf_operation_id :: "guest_operation_id option"
  rf_stage :: run_stage
  rf_cleanup :: run_cleanup_disposition
  rf_error_code :: string
  rf_cleanup_error_code :: "string option"
  rf_result :: "guest_command_result option"

record run_cell_error =
  rce_report :: run_failure_report
  rce_source :: engine_error

record run_failure_context =
  fc_plan :: "run_execution_plan option"
  fc_cell_id :: "cell_id option"
  fc_operation_id :: "guest_operation_id option"
  fc_job :: "job_run_context option"
  fc_job_operations :: "job_operation_manifest option"

type_synonym ('p, 'g, 'z, 'a) run_eff = "(('p, 'g, 'z) guest_world_scheme, run_cell_error, 'a) eff"

subsection \<open>Failing and observing\<close>

definition job_metadata_now ::
  "('p, 'y) engine_env_scheme \<Rightarrow> job_run_context option \<Rightarrow> (('p, 'z) engine_world_scheme, 'e, job_result_metadata option) eff" where
  "job_metadata_now E job = (case job of None \<Rightarrow> ret None
     | Some j \<Rightarrow> bindE (utc_now E) (\<lambda>t. ret (Some (job_result_metadata_at j t))))"

text \<open>\<open>Err(run_cell_error(..))\<close>.\<close>

definition fail_run ::
  "('p, 'y) engine_env_scheme \<Rightarrow> run_failure_context \<Rightarrow> run_stage \<Rightarrow> run_cleanup_disposition \<Rightarrow> engine_error
    \<Rightarrow> engine_error option \<Rightarrow> guest_command_result option \<Rightarrow> (('p, 'z) engine_world_scheme, run_cell_error, 'a) eff" where
  "fail_run E ctx stage cleanup source cleanup_error result =
     bindE (job_metadata_now E (fc_job ctx)) (\<lambda>job.
     throw \<lparr>rce_report = \<lparr>rf_schema_version = AUTOMATION_SCHEMA_VERSION, rf_plan = fc_plan ctx, rf_job = job,
         rf_job_operations = fc_job_operations ctx, rf_cell_id = fc_cell_id ctx, rf_operation_id = fc_operation_id ctx,
         rf_stage = stage, rf_cleanup = cleanup, rf_error_code = durable_error_code source,
         rf_cleanup_error_code = map_option durable_error_code cleanup_error, rf_result = result\<rparr>,
       rce_source = source\<rparr>)"

text \<open>\<open>match m { Ok(x) => x, Err(error) => return Err(..) }\<close>.\<close>

definition or_else_run :: "('w, engine_error, 'a) eff \<Rightarrow> (engine_error \<Rightarrow> ('w, run_cell_error, 'a) eff) \<Rightarrow> ('w, run_cell_error, 'a) eff" where
  "or_else_run m handler = bindE (attempt m) (\<lambda>res. case res of Inl e \<Rightarrow> handler e | Inr x \<Rightarrow> ret x)"

definition observe ::
  "('p, 'g, 'y) guest_env_scheme \<Rightarrow> run_progress_event \<Rightarrow> (('p, 'z) engine_world_scheme, 'e, run_control) eff" where
  "observe E ev = bindE next_tick (\<lambda>n.
     let c = en_observe E n ev in
     bindE (modify (\<lambda>w. w\<lparr>ew_events := (ev, c, w_store w) # ew_events w\<rparr>)) (\<lambda>_. ret c))"

subsection \<open>Cleaning up\<close>

definition destroy_for_cleanup ::
  "('p, 'g, 'y) guest_env_scheme \<Rightarrow> cell_id
    \<Rightarrow> (('p, 'z) engine_world_scheme, 'e, run_cleanup_disposition \<times> engine_error option) eff" where
  "destroy_for_cleanup E c =
     bindE (observe E (Ev_CleanupStarted c)) (\<lambda>_.
     bindE (attempt (destroy_cell_for_run E c)) (\<lambda>res. case res of
       Inr _ \<Rightarrow> bindE (observe E (Ev_CellDestroyed c)) (\<lambda>_. ret (Cleanup_Destroyed, None))
     | Inl e \<Rightarrow>
         let disposition = cleanup_failure_disposition e in
         bindE (if disposition = Cleanup_RefusedAmbiguous
           then bindE (observe E (Ev_CleanupRefused c)) (\<lambda>_. ret ()) else ret ()) (\<lambda>_.
         ret (disposition, Some e))))"

definition cleanup_failed_run ::
  "('p, 'g, 'y) guest_env_scheme \<Rightarrow> cell_id \<Rightarrow> run_cleanup_policy \<Rightarrow> bool
    \<Rightarrow> (('p, 'z) engine_world_scheme, 'e, run_cleanup_disposition \<times> engine_error option) eff" where
  "cleanup_failed_run E c policy ambiguous =
     bindE (attempt (load_cell E c)) (\<lambda>res. case res of
       Inl (SE_NotFound _) \<Rightarrow> ret (Cleanup_NothingCreated, None)
     | Inl e \<Rightarrow> ret (Cleanup_Failed, Some (EE_State e))
     | Inr _ \<Rightarrow>
       let retained = (if rc_keep policy then Some Cleanup_RetainedByRequest
         else if rc_keep_on_failure policy then Some Cleanup_RetainedOnFailure else None) in
       case retained of
         Some disposition \<Rightarrow> bindE (observe E (Ev_CellRetained c disposition)) (\<lambda>_. ret (disposition, None))
       | None \<Rightarrow>
         if ambiguous then bindE (observe E (Ev_CleanupRefused c)) (\<lambda>_. ret (Cleanup_RefusedAmbiguous, None))
         else destroy_for_cleanup E c)"

definition failed_run ::
  "('p, 'g, 'y) guest_env_scheme \<Rightarrow> cell_id \<Rightarrow> run_cleanup_policy \<Rightarrow> bool \<Rightarrow> run_failure_context \<Rightarrow> run_stage \<Rightarrow> engine_error
    \<Rightarrow> guest_command_result option \<Rightarrow> (('p, 'z) engine_world_scheme, run_cell_error, 'a) eff" where
  "failed_run E c policy ambiguous ctx stage e result =
     bindE (cleanup_failed_run E c policy ambiguous) (\<lambda>(cleanup, cleanup_error).
     fail_run E ctx stage cleanup e cleanup_error result)"

definition interrupted_run ::
  "('p, 'g, 'y) guest_env_scheme \<Rightarrow> cell_id \<Rightarrow> run_cleanup_policy \<Rightarrow> run_failure_context
    \<Rightarrow> guest_command_result option \<Rightarrow> (('p, 'z) engine_world_scheme, run_cell_error, 'a) eff" where
  "interrupted_run E c policy ctx result =
     failed_run E c policy False ctx Stage_Interrupted (EE_LifecycleConflict ''run interrupted at a safe checkpoint'') result"

text \<open>An event at which the observer may interrupt the run.\<close>

definition checkpoint ::
  "('p, 'g, 'y) guest_env_scheme \<Rightarrow> run_progress_event \<Rightarrow> (('p, 'z) engine_world_scheme, run_cell_error, unit) eff
    \<Rightarrow> (('p, 'z) engine_world_scheme, run_cell_error, unit) eff" where
  "checkpoint E ev interrupt = bindE (observe E ev) (\<lambda>c. if c = Control_Cancel then interrupt else ret ())"

subsection \<open>Stages\<close>

definition revalidate_run_request ::
  "('p, 'g, 'y) guest_env_scheme \<Rightarrow> run_cell_request \<Rightarrow> (('p, 'z) engine_world_scheme, engine_error, unit) eff" where
  "revalidate_run_request E q =
     (let plan = rq_plan q; spec = rq_spec q; expected_provider = provider_as_str (rp_provider plan);
          spec_accelerator_matches = (case rp_provider plan of
              Prov_Hyperv \<Rightarrow> spec_accelerator spec = None \<and> \<not> spec_allow_tcg spec
            | Prov_Qemu \<Rightarrow> spec_accelerator spec = Some (accelerator_as_str (rp_accelerator plan))
                \<and> spec_allow_tcg spec = (rp_accelerator plan = Acc_Tcg)) in
      if spec_image spec \<noteq> rp_image plan \<or> spec_provider spec \<noteq> Some expected_provider
        \<or> provider_name E \<noteq> expected_provider \<or> \<not> spec_accelerator_matches
        \<or> gt_name (en_transport E) \<noteq> transport_as_str (rp_guest_transport plan)
        \<or> \<not> gt_supports (en_transport E) expected_provider (rp_guest_os plan)
      then throw (EE_RunSelection RS_PlanDrift)
      else
        let host = \<lparr>hp_os = rp_host_os plan, hp_architecture = rp_host_architecture plan\<rparr> in
        bindE (stE (load_image E (rp_image plan))) (\<lambda>img.
        bindE (gets (\<lambda>w. pv_probe (en_provider E) (ew_provider w))) (\<lambda>probe.
        mapE EE_RunSelection (liftR (revalidate_run_execution_plan plan host img probe)))))"

definition creation_failure_stage :: "engine_error \<Rightarrow> run_stage" where
  "creation_failure_stage e = (case e of
      EE_InvalidImage _ \<Rightarrow> Stage_ImageValidation
    | EE_ImageIntegrity _ \<Rightarrow> Stage_ImageValidation
    | EE_ImageConflict _ \<Rightarrow> Stage_ImageValidation
    | EE_State (SE_NotFound _) \<Rightarrow> Stage_ImageValidation
    | _ \<Rightarrow> Stage_CellCreation)"

definition copy_into_guest_for_job ::
  "('p, 'g, 'y) guest_env_scheme \<Rightarrow> guest_credentials \<Rightarrow> cell_id \<Rightarrow> readiness_policy \<Rightarrow> job_id option \<Rightarrow> job_copy_in_action
    \<Rightarrow> (('p, 'g, 'z) guest_world_scheme, engine_error, guest_copy_in_report) eff" where
  "copy_into_guest_for_job E cr c readiness job a = copy_into_guest_with_job E cr
     \<lparr>gci_cell_id = c, gci_source = jca_source a, gci_destination = jca_destination a, gci_overwrite = jca_overwrite a,
      gci_timeout = jca_timeout a, gci_max_bytes = jca_max_bytes a, gci_readiness = readiness\<rparr>
     (Some \<lparr>jcb_root = jca_source_root a, jcb_sha256 = jca_source_sha256 a, jcb_size = jca_source_size a\<rparr>) job"

definition collect_artifacts_for_job ::
  "('p, 'g, 'y) guest_env_scheme \<Rightarrow> guest_credentials \<Rightarrow> cell_id \<Rightarrow> readiness_policy \<Rightarrow> job_id option \<Rightarrow> job_artifact_action
    \<Rightarrow> (('p, 'g, 'z) guest_world_scheme, engine_error, artifact_report) eff" where
  "collect_artifacts_for_job E cr c readiness job a = collect_artifacts_with_kind E cr
     \<lparr>acr_cell_id = c, acr_sources = jaa_sources a, acr_timeout = jaa_timeout a,
      acr_max_bytes_per_file = jaa_max_bytes_per_file a, acr_readiness = readiness\<rparr> Kind_ArtifactCollect job"

text \<open>\<open>let mut operation_id = None\<close>: the variable the next guest operation reports its id in.\<close>

definition forget_recorded :: "(('p, 'z) engine_world_scheme, 'e, unit) eff" where
  "forget_recorded = modify (\<lambda>w. w\<lparr>ew_recorded := None\<rparr>)"

definition run_context ::
  "run_cell_request \<Rightarrow> cell_id \<Rightarrow> guest_operation_id option \<Rightarrow> job_run_context option \<Rightarrow> job_operation_manifest option
    \<Rightarrow> run_failure_context" where
  "run_context q c op job ops =
     \<lparr>fc_plan = Some (rq_plan q), fc_cell_id = Some c, fc_operation_id = op, fc_job = job, fc_job_operations = ops\<rparr>"

text \<open>A copy or a collection: it failed ambiguously when its intent was recorded and the failure is not terminal.\<close>

definition guest_stage ::
  "('p, 'g, 'y) guest_env_scheme \<Rightarrow> run_cell_request \<Rightarrow> cell_id \<Rightarrow> job_run_context option \<Rightarrow> job_operation_manifest option
    \<Rightarrow> run_stage \<Rightarrow> guest_command_result option \<Rightarrow> (('p, 'g, 'z) guest_world_scheme, engine_error, 'a) eff
    \<Rightarrow> ('p, 'g, 'z, 'a) run_eff" where
  "guest_stage E q c job ops stage result m =
     bindE forget_recorded (\<lambda>_. or_else_run m (\<lambda>e.
       bindE (gets ew_recorded) (\<lambda>op.
       let ambiguous = (op \<noteq> None \<and> \<not> snd (guest_failure_class_of e)) in
       failed_run E c (rq_cleanup q) ambiguous (run_context q c op job ops) stage e result)))"

primrec run_copies ::
  "('p, 'g, 'y) guest_env_scheme \<Rightarrow> guest_credentials \<Rightarrow> run_cell_request \<Rightarrow> cell_id \<Rightarrow> job_run_context option
    \<Rightarrow> job_copy_in_action list \<Rightarrow> job_operation_manifest option \<Rightarrow> ('p, 'g, 'z, job_operation_manifest option) run_eff" where
  "run_copies E cr q c job [] ops = ret ops"
| "run_copies E cr q c job (a # as) ops =
     bindE (guest_stage E q c job ops Stage_GuestCopyIn None
       (copy_into_guest_for_job E cr c (rq_readiness q) (map_option ctx_job_id job) a)) (\<lambda>report.
     let ops = map_option (record_copy_in report) ops in
     bindE (checkpoint E (Ev_CopyInCompleted c (gcp_operation_id report) (gcp_size report))
       (interrupted_run E c (rq_cleanup q) (run_context q c (Some (gcp_operation_id report)) job ops) None)) (\<lambda>_.
     run_copies E cr q c job as ops))"

definition ready_callback ::
  "('p, 'g, 'y) guest_env_scheme \<Rightarrow> cell_id \<Rightarrow> (('p, 'z) engine_world_scheme, engine_error, unit) eff" where
  "ready_callback E c = bindE (observe E (Ev_GuestReady c)) (\<lambda>x.
     if x = Control_Cancel then throw (EE_LifecycleConflict ''run interrupted after guest readiness'') else ret ())"

text \<open>The two flags the callback sets are read off the events shown since the call: it has shown one iff it was called.\<close>

definition execution_failure_stage :: "(run_progress_event \<times> run_control \<times> store) list \<Rightarrow> run_stage" where
  "execution_failure_stage shown =
     (if list_ex (\<lambda>(_, x, _). x = Control_Cancel) shown then Stage_Interrupted
      else if shown = [] then Stage_GuestReadiness else Stage_GuestExecution)"

definition run_execution ::
  "('p, 'g, 'y) guest_env_scheme \<Rightarrow> guest_credentials \<Rightarrow> run_cell_request \<Rightarrow> cell_id \<Rightarrow> job_run_context option
    \<Rightarrow> job_operation_manifest option \<Rightarrow> ('p, 'g, 'z, guest_exec_report) run_eff" where
  "run_execution E cr q c job ops =
     bindE forget_recorded (\<lambda>_.
     bindE (gets (\<lambda>w. length (ew_events w))) (\<lambda>before.
     or_else_run (exec_guest_with_ready_callback E cr
         \<lparr>gxr_cell_id = c, gxr_command = rq_command q, gxr_readiness = rq_readiness q\<rparr>
         (map_option ctx_job_id job) (ready_callback E c)) (\<lambda>e.
       bindE (gets (\<lambda>w. take (length (ew_events w) - before) (ew_events w))) (\<lambda>shown.
       bindE (gets ew_recorded) (\<lambda>op.
       failed_run E c (rq_cleanup q) (\<not> snd (guest_failure_class_of e)) (run_context q c op job ops)
         (execution_failure_stage shown) e None)))))"

definition run_collection ::
  "('p, 'g, 'y) guest_env_scheme \<Rightarrow> guest_credentials \<Rightarrow> run_cell_request \<Rightarrow> cell_id \<Rightarrow> job_run_context option
    \<Rightarrow> guest_command_result \<Rightarrow> job_artifact_action option \<Rightarrow> job_operation_manifest option
    \<Rightarrow> ('p, 'g, 'z, job_operation_manifest option) run_eff" where
  "run_collection E cr q c job result action ops = (case action of None \<Rightarrow> ret ops
     | Some a \<Rightarrow>
       bindE (guest_stage E q c job ops Stage_ArtifactCollection (Some result)
         (collect_artifacts_for_job E cr c (rq_readiness q) (map_option ctx_job_id job) a)) (\<lambda>report.
       let ops = map_option (record_artifact report) ops in
       bindE (checkpoint E (Ev_ArtifactCollected c (arp_operation_id report)
           (word_of_nat (length (art_entries (arp_artifact report)))))
         (interrupted_run E c (rq_cleanup q) (run_context q c (Some (arp_operation_id report)) job ops) (Some result))) (\<lambda>_.
       ret ops)))"

definition run_cleanup ::
  "('p, 'g, 'y) guest_env_scheme \<Rightarrow> run_cell_request \<Rightarrow> cell_id \<Rightarrow> run_outcome \<Rightarrow> run_failure_context \<Rightarrow> guest_command_result
    \<Rightarrow> (('p, 'z) engine_world_scheme, run_cell_error, run_cleanup_disposition) eff" where
  "run_cleanup E q c outcome ctx result =
     (if rc_keep (rq_cleanup q) then
        bindE (observe E (Ev_CellRetained c Cleanup_RetainedByRequest)) (\<lambda>_. ret Cleanup_RetainedByRequest)
      else if outcome = Run_GuestNonZero \<and> rc_keep_on_failure (rq_cleanup q) then
        bindE (observe E (Ev_CellRetained c Cleanup_RetainedOnFailure)) (\<lambda>_. ret Cleanup_RetainedOnFailure)
      else bindE (destroy_for_cleanup E c) (\<lambda>(disposition, e). case e of
          None \<Rightarrow> ret disposition
        | Some e \<Rightarrow> fail_run E ctx Stage_Cleanup disposition e None (Some result)))"

subsection \<open>The run\<close>

definition run_started_cell ::
  "('p, 'g, 'y) guest_env_scheme \<Rightarrow> guest_credentials \<Rightarrow> run_cell_request \<Rightarrow> cell_id \<Rightarrow> job_run_context option \<Rightarrow> job_run_actions
    \<Rightarrow> ('p, 'g, 'z, run_cell_report) run_eff" where
  "run_started_cell E cr q c job actions =
     bindE (run_copies E cr q c job (ja_copy_in actions) (map_option (\<lambda>_. job_operation_manifest_new) job)) (\<lambda>ops.
     bindE (run_execution E cr q c job ops) (\<lambda>execution.
     let i = gxp_operation_id execution; result = gxp_result execution;
         ops = map_option (record_command i) ops;
         outcome = (if gr_exit_code result = 0 then Run_Success else Run_GuestNonZero) in
     bindE (checkpoint E (Ev_CommandCompleted c i (gr_exit_code result))
       (interrupted_run E c (rq_cleanup q) (run_context q c (Some i) job ops) (Some result))) (\<lambda>_.
     bindE (run_collection E cr q c job result (ja_artifacts actions) ops) (\<lambda>ops.
     bindE (run_cleanup E q c outcome (run_context q c (Some i) job ops) result) (\<lambda>cleanup.
     bindE (job_metadata_now E job) (\<lambda>metadata.
     ret \<lparr>rr_schema_version = AUTOMATION_SCHEMA_VERSION, rr_plan = Some (rq_plan q), rr_job = metadata,
       rr_job_operations = ops, rr_cell_id = c, rr_operation_id = i, rr_outcome = outcome, rr_result = result,
       rr_cleanup = cleanup\<rparr>))))))"

definition run_cell_observed_with_job ::
  "('p, 'g, 'y) guest_env_scheme \<Rightarrow> guest_credentials \<Rightarrow> run_cell_request \<Rightarrow> job_run_context option \<Rightarrow> job_run_actions option
    \<Rightarrow> ('p, 'g, 'z, run_cell_report) run_eff" where
  "run_cell_observed_with_job E cr q job actions =
     (let invalid = fail_run E \<lparr>fc_plan = Some (rq_plan q), fc_cell_id = None, fc_operation_id = None, fc_job = job,
            fc_job_operations = None\<rparr> Stage_RequestValidation Cleanup_NothingCreated in
      bindE (or_else_run (mapE EE_Guest (liftR (guest_command_validate (rq_command q)))) (\<lambda>e. invalid e None None)) (\<lambda>_.
      bindE (or_else_run (liftR (validate_readiness_policy (rq_readiness q))) (\<lambda>e. invalid e None None)) (\<lambda>_.
      bindE (or_else_run (liftR (validate_cell_spec (rq_spec q) (provider_name E))) (\<lambda>e. invalid e None None)) (\<lambda>_.
      bindE (or_else_run (revalidate_run_request E q) (\<lambda>e. invalid e None None)) (\<lambda>_.
      bindE (new_uuid E) (\<lambda>u.
      let c = CellId u; ctx = run_context q c None job None;
          interrupt = interrupted_run E c (rq_cleanup q) ctx None in
      bindE (or_else_run (create_cell_with_id E (rq_spec q) c (map_option job_context_correlation job)) (\<lambda>e.
        failed_run E c (rq_cleanup q) False ctx (creation_failure_stage e) e None)) (\<lambda>cell.
      bindE (checkpoint E (Ev_ImageVerified (bnd_image_id (cell_image cell))) interrupt) (\<lambda>_.
      bindE (checkpoint E (Ev_CellCreated c) interrupt) (\<lambda>_.
      bindE (or_else_run (start_cell E c) (\<lambda>e.
        failed_run E c (rq_cleanup q) False ctx Stage_ProviderStart e None)) (\<lambda>_.
      bindE (checkpoint E (Ev_ProviderStarted c) interrupt) (\<lambda>_.
      run_started_cell E cr q c job (case actions of None \<Rightarrow> job_run_actions_default | Some a \<Rightarrow> a))))))))))))"

definition run_cell_observed ::
  "('p, 'g, 'y) guest_env_scheme \<Rightarrow> guest_credentials \<Rightarrow> run_cell_request \<Rightarrow> ('p, 'g, 'z, run_cell_report) run_eff" where
  "run_cell_observed E cr q = run_cell_observed_with_job E cr q None None"

definition run_job_cell_observed ::
  "('p, 'g, 'y) guest_env_scheme \<Rightarrow> guest_credentials \<Rightarrow> job_run_request \<Rightarrow> ('p, 'g, 'z, run_cell_report) run_eff" where
  "run_job_cell_observed E cr q = (case job_request_into_parts q of
      Inl e \<Rightarrow> fail_run E \<lparr>fc_plan = Some (rq_plan (jb_request (jq_binding q))), fc_cell_id = None, fc_operation_id = None,
        fc_job = Some (jb_job (jq_binding q)), fc_job_operations = None\<rparr>
        Stage_RequestValidation Cleanup_NothingCreated e None None
    | Inr (request, job, actions) \<Rightarrow> run_cell_observed_with_job E cr request (Some job) (Some actions))"

text \<open>The variants without an observer install one that always continues.\<close>

definition run_cell ::
  "('p, 'g, 'y) guest_env_scheme \<Rightarrow> guest_credentials \<Rightarrow> run_cell_request \<Rightarrow> ('p, 'g, 'z, run_cell_report) run_eff" where
  "run_cell E cr q = run_cell_observed (E\<lparr>en_observe := \<lambda>_ _. Control_Continue\<rparr>) cr q"

definition run_job_cell ::
  "('p, 'g, 'y) guest_env_scheme \<Rightarrow> guest_credentials \<Rightarrow> job_run_request \<Rightarrow> ('p, 'g, 'z, run_cell_report) run_eff" where
  "run_job_cell E cr q = run_job_cell_observed (E\<lparr>en_observe := \<lambda>_ _. Control_Continue\<rparr>) cr q"

definition run_request_validation_error_with_job ::
  "('p, 'y) engine_env_scheme \<Rightarrow> run_execution_plan \<Rightarrow> job_run_context option \<Rightarrow> engine_error
    \<Rightarrow> (('p, 'z) engine_world_scheme, run_cell_error, 'a) eff" where
  "run_request_validation_error_with_job E plan job source =
     fail_run E \<lparr>fc_plan = Some plan, fc_cell_id = None, fc_operation_id = None, fc_job = job, fc_job_operations = None\<rparr>
       Stage_RequestValidation Cleanup_NothingCreated source None None"

definition validate_run_resources ::
  "('p, 'y) engine_env_scheme \<Rightarrow> u16 \<Rightarrow> u64 \<Rightarrow> u64 option \<Rightarrow> (('p, 'z) engine_world_scheme, run_cell_error, unit) eff" where
  "validate_run_resources E cpu memory ttl =
     or_else_run (liftR (validate_cell_resources cpu memory ttl)) (\<lambda>e.
       fail_run E \<lparr>fc_plan = None, fc_cell_id = None, fc_operation_id = None, fc_job = None, fc_job_operations = None\<rparr>
         Stage_RequestValidation Cleanup_NothingCreated e None None)"

subsection \<open>Requests of a job document\<close>

definition bind_job_copy_source ::
  "('p, 'g, 'y) guest_env_scheme \<Rightarrow> path \<Rightarrow> path \<Rightarrow> u64
    \<Rightarrow> (('p, 'g, 'z) guest_world_scheme, engine_error, path \<times> string \<times> u64) eff" where
  "bind_job_copy_source E root source max_bytes =
     bindE (canonicalize E (EE_Integrity ''job specification parent is no longer available'') root) (\<lambda>canonical_root.
     let candidate = path_join canonical_root source in
     if \<not> path_starts_with candidate canonical_root then throw (EE_Guest GE_PathViolation)
     else
     bindE (read_ordinary_copy_source E candidate max_bytes) (\<lambda>bytes.
     bindE (canonicalize E (EE_InvalidCellRequest ''job copy-in source is absent'') candidate) (\<lambda>canonical.
     if \<not> path_starts_with canonical canonical_root then throw (EE_Guest GE_PathViolation)
     else ret (candidate, sha256_hex (env_crates E) bytes, word_of_nat (length bytes)))))"

primrec bind_job_copies ::
  "('p, 'g, 'y) guest_env_scheme \<Rightarrow> path \<Rightarrow> job_copy_in_spec list
    \<Rightarrow> (('p, 'g, 'z) guest_world_scheme, engine_error, job_copy_in_action list) eff" where
  "bind_job_copies E root [] = ret []"
| "bind_job_copies E root (i # is) =
     bindE (bind_job_copy_source E root (jci_source i) (jci_max_bytes i)) (\<lambda>(source, sha, source_size).
     bindE (bind_job_copies E root is) (\<lambda>as.
     ret (\<lparr>jca_source = source, jca_source_root = root, jca_source_sha256 = sha, jca_source_size = source_size,
       jca_destination = jci_destination i, jca_overwrite = jci_overwrite i,
       jca_timeout = duration_from_secs (jci_timeout_seconds i), jca_max_bytes = jci_max_bytes i\<rparr> # as)))"

definition job_cell_spec :: "job_spec \<Rightarrow> run_execution_plan \<Rightarrow> cell_spec" where
  "job_cell_spec spec plan =
     \<lparr>spec_image = js_image spec, spec_provider = Some (provider_as_str (rp_provider plan)),
      spec_cpu_count = js_cpu_count spec, spec_memory_mib = js_memory_mib spec, spec_ttl_seconds = js_ttl_seconds spec,
      spec_accelerator = (if rp_provider plan = Prov_Qemu then Some (accelerator_as_str (rp_accelerator plan)) else None),
      spec_allow_tcg = (rp_accelerator plan = Acc_Tcg)\<rparr>"

definition job_run_cell_request :: "job_spec \<Rightarrow> run_execution_plan \<Rightarrow> run_cell_request" where
  "job_run_cell_request spec plan =
     (let timeout = duration_from_secs (js_readiness_timeout_seconds spec) in
      \<lparr>rq_plan = plan, rq_spec = job_cell_spec spec plan, rq_command = job_guest_command spec,
       rq_readiness = \<lparr>rd_timeout = timeout, rd_poll_interval = min (duration_from_secs 2) timeout\<rparr>,
       rq_cleanup = \<lparr>rc_keep = jcl_keep (js_cleanup spec), rc_keep_on_failure = jcl_keep_on_failure (js_cleanup spec)\<rparr>\<rparr>)"

definition job_artifact_action_of :: "job_artifact_spec \<Rightarrow> job_artifact_action option" where
  "job_artifact_action_of a = (if jas_sources a = [] then None
     else Some \<lparr>jaa_sources = jas_sources a, jaa_timeout = duration_from_secs (jas_timeout_seconds a),
       jaa_max_bytes_per_file = jas_max_bytes_per_file a\<rparr>)"

definition build_job_run_request ::
  "('p, 'g, 'y) guest_env_scheme \<Rightarrow> loaded_job_spec \<Rightarrow> host_platform \<Rightarrow> image_record \<Rightarrow> provider_probe list
    \<Rightarrow> (('p, 'g, 'z) guest_world_scheme, engine_error, resolved_job_plan \<times> job_run_request) eff" where
  "build_job_run_request E loaded host img probes =
     (let spec = ljs_spec loaded in
      bindE (mapE EE_RunSelection (liftR (resolve_job_plan loaded host img probes))) (\<lambda>plan.
      let execution = rjp_execution plan in
      if rp_authorizing execution \<or> rp_image execution \<noteq> js_image spec
      then throw (EE_Integrity ''resolved job plan is not bound to the validated job specification'')
      else
      bindE (liftR (ok_or (path_parent (ljs_path loaded))
        (EE_Integrity ''validated job specification path has no parent directory''))) (\<lambda>source_root.
      bindE (canonicalize E (EE_Integrity ''validated job specification parent is no longer available'') source_root) (\<lambda>source_root.
      bindE (bind_job_copies E source_root (js_copy_in spec)) (\<lambda>copy_in.
      bindE (utc_now E) (\<lambda>now.
      bindE (new_uuid E) (\<lambda>u.
      bindE (mapE (\<lambda>_. EE_Integrity ''validated job specification digest is malformed'')
        (liftR (job_run_context_new (JobId u) (ljs_source_sha256 loaded) now))) (\<lambda>job.
      ret (plan, job_run_request_new (job_run_cell_request spec execution) job
        \<lparr>ja_copy_in = copy_in, ja_artifacts = job_artifact_action_of (js_artifacts spec)\<rparr>)))))))))"

end
