(* ===== verification/EngineSafety.thy ===== *)
theory EngineSafety
  imports Engine
begin

section \<open>Safety of the engine\<close>

text \<open>
  Which durable writes and which provider calls the engine makes, and when.  \<open>lifecycle_step\<close> is the
  transition relation on the durable state and phase, \<open>engine_write\<close> the writes it allows and \<open>call_ok\<close>
  what must hold, in the durable store, when the engine asks the provider to change a machine.
  The locale \<open>engine_invariant\<close> is the interface between these and any invariant of the world: an
  invariant that survives such writes and calls survives every engine operation, whatever fails.
\<close>

subsection \<open>Writes and calls\<close>

inductive lifecycle_step :: "cell_state \<times> cell_phase \<Rightarrow> cell_state \<times> cell_phase \<Rightarrow> bool" where
  overlay: "lifecycle_step (Cell_Creating, Phase_IntentRecorded) (Cell_Creating, Phase_OverlayCreated)"
| object: "lifecycle_step (Cell_Creating, Phase_OverlayCreated) (Cell_Creating, Phase_ProviderObjectCreated)"
| claim: "s \<noteq> Cell_Destroyed \<Longrightarrow>
    lifecycle_step (s, Phase_ProviderObjectCreated) (s, Phase_ProviderObjectClaimed)"
| ready: "lifecycle_step (Cell_Creating, Phase_ProviderObjectClaimed) (Cell_Stopped, Phase_Ready)"
| fail: "ph \<in> {Phase_IntentRecorded, Phase_OverlayCreated, Phase_ProviderObjectCreated, Phase_ProviderObjectClaimed}
    \<Longrightarrow> lifecycle_step (Cell_Creating, ph) (Cell_Failed, ph)"
| power: "s \<in> {Cell_Stopped, Cell_Running} \<Longrightarrow> s' \<in> {Cell_Stopped, Cell_Running} \<Longrightarrow>
    lifecycle_step (s, ph) (s', Phase_Ready)"
| destroying: "s \<noteq> Cell_Destroyed \<Longrightarrow> ph \<in> {Phase_Ready, Phase_Destroying} \<Longrightarrow>
    lifecycle_step (s, ph) (Cell_Destroying, Phase_Destroying)"
| destroying_provisioning: "s \<noteq> Cell_Destroyed \<Longrightarrow>
    ph \<in> {Phase_ProviderObjectClaimed, Phase_DestroyingProvisioning} \<Longrightarrow>
    lifecycle_step (s, ph) (Cell_Destroying, Phase_DestroyingProvisioning)"
| destroyed: "s \<noteq> Cell_Destroyed \<Longrightarrow> lifecycle_step (s, ph) (Cell_Destroyed, Phase_Destroyed)"

inductive_cases lifecycle_stepE: "lifecycle_step a b"

definition lifecycle_of :: "cell_record \<Rightarrow> cell_state \<times> cell_phase" where
  "lifecycle_of r = (cell_state r, cell_phase r)"

text \<open>What no write of an existing cell changes.\<close>

definition same_cell :: "cell_record \<Rightarrow> cell_record \<Rightarrow> bool" where
  "same_cell r r' \<longleftrightarrow>
     cid r' = cid r \<and> cell_provider r' = cell_provider r \<and> cell_spec r' = cell_spec r
     \<and> cell_image r' = cell_image r \<and> cell_ownership r' = cell_ownership r \<and> cell_job r' = cell_job r
     \<and> cell_created_at r' = cell_created_at r \<and> cell_expires_at r' = cell_expires_at r
     \<and> (cell_provider_object r' = cell_provider_object r
        \<or> cell_phase r = Phase_OverlayCreated \<and> cell_phase r' = Phase_ProviderObjectCreated)"

definition is_intent :: "cell_record \<Rightarrow> bool" where
  "is_intent r \<longleftrightarrow> lifecycle_of r = (Cell_Creating, Phase_IntentRecorded) \<and> cell_provider_object r = None
     \<and> cell_last_error r = None"

text \<open>The image a cell is bound to is registered, with the very variant the cell was made from.\<close>

definition image_bound :: "('p, 'y) engine_env_scheme \<Rightarrow> store \<Rightarrow> cell_record \<Rightarrow> bool" where
  "image_bound E st r \<longleftrightarrow> spec_image (cell_spec r) = bnd_image_id (cell_image r)
     \<and> (\<exists>img. load_image_from (fe_root E) st (bnd_image_id (cell_image r)) = Inr img
        \<and> (\<exists>v \<in> set (img_variants img). cell_image r = binding_from_variant (img_id img) (img_guest_os img) v))"

definition engine_write ::
  "('p, 'y) engine_env_scheme \<Rightarrow> (cell_id \<Rightarrow> bool) \<Rightarrow> store \<Rightarrow> cell_record \<Rightarrow> bool" where
  "engine_write E may_create st r' \<longleftrightarrow>
     is_intent r' \<and> may_create (cid r') \<and> image_bound E st r'
     \<or> (\<exists>r. load_cell_from (env_crates E) (fe_root E) st (cid r') = Inr r \<and> same_cell r r'
          \<and> lifecycle_step (lifecycle_of r) (lifecycle_of r'))"

definition installed :: "('p, 'y) engine_env_scheme \<Rightarrow> uuid \<Rightarrow> store \<Rightarrow> bool" where
  "installed E i st \<longleftrightarrow> (\<exists>rec. load_installation_from (fe_root E) st = Inr rec \<and> ins_install_id rec = i)"

text \<open>The authority presented with a call is the one of the cell's durable record, for the installation
  of this store and the cell's own runtime.\<close>

definition authority_for ::
  "('p, 'y) engine_env_scheme \<Rightarrow> store \<Rightarrow> cell_record \<Rightarrow> provider_mutation_authority \<Rightarrow> bool" where
  "authority_for E st r a \<longleftrightarrow>
     load_cell_from (env_crates E) (fe_root E) st (cid r) = Inr r
     \<and> installed E (own_install_id (cell_ownership r)) st
     \<and> a = provider_authority_new r \<lparr>inst_install_id = own_install_id (cell_ownership r)\<rparr>
         \<lparr>rt_cell_id = cid r, rt_configuration_path = own_configuration_path (cell_ownership r),
          rt_overlay_path = own_overlay_path (cell_ownership r)\<rparr>"

definition vm_call_ok ::
  "('p, 'y) engine_env_scheme \<Rightarrow> store \<Rightarrow> provider_mutation_authority \<Rightarrow> (cell_record \<Rightarrow> bool) \<Rightarrow> bool" where
  "vm_call_ok E st a P \<longleftrightarrow> (\<exists>r. authority_for E st r a \<and> P r)"

fun call_ok :: "('p, 'y) engine_env_scheme \<Rightarrow> store \<Rightarrow> engine_call \<Rightarrow> bool" where
  "call_ok E st (Call_CreateOverlay a q) \<longleftrightarrow> vm_call_ok E st a (\<lambda>r.
     lifecycle_of r = (Cell_Creating, Phase_IntentRecorded) \<and> q = overlay_request_of r)"
| "call_ok E st (Call_CreateVm a q) \<longleftrightarrow> vm_call_ok E st a (\<lambda>r.
     lifecycle_of r = (Cell_Creating, Phase_OverlayCreated) \<and> q = create_request_of r)"
| "call_ok E st (Call_ClaimVm a q) \<longleftrightarrow> vm_call_ok E st a (\<lambda>r.
     cell_phase r = Phase_ProviderObjectCreated \<and> cell_state r \<noteq> Cell_Destroyed
     \<and> cl_ownership_marker q = own_provider_marker (cell_ownership r)
     \<and> is_ok (prove_creation_identity (fe_host E) r (cl_expected q) False))"
| "call_ok E st (Call_ConfigureVm a q) \<longleftrightarrow> vm_call_ok E st a (\<lambda>r.
     lifecycle_of r = (Cell_Creating, Phase_ProviderObjectClaimed)
     \<and> cf_cpu_count q = spec_cpu_count (cell_spec r)
     \<and> is_ok (prove_creation_identity (fe_host E) r (cf_expected q) True))"
| "call_ok E st (Call_StartVm a vm) \<longleftrightarrow> vm_call_ok E st a (\<lambda>r.
     cell_state r \<in> {Cell_Stopped, Cell_Running} \<and> is_ok (prove_ownership (fe_host E) r vm))"
| "call_ok E st (Call_StopVm a vm) \<longleftrightarrow> vm_call_ok E st a (\<lambda>r.
     cell_state r \<in> {Cell_Stopped, Cell_Running} \<and> is_ok (prove_ownership (fe_host E) r vm)
     \<or> cell_state r = Cell_Destroying \<and> is_ok (prove_destroy_identity (fe_host E) r vm))"
| "call_ok E st (Call_RemoveVm a vm) \<longleftrightarrow> vm_call_ok E st a (\<lambda>r.
     cell_state r = Cell_Destroying \<and> cell_phase r \<in> {Phase_Destroying, Phase_DestroyingProvisioning}
     \<and> vm_power_state vm = Power_Off \<and> is_ok (prove_destroy_identity (fe_host E) r vm))"

fun call_authority :: "engine_call \<Rightarrow> provider_mutation_authority" where
  "call_authority (Call_CreateOverlay a q) = a"
| "call_authority (Call_CreateVm a q) = a"
| "call_authority (Call_ClaimVm a q) = a"
| "call_authority (Call_ConfigureVm a q) = a"
| "call_authority (Call_StartVm a vm) = a"
| "call_authority (Call_StopVm a vm) = a"
| "call_authority (Call_RemoveVm a vm) = a"

subsection \<open>Operations that write no record\<close>

text \<open>A soft operation changes only the tick, the provider's state and the set of runtime directories.\<close>

fun note_only :: "run_progress_event \<Rightarrow> bool" where
  "note_only (Ev_GuestReady _) = True"
| "note_only _ = False"

definition only_notes :: "(run_progress_event \<times> run_control \<times> store) list \<Rightarrow> bool" where
  "only_notes evs \<longleftrightarrow> list_all (\<lambda>(ev, _). note_only ev) evs"

definition soft_step :: "('p, 'z) engine_world_scheme \<Rightarrow> ('p, 'z) engine_world_scheme \<Rightarrow> bool" where
  "soft_step w w' \<longleftrightarrow> (\<exists>n p rs evs rec. only_notes evs \<and> w' = w\<lparr>w_tick := n, ew_provider := p,
     w_store := (w_store w)\<lparr>sto_runtime := rs\<rparr>, ew_events := evs @ ew_events w, ew_recorded := rec\<rparr>)"

definition soft :: "(('p, 'z) engine_world_scheme, 'e, 'a) eff \<Rightarrow> bool" where
  "soft m \<longleftrightarrow> (\<forall>w. soft_step w (snd (m w)))"

named_theorems soft_intro \<open>operations that write no record\<close>

lemma only_notes_simps [simp]: "only_notes []" "only_notes (evs @ evs') \<longleftrightarrow> only_notes evs \<and> only_notes evs'"
  by (simp_all add: only_notes_def)

lemma soft_stepI:
  "only_notes evs \<Longrightarrow> w' = w\<lparr>w_tick := n, ew_provider := p, w_store := (w_store w)\<lparr>sto_runtime := rs\<rparr>,
     ew_events := evs @ ew_events w, ew_recorded := rec\<rparr> \<Longrightarrow> soft_step w w'"
  unfolding soft_step_def by blast

lemma soft_step_refl [simp]: "soft_step w w"
  by (rule soft_stepI [where evs = "[]" and n = "w_tick w" and p = "ew_provider w" and rs = "sto_runtime (w_store w)" and rec = "ew_recorded w"]) simp_all

lemma soft_step_trans:
  assumes "soft_step w w'" "soft_step w' w''" shows "soft_step w w''"
proof -
  from assms(1) obtain n p rs evs rec where 1: "only_notes evs" "w' = w\<lparr>w_tick := n, ew_provider := p,
      w_store := (w_store w)\<lparr>sto_runtime := rs\<rparr>, ew_events := evs @ ew_events w, ew_recorded := rec\<rparr>"
    unfolding soft_step_def by blast
  from assms(2) obtain n' p' rs' evs' rec' where 2: "only_notes evs'" "w'' = w'\<lparr>w_tick := n', ew_provider := p',
      w_store := (w_store w')\<lparr>sto_runtime := rs'\<rparr>, ew_events := evs' @ ew_events w', ew_recorded := rec'\<rparr>"
    unfolding soft_step_def by blast
  show ?thesis
    by (rule soft_stepI [where evs = "evs' @ evs" and n = n' and p = p' and rs = rs' and rec = rec']) (use 1 2 in simp_all)
qed

lemma softD: "soft m \<Longrightarrow> m w = (res, w') \<Longrightarrow> soft_step w w'"
  by (auto simp: soft_def) (metis snd_conv)

lemma softI: "(\<And>w res w'. m w = (res, w') \<Longrightarrow> soft_step w w') \<Longrightarrow> soft m"
  by (simp add: soft_def) (metis prod.collapse)

lemma soft_bind [soft_intro]:
  assumes "soft m" "\<And>x. soft (f x)" shows "soft (bindE m f)"
proof (rule softI)
  fix w res w' assume "bindE m f w = (res, w')"
  then show "soft_step w w'"
    by (cases res) (auto simp: bindE_ok bindE_err dest: softD [OF assms(1)] softD [OF assms(2)] intro: soft_step_trans)
qed

lemma soft_basic [soft_intro]:
  "soft (ret x)" "soft (throw e)" "soft (liftR r)" "soft (gets g)"
  by (simp_all add: soft_def ret_def throw_def liftR_def gets_def)

lemma soft_mapE [soft_intro]: "soft m \<Longrightarrow> soft (mapE g m)"
  by (auto simp: soft_def mapE_def split: prod.splits sum.splits) (metis snd_conv)+

lemma soft_attempt [soft_intro]: "soft m \<Longrightarrow> soft (attempt m)"
  by (auto simp: soft_def attempt_def split: prod.splits) (metis snd_conv)

lemma soft_if [soft_intro]: "(b \<Longrightarrow> soft m) \<Longrightarrow> (\<not> b \<Longrightarrow> soft n) \<Longrightarrow> soft (if b then m else n)"
  by simp

lemma soft_step_tick: "soft_step w (w\<lparr>w_tick := n\<rparr>)"
  by (rule soft_stepI [where evs = "[]" and n = n and p = "ew_provider w" and rs = "sto_runtime (w_store w)" and rec = "ew_recorded w"]) (simp, cases w, simp)

lemma soft_step_provider: "soft_step w (w\<lparr>ew_provider := p\<rparr>)"
  by (rule soft_stepI [where evs = "[]" and n = "w_tick w" and p = p and rs = "sto_runtime (w_store w)" and rec = "ew_recorded w"]) (simp, cases w, simp)

lemma soft_step_recorded: "soft_step w (w\<lparr>ew_recorded := x\<rparr>)"
  by (rule soft_stepI [where evs = "[]" and n = "w_tick w" and p = "ew_provider w" and rs = "sto_runtime (w_store w)" and rec = x]) (simp, cases w, simp)

lemma soft_next_tick [soft_intro]: "soft next_tick"
  by (simp add: soft_def next_tick_run soft_step_tick)

lemma soft_run_provider [soft_intro]: "soft (run_provider m)"
  by (simp add: soft_def run_provider_def soft_step_provider split: prod.split)

lemma soft_store_reads [soft_intro]: "soft (read_op E f)" "soft (utc_now E)" "soft (new_uuid E)" "soft (io_point E)"
  by (simp_all add: soft_def read_op_run utc_now_run new_uuid_run io_point_run soft_step_tick)

lemma soft_reads [soft_intro]:
  "soft (inspect_vm E l)" "soft (load_cell E c)" "soft (load_image E i)" "soft (list_cells E)"
  "soft (list_guest_operations E)" "soft (runtime_entry_exists E c)" "soft (acquire_installation_authority E)"
  by (simp_all add: inspect_vm_def load_cell_def load_image_def list_cells_def list_guest_operations_def
      runtime_entry_exists_def acquire_installation_authority_def soft_intro)

lemma soft_runtime_write [soft_intro]: "soft (write_atomic E (\<lambda>s. s\<lparr>sto_runtime := g s\<rparr>))"
proof (rule softI)
  fix w :: "('a, 'b) engine_world_scheme" and res w'
  assume "write_atomic E (\<lambda>s. s\<lparr>sto_runtime := g s\<rparr>) w = (res, w')"
  then have "w' = w\<lparr>w_tick := Suc (w_tick w)\<rparr> \<or>
      w' = w\<lparr>w_tick := Suc (w_tick w), w_store := (w_store w)\<lparr>sto_runtime := g (w_store w)\<rparr>\<rparr>"
    by (auto simp: write_atomic_run Let_def split: fs_write_outcome.splits)
  then show "soft_step w w'"
  proof
    assume "w' = w\<lparr>w_tick := Suc (w_tick w), w_store := (w_store w)\<lparr>sto_runtime := g (w_store w)\<rparr>\<rparr>"
    then show ?thesis
      by (intro soft_stepI [where evs = "[]" and n = "Suc (w_tick w)" and p = "ew_provider w" and rs = "g (w_store w)" and rec = "ew_recorded w"]) (simp, cases w, simp)
  qed (simp add: soft_step_tick)
qed

lemma soft_runtime [soft_intro]:
  "soft (prepare_cell_runtime_for_with_mutation E c cfg ovl)" "soft (pin_cell_runtime_for E c cfg ovl)"
  "soft (remove_cell_runtime_with_mutation E c g)"
  by (auto simp: prepare_cell_runtime_for_with_mutation_def pin_cell_runtime_for_def Let_def
      remove_cell_runtime_with_mutation_def with_mutation_def validate_mutation_guard_def intro!: soft_intro)

lemma soft_images [soft_intro]:
  "soft (canonical_image_path E p)" "soft (open_immutable_parent E p)" "soft (validate_path_identity E p)"
  "soft (image_len E p)" "soft (sha256_file E p)"
  by (auto simp: canonical_image_path_def open_immutable_parent_def validate_path_identity_def image_len_def
      sha256_file_def intro!: soft_intro split: option.split)

lemma soft_verify [soft_intro]: "soft (verify_registered_image E v)"
  by (auto simp: verify_registered_image_def intro!: soft_intro)

lemma soft_require [soft_intro]: "soft (require_provider_available E)"
  by (auto simp: require_provider_available_def intro!: soft_intro)

lemma soft_ownership [soft_intro]:
  "soft (validate_local_ownership E r)" "soft (exact_owned_vm E r)" "soft (mutation_authority E r)"
  by (auto simp: validate_local_ownership_def exact_owned_vm_def mutation_authority_def intro!: soft_intro)

lemma soft_reconcile [soft_intro]: "soft (reconcile_record E r)" "soft (destroy_tombstone E r)"
  "soft (destroy_unrecorded E r)"
  by (auto simp: reconcile_record_def reconcile_tombstone_def destroy_tombstone_def destroy_unrecorded_def
      intro!: soft_intro split: option.split sum.split prod.split)

subsection \<open>What soft operations keep and prove\<close>

lemma soft_step_store:
  assumes "soft_step w w'"
  shows "load_cell_from X root (w_store w') = load_cell_from X root (w_store w)"
    "installed E i (w_store w') = installed E i (w_store w)"
    "sto_cells (w_store w') = sto_cells (w_store w)" "ew_trace w' = ew_trace w" "w_locked w' = w_locked w"
    "sto_operations (w_store w') = sto_operations (w_store w)" "sto_images (w_store w') = sto_images (w_store w)"
    "load_image_from root (w_store w') = load_image_from root (w_store w)"
proof -
  have cells: "sto_cells (w_store w') = sto_cells (w_store w)"
    and inst: "sto_installation (w_store w') = sto_installation (w_store w)"
    using assms by (auto simp: soft_step_def)
  show "load_cell_from X root (w_store w') = load_cell_from X root (w_store w)"
    by (rule load_cell_from_cong [OF cells])
  show "installed E i (w_store w') = installed E i (w_store w)"
    by (simp add: installed_def load_installation_from_def inst)
  show "sto_cells (w_store w') = sto_cells (w_store w)" by (rule cells)
qed (use assms in \<open>auto simp: soft_step_def load_image_from_def fun_eq_iff\<close>)

lemma mapE_ok: "mapE g m w = (Inr x, w') \<longleftrightarrow> m w = (Inr x, w')"
  by (auto simp: mapE_def split: prod.splits sum.splits)

lemma read_op_ok: "read_op E f w = (Inr x, w') \<Longrightarrow> f (w_store w) = Inr x"
  by (auto simp: read_op_run split: option.splits)

definition cell_authority :: "cell_record \<Rightarrow> provider_mutation_authority" where
  "cell_authority r = provider_authority_new r \<lparr>inst_install_id = own_install_id (cell_ownership r)\<rparr>
     \<lparr>rt_cell_id = cid r, rt_configuration_path = own_configuration_path (cell_ownership r),
      rt_overlay_path = own_overlay_path (cell_ownership r)\<rparr>"

lemma validate_local_ownership_fact:
  assumes "validate_local_ownership E r w = (Inr u, w')"
  shows "installed E (own_install_id (cell_ownership r)) (w_store w)
    \<and> cell_scope (fe_host E) (fe_root E) (provider_name E) r"
  using assms
  by (auto simp: validate_local_ownership_def bindE_ok mapE_ok installed_def
      dest!: read_op_ok validate_local_ownership_record_ok)

lemma exact_owned_vm_fact:
  assumes "exact_owned_vm E r w = (Inr vm, w')"
  shows "installed E (own_install_id (cell_ownership r)) (w_store w)
    \<and> prove_ownership (fe_host E) r vm = Inr () \<and> cell_state r \<noteq> Cell_Destroyed"
  using assms
  by (auto simp: exact_owned_vm_def bindE_ok ret_def throw_def dest!: validate_local_ownership_fact split: if_splits)

lemma acquire_installation_fact:
  assumes "acquire_installation_authority E w = (Inr inst, w')"
  shows "installed E (inst_install_id inst) (w_store w)"
  using assms
  by (auto simp: acquire_installation_authority_def bindE_ok installed_def ret_def dest!: read_op_ok)

lemma pin_cell_runtime_fact:
  "pin_cell_runtime_for E c cfg ovl w = (Inr rt, w') \<Longrightarrow>
     rt = \<lparr>rt_cell_id = c, rt_configuration_path = cfg, rt_overlay_path = ovl\<rparr>"
  by (auto simp: pin_cell_runtime_for_def bindE_ok Let_def ret_def throw_def gets_def split: if_splits)

lemma prepare_cell_runtime_fact:
  "prepare_cell_runtime_for_with_mutation E c cfg ovl w = (Inr rt, w') \<Longrightarrow>
     rt = \<lparr>rt_cell_id = c, rt_configuration_path = cfg, rt_overlay_path = ovl\<rparr>"
  by (auto simp: prepare_cell_runtime_for_with_mutation_def with_mutation_def bindE_ok Let_def ret_def
      throw_def split: if_splits)

lemma authority_of_guards:
  "inst_install_id inst = own_install_id (cell_ownership r) \<Longrightarrow>
     rt = \<lparr>rt_cell_id = cid r, rt_configuration_path = own_configuration_path (cell_ownership r),
       rt_overlay_path = own_overlay_path (cell_ownership r)\<rparr> \<Longrightarrow>
     provider_authority_new r inst rt = cell_authority r"
  by (cases inst) (simp add: cell_authority_def)

lemma mutation_authority_fact:
  assumes "mutation_authority E r w = (Inr a, w')"
  shows "a = cell_authority r"
proof -
  from assms obtain inst rt where "a = provider_authority_new r inst rt"
    "validate_local_ownership_against E r inst = Inr ()"
    "rt = \<lparr>rt_cell_id = cid r, rt_configuration_path = own_configuration_path (cell_ownership r),
       rt_overlay_path = own_overlay_path (cell_ownership r)\<rparr>"
    by (auto simp: mutation_authority_def bindE_ok mapE_ok ret_def dest!: pin_cell_runtime_fact)
  then show ?thesis
    by (metis authority_of_guards validate_local_ownership_against_def validate_local_ownership_record_ok)
qed

subsection \<open>Redacted records\<close>

lemma redact_cong:
  "redact_cell_diagnostic r = r \<Longrightarrow> cell_last_error r' = cell_last_error r \<Longrightarrow> redact_cell_diagnostic r' = r'"
  by (cases r; cases r') (auto simp: redact_cell_diagnostic_def Let_def split: if_splits)

lemma loaded_redacted:
  assumes "uuid_laws X" "dir_ok (sto_cells st)" "load_cell_from X root st c = Inr r"
  shows "redact_cell_diagnostic r = r \<and> cid r = c"
proof -
  from assms(3) obtain r0 where r0: "map_of (sto_cells st) (cell_key X c) = Some (Doc r0)"
    "r = redact_cell_diagnostic r0" "cells_valid X root st"
    by (auto simp: load_cell_from_ok [OF assms(1,2)] cells_sound_def)
  with cell_key_doc [OF assms(1,2) r0(3,1)] show ?thesis by auto
qed

lemma bindE_if: "bindE (if b then m else n) f = (if b then bindE m f else bindE n f)"
  by simp

lemma bindE_ret_right: "bindE m ret = m"
  by (auto simp: bindE_def ret_def fun_eq_iff split: prod.split sum.split)

lemma bindE_fail_record [simp]: "bindE (fail_record E r e) f = fail_record E r e"
  by (simp add: fail_record_def bindE_assoc)

lemma vm_identity_update [simp]:
  "vm_identity H (r\<lparr>cell_state := s\<rparr>) vm = vm_identity H r vm"
  "vm_identity H (r\<lparr>cell_phase := ph\<rparr>) vm = vm_identity H r vm"
  "vm_identity H (r\<lparr>cell_updated_at := t\<rparr>) vm = vm_identity H r vm"
  by (simp_all add: vm_identity_def)

subsection \<open>Invariants of the engine\<close>

lemma validE_pre: "validE P m Q R \<Longrightarrow> (\<And>w. P' w \<Longrightarrow> P w) \<Longrightarrow> validE P' m Q R"
  by (auto simp: validE_def)

lemma validE_fact:
  assumes "validE P m (\<lambda>x w. P' x w \<and> F x) R" "\<And>x. F x \<Longrightarrow> validE (P' x) (f x) Q R"
  shows "validE P (bindE m f) Q R"
  using assms by (fastforce simp: validE_def bindE_def split: prod.splits sum.splits)

definition creating :: "cell_record \<Rightarrow> bool" where
  "creating r \<longleftrightarrow> cell_state r = Cell_Creating \<and> cell_phase r \<in> {Phase_IntentRecorded,
     Phase_OverlayCreated, Phase_ProviderObjectCreated, Phase_ProviderObjectClaimed}"

text \<open>What provisioning keeps of a record, and the record of the next phase.\<close>

definition provisioned :: "cell_record \<Rightarrow> cell_record \<Rightarrow> bool" where
  "provisioned r r' \<longleftrightarrow>
     cid r' = cid r \<and> cell_provider r' = cell_provider r \<and> cell_spec r' = cell_spec r
     \<and> cell_image r' = cell_image r \<and> cell_ownership r' = cell_ownership r \<and> cell_job r' = cell_job r
     \<and> cell_created_at r' = cell_created_at r \<and> cell_expires_at r' = cell_expires_at r"

definition successor :: "cell_record \<Rightarrow> cell_record \<Rightarrow> cell_phase \<Rightarrow> bool" where
  "successor r r' ph \<longleftrightarrow> provisioned r r' \<and> lifecycle_of r' = (Cell_Creating, ph)"

text \<open>The cells a collection destroys.\<close>

definition collectable ::
  "('p, 'y) engine_env_scheme \<Rightarrow> time \<Rightarrow> guest_operation_record list \<Rightarrow> cell_record \<Rightarrow> bool" where
  "collectable E t ops r \<longleftrightarrow> cell_provider r = provider_name E
     \<and> (\<exists>x. cell_expires_at r = Some x \<and> x \<le> t) \<and> \<not> in_flight ops (cid r)"

text \<open>The interface every invariant of the world offers: it fixes the well-formedness of the cell directory and
  survives reads, the provider's own moves and the lock.  \<open>touch\<close> names the cells a run may act on.\<close>

locale store_invariant =
  fixes E :: "('p, 'y) engine_env_scheme"
    and I :: "('p, 'z) engine_world_scheme \<Rightarrow> bool"
    and touch :: "cell_id \<Rightarrow> bool"
  assumes crates_ok: "I w \<Longrightarrow> uuid_laws (env_crates E)"
    and I_dir: "I w \<Longrightarrow> dir_ok (sto_cells (w_store w))"
    and I_soft: "I w \<Longrightarrow> soft_step w w' \<Longrightarrow> I w'"
    and I_lock: "I w \<Longrightarrow> I (w\<lparr>w_locked := b\<rparr>)"
begin

text \<open>The invariant with a cell's durable record, and with the installation it belongs to.\<close>

definition held :: "cell_record \<Rightarrow> ('p, 'z) engine_world_scheme \<Rightarrow> bool" where
  "held r w \<longleftrightarrow> I w \<and> touch (cid r) \<and> load_cell_from (env_crates E) (fe_root E) (w_store w) (cid r) = Inr r"

definition owned :: "cell_record \<Rightarrow> ('p, 'z) engine_world_scheme \<Rightarrow> bool" where
  "owned r w \<longleftrightarrow> held r w \<and> installed E (own_install_id (cell_ownership r)) (w_store w)"

definition stable :: "(('p, 'z) engine_world_scheme \<Rightarrow> bool) \<Rightarrow> bool" where
  "stable P \<longleftrightarrow> (\<forall>w w'. P w \<longrightarrow> soft_step w w' \<longrightarrow> P w') \<and> (\<forall>w. P w \<longrightarrow> I w)"

lemma stable_I [intro, simp]: "stable I"
  using I_soft by (auto simp: stable_def)

lemma stable_held [intro, simp]: "stable (held r)"
  using I_soft by (auto simp: stable_def held_def soft_step_store)

lemma stable_owned [intro, simp]: "stable (owned r)"
  using I_soft by (auto simp: stable_def owned_def held_def soft_step_store)

lemma owned_I [intro, dest]: "owned r w \<Longrightarrow> I w" "owned r w \<Longrightarrow> held r w" "held r w \<Longrightarrow> I w"
  by (auto simp: owned_def held_def)

lemma held_redacted: "held r w \<Longrightarrow> redact_cell_diagnostic r = r"
  using loaded_redacted crates_ok I_dir unfolding held_def by blast

lemma soft_valid:
  assumes "soft m" "stable P" "\<And>w x w'. P w \<Longrightarrow> m w = (Inr x, w') \<Longrightarrow> F x" "\<And>w e. P w \<Longrightarrow> R e w"
  shows "validE P m (\<lambda>x w. P w \<and> F x) R"
  unfolding validE_def
proof (intro allI impI)
  fix w assume P: "P w"
  have "P (snd (m w))" using assms(1,2) P by (auto simp: soft_def stable_def)
  with P assms(3,4) show "case m w of (Inl e, w') \<Rightarrow> R e w' | (Inr x, w') \<Rightarrow> P w' \<and> F x"
    by (cases "m w"; cases "fst (m w)") auto
qed

lemma soft_then:
  assumes "soft m" "stable P" "\<And>w x w'. P w \<Longrightarrow> m w = (Inr x, w') \<Longrightarrow> F x"
    "\<And>x. F x \<Longrightarrow> validE P (f x) Q (\<lambda>_. I)"
  shows "validE P (bindE m f) Q (\<lambda>_. I)"
  by (rule validE_fact [OF soft_valid [OF assms(1-3)] assms(4)]) (use assms(2) in \<open>auto simp: stable_def\<close>)

lemma skip_then:
  assumes "soft m" "stable P" "\<And>x. validE P (f x) Q (\<lambda>_. I)"
  shows "validE P (bindE m f) Q (\<lambda>_. I)"
  by (rule soft_then [where F = "\<lambda>_. True"]) (use assms in auto)

lemma check_then:
  assumes "stable P" "\<And>x. r = Inr x \<Longrightarrow> validE P (f x) Q (\<lambda>_. I)"
  shows "validE P (bindE (liftR r) f) Q (\<lambda>_. I)"
  by (rule soft_then [where F = "\<lambda>x. r = Inr x"]) (use assms in \<open>auto intro: soft_intro\<close>)

lemma soft_end: "soft m \<Longrightarrow> stable P \<Longrightarrow> validE P m (\<lambda>_. I) (\<lambda>_. I)"
  by (rule validE_weaken [OF soft_valid [of m P "\<lambda>_. True" "\<lambda>_. I"]]) (auto simp: stable_def)

lemma throw_valid [intro]: "stable P \<Longrightarrow> validE P (throw e) Q (\<lambda>_. I)"
  by (auto simp: validE_def throw_def stable_def)

lemma load_then:
  assumes touch: "touch c" and "\<And>r. cid r = c \<Longrightarrow> validE (held r) (f r) Q (\<lambda>_. I)"
  shows "validE I (bindE (stE (load_cell E c)) f) Q (\<lambda>_. I)"
proof (rule validE_fact [where P' = held and F = "\<lambda>r. cid r = c"])
  show "validE I (stE (load_cell E c)) (\<lambda>r w. held r w \<and> cid r = c) (\<lambda>_. I)"
    unfolding validE_def
  proof (intro allI impI)
    fix w assume I: "I w"
    obtain res w' where run: "stE (load_cell E c) w = (res, w')" by (cases "stE (load_cell E c) w") auto
    have soft: "soft_step w w'"
      by (rule softD [of "stE (load_cell E c)" w res w']) (auto intro: soft_intro run)
    have "held r w' \<and> cid r = c" if "res = Inr r" for r
    proof -
      have "load_cell_from (env_crates E) (fe_root E) (w_store w) c = Inr r"
        using run that by (auto simp: mapE_ok load_cell_def dest!: read_op_ok)
      moreover from loaded_redacted [OF crates_ok [OF I] I_dir [OF I] this] have "cid r = c" by simp
      ultimately show ?thesis using I_soft [OF I soft] soft touch by (simp add: held_def soft_step_store)
    qed
    with run I_soft [OF I soft]
    show "case stE (load_cell E c) w of (Inl e, w') \<Rightarrow> I w' | (Inr r, w') \<Rightarrow> held r w' \<and> cid r = c"
      by (auto split: sum.splits)
  qed
qed (use assms in simp)

lemma own_then_keep:
  assumes P: "stable P" "\<And>w. P w \<Longrightarrow> held r w"
    and f: "\<And>vm. prove_ownership (fe_host E) r vm = Inr () \<Longrightarrow> cell_state r \<noteq> Cell_Destroyed
      \<Longrightarrow> validE (\<lambda>w. P w \<and> owned r w) (f vm) Q (\<lambda>_. I)"
  shows "validE P (bindE (exact_owned_vm E r) f) Q (\<lambda>_. I)"
proof (rule validE_fact [where P' = "\<lambda>_ w. P w \<and> owned r w"
    and F = "\<lambda>vm. prove_ownership (fe_host E) r vm = Inr () \<and> cell_state r \<noteq> Cell_Destroyed"])
  show "validE P (exact_owned_vm E r) (\<lambda>vm w. (P w \<and> owned r w)
      \<and> prove_ownership (fe_host E) r vm = Inr () \<and> cell_state r \<noteq> Cell_Destroyed) (\<lambda>_. I)"
    unfolding validE_def
  proof (intro allI impI)
    fix w assume w: "P w"
    obtain res w' where run: "exact_owned_vm E r w = (res, w')" by (cases "exact_owned_vm E r w") auto
    have soft: "soft_step w w'" by (rule softD [of "exact_owned_vm E r" w res w']) (auto intro: soft_intro run)
    have w': "P w'" "held r w'" "I w'" using w soft P by (auto simp: stable_def)
    show "case exact_owned_vm E r w of (Inl e, w') \<Rightarrow> I w' | (Inr vm, w') \<Rightarrow> (P w' \<and> owned r w')
        \<and> prove_ownership (fe_host E) r vm = Inr () \<and> cell_state r \<noteq> Cell_Destroyed"
      using w' run exact_owned_vm_fact [of E r w] soft
      by (cases res) (auto simp: owned_def soft_step_store)
  qed
qed (use f in simp)

lemma own_then:
  assumes "\<And>vm. prove_ownership (fe_host E) r vm = Inr () \<Longrightarrow> cell_state r \<noteq> Cell_Destroyed
      \<Longrightarrow> validE (owned r) (f vm) Q (\<lambda>_. I)"
  shows "validE (held r) (bindE (exact_owned_vm E r) f) Q (\<lambda>_. I)"
  by (rule own_then_keep [OF stable_held]) (auto intro: validE_pre [OF assms])

lemma locked_post:
  assumes "validE I m Q (\<lambda>_. I)" "\<And>x w b. Q x w \<Longrightarrow> Q x (w\<lparr>w_locked := b\<rparr>)"
  shows "validE I (with_lock E m) Q (\<lambda>_. I)"
  unfolding with_lock_def
proof (rule validE_bind)
  show "validE I (stE (acquire_mutation_lock E)) (\<lambda>_. I) (\<lambda>_. I)"
  proof (rule validE_mapE, unfold validE_def, intro allI impI)
    fix w assume I: "I w"
    obtain res w' where run: "acquire_mutation_lock E w = (res, w')" by (cases "acquire_mutation_lock E w") auto
    from acquire_retry_effect [OF run [unfolded acquire_mutation_lock_def]] obtain n
      where "w' = w\<lparr>w_tick := n\<rparr> \<or> w' = w\<lparr>w_tick := n, w_locked := True\<rparr>"
      by (cases res) auto
    then have "I w'" using I_soft [OF I soft_step_tick] I_lock by auto
    with run show "case acquire_mutation_lock E w of (Inl e, w') \<Rightarrow> I w' | (Inr x, w') \<Rightarrow> I w'"
      by (cases res) auto
  qed
  show "validE I (finallyE m release_mutation_lock) Q (\<lambda>_. I)" for x :: unit
    by (rule validE_finally, rule validE_weaken [OF assms(1)]) (auto simp: release_mutation_lock_def I_lock assms(2))
qed

lemmas locked = locked_post [where Q = "\<lambda>_. I", OF _ I_lock]

text \<open>A record is durable as returned.\<close>

lemma held_lock: "held r w \<Longrightarrow> held r (w\<lparr>w_locked := b\<rparr>)"
  by (simp add: held_def I_lock)

end

text \<open>On top of it, an invariant of the lifecycle commands survives the durable writes and the provider calls they make.\<close>

locale engine_invariant = store_invariant E I touch
  for E :: "('p, 'y) engine_env_scheme"
    and I :: "('p, 'z) engine_world_scheme \<Rightarrow> bool"
    and may_create :: "cell_id \<Rightarrow> bool" and touch :: "cell_id \<Rightarrow> bool" +
  assumes I_install: "I w \<Longrightarrow> I (w\<lparr>w_store := (w_store w)\<lparr>sto_installation := Some (Doc inst)\<rparr>\<rparr>)"
    and I_write: "I w \<Longrightarrow> touch (cid r) \<Longrightarrow> engine_write E may_create (w_store w) r \<Longrightarrow>
      save_cell_check (env_crates E) (fe_root E) (w_store w) r = Inr r' \<Longrightarrow>
      I (w\<lparr>w_store := put_cell (env_crates E) r' (w_store w)\<rparr>)"
    and I_call: "I w \<Longrightarrow> call_ok E (w_store w) c \<Longrightarrow> touch (pa_cell_id (call_authority c)) \<Longrightarrow>
      I (w\<lparr>ew_trace := (c, w_store w) # ew_trace w\<rparr>)"
begin

lemma save_effect:
  assumes "I w" "touch (cid r)" "engine_write E may_create (w_store w) r" "save_cell E r w = (res, w')"
  shows "I w' \<and> (\<forall>i. installed E i (w_store w') = installed E i (w_store w))
    \<and> (is_ok res \<longrightarrow> load_cell_from (env_crates E) (fe_root E) (w_store w') (cid r)
         = Inr (redact_cell_diagnostic r))"
proof -
  let ?X = "env_crates E" and ?root = "fe_root E"
  obtain res0 where run: "guarded_save E (\<lambda>st. save_cell_check ?X ?root st r) (put_cell ?X) w = (res0, w')"
    and ok: "is_ok res \<longleftrightarrow> is_ok res0"
    using assms(4) by (cases "save_cell_with_mutation E r w")
      (auto simp: save_cell_def save_cell_guarded mapE_def split: sum.splits)
  from run show ?thesis
  proof (cases rule: guarded_save_cases)
    case (kept n e)
    then show ?thesis
      using I_soft [OF assms(1) soft_step_tick [of w n]] ok by (simp add: installed_def)
  next
    case (written n r')
    have "I (w\<lparr>w_store := put_cell ?X r' (w_store w), w_tick := n\<rparr>)"
      using I_soft [OF I_write [OF assms(1-3) written(1)] soft_step_tick] by simp
    moreover have "installed E i (put_cell ?X r' (w_store w)) = installed E i (w_store w)" for i
      by (simp add: installed_def load_installation_from_def put_cell_def)
    moreover have "load_cell_from ?X ?root (put_cell ?X r' (w_store w)) (cid r') = Inr r'"
      by (rule cells.load_put [OF _ written(1)]) (use crates_ok [OF assms(1)] I_dir [OF assms(1)] in simp)
    moreover have "r' = redact_cell_diagnostic r"
      using save_cell_check_ok [OF crates_ok [OF assms(1)] I_dir [OF assms(1)] written(1)] by simp
    ultimately show ?thesis using written(2) by (simp add: world_swap)
  qed
qed

lemma persist_then:
  assumes "\<And>t. same_cell r (q\<lparr>cell_state := s, cell_phase := ph, cell_updated_at := t\<rparr>)"
    and "lifecycle_step (lifecycle_of r) (s, ph)" and "cell_last_error q = cell_last_error r"
    and "stable P" and "\<And>w. P w \<Longrightarrow> held r w"
    and "\<And>r'. (\<exists>t. r' = q\<lparr>cell_state := s, cell_phase := ph, cell_updated_at := t\<rparr>) \<Longrightarrow>
      validE (\<lambda>w. held r' w \<and> (\<exists>w0. P w0 \<and> (\<forall>i. installed E i (w_store w) = installed E i (w_store w0))))
        (f r') Q (\<lambda>_. I)"
  shows "validE P (bindE (persist E q s ph) f) Q (\<lambda>_. I)"
proof (rule validE_fact [where P' = "\<lambda>r' w. held r' w
      \<and> (\<exists>w0. P w0 \<and> (\<forall>i. installed E i (w_store w) = installed E i (w_store w0)))"
    and F = "\<lambda>r'. \<exists>t. r' = q\<lparr>cell_state := s, cell_phase := ph, cell_updated_at := t\<rparr>"])
  show "validE P (persist E q s ph) (\<lambda>r' w. (held r' w
      \<and> (\<exists>w0. P w0 \<and> (\<forall>i. installed E i (w_store w) = installed E i (w_store w0))))
      \<and> (\<exists>t. r' = q\<lparr>cell_state := s, cell_phase := ph, cell_updated_at := t\<rparr>)) (\<lambda>_. I)"
    unfolding validE_def
  proof (intro allI impI)
    fix w assume P: "P w"
    let ?t = "fs_now E (w_tick w)" and ?w = "w\<lparr>w_tick := Suc (w_tick w)\<rparr>"
    let ?r = "q\<lparr>cell_state := s, cell_phase := ph, cell_updated_at := ?t\<rparr>"
    have P1: "P ?w" using P assms(4) soft_step_tick unfolding stable_def by blast
    then have h: "held r ?w" by (rule assms(5))
    have same: "same_cell r ?r" by (rule assms(1))
    then have "engine_write E may_create (w_store ?w) ?r"
      using h assms(2) unfolding engine_write_def held_def same_cell_def lifecycle_of_def by auto
    moreover obtain res w' where run: "save_cell E ?r ?w = (res, w')" by (cases "save_cell E ?r ?w") auto
    moreover have "redact_cell_diagnostic ?r = ?r"
      by (rule redact_cong [OF held_redacted [OF h]]) (simp add: assms(3))
    ultimately have eff: "I w'" "\<And>i. installed E i (w_store w') = installed E i (w_store ?w)"
      "is_ok res \<Longrightarrow> held ?r w'"
      using save_effect [of ?w ?r res w'] h same by (auto simp: held_def same_cell_def)
    then show "case persist E q s ph w of (Inl e, w') \<Rightarrow> I w'
      | (Inr r', w') \<Rightarrow> (held r' w' \<and> (\<exists>w0. P w0 \<and> (\<forall>i. installed E i (w_store w') = installed E i (w_store w0))))
          \<and> (\<exists>t. r' = q\<lparr>cell_state := s, cell_phase := ph, cell_updated_at := t\<rparr>)"
      using run P1 by (cases res) (auto simp: persist_def bindE_def utc_now_run Let_def ret_def)
  qed
qed (use assms(6) in simp)

lemma owned_persist_then:
  assumes "\<And>t. same_cell r (q\<lparr>cell_state := s, cell_phase := ph, cell_updated_at := t\<rparr>)"
    and "lifecycle_step (lifecycle_of r) (s, ph)" and "cell_last_error q = cell_last_error r"
    and "\<And>r' t. r' = q\<lparr>cell_state := s, cell_phase := ph, cell_updated_at := t\<rparr> \<Longrightarrow>
      validE (owned r') (f r') Q (\<lambda>_. I)"
  shows "validE (owned r) (bindE (persist E q s ph) f) Q (\<lambda>_. I)"
proof (rule persist_then [OF assms(1-3) stable_owned])
  fix r' assume "\<exists>t. r' = q\<lparr>cell_state := s, cell_phase := ph, cell_updated_at := t\<rparr>"
  then obtain t where t: "r' = q\<lparr>cell_state := s, cell_phase := ph, cell_updated_at := t\<rparr>" by blast
  have "cell_ownership r' = cell_ownership r"
    using assms(1) [of t] unfolding t same_cell_def by simp
  then show "validE (\<lambda>w. held r' w \<and> (\<exists>w0. owned r w0 \<and> (\<forall>i. installed E i (w_store w)
      = installed E i (w_store w0)))) (f r') Q (\<lambda>_. I)"
    by (intro validE_pre [OF assms(4) [OF t]]) (auto simp: owned_def)
qed (rule owned_I)

lemma fail_valid:
  assumes "creating r" shows "validE (held r) (fail_record E r e) Q (\<lambda>_. I)"
  unfolding validE_def
proof (intro allI impI)
  fix w assume h: "held r w"
  let ?r = "r\<lparr>cell_state := Cell_Failed, cell_updated_at := fs_now E (w_tick w),
      cell_last_error := Some (durable_error_code e)\<rparr>" and ?w = "w\<lparr>w_tick := Suc (w_tick w)\<rparr>"
  have h1: "held r ?w" using h stable_held [of r] soft_step_tick unfolding stable_def by blast
  have "lifecycle_step (lifecycle_of r) (lifecycle_of ?r)"
    using assms unfolding creating_def lifecycle_of_def by (auto intro: lifecycle_step.fail)
  then have "engine_write E may_create (w_store ?w) ?r"
    using h1 unfolding engine_write_def held_def same_cell_def by auto
  then have "I (snd (save_cell E ?r ?w))"
    using save_effect [of ?w ?r "fst (save_cell E ?r ?w)" "snd (save_cell E ?r ?w)"] h1
    by (simp add: held_def)
  then show "case fail_record E r e w of (Inl e, w') \<Rightarrow> I w' | (Inr x, w') \<Rightarrow> Q x w'"
    by (auto simp: fail_record_def bindE_def utc_now_run throw_def split: prod.splits sum.splits)
qed

lemma or_fail_then:
  assumes "creating r" "validE (owned r) m (\<lambda>x w. owned r w \<and> F x) (\<lambda>_. owned r)"
    and "\<And>x. F x \<Longrightarrow> validE (owned r) (f x) Q (\<lambda>_. I)"
  shows "validE (owned r) (bindE (or_fail E r m) f) Q (\<lambda>_. I)"
proof (rule validE_fact [where P' = "\<lambda>_. owned r"])
  show "validE (owned r) (or_fail E r m) (\<lambda>x w. owned r w \<and> F x) (\<lambda>_. I)"
    unfolding or_fail_def
  proof (rule validE_bind)
    show "validE (owned r) (attempt m) (\<lambda>res w. owned r w \<and> (\<forall>x. res = Inr x \<longrightarrow> F x)) (\<lambda>_. I)"
      by (rule validE_attempt, rule validE_weaken [OF assms(2)]) auto
    fix res
    show "validE (\<lambda>w. owned r w \<and> (\<forall>x. res = Inr x \<longrightarrow> F x))
        (case res of Inl e \<Rightarrow> fail_record E r e | Inr x \<Rightarrow> ret x) (\<lambda>x w. owned r w \<and> F x) (\<lambda>_. I)"
      by (cases res) (auto intro!: validE_pre [OF fail_valid [OF assms(1)]] validE_ret)
  qed
qed (use assms(3) in simp)

lemma or_fail_soft:
  assumes "creating r" "soft m" "\<And>w x w'. m w = (Inr x, w') \<Longrightarrow> F x"
    and "\<And>x. F x \<Longrightarrow> validE (owned r) (f x) Q (\<lambda>_. I)"
  shows "validE (owned r) (bindE (or_fail E r m) f) Q (\<lambda>_. I)"
  by (rule or_fail_then [OF assms(1) _ assms(4)], rule soft_valid [OF assms(2)]) (use assms(3) in auto)

definition ready_call :: "('p, 'z) engine_world_scheme \<Rightarrow> engine_call \<Rightarrow> bool" where
  "ready_call w c \<longleftrightarrow> call_ok E (w_store w) c \<and> touch (pa_cell_id (call_authority c))"

lemma owned_authority:
  "owned r w \<Longrightarrow> authority_for E (w_store w) r (cell_authority r) \<and> touch (pa_cell_id (cell_authority r))"
  by (simp add: owned_def held_def authority_for_def cell_authority_def provider_authority_new_def)

lemma provider_call_valid:
  assumes "\<And>w. owned r w \<Longrightarrow> ready_call w c"
  shows "validE (owned r) (provider_call c m) (\<lambda>_. owned r) (\<lambda>_. owned r)"
  unfolding validE_def
proof (intro allI impI)
  fix w assume o: "owned r w"
  let ?w = "w\<lparr>ew_trace := (c, w_store w) # ew_trace w\<rparr>"
  have "owned r ?w"
    using o I_call [of w c] assms [OF o] by (simp add: owned_def held_def ready_call_def)
  moreover have "soft (run_provider m)" by (rule soft_intro)
  ultimately have "owned r (snd (run_provider m ?w))"
    using stable_owned [of r] unfolding stable_def soft_def by blast
  then show "case provider_call c m w of (Inl e, w') \<Rightarrow> owned r w' | (Inr x, w') \<Rightarrow> owned r w'"
    by (cases "run_provider m ?w"; cases "fst (run_provider m ?w)") (auto simp: provider_call_def bindE_def modify_def)
qed

lemma call_then:
  assumes "\<And>w. owned r w \<Longrightarrow> ready_call w c" "\<And>x. validE (owned r) (f x) Q (\<lambda>_. I)"
  shows "validE (owned r) (bindE (provider_call c m) f) Q (\<lambda>_. I)"
  by (rule validE_bind [OF validE_weaken [OF provider_call_valid [OF assms(1)]] assms(2)]) auto

lemma or_fail_call:
  assumes "creating r" "\<And>w. owned r w \<Longrightarrow> ready_call w c"
    "\<And>x. validE (owned r) (f x) Q (\<lambda>_. I)"
  shows "validE (owned r) (bindE (or_fail E r (provider_call c m)) f) Q (\<lambda>_. I)"
  by (rule or_fail_then [where F = "\<lambda>_. True", OF assms(1) _ assms(3)],
      rule validE_weaken [OF provider_call_valid [OF assms(2)]]) auto

text \<open>A report that is true of the durable record.\<close>

definition settled :: "cell_state \<Rightarrow> cell_id \<Rightarrow> operation_report \<Rightarrow> ('p, 'z) engine_world_scheme \<Rightarrow> bool" where
  "settled s c rep w \<longleftrightarrow> or_cell_id rep = c \<and> or_state rep = s \<and> (\<exists>r. held r w \<and> cid r = c \<and> cell_state r = s)"

abbreviation torn_down :: "cell_id \<Rightarrow> operation_report \<Rightarrow> ('p, 'z) engine_world_scheme \<Rightarrow> bool" where
  "torn_down \<equiv> settled Cell_Destroyed"

lemma settled_I: "settled s c rep w \<Longrightarrow> I w" "settled s c rep w \<Longrightarrow> settled s c rep (w\<lparr>w_locked := b\<rparr>)"
  by (auto simp: settled_def intro: held_lock)

lemma settledI: "held r w \<Longrightarrow> cell_state r = s \<Longrightarrow> settled s (cid r) (operation_report_of r b) w"
  by (auto simp: settled_def operation_report_of_def)

text \<open>Starting and stopping.\<close>

lemma same_cell_update:
  "same_cell r (r\<lparr>cell_state := s, cell_phase := ph, cell_updated_at := t\<rparr>)"
  by (simp add: same_cell_def)

lemma power_persist:
  assumes "cell_state r \<in> {Cell_Stopped, Cell_Running}" "s \<in> {Cell_Stopped, Cell_Running}"
  shows "validE (owned r) (bindE (persist E r s Phase_Ready) (\<lambda>r'. ret (operation_report_of r' (b r')))) (settled s (cid r)) (\<lambda>_. I)"
proof (rule owned_persist_then [OF same_cell_update], goal_cases)
  case (3 r' t)
  then have "cid r' = cid r" "cell_state r' = s" by simp_all
  then show ?case by (intro validE_ret) (metis settledI owned_I(2))
qed (use assms in \<open>auto simp: lifecycle_of_def intro: lifecycle_step.power\<close>)

lemma power_call:
  assumes "cell_state r \<in> {Cell_Stopped, Cell_Running}" "prove_ownership (fe_host E) r vm = Inr ()"
  shows "owned r w \<Longrightarrow> ready_call w (Call_StartVm (cell_authority r) vm)"
    "owned r w \<Longrightarrow> ready_call w (Call_StopVm (cell_authority r) vm)"
  using assms owned_authority [of r w] by (auto simp: ready_call_def vm_call_ok_def)

lemma end_valid: "stable P \<Longrightarrow> validE P (ret x) (\<lambda>_. I) (\<lambda>_. I)" "stable P \<Longrightarrow> validE P (throw e) (\<lambda>_. I) (\<lambda>_. I)"
  by (auto intro: soft_end soft_intro)

lemma reown_then:
  assumes "\<And>vm. prove_ownership (fe_host E) r vm = Inr () \<Longrightarrow> validE (owned r) (f vm) Q (\<lambda>_. I)"
  shows "validE (owned r) (bindE (exact_owned_vm E r) f) Q (\<lambda>_. I)"
  by (rule validE_pre [OF own_then]) (use assms in auto)

lemma start_owned_valid:
  assumes "cell_state r \<in> {Cell_Stopped, Cell_Running}" "prove_ownership (fe_host E) r vm = Inr ()"
  shows "validE (owned r) (start_owned E r vm) (settled Cell_Running (cid r)) (\<lambda>_. I)"
  unfolding start_owned_def
proof (rule skip_then, goal_cases)
  case (3 x)
  show ?case
  proof (rule soft_then [where F = "\<lambda>a. a = cell_authority r"], goal_cases)
    case (4 a)
    then show ?case
      using assms power_call(1) [OF assms]
      by (auto intro!: call_then reown_then validE_if power_persist throw_valid)
  qed (auto intro: soft_intro mutation_authority_fact)
qed (auto intro: soft_intro)

lemma start_cell_valid: "touch c \<Longrightarrow> validE I (start_cell E c) (settled Cell_Running c) (\<lambda>_. I)"
  unfolding start_cell_def
proof (rule check_then [OF stable_I], rule locked_post, rule load_then, assumption, rule check_then [OF stable_held], rule own_then, goal_cases)
  case (1 u r v vm)
  then have "cell_state r \<in> {Cell_Stopped, Cell_Running}" by (auto simp: require_lifecycle_state_def)
  with 1 show ?case
    by (auto intro!: validE_if power_persist start_owned_valid throw_valid)
qed (rule settled_I(2))

lemma stop_cell_valid: "touch c \<Longrightarrow> validE I (stop_cell E c) (settled Cell_Stopped c) (\<lambda>_. I)"
  unfolding stop_cell_def
proof (rule check_then [OF stable_I], rule locked_post, rule load_then, assumption, rule check_then [OF stable_held], rule own_then, goal_cases)
  case (1 u r v vm)
  then have state: "cell_state r \<in> {Cell_Stopped, Cell_Running}" by (auto simp: require_lifecycle_state_def)
  have "validE (owned r) (bindE (mutation_authority E r) (\<lambda>auth.
       bindE (provider_call (Call_StopVm auth vm) (pv_stop_vm (en_provider E) auth vm)) (\<lambda>_.
       bindE (exact_owned_vm E r) (\<lambda>after.
       if vm_power_state after \<noteq> Power_Off then throw (EE_UnexpectedPowerState (vm_power_state after))
       else bindE (persist E r Cell_Stopped Phase_Ready) (\<lambda>r. ret (operation_report_of r True))))))
     (settled Cell_Stopped c) (\<lambda>_. I)"
  proof (rule soft_then [where F = "\<lambda>a. a = cell_authority r"], goal_cases)
    case (4 a)
    then show ?case
      using state power_call(2) [OF state] 1
      by (auto intro!: call_then reown_then validE_if power_persist throw_valid)
  qed (auto intro: soft_intro mutation_authority_fact)
  with 1 state show ?case
    by (auto intro!: validE_if power_persist throw_valid)
qed (rule settled_I(2))

text \<open>Destroying.\<close>

lemma validate_local_ownership_against_ok:
  "validate_local_ownership_against E r inst = Inr u \<Longrightarrow> inst_install_id inst = own_install_id (cell_ownership r)"
  by (auto simp: validate_local_ownership_against_def dest: validate_local_ownership_record_ok)

text \<open>Loading the installation of a held cell whose record belongs to it.\<close>

lemma installation_then:
  assumes "\<And>inst u. validate_local_ownership_against E r inst = Inr u \<Longrightarrow> validE (owned r) (f inst) Q (\<lambda>_. I)"
  shows "validE (held r) (bindE (stE (acquire_installation_authority E)) (\<lambda>inst.
    bindE (liftR (validate_local_ownership_against E r inst)) (\<lambda>_. f inst))) Q (\<lambda>_. I)"
proof (rule validE_bind)
  show "validE (held r) (stE (acquire_installation_authority E))
      (\<lambda>inst w. held r w \<and> installed E (inst_install_id inst) (w_store w)) (\<lambda>_. I)"
  proof (rule validE_mapE, unfold validE_def, intro allI impI)
    fix w assume h: "held r w"
    obtain res w' where run: "acquire_installation_authority E w = (res, w')"
      by (cases "acquire_installation_authority E w") auto
    have soft: "soft_step w w'"
      by (rule softD [of "acquire_installation_authority E" w res w']) (auto intro: soft_intro run)
    have "held r w'" using h soft stable_held [of r] by (auto simp: stable_def)
    with run soft acquire_installation_fact [of E w]
    show "case acquire_installation_authority E w of (Inl e, w') \<Rightarrow> I w'
        | (Inr inst, w') \<Rightarrow> held r w' \<and> installed E (inst_install_id inst) (w_store w')"
      by (cases res) (auto simp: soft_step_store)
  qed
  fix inst
  show "validE (\<lambda>w. held r w \<and> installed E (inst_install_id inst) (w_store w))
      (bindE (liftR (validate_local_ownership_against E r inst)) (\<lambda>_. f inst)) Q (\<lambda>_. I)"
    by (rule validE_bind_liftR, rule validE_pre [OF assms])
      (auto simp: owned_def dest: validate_local_ownership_against_ok)
qed

definition destroyable :: "cell_record \<Rightarrow> cell_record \<Rightarrow> provider_vm \<Rightarrow> bool \<Rightarrow> bool" where
  "destroyable r r' vm prov \<longleftrightarrow>
     cid r' = cid r \<and> cell_ownership r' = cell_ownership r \<and> cell_state r' \<noteq> Cell_Destroyed
     \<and> prove_destroy_identity (fe_host E) r' vm = Inr ()
     \<and> cell_phase r' \<in> (if prov then {Phase_ProviderObjectClaimed, Phase_DestroyingProvisioning}
                          else {Phase_Ready, Phase_Destroying})"

lemma destroy_proof_then:
  assumes "provider_authority_new r inst rt = cell_authority r" "cell_state r \<noteq> Cell_Destroyed"
    and f: "\<And>r' vm' prov. destroyable r r' vm' prov \<Longrightarrow> validE (owned r') (f (r', vm', prov)) Q (\<lambda>_. I)"
  shows "validE (owned r) (bindE (destroy_proof E inst rt r vm) f) Q (\<lambda>_. I)"
proof -
  have claim: "validE (owned r) (bindE (persist E r (cell_state r) Phase_ProviderObjectClaimed)
      (\<lambda>r. f (r, claimed, True))) Q (\<lambda>_. I)"
    if "cell_phase r = Phase_ProviderObjectCreated" "prove_creation_identity (fe_host E) r claimed True = Inr ()"
    for claimed
  proof (rule owned_persist_then [OF same_cell_update])
    show "lifecycle_step (lifecycle_of r) (cell_state r, Phase_ProviderObjectClaimed)"
      using that(1) assms(2) by (auto simp: lifecycle_of_def intro: lifecycle_step.claim)
    fix r' t assume "r' = r\<lparr>cell_state := cell_state r, cell_phase := Phase_ProviderObjectClaimed, cell_updated_at := t\<rparr>"
    then show "validE (owned r') (f (r', claimed, True)) Q (\<lambda>_. I)"
      using that(2) assms(2) by (intro f) (auto simp: destroyable_def ownership_proofs_ok)
  qed simp
  have call: "owned r w \<Longrightarrow> ready_call w (Call_ClaimVm (cell_authority r)
      \<lparr>cl_expected = vm, cl_ownership_marker = own_provider_marker (cell_ownership r)\<rparr>)"
    if "cell_phase r = Phase_ProviderObjectCreated" "prove_creation_identity (fe_host E) r vm False = Inr ()" for w
    using that assms(2) owned_authority [of r w] by (auto simp: ready_call_def vm_call_ok_def)
  have fin: "validE (owned r) (f (r, vm, prov)) Q (\<lambda>_. I)" if "destroyable r r vm prov" for prov
    using f that .
  show ?thesis
    unfolding destroy_proof_def Let_def bindE_if bindE_assoc assms(1) bindE_ret bindE_throw
    by (intro validE_if check_then call_then call claim fin stable_owned soft_end soft_intro)
      (use assms(2) in \<open>auto simp: destroyable_def ownership_proofs_ok validE_def throw_def owned_def held_def\<close>)
qed

lemma stop_for_destroy_then:
  assumes "provider_authority_new r inst rt = cell_authority r" "cell_state r = Cell_Destroying"
    "prove_destroy_identity (fe_host E) r vm = Inr ()"
    and f: "\<And>vm'. vm_power_state vm' = Power_Off \<Longrightarrow> prove_destroy_identity (fe_host E) r vm' = Inr () \<Longrightarrow>
      validE (owned r) (f vm') Q (\<lambda>_. I)"
  shows "validE (owned r) (bindE (stop_for_destroy E inst rt r vm) f) Q (\<lambda>_. I)"
proof -
  have call: "owned r w \<Longrightarrow> ready_call w (Call_StopVm (cell_authority r) vm)" for w
    using assms(2,3) owned_authority [of r w] by (auto simp: ready_call_def vm_call_ok_def)
  show ?thesis
    unfolding stop_for_destroy_def Let_def bindE_if bindE_assoc assms(1) bindE_ret bindE_throw
    by (intro validE_if check_then call_then skip_then call f stable_owned throw_valid soft_intro)
      (use assms(3) in simp_all)
qed

lemma remove_owned_then:
  assumes "provider_authority_new r inst rt = cell_authority r" "cell_state r = Cell_Destroying"
    "cell_phase r \<in> {Phase_Destroying, Phase_DestroyingProvisioning}"
    "vm_power_state vm = Power_Off" "prove_destroy_identity (fe_host E) r vm = Inr ()"
    and f: "validE (owned r) (f ()) Q (\<lambda>_. I)"
  shows "validE (owned r) (bindE (remove_owned E inst rt r vm) f) Q (\<lambda>_. I)"
proof -
  have call: "owned r w \<Longrightarrow> ready_call w (Call_RemoveVm (cell_authority r) vm)" for w
    using assms(2-5) owned_authority [of r w] by (auto simp: ready_call_def vm_call_ok_def)
  show ?thesis
    unfolding remove_owned_def Let_def bindE_if bindE_assoc assms(1) bindE_throw
    by (intro validE_if check_then call_then skip_then call stable_owned throw_valid soft_intro) (simp_all add: f)
qed

lemma destroy_present_then:
  assumes inst: "inst_install_id inst = own_install_id (cell_ownership r)" and live: "cell_state r \<noteq> Cell_Destroyed"
    and f: "\<And>r'. cid r' = cid r \<Longrightarrow> cell_state r' \<noteq> Cell_Destroyed \<Longrightarrow> validE (owned r') (f r') Q (\<lambda>_. I)"
  shows "validE (owned r) (bindE (destroy_present E inst r vm) f) Q (\<lambda>_. I)"
proof -
  let ?rt = "\<lparr>rt_cell_id = cid r, rt_configuration_path = own_configuration_path (cell_ownership r),
      rt_overlay_path = own_overlay_path (cell_ownership r)\<rparr>"
  have auth: "provider_authority_new r' inst ?rt = cell_authority r'"
    if "cid r' = cid r" "cell_ownership r' = cell_ownership r" for r'
    using that inst by (intro authority_of_guards) simp_all
  have destroying: "validE (owned r') (bindE (persist E r' Cell_Destroying
       (if prov then Phase_DestroyingProvisioning else Phase_Destroying)) (\<lambda>r.
     bindE (stop_for_destroy E inst ?rt r vm') (\<lambda>vm.
     bindE (remove_owned E inst ?rt r vm) (\<lambda>_. f r)))) Q (\<lambda>_. I)"
    if d: "destroyable r r' vm' prov" for r' vm' prov
  proof (rule owned_persist_then [OF same_cell_update], goal_cases)
    case 1
    show ?case
      using d by (cases prov) (auto simp: destroyable_def lifecycle_of_def
          intro: lifecycle_step.destroying lifecycle_step.destroying_provisioning)
  next
    case (3 r'' t)
    have r'': "cid r'' = cid r" "cell_ownership r'' = cell_ownership r" "cell_state r'' = Cell_Destroying"
      "cell_phase r'' \<in> {Phase_Destroying, Phase_DestroyingProvisioning}"
      "prove_destroy_identity (fe_host E) r'' vm' = Inr ()"
      using 3 d by (auto simp: destroyable_def prove_destroy_identity_ok)
    note a = auth [OF r''(1,2)]
    show ?case
      by (rule stop_for_destroy_then [OF a r''(3,5)], rule remove_owned_then [OF a r''(3,4)])
        (use f r'' in auto)
  qed simp
  show ?thesis
    unfolding destroy_present_def bindE_assoc
  proof (rule soft_then [where F = "\<lambda>rt. rt = ?rt"], goal_cases)
    case (4 rt)
    show ?case
      unfolding 4
      by (rule destroy_proof_then [OF auth [OF refl refl] live])
        (use destroying in \<open>simp only: prod.case bindE_assoc bindE_ret\<close>)
  qed (auto simp: mapE_ok intro: soft_intro pin_cell_runtime_fact)
qed

lemma soft_destroy_absent [soft_intro]: "soft (destroy_absent E inst r)"
  by (auto simp: destroy_absent_def intro!: soft_intro)

lemma destroy_absent_result: "destroy_absent E inst r w = (Inr r', w') \<Longrightarrow> r' = r"
  by (auto simp: destroy_absent_def bindE_ok ret_def throw_def split: if_splits)

lemma destroy_tombstone_valid:
  assumes "cell_state r = Cell_Destroyed"
  shows "validE (held r) (destroy_tombstone E r) (torn_down (cid r)) (\<lambda>_. I)"
  unfolding destroy_tombstone_def
  by (rule skip_then) (use assms in \<open>auto intro!: soft_intro validE_ret throw_valid settledI\<close>)

lemma destroy_unrecorded_valid: "validE (owned r) (destroy_unrecorded E r) Q (\<lambda>_. I)"
  unfolding destroy_unrecorded_def
  by (rule skip_then) (auto intro: soft_intro split: option.split)

lemma destroy_cell_locked_valid: "touch c \<Longrightarrow> validE I (destroy_cell_locked E c) (torn_down c) (\<lambda>_. I)"
  unfolding destroy_cell_locked_def
proof (rule load_then, assumption, goal_cases)
  case (1 r)
  have final: "validE (owned r') (bindE (liftR (validate_local_ownership_against E r' inst)) (\<lambda>_.
      bindE (persist E r' Cell_Destroyed Phase_Destroyed) (\<lambda>r. ret (operation_report_of r True)))) (torn_down c) (\<lambda>_. I)"
    if "cell_state r' \<noteq> Cell_Destroyed" "cid r' = c" for r' inst
  proof (rule check_then [OF stable_owned], rule owned_persist_then [OF same_cell_update])
    fix u r'' t assume r'': "r'' = r'\<lparr>cell_state := Cell_Destroyed, cell_phase := Phase_Destroyed, cell_updated_at := t\<rparr>"
    have "torn_down (cid r'') (operation_report_of r'' True) w" if "owned r'' w" for w
      by (rule settledI) (use that r'' in auto)
    with that(2) r'' show "validE (owned r'') (ret (operation_report_of r'' True)) (torn_down c) (\<lambda>_. I)"
      by (auto intro!: validE_ret)
  qed (use that in \<open>auto simp: lifecycle_of_def intro: lifecycle_step.destroyed\<close>)
  show ?case
  proof (rule validE_if)
    show "validE (held r) (destroy_tombstone E r) (torn_down c) (\<lambda>_. I)" if "cell_state r = Cell_Destroyed"
      using destroy_tombstone_valid [OF that] 1 by simp
    assume live: "cell_state r \<noteq> Cell_Destroyed"
    let ?rest = "\<lambda>inst. case cell_provider_object r of None \<Rightarrow> destroy_unrecorded E r
      | Some i \<Rightarrow> bindE (inspect_vm E (Lookup_Id (poi_id i))) (\<lambda>found.
          bindE (case found of Some vm \<Rightarrow> destroy_present E inst r vm | None \<Rightarrow> destroy_absent E inst r) (\<lambda>r.
          bindE (liftR (validate_local_ownership_against E r inst)) (\<lambda>_.
          bindE (persist E r Cell_Destroyed Phase_Destroyed) (\<lambda>r. ret (operation_report_of r True)))))"
    have rest: "validE (owned r) (?rest inst) (torn_down c) (\<lambda>_. I)"
      if "inst_install_id inst = own_install_id (cell_ownership r)" for inst
    proof (cases "cell_provider_object r")
      case None
      then show ?thesis by (simp add: destroy_unrecorded_valid)
    next
      case (Some i)
      show ?thesis
        unfolding Some option.case
      proof (rule skip_then, goal_cases)
        case (3 found)
        show ?case
          using live that final 1
          by (cases found) (auto intro!: destroy_present_then soft_then [where F = "\<lambda>r'. r' = r"]
              intro: soft_intro destroy_absent_result)
      qed (auto intro: soft_intro)
    qed
    show "validE (held r) (bindE (stE (acquire_installation_authority E)) (\<lambda>inst.
        bindE (liftR (validate_local_ownership_against E r inst)) (\<lambda>_. ?rest inst))) (torn_down c) (\<lambda>_. I)"
      by (rule installation_then) (auto intro: check_then rest dest: validate_local_ownership_against_ok)
  qed
qed

lemma destroy_cell_valid: "touch c \<Longrightarrow> validE I (destroy_cell E c) (torn_down c) (\<lambda>_. I)"
  unfolding destroy_cell_def by (intro check_then stable_I locked_post destroy_cell_locked_valid settled_I)

lemma destroy_cell_for_run_valid: "touch c \<Longrightarrow> validE I (destroy_cell_for_run E c) (torn_down c) (\<lambda>_. I)"
  unfolding destroy_cell_for_run_def
  by (intro check_then stable_I locked_post skip_then validE_if destroy_cell_locked_valid throw_valid soft_intro
      settled_I)

lemma gc_cell_valid:
  assumes "cell_provider r = provider_name E" "collectable E t ops r \<Longrightarrow> touch (cid r)"
  shows "validE I (gc_cell E t ops r) (\<lambda>_. I) (\<lambda>_. I)"
proof -
  have "validE I (bindE (attempt (destroy_cell_locked E (cid r))) (\<lambda>res. ret (gc_disposition_of res))) (\<lambda>_. I) (\<lambda>_. I)"
    if "collectable E t ops r"
    by (rule validE_bind [where I = "\<lambda>_. I"], rule validE_attempt, rule validE_weaken [OF destroy_cell_locked_valid])
      (use assms(2) that in \<open>auto intro: end_valid settled_I\<close>)
  with assms(1) show ?thesis
    unfolding gc_cell_def by (auto simp: collectable_def intro: end_valid split: option.split)
qed

lemma gc_cells_valid:
  "\<forall>r \<in> set rs. collectable E t ops r \<longrightarrow> touch (cid r) \<Longrightarrow> validE I (gc_cells E t ops rs) (\<lambda>_. I) (\<lambda>_. I)"
proof (induction rs)
  case (Cons r rs)
  then show ?case
    by (auto intro!: validE_if validE_bind [OF gc_cell_valid] validE_bind [OF Cons.IH] end_valid)
qed (auto intro: end_valid)

lemma gc_expired_at_valid:
  assumes "\<And>w ops cells. I w \<Longrightarrow> list_guest_operations_from (env_crates E) (fe_root E) (w_store w) = Inr ops \<Longrightarrow>
      list_cells_from (env_crates E) (fe_root E) (w_store w) = Inr cells \<Longrightarrow>
      \<forall>r \<in> set cells. collectable E t ops r \<longrightarrow> touch (cid r)"
  shows "validE I (gc_expired_at E t) (\<lambda>_. I) (\<lambda>_. I)"
proof -
  have stable: "stable (\<lambda>w. I w \<and> list_guest_operations_from (env_crates E) (fe_root E) (w_store w) = Inr ops)" for ops
  proof -
    have "list_guest_operations_from X root (w_store w') = list_guest_operations_from X root (w_store w)"
      if "soft_step w w'" for X root and w w' :: "('p, 'z) engine_world_scheme"
      using soft_step_store [OF that] validate_operation_parent_binding_cong [of "w_store w'" "w_store w" X root]
      by (simp add: list_guest_operations_from_def)
    then show ?thesis using I_soft by (auto simp: stable_def)
  qed
  have ops_then: "validE I (bindE (stE (list_guest_operations E)) g) (\<lambda>_. I) (\<lambda>_. I)"
    if "\<And>ops. validE (\<lambda>w. I w \<and> list_guest_operations_from (env_crates E) (fe_root E) (w_store w) = Inr ops)
      (g ops) (\<lambda>_. I) (\<lambda>_. I)" for g
  proof (rule validE_bind [OF _ that], rule validE_mapE, unfold validE_def, intro allI impI)
    fix w assume I: "I w"
    obtain res w' where run: "list_guest_operations E w = (res, w')" by (cases "list_guest_operations E w") auto
    have "list_guest_operations_from (env_crates E) (fe_root E) (w_store w') = Inr x" "w_store w' = w_store w"
      if "res = Inr x" for x
      using run that by (auto simp: list_guest_operations_def read_op_run split: option.splits)
    moreover have "soft_step w w'"
      by (rule softD [of "list_guest_operations E" w res w']) (auto intro: soft_intro run)
    then have "I w'" by (rule I_soft [OF I])
    ultimately show "case list_guest_operations E w of (Inl e, w') \<Rightarrow> I w' | (Inr x, w') \<Rightarrow> I w'
        \<and> list_guest_operations_from (env_crates E) (fe_root E) (w_store w') = Inr x"
      using run by (cases res) auto
  qed
  show ?thesis
    unfolding gc_expired_at_def
  proof (rule check_then [OF stable_I], rule locked, rule ops_then, goal_cases)
    case (1 u ops)
    show ?case
    proof (rule soft_then [where F = "\<lambda>cells. \<forall>r \<in> set cells. collectable E t ops r \<longrightarrow> touch (cid r)", OF _ stable], goal_cases)
      case (3 cells)
      show ?case
        by (rule validE_pre [OF validE_bind [OF gc_cells_valid [OF 3]]]) (auto intro: end_valid)
    qed (auto simp: mapE_ok list_cells_def intro: soft_intro dest!: read_op_ok assms)
  qed
qed

text \<open>Creating.\<close>

lemma fail_then: "creating r \<Longrightarrow> validE (owned r) (fail_record E r e) Q (\<lambda>_. I)"
  by (rule validE_pre [OF fail_valid]) auto

lemma create_overlay_step_then:
  assumes "provider_authority_new r inst rt = cell_authority r"
    and phase: "lifecycle_of r = (Cell_Creating, Phase_IntentRecorded)"
    and f: "\<And>r'. successor r r' Phase_OverlayCreated \<Longrightarrow> validE (owned r') (f r') Q (\<lambda>_. I)"
  shows "validE (owned r) (bindE (create_overlay_step E inst rt r) f) Q (\<lambda>_. I)"
proof -
  have c: "creating r" using phase by (simp add: creating_def lifecycle_of_def)
  have call: "owned r w \<Longrightarrow> ready_call w (Call_CreateOverlay (cell_authority r) (overlay_request_of r))" for w
    using phase owned_authority [of r w] by (auto simp: ready_call_def vm_call_ok_def)
  have next_phase: "validE (owned r) (bindE (persist E r (cell_state r) Phase_OverlayCreated) f) Q (\<lambda>_. I)"
    by (rule owned_persist_then [OF same_cell_update])
      (use phase in \<open>auto simp: lifecycle_of_def successor_def provisioned_def intro: lifecycle_step.overlay f\<close>)
  show ?thesis
    unfolding create_overlay_step_def Let_def bindE_assoc assms(1)
  proof (rule skip_then, goal_cases)
    case (3 found)
    show ?case
    proof (cases found)
      case None
      then show ?thesis
        by (simp add: bindE_assoc) (intro or_fail_soft [where F = "\<lambda>_. True", OF c] or_fail_call [OF c]
            call next_phase soft_intro TrueI)
    qed (simp add: fail_then [OF c])
  qed (auto intro: soft_intro)
qed

lemma create_vm_step_then:
  assumes "provider_authority_new r inst rt = cell_authority r"
    and phase: "lifecycle_of r = (Cell_Creating, Phase_OverlayCreated)"
    and f: "\<And>r'. successor r r' Phase_ProviderObjectCreated \<Longrightarrow> validE (owned r') (f r') Q (\<lambda>_. I)"
  shows "validE (owned r) (bindE (create_vm_step E inst rt r) f) Q (\<lambda>_. I)"
proof -
  have c: "creating r" using phase by (simp add: creating_def lifecycle_of_def)
  have call: "owned r w \<Longrightarrow> ready_call w (Call_CreateVm (cell_authority r) (create_request_of r))" for w
    using phase owned_authority [of r w] by (auto simp: ready_call_def vm_call_ok_def)
  have next_phase: "validE (owned r) (bindE (persist E (r\<lparr>cell_provider_object := po\<rparr>) (cell_state r)
      Phase_ProviderObjectCreated) f) Q (\<lambda>_. I)" for po
    by (rule owned_persist_then)
      (use phase in \<open>auto simp: lifecycle_of_def successor_def provisioned_def same_cell_def intro: lifecycle_step.object f\<close>)
  show ?thesis
    unfolding create_vm_step_def Let_def bindE_assoc assms(1)
    by (intro or_fail_call [OF c] call or_fail_soft [where F = "\<lambda>_. True", OF c] next_phase soft_intro TrueI)
qed

lemma claim_vm_step_then:
  assumes "provider_authority_new r inst rt = cell_authority r"
    and phase: "lifecycle_of r = (Cell_Creating, Phase_ProviderObjectCreated)"
    and f: "\<And>r' vm. successor r r' Phase_ProviderObjectClaimed \<Longrightarrow>
      prove_creation_identity (fe_host E) r' vm True = Inr () \<Longrightarrow> validE (owned r') (f (r', vm)) Q (\<lambda>_. I)"
  shows "validE (owned r) (bindE (claim_vm_step E inst rt r) f) Q (\<lambda>_. I)"
proof -
  have c: "creating r" using phase by (simp add: creating_def lifecycle_of_def)
  have call: "owned r w \<Longrightarrow> ready_call w (Call_ClaimVm (cell_authority r)
      \<lparr>cl_expected = vm, cl_ownership_marker = own_provider_marker (cell_ownership r)\<rparr>)"
    if "prove_creation_identity (fe_host E) r vm False = Inr ()" for w vm
    using phase that owned_authority [of r w] by (auto simp: ready_call_def vm_call_ok_def lifecycle_of_def)
  have next_phase: "validE (owned r) (bindE (persist E r (cell_state r) Phase_ProviderObjectClaimed)
      (\<lambda>r. f (r, vm))) Q (\<lambda>_. I)"
    if "prove_creation_identity (fe_host E) r vm True = Inr ()" for vm
    by (rule owned_persist_then [OF same_cell_update])
      (use phase that in \<open>auto simp: lifecycle_of_def successor_def provisioned_def prove_creation_identity_ok
        intro!: lifecycle_step.claim f\<close>)
  have proven: "validE (owned r) (bindE (or_fail E r (liftR (prove_creation_identity (fe_host E) r vm m))) g) Q (\<lambda>_. I)"
    if "prove_creation_identity (fe_host E) r vm m = Inr () \<Longrightarrow> validE (owned r) (g ()) Q (\<lambda>_. I)" for vm m g
    by (rule or_fail_soft [where F = "\<lambda>_. prove_creation_identity (fe_host E) r vm m = Inr ()", OF c])
      (use that in \<open>auto intro: soft_intro\<close>)
  show ?thesis
    unfolding claim_vm_step_def Let_def bindE_assoc assms(1)
  proof (rule skip_then, goal_cases)
    case (3 found)
    show ?case
    proof (cases found)
      case (Some vm)
      then show ?thesis
        by (auto simp: bindE_assoc intro!: proven or_fail_call [OF c] call next_phase fail_then c)
    qed (simp add: fail_then [OF c])
  qed (auto intro: soft_intro)
qed

lemma configure_vm_step_valid:
  assumes "provider_authority_new r inst rt = cell_authority r"
    and phase: "lifecycle_of r = (Cell_Creating, Phase_ProviderObjectClaimed)"
    and vm: "prove_creation_identity (fe_host E) r vm True = Inr ()"
  shows "validE (owned r) (configure_vm_step E inst rt r vm)
    (\<lambda>r' w. held r' w \<and> provisioned r r' \<and> lifecycle_of r' = (Cell_Stopped, Phase_Ready)) (\<lambda>_. I)"
    (is "validE _ _ ?Q _")
proof -
  have c: "creating r" using phase by (simp add: creating_def lifecycle_of_def)
  have call: "owned r w \<Longrightarrow> ready_call w (Call_ConfigureVm (cell_authority r)
      \<lparr>cf_expected = vm, cf_cpu_count = spec_cpu_count (cell_spec r)\<rparr>)" for w
    using phase vm owned_authority [of r w] by (auto simp: ready_call_def vm_call_ok_def)
  have "validE (owned r) (bindE (persist E r Cell_Stopped Phase_Ready) ret) ?Q (\<lambda>_. I)"
    by (rule owned_persist_then [OF same_cell_update])
      (use phase in \<open>auto simp: lifecycle_of_def provisioned_def intro: lifecycle_step.ready intro!: validE_ret\<close>)
  then have "validE (owned r) (persist E r Cell_Stopped Phase_Ready) ?Q (\<lambda>_. I)"
    by (simp add: bindE_ret_right)
  then show ?thesis
    unfolding configure_vm_step_def Let_def assms(1)
    by (intro or_fail_call [OF c] call or_fail_soft [where F = "\<lambda>_. True", OF c] soft_intro TrueI)
qed

lemma intent_then:
  assumes "is_intent r" "may_create (cid r) \<and> touch (cid r)" "validE (owned r) (f ()) Q (\<lambda>_. I)"
  shows "validE (\<lambda>w. I w \<and> installed E (own_install_id (cell_ownership r)) (w_store w) \<and> image_bound E (w_store w) r)
    (bindE (save_cell E r) f) Q (\<lambda>_. I)"
proof (rule validE_bind)
  show "validE (\<lambda>w. I w \<and> installed E (own_install_id (cell_ownership r)) (w_store w) \<and> image_bound E (w_store w) r)
      (save_cell E r) (\<lambda>_. owned r) (\<lambda>_. I)"
    unfolding validE_def
  proof (intro allI impI)
    fix w assume w: "I w \<and> installed E (own_install_id (cell_ownership r)) (w_store w) \<and> image_bound E (w_store w) r"
    obtain res w' where run: "save_cell E r w = (res, w')" by (cases "save_cell E r w") auto
    have "redact_cell_diagnostic r = r"
      using assms(1) by (simp add: is_intent_def redact_cell_diagnostic_def)
    moreover have "engine_write E may_create (w_store w) r"
      using assms(1,2) w by (simp add: engine_write_def)
    ultimately show "case save_cell E r w of (Inl e, w') \<Rightarrow> I w' | (Inr x, w') \<Rightarrow> owned r w'"
      using save_effect [OF _ _ _ run] w run assms(2) by (cases res) (auto simp: owned_def held_def)
  qed
  show "validE (owned r) (f x) Q (\<lambda>_. I)" for x using assms(3) by simp
qed

lemma provision_cell_valid:
  assumes "is_intent r" "may_create (cid r) \<and> touch (cid r)" "inst_install_id inst = own_install_id (cell_ownership r)"
  shows "validE (\<lambda>w. I w \<and> installed E (inst_install_id inst) (w_store w) \<and> image_bound E (w_store w) r) (provision_cell E inst r)
    (\<lambda>r' w. held r' w \<and> provisioned r r' \<and> lifecycle_of r' = (Cell_Stopped, Phase_Ready)) (\<lambda>_. I)"
proof -
  let ?rt = "\<lparr>rt_cell_id = cid r, rt_configuration_path = own_configuration_path (cell_ownership r),
      rt_overlay_path = own_overlay_path (cell_ownership r)\<rparr>"
  have auth: "provider_authority_new r' inst ?rt = cell_authority r'"
    if "cid r' = cid r" "cell_ownership r' = cell_ownership r" for r'
    using that assms(3) by (intro authority_of_guards) simp_all
  have phase: "lifecycle_of r = (Cell_Creating, Phase_IntentRecorded)" "creating r"
    using assms(1) by (auto simp: is_intent_def creating_def lifecycle_of_def)
  show ?thesis
    unfolding provision_cell_def assms(3)
  proof (rule intent_then [OF assms(1,2)], rule or_fail_soft [where F = "\<lambda>rt. rt = ?rt", OF phase(2)], goal_cases)
    case (3 rt)
    show ?case
      unfolding 3
    proof (rule create_overlay_step_then [OF auth [OF refl refl] phase(1)], rule create_vm_step_then,
        goal_cases)
      case (3 r1 r2)
      then have r2: "cid r2 = cid r" "cell_ownership r2 = cell_ownership r"
        "lifecycle_of r2 = (Cell_Creating, Phase_ProviderObjectCreated)" by (auto simp: successor_def provisioned_def)
      show ?case
        using 3 r2 by (intro claim_vm_step_then [OF auth [OF r2(1,2)] r2(3)])
          (auto simp: successor_def provisioned_def intro!: validE_weaken [OF configure_vm_step_valid] auth)
    qed (auto simp: successor_def provisioned_def intro!: auth)
  qed (auto simp: mapE_ok intro: soft_intro prepare_cell_runtime_fact)
qed

text \<open>The image is loaded under the lock and stays registered until the intent is recorded.\<close>

abbreviation imaged :: "image_id \<Rightarrow> image_record \<Rightarrow> ('p, 'z) engine_world_scheme \<Rightarrow> bool" where
  "imaged i img w \<equiv> I w \<and> load_image_from (fe_root E) (w_store w) i = Inr img"

lemma load_image_then:
  assumes "\<And>img. validE (imaged i img) (f img) Q (\<lambda>_. I)"
  shows "validE I (bindE (stE (load_image E i)) f) Q (\<lambda>_. I)"
proof (rule validE_bind [OF _ assms], rule validE_mapE, unfold validE_def, intro allI impI)
  fix w assume "I w"
  then show "case load_image E i w of (Inl e, w') \<Rightarrow> I w' | (Inr img, w') \<Rightarrow> imaged i img w'"
    using I_soft [OF _ soft_step_tick [of w "Suc (w_tick w)"]]
    by (auto simp: load_image_def read_op_run split: sum.split option.split)
qed

lemma provider_variant_mem: "provider_variant img p = Inr v \<Longrightarrow> v \<in> set (img_variants img)"
proof (unfold provider_variant_def, goal_cases)
  case 1
  then have "filter (\<lambda>v. var_provider v = p) (img_variants img) = [v]" by (auto split: list.splits)
  then have "v \<in> set (filter (\<lambda>v. var_provider v = p) (img_variants img))" by simp
  then show ?case by simp
qed

lemma load_image_id: "load_image_from root st i = Inr img \<Longrightarrow> img_id img = i"
  by (auto simp: load_image_from_def Let_def)

lemma stable_imaged [intro, simp]: "stable (imaged i img)"
  using I_soft by (auto simp: stable_def soft_step_store)

lemma installation_imaged: "validE (imaged i img) (stE (installation_with_mutation E)) (\<lambda>_. imaged i img) (\<lambda>_. I)"
proof -
  have wr: "validE (imaged i img) (write_atomic E (\<lambda>st. st\<lparr>sto_installation := Some (Doc inst)\<rparr>)) (\<lambda>_. imaged i img) (\<lambda>_. I)" for inst
    unfolding validE_def
  proof (intro allI impI)
    fix w assume I: "imaged i img w"
    let ?w = "w\<lparr>w_store := (w_store w)\<lparr>sto_installation := Some (Doc inst)\<rparr>\<rparr>"
    have "imaged i img (w\<lparr>w_tick := n\<rparr>)" "imaged i img (?w\<lparr>w_tick := n\<rparr>)" for n
      using I I_soft [of w, OF _ soft_step_tick] I_soft [OF I_install [of w] soft_step_tick]
      by (auto simp: load_image_from_def)
    then show "case write_atomic E (\<lambda>st. st\<lparr>sto_installation := Some (Doc inst)\<rparr>) w of
        (Inl e, w') \<Rightarrow> I w' | (Inr x, w') \<Rightarrow> imaged i img w'"
      by (auto simp: write_atomic_run Let_def world_swap split: fs_write_outcome.split)
  qed
  have "validE (imaged i img) (installation_with_mutation E) (\<lambda>_. imaged i img) (\<lambda>_. I)"
    unfolding installation_with_mutation_def with_mutation_def validate_mutation_guard_def bindE_assoc bindE_if Let_def
    by (intro validE_bind [OF wr] skip_then stable_imaged validE_if validE_ret soft_intro)
  then show ?thesis by (rule validE_mapE)
qed

lemma authority_imaged:
  "validE (imaged i img) (stE (acquire_installation_authority E))
     (\<lambda>inst w. imaged i img w \<and> installed E (inst_install_id inst) (w_store w)) (\<lambda>_. I)"
proof (rule validE_mapE, unfold validE_def, intro allI impI)
  fix w assume I: "imaged i img w"
  obtain res w' where run: "acquire_installation_authority E w = (res, w')"
    by (cases "acquire_installation_authority E w") auto
  have soft: "soft_step w w'"
    by (rule softD [of "acquire_installation_authority E" w res w']) (auto intro: soft_intro run)
  with run I I_soft [OF _ soft] acquire_installation_fact [of E w]
  show "case acquire_installation_authority E w of (Inl e, w') \<Rightarrow> I w'
      | (Inr inst, w') \<Rightarrow> imaged i img w' \<and> installed E (inst_install_id inst) (w_store w')"
    by (cases res) (auto simp: soft_step_store)
qed

lemma create_cell_with_id_valid:
  assumes "may_create c" "touch c"
  shows "validE I (create_cell_with_id E spec c job)
    (\<lambda>r w. held r w \<and> cid r = c \<and> cell_spec r = spec \<and> cell_job r = job \<and> cell_provider r = provider_name E
       \<and> lifecycle_of r = (Cell_Stopped, Phase_Ready)) (\<lambda>_. I)" (is "validE _ _ ?Q _")
proof -
  let ?new = "new_cell_record E spec c job"
  have stable: "stable (\<lambda>w. imaged i img w \<and> installed E j (w_store w))" for i img j
    using I_soft by (auto simp: stable_def soft_step_store)
  have intent: "is_intent (?new img v i op now)" "cid (?new img v i op now) = c"
    "own_install_id (cell_ownership (?new img v i op now)) = i" for img v i op now
    by (simp_all add: new_cell_record_def is_intent_def lifecycle_of_def cell_ownership_new_def)
  have bound: "image_bound E st (?new img v i op now)"
    if "load_image_from (fe_root E) st (spec_image spec) = Inr img" "provider_variant img (provider_name E) = Inr v" for st img v i op now
    using that load_image_id [OF that(1)] provider_variant_mem [OF that(2)]
    by (auto simp: image_bound_def new_cell_record_def binding_from_variant_def)
  have provision: "validE (\<lambda>w. imaged (spec_image spec) img w \<and> installed E (inst_install_id inst) (w_store w))
      (provision_cell E inst (?new img v i op now)) ?Q (\<lambda>_. I)"
    if "i = inst_install_id inst" "provider_variant img (provider_name E) = Inr v" for inst img v i op now
    by (rule validE_weaken [OF provision_cell_valid])
      (use assms intent that bound in \<open>auto simp: provisioned_def new_cell_record_def\<close>)
  show ?thesis
    unfolding create_cell_with_id_def
    by (intro load_image_then skip_then check_then stable_I stable_imaged stable locked_post validE_bind [OF installation_imaged]
        validE_bind [OF authority_imaged] validE_if throw_valid provision soft_intro)
      (auto intro: held_lock)
qed

end

end
