(* ===== verification/EngineProperties.thy ===== *)
theory EngineProperties
  imports EngineSafety
begin

section \<open>Properties of the engine\<close>

text \<open>
  The engine's commands on cells; the invariants their theorems use (every recorded provider call was authorized; the history
  of one cell is a path of \<open>cell_step\<close>; a cell outside the reach of a collection is untouched) and what follows from
  a history.
\<close>

subsection \<open>Commands\<close>

datatype engine_command =
  Cmd_Create cell_spec cell_id "job_correlation option"
| Cmd_Start cell_id
| Cmd_Stop cell_id
| Cmd_Destroy cell_id
| Cmd_DestroyForRun cell_id
| Cmd_Gc time
| Cmd_Inspect cell_id

definition discard :: "('w, 'e, 'a) eff \<Rightarrow> ('w, 'e, unit) eff" where
  "discard m = bindE m (\<lambda>_. ret ())"

fun run_command ::
  "('p, 'y) engine_env_scheme \<Rightarrow> engine_command \<Rightarrow> (('p, 'z) engine_world_scheme, engine_error, unit) eff" where
  "run_command E (Cmd_Create spec c job) = discard (create_cell_with_id E spec c job)"
| "run_command E (Cmd_Start c) = discard (start_cell E c)"
| "run_command E (Cmd_Stop c) = discard (stop_cell E c)"
| "run_command E (Cmd_Destroy c) = discard (destroy_cell E c)"
| "run_command E (Cmd_DestroyForRun c) = discard (destroy_cell_for_run E c)"
| "run_command E (Cmd_Gc t) = discard (gc_expired_at E t)"
| "run_command E (Cmd_Inspect c) = discard (inspect_cell E c)"

fun creates :: "engine_command \<Rightarrow> cell_id option" where
  "creates (Cmd_Create spec c job) = Some c"
| "creates _ = None"

lemma snd_discard: "snd (discard m w) = snd (m w)"
  by (simp add: discard_def bindE_def ret_def split: prod.split sum.split)

lemma validE_snd: "validE I m Q R \<Longrightarrow> I w \<Longrightarrow> (\<And>x w. Q x w \<Longrightarrow> I' w) \<Longrightarrow> (\<And>e w. R e w \<Longrightarrow> I' w) \<Longrightarrow> I' (snd (m w))"
  unfolding validE_def by (cases "m w"; cases "fst (m w)") force+

lemma soft_inspect_cell [soft_intro]: "soft (inspect_cell E c)"
  by (auto simp: inspect_cell_def intro!: soft_intro)

context engine_invariant
begin

lemma run_command_I:
  assumes "I w" "\<And>c. touch c" "\<And>c. creates cmd = Some c \<Longrightarrow> may_create c"
  shows "I (snd (run_command E cmd w))"
proof (cases cmd)
  case (Cmd_Create spec c job)
  then show ?thesis
    using validE_snd [OF create_cell_with_id_valid [of c spec job] assms(1), of I] assms(2,3)
    by (auto simp: snd_discard)
next
  case (Cmd_Start c)
  then show ?thesis using validE_snd [OF start_cell_valid [of c] assms(1), of I] assms(2) by (auto simp: snd_discard settled_I)
next
  case (Cmd_Stop c)
  then show ?thesis using validE_snd [OF stop_cell_valid [of c] assms(1), of I] assms(2) by (auto simp: snd_discard settled_I)
next
  case (Cmd_Destroy c)
  then show ?thesis
    using validE_snd [OF destroy_cell_valid [of c] assms(1), of I] assms(2) by (auto simp: snd_discard settled_I)
next
  case (Cmd_DestroyForRun c)
  then show ?thesis
    using validE_snd [OF destroy_cell_for_run_valid [of c] assms(1), of I] assms(2)
    by (auto simp: snd_discard settled_I)
next
  case (Cmd_Gc t)
  then show ?thesis
    using validE_snd [OF gc_expired_at_valid [of t] assms(1)] assms(2) by (auto simp: snd_discard)
next
  case (Cmd_Inspect c)
  have "soft (inspect_cell E c)" by (rule soft_intro)
  then show ?thesis using Cmd_Inspect assms(1) I_soft by (auto simp: snd_discard soft_def)
qed

end

subsection \<open>The invariants\<close>

definition authorized :: "('p, 'y) engine_env_scheme \<Rightarrow> (engine_call \<times> store) list \<Rightarrow> bool" where
  "authorized E tr \<longleftrightarrow> (\<forall>(call, st) \<in> set tr. call_ok E st call)"

definition cell_step :: "cell_record \<Rightarrow> cell_record \<Rightarrow> bool" where
  "cell_step r r' \<longleftrightarrow> same_cell r r' \<and> lifecycle_step (lifecycle_of r) (lifecycle_of r')"

definition history :: "('p, 'y) engine_env_scheme \<Rightarrow> cell_record \<Rightarrow> ('p, 'z) engine_world_scheme \<Rightarrow> bool" where
  "history E r0 w \<longleftrightarrow> (\<exists>r. load_cell_from (env_crates E) (fe_root E) (w_store w) (cid r0) = Inr r \<and> cell_step\<^sup>*\<^sup>* r0 r)"

definition untouched ::
  "('p, 'y) engine_env_scheme \<Rightarrow> ('p, 'z) engine_world_scheme \<Rightarrow> cell_id \<Rightarrow> ('p, 'z) engine_world_scheme \<Rightarrow> bool" where
  "untouched E w0 c w \<longleftrightarrow>
     load_cell_from (env_crates E) (fe_root E) (w_store w) c = load_cell_from (env_crates E) (fe_root E) (w_store w0) c
     \<and> is_ok (load_cell_from (env_crates E) (fe_root E) (w_store w0) c)
     \<and> sto_operations (w_store w) = sto_operations (w_store w0)
     \<and> (\<exists>tr. ew_trace w = tr @ ew_trace w0 \<and> (\<forall>(call, st) \<in> set tr. pa_cell_id (call_authority call) \<noteq> c))"

lemma soft_step_cells_ok: "cells_ok E w \<Longrightarrow> soft_step w w' \<Longrightarrow> cells_ok E w'"
  by (simp add: soft_step_store)

lemma load_cell_install: "load_cell_from X root (st\<lparr>sto_installation := d\<rparr>) = load_cell_from X root st"
  by (rule load_cell_from_cong) simp

lemma sto_cells_install: "sto_cells (st\<lparr>sto_installation := d\<rparr>) = sto_cells st"
  by simp

lemma same_cell_redact [simp]: "same_cell r (redact_cell_diagnostic r') = same_cell r r'"
  by (simp add: same_cell_def) (simp add: redact_cell_diagnostic_def)

lemma lifecycle_of_redact [simp]: "lifecycle_of (redact_cell_diagnostic r) = lifecycle_of r"
  by (simp add: lifecycle_of_def)

lemma engine_write_load:
  assumes "cells_ok E w" "save_cell_check (env_crates E) (fe_root E) (w_store w) r = Inr r'"
    "load_cell_from (env_crates E) (fe_root E) (w_store w) c = Inr x"
  shows "dir_ok (sto_cells (put_cell (env_crates E) r' (w_store w))) \<and> r' = redact_cell_diagnostic r
    \<and> load_cell_from (env_crates E) (fe_root E) (put_cell (env_crates E) r' (w_store w)) c
        = Inr (if c = cid r then r' else x)"
proof -
  have r': "r' = redact_cell_diagnostic r" using save_cell_check_ok [OF _ _ assms(2)] assms(1) by simp
  show ?thesis
    using assms(1) dir_ok_put_cell [of "env_crates E" "w_store w" r'] r'
      cells.load_put [OF assms(1,2)] cells.load_put_other [OF assms(1,2) _ assms(3)] by auto
qed

lemma history_write:
  assumes I: "cells_ok E w" "history E r0 w" and wr: "engine_write E (\<lambda>c. c \<noteq> cid r0) (w_store w) r"
    and chk: "save_cell_check (env_crates E) (fe_root E) (w_store w) r = Inr r'"
  shows "history E r0 (w\<lparr>w_store := put_cell (env_crates E) r' (w_store w)\<rparr>)"
proof -
  from I obtain x where x: "load_cell_from (env_crates E) (fe_root E) (w_store w) (cid r0) = Inr x" "cell_step\<^sup>*\<^sup>* r0 x"
    by (auto simp: history_def)
  note put = engine_write_load [OF _ chk x(1)]
  have "cell_step x r'" if "cid r0 = cid r"
    using wr that x(1) put I by (auto simp: engine_write_def cell_step_def)
  with I put x(2) show ?thesis
    by (auto simp: history_def intro: rtranclp.rtrancl_into_rtrancl)
qed

interpretation frame: engine_invariant E
  "\<lambda>w. cells_ok E w \<and> untouched E w0 c w" "\<lambda>c'. c' \<noteq> c" "\<lambda>c'. c' \<noteq> c" for E w0 c
proof
  fix w r r' assume I: "cells_ok E w \<and> untouched E w0 c w" and other: "cid r \<noteq> c"
    and chk: "save_cell_check (env_crates E) (fe_root E) (w_store w) r = Inr r'"
  then obtain x where x: "load_cell_from (env_crates E) (fe_root E) (w_store w) c = Inr x"
    by (auto simp: untouched_def is_ok_iff)
  with I other engine_write_load [OF _ chk x] show "cells_ok E (w\<lparr>w_store := put_cell (env_crates E) r' (w_store w)\<rparr>)
    \<and> untouched E w0 c (w\<lparr>w_store := put_cell (env_crates E) r' (w_store w)\<rparr>)"
    by (auto simp: untouched_def)
next
  fix w call assume "cells_ok E w \<and> untouched E w0 c w" "pa_cell_id (call_authority call) \<noteq> c"
  then show "cells_ok E (w\<lparr>ew_trace := (call, w_store w) # ew_trace w\<rparr>)
    \<and> untouched E w0 c (w\<lparr>ew_trace := (call, w_store w) # ew_trace w\<rparr>)"
    unfolding untouched_def by (auto intro: exI [of _ "(call, w_store w) # _"])
qed (auto simp: soft_step_store untouched_def load_cell_install)

subsection \<open>Consequences of a history\<close>

lemma lifecycle_step_final: "\<not> lifecycle_step (Cell_Destroyed, ph) x"
  by (auto elim: lifecycle_stepE)

lemma cell_step_final: "cell_state r = Cell_Destroyed \<Longrightarrow> \<not> cell_step r r'"
  by (simp add: cell_step_def lifecycle_of_def lifecycle_step_final)

lemma history_final: "cell_step\<^sup>*\<^sup>* r r' \<Longrightarrow> cell_state r = Cell_Destroyed \<Longrightarrow> r' = r"
  by (induction rule: rtranclp_induct) (auto dest: cell_step_final)

lemma history_same:
  assumes "cell_step\<^sup>*\<^sup>* r r'"
  shows "provisioned r r' \<and> lifecycle_step\<^sup>*\<^sup>* (lifecycle_of r) (lifecycle_of r')"
  using assms
proof (induction rule: rtranclp_induct)
  case (step y z)
  then show ?case by (auto simp: provisioned_def cell_step_def same_cell_def intro: rtranclp.rtrancl_into_rtrancl)
qed (simp add: provisioned_def)

definition before_object :: "cell_phase \<Rightarrow> bool" where
  "before_object ph \<longleftrightarrow> ph \<in> {Phase_IntentRecorded, Phase_OverlayCreated}"

lemma lifecycle_step_object: "lifecycle_step (s, ph) (s', ph') \<Longrightarrow> \<not> before_object ph \<Longrightarrow> \<not> before_object ph'"
  by (auto simp: before_object_def elim!: lifecycle_stepE)

lemma history_object:
  assumes "cell_step\<^sup>*\<^sup>* r r'" "\<not> before_object (cell_phase r)"
  shows "cell_provider_object r' = cell_provider_object r \<and> \<not> before_object (cell_phase r')"
  using assms
proof (induction rule: rtranclp_induct)
  case (step y z)
  then have "\<not> before_object (cell_phase z)"
    using lifecycle_step_object unfolding cell_step_def lifecycle_of_def by blast
  with step show ?case by (auto simp: cell_step_def same_cell_def before_object_def)
qed simp

text \<open>Reaching a torn-down region.\<close>

lemma lifecycle_steps_doomed:
  "lifecycle_step\<^sup>*\<^sup>* a b \<Longrightarrow> fst a \<in> {Cell_Destroying, Cell_Failed, Cell_Destroyed} \<Longrightarrow>
     fst b \<in> {Cell_Destroying, Cell_Failed, Cell_Destroyed}"
  by (induction rule: rtranclp_induct) (auto elim!: lifecycle_stepE)

subsection \<open>Cells a collection must spare\<close>

definition spared :: "('p, 'y) engine_env_scheme \<Rightarrow> time \<Rightarrow> store \<Rightarrow> cell_record \<Rightarrow> bool" where
  "spared E t st r \<longleftrightarrow> cell_provider r \<noteq> provider_name E \<or> cell_expires_at r = None
     \<or> (\<exists>x. cell_expires_at r = Some x \<and> t < x)
     \<or> (\<exists>op \<in> dir_docs (sto_operations st). op_cell_id op = cid r \<and> \<not> is_terminal (op_phase op))"

lemma listed_cell_loads:
  assumes "uuid_laws X" "dir_ok (sto_cells st)" "list_cells_from X root st = Inr cells" "r \<in> set cells"
    "load_cell_from X root st (cid r) = Inr x"
  shows "r = x"
proof -
  have valid: "cells_valid X root st" and cells: "cells = map redact_cell_diagnostic (map (doc_at (sto_cells st)) (json_names (sto_cells st)))"
    using assms(3) by (auto simp: list_cells_from_def read_cells_ok)
  then obtain r0 where r0: "r = redact_cell_diagnostic r0" "r0 \<in> dir_docs (sto_cells st)"
    using assms(4) dir_docs_listing [OF valid [unfolded cells_valid_def]] by auto
  with assms(5) show ?thesis
    by (auto simp: load_cell_from_ok [OF assms(1,2)] cell_docs_key [OF assms(1,2) valid])
qed

lemma listed_operations:
  assumes "list_guest_operations_from X root st = Inr ops"
  shows "set ops = dir_docs (sto_operations st)"
proof -
  have "dir_valid (path_join root ''operations'') (sto_operations st) (validate_guest_operation_schema X)"
    "ops = map (doc_at (sto_operations st)) (json_names (sto_operations st))"
    using assms by (auto simp: list_guest_operations_from_def read_json_directory_ok)
  with dir_docs_listing show ?thesis by blast
qed

lemma spared_not_collectable:
  assumes "cells_ok E w" "list_guest_operations_from (env_crates E) (fe_root E) (w_store w) = Inr ops"
    "list_cells_from (env_crates E) (fe_root E) (w_store w) = Inr cells"
    "load_cell_from (env_crates E) (fe_root E) (w_store w) c = Inr r" "spared E t (w_store w) r"
    "q \<in> set cells" "collectable E t ops q"
  shows "cid q \<noteq> c"
proof
  assume q: "cid q = c"
  then have "q = r" using listed_cell_loads [of _ "w_store w"] assms(1,3,4,6) by blast
  with assms(5,7) q listed_operations [OF assms(2)] show False
    by (auto simp: spared_def collectable_def in_flight_def list_ex_iff)
qed


subsection \<open>A worked engine\<close>

text \<open>A provider with one machine: creating it defines the machine, claiming writes the marker, configuring sets
  its processors, and the power operations and removal act on it.\<close>

definition one_vm_provider :: "provider_vm option provider" where
  "one_vm_provider = (default_provider ''qemu'' (\<lambda>_. sample_probe))\<lparr>
     pv_inspect_image := (\<lambda>p. ret \<lparr>pi_path = p, pi_disk_format = ''qcow2'', pi_disk_type = ''base'',
       pi_parent_path = None, pi_file_size = 1024, pi_virtual_size = 4096\<rparr>),
     pv_create_overlay := (\<lambda>_ q. ret \<lparr>pi_path = co_overlay_path q, pi_disk_format = ''qcow2'', pi_disk_type = ''overlay'',
       pi_parent_path = Some (co_parent_path q), pi_file_size = 1, pi_virtual_size = 4096\<rparr>),
     pv_create_vm := (\<lambda>_ q. bindE (modify (\<lambda>_. Some \<lparr>vm_id = uuid_to_string canonical_crates 11, vm_name = cv_name q,
         vm_power_state = Power_Off, vm_ownership_marker = [], vm_configuration_path = cv_configuration_path q,
         vm_attached_disks = [cv_overlay_path q], vm_network_adapter_count = 0, vm_cpu_count = 1,
         vm_memory_mib = cv_memory_mib q\<rparr>))
       (\<lambda>_. ret \<lparr>vi_id = uuid_to_string canonical_crates 11, vi_name = cv_name q\<rparr>)),
     pv_claim_vm := (\<lambda>_ q. let vm = (cl_expected q)\<lparr>vm_ownership_marker := cl_ownership_marker q\<rparr> in
       bindE (modify (\<lambda>_. Some vm)) (\<lambda>_. ret vm)),
     pv_configure_vm := (\<lambda>_ q. let vm = (cf_expected q)\<lparr>vm_cpu_count := cf_cpu_count q\<rparr> in
       bindE (modify (\<lambda>_. Some vm)) (\<lambda>_. ret vm)),
     pv_inspect_vm := (\<lambda>l. gets (\<lambda>p. case p of None \<Rightarrow> None | Some vm \<Rightarrow>
       if l = Lookup_Id (vm_id vm) \<or> l = Lookup_Name (vm_name vm) then Some vm else None)),
     pv_start_vm := (\<lambda>_ vm. modify (\<lambda>_. Some (vm\<lparr>vm_power_state := Power_Running\<rparr>))),
     pv_stop_vm := (\<lambda>_ vm. modify (\<lambda>_. Some (vm\<lparr>vm_power_state := Power_Off\<rparr>))),
     pv_remove_vm := (\<lambda>_ vm. modify (\<lambda>_. None))\<rparr>"

definition sample_engine :: "provider_vm option engine_env" where
  "sample_engine = \<lparr>fe_host = sample_env, fe_root = ''/state'', fs_fault = (\<lambda>_. None),
     fs_write = (\<lambda>_. Write_Ok), fs_busy = (\<lambda>_. False), fs_now = (\<lambda>_. 50), fs_uuid = (\<lambda>_. 9),
     fs_lock_retries = 0, fs_variant = (\<lambda>_ _ _. Variant_Missing),
     en_provider = one_vm_provider, en_image_stat = (\<lambda>_ _. None), en_open_image = (\<lambda>_ _. None),
     en_image_len = (\<lambda>_ _. Inr 1024), en_image_sha256 = (\<lambda>_ _. Inr (replicate 64 CHR ''a'')),
     en_parent_identity = (\<lambda>_ _. None), en_error_text = (\<lambda>_. []), en_status_text = (\<lambda>_. [])\<rparr>"

definition image_world :: "provider_vm option engine_world" where
  "image_world = \<lparr>w_store = empty_store\<lparr>sto_images := [(''linux.json'', Doc sample_image)]\<rparr>,
     w_tick = 0, w_locked = False, ew_provider = None, ew_trace = [], ew_events = [], ew_recorded = None\<rparr>"

definition owned_world :: "provider_vm option \<Rightarrow> provider_vm option engine_world" where
  "owned_world vm = \<lparr>w_store = (put_cell canonical_crates owned_cell empty_store)\<lparr>sto_runtime := [CellId 7]\<rparr>,
     w_tick = 0, w_locked = False, ew_provider = vm, ew_trace = [], ew_events = [], ew_recorded = None\<rparr>"

end
