(* ===== verification/GuestSafety.thy ===== *)
theory GuestSafety
  imports GuestOps EngineProperties ArtifactLaws
begin

section \<open>Safety of guest operations\<close>

text \<open>
  Which durable writes and which transport calls a guest operation makes.  \<open>op_step\<close> is the transition relation on
  durable operation records; \<open>guest_call_ok\<close> what the durable store must hold when the transport is called.  The locale
  \<open>guest_invariant\<close> is the interface between these and any invariant of the world.
\<close>

subsection \<open>Writes and calls\<close>

abbreviation op_doc :: "crates \<Rightarrow> store \<Rightarrow> guest_operation_id \<Rightarrow> guest_operation_record doc option" where
  "op_doc X st i \<equiv> map_of (sto_operations st) (uuid_json X (op_uuid i))"

definition same_operation :: "guest_operation_record \<Rightarrow> guest_operation_record \<Rightarrow> bool" where
  "same_operation op op' \<longleftrightarrow>
     op_id op' = op_id op \<and> op_cell_id op' = op_cell_id op \<and> op_kind op' = op_kind op
     \<and> op_created_at op' = op_created_at op \<and> op_job_id op' = op_job_id op
     \<and> op_schema_version op' = op_schema_version op"

inductive op_step :: "guest_operation_record \<Rightarrow> guest_operation_record \<Rightarrow> bool" where
  activate: "same_operation op op' \<Longrightarrow> op_phase op = Op_IntentRecorded \<Longrightarrow> op_phase op' = Op_TransportActive \<Longrightarrow> op_step op op'"
| noted: "same_operation op op' \<Longrightarrow> op_phase op = Op_TransportActive \<Longrightarrow> op_phase op' = Op_TransportActive \<Longrightarrow>
    op_failure op' \<noteq> None \<Longrightarrow> op_step op op'"
| commit: "same_operation op op' \<Longrightarrow> op_phase op = Op_TransportActive \<Longrightarrow> op_phase op' = Op_ArtifactCommitted \<Longrightarrow>
    op_artifact_id op' = Some (op_id op) \<Longrightarrow> op_step op op'"
| complete: "same_operation op op' \<Longrightarrow> op_phase op \<in> {Op_TransportActive, Op_ArtifactCommitted} \<Longrightarrow>
    op_phase op' = Op_Completed \<Longrightarrow> op_artifact_pruned_at op' = None \<Longrightarrow> op_step op op'"
| fail: "same_operation op op' \<Longrightarrow> op_phase op \<in> {Op_IntentRecorded, Op_TransportActive} \<Longrightarrow> op_phase op' = Op_Failed \<Longrightarrow>
    op_failure op' \<noteq> None \<Longrightarrow> op_step op op'"
| prune: "op_phase op = Op_Completed \<Longrightarrow> op_artifact_pruned_at op = None \<Longrightarrow>
    op_step op (op\<lparr>op_updated_at := t, op_artifact_pruned_at := Some t\<rparr>)"

inductive_cases op_stepE: "op_step op op'"

definition quiet :: "crates \<Rightarrow> store \<Rightarrow> cell_id \<Rightarrow> bool" where
  "quiet X st c \<longleftrightarrow> (\<forall>i op. op_doc X st i = Some (Doc op) \<longrightarrow> op_cell_id op = c \<longrightarrow> is_terminal (op_phase op))"

definition op_write :: "('p, 'y) engine_env_scheme \<Rightarrow> (guest_operation_id \<Rightarrow> bool) \<Rightarrow> store \<Rightarrow> guest_operation_record \<Rightarrow> bool" where
  "op_write E may_create st op' \<longleftrightarrow>
     op_phase op' = Op_IntentRecorded \<and> may_create (op_id op') \<and> quiet (env_crates E) st (op_cell_id op')
     \<or> (\<exists>op. op_doc (env_crates E) st (op_id op') = Some (Doc op) \<and> op_step op op')"

fun call_target :: "guest_call \<Rightarrow> guest_action_authority \<times> provider_vm" where
  "call_target (Guest_Probe a vm) = (a, vm)"
| "call_target (Guest_Exec a vm c) = (a, vm)"
| "call_target (Guest_CopyIn a vm act) = (a, vm)"
| "call_target (Guest_CopyOut a vm act) = (a, vm)"

fun call_fits :: "guest_call \<Rightarrow> guest_operation_record \<Rightarrow> bool" where
  "call_fits (Guest_Probe a vm) op \<longleftrightarrow> True"
| "call_fits (Guest_Exec a vm c) op \<longleftrightarrow> op_kind op = Kind_Exec"
| "call_fits (Guest_CopyIn a vm act) op \<longleftrightarrow> op_kind op = Kind_CopyIn \<and> ci_operation_id act = op_id op"
| "call_fits (Guest_CopyOut a vm act) op \<longleftrightarrow> artifact_kind (op_kind op) \<and> cp_operation_id act = op_id op"

definition guest_authority_for ::
  "('p, 'y) engine_env_scheme \<Rightarrow> store \<Rightarrow> cell_record \<Rightarrow> provider_vm \<Rightarrow> guest_action_authority \<Rightarrow> bool" where
  "guest_authority_for E st r vm a \<longleftrightarrow>
     load_cell_from (env_crates E) (fe_root E) st (cid r) = Inr r
     \<and> cell_state r = Cell_Running \<and> cell_phase r = Phase_Ready
     \<and> installed E (own_install_id (cell_ownership r)) st
     \<and> prove_ownership (fe_host E) r vm = Inr () \<and> vm_power_state vm = Power_Running
     \<and> (\<exists>g inst rt. guest_authority_new g r vm inst rt = Inr a)"

definition guest_call_ok :: "('p, 'y) engine_env_scheme \<Rightarrow> store \<Rightarrow> guest_call \<Rightarrow> bool" where
  "guest_call_ok E st c \<longleftrightarrow> (\<exists>r op. (case call_target c of (a, vm) \<Rightarrow> guest_authority_for E st r vm a)
     \<and> op_doc (env_crates E) st (op_id op) = Some (Doc op) \<and> op_cell_id op = cid r
     \<and> op_phase op = Op_TransportActive \<and> call_fits c op)"

subsection \<open>The interface\<close>

lemma op_doc_put:
  "uuid_laws X \<Longrightarrow> op_doc X (put_operation X op st) i = (if i = op_id op then Some (Doc op) else op_doc X st i)"
  by (auto simp: map_of_put_operation guest_operation_id.expand)

lemma rejected_fields:
  "\<not> operation_fields_valid op \<Longrightarrow> save_operation_check X root st op \<noteq> Inr u"
  by (auto simp: validate_guest_operation_schema_def dest!: save_operation_check_ok)

text \<open>A listing of the operations shows every operation exactly once, under its own name.\<close>

definition lists_operations :: "crates \<Rightarrow> store \<Rightarrow> guest_operation_record list \<Rightarrow> bool" where
  "lists_operations X st ops \<longleftrightarrow> distinct (map op_id ops)
     \<and> (\<forall>i op. op_doc X st i = Some (Doc op) \<longleftrightarrow> op \<in> set ops \<and> op_id op = i)
     \<and> (\<forall>op \<in> set ops. operation_fields_valid op)"

lemma listed_name:
  assumes "uuid_laws X" "dir_ok (sto_operations st)" "list_guest_operations_from X root st = Inr ops"
    and "n \<in> set (json_names (sto_operations st))"
  shows "n = uuid_json X (op_uuid (op_id (doc_at (sto_operations st) n)))
    \<and> map_of (sto_operations st) n = Some (Doc (doc_at (sto_operations st) n))
    \<and> operation_fields_valid (doc_at (sto_operations st) n)"
proof -
  let ?d = "sto_operations st" and ?dir = "path_join root ''operations''"
  have "dir_valid ?dir ?d (validate_guest_operation_schema X)"
    using assms(3) by (auto simp: list_guest_operations_from_def read_json_directory_ok)
  with assms(4) obtain r where r: "map_of ?d n = Some (Doc r)" "name_extension n = Some ''json''"
    "validate_guest_operation_schema X (path_join ?dir n) r = Inr ()"
    unfolding json_names_set dir_valid_def by blast
  moreover have "file_name_ok n" using assms(2) map_of_SomeD [OF r(1)] by (force simp: dir_ok_def)
  ultimately have "n = uuid_json X (op_uuid (op_id r))"
    using stem_determines_name [of ?dir n X] validate_guest_operation_schema_stem [OF r(3)] by simp
  moreover have "operation_fields_valid r" using r(3) by (auto simp: validate_guest_operation_schema_def)
  ultimately show ?thesis using r(1) by (simp add: doc_at_def)
qed

lemma list_operations_lists:
  assumes "uuid_laws X" "dir_ok (sto_operations st)" "list_guest_operations_from X root st = Inr ops"
  shows "lists_operations X st ops"
proof -
  let ?d = "sto_operations st"
  have ops: "ops = map (doc_at ?d) (json_names ?d)"
    using assms(3) by (auto simp: list_guest_operations_from_def read_json_directory_ok)
  note name = listed_name [OF assms]
  have "inj_on (\<lambda>n. op_id (doc_at ?d n)) (set (json_names ?d))"
    by (rule inj_onI) (metis name)
  then have "distinct (map op_id ops)" unfolding ops by (simp add: distinct_map comp_def inj_on_def)
  moreover have "op_doc X st i = Some (Doc op) \<longleftrightarrow> op \<in> set ops \<and> op_id op = i" for i op
  proof
    assume doc: "op_doc X st i = Some (Doc op)"
    then have n: "uuid_json X (op_uuid i) \<in> set (json_names ?d)"
      unfolding json_names_set using assms(1) by (simp add: uuid_json_def)
    from name [OF n] doc have op: "doc_at ?d (uuid_json X (op_uuid i)) = op" and id: "op_uuid (op_id op) = op_uuid i"
      using assms(1) by auto
    from op n have "op \<in> set ops" unfolding ops by (metis image_eqI set_map)
    with id show "op \<in> set ops \<and> op_id op = i" by (simp add: guest_operation_id.expand)
  next
    assume "op \<in> set ops \<and> op_id op = i"
    then show "op_doc X st i = Some (Doc op)" unfolding ops using name by auto
  qed
  moreover have "\<forall>op \<in> set ops. operation_fields_valid op" unfolding ops using name by auto
  ultimately show ?thesis unfolding lists_operations_def by blast
qed

lemma not_in_flight_quiet: "lists_operations X st ops \<Longrightarrow> \<not> in_flight ops c \<Longrightarrow> quiet X st c"
  by (auto simp: lists_operations_def quiet_def in_flight_def list_ex_iff)

text \<open>A write of an operation happens completely, with its check, or not at all; success implies that it happened.\<close>

lemma save_operation_cases:
  assumes "save_operation E op w = (res, w')"
  obtains (kept) n e where "w' = w\<lparr>w_tick := n\<rparr>" "res = Inl (EE_State e)"
  | (written) n where "save_operation_check (env_crates E) (fe_root E) (w_store w) op = Inr ()"
      "w' = w\<lparr>w_tick := n, w_store := put_operation (env_crates E) op (w_store w)\<rparr>"
proof -
  obtain res0 where run: "guarded_save E (\<lambda>st. save_operation_check (env_crates E) (fe_root E) st op)
      (\<lambda>_. put_operation (env_crates E) op) w = (res0, w')" and res: "res = res_map_err EE_State res0"
    using assms by (cases "save_guest_operation_with_mutation E op w")
      (auto simp: save_operation_def save_operation_guarded mapE_def res_map_err_def split: sum.splits)
  from run show thesis
    by (cases rule: guarded_save_cases) (use that res in \<open>auto simp: res_map_err_def\<close>)
qed

text \<open>What an action is entitled to: the cell is ready and running, the machine is proven to be its own, and the authority
  was issued for exactly these.\<close>

definition acting ::
  "('p, 'y) engine_env_scheme \<Rightarrow> cell_record \<Rightarrow> provider_vm \<Rightarrow> guest_action_authority \<Rightarrow> guest_operation_record \<Rightarrow> bool" where
  "acting E r vm a op \<longleftrightarrow> cell_state r = Cell_Running \<and> cell_phase r = Phase_Ready
     \<and> prove_ownership (fe_host E) r vm = Inr () \<and> vm_power_state vm = Power_Running
     \<and> (\<exists>g inst rt. guest_authority_new g r vm inst rt = Inr a)
     \<and> op_cell_id op = cid r \<and> op_phase op = Op_TransportActive"

text \<open>Operations that change nothing but the artifact directories, besides what soft operations change.\<close>

definition arty :: "(('p, 'z) engine_world_scheme, 'e, 'a) eff \<Rightarrow> bool" where
  "arty m \<longleftrightarrow> (\<forall>w. \<exists>w1 d. soft_step w w1 \<and> snd (m w) = w1\<lparr>w_store := (w_store w1)\<lparr>sto_artifacts := d\<rparr>\<rparr>)"

lemma soft_step_artifacts:
  assumes "soft_step (w\<lparr>w_store := (w_store w)\<lparr>sto_artifacts := d\<rparr>\<rparr>) w'"
  shows "\<exists>w1. soft_step w w1 \<and> w' = w1\<lparr>w_store := (w_store w1)\<lparr>sto_artifacts := d\<rparr>\<rparr>"
proof -
  from assms obtain n p rs evs rec where harmless: "only_notes evs" and
    w': "w' = w\<lparr>w_store := (w_store w)\<lparr>sto_artifacts := d\<rparr>\<rparr>\<lparr>w_tick := n, ew_provider := p,
     w_store := (w_store w)\<lparr>sto_artifacts := d, sto_runtime := rs\<rparr>, ew_events := evs @ ew_events w, ew_recorded := rec\<rparr>"
    by (auto simp: soft_step_def)
  let ?w1 = "w\<lparr>w_tick := n, ew_provider := p, w_store := (w_store w)\<lparr>sto_runtime := rs\<rparr>, ew_events := evs @ ew_events w,
    ew_recorded := rec\<rparr>"
  have "soft_step w ?w1" using harmless by (rule soft_stepI) simp
  moreover have "w' = ?w1\<lparr>w_store := (w_store ?w1)\<lparr>sto_artifacts := d\<rparr>\<rparr>" unfolding w' by (cases w) simp
  ultimately show ?thesis by blast
qed

lemma arty_soft:
  assumes "soft m" shows "arty m"
  unfolding arty_def
proof
  fix w
  show "\<exists>w1 d. soft_step w w1 \<and> snd (m w) = w1\<lparr>w_store := (w_store w1)\<lparr>sto_artifacts := d\<rparr>\<rparr>"
    using assms by (intro exI [of _ "snd (m w)"] exI [of _ "sto_artifacts (w_store (snd (m w)))"]) (simp add: soft_def)
qed

named_theorems arty_intro \<open>operations that write only artifacts\<close>

lemma arty_bind [arty_intro]:
  assumes "arty m" "\<And>x. arty (f x)" shows "arty (bindE m f)"
  unfolding arty_def
proof
  fix w :: "('a, 'b) engine_world_scheme"
  obtain res w2 where run: "m w = (res, w2)" by (cases "m w") auto
  obtain w1 d where w1: "soft_step w w1" "w2 = w1\<lparr>w_store := (w_store w1)\<lparr>sto_artifacts := d\<rparr>\<rparr>"
    using assms(1) run unfolding arty_def by (metis snd_conv)
  show "\<exists>w1 d. soft_step w w1 \<and> snd (bindE m f w) = w1\<lparr>w_store := (w_store w1)\<lparr>sto_artifacts := d\<rparr>\<rparr>"
  proof (cases res)
    case (Inl e)
    with run w1 show ?thesis by (auto simp: bindE_def)
  next
    case (Inr x)
    obtain w3 d' where w3: "soft_step w2 w3" "snd (f x w2) = w3\<lparr>w_store := (w_store w3)\<lparr>sto_artifacts := d'\<rparr>\<rparr>"
      using assms(2) unfolding arty_def by metis
    from soft_step_artifacts [OF w3(1) [unfolded w1(2)]] obtain w4 where
      w4: "soft_step w1 w4" "w3 = w4\<lparr>w_store := (w_store w4)\<lparr>sto_artifacts := d\<rparr>\<rparr>" by blast
    have "snd (bindE m f w) = w4\<lparr>w_store := (w_store w4)\<lparr>sto_artifacts := d'\<rparr>\<rparr>"
      using run Inr w3(2) w4(2) by (simp add: bindE_def)
    with soft_step_trans [OF w1(1) w4(1)] show ?thesis by blast
  qed
qed

lemma arty_mapE [arty_intro]: "arty m \<Longrightarrow> arty (mapE g m)"
proof -
  have "snd (mapE g m w) = snd (m w)" for w by (simp add: mapE_def split: prod.split sum.split)
  then show "arty m \<Longrightarrow> arty (mapE g m)" by (simp add: arty_def)
qed

lemma arty_if [arty_intro]: "(b \<Longrightarrow> arty m) \<Longrightarrow> (\<not> b \<Longrightarrow> arty n) \<Longrightarrow> arty (if b then m else n)"
  by simp

lemma arty_write [arty_intro]:
  assumes "\<And>st. \<exists>d. g st = st\<lparr>sto_artifacts := d\<rparr>"
  shows "arty (write_atomic E g)"
  unfolding arty_def
proof
  fix w :: "('a, 'b) engine_world_scheme"
  obtain d where d: "g (w_store w) = (w_store w)\<lparr>sto_artifacts := d\<rparr>" using assms by blast
  let ?w = "w\<lparr>w_tick := Suc (w_tick w)\<rparr>"
  have "snd (write_atomic E g w) = ?w\<lparr>w_store := (w_store ?w)\<lparr>sto_artifacts := sto_artifacts (w_store w)\<rparr>\<rparr>
      \<or> snd (write_atomic E g w) = ?w\<lparr>w_store := (w_store ?w)\<lparr>sto_artifacts := d\<rparr>\<rparr>"
    by (auto simp: write_atomic_run Let_def d split: fs_write_outcome.splits)
  then show "\<exists>w1 d. soft_step w w1 \<and> snd (write_atomic E g w) = w1\<lparr>w_store := (w_store w1)\<lparr>sto_artifacts := d\<rparr>\<rparr>"
    using soft_step_tick by blast
qed

lemmas arty_reads [arty_intro] = soft_basic [THEN arty_soft] soft_store_reads [THEN arty_soft] soft_next_tick [THEN arty_soft]

lemma artifact_writers:
  "\<exists>d. create_artifact_dir k st = st\<lparr>sto_artifacts := d\<rparr>" "\<exists>d. update_artifact_dir k f st = st\<lparr>sto_artifacts := d\<rparr>"
  by (auto simp: create_artifact_dir_def update_artifact_dir_def split: option.split
      intro: exI [of _ "sto_artifacts st"])

lemma arty_artifacts [arty_intro]:
  "arty (prepare_artifact_root_with_mutation E c i)" "arty (write_artifact_file_with_mutation E g k bytes)"
  "arty (save_artifact_new_with_mutation E g rec)" "arty (remove_artifact_root E c i)"
  by (auto simp: prepare_artifact_root_with_mutation_def write_artifact_file_with_mutation_def Let_def
      save_artifact_new_with_mutation_def remove_artifact_root_def with_mutation_def validate_mutation_guard_def
      validate_artifact_guard_def intro!: arty_intro artifact_writers)

text \<open>What the reports say about the operation that produced them.\<close>

definition exec_outcome :: "guest_exec_request \<Rightarrow> guest_operation_id \<Rightarrow> guest_exec_report \<Rightarrow> guest_completion \<Rightarrow> bool" where
  "exec_outcome q i v c \<longleftrightarrow> gxp_operation_id v = i \<and> gxp_cell_id v = gxr_cell_id q
     \<and> validate_guest_command_result (gxr_command q) (gxp_result v) = Inr ()
     \<and> c = \<lparr>gx_exit_code = Some (gr_exit_code (gxp_result v)), gx_stdout_bytes = Some (gr_stdout_bytes (gxp_result v)),
          gx_stderr_bytes = Some (gr_stderr_bytes (gxp_result v)), gx_artifact_id = None\<rparr>"

definition copy_outcome :: "guest_operation_id \<Rightarrow> guest_copy_in_report \<Rightarrow> guest_completion \<Rightarrow> bool" where
  "copy_outcome i v c \<longleftrightarrow> gcp_operation_id v = i \<and> c = guest_completion_default"

definition collect_outcome :: "guest_operation_id \<Rightarrow> artifact_report \<Rightarrow> guest_completion \<Rightarrow> bool" where
  "collect_outcome i v c \<longleftrightarrow> arp_operation_id v = i \<and> art_id (arp_artifact v) = i \<and> gx_artifact_id c = Some i"

text \<open>The durable record of a finished operation, with what its action reported.\<close>

definition records :: "guest_operation_record \<Rightarrow> guest_completion \<Rightarrow> guest_operation_record \<Rightarrow> bool" where
  "records op c op' \<longleftrightarrow> same_operation op op' \<and> op_phase op' = Op_Completed \<and> op_exit_code op' = gx_exit_code c
     \<and> op_stdout_bytes op' = gx_stdout_bytes c \<and> op_stderr_bytes op' = gx_stderr_bytes c \<and> op_artifact_id op' = gx_artifact_id c"

text \<open>The phases before an operation has an outcome.\<close>

definition open_phase :: "guest_operation_record \<Rightarrow> bool" where
  "open_phase op \<longleftrightarrow> op_phase op \<in> {Op_IntentRecorded, Op_TransportActive}"

lemma soft_note_recorded [soft_intro]: "soft (note_recorded i)"
  by (simp add: soft_def note_recorded_def modify_def soft_step_recorded)

locale guest_invariant = store_invariant E I "\<lambda>_. True"
  for E :: "('p, 'g, 'y) guest_env_scheme"
    and I :: "('p, 'g, 'z) guest_world_scheme \<Rightarrow> bool"
    and may_create :: "guest_operation_id \<Rightarrow> bool" +
  assumes I_names: "I w \<Longrightarrow> dir_ok (sto_operations (w_store w))"
    and I_fresh: "I w \<Longrightarrow> may_create (GuestOperationId (fs_uuid E n))"
    and I_operation: "I w \<Longrightarrow> op_write E may_create (w_store w) op \<Longrightarrow>
      save_operation_check (env_crates E) (fe_root E) (w_store w) op = Inr () \<Longrightarrow>
      I (w\<lparr>w_store := put_operation (env_crates E) op (w_store w)\<rparr>)"
    and I_artifacts: "I w \<Longrightarrow> I (w\<lparr>w_store := (w_store w)\<lparr>sto_artifacts := d\<rparr>\<rparr>)"
    and I_guest: "I w \<Longrightarrow> guest_call_ok E (w_store w) c \<Longrightarrow>
      I (w\<lparr>gw_guest := g, gw_calls := (c, w_store w) # gw_calls w\<rparr>)"
begin

lemma save_operation_effect:
  assumes "I w" "operation_fields_valid op \<Longrightarrow> op_write E may_create (w_store w) op" "save_operation E op w = (res, w')"
  shows "I w' \<and> (\<exists>n. w' = w\<lparr>w_tick := n\<rparr> \<or> w' = w\<lparr>w_tick := n, w_store := put_operation (env_crates E) op (w_store w)\<rparr>)
    \<and> (is_ok res \<longrightarrow> op_doc (env_crates E) (w_store w') (op_id op) = Some (Doc op))"
  using assms(3)
proof (cases rule: save_operation_cases)
  case (kept n e)
  then show ?thesis using I_soft [OF assms(1) soft_step_tick [of w n]] by auto
next
  case (written n)
  then have wr: "op_write E may_create (w_store w) op"
    using assms(2) rejected_fields [of op "env_crates E" "fe_root E" "w_store w" "()"] by blast
  have "I (w\<lparr>w_store := put_operation (env_crates E) op (w_store w), w_tick := n\<rparr>)"
    using I_soft [OF I_operation [OF assms(1) wr] soft_step_tick] written(1) by simp
  then show ?thesis
    using written(2) op_doc_put [OF crates_ok [OF assms(1)], of op "w_store w" "op_id op"] by (auto simp: world_swap)
qed

text \<open>The invariant with a cell's own record, its installation, and a durable operation of it.\<close>

definition at_op :: "cell_record \<Rightarrow> guest_operation_record \<Rightarrow> ('p, 'g, 'z) guest_world_scheme \<Rightarrow> bool" where
  "at_op r op w \<longleftrightarrow> owned r w \<and> op_doc (env_crates E) (w_store w) (op_id op) = Some (Doc op)"

lemma stable_at_op [intro, simp]: "stable (at_op r op)"
  using stable_owned [of r] by (auto simp: stable_def at_op_def soft_step_store)

lemma at_op_I [dest]: "at_op r op w \<Longrightarrow> I w" "at_op r op w \<Longrightarrow> owned r w"
  by (auto simp: at_op_def)

lemma owned_artifacts: "owned r w \<Longrightarrow> owned r (w\<lparr>w_store := (w_store w)\<lparr>sto_artifacts := d\<rparr>\<rparr>)"
  using load_cell_from_cong [of "(w_store w)\<lparr>sto_artifacts := d\<rparr>" "w_store w"]
  by (simp add: owned_def held_def I_artifacts installed_def load_installation_from_def)

lemma at_op_artifacts: "at_op r op w \<Longrightarrow> at_op r op (w\<lparr>w_store := (w_store w)\<lparr>sto_artifacts := d\<rparr>\<rparr>)"
  by (simp add: at_op_def owned_artifacts)

lemma arty_valid:
  assumes "arty m" "stable P" "\<And>w d. P w \<Longrightarrow> P (w\<lparr>w_store := (w_store w)\<lparr>sto_artifacts := d\<rparr>\<rparr>)"
  shows "validE P m (\<lambda>_. P) (\<lambda>_. P)"
  unfolding validE_def
proof (intro allI impI)
  fix w assume "P w"
  with assms have "P (snd (m w))" unfolding arty_def stable_def by metis
  then show "case m w of (Inl e, w') \<Rightarrow> P w' | (Inr x, w') \<Rightarrow> P w'"
    by (cases "m w"; cases "fst (m w)") auto
qed

lemmas arty_at_op = arty_valid [OF _ stable_at_op at_op_artifacts]

lemma soft_at_op: "soft m \<Longrightarrow> validE (at_op r op) m (\<lambda>_. at_op r op) (\<lambda>_. at_op r op)"
  by (rule arty_at_op [OF arty_soft])

lemma guest_call_valid:
  assumes "\<And>w. at_op r op w \<Longrightarrow> guest_call_ok E (w_store w) c"
  shows "validE (at_op r op) (guest_call c m) (\<lambda>_. at_op r op) (\<lambda>_. at_op r op)"
  unfolding validE_def
proof (intro allI impI)
  fix w assume w: "at_op r op w"
  have "at_op r op (w\<lparr>gw_guest := g, gw_calls := (c, w_store w) # gw_calls w\<rparr>)" for g
    using w I_guest [OF _ assms [OF w]] by (auto simp: at_op_def owned_def held_def)
  then show "case guest_call c m w of (Inl e, w') \<Rightarrow> at_op r op w' | (Inr x, w') \<Rightarrow> at_op r op w'"
    by (auto simp: guest_call_def split: prod.split sum.split)
qed

lemma acting_call:
  assumes "acting E r vm a op" "at_op r op w" "call_target c = (a, vm)" "call_fits c op"
  shows "guest_call_ok E (w_store w) c"
  using assms unfolding guest_call_ok_def acting_def at_op_def owned_def held_def guest_authority_for_def
  by (intro exI [of _ r] exI [of _ op]) auto

lemma acting_call_valid:
  "acting E r vm a op \<Longrightarrow> call_target c = (a, vm) \<Longrightarrow> call_fits c op \<Longrightarrow>
     validE (at_op r op) (guest_call c m) (\<lambda>_. at_op r op) (\<lambda>_. at_op r op)"
  by (rule guest_call_valid, rule acting_call)

lemma wait_loop_valid:
  "acting E r vm a op \<Longrightarrow> validE (at_op r op) (wait_loop n E a vm cr deadline latest) (\<lambda>_. at_op r op) (\<lambda>_. at_op r op)"
proof (induction n arbitrary: latest)
  case (Suc n)
  have "validE (at_op r op) (case s of GR_Ready \<Rightarrow> ret () | GR_AuthenticationFailed \<Rightarrow> throw (EE_Guest GE_AuthenticationFailed)
      | _ \<Rightarrow> wait_loop n E a vm cr deadline s) (\<lambda>_. at_op r op) (\<lambda>_. at_op r op)" for s
    using Suc by (cases s) (auto intro: validE_ret validE_throw)
  then show ?case
    using Suc.prems by (auto simp: Let_def intro!: validE_bind [OF soft_at_op [OF soft_next_tick]] validE_if validE_throw
        validE_bind [OF acting_call_valid [OF Suc.prems]])
qed (auto intro: validE_throw)

lemma wait_for_guest_ready_valid:
  "acting E r vm a op \<Longrightarrow> validE (at_op r op) (wait_for_guest_ready E a vm cr policy) (\<lambda>_. at_op r op) (\<lambda>_. at_op r op)"
  unfolding wait_for_guest_ready_def
  by (intro validE_bind [OF soft_at_op] wait_loop_valid) (auto intro: soft_intro)

lemma owned_put: "owned r w \<Longrightarrow> I w' \<Longrightarrow> w_store w' = put_operation X op (w_store w) \<Longrightarrow> owned r w'"
  using load_cell_from_cong [of "put_operation X op (w_store w)" "w_store w"]
  by (simp add: owned_def held_def installed_def load_installation_from_def put_operation_def)

lemma save_operation_valid:
  assumes "operation_fields_valid op' \<Longrightarrow> op_step op op'" "op_id op' = op_id op"
  shows "validE (at_op r op) (save_operation E op') (\<lambda>_. at_op r op') (\<lambda>_ w. at_op r op w \<or> at_op r op' w)"
  unfolding validE_def
proof (intro allI impI)
  fix w assume w: "at_op r op w"
  obtain res w' where run: "save_operation E op' w = (res, w')" by (cases "save_operation E op' w") auto
  have wr: "op_write E may_create (w_store w) op'" if "operation_fields_valid op'"
    using w assms that by (auto simp: op_write_def at_op_def)
  from save_operation_effect [OF at_op_I(1) [OF w] wr run] obtain n where I: "I w'" and
    w': "w' = w\<lparr>w_tick := n\<rparr> \<or> w' = w\<lparr>w_tick := n, w_store := put_operation (env_crates E) op' (w_store w)\<rparr>"
    and ok: "is_ok res \<Longrightarrow> op_doc (env_crates E) (w_store w') (op_id op') = Some (Doc op')" by blast
  from w' have "owned r w'"
    using w I owned_put [of r w w' "env_crates E" op'] by (auto simp: at_op_def owned_def held_def)
  moreover have "op_doc (env_crates E) (w_store w') (op_id op') \<in> {Some (Doc op), Some (Doc op')}"
    using w' w op_doc_put [OF crates_ok [OF I], of op' "w_store w" "op_id op'"] assms(2) by (auto simp: at_op_def)
  ultimately show "case save_operation E op' w of (Inl e, w') \<Rightarrow> at_op r op w' \<or> at_op r op' w' | (Inr x, w') \<Rightarrow> at_op r op' w'"
    using run ok assms(2) by (cases res) (auto simp: at_op_def)
qed

text \<open>Ends of an operation.  The record in memory may be one phase ahead of the durable one.\<close>

lemma validE_or: "validE P m Q R \<Longrightarrow> validE P' m Q R \<Longrightarrow> validE (\<lambda>w. P w \<or> P' w) m Q R"
  by (auto simp: validE_def)

lemma failed_step:
  assumes "same_operation op0 op" "open_phase op0" "open_phase op" "op_phase op = Op_IntentRecorded \<Longrightarrow> op_phase op0 = Op_IntentRecorded"
    and "op' = op\<lparr>op_failure := Some f, op_updated_at := t\<rparr>
      \<or> op' = op\<lparr>op_failure := Some f, op_updated_at := t, op_phase := Op_Failed, op_completed_at := Some t\<rparr>"
    and "operation_fields_valid op'"
  shows "op_step op0 op'"
  using assms(5)
proof
  assume op': "op' = op\<lparr>op_failure := Some f, op_updated_at := t\<rparr>"
  with assms(3,6) have "op_phase op = Op_TransportActive"
    by (auto simp: open_phase_def operation_fields_valid_def)
  with assms(1,2) op' show ?thesis
    by (auto simp: open_phase_def same_operation_def intro: op_step.activate op_step.noted)
qed (use assms(1,2) in \<open>auto simp: open_phase_def same_operation_def intro!: op_step.fail\<close>)

lemma finish_failed_valid:
  assumes "same_operation op0 op" "open_phase op0" "open_phase op" "op_phase op = Op_IntentRecorded \<Longrightarrow> op_phase op0 = Op_IntentRecorded"
  shows "validE (at_op r op0) (finish_failed E op e) Q (\<lambda>_. I)"
proof -
  obtain f b where fb: "guest_failure_class_of e = (f, b)" by (cases "guest_failure_class_of e") auto
  have id: "op_id op = op_id op0" using assms(1) by (simp add: same_operation_def)
  have save: "validE (at_op r op0) (save_operation E op') (\<lambda>_. I) (\<lambda>_. I)"
    if "op' = op\<lparr>op_failure := Some f, op_updated_at := t\<rparr>
      \<or> op' = op\<lparr>op_failure := Some f, op_updated_at := t, op_phase := Op_Failed, op_completed_at := Some t\<rparr>" for op' t
    by (rule validE_weaken [OF save_operation_valid [OF failed_step [OF assms that]]]) (use id that in auto)
  show ?thesis
    unfolding finish_failed_def fb Let_def prod.case
    by (rule skip_then) (auto intro!: soft_intro validE_bind [OF save] validE_throw)
qed

lemma finish_completed_valid:
  assumes "op_phase op = Op_TransportActive" "op_artifact_pruned_at op = None"
  shows "validE (at_op r op) (finish_completed E op c) (\<lambda>_ w. \<exists>op'. at_op r op' w \<and> records op c op') (\<lambda>_. I)"
proof (cases "gx_artifact_id c")
  case None
  define fin where "fin t = op\<lparr>op_phase := Op_Completed, op_updated_at := t, op_exit_code := gx_exit_code c,
      op_stdout_bytes := gx_stdout_bytes c, op_stderr_bytes := gx_stderr_bytes c, op_artifact_id := None,
      op_completed_at := Some t\<rparr>" for t
  have "validE (at_op r op) (save_operation E (fin t)) (\<lambda>_ w. \<exists>op'. at_op r op' w \<and> records op c op') (\<lambda>_. I)" for t
    by (rule validE_weaken [OF save_operation_valid [OF op_step.complete]])
      (use assms None in \<open>auto simp: fin_def same_operation_def records_def\<close>)
  with None show ?thesis
    unfolding finish_completed_def fin_def by (intro skip_then) (auto simp: Let_def intro: soft_intro)
next
  case (Some i)
  define mid where "mid t = op\<lparr>op_phase := Op_ArtifactCommitted, op_updated_at := t, op_exit_code := gx_exit_code c,
      op_stdout_bytes := gx_stdout_bytes c, op_stderr_bytes := gx_stderr_bytes c, op_artifact_id := Some i\<rparr>" for t
  have one: "validE (at_op r op) (save_operation E (mid t)) (\<lambda>_. at_op r (mid t)) (\<lambda>_. I)" for t
    by (rule validE_weaken [OF save_operation_valid [OF op_step.commit]])
      (use assms in \<open>auto simp: mid_def same_operation_def operation_fields_valid_def\<close>)
  have two: "validE (at_op r (mid t)) (save_operation E ((mid t)\<lparr>op_phase := Op_Completed, op_updated_at := u, op_completed_at := Some u\<rparr>))
      (\<lambda>_ w. \<exists>op'. at_op r op' w \<and> records op c op') (\<lambda>_. I)" for t u
    by (rule validE_weaken [OF save_operation_valid [OF op_step.complete]])
      (use assms Some in \<open>auto simp: mid_def same_operation_def records_def\<close>)
  have "validE (at_op r op) (bindE (utc_now E) (\<lambda>t. bindE (save_operation E (mid t)) (\<lambda>_. bindE (utc_now E) (\<lambda>u.
      save_operation E ((mid t)\<lparr>op_phase := Op_Completed, op_updated_at := u, op_completed_at := Some u\<rparr>)))))
      (\<lambda>_ w. \<exists>op'. at_op r op' w \<and> records op c op') (\<lambda>_. I)"
    by (intro skip_then validE_bind [OF one] two soft_store_reads stable_at_op)
  with Some show ?thesis by (simp add: finish_completed_def mid_def Let_def)
qed

text \<open>The operation around an action.  The action may assume its entitlement and must keep the durable record.\<close>

lemma guest_authority_fact:
  "guest_authority_step E r vm w = (Inr a, w') \<Longrightarrow> \<exists>g inst rt. guest_authority_new g r vm inst rt = Inr a"
  by (auto simp: guest_authority_step_def bindE_ok mapE_ok liftR_def)

lemma soft_authority: "soft (guest_authority_step E r vm)"
  by (auto simp: guest_authority_step_def intro!: soft_intro)

definition keeps_record ::
  "cell_record \<Rightarrow> provider_vm \<Rightarrow> guest_operation_kind \<Rightarrow> (guest_operation_id \<Rightarrow> 'a \<Rightarrow> guest_completion \<Rightarrow> bool)
    \<Rightarrow> (guest_action_authority \<Rightarrow> provider_vm \<Rightarrow> guest_operation_id
        \<Rightarrow> (('p, 'g, 'z) guest_world_scheme, engine_error, 'a \<times> guest_completion) eff) \<Rightarrow> bool" where
  "keeps_record r vm k R action \<longleftrightarrow> (\<forall>a op. acting E r vm a op \<longrightarrow> op_kind op = k \<longrightarrow>
     validE (at_op r op) (action a vm (op_id op)) (\<lambda>(v, c) w. at_op r op w \<and> R (op_id op) v c) (\<lambda>_. at_op r op))"

text \<open>What a returned result says: a completed durable operation whose fields are those the action reported.\<close>

definition outcome ::
  "cell_id \<Rightarrow> guest_operation_kind \<Rightarrow> job_id option \<Rightarrow> (guest_operation_id \<Rightarrow> 'a \<Rightarrow> guest_completion \<Rightarrow> bool)
    \<Rightarrow> 'a \<Rightarrow> ('p, 'g, 'z) guest_world_scheme \<Rightarrow> bool" where
  "outcome c k job R v w \<longleftrightarrow> I w \<and> (\<exists>op x. op_doc (env_crates E) (w_store w) (op_id op) = Some (Doc op)
     \<and> op_cell_id op = c \<and> op_kind op = k \<and> op_job_id op = job \<and> records op x op \<and> R (op_id op) v x)"

lemma outcome_intro:
  assumes "at_op r op' w" "records op x op'" "R (op_id op) v x" "op_cell_id op = c"
  shows "outcome c (op_kind op) (op_job_id op) R v w"
  using assms unfolding outcome_def at_op_def
  by (intro conjI exI [of _ op'] exI [of _ x]) (auto simp: records_def same_operation_def)

lemma outcome_lock: "outcome c k job R v w \<Longrightarrow> outcome c k job R v (w\<lparr>w_locked := b\<rparr>)"
  by (simp add: outcome_def I_lock)

lemma outcome_I: "outcome c k job R v w \<Longrightarrow> I w"
  by (simp add: outcome_def)

lemma perform_operation_valid:
  assumes op: "op_phase op = Op_IntentRecorded" "op_artifact_pruned_at op = None" "op_cell_id op = cid r"
    and cell: "cell_state r = Cell_Running" "cell_phase r = Phase_Ready" "prove_ownership (fe_host E) r vm = Inr ()"
      "vm_power_state vm = Power_Running"
    and action: "keeps_record r vm (op_kind op) R action"
  shows "validE (at_op r op) (perform_operation E cr p r vm op action)
    (outcome (cid r) (op_kind op) (op_job_id op) R) (\<lambda>_. I)" (is "validE _ _ ?Q _")
  unfolding perform_operation_def
proof (rule soft_then [where F = "\<lambda>res. \<forall>a. res = Inr a \<longrightarrow> (\<exists>g inst rt. guest_authority_new g r vm inst rt = Inr a)"])
  fix w res w' assume "attempt (guest_authority_step E r vm) w = (Inr res, w')"
  then show "\<forall>a. res = Inr a \<longrightarrow> (\<exists>g inst rt. guest_authority_new g r vm inst rt = Inr a)"
    using guest_authority_fact [of r vm w] by (auto simp: attempt_def split: prod.splits)
next
  fix prepared :: "engine_error + guest_action_authority"
  assume F: "\<forall>a. prepared = Inr a \<longrightarrow> (\<exists>g inst rt. guest_authority_new g r vm inst rt = Inr a)"
  show "validE (at_op r op) (case prepared of Inl e \<Rightarrow> finish_failed E op e
     | Inr a \<Rightarrow> bindE (utc_now E) (\<lambda>t.
         let active = op\<lparr>op_phase := Op_TransportActive, op_updated_at := t\<rparr> in
         bindE (attempt (
           bindE (save_operation E active) (\<lambda>_.
           bindE (wait_for_guest_ready E a vm cr p) (\<lambda>_.
           action a vm (op_id op))))) (\<lambda>execution. case execution of
             Inl e \<Rightarrow> finish_failed E active e
           | Inr (v, completion) \<Rightarrow> bindE (finish_completed E active completion) (\<lambda>_. ret v)))) ?Q (\<lambda>_. I)"
  proof (cases prepared)
    case (Inl e)
    then show ?thesis using op finish_failed_valid [of op op] by (auto simp: same_operation_def open_phase_def)
  next
    case (Inr a)
    define active where "active t = op\<lparr>op_phase := Op_TransportActive, op_updated_at := t\<rparr>" for t
    have act: "acting E r vm a (active t)" for t
      using F Inr op(3) cell by (simp add: acting_def active_def)
    have save: "validE (at_op r op) (save_operation E (active t)) (\<lambda>_. at_op r (active t))
        (\<lambda>_ w. at_op r op w \<or> at_op r (active t) w)" for t
      by (rule save_operation_valid [OF op_step.activate]) (use op in \<open>auto simp: active_def same_operation_def\<close>)
    have rest: "validE (at_op r (active t)) (action a vm (op_id op)) (\<lambda>(v, c) w. at_op r (active t) w \<and> R (op_id op) v c)
        (\<lambda>_. at_op r (active t))" for t
      using action act [of t] unfolding keeps_record_def by (force simp: active_def)
    have run: "validE (at_op r op) (attempt (bindE (save_operation E (active t)) (\<lambda>_.
        bindE (wait_for_guest_ready E a vm cr p) (\<lambda>_. action a vm (op_id op)))))
        (\<lambda>x w. case x of Inl e \<Rightarrow> at_op r op w \<or> at_op r (active t) w
          | Inr (v, c) \<Rightarrow> at_op r (active t) w \<and> R (op_id op) v c) (\<lambda>_. I)" for t
      by (rule validE_attempt, simp, rule validE_bind [OF save],
          rule validE_weaken [OF validE_bind [OF wait_for_guest_ready_valid [OF act] rest]]) auto
    have fin: "validE (\<lambda>w. at_op r (active t) w \<and> R (op_id op) v c) (bindE (finish_completed E (active t) c) (\<lambda>_. ret v)) ?Q (\<lambda>_. I)"
      for t v c
    proof (cases "R (op_id op) v c")
      case True
      have "validE (at_op r (active t)) (bindE (finish_completed E (active t) c) (\<lambda>_. ret v)) ?Q (\<lambda>_. I)"
        by (rule validE_bind [OF finish_completed_valid], (use op in \<open>simp_all add: active_def\<close>) [2], rule validE_ret)
          (use True op(3) in \<open>auto dest!: outcome_intro [where R = R and v = v and c = "cid r"] simp: active_def\<close>)
      then show ?thesis by (rule validE_pre) simp
    qed (simp add: validE_def)
    have "validE (\<lambda>w. case x of Inl e \<Rightarrow> at_op r op w \<or> at_op r (active t) w
          | Inr (v, c) \<Rightarrow> at_op r (active t) w \<and> R (op_id op) v c)
        (case x of Inl e \<Rightarrow> finish_failed E (active t) e
           | Inr (v, completion) \<Rightarrow> bindE (finish_completed E (active t) completion) (\<lambda>_. ret v)) ?Q (\<lambda>_. I)" for x t
      using op fin by (cases x) (auto simp: active_def same_operation_def open_phase_def split: prod.split
          intro!: validE_or finish_failed_valid)
    with Inr show ?thesis
      by (simp add: Let_def active_def [symmetric]) (intro skip_then validE_bind [OF run] soft_store_reads stable_at_op)
  qed
qed (auto intro!: soft_intro soft_authority)

lemma list_then:
  assumes "stable P" "\<And>ops. validE (\<lambda>w. P w \<and> lists_operations (env_crates E) (w_store w) ops) (f ops) Q (\<lambda>_. I)"
  shows "validE P (bindE (stE (list_guest_operations E)) f) Q (\<lambda>_. I)"
proof (rule validE_bind [OF _ assms(2)], unfold validE_def, intro allI impI)
  fix w assume P: "P w"
  obtain res w' where run: "stE (list_guest_operations E) w = (res, w')" by (cases "stE (list_guest_operations E) w") auto
  have soft: "soft_step w w'"
    by (rule softD [of "stE (list_guest_operations E)" w res w']) (auto intro: soft_intro run)
  have I: "I w" and P': "P w'" "I w'" using P assms(1) soft by (auto simp: stable_def)
  have "lists_operations (env_crates E) (w_store w') ops" if "res = Inr ops" for ops
    using run that list_operations_lists [OF crates_ok [OF I] I_names [OF I]] soft
    by (auto simp: mapE_ok list_guest_operations_def lists_operations_def soft_step_store dest!: read_op_ok)
  with run P' show "case stE (list_guest_operations E) w of (Inl e, w') \<Rightarrow> I w'
      | (Inr ops, w') \<Rightarrow> P w' \<and> lists_operations (env_crates E) (w_store w') ops"
    by (auto split: sum.splits)
qed

lemma stable_quiet: "stable P \<Longrightarrow> stable (\<lambda>w. P w \<and> quiet (env_crates E) (w_store w) c)"
  by (auto simp: stable_def quiet_def soft_step_store)

lemma operation_intent_then:
  assumes "op_phase op = Op_IntentRecorded" "may_create (op_id op)" "op_cell_id op = c"
    and "validE (at_op r op) m Q (\<lambda>_. I)"
  shows "validE (\<lambda>w. owned r w \<and> quiet (env_crates E) (w_store w) c) (bindE (save_operation E op) (\<lambda>_. m)) Q (\<lambda>_. I)"
proof (rule validE_bind [OF _ assms(4)], unfold validE_def, intro allI impI)
  fix w assume w: "owned r w \<and> quiet (env_crates E) (w_store w) c"
  obtain res w' where run: "save_operation E op w = (res, w')" by (cases "save_operation E op w") auto
  have wr: "op_write E may_create (w_store w) op" using w assms(1-3) by (auto simp: op_write_def)
  from w have "I w" by auto
  from save_operation_effect [OF this wr run] have I: "I w'"
    and w': "\<exists>n. w' = w\<lparr>w_tick := n\<rparr> \<or> w' = w\<lparr>w_tick := n, w_store := put_operation (env_crates E) op (w_store w)\<rparr>"
    and ok: "is_ok res \<Longrightarrow> op_doc (env_crates E) (w_store w') (op_id op) = Some (Doc op)" by blast+
  from w' have "owned r w'"
    using w I owned_put [of r w w' "env_crates E" op] by (auto simp: owned_def held_def)
  then show "case save_operation E op w of (Inl e, w') \<Rightarrow> I w' | (Inr x, w') \<Rightarrow> at_op r op w'"
    using run ok I by (cases res) (auto simp: at_op_def)
qed

lemma run_guest_operation_valid:
  assumes action: "\<And>r vm. cid r = gd_cell_id d \<Longrightarrow> keeps_record r vm (gp_kind (gd_plan d)) R action"
  shows "validE I (run_guest_operation E cr d action) (outcome (gd_cell_id d) (gp_kind (gd_plan d)) (gd_job_id d) R) (\<lambda>_. I)"
    (is "validE _ _ ?Q _")
  unfolding run_guest_operation_def
proof (rule check_then [OF stable_I], rule locked_post, rule load_then, simp, rule check_then [OF stable_held], rule validE_if, goal_cases)
  case (2 u r v)
  then have cell: "cid r = gd_cell_id d" "cell_state r = Cell_Running" "cell_phase r = Phase_Ready"
    by (auto simp: require_lifecycle_state_def)
  show ?case
  proof (rule list_then [OF stable_held], rule validE_if, goal_cases)
    case (2 ops)
    let ?P = "\<lambda>w. held r w \<and> quiet (env_crates E) (w_store w) (gd_cell_id d)"
    let ?O = "\<lambda>w. owned r w \<and> quiet (env_crates E) (w_store w) (gd_cell_id d)"
    have start: "validE ?O (bindE (new_uuid E) (\<lambda>i.
        let op = intent_with_job (GuestOperationId i) (gd_cell_id d) (gp_kind (gd_plan d)) now (gd_job_id d) in
        bindE (save_operation E op) (\<lambda>_. bindE (note_recorded (op_id op)) (\<lambda>_. perform_operation E cr p r vm op action)))) ?Q (\<lambda>_. I)"
      if vm: "prove_ownership (fe_host E) r vm = Inr ()" "vm_power_state vm = Power_Running" for now vm p
    proof (rule soft_then [where F = "\<lambda>i. may_create (GuestOperationId i)"], goal_cases)
      case (4 i)
      define op where "op = intent_with_job (GuestOperationId i) (gd_cell_id d) (gp_kind (gd_plan d)) now (gd_job_id d)"
      have "validE (at_op r op) (perform_operation E cr p r vm op action) ?Q (\<lambda>_. I)"
        using perform_operation_valid [of op r vm R action cr p] cell vm action [of r vm]
        by (simp add: op_def intent_with_job_def)
      then have "validE (at_op r op) (bindE (note_recorded (op_id op)) (\<lambda>_. perform_operation E cr p r vm op action)) ?Q (\<lambda>_. I)"
        by (intro skip_then soft_note_recorded stable_at_op)
      then show ?case
        using 4 unfolding Let_def op_def [symmetric] by (intro operation_intent_then) (simp_all add: op_def intent_with_job_def)
    qed (auto simp: new_uuid_run intro: soft_intro stable_quiet I_fresh)
    show ?case
      by (rule validE_pre [where P = ?P], rule check_then [OF stable_quiet [OF stable_held]], rule validE_if,
          (auto intro: validE_throw) [1], rule own_then_keep [OF stable_quiet [OF stable_held]], simp,
          rule validE_if, (auto intro: validE_throw) [1], rule validE_pre [where P = ?O], rule skip_then)
        (use 2 not_in_flight_quiet in \<open>auto intro!: soft_intro start stable_quiet\<close>)
  qed (auto intro: validE_throw)
qed (auto intro: validE_throw outcome_lock)

text \<open>The operations.\<close>

lemma exec_guest_with_ready_callback_valid:
  assumes "soft on_ready"
  shows "validE I (exec_guest_with_ready_callback E cr q job on_ready)
    (outcome (gxr_cell_id q) Kind_Exec job (exec_outcome q)) (\<lambda>_. I)"
proof -
  let ?d = "\<lparr>gd_cell_id = gxr_cell_id q, gd_job_id = job, gd_plan = \<lparr>gp_kind = Kind_Exec, gp_readiness = gxr_readiness q\<rparr>\<rparr>"
  have check: "validE (at_op r op) (bindE (liftR (validate_guest_command_result c x)) (\<lambda>_. ret v))
      (\<lambda>(v', y) w. at_op r op w \<and> exec_outcome q (op_id op) v' y) (\<lambda>_. at_op r op)"
    if "validate_guest_command_result c x = Inr () \<Longrightarrow> exec_outcome q (op_id op) (fst v) (snd v)" for r op c x v
    using that by (intro validE_bind_liftR validE_ret) (auto split: prod.splits)
  show ?thesis
    unfolding exec_guest_with_ready_callback_def
    by (intro skip_then run_guest_operation_valid [where d = ?d and R = "exec_outcome q", simplified])
      (auto simp: keeps_record_def intro!: soft_intro validE_bind [OF soft_at_op [OF assms]]
        validE_bind [OF acting_call_valid] check, simp add: exec_outcome_def)
qed

lemma soft_copy_source: "soft (read_ordinary_copy_source E p n)" "soft (read_job_copy_source E root p n sha len)"
  by (auto simp: read_ordinary_copy_source_def read_job_copy_source_def canonicalize_def intro!: soft_intro)

lemma copy_into_guest_with_job_valid:
  "validE I (copy_into_guest_with_job E cr q b job) (outcome (gci_cell_id q) Kind_CopyIn job copy_outcome) (\<lambda>_. I)"
proof -
  let ?d = "\<lparr>gd_cell_id = gci_cell_id q, gd_job_id = job, gd_plan = \<lparr>gp_kind = Kind_CopyIn, gp_readiness = gci_readiness q\<rparr>\<rparr>"
  show ?thesis
    unfolding copy_into_guest_with_job_def
    by (intro skip_then run_guest_operation_valid [where d = ?d and R = copy_outcome, simplified])
      (auto simp: keeps_record_def Let_def copy_outcome_def guest_completion_default_def intro!: soft_intro soft_copy_source
        validE_ret validE_bind [OF acting_call_valid] split: option.split)
qed

lemma collect_files_valid:
  assumes "acting E r vm a op" "artifact_kind (op_kind op)"
  shows "validE (at_op r op) (collect_files E cr a vm (op_id op) t n g k srcs) (\<lambda>_. at_op r op) (\<lambda>_. at_op r op)"
proof (induction srcs arbitrary: k)
  case (Cons src srcs)
  show ?case
    unfolding collect_files.simps Let_def
    by (rule validE_bind [OF acting_call_valid [OF assms(1)]])
      (auto simp: assms(2) intro!: validE_if validE_throw validE_bind [OF arty_at_op] validE_bind [OF Cons.IH] validE_ret arty_intro)
qed (auto intro: validE_ret)

lemma collect_action_keeps: "artifact_kind k \<Longrightarrow> keeps_record r vm k collect_outcome (collect_action E cr q job)"
  unfolding keeps_record_def collect_action_def
  by (auto simp: Let_def collect_outcome_def intro!: validE_bind [OF arty_at_op] validE_bind [OF collect_files_valid]
      validE_ret arty_intro)

lemma collect_artifacts_with_kind_valid:
  assumes "artifact_kind k"
  shows "validE I (collect_artifacts_with_kind E cr q k job) (outcome (acr_cell_id q) k job collect_outcome) (\<lambda>_. I)"
proof -
  let ?d = "\<lparr>gd_cell_id = acr_cell_id q, gd_job_id = job, gd_plan = \<lparr>gp_kind = k, gp_readiness = acr_readiness q\<rparr>\<rparr>"
  show ?thesis
    unfolding collect_artifacts_with_kind_def
    by (intro skip_then run_guest_operation_valid [where d = ?d and R = collect_outcome, simplified])
      (auto intro!: soft_intro collect_action_keeps assms)
qed

text \<open>Pruning and recovery act on a durable operation without its cell.\<close>

definition has_op :: "guest_operation_record \<Rightarrow> ('p, 'g, 'z) guest_world_scheme \<Rightarrow> bool" where
  "has_op op w \<longleftrightarrow> I w \<and> op_doc (env_crates E) (w_store w) (op_id op) = Some (Doc op)"

lemma stable_has_op [intro, simp]: "stable (has_op op)"
  using stable_I by (auto simp: stable_def has_op_def soft_step_store)

lemma save_has_op:
  assumes "op_step op op'" "op_id op' = op_id op"
  shows "validE (has_op op) (save_operation E op') (\<lambda>_. has_op op') (\<lambda>_. I)"
  unfolding validE_def
proof (intro allI impI)
  fix w assume w: "has_op op w"
  obtain res w' where run: "save_operation E op' w = (res, w')" by (cases "save_operation E op' w") auto
  have "op_write E may_create (w_store w) op'" using w assms by (auto simp: op_write_def has_op_def)
  from save_operation_effect [OF _ this run] w
  show "case save_operation E op' w of (Inl e, w') \<Rightarrow> I w' | (Inr x, w') \<Rightarrow> has_op op' w'"
    using run by (cases res) (auto simp: has_op_def)
qed

lemma load_operation_then:
  assumes "stable P" "\<And>op. op_id op = i \<Longrightarrow> operation_fields_valid op \<Longrightarrow> validE (\<lambda>w. P w \<and> has_op op w) (f op) Q (\<lambda>_. I)"
  shows "validE P (bindE (stE (load_guest_operation E i)) f) Q (\<lambda>_. I)"
proof (rule validE_fact [where F = "\<lambda>op. op_id op = i \<and> operation_fields_valid op" and P' = "\<lambda>op w. P w \<and> has_op op w"],
    unfold validE_def, intro allI impI)
  fix w assume P: "P w"
  obtain res w' where run: "stE (load_guest_operation E i) w = (res, w')" by (cases "stE (load_guest_operation E i) w") auto
  have "soft (stE (load_guest_operation E i))" by (auto simp: load_guest_operation_def intro!: soft_intro)
  from softD [OF this run] have soft: "soft_step w w'" .
  have P': "P w'" "I w'" using P assms(1) soft by (auto simp: stable_def)
  have "has_op op w' \<and> op_id op = i \<and> operation_fields_valid op" if "res = Inr op" for op
    using run that soft P'
    by (auto simp: mapE_ok load_guest_operation_def load_guest_operation_from_def Let_def read_doc_def has_op_def
        validate_guest_operation_schema_def soft_step_store split: option.splits doc.splits dest!: read_op_ok)
  with run P' show "case stE (load_guest_operation E i) w of (Inl e, w') \<Rightarrow> I w'
      | (Inr op, w') \<Rightarrow> (P w' \<and> has_op op w') \<and> op_id op = i \<and> operation_fields_valid op"
    by (auto split: sum.splits)
qed (use assms(2) in \<open>simp add: validE_def\<close>)

lemma soft_parent: "soft (stE (require_guest_operation_parent_for_mutation E op))"
  "soft (stE (load_artifact E c i))" "soft (stE (artifact_root_exists E c i))"
  by (auto simp: require_guest_operation_parent_for_mutation_def load_artifact_def artifact_root_exists_def intro!: soft_intro)

lemma end_has_op: "validE (has_op op) (ret x) (\<lambda>_. I) (\<lambda>_. I)" "validE (has_op op) (throw e) Q (\<lambda>_. I)"
  by (auto intro: validE_ret validE_throw simp: has_op_def)

lemma recover_operation_valid:
  assumes "operation_fields_valid op"
  shows "validE (has_op op) (recover_operation E op) (\<lambda>_. I) (\<lambda>_. I)"
proof (cases "op_phase op")
  case Op_IntentRecorded
  have "validE (has_op op) (save_operation E (op\<lparr>op_phase := Op_Failed, op_failure := Some Fail_Interrupted,
      op_updated_at := t, op_completed_at := Some t\<rparr>)) (\<lambda>_. I) (\<lambda>_. I)" for t
    by (rule validE_weaken [OF save_has_op [OF op_step.fail]])
      (use Op_IntentRecorded in \<open>auto simp: same_operation_def has_op_def\<close>)
  then show ?thesis
    by (simp add: recover_operation_def Op_IntentRecorded Let_def)
      (rule skip_then [OF soft_store_reads(2) stable_has_op], rule validE_bind, assumption, auto intro: validE_ret)
next
  case Op_ArtifactCommitted
  have "validE (has_op op) (save_operation E (op\<lparr>op_phase := Op_Completed, op_updated_at := t, op_completed_at := Some t\<rparr>))
      (\<lambda>_. I) (\<lambda>_. I)" for t
    by (rule validE_weaken [OF save_has_op [OF op_step.complete]])
      (use Op_ArtifactCommitted assms in \<open>auto simp: same_operation_def has_op_def operation_fields_valid_def\<close>)
  note save = this
  have "validE (has_op op) (bindE (stE (load_artifact E (op_cell_id op) a)) (\<lambda>_. bindE (utc_now E) (\<lambda>now.
      let op' = op\<lparr>op_phase := Op_Completed, op_updated_at := now, op_completed_at := Some now\<rparr> in
      bindE (save_operation E op') (\<lambda>_. ret (recovery_report op' Recover_ArtifactCompletionRecovered True))))) (\<lambda>_. I) (\<lambda>_. I)" for a
    unfolding Let_def by (intro skip_then soft_parent soft_store_reads stable_has_op validE_bind [OF save]) (auto intro: validE_ret)
  then show ?thesis
    by (simp add: recover_operation_def Op_ArtifactCommitted)
      (rule check_then [OF stable_has_op], auto intro!: validE_if end_has_op)
qed (auto simp: recover_operation_def end_has_op)

lemma reconcile_guest_operation_valid: "validE I (reconcile_guest_operation E i) (\<lambda>_. I) (\<lambda>_. I)"
  unfolding reconcile_guest_operation_def
  by (rule load_operation_then [OF stable_I], rule validE_pre [of I])
    (auto intro!: skip_then [OF soft_parent(1)] validE_if validE_ret locked load_operation_then
      validE_pre [OF skip_then [OF soft_parent(1) stable_has_op recover_operation_valid]])

text \<open>A listed batch: every entry is durable; pruning one leaves the others.\<close>

definition batch :: "guest_operation_record list \<Rightarrow> ('p, 'g, 'z) guest_world_scheme \<Rightarrow> bool" where
  "batch ops w \<longleftrightarrow> I w \<and> distinct (map op_id ops) \<and> (\<forall>op \<in> set ops. op_doc (env_crates E) (w_store w) (op_id op) = Some (Doc op))"

lemma stable_batch [intro, simp]: "stable (batch ops)"
  using stable_I by (auto simp: stable_def batch_def soft_step_store)

lemma arty_batch: "arty m \<Longrightarrow> validE (batch ops) m (\<lambda>_. batch ops) (\<lambda>_. batch ops)"
  by (rule arty_valid) (auto simp: batch_def I_artifacts)

lemma save_batch:
  assumes "op_step op op'" "op_id op' = op_id op"
  shows "validE (batch (op # ops)) (save_operation E op') (\<lambda>_. batch ops) (\<lambda>_. I)"
  unfolding validE_def
proof (intro allI impI)
  fix w assume w: "batch (op # ops) w"
  obtain res w' where run: "save_operation E op' w = (res, w')" by (cases "save_operation E op' w") auto
  have wr: "op_write E may_create (w_store w) op'" using w assms by (auto simp: op_write_def batch_def)
  from w have I: "I w" by (simp add: batch_def)
  from save_operation_effect [OF I wr run] have "I w'"
    and w': "\<exists>n. w' = w\<lparr>w_tick := n\<rparr> \<or> w' = w\<lparr>w_tick := n, w_store := put_operation (env_crates E) op' (w_store w)\<rparr>" by auto
  moreover have "op_doc (env_crates E) (w_store w') (op_id x) = Some (Doc x)" if "x \<in> set ops" for x
    using w' w that assms(2) op_doc_put [OF crates_ok [OF I], of op' "w_store w" "op_id x"]
    by (auto simp: batch_def image_iff)
  ultimately show "case save_operation E op' w of (Inl e, w') \<Rightarrow> I w' | (Inr x, w') \<Rightarrow> batch ops w'"
    using run w by (cases res) (auto simp: batch_def)
qed

lemma soft_prune_bytes: "soft (prune_bytes E op)"
  by (auto simp: prune_bytes_def intro!: soft_intro soft_parent)

lemma batch_tail: "batch (op # ops) w \<Longrightarrow> batch ops w" "batch ops w \<Longrightarrow> I w"
  by (auto simp: batch_def)

lemma prune_operation_valid:
  assumes "is_recovery op \<or> is_expired_artifact cutoff op"
  shows "validE (batch (op # ops)) (prune_operation E dry t op) (\<lambda>_. batch ops) (\<lambda>_. I)"
proof -
  have mark: "validE (batch (op # ops)) (if is_recovery op then ret ()
      else save_operation E (op\<lparr>op_updated_at := t, op_artifact_pruned_at := Some t\<rparr>)) (\<lambda>_. batch ops) (\<lambda>_. I)"
    by (rule validE_if, rule validE_ret, erule batch_tail, rule save_batch [OF op_step.prune])
      (use assms in \<open>auto simp: is_expired_artifact_def\<close>)
  have remove: "validE (batch ops) (bindE (stE (remove_artifact_root E (op_cell_id op) (op_id op)))
      (\<lambda>_. ret d)) (\<lambda>_. batch ops) (\<lambda>_. I)" for d :: artifact_prune_disposition
    by (rule validE_weaken [OF validE_bind [OF arty_batch validE_ret]]) (auto intro: arty_intro simp: batch_tail)
  show ?thesis
    unfolding prune_operation_def
    by (intro skip_then soft_parent soft_prune_bytes stable_batch
        validE_bind [of "batch (op # ops)" _ "\<lambda>_. batch ops"] validE_if validE_bind [OF mark remove] validE_ret)
      (auto simp: batch_tail)
qed

lemma prune_operations_valid: "validE (batch ops) (prune_operations E q t cutoff n ops) (\<lambda>_. I) (\<lambda>_. I)"
proof (induction ops arbitrary: n)
  case (Cons op ops)
  have end_I: "validE (batch ops) (bindE (prune_operations E q t cutoff k ops) (\<lambda>es. ret (e # es))) (\<lambda>_. I) (\<lambda>_. I)" for k e
    by (rule validE_bind [OF Cons.IH]) (auto intro: validE_ret)
  show ?case
    unfolding prune_operations.simps
    by (intro validE_if validE_bind [OF prune_operation_valid end_I] validE_pre [OF Cons.IH] validE_ret)
      (auto simp: batch_tail)
qed (auto intro: validE_ret simp: batch_tail)

lemma prune_artifacts_valid: "validE I (prune_artifacts E q) (\<lambda>_. I) (\<lambda>_. I)"
  unfolding prune_artifacts_def Let_def
proof (rule check_then [OF stable_I], rule skip_then [OF soft_store_reads(2) stable_I], rule locked,
    rule list_then [OF stable_I], rule validE_pre)
  fix t ops
  show "validE (batch (sort_key (prune_key (env_crates E)) ops)) (bindE (prune_operations E q t (t - int (apr_older_than q)) 0
      (sort_key (prune_key (env_crates E)) ops)) (\<lambda>entries. ret \<lparr>app_schema_version = AUTOMATION_SCHEMA_VERSION,
        app_evaluated_at = t, app_cutoff = t - int (apr_older_than q), app_dry_run = apr_dry_run q, app_entries = entries\<rparr>))
      (\<lambda>_. I) (\<lambda>_. I)"
    by (rule validE_bind [OF prune_operations_valid]) (auto intro: validE_ret)
qed (auto simp: batch_def lists_operations_def distinct_map)

end

end
