(* ===== verification/RunSafety.thy ===== *)
theory RunSafety
  imports RunOps GuestSafety
begin

section \<open>Safety of runs\<close>

text \<open>
  A run is built from operations of the engine, so an invariant of cells and guest operations is an invariant of runs as soon as
  it survives the events shown to the observer.  The locale \<open>run_invariant\<close> adds that law and proves each stage
  once: what the observer is shown is true of the durable store, and what the report says of the cell is true as well.
\<close>

subsection \<open>Events and reports that are true\<close>

definition completed_operation :: "crates \<Rightarrow> store \<Rightarrow> cell_id \<Rightarrow> guest_operation_kind \<Rightarrow> guest_operation_id \<Rightarrow> guest_operation_record \<Rightarrow> bool" where
  "completed_operation X st c k i op \<longleftrightarrow> op_doc X st i = Some (Doc op) \<and> op_id op = i \<and> op_cell_id op = c \<and> op_kind op = k
     \<and> op_phase op = Op_Completed"

fun event_ok :: "('p, 'y) engine_env_scheme \<Rightarrow> store \<Rightarrow> run_progress_event \<Rightarrow> bool" where
  "event_ok E st (Ev_ImageVerified i) \<longleftrightarrow>
     (\<exists>c r. load_cell_from (env_crates E) (fe_root E) st c = Inr r \<and> bnd_image_id (cell_image r) = i)"
| "event_ok E st (Ev_CellCreated c) \<longleftrightarrow>
     (\<exists>r. load_cell_from (env_crates E) (fe_root E) st c = Inr r \<and> lifecycle_of r = (Cell_Stopped, Phase_Ready))"
| "event_ok E st (Ev_ProviderStarted c) \<longleftrightarrow>
     (\<exists>r. load_cell_from (env_crates E) (fe_root E) st c = Inr r \<and> cell_state r = Cell_Running)"
| "event_ok E st (Ev_CommandCompleted c i code) \<longleftrightarrow>
     (\<exists>op. completed_operation (env_crates E) st c Kind_Exec i op \<and> op_exit_code op = Some code)"
| "event_ok E st (Ev_CopyInCompleted c i n) \<longleftrightarrow> (\<exists>op. completed_operation (env_crates E) st c Kind_CopyIn i op)"
| "event_ok E st (Ev_ArtifactCollected c i n) \<longleftrightarrow>
     (\<exists>op. completed_operation (env_crates E) st c Kind_ArtifactCollect i op \<and> op_artifact_id op = Some i)"
| "event_ok E st (Ev_CellDestroyed c) \<longleftrightarrow>
     (\<exists>r. load_cell_from (env_crates E) (fe_root E) st c = Inr r \<and> cell_state r = Cell_Destroyed)"
| "event_ok E st _ \<longleftrightarrow> True"

text \<open>What a disposition says of the cell: nothing was created, it is a tombstone, or the policy asked for keeping it.\<close>

definition disposition_ok ::
  "('p, 'y) engine_env_scheme \<Rightarrow> run_cleanup_policy \<Rightarrow> cell_id \<Rightarrow> store \<Rightarrow> run_cleanup_disposition \<Rightarrow> bool" where
  "disposition_ok E policy c st d = (case d of
      Cleanup_NothingCreated \<Rightarrow> \<exists>p. load_cell_from (env_crates E) (fe_root E) st c = Inl (SE_NotFound p)
    | Cleanup_Destroyed \<Rightarrow> \<exists>r. load_cell_from (env_crates E) (fe_root E) st c = Inr r \<and> cell_state r = Cell_Destroyed
    | Cleanup_RetainedByRequest \<Rightarrow> rc_keep policy
    | Cleanup_RetainedOnFailure \<Rightarrow> rc_keep_on_failure policy
    | _ \<Rightarrow> True)"

definition failure_ok :: "('p, 'y) engine_env_scheme \<Rightarrow> run_cell_request \<Rightarrow> cell_record dir \<Rightarrow> store \<Rightarrow> run_cell_error \<Rightarrow> bool" where
  "failure_ok E q cells st e = (case rf_cell_id (rce_report e) of
      None \<Rightarrow> rf_stage (rce_report e) = Stage_RequestValidation \<and> rf_cleanup (rce_report e) = Cleanup_NothingCreated
        \<and> sto_cells st = cells
    | Some c \<Rightarrow> disposition_ok E (rq_cleanup q) c st (rf_cleanup (rce_report e)))"

definition report_ok :: "('p, 'y) engine_env_scheme \<Rightarrow> run_cell_request \<Rightarrow> store \<Rightarrow> run_cell_report \<Rightarrow> bool" where
  "report_ok E q st rep \<longleftrightarrow> disposition_ok E (rq_cleanup q) (rr_cell_id rep) st (rr_cleanup rep)
     \<and> rr_cleanup rep \<in> {Cleanup_Destroyed, Cleanup_RetainedByRequest, Cleanup_RetainedOnFailure}
     \<and> (rr_cleanup rep = Cleanup_RetainedOnFailure \<longrightarrow> rr_outcome rep = Run_GuestNonZero)
     \<and> (rr_outcome rep = Run_Success \<longleftrightarrow> gr_exit_code (rr_result rep) = 0)
     \<and> validate_guest_command_result (rq_command q) (rr_result rep) = Inr ()"

lemma or_else_run_valid:
  assumes "validE P m Q S" "\<And>e. validE (S e) (h e) Q R"
  shows "validE P (or_else_run m h) Q R"
proof -
  have "validE P (attempt m) (\<lambda>res w. case res of Inl e \<Rightarrow> S e w | Inr x \<Rightarrow> Q x w) R"
    by (rule validE_attempt) (use assms(1) in simp)
  moreover have "validE (\<lambda>w. case res of Inl e \<Rightarrow> S e w | Inr x \<Rightarrow> Q x w) (case res of Inl e \<Rightarrow> h e | Inr x \<Rightarrow> ret x) Q R" for res
    using assms(2) by (cases res) (auto intro: validE_ret)
  ultimately show ?thesis unfolding or_else_run_def by (rule validE_bind)
qed

lemma soft_observe_note [soft_intro]: "note_only ev \<Longrightarrow> soft (observe E ev)"
  unfolding soft_def
proof
  fix w :: "('a, 'b) engine_world_scheme"
  assume "note_only ev"
  then show "soft_step w (snd (observe E ev w))"
    by (intro soft_stepI [where evs = "[(ev, en_observe E (w_tick w) ev, w_store w)]" and n = "Suc (w_tick w)" and p = "ew_provider w"
          and rs = "sto_runtime (w_store w)" and rec = "ew_recorded w"])
      (simp add: only_notes_def, cases w, simp add: observe_def bindE_def next_tick_run modify_def ret_def Let_def)
qed

lemma soft_run_steps [soft_intro]:
  "soft (ready_callback E c)" "soft (job_metadata_now E job)" "soft forget_recorded" "soft (revalidate_run_request E q)"
  by (auto simp: ready_callback_def job_metadata_now_def revalidate_run_request_def Let_def intro!: soft_intro split: option.split)
    (simp add: forget_recorded_def soft_def modify_def soft_step_recorded)

subsection \<open>The interface\<close>

locale run_invariant =
  engine_invariant E I may_cell "\<lambda>_. True" + guest_invariant E I may_create
  for E :: "('p, 'g, 'y) guest_env_scheme"
    and I :: "('p, 'g, 'z) guest_world_scheme \<Rightarrow> bool"
    and may_cell :: "cell_id \<Rightarrow> bool" and may_create :: "guest_operation_id \<Rightarrow> bool" +
  assumes I_fresh_cell: "I w \<Longrightarrow> may_cell (CellId (fs_uuid E n))"
    and I_observe: "I w \<Longrightarrow> event_ok E (w_store w) ev \<Longrightarrow> I (w\<lparr>ew_events := (ev, x, w_store w) # ew_events w\<rparr>)"
begin

text \<open>A predicate on the durable store, under the invariant.\<close>

definition durably :: "(store \<Rightarrow> bool) \<Rightarrow> ('p, 'g, 'z) guest_world_scheme \<Rightarrow> bool" where
  "durably p w \<longleftrightarrow> I w \<and> p (w_store w)"

definition steady :: "(store \<Rightarrow> bool) \<Rightarrow> bool" where
  "steady p \<longleftrightarrow> (\<forall>st rs. p (st\<lparr>sto_runtime := rs\<rparr>) = p st)"

lemma steady_stable: "steady p \<Longrightarrow> stable (durably p)"
  unfolding stable_def durably_def steady_def using I_soft by (fastforce simp: soft_step_def)

lemma steady_load: "steady (\<lambda>st. f (load_cell_from X root st c))"
  using load_cell_from_cong [of "st\<lparr>sto_runtime := rs\<rparr>" st X root for st rs] by (simp add: steady_def)

lemma steady_disposition: "steady (\<lambda>st. disposition_ok E policy c st d)"
  using steady_load [where f = "\<lambda>l. case d of Cleanup_NothingCreated \<Rightarrow> \<exists>p. l = Inl (SE_NotFound p)
      | Cleanup_Destroyed \<Rightarrow> \<exists>r. l = Inr r \<and> cell_state r = Cell_Destroyed
      | Cleanup_RetainedByRequest \<Rightarrow> rc_keep policy | Cleanup_RetainedOnFailure \<Rightarrow> rc_keep_on_failure policy | _ \<Rightarrow> True"]
  by (simp add: disposition_ok_def)

lemma steady_True: "steady (\<lambda>_. True)"
  by (simp add: steady_def)

lemma durably_True: "durably (\<lambda>_. True) = I"
  by (simp add: durably_def fun_eq_iff)

lemma steady_operations: "steady (\<lambda>st. f (op_doc X st i))"
  by (simp add: steady_def)

lemma observe_valid:
  assumes "steady p" "\<And>st. p st \<Longrightarrow> event_ok E st ev"
  shows "validE (durably p) (observe E ev) (\<lambda>_. durably p) R"
  unfolding validE_def
proof (intro allI impI)
  fix w assume w: "durably p w"
  then have "durably p (w\<lparr>w_tick := Suc (w_tick w)\<rparr>)"
    using steady_stable [OF assms(1)] soft_step_tick unfolding stable_def by blast
  then have "durably p (w\<lparr>w_tick := Suc (w_tick w), ew_events := (ev, x, w_store w) # ew_events w\<rparr>)" for x
    using I_observe [of "w\<lparr>w_tick := Suc (w_tick w)\<rparr>" ev x] assms(2) by (simp add: durably_def)
  then show "case observe E ev w of (Inl e, w') \<Rightarrow> R e w' | (Inr x, w') \<Rightarrow> durably p w'"
    by (simp add: observe_def bindE_def next_tick_run modify_def ret_def Let_def)
qed

lemmas observe_true = observe_valid [OF steady_True, unfolded durably_True]

subsection \<open>Cleaning up\<close>

abbreviation cleaned :: "run_cleanup_policy \<Rightarrow> cell_id \<Rightarrow> run_cleanup_disposition \<Rightarrow> ('p, 'g, 'z) guest_world_scheme \<Rightarrow> bool" where
  "cleaned policy c d \<equiv> durably (\<lambda>st. disposition_ok E policy c st d)"

lemma torn_down_cleaned: "settled Cell_Destroyed c rep w \<Longrightarrow> cleaned policy c Cleanup_Destroyed w"
  by (auto simp: settled_def held_def durably_def disposition_ok_def)

lemma destroy_for_cleanup_valid:
  "validE I (destroy_for_cleanup E c)
     (\<lambda>(d, e) w. cleaned policy c d w \<and> d \<notin> {Cleanup_RetainedByRequest, Cleanup_RetainedOnFailure, Cleanup_NothingCreated}
        \<and> (e = None \<longrightarrow> d = Cleanup_Destroyed)) R"
  (is "validE _ _ ?Q _")
proof -
  have gone: "validE (cleaned policy c Cleanup_Destroyed) (bindE (observe E (Ev_CellDestroyed c)) (\<lambda>_. ret (Cleanup_Destroyed, None))) ?Q R"
    by (rule validE_bind [OF observe_valid [OF steady_disposition]]) (auto simp: disposition_ok_def intro!: validE_ret)
  have failed: "validE I (let d = cleanup_failure_disposition e in
      bindE (if d = Cleanup_RefusedAmbiguous then bindE (observe E (Ev_CleanupRefused c)) (\<lambda>_. ret ()) else ret ()) (\<lambda>_. ret (d, Some e))) ?Q R" for e
    unfolding Let_def
    by (rule validE_bind [where I = "\<lambda>_. I"])
      (auto intro!: validE_if validE_bind [OF observe_true] validE_ret
        simp: durably_def disposition_ok_def cleanup_failure_disposition_def split: engine_error.split guest_io_error.split)
  have "validE I (attempt (destroy_cell_for_run E c)) (\<lambda>res w. case res of Inr _ \<Rightarrow> cleaned policy c Cleanup_Destroyed w | Inl _ \<Rightarrow> I w) R"
    by (rule validE_attempt, simp, rule validE_weaken [OF destroy_cell_for_run_valid]) (auto intro: torn_down_cleaned)
  moreover have "validE (\<lambda>w. case res of Inr _ \<Rightarrow> cleaned policy c Cleanup_Destroyed w | Inl _ \<Rightarrow> I w) (case res of
       Inr _ \<Rightarrow> bindE (observe E (Ev_CellDestroyed c)) (\<lambda>_. ret (Cleanup_Destroyed, None))
     | Inl e \<Rightarrow> let d = cleanup_failure_disposition e in
         bindE (if d = Cleanup_RefusedAmbiguous then bindE (observe E (Ev_CleanupRefused c)) (\<lambda>_. ret ()) else ret ()) (\<lambda>_. ret (d, Some e))) ?Q R"
    for res :: "engine_error + operation_report"
    using gone failed by (cases res) simp_all
  ultimately show ?thesis
    unfolding destroy_for_cleanup_def by (intro validE_bind [OF observe_true] validE_bind) auto
qed

lemma cleanup_failed_run_valid:
  "validE I (cleanup_failed_run E c policy ambiguous) (\<lambda>(d, e). cleaned policy c d) R"
  unfolding cleanup_failed_run_def
proof (rule validE_bind)
  show "validE I (attempt (load_cell E c)) (\<lambda>res w. I w \<and> ((\<exists>p. res = Inl (SE_NotFound p)) \<longrightarrow> cleaned policy c Cleanup_NothingCreated w)) R"
    unfolding validE_def
  proof (intro allI impI)
    fix w assume "I w"
    then show "case attempt (load_cell E c) w of (Inl e, w') \<Rightarrow> R e w'
        | (Inr res, w') \<Rightarrow> I w' \<and> ((\<exists>p. res = Inl (SE_NotFound p)) \<longrightarrow> cleaned policy c Cleanup_NothingCreated w')"
      using I_soft [OF _ soft_step_tick [of w "Suc (w_tick w)"]]
      by (auto simp: attempt_def load_cell_def read_op_run durably_def disposition_ok_def fault_error_def
          split: option.split prod.split fs_fault.split)
  qed
next
  fix res
  show "validE (\<lambda>w. I w \<and> ((\<exists>p. res = Inl (SE_NotFound p)) \<longrightarrow> cleaned policy c Cleanup_NothingCreated w)) (case res of
       Inl (SE_NotFound _) \<Rightarrow> ret (Cleanup_NothingCreated, None)
     | Inl e \<Rightarrow> ret (Cleanup_Failed, Some (EE_State e))
     | Inr _ \<Rightarrow>
       let retained = (if rc_keep policy then Some Cleanup_RetainedByRequest
         else if rc_keep_on_failure policy then Some Cleanup_RetainedOnFailure else None) in
       case retained of
         Some disposition \<Rightarrow> bindE (observe E (Ev_CellRetained c disposition)) (\<lambda>_. ret (disposition, None))
       | None \<Rightarrow>
         if ambiguous then bindE (observe E (Ev_CleanupRefused c)) (\<lambda>_. ret (Cleanup_RefusedAmbiguous, None))
         else destroy_for_cleanup E c) (\<lambda>(d, e). cleaned policy c d) R"
  proof (cases res)
    case (Inl e)
    then show ?thesis by (cases e) (auto intro!: validE_ret simp: durably_def disposition_ok_def)
  next
    case (Inr r)
    then show ?thesis
      by (auto simp: Let_def durably_def disposition_ok_def
          intro!: validE_bind [OF observe_true] validE_ret validE_weaken [OF destroy_for_cleanup_valid [where policy = policy]])
  qed
qed

subsection \<open>Failing\<close>

abbreviation failing :: "run_cell_request \<Rightarrow> cell_record dir \<Rightarrow> run_cell_error \<Rightarrow> ('p, 'g, 'z) guest_world_scheme \<Rightarrow> bool" where
  "failing q cells e \<equiv> durably (\<lambda>st. failure_ok E q cells st e)"

lemma fail_run_valid:
  assumes "steady p" "\<And>st job. p st \<Longrightarrow> failure_ok E q cells st
     \<lparr>rce_report = \<lparr>rf_schema_version = AUTOMATION_SCHEMA_VERSION, rf_plan = fc_plan ctx, rf_job = job,
         rf_job_operations = fc_job_operations ctx, rf_cell_id = fc_cell_id ctx, rf_operation_id = fc_operation_id ctx,
         rf_stage = stage, rf_cleanup = d, rf_error_code = durable_error_code e,
         rf_cleanup_error_code = map_option durable_error_code ce, rf_result = res\<rparr>, rce_source = e\<rparr>"
  shows "validE (durably p) (fail_run E ctx stage d e ce res) Q (failing q cells)"
proof -
  have "validE (durably p) (job_metadata_now E (fc_job ctx)) (\<lambda>_. durably p) (failing q cells)"
    unfolding job_metadata_now_def
    by (auto split: option.split intro!: validE_ret)
      (auto simp: validE_def bindE_def utc_now_run ret_def intro: steady_stable [OF assms(1), unfolded stable_def, THEN conjunct1, rule_format] soft_step_tick)
  then show ?thesis
    unfolding fail_run_def by (rule validE_bind) (rule validE_throw, use assms(2) in \<open>auto simp: durably_def\<close>)
qed

lemma failed_run_valid:
  assumes "fc_cell_id ctx = Some c"
  shows "validE I (failed_run E c (rq_cleanup q) ambiguous ctx stage e res) Q (failing q cells)"
  unfolding failed_run_def
proof (rule validE_bind [OF cleanup_failed_run_valid], clarify)
  fix d ce
  show "validE (cleaned (rq_cleanup q) c d) (fail_run E ctx stage d e ce res) Q (failing q cells)"
    by (rule fail_run_valid [OF steady_disposition]) (simp add: failure_ok_def assms)
qed

lemma interrupted_run_valid:
  "fc_cell_id ctx = Some c \<Longrightarrow> validE I (interrupted_run E c (rq_cleanup q) ctx res) Q (failing q cells)"
  unfolding interrupted_run_def by (rule failed_run_valid)

lemma run_context_cell [simp]: "fc_cell_id (run_context q c op job ops) = Some c"
  by (simp add: run_context_def)

lemma steady_event: "steady (\<lambda>st. event_ok E st ev)"
proof -
  have load: "load_cell_from X root (st\<lparr>sto_runtime := rs\<rparr>) = load_cell_from X root st" for X root and st :: store and rs
    by (rule load_cell_from_cong) simp
  have completed: "completed_operation X (st\<lparr>sto_runtime := rs\<rparr>) = completed_operation X st" for X and st :: store and rs
    by (simp add: completed_operation_def fun_eq_iff)
  show ?thesis
    unfolding steady_def by (cases ev) (simp_all add: load completed)
qed

lemma checkpoint_valid:
  assumes "fc_cell_id ctx = Some c" "steady p" "\<And>st. p st \<Longrightarrow> event_ok E st ev"
  shows "validE (durably p) (checkpoint E ev (interrupted_run E c (rq_cleanup q) ctx res)) (\<lambda>_. durably p) (failing q cells)"
  unfolding checkpoint_def
  by (rule validE_bind [OF observe_valid [OF assms(2,3)]])
    (auto intro!: validE_if validE_ret validE_pre [OF interrupted_run_valid [OF assms(1)]] simp: durably_def)

lemma announce_valid:
  "validE (durably (\<lambda>st. event_ok E st ev)) (checkpoint E ev (interrupted_run E c (rq_cleanup q) (run_context q c op job ops) res))
     (\<lambda>_. I) (failing q cells)"
  by (rule validE_weaken [OF checkpoint_valid [OF run_context_cell steady_event]]) (auto simp: durably_def)

subsection \<open>Stages\<close>

lemma guest_stage_valid:
  assumes "validE I m Q (\<lambda>_. I)"
  shows "validE I (guest_stage E q c job ops stage res m) Q (failing q cells)"
  unfolding guest_stage_def Let_def
proof (rule validE_bind [where I = "\<lambda>_. I"])
  show "validE I forget_recorded (\<lambda>_. I) (failing q cells)"
    using I_soft [OF _ soft_step_recorded] by (auto simp: validE_def forget_recorded_def modify_def)
  show "validE I (or_else_run m (\<lambda>e. bindE (gets ew_recorded) (\<lambda>op.
      failed_run E c (rq_cleanup q) (op \<noteq> None \<and> \<not> snd (guest_failure_class_of e)) (run_context q c op job ops) stage e res)))
      Q (failing q cells)" for x :: unit
    by (rule or_else_run_valid [OF assms], rule validE_bind [OF validE_gets [where Q = "\<lambda>_. I"]])
      (auto intro: failed_run_valid)
qed

lemma run_copies_valid: "validE I (run_copies E cr q c job as ops) (\<lambda>_. I) (failing q cells)"
proof (induction as arbitrary: ops)
  case (Cons a as)
  let ?m = "copy_into_guest_for_job E cr c (rq_readiness q) (map_option ctx_job_id job) a"
  let ?ev = "\<lambda>rep. Ev_CopyInCompleted c (gcp_operation_id rep) (gcp_size rep)"
  have copied: "outcome c Kind_CopyIn (map_option ctx_job_id job) copy_outcome rep w \<Longrightarrow> durably (\<lambda>st. event_ok E st (?ev rep)) w" for rep w
    by (auto simp: outcome_def durably_def completed_operation_def records_def copy_outcome_def)
  have stage: "validE I (guest_stage E q c job ops Stage_GuestCopyIn None ?m) (\<lambda>rep. durably (\<lambda>st. event_ok E st (?ev rep))) (failing q cells)"
    unfolding copy_into_guest_for_job_def
    by (rule validE_weaken [OF guest_stage_valid [OF copy_into_guest_with_job_valid]]) (auto intro: copied simp del: event_ok.simps)
  show ?case
    unfolding run_copies.simps Let_def
    by (intro validE_bind [OF stage] validE_bind [OF announce_valid] Cons.IH)
qed (auto intro: validE_ret)

lemma run_execution_valid:
  "validE I (run_execution E cr q c job ops)
     (\<lambda>rep w. durably (\<lambda>st. event_ok E st (Ev_CommandCompleted c (gxp_operation_id rep) (gr_exit_code (gxp_result rep)))) w
        \<and> validate_guest_command_result (rq_command q) (gxp_result rep) = Inr ()) (failing q cells)"
  (is "validE _ _ ?Q _")
proof -
  let ?r = "\<lparr>gxr_cell_id = c, gxr_command = rq_command q, gxr_readiness = rq_readiness q\<rparr>"
  have exec: "validE I (exec_guest_with_ready_callback E cr ?r (map_option ctx_job_id job) (ready_callback E c)) ?Q (\<lambda>_. I)"
    by (rule validE_weaken [OF exec_guest_with_ready_callback_valid [OF soft_run_steps(1)]])
      (auto simp: outcome_def durably_def completed_operation_def records_def exec_outcome_def)
  have handler: "validE I (bindE (gets g) (\<lambda>shown. bindE (gets ew_recorded) (\<lambda>op.
      failed_run E c (rq_cleanup q) b (run_context q c op job ops) (execution_failure_stage shown) e None))) Q (failing q cells)" for g b e Q
    by (intro validE_bind [OF validE_gets [where Q = "\<lambda>_. I"]]) (auto intro: failed_run_valid)
  have forget: "validE I forget_recorded (\<lambda>_. I) (failing q cells)"
    using I_soft [OF _ soft_step_recorded] by (auto simp: validE_def forget_recorded_def modify_def)
  show ?thesis
    unfolding run_execution_def
    by (intro validE_bind [OF forget] validE_bind [OF validE_gets [where Q = "\<lambda>_. I"]] or_else_run_valid [OF exec] handler)
qed

lemma run_collection_valid: "validE I (run_collection E cr q c job res action ops) (\<lambda>_. I) (failing q cells)"
proof (cases action)
  case (Some a)
  let ?m = "collect_artifacts_for_job E cr c (rq_readiness q) (map_option ctx_job_id job) a"
  let ?ev = "\<lambda>rep. Ev_ArtifactCollected c (arp_operation_id rep) (word_of_nat (length (art_entries (arp_artifact rep))))"
  have "outcome c Kind_ArtifactCollect (map_option ctx_job_id job) collect_outcome rep w \<Longrightarrow> durably (\<lambda>st. event_ok E st (?ev rep)) w" for rep w
    by (auto simp: outcome_def durably_def completed_operation_def records_def collect_outcome_def)
  then have stage: "validE I (guest_stage E q c job ops Stage_ArtifactCollection (Some res) ?m)
      (\<lambda>rep. durably (\<lambda>st. event_ok E st (?ev rep))) (failing q cells)"
    unfolding collect_artifacts_for_job_def
    by (intro validE_weaken [OF guest_stage_valid [OF collect_artifacts_with_kind_valid]]) (simp_all add: artifact_kind_def del: event_ok.simps)
  show ?thesis
    unfolding run_collection_def Some option.case Let_def
    by (intro validE_bind [OF stage] validE_bind [OF announce_valid] validE_ret)
qed (auto simp: run_collection_def intro: validE_ret)

lemma run_cleanup_valid:
  assumes "fc_cell_id ctx = Some c"
  shows "validE I (run_cleanup E q c oc ctx res)
    (\<lambda>d w. cleaned (rq_cleanup q) c d w \<and> d \<in> {Cleanup_Destroyed, Cleanup_RetainedByRequest, Cleanup_RetainedOnFailure}
       \<and> (d = Cleanup_RetainedOnFailure \<longrightarrow> oc = Run_GuestNonZero)) (failing q cells)"
  (is "validE _ _ ?Q _")
proof -
  have after: "validE (\<lambda>w. cleaned (rq_cleanup q) c d w \<and> d \<notin> {Cleanup_RetainedByRequest, Cleanup_RetainedOnFailure, Cleanup_NothingCreated}
        \<and> (e = None \<longrightarrow> d = Cleanup_Destroyed)) (case e of None \<Rightarrow> ret d
      | Some e \<Rightarrow> fail_run E ctx Stage_Cleanup d e None (Some res)) ?Q (failing q cells)" for d e
  proof (cases e)
    case (Some x)
    show ?thesis
      unfolding Some option.case
      by (rule validE_pre [OF fail_run_valid [OF steady_disposition]]) (auto simp: failure_ok_def assms)
  qed (auto intro!: validE_ret)
  have "validE I (bindE (destroy_for_cleanup E c) (\<lambda>(d, e). case e of None \<Rightarrow> ret d
      | Some e \<Rightarrow> fail_run E ctx Stage_Cleanup d e None (Some res))) ?Q (failing q cells)"
    by (rule validE_bind [OF destroy_for_cleanup_valid [where policy = "rq_cleanup q"]]) (clarsimp simp only: prod.case, rule after)
  then show ?thesis
    unfolding run_cleanup_def
    by (auto intro!: validE_if validE_bind [OF observe_true] validE_ret simp: durably_def disposition_ok_def)
qed

subsection \<open>The run\<close>

abbreviation reported :: "run_cell_request \<Rightarrow> run_cell_report \<Rightarrow> ('p, 'g, 'z) guest_world_scheme \<Rightarrow> bool" where
  "reported q rep \<equiv> durably (\<lambda>st. report_ok E q st rep)"

lemma steady_report: "steady (\<lambda>st. report_ok E q st rep)"
  using steady_disposition by (simp add: report_ok_def steady_def)

lemma soft_durably: "soft m \<Longrightarrow> steady p \<Longrightarrow> (\<And>e w. durably p w \<Longrightarrow> R e w) \<Longrightarrow> validE (durably p) m (\<lambda>_. durably p) R"
  using soft_valid [OF _ steady_stable, of m p "\<lambda>_. True" R] by simp

lemma metadata_durably:
  assumes "steady p" shows "validE (durably p) (job_metadata_now E job) (\<lambda>_. durably p) R"
proof -
  have "durably p w \<Longrightarrow> durably p (w\<lparr>w_tick := n\<rparr>)" for w n
    using steady_stable [OF assms] soft_step_tick unfolding stable_def by blast
  then show ?thesis
    by (auto simp: job_metadata_now_def validE_def bindE_def utc_now_run ret_def split: option.split)
qed

lemma run_started_cell_valid:
  "validE I (run_started_cell E cr q c job actions) (\<lambda>rep. reported q rep) (failing q cells)"
proof -
  have report: "validE (\<lambda>w. cleaned (rq_cleanup q) c d w \<and> d \<in> {Cleanup_Destroyed, Cleanup_RetainedByRequest, Cleanup_RetainedOnFailure}
       \<and> (d = Cleanup_RetainedOnFailure \<longrightarrow> oc = Run_GuestNonZero))
      (bindE (job_metadata_now E job) (\<lambda>metadata. ret \<lparr>rr_schema_version = AUTOMATION_SCHEMA_VERSION, rr_plan = Some (rq_plan q),
         rr_job = metadata, rr_job_operations = ops, rr_cell_id = c, rr_operation_id = i, rr_outcome = oc, rr_result = res,
         rr_cleanup = d\<rparr>)) (\<lambda>rep. reported q rep) (failing q cells)"
    if "oc = (if gr_exit_code res = 0 then Run_Success else Run_GuestNonZero)"
      "validate_guest_command_result (rq_command q) res = Inr ()" for d oc ops i res
  proof (cases "d \<in> {Cleanup_Destroyed, Cleanup_RetainedByRequest, Cleanup_RetainedOnFailure} \<and> (d = Cleanup_RetainedOnFailure \<longrightarrow> oc = Run_GuestNonZero)")
    case True
    with that have "cleaned (rq_cleanup q) c d w \<Longrightarrow> reported q \<lparr>rr_schema_version = v, rr_plan = p,
         rr_job = m, rr_job_operations = ops, rr_cell_id = c, rr_operation_id = i, rr_outcome = oc, rr_result = res,
         rr_cleanup = d\<rparr> w" for v p m w
      unfolding durably_def report_ok_def by auto
    then show ?thesis
      by (intro validE_pre [OF validE_bind [OF metadata_durably [OF steady_disposition]]] validE_ret) auto
  qed (auto simp: validE_def)
  have rest: "validE I (bindE (run_collection E cr q c job (gxp_result x) a ops) (\<lambda>ops.
      bindE (run_cleanup E q c oc (run_context q c i job ops) (gxp_result x)) (\<lambda>cleanup. bindE (job_metadata_now E job) (\<lambda>metadata.
      ret \<lparr>rr_schema_version = AUTOMATION_SCHEMA_VERSION, rr_plan = Some (rq_plan q), rr_job = metadata, rr_job_operations = ops,
         rr_cell_id = c, rr_operation_id = gxp_operation_id x, rr_outcome = oc, rr_result = gxp_result x, rr_cleanup = cleanup\<rparr>))))
      (\<lambda>rep. reported q rep) (failing q cells)"
    if "oc = (if gr_exit_code (gxp_result x) = 0 then Run_Success else Run_GuestNonZero)"
      "validate_guest_command_result (rq_command q) (gxp_result x) = Inr ()" for x a ops oc i
    by (intro validE_bind [OF run_collection_valid] validE_bind [OF run_cleanup_valid [OF run_context_cell]] report [OF that])
  show ?thesis
    unfolding run_started_cell_def Let_def
  proof (rule validE_bind [OF run_copies_valid], rule validE_fact [OF run_execution_valid], goal_cases)
    case (1 ops x)
    then show ?case by (intro validE_bind [OF announce_valid] rest [OF refl])
  qed
qed

text \<open>The run: its invariant, and what it reports.\<close>

lemma run_valid:
  "validE (durably (\<lambda>st. sto_cells st = cells)) (run_cell_observed_with_job E cr q job actions) (\<lambda>rep. reported q rep) (failing q cells)"
proof -
  let ?start = "durably (\<lambda>st. sto_cells st = cells)"
  let ?inv = "\<lparr>fc_plan = Some (rq_plan q), fc_cell_id = None, fc_operation_id = None, fc_job = job, fc_job_operations = None\<rparr>"
  have st: "steady (\<lambda>st. sto_cells st = cells)" by (simp add: steady_def)
  have invalid: "validE ?start (fail_run E ?inv Stage_RequestValidation Cleanup_NothingCreated e None None) Q (failing q cells)" for e Q
    by (rule fail_run_valid [OF st]) (simp add: failure_ok_def)
  have check: "validE ?start (or_else_run m (\<lambda>e. fail_run E ?inv Stage_RequestValidation Cleanup_NothingCreated e None None))
      (\<lambda>_. ?start) (failing q cells)" if "soft m" for m :: "(('p, 'g, 'z) guest_world_scheme, engine_error, unit) eff"
    by (rule or_else_run_valid [OF soft_durably [OF that st, where R = "\<lambda>_. ?start"]]) (auto intro: invalid)
  have create: "validE I (or_else_run (create_cell_with_id E (rq_spec q) c jc) (\<lambda>e.
      failed_run E c (rq_cleanup q) False (run_context q c None job None) (creation_failure_stage e) e None))
      (\<lambda>r. durably (\<lambda>st. load_cell_from (env_crates E) (fe_root E) st c = Inr r \<and> lifecycle_of r = (Cell_Stopped, Phase_Ready)))
      (failing q cells)" if "may_cell c" for c jc
    by (rule or_else_run_valid [OF validE_weaken [OF create_cell_with_id_valid] failed_run_valid])
      (auto simp: that held_def durably_def)
  have created: "steady (\<lambda>st. load_cell_from (env_crates E) (fe_root E) st c = Inr r \<and> lifecycle_of r = (Cell_Stopped, Phase_Ready))" for c r
    using steady_load [where f = "\<lambda>l. l = Inr r \<and> lifecycle_of r = (Cell_Stopped, Phase_Ready)"] by simp
  have start: "validE I (or_else_run (start_cell E c) (\<lambda>e.
      failed_run E c (rq_cleanup q) False (run_context q c None job None) Stage_ProviderStart e None))
      (\<lambda>_. durably (\<lambda>st. event_ok E st (Ev_ProviderStarted c))) (failing q cells)" for c
    by (rule or_else_run_valid [OF validE_weaken [OF start_cell_valid] failed_run_valid])
      (auto simp: settled_def held_def durably_def)
  have uuid: "validE ?start (new_uuid E) (\<lambda>u w. I w \<and> may_cell (CellId u)) R" for R
    using I_soft [OF _ soft_step_tick] I_fresh_cell by (auto simp: validE_def new_uuid_run durably_def)
  show ?thesis
    unfolding run_cell_observed_with_job_def Let_def
  proof (intro validE_bind [OF check] soft_intro, rule validE_fact [OF uuid], rule validE_bind [OF create], assumption, goal_cases)
    case (1 _ _ _ _ u r)
    then show ?case
      by (intro validE_bind [OF checkpoint_valid [OF run_context_cell created]] validE_pre [OF validE_bind [OF start]]
          validE_bind [OF announce_valid] run_started_cell_valid)
        (auto simp: durably_def)
  qed
qed

end

end
