(* ===== verification/ImageOps.thy ===== *)
theory ImageOps
  imports Engine
begin

section \<open>Image operations of the engine\<close>

text \<open>
  The operations of \<open>engine/mod.rs\<close> on image records: validating a file as a base image, registering it, reporting the cells
  that depend on it and unregistering it; and the read-only operations over all cells.  A report collects every issue
  that was seen; a file is usable when there is none.
\<close>

subsection \<open>Requests and reports\<close>

record register_image_request =
  ri_id :: image_id
  ri_guest_os :: guest_os
  ri_guest_arch :: architecture
  ri_path :: path

record validate_image_request =
  vi_guest_os :: guest_os
  vi_guest_arch :: architecture
  vi_path :: path

datatype image_validation_status = Image_Usable | Image_Unusable

datatype image_validation_issue =
  Issue_UnsupportedExtension
| Issue_PathUnavailableOrUnsafe
| Issue_ContentReadFailed
| Issue_ProviderPathMismatch
| Issue_ProviderFormatMismatch
| Issue_BackingParentPresent
| Issue_DifferencingBase
| Issue_ProviderSizeMismatch
| Issue_RegisteredPathDrift
| Issue_RegisteredFormatDrift
| Issue_RegisteredSizeDrift
| Issue_RegisteredHashDrift
| Issue_RegisteredVariantMissing

fun issue_as_str :: "image_validation_issue \<Rightarrow> string" where
  "issue_as_str Issue_UnsupportedExtension = ''unsupported_extension''"
| "issue_as_str Issue_PathUnavailableOrUnsafe = ''path_unavailable_or_unsafe''"
| "issue_as_str Issue_ContentReadFailed = ''content_read_failed''"
| "issue_as_str Issue_ProviderPathMismatch = ''provider_path_mismatch''"
| "issue_as_str Issue_ProviderFormatMismatch = ''provider_format_mismatch''"
| "issue_as_str Issue_BackingParentPresent = ''backing_parent_present''"
| "issue_as_str Issue_DifferencingBase = ''differencing_base''"
| "issue_as_str Issue_ProviderSizeMismatch = ''provider_size_mismatch''"
| "issue_as_str Issue_RegisteredPathDrift = ''registered_path_drift''"
| "issue_as_str Issue_RegisteredFormatDrift = ''registered_format_drift''"
| "issue_as_str Issue_RegisteredSizeDrift = ''registered_size_drift''"
| "issue_as_str Issue_RegisteredHashDrift = ''registered_hash_drift''"
| "issue_as_str Issue_RegisteredVariantMissing = ''registered_variant_missing''"

record image_validation_report =
  ivr_schema_version :: u32
  ivr_image_id :: "image_id option"
  ivr_registered :: bool
  ivr_provider :: string
  ivr_guest_os :: guest_os
  ivr_guest_arch :: architecture
  ivr_path :: path
  ivr_expected_format :: string
  ivr_observed_format :: "string option"
  ivr_disk_type :: "string option"
  ivr_parent_path :: "path option"
  ivr_file_size :: "u64 option"
  ivr_virtual_size :: "u64 option"
  ivr_sha256 :: "string option"
  ivr_registered_sha256 :: "string option"
  ivr_status :: image_validation_status
  ivr_issues :: "image_validation_issue list"

record image_dependency =
  id_cell_id :: cell_id
  id_state :: cell_state
  id_phase :: cell_phase
  id_blocking :: bool

record image_dependency_report =
  idr_schema_version :: u32
  idr_contract :: string
  idr_image_id :: image_id
  idr_dependencies :: "image_dependency list"
  idr_can_unregister :: bool

record image_unregister_report =
  iur_schema_version :: u32
  iur_contract :: string
  iur_image_id :: image_id
  iur_metadata_removed :: bool
  iur_bytes_deleted :: bool
  iur_destroyed_references :: "image_dependency list"

definition IMAGE_DEPENDENCY_CONTRACT :: string where
  "IMAGE_DEPENDENCY_CONTRACT = ''vmcell.image-dependencies.v1''"

definition IMAGE_UNREGISTER_CONTRACT :: string where
  "IMAGE_UNREGISTER_CONTRACT = ''vmcell.image-unregister.v1''"

subsection \<open>Dependencies and removal\<close>

definition dependency_of :: "cell_record \<Rightarrow> image_dependency" where
  "dependency_of r = \<lparr>id_cell_id = cid r, id_state = cell_state r, id_phase = cell_phase r,
     id_blocking = (cell_state r \<noteq> Cell_Destroyed \<or> cell_phase r \<noteq> Phase_Destroyed)\<rparr>"

fun cell_dependencies :: "crates \<Rightarrow> image_id \<Rightarrow> cell_record list \<Rightarrow> engine_error + image_dependency list" where
  "cell_dependencies X i [] = Inr []"
| "cell_dependencies X i (r # rs) =
     (if spec_image (cell_spec r) \<noteq> bnd_image_id (cell_image r)
      then Inl (EE_Integrity (''cell '' @ uuid_to_string X (cell_uuid (cid r)) @ '' has inconsistent image dependency identity''))
      else if bnd_image_id (cell_image r) \<noteq> i then cell_dependencies X i rs
      else res_bind (cell_dependencies X i rs) (\<lambda>ds. Inr (dependency_of r # ds)))"

definition collect_image_dependencies ::
  "('p, 'y) engine_env_scheme \<Rightarrow> image_id \<Rightarrow> (('p, 'z) engine_world_scheme, engine_error, image_dependency list) eff" where
  "collect_image_dependencies E i =
     bindE (stE (list_cells E)) (\<lambda>cells.
     bindE (liftR (cell_dependencies (env_crates E) i cells)) (\<lambda>ds.
     ret (sort_key (\<lambda>d. uuid_to_string (env_crates E) (cell_uuid (id_cell_id d))) ds)))"

definition image_dependency_report_of :: "image_id \<Rightarrow> image_dependency list \<Rightarrow> image_dependency_report" where
  "image_dependency_report_of i ds =
     \<lparr>idr_schema_version = AUTOMATION_SCHEMA_VERSION, idr_contract = IMAGE_DEPENDENCY_CONTRACT, idr_image_id = i,
      idr_dependencies = ds, idr_can_unregister = list_all (\<lambda>d. \<not> id_blocking d) ds\<rparr>"

definition inspect_image_dependencies ::
  "('p, 'y) engine_env_scheme \<Rightarrow> image_id \<Rightarrow> (('p, 'z) engine_world_scheme, engine_error, image_dependency_report) eff" where
  "inspect_image_dependencies E i =
     bindE (stE (validate_image_removal_candidate E i)) (\<lambda>_.
     bindE (collect_image_dependencies E i) (\<lambda>ds. ret (image_dependency_report_of i ds)))"

definition unregister_image ::
  "('p, 'y) engine_env_scheme \<Rightarrow> image_id \<Rightarrow> (('p, 'z) engine_world_scheme, engine_error, image_unregister_report) eff" where
  "unregister_image E i = with_lock E (
     bindE (collect_image_dependencies E i) (\<lambda>ds.
     let blocking_cells = length (filter id_blocking ds) in
     if blocking_cells \<noteq> 0 then throw (EE_ImageInUse i blocking_cells)
     else
     bindE (attempt (load_image E i)) (\<lambda>found.
     bindE (case found of
         Inr _ \<Rightarrow> ret True
       | Inl (SE_NotFound _) \<Rightarrow> ret False
       | Inl e \<Rightarrow> throw (EE_State e)) (\<lambda>registered.
     bindE (if registered then stE (remove_image_record E i) else ret False) (\<lambda>removed.
     ret \<lparr>iur_schema_version = AUTOMATION_SCHEMA_VERSION, iur_contract = IMAGE_UNREGISTER_CONTRACT, iur_image_id = i,
       iur_metadata_removed = removed, iur_bytes_deleted = False, iur_destroyed_references = ds\<rparr>)))))"

subsection \<open>Validation of a file\<close>

definition has_extension :: "path \<Rightarrow> string \<Rightarrow> bool" where
  "has_extension p e = (case extension p of None \<Rightarrow> False | Some x \<Rightarrow> eq_ignore_ascii_case x e)"

definition empty_report ::
  "string \<Rightarrow> string \<Rightarrow> image_id option \<Rightarrow> guest_os \<Rightarrow> architecture \<Rightarrow> path \<Rightarrow> image_variant option
    \<Rightarrow> image_validation_report" where
  "empty_report provider expected i os arch p variant =
     \<lparr>ivr_schema_version = AUTOMATION_SCHEMA_VERSION, ivr_image_id = i, ivr_registered = (variant \<noteq> None),
      ivr_provider = provider, ivr_guest_os = os, ivr_guest_arch = arch, ivr_path = p, ivr_expected_format = expected,
      ivr_observed_format = None, ivr_disk_type = None, ivr_parent_path = None, ivr_file_size = None,
      ivr_virtual_size = None, ivr_sha256 = None, ivr_registered_sha256 = map_option var_sha256 variant,
      ivr_status = Image_Unusable, ivr_issues = []\<rparr>"

definition push_if :: "bool \<Rightarrow> image_validation_issue \<Rightarrow> image_validation_issue list" where
  "push_if b i = (if b then [i] else [])"

definition provider_issues :: "host_env \<Rightarrow> string \<Rightarrow> path \<Rightarrow> u64 \<Rightarrow> provider_image_info \<Rightarrow> image_validation_issue list" where
  "provider_issues H expected canonical file_len info =
     push_if (\<not> paths_equal H canonical (pi_path info)) Issue_ProviderPathMismatch
     @ push_if (\<not> eq_ignore_ascii_case (pi_disk_format info) expected) Issue_ProviderFormatMismatch
     @ push_if (pi_parent_path info \<noteq> None) Issue_BackingParentPresent
     @ push_if (eq_ignore_ascii_case (pi_disk_type info) ''differencing''
          \<or> eq_ignore_ascii_case (pi_disk_type info) ''overlay'') Issue_DifferencingBase
     @ push_if (pi_file_size info \<noteq> file_len) Issue_ProviderSizeMismatch"

definition registered_issues ::
  "host_env \<Rightarrow> image_variant option \<Rightarrow> path \<Rightarrow> u64 \<Rightarrow> provider_image_info \<Rightarrow> string option \<Rightarrow> image_validation_issue list" where
  "registered_issues H variant canonical file_len info sha = (case variant of None \<Rightarrow> []
     | Some v \<Rightarrow>
       push_if (\<not> paths_equal H canonical (var_path v)) Issue_RegisteredPathDrift
       @ push_if (\<not> eq_ignore_ascii_case (pi_disk_format info) (var_disk_format v)) Issue_RegisteredFormatDrift
       @ push_if (file_len \<noteq> var_file_size v) Issue_RegisteredSizeDrift
       @ push_if (sha \<noteq> Some (var_sha256 v)) Issue_RegisteredHashDrift)"

definition with_issue :: "image_validation_report \<Rightarrow> image_validation_issue \<Rightarrow> image_validation_report" where
  "with_issue r i = r\<lparr>ivr_issues := ivr_issues r @ [i]\<rparr>"

definition validate_image_path ::
  "('p, 'y) engine_env_scheme \<Rightarrow> image_id option \<Rightarrow> guest_os \<Rightarrow> architecture \<Rightarrow> path \<Rightarrow> image_variant option
    \<Rightarrow> (('p, 'z) engine_world_scheme, engine_error, image_validation_report) eff" where
  "validate_image_path E i os arch p variant =
     bindE (liftR (provider_image_format (provider_name E))) (\<lambda>expected.
     let report = empty_report (provider_name E) expected i os arch p variant in
     if \<not> has_extension p expected then ret (with_issue report Issue_UnsupportedExtension)
     else
     bindE (attempt (canonical_image_path E p)) (\<lambda>res. case res of
       Inl _ \<Rightarrow> ret (with_issue report Issue_PathUnavailableOrUnsafe)
     | Inr canonical \<Rightarrow>
     let report = report\<lparr>ivr_path := canonical\<rparr> in
     bindE (attempt (open_immutable_parent E canonical)) (\<lambda>res. case res of
       Inl _ \<Rightarrow> ret (with_issue report Issue_PathUnavailableOrUnsafe)
     | Inr _ \<Rightarrow>
     bindE (attempt (image_len E canonical)) (\<lambda>res. case res of
       Inl _ \<Rightarrow> ret (with_issue report Issue_ContentReadFailed)
     | Inr file_len \<Rightarrow>
     bindE (run_provider (pv_inspect_image (en_provider E) canonical)) (\<lambda>info.
     bindE (attempt (sha256_file E canonical)) (\<lambda>res.
     let sha = (case res of Inr sha \<Rightarrow> Some sha | Inl _ \<Rightarrow> None);
         issues = provider_issues (fe_host E) expected canonical file_len info
           @ push_if (sha = None) Issue_ContentReadFailed
           @ registered_issues (fe_host E) variant canonical file_len info sha in
     ret (report\<lparr>ivr_observed_format := Some (pi_disk_format info), ivr_disk_type := Some (pi_disk_type info),
       ivr_parent_path := pi_parent_path info, ivr_file_size := Some file_len,
       ivr_virtual_size := Some (pi_virtual_size info), ivr_sha256 := sha,
       ivr_status := (if issues = [] then Image_Usable else Image_Unusable), ivr_issues := issues\<rparr>)))))))"

definition validate_image ::
  "('p, 'y) engine_env_scheme \<Rightarrow> validate_image_request
    \<Rightarrow> (('p, 'z) engine_world_scheme, engine_error, image_validation_report) eff" where
  "validate_image E q =
     bindE (require_provider_available E) (\<lambda>_.
       validate_image_path E None (vi_guest_os q) (vi_guest_arch q) (vi_path q) None)"

definition variant_missing_report ::
  "string \<Rightarrow> string \<Rightarrow> image_record \<Rightarrow> image_variant list \<Rightarrow> image_validation_report" where
  "variant_missing_report provider expected r variants =
     (empty_report provider expected (Some (img_id r)) (img_guest_os r) (img_guest_arch r)
        (case variants of [] \<Rightarrow> [] | v # _ \<Rightarrow> var_path v) (case variants of [] \<Rightarrow> None | v # _ \<Rightarrow> Some v))
      \<lparr>ivr_registered := True, ivr_issues := [Issue_RegisteredVariantMissing]\<rparr>"

definition validate_registered_image ::
  "('p, 'y) engine_env_scheme \<Rightarrow> image_id \<Rightarrow> (('p, 'z) engine_world_scheme, engine_error, image_validation_report) eff" where
  "validate_registered_image E i =
     bindE (require_provider_available E) (\<lambda>_.
     bindE (stE (load_image E i)) (\<lambda>r.
     let variants = filter (\<lambda>v. var_provider v = provider_name E) (img_variants r) in
     case variants of
       [v] \<Rightarrow> validate_image_path E (Some (img_id r)) (img_guest_os r) (img_guest_arch r) (var_path v) (Some v)
     | _ \<Rightarrow> bindE (liftR (provider_image_format (provider_name E))) (\<lambda>expected.
         ret (variant_missing_report (provider_name E) expected r variants))))"

subsection \<open>Registration\<close>

definition image_variant_of :: "string \<Rightarrow> image_validation_report \<Rightarrow> engine_error + image_variant" where
  "image_variant_of provider v =
     res_bind (ok_or (ivr_observed_format v) (EE_InvalidImage ''image format was not proven'')) (\<lambda>format.
     res_bind (ok_or (ivr_sha256 v) (EE_InvalidImage ''image hash was not proven'')) (\<lambda>sha.
     res_bind (ok_or (ivr_file_size v) (EE_InvalidImage ''image size was not proven'')) (\<lambda>file_len.
     Inr \<lparr>var_provider = provider, var_disk_format = format, var_path = ivr_path v, var_sha256 = sha,
       var_file_size = file_len\<rparr>)))"

definition new_image_record :: "register_image_request \<Rightarrow> image_variant \<Rightarrow> time \<Rightarrow> image_record" where
  "new_image_record q v now =
     \<lparr>img_schema_version = IMAGE_SCHEMA_VERSION, img_id = ri_id q, img_guest_os = ri_guest_os q,
      img_guest_arch = ri_guest_arch q, img_variants = [v], img_registered_at = now\<rparr>"

definition register_image ::
  "('p, 'y) engine_env_scheme \<Rightarrow> register_image_request \<Rightarrow> (('p, 'z) engine_world_scheme, engine_error, image_record) eff" where
  "register_image E q =
     bindE (require_provider_available E) (\<lambda>_. with_lock E (
     bindE (validate_image_path E None (ri_guest_os q) (ri_guest_arch q) (ri_path q) None) (\<lambda>v.
     if ivr_status v \<noteq> Image_Usable
     then throw (EE_InvalidImage (''image validation failed: '' @ join_with '','' (map issue_as_str (ivr_issues v))))
     else
     bindE (liftR (image_variant_of (provider_name E) v)) (\<lambda>variant.
     bindE (utc_now E) (\<lambda>now.
     let r = new_image_record q variant now in
     bindE (attempt (load_image E (ri_id q))) (\<lambda>found. case found of
         Inr existing \<Rightarrow> if same_image_identity existing r then ret existing else throw (EE_ImageConflict (ri_id q))
       | Inl (SE_NotFound _) \<Rightarrow> bindE (stE (save_image_new_with_mutation E r)) (\<lambda>_. ret r)
       | Inl e \<Rightarrow> throw (EE_State e)))))))"

subsection \<open>Reading\<close>

definition engine_list_images ::
  "('p, 'y) engine_env_scheme \<Rightarrow> (('p, 'z) engine_world_scheme, engine_error, image_record list) eff" where
  "engine_list_images E = stE (list_images E)"

definition inspect_image ::
  "('p, 'y) engine_env_scheme \<Rightarrow> image_id \<Rightarrow> (('p, 'z) engine_world_scheme, engine_error, image_record) eff" where
  "inspect_image E i = stE (load_image E i)"

definition engine_list_cells ::
  "('p, 'y) engine_env_scheme \<Rightarrow> (('p, 'z) engine_world_scheme, engine_error, cell_record list) eff" where
  "engine_list_cells E = stE (list_cells E)"

definition reconcile_cell ::
  "('p, 'y) engine_env_scheme \<Rightarrow> cell_id \<Rightarrow> (('p, 'z) engine_world_scheme, engine_error, cell_inspection) eff" where
  "reconcile_cell E c = inspect_cell E c"

primrec inspect_cells ::
  "('p, 'y) engine_env_scheme \<Rightarrow> cell_id list \<Rightarrow> (('p, 'z) engine_world_scheme, engine_error, cell_inspection list) eff" where
  "inspect_cells E [] = ret []"
| "inspect_cells E (c # cs) = bindE (inspect_cell E c) (\<lambda>x. bindE (inspect_cells E cs) (\<lambda>xs. ret (x # xs)))"

definition reconcile_all ::
  "('p, 'y) engine_env_scheme \<Rightarrow> (('p, 'z) engine_world_scheme, engine_error, cell_inspection list) eff" where
  "reconcile_all E =
     bindE (stE (list_cells E)) (\<lambda>cells.
       inspect_cells E (map cid (filter (\<lambda>r. cell_provider r = provider_name E) cells)))"

definition gc_expired ::
  "('p, 'y) engine_env_scheme \<Rightarrow> (('p, 'z) engine_world_scheme, engine_error, gc_report) eff" where
  "gc_expired E = bindE (utc_now E) (gc_expired_at E)"

end
