(* ===== verification/ImageSafety.thy ===== *)
theory ImageSafety
  imports ImageOps EngineSafety
begin

section \<open>Safety of image operations\<close>

text \<open>
  Registering writes a record under a name that was free, and unregistering renames the record away only when every cell bound to
  the image is a tombstone; all else is read-only.  The locale \<open>image_invariant\<close> is the interface between these two writes
  and an invariant of the world.
\<close>

subsection \<open>The two writes\<close>

abbreviation image_name :: "image_id \<Rightarrow> string" where
  "image_name i \<equiv> image_str i @ ''.json''"

definition tombstoned :: "cell_record \<Rightarrow> bool" where
  "tombstoned r \<longleftrightarrow> cell_state r = Cell_Destroyed \<and> cell_phase r = Phase_Destroyed"

definition unblocked :: "('p, 'y) engine_env_scheme \<Rightarrow> store \<Rightarrow> image_id \<Rightarrow> bool" where
  "unblocked E st i \<longleftrightarrow> (\<forall>c r. load_cell_from (env_crates E) (fe_root E) st c = Inr r \<longrightarrow>
     bnd_image_id (cell_image r) = i \<longrightarrow> tombstoned r)"

lemma sto_put_image [simp]:
  "sto_cells (put_image r st) = sto_cells st" "sto_operations (put_image r st) = sto_operations st"
  "sto_installation (put_image r st) = sto_installation st" "sto_artifacts (put_image r st) = sto_artifacts st"
  "sto_runtime (put_image r st) = sto_runtime st"
  by (simp_all add: put_image_def)

lemma sto_retire_image [simp]:
  "sto_cells (retire_image X u i st) = sto_cells st" "sto_operations (retire_image X u i st) = sto_operations st"
  "sto_installation (retire_image X u i st) = sto_installation st" "sto_artifacts (retire_image X u i st) = sto_artifacts st"
  "sto_runtime (retire_image X u i st) = sto_runtime st"
  by (simp_all add: retire_image_def Let_def split: option.split)

lemma load_image_put:
  assumes "map_of (sto_images st) (image_name (img_id r)) = None" "load_image_from root st i = Inr img"
  shows "load_image_from root (put_image r st) i = Inr img"
proof -
  have "img_id r \<noteq> i" using assms by (auto simp: load_image_from_def read_doc_def Let_def)
  then have "image_name i \<noteq> image_name (img_id r)" by (cases i; cases "img_id r") auto
  with assms(2) show ?thesis by (simp add: load_image_from_def put_image_def update_conv')
qed

lemma load_image_put_same:
  assumes "validate_image_schema (image_path root (img_id r)) r = Inr ()"
  shows "load_image_from root (put_image r st) (img_id r) = Inr r"
  using assms by (simp add: load_image_from_def put_image_def update_conv' read_doc_def Let_def)

text \<open>The name a retired record gets is no name of an image record.\<close>

lemma retired_name_fresh:
  assumes "uuid_laws X" shows "n @ ''.unregistered-'' @ uuid_to_string X u \<noteq> image_name i"
proof
  assume eq: "n @ ''.unregistered-'' @ uuid_to_string X u = image_name i"
  have "uuid_to_string X u \<noteq> []" using uuid_nonempty [OF assms] by simp
  then have "last (image_name i) = last (uuid_to_string X u)" using eq by (metis last_appendR append_is_Nil_conv)
  then have "CHR ''n'' \<in> set (uuid_to_string X u)"
    using last_in_set [OF \<open>uuid_to_string X u \<noteq> []\<close>] by simp
  then have "uuid_char CHR ''n''" using uuid_laws_chars [OF assms] by blast
  then show False by (simp add: uuid_char_def is_ascii_digit_def byte_def)
qed

lemma image_name_inj: "image_name i = image_name i' \<longleftrightarrow> i = i'"
  by (cases i; cases i') auto

lemma retire_lookup:
  assumes "uuid_laws X"
  shows "map_of (sto_images (retire_image X u i st)) (image_name i')
    = (if i' = i then None else map_of (sto_images st) (image_name i'))"
proof -
  define n m where "n = image_name i" and "m = image_name i'"
  have "n @ ''.unregistered-'' @ uuid_to_string X u \<noteq> m" "m = n \<longleftrightarrow> i' = i"
    using retired_name_fresh [OF assms] image_name_inj by (auto simp only: n_def m_def)
  then show ?thesis
    unfolding retire_image_def Let_def n_def [symmetric] m_def [symmetric]
    by (auto simp: update_conv' delete_conv' split: option.split)
qed

lemma load_image_retire:
  assumes "uuid_laws X"
  shows "load_image_from root (retire_image X u i st) i'
    = (if i' = i then Inl (SE_NotFound (image_path root i)) else load_image_from root st i')"
  unfolding load_image_from_def retire_lookup [OF assms] by (simp add: read_doc_def Let_def)

subsection \<open>Reading\<close>

lemma soft_image_reads [soft_intro]:
  "soft (load_image E i)" "soft (list_images E)" "soft (validate_image_removal_candidate E i)" "soft (collect_image_dependencies E i)"
  by (auto simp: load_image_def list_images_def validate_image_removal_candidate_def collect_image_dependencies_def list_cells_def
      intro!: soft_intro)

lemma soft_validate [soft_intro]: "soft (validate_image_path E i os arch p v)"
  by (auto simp: validate_image_path_def Let_def intro!: soft_intro split: sum.split)

text \<open>A loadable cell is listed.\<close>

lemma loaded_cell_listed:
  assumes "uuid_laws X" "dir_ok (sto_cells st)" "list_cells_from X root st = Inr cells" "load_cell_from X root st c = Inr r"
  shows "r \<in> set cells"
proof -
  have valid: "cells_valid X root st" and cells: "cells = map redact_cell_diagnostic (map (doc_at (sto_cells st)) (json_names (sto_cells st)))"
    using assms(3) by (auto simp: list_cells_from_def read_cells_ok)
  have "cid r = c" using loaded_redacted [OF assms(1,2,4)] by simp
  then obtain r0 where "map_of (sto_cells st) (cell_key X (cid r0)) = Some (Doc r0)" "r = redact_cell_diagnostic r0"
    using assms(4) by (auto simp: load_cell_from_ok [OF assms(1,2)])
  then show ?thesis
    unfolding cells set_map using cell_docs_key [OF assms(1,2) valid] dir_docs_listing [OF valid [unfolded cells_valid_def], simplified]
    by (metis imageI)
qed

lemma cell_dependencies_mem:
  "cell_dependencies X i rs = Inr ds \<Longrightarrow> r \<in> set rs \<Longrightarrow> bnd_image_id (cell_image r) = i \<Longrightarrow> dependency_of r \<in> set ds"
  by (induction rs arbitrary: ds) (auto split: if_splits)

lemma no_dependency_unblocked:
  assumes "uuid_laws (env_crates E)" "dir_ok (sto_cells (w_store w))"
    "collect_image_dependencies E i w = (Inr ds, w')" "filter id_blocking ds = []"
  shows "unblocked E (w_store w) i"
proof (unfold unblocked_def, intro allI impI)
  fix c r assume load: "load_cell_from (env_crates E) (fe_root E) (w_store w) c = Inr r" and img: "bnd_image_id (cell_image r) = i"
  obtain cells ds0 where cells: "list_cells_from (env_crates E) (fe_root E) (w_store w) = Inr cells"
    "cell_dependencies (env_crates E) i cells = Inr ds0" "set ds = set ds0"
    using assms(3) by (auto simp: collect_image_dependencies_def bindE_ok mapE_ok list_cells_def ret_def dest!: read_op_ok)
  have "dependency_of r \<in> set ds"
    using cell_dependencies_mem [OF cells(2) loaded_cell_listed [OF assms(1,2) cells(1) load] img] cells(3) by simp
  then have "\<not> id_blocking (dependency_of r)" using assms(4) by (auto simp: filter_empty_conv)
  then show "tombstoned r" by (auto simp: dependency_of_def tombstoned_def)
qed

lemma fault_not_found [simp]: "fault_error f \<noteq> SE_NotFound p" "SE_NotFound p \<noteq> fault_error f"
  by (cases f; simp add: fault_error_def)+

lemma load_image_not_found: "load_image_from root st i = Inl (SE_NotFound p) \<Longrightarrow> p = image_path root i"
  by (auto simp: load_image_from_def Let_def res_bind_Inl_iff read_doc_def validate_image_schema_def ensure_schema_def ensure_stem_def
      split: option.splits doc.splits if_splits)

lemma image_removal_not_found:
  "image_removal_check vf root st i = Inl (SE_NotFound p) \<Longrightarrow> load_image_from root st i = Inl (SE_NotFound (image_path root i))"
  using load_image_not_found [of root st i]
  by (auto simp: image_removal_check_def res_bind_Inl_iff validate_image_record_for_metadata_removal_def
      validate_variant_file_identity_def dest!: res_for_errD split: if_splits variant_file.splits)

lemma attempt_load_image:
  assumes "attempt (load_image E i) w = (Inr res, w')" "load_image_from (fe_root E) (w_store w) i = L"
  shows "(\<exists>f. res = Inl (fault_error f)) \<or> res = L"
  using assms by (auto simp: attempt_def load_image_def read_op_run split: prod.splits option.splits)

subsection \<open>What a usable report proves\<close>

text \<open>The file at \<open>p\<close> was seen as the base image \<open>v\<close>: it was opened, measured and hashed under its canonical path, and the provider described
  it in a way the check of cell creation accepts.\<close>

definition proper_base :: "('p, 'y) engine_env_scheme \<Rightarrow> path \<Rightarrow> image_variant \<Rightarrow> bool" where
  "proper_base E p v \<longleftrightarrow> var_provider v = provider_name E \<and> he_canonicalize (fe_host E) p = Some (var_path v)
     \<and> (\<exists>expected. provider_image_format (provider_name E) = Inr expected \<and> has_extension p expected)
     \<and> (\<exists>n. en_open_image E n (var_path v) = None)
     \<and> (\<exists>n. en_image_len E n (var_path v) = Inr (var_file_size v))
     \<and> (\<exists>n. en_image_sha256 E n (var_path v) = Inr (var_sha256 v))
     \<and> (\<exists>info s s'. pv_inspect_image (en_provider E) (var_path v) s = (Inr info, s') \<and> pi_disk_format info = var_disk_format v
        \<and> validate_base_image (fe_host E) (provider_name E) (var_path v) (var_file_size v) info = Inr ())"

lemma push_if_Nil [simp]: "push_if b i = [] \<longleftrightarrow> \<not> b"
  by (simp add: push_if_def)

lemma provider_issues_base:
  assumes "provider_issues H expected p n info = []" "provider_image_format provider = Inr expected"
  shows "validate_base_image H provider p n info = Inr ()"
  using assms by (auto simp: provider_issues_def validate_base_image_def)

lemma with_issue_simps [simp]:
  "ivr_status (with_issue r i) = ivr_status r" "ivr_status (empty_report p x j os arch q v) = Image_Unusable"
  by (simp_all add: with_issue_def empty_report_def)

lemma image_facts:
  "canonical_image_path E p w = (Inr q, w') \<Longrightarrow> he_canonicalize (fe_host E) p = Some q"
  "open_immutable_parent E p w = (Inr u, w') \<Longrightarrow> \<exists>n. en_open_image E n p = None"
  "image_len E p w = (Inr n, w') \<Longrightarrow> \<exists>k. en_image_len E k p = Inr n"
  "sha256_file E p w = (Inr sha, w') \<Longrightarrow> \<exists>k. en_image_sha256 E k p = Inr sha"
  "run_provider m w = (Inr x, w') \<Longrightarrow> \<exists>s s'. m s = (Inr x, s')"
  by (auto simp: canonical_image_path_def open_immutable_parent_def image_len_def sha256_file_def run_provider_def bindE_ok mapE_ok
      next_tick_run ret_def throw_def split: option.splits if_splits prod.splits)

lemma attempt_case:
  "attempt m w = (Inr r, w') \<longleftrightarrow> m w = (r, w')"
  by (auto simp: attempt_def split: prod.splits)

lemma known_then:
  "(\<And>x w w'. m w = (Inr x, w') \<Longrightarrow> validE (\<lambda>_. True) (f x) Q (\<lambda>_ _. True)) \<Longrightarrow> validE (\<lambda>_. True) (bindE m f) Q (\<lambda>_ _. True)"
  by (fastforce simp: validE_def bindE_def split: prod.splits sum.splits)

lemma validE_case_sum:
  "(\<And>e. r = Inl e \<Longrightarrow> validE P (f e) Q R) \<Longrightarrow> (\<And>x. r = Inr x \<Longrightarrow> validE P (g x) Q R) \<Longrightarrow>
    validE P (case r of Inl e \<Rightarrow> f e | Inr x \<Rightarrow> g x) Q R"
  by (cases r) auto

lemma usable_report:
  assumes run: "validate_image_path E i os arch p reg w = (Inr rep, w')" and usable: "ivr_status rep = Image_Usable"
  shows "\<exists>v. image_variant_of (provider_name E) rep = Inr v \<and> proper_base E p v"
proof -
  have "validE (\<lambda>_. True) (validate_image_path E i os arch p reg)
      (\<lambda>rep _. ivr_status rep = Image_Usable \<longrightarrow> (\<exists>v. image_variant_of (provider_name E) rep = Inr v \<and> proper_base E p v)) (\<lambda>_ _. True)"
    unfolding validate_image_path_def Let_def
  proof (intro known_then validE_if validE_case_sum validE_ret impI, goal_cases)
    case (5 expected _ _ _ _ _ canonical _ _ _ u _ _ _ len info _ _ res)
    then have issues: "provider_issues (fe_host E) expected canonical len info = []" and "\<not> (\<exists>e. res = Inl e)"
      by (auto split: if_splits)
    then obtain sha where "res = Inr sha" by (cases res) auto
    with 5 issues provider_issues_base [OF issues, of "provider_name E"] show ?case
      by (auto simp: attempt_case image_variant_of_def proper_base_def empty_report_def dest!: image_facts)
  qed (simp_all add: empty_report_def with_issue_def)
  from validE_okD [OF this TrueI run] usable show ?thesis by blast
qed

subsection \<open>The interface\<close>

locale image_invariant = store_invariant E I "\<lambda>_. True"
  for E :: "('p, 'y) engine_env_scheme"
    and I :: "('p, 'z) engine_world_scheme \<Rightarrow> bool" +
  assumes I_register: "I w \<Longrightarrow> map_of (sto_images (w_store w)) (image_name (img_id r)) = None \<Longrightarrow>
      I (w\<lparr>w_store := put_image r (w_store w)\<rparr>)"
    and I_retire: "I w \<Longrightarrow> unblocked E (w_store w) i \<Longrightarrow>
      I (w\<lparr>w_store := retire_image (env_crates E) u i (w_store w)\<rparr>)"
begin

lemma save_image_valid:
  "validE I (save_image_new_with_mutation E r)
     (\<lambda>_ w. I w \<and> load_image_from (fe_root E) (w_store w) (img_id r) = Inr r) (\<lambda>_. I)"
  unfolding validE_def
proof (intro allI impI)
  fix w assume I: "I w"
  define chk where "chk = (\<lambda>st :: store. let p = image_path (fe_root E) (img_id r) in res_bind (validate_image_schema p r)
    (\<lambda>_. ensure (map_of (sto_images st) (image_name (img_id r)) = None) (SE_AlreadyExists p)))"
  have guarded: "save_image_new_with_mutation E r = guarded_save E chk (\<lambda>_. put_image r)"
    by (simp add: save_image_new_with_mutation_def guarded_save_def chk_def)
  obtain res w' where run: "save_image_new_with_mutation E r w = (res, w')" by (cases "save_image_new_with_mutation E r w") auto
  from run [unfolded guarded]
  show "case save_image_new_with_mutation E r w of (Inl e, w') \<Rightarrow> I w'
      | (Inr x, w') \<Rightarrow> I w' \<and> load_image_from (fe_root E) (w_store w') (img_id r) = Inr r"
  proof (cases rule: guarded_save_cases)
    case (kept n e)
    then show ?thesis using run I_soft [OF I soft_step_tick] by simp
  next
    case (written n u)
    then have "map_of (sto_images (w_store w)) (image_name (img_id r)) = None"
      and valid: "validate_image_schema (image_path (fe_root E) (img_id r)) r = Inr ()" by (auto simp: chk_def Let_def)
    then have "I w'" using written I_soft [OF I_register [OF I] soft_step_tick [of _ n]] by (simp add: world_swap)
    with run written load_image_put_same [OF valid] show ?thesis by (auto split: sum.split)
  qed
qed

text \<open>What loading the image yields is fixed while nothing writes it.\<close>

abbreviation loads :: "image_id \<Rightarrow> state_error + image_record \<Rightarrow> ('p, 'z) engine_world_scheme \<Rightarrow> bool" where
  "loads i L w \<equiv> I w \<and> load_image_from (fe_root E) (w_store w) i = L"

lemma stable_loads: "stable (loads i L)" "stable (\<lambda>w. loads i L w \<and> unblocked E (w_store w) j)"
  "stable (\<lambda>w. loads i L w \<and> unblocked E (w_store w) j = b)"
  using I_soft by (auto simp: stable_def soft_step_store unblocked_def)

abbreviation removed :: "image_id \<Rightarrow> ('p, 'z) engine_world_scheme \<Rightarrow> bool" where
  "removed i w \<equiv> loads i (Inl (SE_NotFound (image_path (fe_root E) i))) w \<and> unblocked E (w_store w) i"

lemma unblocked_retire: "unblocked E (retire_image X u j st) i = unblocked E st i"
  using load_cell_from_cong [of "retire_image X u j st" st] by (simp add: unblocked_def)

lemma retire_then:
  assumes "\<And>x. validE (removed i) (f x) Q (\<lambda>_. I)"
  shows "validE (\<lambda>w. I w \<and> unblocked E (w_store w) i) (bindE (write_atomic E (retire_image (env_crates E) u i)) f) Q (\<lambda>_. I)"
proof (rule validE_bind [OF _ assms], unfold validE_def, intro allI impI)
  fix w assume I: "I w \<and> unblocked E (w_store w) i"
  let ?w = "w\<lparr>w_store := retire_image (env_crates E) u i (w_store w)\<rparr>"
  have "I (w\<lparr>w_tick := n\<rparr>)" "I (?w\<lparr>w_tick := n\<rparr>)" for n
    using I I_soft [of w, OF _ soft_step_tick] I_soft [OF I_retire [of w] soft_step_tick] by auto
  then show "case write_atomic E (retire_image (env_crates E) u i) w of (Inl e, w') \<Rightarrow> I w'
      | (Inr x, w') \<Rightarrow> removed i w'"
    using crates_ok [of w] I
    by (auto simp: write_atomic_run Let_def world_swap load_image_retire unblocked_retire split: fs_write_outcome.split)
qed

lemma remove_image_record_valid:
  "validE (\<lambda>w. I w \<and> unblocked E (w_store w) i) (stE (remove_image_record E i))
     (\<lambda>_. removed i) (\<lambda>_. I)"
  (is "validE ?P _ (\<lambda>_. ?Q) _")
proof (rule validE_mapE, rule validE_ghost [where g = "\<lambda>w. load_image_from (fe_root E) (w_store w) i"])
  fix L :: "state_error + image_record"
  let ?F = "\<lambda>res. (\<exists>p. res = Inl (SE_NotFound p)) \<longrightarrow> L = Inl (SE_NotFound (image_path (fe_root E) i))"
  have fact: "?F res" if "attempt (validate_image_removal_candidate E i) w = (Inr res, w')"
    "loads i L w \<and> unblocked E (w_store w) i" for w w' res
    using that by (auto simp: attempt_def validate_image_removal_candidate_def bindE_def next_tick_run read_op_run
        dest!: image_removal_not_found split: prod.splits sum.splits option.splits)
  have "validE (\<lambda>w. loads i L w \<and> unblocked E (w_store w) i) (remove_image_record E i) (\<lambda>_. ?Q) (\<lambda>_. I)"
    unfolding remove_image_record_def validate_mutation_guard_def
  proof (rule skip_then [OF _ stable_loads(2)], goal_cases)
    case (2 x)
    show ?case
  proof (rule soft_then [where F = ?F, OF _ stable_loads(2) fact], goal_cases)
    case (4 res)
    show ?case
    proof (cases res)
      case (Inr u)
      show ?thesis
        unfolding Inr sum.case
        by (intro skip_then [OF _ stable_loads(2)] soft_intro validE_pre [OF retire_then] skip_then [OF _ stable_loads(2)] validE_ret, auto)
    next
      case (Inl e)
      with 4 show ?thesis
        by (cases e) (auto intro!: validE_ret validE_throw)
    qed
  qed (auto intro: soft_intro)
  qed (auto intro: soft_intro)
  then show "validE (\<lambda>w. ?P w \<and> load_image_from (fe_root E) (w_store w) i = L) (remove_image_record E i) (\<lambda>_. ?Q) (\<lambda>_. I)"
    by (rule validE_pre) auto
qed

lemma loads_lock: "loads i L w \<Longrightarrow> loads i L (w\<lparr>w_locked := b\<rparr>)"
  by (simp add: I_lock)

text \<open>Unregistering leaves no record of the image behind, or leaves everything as it was.\<close>

lemma unregister_image_valid:
  "validE I (unregister_image E i) (\<lambda>rep w. removed i w \<and> \<not> iur_bytes_deleted rep \<and> iur_image_id rep = i) (\<lambda>_. I)"
  (is "validE _ _ ?Q _")
  unfolding unregister_image_def
proof (rule locked_post, rule validE_ghost [where g = "\<lambda>w. load_image_from (fe_root E) (w_store w) i"],
    rule validE_ghost [where g = "\<lambda>w. unblocked E (w_store w) i"], goal_cases)
  case (1 L b)
  let ?P = "\<lambda>w. loads i L w \<and> unblocked E (w_store w) i = b"
  have gone: "validE ?P (bindE (stE (remove_image_record E i)) (\<lambda>x. ret (f x))) ?Q (\<lambda>_. I)"
    if b "\<And>x. \<not> iur_bytes_deleted (f x) \<and> iur_image_id (f x) = i" for f :: "bool \<Rightarrow> image_unregister_report"
    by (rule validE_bind [OF validE_pre [OF remove_image_record_valid]]) (use that in \<open>auto intro!: validE_ret\<close>)
  have found: "validE ?P (bindE (case res of Inr _ \<Rightarrow> ret True | Inl (SE_NotFound _) \<Rightarrow> ret False | Inl e \<Rightarrow> throw (EE_State e))
      (\<lambda>registered. bindE (if registered then stE (remove_image_record E i) else ret False) (\<lambda>x. ret (f x)))) ?Q (\<lambda>_. I)"
    if b "\<And>x. \<not> iur_bytes_deleted (f x) \<and> iur_image_id (f x) = i" "(\<exists>e. res = Inl (fault_error e)) \<or> res = L" for res and f :: "bool \<Rightarrow> image_unregister_report"
  proof (cases res)
    case (Inr img)
    show ?thesis
      unfolding Inr sum.case bindE_ret if_True by (rule gone [OF that(1,2)])
  next
    case (Inl e)
    then show ?thesis
      using that load_image_not_found [of "fe_root E" _ i]
      by (cases e) (auto intro!: validE_ret validE_throw)
  qed
  show ?case
    unfolding Let_def
  proof (rule soft_then [where F = "\<lambda>ds. filter id_blocking ds = [] \<longrightarrow> b", OF _ stable_loads(3)], goal_cases)
    case (2 w ds w')
    then show ?case using no_dependency_unblocked [OF crates_ok I_dir] by blast
  next
    case (3 ds)
    then show ?case
      by (intro validE_if throw_valid stable_loads(3)
          soft_then [where F = "\<lambda>res. (\<exists>e. res = Inl (fault_error e)) \<or> res = L", OF _ stable_loads(3)] found soft_intro)
        (auto dest: attempt_load_image)
  qed (auto intro: soft_intro)
qed (simp add: I_lock)

text \<open>A registration that returns leaves the returned record durable, and the record describes the file.\<close>

lemma register_image_valid:
  "validE I (register_image E q)
     (\<lambda>r w. loads (ri_id q) (Inr r) w \<and> img_guest_os r = ri_guest_os q \<and> img_guest_arch r = ri_guest_arch q
        \<and> (\<exists>v. img_variants r = [v] \<and> proper_base E (ri_path q) v)) (\<lambda>_. I)"
  (is "validE _ _ ?Q _")
  unfolding register_image_def
proof (rule skip_then [OF soft_require stable_I], rule locked_post,
    rule validE_ghost [where g = "\<lambda>w. load_image_from (fe_root E) (w_store w) (ri_id q)"], goal_cases)
  case (1 x L)
  let ?P = "loads (ri_id q) L"
  have found: "validE ?P (case res of
        Inr existing \<Rightarrow> if same_image_identity existing r then ret existing else throw (EE_ImageConflict (ri_id q))
      | Inl (SE_NotFound _) \<Rightarrow> bindE (stE (save_image_new_with_mutation E r)) (\<lambda>_. ret r)
      | Inl e \<Rightarrow> throw (EE_State e)) ?Q (\<lambda>_. I)"
    if "r = new_image_record q v now" "proper_base E (ri_path q) v" "(\<exists>e. res = Inl (fault_error e)) \<or> res = L" for r v now res
  proof (cases res)
    case (Inr img)
    then show ?thesis
      using that by (auto simp: same_image_identity_def new_image_record_def intro!: validE_ret validE_throw)
  next
    case (Inl e)
    have "validE ?P (bindE (stE (save_image_new_with_mutation E r)) (\<lambda>_. ret r)) ?Q (\<lambda>_. I)"
      by (rule validE_bind [OF validE_mapE [OF validE_pre [OF save_image_valid]]])
        (use that in \<open>auto simp: new_image_record_def intro!: validE_ret\<close>)
    then show ?thesis unfolding Inl by (cases e) (auto intro!: validE_throw)
  qed
  show ?case
    unfolding Let_def
  proof (rule soft_then [where F = "\<lambda>rep. ivr_status rep = Image_Usable \<longrightarrow>
      (\<exists>v. image_variant_of (provider_name E) rep = Inr v \<and> proper_base E (ri_path q) v)", OF soft_validate stable_loads(1)], goal_cases)
    case (2 rep)
    then show ?case
      by (intro validE_if throw_valid stable_loads(1) check_then skip_then [of "utc_now E"] soft_intro found [OF refl]
          soft_then [where F = "\<lambda>res. (\<exists>e. res = Inl (fault_error e)) \<or> res = L", OF _ stable_loads(1)])
        (auto dest: attempt_load_image)
  qed (auto dest: usable_report)
qed (auto intro: I_lock)

end

end
