(* ===== verification/System.thy ===== *)
theory System
  imports RunSafety ImageSafety EngineProperties
begin

section \<open>Sequences of commands\<close>

text \<open>
  All commands that change the durable state (the cell lifecycle, guest operations, pruning and recovery, images,
  runs), their sequences, and the locale \<open>system_invariant\<close> that joins the interfaces: what it is interpreted
  on holds after any sequence of commands, whatever fails on the way.
\<close>

subsection \<open>Commands\<close>

datatype system_command =
  Sys_Cell engine_command
| Sys_Exec guest_credentials guest_exec_request "job_id option"
| Sys_CopyIn guest_credentials guest_copy_in_request "job_copy_source_binding option" "job_id option"
| Sys_CopyOut guest_credentials guest_copy_out_request
| Sys_Collect guest_credentials artifact_collect_request "job_id option"
| Sys_Prune artifact_prune_request
| Sys_Recover guest_operation_id
| Sys_Register register_image_request
| Sys_Unregister image_id
| Sys_Run guest_credentials run_cell_request "job_run_context option" "job_run_actions option"

fun run_system ::
  "('p, 'g, 'y) guest_env_scheme \<Rightarrow> system_command \<Rightarrow> (('p, 'g, 'z) guest_world_scheme, engine_error, unit) eff" where
  "run_system E (Sys_Cell cmd) = run_command E cmd"
| "run_system E (Sys_Exec cr q job) = discard (exec_guest_with_ready_callback E cr q job (ret ()))"
| "run_system E (Sys_CopyIn cr q b job) = discard (copy_into_guest_with_job E cr q b job)"
| "run_system E (Sys_CopyOut cr q) = discard (copy_out_of_guest E cr q)"
| "run_system E (Sys_Collect cr q job) = discard (collect_artifacts_with_kind E cr q Kind_ArtifactCollect job)"
| "run_system E (Sys_Prune q) = discard (prune_artifacts E q)"
| "run_system E (Sys_Recover i) = discard (reconcile_guest_operation E i)"
| "run_system E (Sys_Register q) = discard (register_image E q)"
| "run_system E (Sys_Unregister i) = discard (unregister_image E i)"
| "run_system E (Sys_Run cr q job actions) = mapE rce_source (discard (run_cell_observed_with_job E cr q job actions))"

fun run_systems ::
  "('p, 'g, 'y) guest_env_scheme \<Rightarrow> system_command list \<Rightarrow> ('p, 'g, 'z) guest_world_scheme
    \<Rightarrow> ('p, 'g, 'z) guest_world_scheme" where
  "run_systems E [] w = w"
| "run_systems E (cmd # cmds) w = run_systems E cmds (snd (run_system E cmd w))"

lemma snd_mapE: "snd (mapE g m w) = snd (m w)"
  by (simp add: mapE_def split: prod.split sum.split)

text \<open>The cell a command creates under an id that its caller chose.\<close>

fun names_cell :: "system_command \<Rightarrow> cell_id option" where
  "names_cell (Sys_Cell cmd) = creates cmd"
| "names_cell _ = None"

text \<open>An invariant of every kind of command.\<close>

locale system_invariant = run_invariant E I may_cell may_create + image_invariant E I
  for E :: "('p, 'g, 'y) guest_env_scheme"
    and I :: "('p, 'g, 'z) guest_world_scheme \<Rightarrow> bool"
    and may_cell :: "cell_id \<Rightarrow> bool" and may_create :: "guest_operation_id \<Rightarrow> bool"
begin

lemma snd_of_valid: "validE I m Q (\<lambda>_. I) \<Longrightarrow> I w \<Longrightarrow> (\<And>x w. Q x w \<Longrightarrow> I w) \<Longrightarrow> I (snd (discard m w))"
  using validE_snd [of I m Q "\<lambda>_. I" w I] by (simp add: snd_discard)

lemma run_system_I:
  assumes "I w" "\<And>c. names_cell cmd = Some c \<Longrightarrow> may_cell c" shows "I (snd (run_system E cmd w))"
proof (cases cmd)
  case (Sys_Cell c)
  then show ?thesis using run_command_I [OF assms(1), of c] assms(2) by simp
next
  case (Sys_Exec cr q job)
  then show ?thesis
    by simp (rule snd_of_valid [OF exec_guest_with_ready_callback_valid [OF soft_basic(1)] assms(1)], erule outcome_I)
next
  case (Sys_CopyIn cr q b job)
  then show ?thesis by simp (rule snd_of_valid [OF copy_into_guest_with_job_valid assms(1)], erule outcome_I)
next
  case (Sys_CopyOut cr q)
  then show ?thesis
    by (simp add: copy_out_of_guest_def)
      (rule snd_of_valid [OF collect_artifacts_with_kind_valid assms(1)], simp add: artifact_kind_def, erule outcome_I)
next
  case (Sys_Collect cr q job)
  then show ?thesis
    by simp (rule snd_of_valid [OF collect_artifacts_with_kind_valid assms(1)], simp add: artifact_kind_def, erule outcome_I)
next
  case (Sys_Prune q)
  then show ?thesis using snd_of_valid [OF prune_artifacts_valid assms(1)] by simp
next
  case (Sys_Recover i)
  then show ?thesis using snd_of_valid [OF reconcile_guest_operation_valid assms(1)] by simp
next
  case (Sys_Register q)
  then show ?thesis using snd_of_valid [OF register_image_valid assms(1)] by simp
next
  case (Sys_Unregister i)
  then show ?thesis using snd_of_valid [OF unregister_image_valid assms(1)] by simp
next
  case (Sys_Run cr q job actions)
  have "I (snd (run_cell_observed_with_job E cr q job actions w))"
    by (rule validE_snd [OF run_valid [where cells = "sto_cells (w_store w)"]]) (use assms in \<open>auto simp: durably_def\<close>)
  then show ?thesis by (simp add: Sys_Run snd_mapE snd_discard)
qed

lemma run_systems_I:
  "I w \<Longrightarrow> (\<And>cmd c. cmd \<in> set cmds \<Longrightarrow> names_cell cmd = Some c \<Longrightarrow> may_cell c) \<Longrightarrow> I (run_systems E cmds w)"
proof (induction cmds arbitrary: w)
  case (Cons cmd cmds)
  have "I (snd (run_system E cmd w))" by (rule run_system_I) (use Cons.prems in auto)
  then show ?case using Cons by auto
qed simp

end

end
