(* ===== verification/EngineLiveness.thy ===== *)
theory EngineLiveness
  imports EngineProperties
begin

section \<open>Progress of the engine\<close>

text \<open>
  When nothing fails, teardown finishes.  \<open>completes P m Q\<close> is the total form of the triple: started
  in \<open>P\<close>, \<open>m\<close> returns a value, in \<open>Q\<close>.  \<open>at_cell\<close> describes a world by the durable record of one cell, its
  installation, its runtime directory and the provider's state; \<open>lawful_teardown\<close> states what the
  provider is expected to do with the cell's machine.
\<close>

subsection \<open>Total triples\<close>

definition completes :: "('w \<Rightarrow> bool) \<Rightarrow> ('w, 'e, 'a) eff \<Rightarrow> ('a \<Rightarrow> 'w \<Rightarrow> bool) \<Rightarrow> bool" where
  "completes P m Q \<longleftrightarrow> validE P m Q (\<lambda>_ _. False)"

lemma completesI: "(\<And>w. P w \<Longrightarrow> \<exists>x w'. m w = (Inr x, w') \<and> Q x w') \<Longrightarrow> completes P m Q"
  by (fastforce simp: completes_def validE_def)

lemma completesD: "completes P m Q \<Longrightarrow> P w \<Longrightarrow> \<exists>x w'. m w = (Inr x, w') \<and> Q x w'"
  unfolding completes_def validE_def by (cases "m w"; cases "fst (m w)") force+

lemma completes_then:
  assumes "completes P m (\<lambda>x w. F x \<and> P' x w)" "\<And>x. F x \<Longrightarrow> completes (P' x) (f x) Q"
  shows "completes P (bindE m f) Q"
proof (rule completesI)
  fix w assume "P w"
  with completesD [OF assms(1)] obtain x w1 where x: "m w = (Inr x, w1)" "F x" "P' x w1" by blast
  with completesD [OF assms(2)] show "\<exists>y w'. bindE m f w = (Inr y, w') \<and> Q y w'"
    by (fastforce simp: bindE_def)
qed

lemma completes_ret: "(\<And>w. P w \<Longrightarrow> Q x w) \<Longrightarrow> completes P (ret x) Q"
  by (auto intro: completesI simp: ret_def)

lemma completes_check:
  "r = Inr x \<Longrightarrow> completes P (f x) Q \<Longrightarrow> completes P (bindE (liftR r) f) Q"
  by (simp add: bindE_def liftR_def completes_def)

lemma completes_mapE: "completes P m Q \<Longrightarrow> completes P (mapE g m) Q"
  unfolding completes_def by (rule validE_mapE)

lemma completes_post: "completes P m Q \<Longrightarrow> (\<And>x w. Q x w \<Longrightarrow> Q' x w) \<Longrightarrow> completes P m Q'"
  unfolding completes_def by (erule validE_weaken) simp_all

lemma completes_pre: "completes P m Q \<Longrightarrow> (\<And>w. P' w \<Longrightarrow> P w) \<Longrightarrow> completes P' m Q"
  by (simp add: completes_def validE_def)

subsection \<open>The world around one cell\<close>

definition at_cell ::
  "('p, 'y) engine_env_scheme \<Rightarrow> cell_record \<Rightarrow> bool \<Rightarrow> 'p \<Rightarrow> ('p, 'z) engine_world_scheme \<Rightarrow> bool" where
  "at_cell E r b p w \<longleftrightarrow> cells_ok E w
     \<and> load_cell_from (env_crates E) (fe_root E) (w_store w) (cid r) = Inr r
     \<and> installed E (own_install_id (cell_ownership r)) (w_store w)
     \<and> ew_provider w = p \<and> (cid r \<in> set (sto_runtime (w_store w)) \<longleftrightarrow> b)"

definition pinnable :: "('p, 'y) engine_env_scheme \<Rightarrow> cell_record \<Rightarrow> bool" where
  "pinnable E r \<longleftrightarrow>
     is_direct_child (cell_runtime_root (env_crates E) (fe_root E) (cid r)) (own_configuration_path (cell_ownership r))
     \<and> is_direct_child (cell_runtime_root (env_crates E) (fe_root E) (cid r)) (own_overlay_path (cell_ownership r))"

definition scoped :: "('p, 'y) engine_env_scheme \<Rightarrow> cell_record \<Rightarrow> bool" where
  "scoped E r \<longleftrightarrow> pinnable E r \<and> validate_local_ownership_record (fe_host E) (fe_root E) (provider_name E) r
     (own_install_id (cell_ownership r)) = Inr ()"

lemma scoped_update [simp]:
  "scoped E (r\<lparr>cell_state := s\<rparr>) = scoped E r" "scoped E (r\<lparr>cell_phase := ph\<rparr>) = scoped E r"
  "scoped E (r\<lparr>cell_updated_at := t\<rparr>) = scoped E r"
  by (simp_all add: scoped_def pinnable_def validate_local_ownership_record_def)

lemma at_cell_tick [simp]: "at_cell E r b p (w\<lparr>w_tick := n\<rparr>) = at_cell E r b p w"
  "at_cell E r b p (w\<lparr>w_locked := l\<rparr>) = at_cell E r b p w"
  by (simp_all add: at_cell_def)

lemma at_cell_swap [simp]: "at_cell E r b p (w\<lparr>w_tick := n, w_store := st\<rparr>) = at_cell E r b p (w\<lparr>w_store := st\<rparr>)"
  by (simp only: world_swap at_cell_tick)

lemma calm_runs:
  assumes "calm E"
  shows "io_point E w = (Inr (), w\<lparr>w_tick := Suc (w_tick w)\<rparr>)"
    "read_op E f w = (f (w_store w), w\<lparr>w_tick := Suc (w_tick w)\<rparr>)"
    "write_atomic E g w = (Inr (), w\<lparr>w_tick := Suc (w_tick w), w_store := g (w_store w)\<rparr>)"
  using assms by (simp_all add: calm_def io_point_run read_op_run write_atomic_run Let_def)

lemma at_load:
  assumes "calm E"
  shows "completes (at_cell E r b p) (stE (load_cell E (cid r))) (\<lambda>x w. x = r \<and> at_cell E r b p w)"
  by (rule completes_mapE, rule completesI) (auto simp: load_cell_def calm_runs [OF assms] at_cell_def)

lemma at_installation:
  assumes "calm E"
  shows "completes (at_cell E r b p) (stE (acquire_installation_authority E))
    (\<lambda>inst w. inst = \<lparr>inst_install_id = own_install_id (cell_ownership r)\<rparr> \<and> at_cell E r b p w)"
  by (rule completes_mapE, rule completesI)
    (auto simp: acquire_installation_authority_def bindE_def ret_def calm_runs [OF assms] at_cell_def installed_def)

lemma at_inspect:
  assumes "pv_inspect_vm (en_provider E) l p = (Inr found, p)"
  shows "completes (at_cell E r b p) (inspect_vm E l) (\<lambda>x w. x = found \<and> at_cell E r b p w)"
  by (rule completesI) (use assms in \<open>auto simp: inspect_vm_def run_provider_def at_cell_def res_map_err_def\<close>)

lemma at_call:
  assumes "m p = (Inr x, p')"
  shows "completes (at_cell E r b p) (provider_call c m) (\<lambda>y w. y = x \<and> at_cell E r b p' w)"
  by (rule completesI)
    (use assms in \<open>auto simp: provider_call_def modify_def bindE_def run_provider_def at_cell_def res_map_err_def\<close>)

lemma at_runtime_entry:
  assumes "calm E"
  shows "completes (at_cell E r b p) (stE (runtime_entry_exists E (cid r))) (\<lambda>x w. x = b \<and> at_cell E r b p w)"
  by (rule completes_mapE, rule completesI) (auto simp: runtime_entry_exists_def calm_runs [OF assms] at_cell_def)

lemma at_pin:
  assumes "calm E" "pinnable E r"
  shows "completes (at_cell E r True p) (stE (pin_cell_runtime_for E (cid r)
      (own_configuration_path (cell_ownership r)) (own_overlay_path (cell_ownership r))))
    (\<lambda>rt w. rt = \<lparr>rt_cell_id = cid r, rt_configuration_path = own_configuration_path (cell_ownership r),
      rt_overlay_path = own_overlay_path (cell_ownership r)\<rparr> \<and> at_cell E r True p w)"
  by (rule completes_mapE, rule completesI)
    (use assms(2) in \<open>auto simp: pin_cell_runtime_for_def Let_def bindE_def calm_runs [OF assms(1)] pinnable_def gets_def
      ret_def at_cell_def\<close>)

lemma load_cell_runtime: "load_cell_from X root (st\<lparr>sto_runtime := rs\<rparr>) = load_cell_from X root st"
  by (rule load_cell_from_cong) simp

lemma at_remove_runtime:
  assumes "calm E" "rt_cell_id rt = cid r"
  shows "completes (at_cell E r True p) (stE (remove_cell_runtime_with_mutation E (cid r) rt)) (\<lambda>_. at_cell E r False p)"
  by (rule completes_mapE, rule completesI)
    (use assms(2) in \<open>auto simp: remove_cell_runtime_with_mutation_def with_mutation_def validate_mutation_guard_def
      bindE_def calm_runs [OF assms(1)] ret_def at_cell_def load_cell_runtime installed_def load_installation_from_def\<close>)

text \<open>A record whose identity is that of the durable one can always be written.\<close>

lemma save_cell_check_update:
  assumes "uuid_laws X" "dir_ok (sto_cells st)" "load_cell_from X root st (cid r) = Inr old"
    and same: "cid old = cid r" "cell_job r = cell_job old" "cell_ownership r = cell_ownership old"
      "cell_schema_version r = cell_schema_version old"
    and "redact_cell_diagnostic r = r"
  shows "save_cell_check X root st r = Inr r"
proof -
  from assms(3) obtain r0 where r0: "cells_sound X root st" "map_of (sto_cells st) (cell_key X (cid r)) = Some (Doc r0)"
    "old = redact_cell_diagnostic r0"
    by (auto simp: load_cell_from_ok [OF assms(1,2)])
  then have valid: "cells_valid X root st" by (simp add: cells_sound_def)
  have id: "cid r0 = cid r" "validate_cell_schema X (cell_path X root (cid r)) r0 = Inr ()"
    using cell_key_doc [OF assms(1,2) valid r0(2)] by auto
  have schema: "validate_cell_schema X (cell_path X root (cid r)) r = Inr ()"
  proof -
    have "validate_cell_schema X p r = validate_cell_schema X p r0" for p
      using id same r0(3) by (simp add: validate_cell_schema_def)
    with id show ?thesis by simp
  qed
  have "job_ids_unique (insert r {c \<in> dir_docs (sto_cells st). cid c \<noteq> cid r})
      \<longleftrightarrow> job_ids_unique (dir_docs (sto_cells st))"
    using r0 id same by (intro unique_replace_same [of r0]) (auto simp: cell_docs_key [OF assms(1,2) valid])
  then show ?thesis
    using schema same assms(3,8) r0(1)
    by (simp add: save_cell_check_def validate_unique_cell_job_id_ok [OF assms(1,2)] cells_sound_def)
qed

lemma at_persist:
  assumes "calm E"
  shows "completes (at_cell E r b p) (persist E r s ph) (\<lambda>r' w. (\<exists>t. r' = r\<lparr>cell_state := s, cell_phase := ph,
      cell_updated_at := t\<rparr>) \<and> at_cell E r' b p w)"
proof (rule completesI)
  fix w :: "('a, 'c) engine_world_scheme" assume w: "at_cell E r b p w"
  let ?X = "env_crates E" and ?w = "w\<lparr>w_tick := Suc (w_tick w)\<rparr>"
  let ?r = "r\<lparr>cell_state := s, cell_phase := ph, cell_updated_at := fs_now E (w_tick w)\<rparr>"
  have ok: "cells_ok E w" "load_cell_from ?X (fe_root E) (w_store w) (cid r) = Inr r"
    using w by (auto simp: at_cell_def)
  have red: "redact_cell_diagnostic r = r"
    using loaded_redacted [OF _ _ ok(2)] ok(1) by simp
  then have chk: "save_cell_check ?X (fe_root E) (w_store w) ?r = Inr ?r"
    using ok by (intro save_cell_check_update [where old = r] redact_cong [OF red]) auto
  have run: "save_cell_with_mutation E ?r ?w
      = (Inr (), ?w\<lparr>w_tick := w_tick ?w + 4, w_store := put_cell ?X ?r (w_store ?w)\<rparr>)"
    unfolding save_cell_guarded by (rule guarded_save_calm [OF assms(1)]) (simp add: chk)
  have "at_cell E ?r b p (w\<lparr>w_store := put_cell ?X ?r (w_store w)\<rparr>)"
    using w cells.load_put [OF ok(1) chk] dir_ok_put_cell [of ?X "w_store w" ?r]
    by (auto simp: at_cell_def installed_def load_installation_from_def put_cell_def)
  then show "\<exists>x w'. persist E r s ph w = (Inr x, w') \<and> (\<exists>t. x = r\<lparr>cell_state := s, cell_phase := ph,
      cell_updated_at := t\<rparr>) \<and> at_cell E x b p w'"
    using run by (auto simp: persist_def bindE_def utc_now_run Let_def save_cell_def mapE_def ret_def)
qed


subsection \<open>Teardown\<close>

definition teardown_phase :: "cell_record \<Rightarrow> cell_phase" where
  "teardown_phase r = (if cell_phase r \<in> {Phase_ProviderObjectClaimed, Phase_DestroyingProvisioning}
     then Phase_DestroyingProvisioning else Phase_Destroying)"

definition provable :: "host_env \<Rightarrow> cell_record \<Rightarrow> provider_vm \<Rightarrow> bool" where
  "provable H r vm \<longleftrightarrow>
     cell_phase r \<in> {Phase_Ready, Phase_Destroying} \<and> prove_ownership H r vm = Inr ()
     \<or> cell_phase r = Phase_ProviderObjectClaimed \<and> prove_creation_identity H r vm True = Inr ()
     \<or> cell_phase r = Phase_DestroyingProvisioning \<and> prove_destroy_identity H r vm = Inr ()"

text \<open>The provider finds the machine, stops it if it runs, removes it, and then no longer finds it: neither by
  id nor by name.  It is only asked so under the cell's own authority in its teardown phase.\<close>

definition lawful_teardown ::
  "('p, 'y) engine_env_scheme \<Rightarrow> cell_record \<Rightarrow> provider_vm \<Rightarrow> 'p \<Rightarrow> 'p \<Rightarrow> 'p \<Rightarrow> bool" where
  "lawful_teardown E r vm p p1 p2 \<longleftrightarrow>
     (let pv = en_provider E; a = cell_authority (r\<lparr>cell_phase := teardown_phase r\<rparr>); off = vm\<lparr>vm_power_state := Power_Off\<rparr> in
      pv_inspect_vm pv (Lookup_Id (vm_id vm)) p = (Inr (Some vm), p)
      \<and> (if vm_power_state vm = Power_Off then p1 = p
         else pv_stop_vm pv a vm p = (Inr (), p1)
           \<and> pv_inspect_vm pv (Lookup_Id (vm_id vm)) p1 = (Inr (Some off), p1))
      \<and> pv_remove_vm pv a off p1 = (Inr (), p2)
      \<and> pv_inspect_vm pv (Lookup_Id (vm_id vm)) p2 = (Inr None, p2)
      \<and> pv_inspect_vm pv (Lookup_Name (own_provider_object_name (cell_ownership r))) p2 = (Inr None, p2))"

lemma cell_authority_update [simp]:
  "cell_authority (r\<lparr>cell_state := s\<rparr>) = cell_authority r" "cell_authority (r\<lparr>cell_updated_at := t\<rparr>) = cell_authority r"
  by (simp_all add: cell_authority_def provider_authority_new_def)

abbreviation own_runtime :: "cell_record \<Rightarrow> cell_runtime_guard" where
  "own_runtime r \<equiv> \<lparr>rt_cell_id = cid r, rt_configuration_path = own_configuration_path (cell_ownership r),
     rt_overlay_path = own_overlay_path (cell_ownership r)\<rparr>"

abbreviation own_installation :: "cell_record \<Rightarrow> installation_authority" where
  "own_installation r \<equiv> \<lparr>inst_install_id = own_install_id (cell_ownership r)\<rparr>"

lemma own_authority: "provider_authority_new r (own_installation r) (own_runtime r) = cell_authority r"
  by (simp add: cell_authority_def)

lemma provable_proof:
  "provable (fe_host E) r vm \<Longrightarrow>
     destroy_proof E inst rt r vm
       = ret (r, vm, cell_phase r \<in> {Phase_ProviderObjectClaimed, Phase_DestroyingProvisioning})"
  by (auto simp: provable_def destroy_proof_def Let_def bindE_def liftR_def fun_eq_iff)

lemma provable_destroy: "provable H r vm \<Longrightarrow> prove_destroy_identity H r vm = Inr () \<and> vm_identity H r vm"
  by (auto simp: provable_def ownership_proofs_ok)

lemma scoped_against: "scoped E r \<Longrightarrow> validate_local_ownership_against E r (own_installation r) = Inr ()"
  by (simp add: scoped_def validate_local_ownership_against_def)

lemma at_stop:
  assumes "scoped E r" "prove_destroy_identity (fe_host E) r vm = Inr ()"
    and "if vm_power_state vm = Power_Off then p1 = p
      else pv_stop_vm (en_provider E) (cell_authority r) vm p = (Inr (), p1)
        \<and> pv_inspect_vm (en_provider E) (Lookup_Id (vm_id vm)) p1 = (Inr (Some (vm\<lparr>vm_power_state := Power_Off\<rparr>)), p1)"
  shows "completes (at_cell E r b p) (stop_for_destroy E (own_installation r) (own_runtime r) r vm)
    (\<lambda>x w. x = vm\<lparr>vm_power_state := Power_Off\<rparr> \<and> at_cell E r b p1 w)"
proof (cases "vm_power_state vm = Power_Off")
  case True
  then show ?thesis using assms(3) by (auto simp: stop_for_destroy_def intro!: completes_ret)
next
  case False
  have "prove_destroy_identity (fe_host E) r (vm\<lparr>vm_power_state := Power_Off\<rparr>) = Inr ()"
    using assms(2) by (simp add: prove_destroy_identity_ok vm_identity_def)
  with False assms(3) show ?thesis
    unfolding stop_for_destroy_def Let_def own_authority
    by (auto intro!: completes_check [OF scoped_against [OF assms(1)]] completes_then [OF at_call] completes_then [OF at_inspect]
        completes_check completes_ret simp: ok_or_def)
qed

lemma at_remove:
  assumes "calm E" "scoped E r" "prove_destroy_identity (fe_host E) r vm = Inr ()"
    and "pv_remove_vm (en_provider E) (cell_authority r) vm p1 = (Inr (), p2)"
      "pv_inspect_vm (en_provider E) (Lookup_Id (vm_id vm)) p2 = (Inr None, p2)"
      "pv_inspect_vm (en_provider E) (Lookup_Name (own_provider_object_name (cell_ownership r))) p2 = (Inr None, p2)"
  shows "completes (at_cell E r True p1) (remove_owned E (own_installation r) (own_runtime r) r vm)
    (\<lambda>_. at_cell E r False p2)"
  unfolding remove_owned_def Let_def own_authority
  by (rule completes_check [OF scoped_against [OF assms(2)]], rule completes_check [OF assms(3)],
      rule completes_then [OF at_call [of _ p1 "()" p2]], rule assms(4), rule completes_then [OF at_inspect [OF assms(5)]],
      simp, rule completes_then [OF at_inspect [OF assms(6)]], simp,
      rule completes_check [OF scoped_against [OF assms(2)]], rule at_remove_runtime [OF assms(1)]) simp

lemma at_destroy_present:
  assumes "calm E" "scoped E r" "provable (fe_host E) r vm" "lawful_teardown E r vm p p1 p2"
  shows "completes (at_cell E r True p) (destroy_present E (own_installation r) r vm)
    (\<lambda>r' w. (\<exists>t. r' = r\<lparr>cell_state := Cell_Destroying, cell_phase := teardown_phase r, cell_updated_at := t\<rparr>)
      \<and> at_cell E r' False p2 w)"
proof -
  have rest: "completes (at_cell E r' True p) (bindE (stop_for_destroy E (own_installation r) (own_runtime r) r' vm)
      (\<lambda>vm. bindE (remove_owned E (own_installation r) (own_runtime r) r' vm) (\<lambda>_. ret r')))
      (\<lambda>x w. (\<exists>t. x = r\<lparr>cell_state := Cell_Destroying, cell_phase := teardown_phase r, cell_updated_at := t\<rparr>)
        \<and> at_cell E x False p2 w)"
    if "r' = r\<lparr>cell_state := Cell_Destroying, cell_phase := teardown_phase r, cell_updated_at := t\<rparr>" for r' t
  proof -
    have same: "own_installation r = own_installation r'" "own_runtime r = own_runtime r'" using that by simp_all
    have ident: "prove_destroy_identity (fe_host E) r' vm = Inr ()"
      "prove_destroy_identity (fe_host E) r' (vm\<lparr>vm_power_state := Power_Off\<rparr>) = Inr ()"
      using provable_destroy [OF assms(3)] that by (auto simp: prove_destroy_identity_ok vm_identity_def)
    have auth: "cell_authority r' = cell_authority (r\<lparr>cell_phase := teardown_phase r\<rparr>)"
      using that by (simp add: cell_authority_def provider_authority_new_def)
    have scope: "scoped E r'" using assms(2) that by simp
    have step: "completes (at_cell E r' True p1) (bindE (remove_owned E (own_installation r') (own_runtime r') r'
        (vm\<lparr>vm_power_state := Power_Off\<rparr>)) (\<lambda>_. ret r')) (\<lambda>x w. x = r' \<and> at_cell E r' False p2 w)"
      by (rule completes_then [where F = "\<lambda>_. True" and P' = "\<lambda>_. at_cell E r' False p2"])
        (use at_remove [OF assms(1) scope ident(2)] assms(4) that auth in
          \<open>auto simp: lawful_teardown_def Let_def intro: completes_ret\<close>)
    have "completes (at_cell E r' True p) (bindE (stop_for_destroy E (own_installation r') (own_runtime r') r' vm)
      (\<lambda>vm. bindE (remove_owned E (own_installation r') (own_runtime r') r' vm) (\<lambda>_. ret r')))
      (\<lambda>x w. x = r' \<and> at_cell E r' False p2 w)"
      by (rule completes_then [OF at_stop [OF scope ident(1), of p1]])
        (use step assms(4) auth in \<open>auto simp: lawful_teardown_def Let_def\<close>)
    then show ?thesis
      unfolding same using that by (auto simp: completes_def elim: validE_weaken)
  qed
  show ?thesis
    unfolding destroy_present_def provable_proof [OF assms(3)] bindE_ret prod.case teardown_phase_def [symmetric]
  proof (rule completes_then [OF at_pin [OF assms(1)]])
    show "pinnable E r" using assms(2) by (simp add: scoped_def)
    fix rt assume rt: "rt = own_runtime r"
    show "completes (at_cell E r True p) (bindE (persist E r Cell_Destroying (teardown_phase r))
        (\<lambda>r'. bindE (stop_for_destroy E (own_installation r) rt r' vm)
          (\<lambda>vm. bindE (remove_owned E (own_installation r) rt r' vm) (\<lambda>_. ret r'))))
        (\<lambda>x w. (\<exists>t. x = r\<lparr>cell_state := Cell_Destroying, cell_phase := teardown_phase r, cell_updated_at := t\<rparr>)
          \<and> at_cell E x False p2 w)"
      unfolding rt by (rule completes_then [OF at_persist [OF assms(1)]]) (blast intro: rest)
  qed
qed


lemma at_destroy_absent:
  assumes "calm E" "scoped E r"
    and "pv_inspect_vm (en_provider E) (Lookup_Name (own_provider_object_name (cell_ownership r))) p = (Inr None, p)"
  shows "completes (at_cell E r b p) (destroy_absent E (own_installation r) r) (\<lambda>x w. x = r \<and> at_cell E r False p w)"
proof (unfold destroy_absent_def, rule completes_then [OF at_inspect [OF assms(3)]], simp only: simp_thms if_False,
    rule completes_then [OF at_runtime_entry [OF assms(1)]], goal_cases)
  case (1 x present)
  show ?case
  proof (cases b)
    case True
    have pin: "pinnable E r" using assms(2) by (simp add: scoped_def)
    have remove: "completes (at_cell E r True p) (bindE (stE (remove_cell_runtime_with_mutation E (cid r) (own_runtime r)))
        (\<lambda>_. ret r)) (\<lambda>x w. x = r \<and> at_cell E r False p w)"
      by (rule completes_then [where F = "\<lambda>_. True" and P' = "\<lambda>_. at_cell E r False p"])
        (use at_remove_runtime [OF assms(1), of "own_runtime r" r p] in \<open>auto intro: completes_ret\<close>)
    show ?thesis
      unfolding True using 1(2) True
      by (simp, intro completes_then [OF at_pin [OF assms(1) pin]] completes_check [OF scoped_against [OF assms(2)]])
        (simp only: remove)
  qed (use 1 in \<open>auto intro: completes_ret\<close>)
qed

text \<open>The end of a teardown: the tombstone is durable and the runtime directory is gone.\<close>

definition entombed :: "('p, 'y) engine_env_scheme \<Rightarrow> cell_record \<Rightarrow> 'p \<Rightarrow> ('p, 'z) engine_world_scheme \<Rightarrow> bool" where
  "entombed E r p w \<longleftrightarrow> (\<exists>r'. provisioned r r' \<and> lifecycle_of r' = (Cell_Destroyed, Phase_Destroyed) \<and> at_cell E r' False p w)"

lemma at_tombstone:
  assumes "calm E" "scoped E r'" "provisioned r r'"
  shows "completes (at_cell E r' False p) (bindE (liftR (validate_local_ownership_against E r' (own_installation r)))
      (\<lambda>_. bindE (persist E r' Cell_Destroyed Phase_Destroyed) (\<lambda>r. ret (operation_report_of r True))))
    (\<lambda>rep w. or_state rep = Cell_Destroyed \<and> or_changed rep \<and> entombed E r p w)"
proof -
  have "own_installation r = own_installation r'" using assms(3) by (simp add: provisioned_def)
  then have local: "validate_local_ownership_against E r' (own_installation r) = Inr ()"
    using scoped_against [OF assms(2)] by simp
  have tomb: "entombed E r p w" if "at_cell E (r'\<lparr>cell_state := Cell_Destroyed, cell_phase := Phase_Destroyed,
      cell_updated_at := t\<rparr>) False p w" for w t
    unfolding entombed_def by (rule exI, rule conjI [OF _ conjI [OF _ that]])
      (use assms(3) in \<open>simp_all add: provisioned_def lifecycle_of_def\<close>)
  show ?thesis
  proof (rule completes_check [OF local], rule completes_then [OF at_persist [OF assms(1)]], rule completes_ret)
    fix x w assume x: "\<exists>t. x = r'\<lparr>cell_state := Cell_Destroyed, cell_phase := Phase_Destroyed, cell_updated_at := t\<rparr>"
      and w: "at_cell E x False p w"
    from x have "cell_state x = Cell_Destroyed" by auto
    moreover from x w tomb have "entombed E r p w" by auto
    ultimately show "or_state (operation_report_of x True) = Cell_Destroyed \<and> or_changed (operation_report_of x True)
        \<and> entombed E r p w"
      by (simp add: operation_report_of_def)
  qed
qed

lemma destroy_locked_completes:
  fixes E :: "('p, 'y) engine_env_scheme"
  assumes "calm E" "scoped E r" "cell_state r \<noteq> Cell_Destroyed"
    and "provable (fe_host E) r vm \<and> lawful_teardown E r vm p p1 p2 \<and> b
      \<or> (\<exists>i. cell_provider_object r = Some i \<and> pv_inspect_vm (en_provider E) (Lookup_Id (poi_id i)) p = (Inr None, p))
        \<and> pv_inspect_vm (en_provider E) (Lookup_Name (own_provider_object_name (cell_ownership r))) p = (Inr None, p) \<and> p2 = p"
  shows "completes (at_cell E r b p :: ('p, 'z) engine_world_scheme \<Rightarrow> bool) (destroy_cell_locked E (cid r))
    (\<lambda>rep w. or_state rep = Cell_Destroyed \<and> or_changed rep \<and> entombed E r p2 w)"
proof -
  obtain i found where i: "cell_provider_object r = Some i"
    "pv_inspect_vm (en_provider E) (Lookup_Id (poi_id i)) p = (Inr found, p)"
    and rest: "completes (at_cell E r b p :: ('p, 'z) engine_world_scheme \<Rightarrow> bool)
      (case found of Some vm \<Rightarrow> destroy_present E (own_installation r) r vm | None \<Rightarrow> destroy_absent E (own_installation r) r)
      (\<lambda>r' w. (scoped E r' \<and> provisioned r r') \<and> at_cell E r' False p2 w)"
    using assms(4)
  proof (elim disjE conjE exE, goal_cases)
    case 1
    then have "cell_provider_object r = Some \<lparr>poi_id = vm_id vm, poi_name = vm_name vm\<rparr>"
      using provable_destroy by (auto simp: vm_identity_def)
    moreover have "completes (at_cell E r b p :: ('p, 'z) engine_world_scheme \<Rightarrow> bool) (destroy_present E (own_installation r) r vm)
        (\<lambda>r' w. (scoped E r' \<and> provisioned r r') \<and> at_cell E r' False p2 w)"
      using 1(4) by (simp, intro completes_post [OF at_destroy_present [OF assms(1,2) 1(2,3)]])
        (use assms(2) in \<open>auto simp: provisioned_def\<close>)
    ultimately show ?case using 1(3) by (intro 1(1)) (auto simp: lawful_teardown_def Let_def)
  next
    case (2 i)
    have "completes (at_cell E r b p :: ('p, 'z) engine_world_scheme \<Rightarrow> bool) (destroy_absent E (own_installation r) r)
        (\<lambda>r' w. (scoped E r' \<and> provisioned r r') \<and> at_cell E r' False p2 w)"
      unfolding 2(3) by (rule completes_post [OF at_destroy_absent [OF assms(1,2) 2(2)]])
        (use assms(2) in \<open>auto simp: provisioned_def\<close>)
    then show ?case using 2 by (intro 2(1) [of i None]) auto
  qed
  have finish: "completes (at_cell E r b p :: ('p, 'z) engine_world_scheme \<Rightarrow> bool) (bindE
      (case found of Some vm \<Rightarrow> destroy_present E (own_installation r) r vm | None \<Rightarrow> destroy_absent E (own_installation r) r)
      (\<lambda>r'. bindE (liftR (validate_local_ownership_against E r' (own_installation r)))
        (\<lambda>_. bindE (persist E r' Cell_Destroyed Phase_Destroyed) (\<lambda>r. ret (operation_report_of r True)))))
      (\<lambda>rep w. or_state rep = Cell_Destroyed \<and> or_changed rep \<and> entombed E r p2 w)"
    by (rule completes_then [OF rest]) (auto intro: at_tombstone [OF assms(1)])
  show ?thesis
    unfolding destroy_cell_locked_def
    by (rule completes_then [OF at_load [OF assms(1)]])
      (use assms(3) i in \<open>auto intro!: completes_then [OF at_installation [OF assms(1)]]
        completes_check [OF scoped_against [OF assms(2)]] completes_then [OF at_inspect [OF i(2)]] finish\<close>)
qed

lemma free_lock_completes:
  assumes "calm E" "\<And>n. \<not> fs_busy E n" "completes P m Q"
    and "\<And>w n l. P w \<Longrightarrow> P (w\<lparr>w_tick := n, w_locked := l\<rparr>)" "\<And>x w l. Q x w \<Longrightarrow> Q x (w\<lparr>w_locked := l\<rparr>)"
  shows "completes (\<lambda>w. P w \<and> \<not> w_locked w) (with_lock E m) (\<lambda>x w. Q x w \<and> \<not> w_locked w)"
proof (rule completesI)
  fix w :: "('a, 'c) engine_world_scheme" assume w: "P w \<and> \<not> w_locked w"
  obtain res w1 where run: "acquire_mutation_lock E w = (res, w1)" by (cases "acquire_mutation_lock E w") auto
  then have "fst (acquire_mutation_lock_retry (fs_lock_retries E) E w) = res" by (simp add: acquire_mutation_lock_def)
  moreover have "fs_fault E n = None" for n using assms(1) by (simp add: calm_def)
  ultimately have res: "res = Inr ()"
    using acquire_retry_calm [of E "fs_lock_retries E" w] assms(2) w by auto
  from acquire_retry_effect [OF run [unfolded acquire_mutation_lock_def]] res obtain n
    where "w1 = w\<lparr>w_tick := n, w_locked := True\<rparr>" by auto
  then have "P w1" using assms(4) w by simp
  from completesD [OF assms(3) this] obtain x w2 where "m w1 = (Inr x, w2)" "Q x w2" by blast
  then show "\<exists>x w'. with_lock E m w = (Inr x, w') \<and> Q x w' \<and> \<not> w_locked w'"
    using run res assms(5) by (simp add: with_lock_def bindE_def mapE_def finallyE_def release_mutation_lock_def)
qed


subsection \<open>Properties\<close>


lemma owned_cell_check: "save_cell_check canonical_crates ''/state'' empty_store owned_cell = Inr owned_cell"
proof (rule put_first_cell)
  show "validate_cell_schema canonical_crates (cell_path canonical_crates ''/state'' (cid owned_cell)) owned_cell = Inr ()"
    by (simp add: validate_cell_schema_def owned_cell_def sample_cell_def ensure_stem_def uuid_stem_state
        ensure_schema_one_of_def ensure_schema_def ensure_def cell_schema_defs cell_ownership_new_def)
qed (simp add: redact_cell_diagnostic_def owned_cell_def sample_cell_def)

lemma sample_engine_simps [simp]:
  "fe_root sample_engine = ''/state''" "fe_host sample_engine = sample_env" "en_provider sample_engine = one_vm_provider"
  "fs_busy sample_engine n = False" "pv_name one_vm_provider = ''qemu''"
  by (simp_all add: sample_engine_def one_vm_provider_def default_provider_def)

lemma calm_sample_engine: "calm sample_engine"
  by (simp add: calm_def sample_engine_def)

lemma owned_world_at: "at_cell sample_engine owned_cell True p (owned_world p)"
proof -
  have "load_cell_from canonical_crates ''/state'' (put_cell canonical_crates owned_cell empty_store) (cid owned_cell)
      = Inr owned_cell"
    by (rule cells.load_put [OF empty_store_ok owned_cell_check])
  moreover have "cid owned_cell = CellId 7" by (simp add: owned_cell_def sample_cell_def)
  moreover have "installed sample_engine 5 (put_cell canonical_crates owned_cell empty_store)"
    by (simp add: installed_def load_installation_from_def put_cell_def empty_store_def read_doc_def ensure_schema_def
        ensure_def INSTALL_SCHEMA_VERSION_def)
  moreover have "own_install_id (cell_ownership owned_cell) = 5" by (simp add: owned_cell_def cell_ownership_new_def)
  ultimately show ?thesis
    using dir_ok_put_cell [of canonical_crates empty_store owned_cell] empty_store_ok
    by (simp add: at_cell_def owned_world_def load_cell_runtime) (simp add: installed_def load_installation_from_def)
qed


definition running_vm :: provider_vm where
  "running_vm = owned_vm\<lparr>vm_power_state := Power_Running\<rparr>"

lemma owned_scoped: "scoped sample_engine owned_cell"
proof -
  let ?rr = "cell_runtime_root canonical_crates ''/state'' (CellId 7)"
  have child: "is_direct_child ?rr (path_join ?rr n)" if "file_name_ok n" for n
  proof -
    have n: "components n = [Normal n]" "split_on CHR ''/'' n = [n]"
      using that by (auto simp: file_name_ok_def split_on_fresh intro!: components_simple)
    have "?rr \<noteq> []" by (simp add: cell_runtime_root_def canonical_uuid_laws)
    then have "components (path_join ?rr n) = components ?rr @ [Normal n]"
      using components_path_join [of ?rr n] n by simp
    then show ?thesis by (simp add: is_direct_child_def)
  qed
  have "is_direct_child ?rr (own_configuration_path (cell_ownership owned_cell))"
    "is_direct_child ?rr (own_overlay_path (cell_ownership owned_cell))"
    using child [of "''qemu''"] child [of "''cell.qcow2''"]
    by (simp_all add: owned_cell_def cell_ownership_new_def cell_configuration_path_for_def cell_overlay_path_for_def
        file_name_ok_def)
  moreover have "cid owned_cell = CellId 7" "own_install_id (cell_ownership owned_cell) = 5"
    by (simp_all add: owned_cell_def sample_cell_def cell_ownership_new_def)
  ultimately show ?thesis using owned_local by (simp add: scoped_def pinnable_def)
qed

lemma running_provable: "provable sample_env owned_cell running_vm"
proof -
  have "prove_ownership sample_env owned_cell running_vm = Inr ()"
    using owned_proof by (simp add: running_vm_def prove_ownership_ok vm_identity_def)
  moreover have "cell_phase owned_cell = Phase_Ready" by (simp add: owned_cell_def sample_cell_def)
  ultimately show ?thesis by (simp add: provable_def)
qed

lemma running_lawful:
  "lawful_teardown sample_engine owned_cell running_vm (Some running_vm) (Some (running_vm\<lparr>vm_power_state := Power_Off\<rparr>)) None"
  by (simp add: lawful_teardown_def Let_def one_vm_provider_def gets_def modify_def)


end
