(* ===== verification/GuestTheorems.thy ===== *)
theory GuestTheorems
  imports System EngineTheorems
begin

section \<open>Theorems on guest operations\<close>

text \<open>
  The invariants that interpret \<open>system_invariant\<close> (every transport call was entitled; the history of one
  operation is a path of \<open>op_step\<close>; a cell has at most one open operation); and the properties of single operations.
\<close>

subsection \<open>The invariants\<close>

text \<open>Names of files are names; uuid printing is as documented.\<close>

definition files_ok :: "('p, 'y) engine_env_scheme \<Rightarrow> ('p, 'z) engine_world_scheme \<Rightarrow> bool" where
  "files_ok E w \<longleftrightarrow> cells_ok E w \<and> dir_ok (sto_operations (w_store w))"

definition entitled :: "('p, 'y) engine_env_scheme \<Rightarrow> (guest_call \<times> store) list \<Rightarrow> bool" where
  "entitled E tr \<longleftrightarrow> (\<forall>(call, st) \<in> set tr. guest_call_ok E st call)"

definition op_history ::
  "('p, 'y) engine_env_scheme \<Rightarrow> guest_operation_record \<Rightarrow> ('p, 'z) engine_world_scheme \<Rightarrow> bool" where
  "op_history E op0 w \<longleftrightarrow> (\<exists>op. op_doc (env_crates E) (w_store w) (op_id op0) = Some (Doc op) \<and> op_step\<^sup>*\<^sup>* op0 op)"

definition fresh_uuids :: "('p, 'y) engine_env_scheme \<Rightarrow> guest_operation_id \<Rightarrow> bool" where
  "fresh_uuids E i \<longleftrightarrow> (\<forall>n. fs_uuid E n \<noteq> op_uuid i)"

definition single_open :: "crates \<Rightarrow> store \<Rightarrow> bool" where
  "single_open X st \<longleftrightarrow> (\<forall>op op'. op_doc X st (op_id op) = Some (Doc op) \<longrightarrow> op_doc X st (op_id op') = Some (Doc op') \<longrightarrow>
     op_cell_id op = op_cell_id op' \<longrightarrow> \<not> is_terminal (op_phase op) \<longrightarrow> \<not> is_terminal (op_phase op') \<longrightarrow> op = op')"

lemma files_ok_simps:
  "files_ok E (w\<lparr>w_locked := b\<rparr>) = files_ok E w"
  "files_ok E (w\<lparr>ew_trace := tr\<rparr>) = files_ok E w"
  "files_ok E (w\<lparr>w_store := (w_store w)\<lparr>sto_installation := inst\<rparr>\<rparr>) = files_ok E w"
  "files_ok E (w\<lparr>w_store := (w_store w)\<lparr>sto_artifacts := d\<rparr>\<rparr>) = files_ok E w"
  by (simp_all add: files_ok_def)

lemma files_ok_soft: "soft_step w w' \<Longrightarrow> files_ok E w' = files_ok E w"
  by (simp add: files_ok_def soft_step_store)

lemma files_ok_cell:
  "files_ok E w \<Longrightarrow> files_ok E (w\<lparr>w_store := put_cell (env_crates E) r (w_store w)\<rparr>)"
  using dir_ok_put_cell by (simp add: files_ok_def put_cell_def)

lemma files_ok_operation:
  "files_ok E w \<Longrightarrow> files_ok E (w\<lparr>w_store := put_operation (env_crates E) op (w_store w)\<rparr>)"
  by (auto simp: files_ok_def dir_ok_def put_operation_def dom_update file_name_ok_uuid_json)

lemma op_doc_cell: "op_doc X (put_cell X r st) i = op_doc X st i"
  by (simp add: put_cell_def)


lemma op_step_open: "op_step op op' \<Longrightarrow> op_id op' = op_id op \<and> op_cell_id op' = op_cell_id op
    \<and> (is_terminal (op_phase op) \<longrightarrow> is_terminal (op_phase op'))"
  by (auto simp: same_operation_def is_terminal_def elim!: op_stepE)

lemma single_open_put:
  assumes "uuid_laws (env_crates E)" "single_open (env_crates E) st" "op_write E P st op"
  shows "single_open (env_crates E) (put_operation (env_crates E) op st)"
proof -
  let ?X = "env_crates E"
  have new: "x = op \<or> op_doc ?X st (op_id x) = Some (Doc x) \<and> op_id x \<noteq> op_id op"
    if "op_doc ?X (put_operation ?X op st) (op_id x) = Some (Doc x)" for x
  proof (cases "op_id x = op_id op")
    case True
    then have "Some (Doc op) = Some (Doc x)" using that unfolding op_doc_put [OF assms(1)] by (simp only: if_True simp_thms)
    then show ?thesis by simp
  next
    case False
    then show ?thesis using that unfolding op_doc_put [OF assms(1)] by (simp only: if_False simp_thms)
  qed
  have only: "is_terminal (op_phase x) \<or> is_terminal (op_phase op)"
    if x: "op_doc ?X st (op_id x) = Some (Doc x)" "op_id x \<noteq> op_id op" "op_cell_id x = op_cell_id op" for x
    using assms(3) unfolding op_write_def
  proof
    assume "\<exists>op0. op_doc ?X st (op_id op) = Some (Doc op0) \<and> op_step op0 op"
    then obtain op0 where op0: "op_doc ?X st (op_id op) = Some (Doc op0)" "op_step op0 op" by blast
    note same = op_step_open [OF op0(2)]
    have "\<not> is_terminal (op_phase x) \<Longrightarrow> \<not> is_terminal (op_phase op0) \<Longrightarrow> x = op0"
      using assms(2) x op0(1) same unfolding single_open_def by metis
    with x(2) same show ?thesis by metis
  next
    assume "op_phase op = Op_IntentRecorded \<and> P (op_id op) \<and> quiet ?X st (op_cell_id op)"
    with x(1,3) show ?thesis unfolding quiet_def by metis
  qed
  show ?thesis
    unfolding single_open_def
  proof (intro allI impI)
    fix a b assume *: "op_doc ?X (put_operation ?X op st) (op_id a) = Some (Doc a)"
      "op_doc ?X (put_operation ?X op st) (op_id b) = Some (Doc b)" "op_cell_id a = op_cell_id b"
      "\<not> is_terminal (op_phase a)" "\<not> is_terminal (op_phase b)"
    show "a = b"
      using new [OF *(1)] new [OF *(2)] only [of a] only [of b] *(3-5) assms(2) unfolding single_open_def by metis
  qed
qed

interpretation guarded: system_invariant E
  "\<lambda>w. files_ok E w \<and> authorized E (ew_trace w) \<and> entitled E (gw_calls w)" "\<lambda>_. True" "\<lambda>_. True" for E
proof
  fix w w' assume "files_ok E w \<and> authorized E (ew_trace w) \<and> entitled E (gw_calls w)" "soft_step w w'"
  then show "files_ok E w' \<and> authorized E (ew_trace w') \<and> entitled E (gw_calls w')"
    by (auto simp: files_ok_soft soft_step_store) (auto simp: soft_step_def)
qed (auto simp: files_ok_simps files_ok_cell files_ok_operation authorized_def entitled_def, auto simp: files_ok_def)

lemma op_history_cong:
  "sto_operations (w_store w') = sto_operations (w_store w) \<Longrightarrow> op_history E op0 w' = op_history E op0 w"
  by (simp add: op_history_def)

lemma op_history_put:
  assumes "uuid_laws (env_crates E)" "op_history E op0 w" "op_write E (\<lambda>i. i \<noteq> op_id op0) (w_store w) op"
  shows "op_history E op0 (w\<lparr>w_store := put_operation (env_crates E) op (w_store w)\<rparr>)"
proof -
  obtain x where x: "op_doc (env_crates E) (w_store w) (op_id op0) = Some (Doc x)" "op_step\<^sup>*\<^sup>* op0 x"
    using assms(2) by (auto simp: op_history_def)
  have "op_step x op" if "op_id op0 = op_id op"
    using assms(3) x(1) that by (auto simp: op_write_def)
  with x show ?thesis
    using op_doc_put [OF assms(1), of op "w_store w" "op_id op0"]
    by (auto simp: op_history_def intro: rtranclp.rtrancl_into_rtrancl split: if_splits)
qed

interpretation traced: system_invariant E
  "\<lambda>w. files_ok E w \<and> fresh_uuids E (op_id op0) \<and> op_history E op0 w" "\<lambda>_. True" "\<lambda>i. i \<noteq> op_id op0" for E op0
proof
  fix w w' assume "files_ok E w \<and> fresh_uuids E (op_id op0) \<and> op_history E op0 w" "soft_step w w'"
  then show "files_ok E w' \<and> fresh_uuids E (op_id op0) \<and> op_history E op0 w'"
    using op_history_cong [of w' w E op0] by (simp add: files_ok_soft soft_step_store)
next
  fix w op assume "files_ok E w \<and> fresh_uuids E (op_id op0) \<and> op_history E op0 w" "op_write E (\<lambda>i. i \<noteq> op_id op0) (w_store w) op"
  then show "files_ok E (w\<lparr>w_store := put_operation (env_crates E) op (w_store w)\<rparr>) \<and> fresh_uuids E (op_id op0)
      \<and> op_history E op0 (w\<lparr>w_store := put_operation (env_crates E) op (w_store w)\<rparr>)"
    using op_history_put [of E op0 w op] files_ok_operation [of E w op] by (auto simp: files_ok_def)
next
  fix w n assume "files_ok E w \<and> fresh_uuids E (op_id op0) \<and> op_history E op0 w"
  then show "GuestOperationId (fs_uuid E n) \<noteq> op_id op0"
    by (auto simp: fresh_uuids_def) (metis guest_operation_id.sel)
qed (auto simp: files_ok_simps files_ok_cell op_history_def op_doc_cell, auto simp: files_ok_def)

interpretation exclusive: system_invariant E
  "\<lambda>w. files_ok E w \<and> single_open (env_crates E) (w_store w)" "\<lambda>_. True" "\<lambda>_. True" for E
proof
  fix w w' assume "files_ok E w \<and> single_open (env_crates E) (w_store w)" "soft_step w w'"
  then show "files_ok E w' \<and> single_open (env_crates E) (w_store w')"
    by (simp add: files_ok_soft single_open_def soft_step_store)
next
  fix w op assume "files_ok E w \<and> single_open (env_crates E) (w_store w)" "op_write E (\<lambda>_. True) (w_store w) op"
  then show "files_ok E (w\<lparr>w_store := put_operation (env_crates E) op (w_store w)\<rparr>)
      \<and> single_open (env_crates E) (w_store (w\<lparr>w_store := put_operation (env_crates E) op (w_store w)\<rparr>))"
    using single_open_put [of E "w_store w"] files_ok_operation [of E w op] by (auto simp: files_ok_def)
qed (auto simp: files_ok_simps files_ok_cell single_open_def op_doc_cell, auto simp: files_ok_def)


interpretation sound: system_invariant E "\<lambda>w. files_ok E w" "\<lambda>_. True" "\<lambda>_. True" for E
  by unfold_locales (auto simp: files_ok_simps files_ok_soft files_ok_cell files_ok_operation, auto simp: files_ok_def)

subsection \<open>A worked guest\<close>

definition sample_transport :: "unit guest_transport" where
  "sample_transport = \<lparr>gt_name = ''sample'', gt_supports = (\<lambda>_ _. True), gt_probe_ready = (\<lambda>_ _ _ _. ret GR_Ready),
     gt_exec = (\<lambda>_ _ _ _. ret \<lparr>gr_exit_code = 0, gr_stdout = ''ok'', gr_stderr = [], gr_encoding = ''utf-8'',
       gr_stdout_bytes = 2, gr_stderr_bytes = 0, gr_truncated = False\<rparr>),
     gt_copy_in = (\<lambda>_ _ _ _. ret ()), gt_copy_out = (\<lambda>_ _ _ _. ret ''bytes'')\<rparr>"

definition sample_guest :: "(provider_vm option, unit) guest_env" where
  "sample_guest = engine_env.extend sample_engine (guest_env.fields sample_transport (\<lambda>n. n) 4
     (\<lambda>_. \<lparr>gs_mutation_identity = True, gs_runtime_identity = True\<rparr>) (\<lambda>_ p. Some p) (\<lambda>_ _. Inr ''data'') (\<lambda>_ _. Control_Continue))"

definition guest_world_of :: "store \<Rightarrow> provider_vm option \<Rightarrow> (provider_vm option, unit) guest_world" where
  "guest_world_of st vm = \<lparr>w_store = st, w_tick = 0, w_locked = False, ew_provider = vm, ew_trace = [], ew_events = [], ew_recorded = None, gw_guest = (), gw_calls = []\<rparr>"

definition sample_exec :: guest_exec_request where
  "sample_exec = \<lparr>gxr_cell_id = CellId 7, gxr_command = \<lparr>gcmd_program = ''/bin/true'', gcmd_args = [],
     gcmd_timeout = duration_from_secs 5, gcmd_max_output_bytes = 1024\<rparr>,
     gxr_readiness = \<lparr>rd_timeout = duration_from_secs 5, rd_poll_interval = duration_from_secs 1\<rparr>\<rparr>"

definition sample_credentials :: guest_credentials where
  "sample_credentials = \<lparr>gc_username = ''user'', gc_password = ''secret''\<rparr>"

lemma sample_guest_sel [simp]:
  "fe_host sample_guest = sample_env" "fe_root sample_guest = ''/state''" "fs_uuid sample_guest = (\<lambda>_. 9)"
  "fs_fault sample_guest = (\<lambda>_. None)" "fs_write sample_guest = (\<lambda>_. Write_Ok)" "en_provider sample_guest = one_vm_provider"
  "en_transport sample_guest = sample_transport" "en_instant sample_guest = (\<lambda>n. n)" "fs_now sample_guest = (\<lambda>_. 50)"
  by (simp_all add: sample_guest_def sample_engine_def engine_env.defs guest_env.defs)

lemma job_store_files: "files_ok sample_guest (guest_world_of job_store vm)"
proof -
  have "dir_ok (sto_cells job_store)" using job_store_ok by simp
  moreover have "dir_ok (sto_operations job_store)"
    by (simp add: job_store_def put_operation_def dir_ok_def dom_update file_name_ok_uuid_json canonical_uuid_laws
        put_cell_def empty_store_def)
  ultimately show ?thesis by (simp add: files_ok_def guest_world_of_def canonical_uuid_laws)
qed

lemma guest_world_traces: "ew_trace (guest_world_of st vm) = []" "gw_calls (guest_world_of st vm) = []"
  by (simp_all add: guest_world_of_def)

subsection \<open>Entitlement\<close>

text \<open>
  C1: no virtual machine is touched without proof.  Run any sequence of commands (on cells, guest operations, prunings,
  recoveries, images, whole runs), on any provider and transport, with any failures.  Every mutating call the provider received was made
  while the durable store held the record of the cell the call was authorized for, in a phase that allows the call; the
  authority presented was that of this record and of the installation of this store; and the machine
  it was aimed at had passed the ownership proof of its phase (powered off and recorded as being destroyed,
  for a removal).
\<close>

theorem provider_mutations_authorized:
  assumes "files_ok E w" and "ew_trace w = []" and "gw_calls w = []"
  shows "\<forall>(call, st) \<in> set (ew_trace (run_systems E cmds w)). call_ok E st call"
  using guarded.run_systems_I [where E = E and w = w and cmds = cmds] assms by (simp add: authorized_def entitled_def)

definition sample_commands :: "system_command list" where
  "sample_commands = [Sys_Cell (Cmd_Start (CellId 7)), Sys_Exec sample_credentials sample_exec None, Sys_Recover (GuestOperationId 21),
     Sys_Unregister (ImageId ''linux''), Sys_Cell (Cmd_Destroy (CellId 7))]"

theorem provider_mutations_authorized_witness:
  "list_all (\<lambda>(call, st). call_ok sample_guest st call)
     (ew_trace (run_systems sample_guest sample_commands (guest_world_of job_store (Some owned_vm))))"
  using provider_mutations_authorized [OF job_store_files guest_world_traces, of sample_commands "Some owned_vm"]
  by (simp only: list_all_iff)

text \<open>
  C5: no guest is touched without proof.  Run any sequence of commands, on any
  provider and any transport, with any failures.  Every call the transport received (probe, command, copy in either
  direction) was made while the durable store held a running and ready cell of this installation and an operation of that
  cell whose transport is recorded as active and whose kind is that of the call; the machine had passed the ownership proof
  and was running, and the authority presented was issued for exactly this cell and machine.
\<close>

theorem guest_actions_entitled:
  assumes "files_ok E w" and "ew_trace w = []" and "gw_calls w = []"
  shows "\<forall>(call, st) \<in> set (gw_calls (run_systems E cmds w)). guest_call_ok E st call"
  using guarded.run_systems_I [where E = E and w = w and cmds = cmds] assms by (simp add: authorized_def entitled_def)

theorem guest_actions_entitled_witness:
  "list_all (\<lambda>(call, st). guest_call_ok sample_guest st call)
     (gw_calls (run_systems sample_guest sample_commands (guest_world_of job_store (Some owned_vm))))"
  using guest_actions_entitled [OF job_store_files guest_world_traces, of sample_commands "Some owned_vm"]
  by (simp only: list_all_iff)

subsection \<open>Histories of operations\<close>

lemma op_step_same: "op_step op op' \<Longrightarrow> same_operation op op'"
  by (auto simp: same_operation_def elim!: op_stepE)

lemma op_step_final: "op_step op op' \<Longrightarrow> op_phase op \<noteq> Op_Failed \<and> op_phase op' \<noteq> Op_IntentRecorded
    \<and> (op_phase op = Op_Completed \<longrightarrow> op_artifact_pruned_at op = None
      \<and> (\<exists>t. op' = op\<lparr>op_updated_at := t, op_artifact_pruned_at := Some t\<rparr>))"
  by (auto elim!: op_stepE)

lemma op_steps_same: "op_step\<^sup>*\<^sup>* op op' \<Longrightarrow> same_operation op op'"
  by (induction rule: rtranclp_induct) (auto simp: same_operation_def dest!: op_step_same)

lemma op_steps_failed: "op_step\<^sup>*\<^sup>* op op' \<Longrightarrow> op_phase op = Op_Failed \<Longrightarrow> op' = op"
  by (induction rule: rtranclp_induct) (auto dest!: op_step_final)

lemma op_steps_completed:
  "op_step\<^sup>*\<^sup>* op op' \<Longrightarrow> op_phase op = Op_Completed \<Longrightarrow> op' = op
     \<or> op_artifact_pruned_at op = None \<and> (\<exists>t. op' = op\<lparr>op_updated_at := t, op_artifact_pruned_at := Some t\<rparr>)"
  by (induction rule: rtranclp_induct) (auto dest!: op_step_final)

lemma op_steps_intent: "op_step\<^sup>*\<^sup>* op op' \<Longrightarrow> op_phase op' = Op_IntentRecorded \<Longrightarrow> op' = op"
  by (induction rule: rtranclp_induct) (auto dest: op_step_final)

text \<open>
  C6: the durable history of a guest operation.  Over any sequence of commands with any failures, provided new identifiers are
  fresh, a recorded operation stays recorded; its cell, kind, job, creation time and schema never change; it
  moves only along \<open>op_step\<close>: intent, active, possibly artifact committed, then completed or failed; it never returns
  to the intent; a failed record is final; and a completed record changes only once more, by the mark that
  its artifact was pruned.
\<close>

theorem operation_history:
  assumes "files_ok E w" and "op_doc (env_crates E) (w_store w) (op_id op0) = Some (Doc op0)"
    and "fresh_uuids E (op_id op0)"
  shows "\<exists>op. op_doc (env_crates E) (w_store (run_systems E cmds w)) (op_id op0) = Some (Doc op)
    \<and> op_step\<^sup>*\<^sup>* op0 op \<and> same_operation op0 op
    \<and> (op_phase op = Op_IntentRecorded \<longrightarrow> op = op0)
    \<and> (op_phase op0 = Op_Failed \<longrightarrow> op = op0)
    \<and> (op_phase op0 = Op_Completed \<longrightarrow> op = op0 \<or> op_artifact_pruned_at op0 = None
         \<and> (\<exists>t. op = op0\<lparr>op_updated_at := t, op_artifact_pruned_at := Some t\<rparr>))"
proof -
  have "op_history E op0 (run_systems E cmds w)"
    using traced.run_systems_I [where E = E and ?op0.0 = op0 and w = w and cmds = cmds] assms by (auto simp: op_history_def)
  then obtain op where op: "op_doc (env_crates E) (w_store (run_systems E cmds w)) (op_id op0) = Some (Doc op)" "op_step\<^sup>*\<^sup>* op0 op"
    by (auto simp: op_history_def)
  then show ?thesis
    using op_steps_same [OF op(2)] op_steps_intent [OF op(2)] op_steps_failed [OF op(2)] op_steps_completed [OF op(2)] by blast
qed

lemma job_store_doc: "op_doc canonical_crates job_store (op_id job_operation) = Some (Doc job_operation)"
  by (simp add: job_store_def map_of_put_operation)

theorem operation_history_witness:
  "\<exists>op. op_doc canonical_crates (w_store (run_systems sample_guest [Sys_Cell (Cmd_Start (CellId 7)), Sys_Recover (GuestOperationId 21)]
       (guest_world_of job_store (Some owned_vm)))) (GuestOperationId 21) = Some (Doc op)
     \<and> op_step\<^sup>*\<^sup>* job_operation op \<and> same_operation job_operation op"
proof -
  have "fresh_uuids sample_guest (op_id job_operation)" by (simp add: fresh_uuids_def)
  moreover have "op_doc (env_crates sample_guest) (w_store (guest_world_of job_store (Some owned_vm))) (op_id job_operation)
      = Some (Doc job_operation)"
    using job_store_doc by (simp add: guest_world_of_def)
  ultimately show ?thesis
    using operation_history [OF job_store_files, where ?op0.0 = job_operation
        and cmds = "[Sys_Cell (Cmd_Start (CellId 7)), Sys_Recover (GuestOperationId 21)]"] by auto
qed

text \<open>
  C7: a cell never has two open guest operations.  If at most one operation per cell is neither completed nor failed, this
  stays so over any sequence of commands with any failures: an intent is recorded only when every earlier operation of
  the cell is terminal, and no terminal operation is reopened.
\<close>

theorem single_open_operation:
  assumes "files_ok E w" and "single_open (env_crates E) (w_store w)"
  shows "single_open (env_crates E) (w_store (run_systems E cmds w))"
  using exclusive.run_systems_I [where E = E and w = w and cmds = cmds] assms by simp

theorem single_open_operation_witness:
  "single_open canonical_crates (w_store (run_systems sample_guest
     [Sys_Cell (Cmd_Start (CellId 7)), Sys_Exec sample_credentials sample_exec None] (guest_world_of job_store (Some owned_vm))))"
proof -
  have "x = job_operation" if "op_doc canonical_crates job_store (op_id x) = Some (Doc x)" for x
    using that unfolding job_store_def map_of_put_operation
    by (auto simp: put_cell_def empty_store_def split: if_splits)
  then have "single_open (env_crates sample_guest) (w_store (guest_world_of job_store (Some owned_vm)))"
    unfolding single_open_def by (simp add: guest_world_of_def) metis
  from single_open_operation [OF job_store_files this] show ?thesis by (simp only: sample_guest_sel he_crates_sample)
qed

subsection \<open>Single operations\<close>

text \<open>
  C12: the cause of an early failure is lost.  The engine issues the guest authority after the intent is durable.  If that step
  fails with an error that does not end the operation (an I/O error of the store, for instance), the engine tries to
  note the failure on a record still in phase \<open>IntentRecorded\<close>.  The store refuses every such record, so nothing is
  written, the operation stays an intent without a failure, and the caller receives an error of the store
  instead of the cause.
\<close>

theorem early_failure_masked:
  assumes "guest_authority_step E r vm w = (Inl e, w1)" and "guest_failure_class_of e = (f, False)"
    and "op_phase op = Op_IntentRecorded" and "perform_operation E cr p r vm op action w = (res, w')"
  shows "w_store w' = w_store w1 \<and> (\<exists>s. res = Inl (EE_State s))"
proof -
  let ?op = "op\<lparr>op_failure := Some f, op_updated_at := fs_now E (w_tick w1)\<rparr>" and ?w = "w1\<lparr>w_tick := Suc (w_tick w1)\<rparr>"
  have bad: "\<not> operation_fields_valid ?op" using assms(3) by (simp add: operation_fields_valid_def)
  obtain res0 w2 where run: "save_operation E ?op ?w = (res0, w2)" by (cases "save_operation E ?op ?w") auto
  then have "w_store w2 = w_store w1 \<and> (\<exists>s. res0 = Inl (EE_State s))"
    by (cases rule: save_operation_cases) (use rejected_fields [OF bad] in auto)
  then show ?thesis
    using assms run
    by (auto simp: perform_operation_def bindE_def attempt_def finish_failed_def utc_now_run Let_def throw_def)
qed

definition faulty_guest :: "(provider_vm option, unit) guest_env" where
  "faulty_guest = sample_guest\<lparr>fs_fault := (\<lambda>_. Some (Fault_Io ''/state''))\<rparr>"

theorem early_failure_masked_witness:
  "\<exists>s. fst (perform_operation faulty_guest sample_credentials readiness_policy_default owned_cell owned_vm job_operation
       (\<lambda>_ _ _. throw (EE_Guest GE_Timeout)) (guest_world_of job_store None)) = Inl (EE_State s)"
proof -
  let ?w = "guest_world_of job_store None"
  have step: "guest_authority_step faulty_guest owned_cell owned_vm ?w = (Inl (EE_State (SE_Io ''/state'')), ?w\<lparr>w_tick := Suc (w_tick ?w)\<rparr>)"
    by (simp add: guest_authority_step_def acquire_installation_authority_def bindE_def mapE_def read_op_run faulty_guest_def
        fault_error_def)
  have "guest_failure_class_of (EE_State (SE_Io ''/state'')) = (Fail_Unknown, False)" by (simp add: guest_failure_class_of_def)
  moreover have "op_phase job_operation = Op_IntentRecorded" by (simp add: job_operation_def intent_with_job_def)
  ultimately show ?thesis
    using early_failure_masked [OF step, of Fail_Unknown job_operation sample_credentials readiness_policy_default
        "\<lambda>_ _ _. throw (EE_Guest GE_Timeout)"]
    by (metis prod.collapse)
qed

subsection \<open>The readiness loop\<close>

lemma wait_loop_step:
  "wait_loop (Suc n) E a vm cr deadline latest w =
     (if deadline \<le> en_instant E (w_tick w) then (Inl (EE_Guest (not_ready_error latest)), w\<lparr>w_tick := Suc (w_tick w)\<rparr>)
      else case gt_probe_ready (en_transport E) a vm cr (min (deadline - en_instant E (w_tick w)) (duration_from_secs 15)) (gw_guest w) of
        (r, g) \<Rightarrow> (let w1 = w\<lparr>w_tick := Suc (w_tick w), gw_guest := g, gw_calls := (Guest_Probe a vm, w_store w) # gw_calls w\<rparr> in
          case r of Inl e \<Rightarrow> (Inl (EE_Guest e), w1)
          | Inr GR_Ready \<Rightarrow> (Inr (), w1)
          | Inr GR_AuthenticationFailed \<Rightarrow> (Inl (EE_Guest GE_AuthenticationFailed), w1)
          | Inr s \<Rightarrow> wait_loop n E a vm cr deadline s w1))"
  by (auto simp: bindE_def next_tick_run guest_call_def Let_def throw_def ret_def res_map_err_def
      split: prod.split sum.split guest_readiness.split)

text \<open>
  C11: waiting for the guest ends.  If the clock passes the deadline at the latest \<open>N\<close> steps from now, the readiness loop makes at
  most \<open>N\<close> probes, and its result is the same for every bound on the polls above \<open>N\<close>: the bound of the model is no
  restriction.
\<close>

theorem readiness_loop_ends:
  assumes "deadline \<le> en_instant E (w_tick w + N)" and "N < n" and "N < m"
  shows "wait_loop n E a vm cr deadline latest w = wait_loop m E a vm cr deadline latest w
    \<and> length (gw_calls (snd (wait_loop n E a vm cr deadline latest w))) \<le> length (gw_calls w) + N"
  using assms
proof (induction N arbitrary: n m w latest)
  case 0
  then obtain n' m' where "n = Suc n'" "m = Suc m'" by (cases n; cases m) auto
  with 0 show ?case by (simp only: wait_loop_step) simp
next
  case (Suc N)
  obtain n' m' where nm: "n = Suc n'" "m = Suc m'" "N < n'" "N < m'" using Suc.prems(2,3) by (cases n; cases m) auto
  show ?case
  proof (cases "deadline \<le> en_instant E (w_tick w)")
    case False
    obtain r g where probe: "gt_probe_ready (en_transport E) a vm cr (min (deadline - en_instant E (w_tick w)) (duration_from_secs 15))
        (gw_guest w) = (r, g)" by fastforce
    define w1 where "w1 = w\<lparr>w_tick := Suc (w_tick w), gw_guest := g, gw_calls := (Guest_Probe a vm, w_store w) # gw_calls w\<rparr>"
    have step: "wait_loop (Suc k) E a vm cr deadline latest w = (case r of Inl e \<Rightarrow> (Inl (EE_Guest e), w1)
          | Inr GR_Ready \<Rightarrow> (Inr (), w1)
          | Inr GR_AuthenticationFailed \<Rightarrow> (Inl (EE_Guest GE_AuthenticationFailed), w1)
          | Inr s \<Rightarrow> wait_loop k E a vm cr deadline s w1)" for k
      unfolding wait_loop_step w1_def using False probe by (simp only: if_False prod.case Let_def)
    have w1: "w_tick w1 = Suc (w_tick w)" "length (gw_calls w1) = Suc (length (gw_calls w))" by (simp_all add: w1_def)
    note IH = Suc.IH [of w1 n' m'] Suc.IH [of w1 m' n']
    have eq: "wait_loop n' E a vm cr deadline s w1 = wait_loop m' E a vm cr deadline s w1"
      and le: "length (gw_calls (snd (wait_loop m' E a vm cr deadline s w1))) \<le> Suc (length (gw_calls w)) + N" for s
      using IH [of s] Suc.prems(1) nm(3,4) w1 by simp_all
    show ?thesis
    proof (cases r)
      case (Inr s)
      then show ?thesis
        using eq [of s] le [of s] w1(2) unfolding nm(1,2) step by (cases s) (simp_all only: sum.case guest_readiness.case, simp_all)
    qed (simp add: nm(1,2) step w1(2) del: wait_loop.simps)
  qed (simp add: nm(1,2) wait_loop_step del: wait_loop.simps)
qed

definition sample_authority :: guest_action_authority where
  "sample_authority = \<lparr>ga_install_id = 5, ga_cell_id = CellId 7, ga_provider_id = vm_id owned_vm, ga_provider = ''qemu'',
     ga_provider_name = vm_name owned_vm, ga_provider_marker = vm_ownership_marker owned_vm,
     ga_configuration_path = vm_configuration_path owned_vm, ga_overlay_path = ''/overlay'', ga_cpu_count = 2, ga_memory_mib = 2048,
     ga_installation = \<lparr>inst_install_id = 5\<rparr>,
     ga_runtime = \<lparr>rt_cell_id = CellId 7, rt_configuration_path = vm_configuration_path owned_vm, rt_overlay_path = ''/overlay''\<rparr>\<rparr>"

definition silent_guest :: "(provider_vm option, unit) guest_env" where
  "silent_guest = sample_guest\<lparr>en_transport := sample_transport\<lparr>gt_probe_ready := (\<lambda>_ _ _ _. ret GR_GuestNotReady)\<rparr>\<rparr>"

theorem readiness_loop_ends_witness:
  "wait_loop 9 silent_guest sample_authority owned_vm sample_credentials 3 GR_GuestNotReady (guest_world_of job_store None)
     = wait_loop 4 silent_guest sample_authority owned_vm sample_credentials 3 GR_GuestNotReady (guest_world_of job_store None)
   \<and> length (gw_calls (snd (wait_loop 9 silent_guest sample_authority owned_vm sample_credentials 3 GR_GuestNotReady
       (guest_world_of job_store None)))) \<le> 3"
proof -
  have "3 \<le> en_instant silent_guest (w_tick (guest_world_of job_store None) + 3)"
    by (simp add: silent_guest_def guest_world_of_def)
  moreover have "(3::nat) < 9" "(3::nat) < 4" by simp_all
  ultimately have "wait_loop 9 silent_guest sample_authority owned_vm sample_credentials 3 GR_GuestNotReady (guest_world_of job_store None)
     = wait_loop 4 silent_guest sample_authority owned_vm sample_credentials 3 GR_GuestNotReady (guest_world_of job_store None)
   \<and> length (gw_calls (snd (wait_loop 9 silent_guest sample_authority owned_vm sample_credentials 3 GR_GuestNotReady
       (guest_world_of job_store None)))) \<le> length (gw_calls (guest_world_of job_store None)) + 3"
    by (rule readiness_loop_ends)
  then show ?thesis unfolding guest_world_traces list.size add_0 .
qed

end
