(* ===== verification/GuestPruning.thy ===== *)
theory GuestPruning
  imports GuestTheorems
begin

section \<open>Pruning artifacts\<close>

text \<open>
  What a pruning run changes: which artifact directories it removes, in which order the durable mark and the removal
  happen, and that a dry run changes nothing.
\<close>

subsection \<open>Effects of the steps\<close>

text \<open>Every artifact directory that changed is gone, belongs to an operation that qualified at the start, and the
  durable record of that operation says that its artifact was pruned.\<close>

definition pruned_since ::
  "('p, 'y) engine_env_scheme \<Rightarrow> (guest_operation_record \<Rightarrow> bool) \<Rightarrow> store \<Rightarrow> store \<Rightarrow> bool" where
  "pruned_since E ok st0 st \<longleftrightarrow> (\<forall>k. map_of (sto_artifacts st) k \<noteq> map_of (sto_artifacts st0) k \<longrightarrow>
     map_of (sto_artifacts st) k = None
     \<and> (\<exists>op op'. op_doc (env_crates E) st0 (op_id op) = Some (Doc op) \<and> ok op \<and> k = (op_cell_id op, op_id op)
          \<and> op_doc (env_crates E) st (op_id op) = Some (Doc op') \<and> op_artifact_pruned_at op' \<noteq> None))"

text \<open>The operations still to be visited are untouched.\<close>

definition pending ::
  "('p, 'y) engine_env_scheme \<Rightarrow> (guest_operation_record \<Rightarrow> bool) \<Rightarrow> store \<Rightarrow> guest_operation_record list
    \<Rightarrow> ('p, 'z) engine_world_scheme \<Rightarrow> bool" where
  "pending E ok st0 ops w \<longleftrightarrow> pruned_since E ok st0 (w_store w) \<and> distinct (map op_id ops)
     \<and> (\<forall>op \<in> set ops. op_doc (env_crates E) st0 (op_id op) = Some (Doc op)
          \<and> op_doc (env_crates E) (w_store w) (op_id op) = Some (Doc op))"

lemma pending_store: "w_store w' = w_store w \<Longrightarrow> pending E ok st0 ops w' = pending E ok st0 ops w"
  by (simp add: pending_def)

lemma pending_tail: "pending E ok st0 (op # ops) w \<Longrightarrow> pending E ok st0 ops w"
  by (simp add: pending_def)

text \<open>Reads leave the store alone.\<close>

definition reading :: "('z world_scheme, 'e, 'a) eff \<Rightarrow> bool" where
  "reading m \<longleftrightarrow> (\<forall>w. w_store (snd (m w)) = w_store w)"

named_theorems reading_intro \<open>operations that leave the store alone\<close>

lemma reading_basic [reading_intro]:
  "reading (ret x)" "reading (throw e)" "reading (liftR r)" "reading (read_op E f)" "reading (utc_now E)" "reading (io_point E)"
  by (simp_all add: reading_def ret_def throw_def liftR_def read_op_run utc_now_run io_point_run)

lemma reading_bind [reading_intro]:
  assumes "reading m" "\<And>x. reading (f x)" shows "reading (bindE m f)"
  unfolding reading_def
proof
  fix w
  obtain res w1 where "m w = (res, w1)" by (cases "m w") auto
  then show "w_store (snd (bindE m f w)) = w_store w"
    using assms [unfolded reading_def] by (cases res) (auto simp: bindE_def, metis snd_conv, metis snd_conv)
qed

lemma reading_mapE [reading_intro]: "reading m \<Longrightarrow> reading (mapE g m)"
  by (auto simp: reading_def mapE_def split: prod.split sum.split) (metis snd_conv)+

lemma reading_if [reading_intro]: "(b \<Longrightarrow> reading m) \<Longrightarrow> (\<not> b \<Longrightarrow> reading n) \<Longrightarrow> reading (if b then m else n)"
  by simp

lemma reading_valid: "reading m \<Longrightarrow> validE (pending E ok st0 ops) m (\<lambda>_. pending E ok st0 ops) (\<lambda>_. pending E ok st0 ops)"
  unfolding preserves_iff_validE [symmetric] preserves_def reading_def using pending_store by blast

lemma reading_prune [reading_intro]:
  "reading (stE (require_guest_operation_parent_for_mutation E op))" "reading (prune_bytes E op)"
  by (auto simp: require_guest_operation_parent_for_mutation_def prune_bytes_def artifact_root_exists_def load_artifact_def
      intro!: reading_intro)

lemma remove_artifact_root_cases:
  assumes "remove_artifact_root E c i w = (res, w')"
  obtains "w_store w' = w_store w"
  | "w_store w' = (w_store w)\<lparr>sto_artifacts := AList.delete (c, i) (sto_artifacts (w_store w))\<rparr>"
  using assms
  by (auto simp: remove_artifact_root_def validate_mutation_guard_def bindE_def ret_def store_steps Let_def
      split: option.splits fs_write_outcome.splits if_splits)

text \<open>Once the mark is durable, removing the directory keeps the account.\<close>

lemma remove_valid:
  fixes E :: "('p, 'y) engine_env_scheme"
  assumes "ok op"
  shows "validE (\<lambda>w :: ('p, 'z) engine_world_scheme. pending E ok st0 ops w \<and> op_doc (env_crates E) st0 (op_id op) = Some (Doc op)
       \<and> (\<exists>op'. op_doc (env_crates E) (w_store w) (op_id op) = Some (Doc op') \<and> op_artifact_pruned_at op' \<noteq> None))
     (remove_artifact_root E (op_cell_id op) (op_id op)) (\<lambda>_. pending E ok st0 ops) (\<lambda>_. pending E ok st0 ops)"
  unfolding validE_def
proof (intro allI impI)
  fix w :: "('p, 'z) engine_world_scheme"
  assume w: "pending E ok st0 ops w \<and> op_doc (env_crates E) st0 (op_id op) = Some (Doc op)
    \<and> (\<exists>op'. op_doc (env_crates E) (w_store w) (op_id op) = Some (Doc op') \<and> op_artifact_pruned_at op' \<noteq> None)"
  obtain res w' where run: "remove_artifact_root E (op_cell_id op) (op_id op) w = (res, w')"
    by (cases "remove_artifact_root E (op_cell_id op) (op_id op) w") auto
  from run have "pending E ok st0 ops w'"
  proof (cases rule: remove_artifact_root_cases)
    case 1
    then show ?thesis using w pending_store by blast
  next
    case 2
    have "pruned_since E ok st0 (w_store w')"
      unfolding pruned_since_def
    proof (intro allI impI)
      fix k assume k: "map_of (sto_artifacts (w_store w')) k \<noteq> map_of (sto_artifacts st0) k"
      show "map_of (sto_artifacts (w_store w')) k = None \<and> (\<exists>op op'. op_doc (env_crates E) st0 (op_id op) = Some (Doc op) \<and> ok op
          \<and> k = (op_cell_id op, op_id op) \<and> op_doc (env_crates E) (w_store w') (op_id op) = Some (Doc op')
          \<and> op_artifact_pruned_at op' \<noteq> None)"
      proof (cases "k = (op_cell_id op, op_id op)")
        case True
        then show ?thesis using 2 w assms by (auto simp: delete_conv')
      next
        case False
        then have "map_of (sto_artifacts (w_store w')) k = map_of (sto_artifacts (w_store w)) k"
          using 2 by (simp add: delete_conv')
        moreover have "sto_operations (w_store w') = sto_operations (w_store w)" using 2 by simp
        moreover have "pruned_since E ok st0 (w_store w)" using w by (simp add: pending_def)
        ultimately show ?thesis
          using k unfolding pruned_since_def by (simp only:) blast
      qed
    qed
    with w 2 show ?thesis by (simp add: pending_def)
  qed
  with run show "case remove_artifact_root E (op_cell_id op) (op_id op) w of (Inl e, w') \<Rightarrow> pending E ok st0 ops w'
      | (Inr x, w') \<Rightarrow> pending E ok st0 ops w'"
    by (cases res) simp_all
qed

text \<open>Marking keeps the account and the other operations.\<close>

lemma pruned_since_put:
  assumes "uuid_laws (env_crates E)" "pruned_since E ok st0 st" "op_artifact_pruned_at op' \<noteq> None"
  shows "pruned_since E ok st0 (put_operation (env_crates E) op' st)"
  unfolding pruned_since_def
proof (intro allI impI)
  fix k assume "map_of (sto_artifacts (put_operation (env_crates E) op' st)) k \<noteq> map_of (sto_artifacts st0) k"
  then have "map_of (sto_artifacts st) k \<noteq> map_of (sto_artifacts st0) k" by (simp add: put_operation_def)
  with assms(2) obtain op x where k: "map_of (sto_artifacts st) k = None" "op_doc (env_crates E) st0 (op_id op) = Some (Doc op)"
    "ok op" "k = (op_cell_id op, op_id op)" "op_doc (env_crates E) st (op_id op) = Some (Doc x)" "op_artifact_pruned_at x \<noteq> None"
    unfolding pruned_since_def by blast
  have "\<exists>y. op_doc (env_crates E) (put_operation (env_crates E) op' st) (op_id op) = Some (Doc y) \<and> op_artifact_pruned_at y \<noteq> None"
    using k(5,6) assms(3) op_doc_put [OF assms(1), of op' st "op_id op"] by (cases "op_id op = op_id op'") simp_all
  moreover have "map_of (sto_artifacts (put_operation (env_crates E) op' st)) k = None" using k(1) by (simp add: put_operation_def)
  ultimately show "map_of (sto_artifacts (put_operation (env_crates E) op' st)) k = None
     \<and> (\<exists>op x. op_doc (env_crates E) st0 (op_id op) = Some (Doc op) \<and> ok op \<and> k = (op_cell_id op, op_id op)
          \<and> op_doc (env_crates E) (put_operation (env_crates E) op' st) (op_id op) = Some (Doc x) \<and> op_artifact_pruned_at x \<noteq> None)"
    using k(2-4) by blast
qed

definition marked ::
  "('p, 'y) engine_env_scheme \<Rightarrow> (guest_operation_record \<Rightarrow> bool) \<Rightarrow> store \<Rightarrow> guest_operation_record \<Rightarrow> guest_operation_record list
    \<Rightarrow> ('p, 'z) engine_world_scheme \<Rightarrow> bool" where
  "marked E ok st0 op ops w \<longleftrightarrow> pending E ok st0 ops w \<and> op_doc (env_crates E) st0 (op_id op) = Some (Doc op)
     \<and> (\<exists>op'. op_doc (env_crates E) (w_store w) (op_id op) = Some (Doc op') \<and> op_artifact_pruned_at op' \<noteq> None)"

lemma mark_valid:
  fixes E :: "('p, 'y) engine_env_scheme"
  assumes "uuid_laws (env_crates E)" "op_id op' = op_id op" "op_artifact_pruned_at op' \<noteq> None"
  shows "validE (pending E ok st0 (op # ops)) (save_operation E op' :: (('p, 'z) engine_world_scheme, engine_error, unit) eff) (\<lambda>_. marked E ok st0 op ops) (\<lambda>_. pending E ok st0 ops)"
  unfolding validE_def
proof (intro allI impI)
  fix w :: "('p, 'z) engine_world_scheme" assume w: "pending E ok st0 (op # ops) w"
  obtain res w' where run: "save_operation E op' w = (res, w')" by (cases "save_operation E op' w") auto
  then show "case save_operation E op' w of (Inl e, w') \<Rightarrow> pending E ok st0 ops w' | (Inr x, w') \<Rightarrow> marked E ok st0 op ops w'"
  proof (cases rule: save_operation_cases)
    case (kept n e)
    then show ?thesis using run pending_tail [OF w] by (simp add: pending_def)
  next
    case (written n)
    have doc: "op_doc (env_crates E) (w_store w') i = (if i = op_id op then Some (Doc op') else op_doc (env_crates E) (w_store w) i)" for i
      using written(2) op_doc_put [OF assms(1), of op' "w_store w" i] assms(2) by simp
    have "pruned_since E ok st0 (w_store w')"
      using pruned_since_put [OF assms(1) _ assms(3)] w written(2) by (simp add: pending_def)
    moreover have "op_doc (env_crates E) (w_store w') (op_id x) = Some (Doc x)" if "x \<in> set ops" for x
    proof -
      have "op_id x \<noteq> op_id op" using w that unfolding pending_def by (metis distinct.simps(2) image_eqI list.simps(9) set_map)
      moreover have "op_doc (env_crates E) (w_store w) (op_id x) = Some (Doc x)" using w that by (simp add: pending_def)
      ultimately show ?thesis by (simp add: doc)
    qed
    moreover have "op_doc (env_crates E) (w_store w') (op_id op) = Some (Doc op')" by (simp add: doc)
    ultimately have "marked E ok st0 op ops w'"
      using w assms(3) unfolding marked_def pending_def by auto
    then show ?thesis using run by (cases res) (auto simp: marked_def)
  qed
qed

lemma prune_operation_keeps:
  fixes E :: "('p, 'y) engine_env_scheme"
  assumes "uuid_laws (env_crates E)" "ok op" "is_recovery op \<or> is_expired_artifact cutoff op"
  shows "validE (pending E ok st0 (op # ops) :: ('p, 'z) engine_world_scheme \<Rightarrow> bool) (prune_operation E dry t op) (\<lambda>_. pending E ok st0 ops) (\<lambda>_. pending E ok st0 ops)"
proof -
  have tail: "validE (pending E ok st0 (op # ops)) m (\<lambda>_. pending E ok st0 (op # ops)) (\<lambda>_. pending E ok st0 ops)" if "reading m"
    for m :: "(('p, 'z) engine_world_scheme, engine_error, 'x) eff"
    by (rule validE_weaken [OF reading_valid [OF that, where ops = "op # ops"]]) (auto dest: pending_tail)
  have mark: "validE (pending E ok st0 (op # ops) :: ('p, 'z) engine_world_scheme \<Rightarrow> bool) (if is_recovery op then ret ()
      else save_operation E (op\<lparr>op_updated_at := t, op_artifact_pruned_at := Some t\<rparr>)) (\<lambda>_. marked E ok st0 op ops)
      (\<lambda>_. pending E ok st0 ops)"
  proof (rule validE_if)
    assume "is_recovery op"
    then show "validE (pending E ok st0 (op # ops)) (ret ()) (\<lambda>_. marked E ok st0 op ops) (\<lambda>_. pending E ok st0 ops)"
      by (intro validE_ret) (auto simp: marked_def pending_def is_recovery_def)
  qed (rule mark_valid [OF assms(1)], simp_all)
  have remove: "validE (marked E ok st0 op ops :: ('p, 'z) engine_world_scheme \<Rightarrow> bool) (bindE (stE (remove_artifact_root E (op_cell_id op) (op_id op))) (\<lambda>_. ret d))
      (\<lambda>_. pending E ok st0 ops) (\<lambda>_. pending E ok st0 ops)" for d :: artifact_prune_disposition
    unfolding marked_def
    by (rule validE_bind [OF validE_mapE [OF remove_valid [where ok = ok and op = op, OF assms(2)]] validE_ret])
  show ?thesis
    unfolding prune_operation_def
    by (rule validE_bind [OF tail [OF reading_prune(1)]], rule validE_bind [OF tail [OF reading_prune(2)]],
        rule validE_bind [where I = "\<lambda>_. pending E ok st0 ops"], rule validE_if, rule validE_ret, erule pending_tail,
        rule validE_bind [OF mark remove], rule validE_ret, assumption)
qed

lemma prune_operations_keeps:
  fixes E :: "('p, 'y) engine_env_scheme"
  assumes "uuid_laws (env_crates E)" "\<And>op. op \<in> set ops \<Longrightarrow> is_recovery op \<or> is_expired_artifact cutoff op \<Longrightarrow> ok op"
  shows "validE (pending E ok st0 ops :: ('p, 'z) engine_world_scheme \<Rightarrow> bool) (prune_operations E q t cutoff n ops)
    (\<lambda>es w. pending E ok st0 [] w \<and> (n \<le> apr_max_artifacts q \<longrightarrow> n + length es \<le> apr_max_artifacts q)) (\<lambda>_. pending E ok st0 [])"
  using assms(2)
proof (induction ops arbitrary: n)
  case Nil
  show ?case by (auto intro: validE_ret)
next
  case (Cons op ops)
  have nil: "pending E ok st0 xs w \<Longrightarrow> pending E ok st0 [] w" for xs and w :: "('p, 'z) engine_world_scheme"
    by (simp add: pending_def)
  note IH = Cons.IH [OF Cons.prems, simplified]
  show ?case
  proof (cases "is_recovery op \<or> is_expired_artifact cutoff op")
    case False
    then show ?thesis by (simp, intro validE_pre [OF IH]) (auto dest: pending_tail)
  next
    case True
    with Cons.prems have "ok op" by simp
    have one: "validE (pending E ok st0 (op # ops) :: ('p, 'z) engine_world_scheme \<Rightarrow> bool) (prune_operation E (apr_dry_run q) t op) (\<lambda>_. pending E ok st0 ops)
        (\<lambda>_. pending E ok st0 [])"
      by (rule validE_weaken [OF prune_operation_keeps [of E ok op cutoff st0 ops, OF assms(1) \<open>ok op\<close> True]]) (auto dest: nil)
    have two: "validE (pending E ok st0 ops :: ('p, 'z) engine_world_scheme \<Rightarrow> bool) (bindE (prune_operations E q t cutoff (Suc n) ops) (\<lambda>es. ret (e # es)))
        (\<lambda>es w. pending E ok st0 [] w \<and> (n < apr_max_artifacts q \<longrightarrow> n + length es \<le> apr_max_artifacts q)) (\<lambda>_. pending E ok st0 [])" for e
      by (rule validE_bind [OF IH]) (auto intro!: validE_ret)
    show ?thesis
      using True by (auto intro!: validE_if validE_ret validE_bind [OF one] validE_weaken [OF two] dest: nil)
  qed
qed

lemma acquire_lock_store:
  assumes run: "acquire_mutation_lock E w = (res, w1)" shows "w_store w1 = w_store w"
  using acquire_retry_effect [OF run [unfolded acquire_mutation_lock_def]] by (cases res) auto

lemma reading_acquire [reading_intro]: "reading (acquire_mutation_lock E)"
  unfolding reading_def by (intro allI acquire_lock_store [OF prod.collapse [symmetric]])

lemma reading_lock [reading_intro]:
  assumes "reading m" shows "reading (with_lock E m)"
proof -
  have "reading (finallyE m release_mutation_lock)"
    using assms by (auto simp: reading_def finallyE_def release_mutation_lock_def split: prod.split) (metis snd_conv)
  then show ?thesis unfolding with_lock_def by (auto intro: reading_intro)
qed

lemma locked_valid:
  fixes m :: "(('p, 'z) engine_world_scheme, engine_error, 'a) eff"
  assumes "validE P m (\<lambda>x w. Q x (w_store w)) (\<lambda>e w. R (w_store w))" "\<And>w. P w \<longleftrightarrow> P' (w_store w)" "\<And>st. P' st \<Longrightarrow> R st"
  shows "validE P (with_lock E m) (\<lambda>x w. Q x (w_store w)) (\<lambda>e w. R (w_store w))"
  unfolding with_lock_def
proof (rule validE_bind)
  have "w_store (snd (stE (acquire_mutation_lock E) v)) = w_store v" for v :: "('p, 'z) engine_world_scheme"
    using reading_mapE [OF reading_acquire] unfolding reading_def by blast
  then have "preserves P (stE (acquire_mutation_lock E))" unfolding preserves_def assms(2) by simp
  then have "validE P (stE (acquire_mutation_lock E)) (\<lambda>_. P) (\<lambda>_. P)" by (simp add: preserves_iff_validE)
  then show "validE P (stE (acquire_mutation_lock E)) (\<lambda>_. P) (\<lambda>e w. R (w_store w))"
    by (rule validE_weaken) (use assms(2,3) in auto)
  show "validE P (finallyE m release_mutation_lock) (\<lambda>x w. Q x (w_store w)) (\<lambda>e w. R (w_store w))" for x :: unit
    by (rule validE_finally) (simp add: release_mutation_lock_def assms(1))
qed

lemma reading_prune_operations:
  assumes "apr_dry_run q" shows "reading (prune_operations E q t cutoff n ops)"
proof (induction ops arbitrary: n)
  case (Cons op ops)
  have "reading (prune_operation E True t op)"
    unfolding prune_operation_def by (auto intro!: reading_intro)
  with Cons assms show ?case by (auto intro!: reading_intro)
qed (auto intro: reading_intro)

lemma list_operations_valid:
  assumes "uuid_laws (env_crates E)"
  shows "validE (\<lambda>w. dir_ok (sto_operations (w_store w)) \<and> w_store w = st) (stE (list_guest_operations E))
    (\<lambda>ops w. w_store w = st \<and> lists_operations (env_crates E) st ops) (\<lambda>_ w. w_store w = st)"
  by (rule validE_mapE, unfold validE_def)
    (auto simp: list_guest_operations_def read_op_run intro: list_operations_lists [OF assms] split: option.split sum.split)


definition sample_prune :: artifact_prune_request where
  "sample_prune = \<lparr>apr_older_than = duration_from_secs 60, apr_max_artifacts = 8, apr_dry_run = True\<rparr>"


end
