(* ===== verification/GuestLiveness.thy ===== *)
theory GuestLiveness
  imports GuestPruning
begin

section \<open>Progress of guest operations\<close>

text \<open>
  When nothing fails and the guest answers, executing a command returns its result and leaves a completed record.
  \<open>yields\<close> describes the steps that only read: they return a known value and advance the step counter.
\<close>

subsection \<open>Reading steps\<close>

definition yields :: "(('p, 'z) engine_world_scheme \<Rightarrow> bool) \<Rightarrow> (('p, 'z) engine_world_scheme, 'e, 'a) eff \<Rightarrow> 'a \<Rightarrow> bool" where
  "yields P m v \<longleftrightarrow> (\<forall>w. P w \<longrightarrow> (\<exists>n. w_tick w \<le> n \<and> m w = (Inr v, w\<lparr>w_tick := n\<rparr>)))"

lemma tick_later [simp]: "w_tick w \<le> k \<Longrightarrow> \<exists>n. w_tick w \<le> n \<and> w\<lparr>w_tick := k\<rparr> = w\<lparr>w_tick := n\<rparr>"
  by blast

lemma yields_bind:
  assumes "yields P m v" "\<And>w n. P w \<Longrightarrow> P (w\<lparr>w_tick := n\<rparr>)" "yields P (f v) x"
  shows "yields P (bindE m f) x"
  unfolding yields_def
proof (intro allI impI)
  fix w assume "P w"
  with assms(1) obtain n where n: "w_tick w \<le> n" "m w = (Inr v, w\<lparr>w_tick := n\<rparr>)" by (auto simp: yields_def)
  from assms(3) assms(2) [OF \<open>P w\<close>, of n] obtain k where "n \<le> k" "f v (w\<lparr>w_tick := n\<rparr>) = (Inr x, w\<lparr>w_tick := k\<rparr>)"
    by (fastforce simp: yields_def)
  with n show "\<exists>n. w_tick w \<le> n \<and> bindE m f w = (Inr x, w\<lparr>w_tick := n\<rparr>)"
    by (auto simp: bindE_def intro: order_trans)
qed

lemma yields_basic:
  "r = Inr v \<Longrightarrow> yields P (liftR r) v" "yields P (ret v) v" "yields P m v \<Longrightarrow> yields P (mapE g m) v"
  by (auto simp: yields_def liftR_def ret_def mapE_def intro: exI [of _ "w_tick _"])

lemma yields_read: "calm E \<Longrightarrow> (\<And>w. P w \<Longrightarrow> f (w_store w) = Inr v) \<Longrightarrow> yields P (read_op E f) v"
  by (auto simp: yields_def calm_runs)

lemma yields_gets: "(\<And>w. P w \<Longrightarrow> f w = v) \<Longrightarrow> yields P (gets f) v"
  by (auto simp: yields_def gets_def intro: exI [of _ "w_tick _"])

lemma yields_then:
  "yields (at_cell E r b p) m v \<Longrightarrow> yields (at_cell E r b p) (f v) x \<Longrightarrow> yields (at_cell E r b p) (bindE m f) x"
  by (erule yields_bind) simp

lemma yields_inspect:
  assumes "pv_inspect_vm (en_provider E) l p = (Inr v, p)"
  shows "yields (at_cell E r b p) (inspect_vm E l) v"
proof -
  have "w\<lparr>ew_provider := p\<rparr> = w" if "ew_provider w = p" for w :: "('a, 'c) engine_world_scheme" using that by simp
  then show ?thesis
    using assms by (auto simp: yields_def inspect_vm_def run_provider_def at_cell_def res_map_err_def intro: exI [of _ "w_tick _"])
qed

lemma yields_own:
  assumes "calm E" "scoped E r" "cell_state r \<noteq> Cell_Destroyed" "cell_provider_object r = Some i"
    and "pv_inspect_vm (en_provider E) (Lookup_Id (poi_id i)) p = (Inr (Some vm), p)" "prove_ownership (fe_host E) r vm = Inr ()"
  shows "yields (at_cell E r b p) (exact_owned_vm E r) vm"
proof -
  have "yields (at_cell E r b p) (validate_local_ownership E r) ()"
    unfolding yields_def
    using assms(2) by (auto simp: validate_local_ownership_def bindE_def mapE_def calm_runs [OF assms(1)] liftR_def at_cell_def
        installed_def scoped_def)
  then show ?thesis
    unfolding exact_owned_vm_def using assms(3,4,6)
    by (auto intro!: yields_then yields_inspect [OF assms(5)] yields_basic simp: ok_or_def)
qed

lemma yields_authority:
  assumes "calm E" "scoped E r" "\<And>n. guest_authority_new (en_guards E n) r vm (own_installation r) (own_runtime r) = Inr a"
  shows "yields (at_cell E r True p) (guest_authority_step E r vm) a"
proof -
  have inst: "yields (at_cell E r True p) (stE (acquire_installation_authority E)) (own_installation r)"
    unfolding yields_def acquire_installation_authority_def
    by (auto simp: bindE_def mapE_def ret_def calm_runs [OF assms(1)] at_cell_def installed_def)
  have pin: "yields (at_cell E r True p) (stE (pin_cell_runtime_for E (cid r)
      (own_configuration_path (cell_ownership r)) (own_overlay_path (cell_ownership r)))) (own_runtime r)"
    using assms(2) unfolding yields_def
    by (auto simp: pin_cell_runtime_for_def Let_def bindE_def mapE_def calm_runs [OF assms(1)] scoped_def pinnable_def gets_def
      ret_def at_cell_def)
  have auth: "yields (at_cell E r True p) (bindE next_tick (\<lambda>n. mapE EE_Guest (liftR (guest_authority_new (en_guards E n) r vm
      (own_installation r) (own_runtime r))))) a"
    unfolding yields_def by (auto simp: bindE_def next_tick_run assms(3) mapE_def liftR_def)
  show ?thesis
    unfolding guest_authority_step_def
    by (rule yields_then, rule inst, rule yields_then, rule yields_basic(1), rule scoped_against [OF assms(2)],
        rule yields_then, rule pin, rule auth)
qed

subsection \<open>Writing the operation\<close>

text \<open>The world of one cell with the transport's state and a durable operation record; the clock has reached its creation.\<close>

definition at_record ::
  "('p, 'g, 'y) guest_env_scheme \<Rightarrow> cell_record \<Rightarrow> 'p \<Rightarrow> 'g \<Rightarrow> guest_operation_record \<Rightarrow> ('p, 'g, 'z) guest_world_scheme \<Rightarrow> bool" where
  "at_record E r p g op w \<longleftrightarrow> at_cell E r True p w \<and> gw_guest w = g
     \<and> load_guest_operation_from (env_crates E) (fe_root E) (w_store w) (op_id op) = Inr op
     \<and> (\<forall>n \<ge> w_tick w. op_created_at op \<le> fs_now E n)"

lemma at_record_ticks: "at_record E r p g op w \<Longrightarrow> w_tick w \<le> n \<Longrightarrow> at_record E r p g op (w\<lparr>w_tick := n\<rparr>)"
  by (auto simp: at_record_def)

lemma yields_completes:
  assumes "yields (at_cell E r True p) m v"
  shows "completes (at_record E r p g op) m (\<lambda>x w. x = v \<and> at_record E r p g op w)"
proof (rule completesI)
  fix w :: "('a, 'b, 'c) guest_world_scheme" assume w: "at_record E r p g op w"
  then obtain n where "w_tick w \<le> n" "m w = (Inr v, w\<lparr>w_tick := n\<rparr>)"
    using assms by (auto simp: yields_def at_record_def)
  with at_record_ticks [OF w] show "\<exists>x w'. m w = (Inr x, w') \<and> x = v \<and> at_record E r p g op w'" by auto
qed

lemma at_cell_put_operation:
  "at_cell E r b p (w\<lparr>w_store := put_operation X op (w_store w)\<rparr>) = at_cell E r b p w"
  using load_cell_from_cong [of "put_operation X op (w_store w)" "w_store w"]
  by (simp add: at_cell_def installed_def load_installation_from_def put_operation_def)

lemma save_operation_calm:
  assumes "calm E" "save_operation_check (env_crates E) (fe_root E) (w_store w) op = Inr ()"
  shows "save_operation E op w = (Inr (), w\<lparr>w_tick := w_tick w + 4, w_store := put_operation (env_crates E) op (w_store w)\<rparr>)"
  using guarded_save_calm [OF assms(1), of "\<lambda>st. save_operation_check (env_crates E) (fe_root E) st op" w "()"] assms(2)
  by (simp add: save_operation_def save_operation_guarded mapE_def)

text \<open>A record that keeps the identity of a durable operation, and whose fields and times agree with its phase, can be written.\<close>

lemma validate_operation_update:
  assumes "validate_guest_operation_schema X path op = Inr ()" "same_operation op op'"
    "operation_fields_valid op'" "operation_times_valid op'"
  shows "validate_guest_operation_schema X path op' = Inr ()"
  using assms by (auto simp: validate_guest_operation_schema_def same_operation_def)

lemma at_save:
  assumes "calm E" "same_operation op op'" "operation_fields_valid op'" "operation_times_valid op'" "op_cell_id op = cid r"
  shows "completes (at_record E r p g op) (save_operation E op') (\<lambda>x w. x = () \<and> at_record E r p g op' w)"
proof (rule completesI)
  fix w :: "('a, 'b, 'd) guest_world_scheme" assume w: "at_record E r p g op w"
  let ?X = "env_crates E" and ?root = "fe_root E"
  have load: "load_guest_operation_from ?X ?root (w_store w) (op_id op) = Inr op" "uuid_laws ?X"
    "load_cell_from ?X ?root (w_store w) (cid r) = Inr r"
    using w by (auto simp: at_record_def at_cell_def)
  have id: "op_id op' = op_id op" "op_job_id op' = op_job_id op" "op_cell_id op' = cid r" "op_created_at op' = op_created_at op"
    using assms(2,5) by (simp_all add: same_operation_def)
  have "validate_guest_operation_schema ?X (guest_operation_path ?X ?root (op_id op)) op = Inr ()"
    "validate_operation_parent_binding ?X ?root (w_store w) (guest_operation_path ?X ?root (op_id op)) op = Inr ()"
    using load(1) by (auto simp: load_guest_operation_from_def Let_def)
  then have "validate_operation_job_binding (guest_operation_path ?X ?root (op_id op)) r op = Inr ()"
    and schema: "validate_guest_operation_schema ?X (guest_operation_path ?X ?root (op_id op)) op' = Inr ()"
    using assms(2-5) load(3) by (auto simp: validate_operation_parent_binding_def validate_operation_update)
  then have chk: "save_operation_check ?X ?root (w_store w) op' = Inr ()"
    using load id
    by (simp add: save_operation_check_def Let_def validate_operation_parent_binding_for_write_def
        validate_operation_job_binding_def res_map_err_def)
  have "load_guest_operation_from ?X ?root (put_operation ?X op' (w_store w)) (op_id op') = Inr op'"
    by (rule ops.load_put [OF load(2), of _ _ op']) (simp add: save_operation_value_def chk)
  then have "at_record E r p g op' (w\<lparr>w_tick := w_tick w + 4, w_store := put_operation ?X op' (w_store w)\<rparr>)"
    using w id by (auto simp: at_record_def at_cell_put_operation)
  then show "\<exists>x w'. save_operation E op' w = (Inr x, w') \<and> x = () \<and> at_record E r p g op' w'"
    using save_operation_calm [OF assms(1) chk] by simp
qed

subsection \<open>Executing a command\<close>

text \<open>What the environment is expected to do: the clocks advance sanely, the guards hold and the guest answers.\<close>

definition responsive ::
  "('p, 'g, 'y) guest_env_scheme \<Rightarrow> cell_record \<Rightarrow> provider_vm \<Rightarrow> guest_action_authority \<Rightarrow> guest_credentials \<Rightarrow> guest_exec_request
    \<Rightarrow> guest_command_result \<Rightarrow> 'p \<Rightarrow> 'g \<Rightarrow> 'g \<Rightarrow> 'g \<Rightarrow> bool" where
  "responsive E r vm a cr q result p g g1 g2 \<longleftrightarrow>
     (\<forall>m n. m \<le> n \<longrightarrow> fs_now E m \<le> fs_now E n) \<and> 0 < en_polls E
     \<and> (\<forall>n. en_instant E (Suc n) < en_instant E n + rd_timeout (gxr_readiness q))
     \<and> (\<forall>n. guest_authority_new (en_guards E n) r vm (own_installation r) (own_runtime r) = Inr a)
     \<and> (\<exists>i. cell_provider_object r = Some i \<and> pv_inspect_vm (en_provider E) (Lookup_Id (poi_id i)) p = (Inr (Some vm), p))
     \<and> (\<exists>os. bnd_guest_os (cell_image r) = Some os \<and> gt_supports (en_transport E) (cell_provider r) os)
     \<and> (\<forall>d. gt_probe_ready (en_transport E) a vm cr d g = (Inr GR_Ready, g1))
     \<and> gt_exec (en_transport E) a vm cr (gxr_command q) g1 = (Inr result, g2)
     \<and> validate_guest_command_result (gxr_command q) result = Inr ()"

lemma at_record_guest:
  assumes "m g = (Inr v, g')"
  shows "completes (at_record E r p g op) (guest_call c m) (\<lambda>x w. x = v \<and> at_record E r p g' op w)"
  by (rule completesI) (use assms in \<open>auto simp: guest_call_def at_record_def at_cell_def res_map_err_def\<close>)

lemma wait_completes:
  assumes "0 < en_polls E" "\<And>n. en_instant E (Suc n) < en_instant E n + rd_timeout policy"
    "\<And>d. gt_probe_ready (en_transport E) a vm cr d g = (Inr GR_Ready, g1)" "validate_readiness_policy policy = Inr ()"
  shows "completes (at_record E r p g op) (wait_for_guest_ready E a vm cr policy) (\<lambda>x w. x = () \<and> at_record E r p g1 op w)"
proof (rule completesI)
  fix w :: "('a, 'b, 'd) guest_world_scheme" assume w: "at_record E r p g op w"
  let ?w = "w\<lparr>w_tick := Suc (Suc (w_tick w))\<rparr>"
  obtain k where k: "en_polls E = Suc k" using assms(1) by (cases "en_polls E") auto
  have "at_record E r p g op ?w" by (rule at_record_ticks [OF w]) simp
  then have w': "at_record E r p g1 op (?w\<lparr>gw_guest := g1, gw_calls := tr\<rparr>)" and g: "gw_guest w = g" for tr
    by (auto simp: at_record_def at_cell_def)
  show "\<exists>x w'. wait_for_guest_ready E a vm cr policy w = (Inr x, w') \<and> x = () \<and> at_record E r p g1 op w'"
    using w' assms(2) [of "w_tick w"] assms(4)
    by (simp add: wait_for_guest_ready_def bindE_def mapE_def liftR_def next_tick_run k Let_def ret_def not_le guest_call_def g
        assms(3) res_map_err_def)
qed

lemma mapE_liftR_Inr: "mapE h (liftR (Inr x)) = liftR (Inr x)"
  by (simp add: mapE_def liftR_def fun_eq_iff)

lemma at_now: "completes (at_record E r p g op) (utc_now E) (\<lambda>t w. op_created_at op \<le> t \<and> at_record E r p g op w)"
  by (rule completesI) (auto simp: utc_now_run at_record_def)

lemma attempt_then:
  assumes "completes P m (\<lambda>x w. F x \<and> P' x w)" "\<And>x. F x \<Longrightarrow> completes (P' x) (f (Inr x)) Q"
  shows "completes P (bindE (attempt m) f) Q"
proof (rule completesI)
  fix w assume "P w"
  with completesD [OF assms(1)] obtain x w1 where x: "m w = (Inr x, w1)" "F x" "P' x w1" by blast
  with completesD [OF assms(2)] show "\<exists>y w'. bindE (attempt m) f w = (Inr y, w') \<and> Q y w'"
    by (fastforce simp: bindE_def attempt_def)
qed

definition exec_record :: "guest_operation_record \<Rightarrow> guest_command_result \<Rightarrow> guest_operation_record \<Rightarrow> bool" where
  "exec_record op result op' \<longleftrightarrow> same_operation op op' \<and> op_phase op' = Op_Completed
     \<and> op_exit_code op' = Some (gr_exit_code result) \<and> op_failure op' = None \<and> op_artifact_id op' = None"

lemma finish_completes:
  assumes "calm E" "op_cell_id op = cid r" "op_phase op = Op_TransportActive" "op_failure op = None" "op_artifact_id op = None"
    "op_artifact_pruned_at op = None"
  shows "completes (at_record E r p g op) (finish_completed E op \<lparr>gx_exit_code = Some (gr_exit_code result),
      gx_stdout_bytes = Some so, gx_stderr_bytes = Some se, gx_artifact_id = None\<rparr>)
    (\<lambda>x w. x = () \<and> (\<exists>op'. exec_record op result op' \<and> at_record E r p g op' w))"
proof -
  have save: "completes (at_record E r p g op) (save_operation E op') (\<lambda>x w. x = () \<and> (\<exists>op'. exec_record op result op' \<and> at_record E r p g op' w))"
    if "op_created_at op \<le> t" and op': "op' = op\<lparr>op_phase := Op_Completed, op_updated_at := t, op_exit_code := Some (gr_exit_code result),
      op_stdout_bytes := Some so, op_stderr_bytes := Some se, op_artifact_id := None, op_completed_at := Some t\<rparr>" for t op'
  proof -
    have rec: "exec_record op result op'" "operation_fields_valid op'" "operation_times_valid op'"
      using assms that(1) by (auto simp: op' exec_record_def same_operation_def operation_fields_valid_def operation_times_valid_def)
    then have "same_operation op op'" by (simp add: exec_record_def)
    show ?thesis
      by (rule completes_post [OF at_save [OF assms(1) \<open>same_operation op op'\<close> rec(2,3) assms(2)]]) (use rec(1) in auto)
  qed
  show ?thesis
    unfolding finish_completed_def Let_def
    by (rule completes_then [OF at_now]) (simp, rule save [simplified], simp_all)
qed

lemma perform_completes:
  assumes "calm E" "scoped E r" "responsive E r vm a cr q result p g g1 g2" "validate_readiness_policy (gxr_readiness q) = Inr ()"
    and op: "op = intent_with_job i (cid r) Kind_Exec now job"
  shows "completes (at_record E r p g op) (perform_operation E cr (gxr_readiness q) r vm op (\<lambda>a expected i.
         bindE (ret ()) (\<lambda>_.
         bindE (guest_call (Guest_Exec a expected (gxr_command q)) (gt_exec (en_transport E) a expected cr (gxr_command q))) (\<lambda>result.
         bindE (liftR (validate_guest_command_result (gxr_command q) result)) (\<lambda>_.
         ret (\<lparr>gxp_schema_version = AUTOMATION_SCHEMA_VERSION, gxp_operation_id = i, gxp_cell_id = gxr_cell_id q,
               gxp_result = result\<rparr>,
           \<lparr>gx_exit_code = Some (gr_exit_code result), gx_stdout_bytes = Some (gr_stdout_bytes result),
            gx_stderr_bytes = Some (gr_stderr_bytes result), gx_artifact_id = None\<rparr>))))))
    (\<lambda>v w. gxp_result v = result \<and> (\<exists>op'. op_id op' = gxp_operation_id v \<and> exec_record op result op' \<and> at_record E r p g2 op' w))"
proof -
  note env = assms(3) [unfolded responsive_def]
  define active where "active t = op\<lparr>op_phase := Op_TransportActive, op_updated_at := t\<rparr>" for t
  have fields: "op_phase op = Op_IntentRecorded" "op_failure op = None" "op_artifact_id op = None" "op_artifact_pruned_at op = None"
    "op_completed_at op = None" "no_result_fields op" "op_cell_id op = cid r"
    using op by (simp_all add: intent_with_job_def no_result_fields_def)
  have save: "completes (at_record E r p g op) (save_operation E (active t)) (\<lambda>x w. x = () \<and> at_record E r p g (active t) w)"
    if "op_created_at op \<le> t" for t
    by (rule at_save [OF assms(1)])
      (use fields that in \<open>auto simp: active_def same_operation_def operation_fields_valid_def operation_times_valid_def no_result_fields_def\<close>)
  have wait: "completes (at_record E r p g (active t)) (wait_for_guest_ready E a vm cr (gxr_readiness q))
      (\<lambda>x w. x = () \<and> at_record E r p g1 (active t) w)" for t
    by (rule wait_completes) (use env assms(4) in auto)
  have exec: "completes (at_record E r p g1 (active t)) (guest_call (Guest_Exec a vm (gxr_command q))
      (gt_exec (en_transport E) a vm cr (gxr_command q))) (\<lambda>x w. x = result \<and> at_record E r p g2 (active t) w)" for t
    by (rule at_record_guest) (use env in auto)
  have fin: "completes (at_record E r p g2 (active t)) (finish_completed E (active t) \<lparr>gx_exit_code = Some (gr_exit_code result),
      gx_stdout_bytes = Some so, gx_stderr_bytes = Some se, gx_artifact_id = None\<rparr>)
      (\<lambda>x w. x = () \<and> (\<exists>op'. exec_record (active t) result op' \<and> at_record E r p g2 op' w))" for t so se
    by (rule finish_completes [OF assms(1)]) (use fields in \<open>auto simp: active_def\<close>)
  have auth: "yields (at_cell E r True p) (guest_authority_step E r vm) a"
    by (rule yields_authority [OF assms(1,2)]) (use env in auto)
  have same: "exec_record (active t) result op' \<Longrightarrow> exec_record op result op' \<and> op_id op' = op_id op" for t op'
    by (simp add: exec_record_def active_def same_operation_def)
  let ?v = "\<lparr>gxp_schema_version = AUTOMATION_SCHEMA_VERSION, gxp_operation_id = op_id op, gxp_cell_id = gxr_cell_id q, gxp_result = result\<rparr>"
  let ?c = "\<lparr>gx_exit_code = Some (gr_exit_code result), gx_stdout_bytes = Some (gr_stdout_bytes result),
    gx_stderr_bytes = Some (gr_stderr_bytes result), gx_artifact_id = None\<rparr>"
  have act: "completes (at_record E r p g1 (active t)) (bindE (ret ()) (\<lambda>_.
      bindE (guest_call (Guest_Exec a vm (gxr_command q)) (gt_exec (en_transport E) a vm cr (gxr_command q))) (\<lambda>result.
      bindE (liftR (validate_guest_command_result (gxr_command q) result)) (\<lambda>_.
      ret (\<lparr>gxp_schema_version = AUTOMATION_SCHEMA_VERSION, gxp_operation_id = op_id op, gxp_cell_id = gxr_cell_id q, gxp_result = result\<rparr>,
        \<lparr>gx_exit_code = Some (gr_exit_code result), gx_stdout_bytes = Some (gr_stdout_bytes result),
         gx_stderr_bytes = Some (gr_stderr_bytes result), gx_artifact_id = None\<rparr>)))))
      (\<lambda>x w. x = (?v, ?c) \<and> at_record E r p g2 (active t) w)" for t
    unfolding bindE_ret
    by (rule completes_then [OF exec], simp, rule completes_check, (use env in blast), rule completes_ret) simp
  have last: "completes (at_record E r p g2 (active t)) (bindE (finish_completed E (active t) ?c) (\<lambda>_. ret ?v))
      (\<lambda>v w. gxp_result v = result \<and> (\<exists>op'. op_id op' = gxp_operation_id v \<and> exec_record op result op' \<and> at_record E r p g2 op' w))" for t
    by (rule completes_then [OF fin], rule completes_ret) (use same in fastforce)
  show ?thesis
    unfolding perform_operation_def Let_def active_def [symmetric]
    by (rule attempt_then [OF yields_completes [OF auth]], simp only: sum.case, rule completes_then [OF at_now],
        rule attempt_then, rule completes_then [OF save], assumption, rule completes_then [OF wait], simp only:, rule act,
        simp only: sum.case prod.case, rule last)
qed

text \<open>Before the intent: every earlier operation of the cell is terminal and new identifiers are unused.\<close>

definition at_start ::
  "('p, 'g, 'y) guest_env_scheme \<Rightarrow> cell_record \<Rightarrow> 'p \<Rightarrow> 'g \<Rightarrow> ('p, 'g, 'z) guest_world_scheme \<Rightarrow> bool" where
  "at_start E r p g w \<longleftrightarrow> at_cell E r True p w \<and> gw_guest w = g
     \<and> (\<exists>ops. list_guest_operations_from (env_crates E) (fe_root E) (w_store w) = Inr ops \<and> \<not> in_flight ops (cid r))
     \<and> (\<forall>n. op_doc (env_crates E) (w_store w) (GuestOperationId (fs_uuid E n)) = None)"

lemma at_start_simps [simp]: "at_start E r p g (w\<lparr>w_tick := n\<rparr>) = at_start E r p g w"
  "at_start E r p g (w\<lparr>w_tick := n, w_locked := l\<rparr>) = at_start E r p g w"
  by (simp_all add: at_start_def at_cell_def)

lemma yields_start:
  assumes "yields (at_cell E r True p) m v"
  shows "completes (at_start E r p g) m (\<lambda>x w. x = v \<and> at_start E r p g w)"
proof (rule completesI)
  fix w :: "('a, 'b, 'c) guest_world_scheme" assume w: "at_start E r p g w"
  then obtain n where "m w = (Inr v, w\<lparr>w_tick := n\<rparr>)" using assms by (auto simp: yields_def at_start_def)
  with w show "\<exists>x w'. m w = (Inr x, w') \<and> x = v \<and> at_start E r p g w'" by auto
qed

definition at_time :: "('p, 'g, 'y) guest_env_scheme \<Rightarrow> time \<Rightarrow> ('p, 'g, 'z) guest_world_scheme \<Rightarrow> bool" where
  "at_time E t w \<longleftrightarrow> (\<forall>n \<ge> w_tick w. t \<le> fs_now E n)"

lemma intent_completes:
  assumes "calm E" "job = None \<or> map_option jc_job_id (cell_job r) = job"
    and op: "op = intent_with_job (GuestOperationId (fs_uuid E k)) (cid r) Kind_Exec now job"
  shows "completes (\<lambda>w. at_start E r p g w \<and> at_time E now w) (save_operation E op) (\<lambda>x w. x = () \<and> at_record E r p g op w)"
proof (rule completesI)
  fix w :: "('a, 'b, 'd) guest_world_scheme" assume w: "at_start E r p g w \<and> at_time E now w"
  let ?X = "env_crates E" and ?root = "fe_root E" and ?st = "w_store w"
  let ?path = "guest_operation_path ?X ?root (op_id op)"
  have cell: "uuid_laws ?X" "load_cell_from ?X ?root ?st (cid r) = Inr r" using w by (auto simp: at_start_def at_cell_def)
  have fresh: "load_guest_operation_from ?X ?root ?st (op_id op) = Inl (SE_NotFound ?path)"
    using w op by (auto simp: load_guest_operation_from_def Let_def read_doc_def at_start_def intent_with_job_def)
  have "validate_guest_operation_schema ?X ?path op = Inr ()"
    using cell(1) unfolding op
    by (simp add: validate_guest_operation_schema_def intent_with_job_def ensure_schema_one_of_def ensure_stem_def
        guest_operation_path_eq file_stem_json op_schema_version_for_job_def ensure_def op_schema_defs
        operation_fields_valid_def operation_times_valid_def no_result_fields_def split: option.split)
  moreover have "validate_operation_parent_binding_for_write ?X ?root ?st ?path op = Inr ()"
    using cell(2) assms(2) unfolding op
    by (auto simp: validate_operation_parent_binding_for_write_def intent_with_job_def res_map_err_def
        validate_operation_job_binding_def ensure_def split: option.split)
  ultimately have chk: "save_operation_check ?X ?root ?st op = Inr ()"
    using fresh by (simp add: save_operation_check_def Let_def)
  have "load_guest_operation_from ?X ?root (put_operation ?X op ?st) (op_id op) = Inr op"
    by (rule ops.load_put [OF cell(1), of _ _ op]) (simp add: save_operation_value_def chk)
  then have "at_record E r p g op (w\<lparr>w_tick := w_tick w + 4, w_store := put_operation ?X op ?st\<rparr>)"
    using w op by (auto simp: at_record_def at_cell_put_operation at_start_def at_time_def intent_with_job_def)
  then show "\<exists>x w'. save_operation E op w = (Inr x, w') \<and> x = () \<and> at_record E r p g op w'"
    using save_operation_calm [OF assms(1) chk] by simp
qed

definition exec_returns ::
  "('p, 'g, 'y) guest_env_scheme \<Rightarrow> cell_record \<Rightarrow> guest_exec_request \<Rightarrow> guest_command_result \<Rightarrow> 'p \<Rightarrow> 'g
    \<Rightarrow> guest_exec_report \<Rightarrow> ('p, 'g, 'z) guest_world_scheme \<Rightarrow> bool" where
  "exec_returns E r q result p g v w \<longleftrightarrow> gxp_result v = result \<and> (\<exists>op. op_id op = gxp_operation_id v
     \<and> at_record E r p g op w \<and> op_phase op = Op_Completed \<and> op_kind op = Kind_Exec \<and> op_cell_id op = gxr_cell_id q
     \<and> op_exit_code op = Some (gr_exit_code result))"

lemma exec_run_completes:
  fixes E :: "('p, 'g, 'y) guest_env_scheme"
  assumes "calm E" and "\<And>n. \<not> fs_busy E n" and "provider_name E \<in> {''hyperv'', ''qemu''}"
    and "scoped E r" and "cell_state r = Cell_Running" and "cell_phase r = Phase_Ready"
    and "cid r = gxr_cell_id q" and "job = None \<or> map_option jc_job_id (cell_job r) = job"
    and "prove_ownership (fe_host E) r vm = Inr ()" and "vm_power_state vm = Power_Running"
    and "guest_command_validate (gxr_command q) = Inr ()" and "validate_readiness_policy (gxr_readiness q) = Inr ()"
    and "responsive E r vm a cr q result p g g1 g2"
  shows "completes (\<lambda>w :: ('p, 'g, 'z) guest_world_scheme. at_start E r p g w \<and> \<not> w_locked w)
    (exec_guest_with_ready_callback E cr q job (ret ())) (\<lambda>v w. exec_returns E r q result p g2 v w \<and> \<not> w_locked w)"
proof -
  note env = assms(13) [unfolded responsive_def]
  have mono: "fs_now E m \<le> fs_now E n" if "m \<le> n" for m n using env that by blast
  let ?act = "\<lambda>a expected i. bindE (ret ()) (\<lambda>_.
     bindE (guest_call (Guest_Exec a expected (gxr_command q)) (gt_exec (en_transport E) a expected cr (gxr_command q))) (\<lambda>result.
     bindE (liftR (validate_guest_command_result (gxr_command q) result)) (\<lambda>_.
     ret (\<lparr>gxp_schema_version = AUTOMATION_SCHEMA_VERSION, gxp_operation_id = i, gxp_cell_id = gxr_cell_id q, gxp_result = result\<rparr>,
       \<lparr>gx_exit_code = Some (gr_exit_code result), gx_stdout_bytes = Some (gr_stdout_bytes result),
        gx_stderr_bytes = Some (gr_stderr_bytes result), gx_artifact_id = None\<rparr>))))"
  let ?d = "\<lparr>gd_cell_id = gxr_cell_id q, gd_job_id = job, gd_plan = \<lparr>gp_kind = Kind_Exec, gp_readiness = gxr_readiness q\<rparr>\<rparr>"
  let ?Q = "\<lambda>v w :: ('p, 'g, 'z) guest_world_scheme. gxp_result v = result \<and> (\<exists>op. op_id op = gxp_operation_id v
     \<and> at_record E r p g2 op w \<and> op_phase op = Op_Completed \<and> op_kind op = Kind_Exec \<and> op_cell_id op = gxr_cell_id q
     \<and> op_exit_code op = Some (gr_exit_code result))"
  have perform: "completes (at_record E r p g op) (perform_operation E cr (gxr_readiness q) r vm op ?act) ?Q"
    if "op = intent_with_job i (cid r) Kind_Exec now job" for op i now
    by (rule completes_post [OF perform_completes [OF assms(1,4,13,12) that]])
      (use assms(7) that in \<open>auto simp: exec_record_def same_operation_def intent_with_job_def\<close>)
  have noted: "completes (at_record E r p g op) (note_recorded i :: (('p, 'g, 'z) guest_world_scheme, engine_error, unit) eff)
      (\<lambda>x w. x = () \<and> at_record E r p g op w)" for op i
    by (rule completesI) (simp add: note_recorded_def modify_def at_record_def at_cell_def)
  have start: "completes (\<lambda>w. at_start E r p g w \<and> at_time E now w) (bindE (new_uuid E) (\<lambda>u.
      let op = intent_with_job (GuestOperationId u) (gxr_cell_id q) Kind_Exec now job in
      bindE (save_operation E op) (\<lambda>_. bindE (note_recorded (op_id op)) (\<lambda>_.
      perform_operation E cr (gxr_readiness q) r vm op ?act)))) ?Q" for now
  proof (rule completes_then [where F = "\<lambda>u. \<exists>k. u = fs_uuid E k" and P' = "\<lambda>_ w. at_start E r p g w \<and> at_time E now w"])
    show "completes (\<lambda>w. at_start E r p g w \<and> at_time E now w) (new_uuid E)
        (\<lambda>u w. (\<exists>k. u = fs_uuid E k) \<and> at_start E r p g w \<and> at_time E now w)"
      by (rule completesI) (auto simp: new_uuid_run at_time_def)
  next
    fix u assume "\<exists>k. u = fs_uuid E k"
    then obtain k where u: "u = fs_uuid E k" by blast
    show "completes (\<lambda>w. at_start E r p g w \<and> at_time E now w)
        (let op = intent_with_job (GuestOperationId u) (gxr_cell_id q) Kind_Exec now job in
         bindE (save_operation E op) (\<lambda>_. bindE (note_recorded (op_id op)) (\<lambda>_.
         perform_operation E cr (gxr_readiness q) r vm op ?act))) ?Q"
      unfolding Let_def u
      by (rule completes_then [OF intent_completes [OF assms(1,8)]], simp only: assms(7), rule completes_then [OF noted],
          rule perform, simp only: assms(7))
  qed
  have now: "completes (at_start E r p g) (utc_now E) (\<lambda>t w. True \<and> at_start E r p g w \<and> at_time E t w)"
    by (rule completesI) (auto simp: utc_now_run at_time_def intro: mono)
  have own: "yields (at_cell E r True p) (exact_owned_vm E r) vm"
    using env assms(5,9) by (auto intro: yields_own [OF assms(1,4)])
  have load: "completes (at_start E r p g) (stE (load_cell E (gxr_cell_id q))) (\<lambda>x w. x = r \<and> at_start E r p g w)"
    by (rule yields_start) (auto simp: load_cell_def at_cell_def assms(7) [symmetric] intro!: yields_basic yields_read [OF assms(1)])
  have list: "completes (at_start E r p g :: ('p, 'g, 'z) guest_world_scheme \<Rightarrow> bool) (stE (list_guest_operations E))
      (\<lambda>ops w. \<not> in_flight ops (gxr_cell_id q) \<and> at_start E r p g w)"
  proof (rule completes_mapE, rule completesI)
    fix w :: "('p, 'g, 'z) guest_world_scheme" assume w: "at_start E r p g w"
    then obtain ops where "list_guest_operations_from (env_crates E) (fe_root E) (w_store w) = Inr ops" "\<not> in_flight ops (gxr_cell_id q)"
      using assms(7) by (auto simp: at_start_def)
    with w show "\<exists>ops w'. list_guest_operations E w = (Inr ops, w') \<and> \<not> in_flight ops (gxr_cell_id q) \<and> at_start E r p g w'"
      by (simp add: list_guest_operations_def calm_runs [OF assms(1)])
  qed
  obtain os where os: "bnd_guest_os (cell_image r) = Some os" "gt_supports (en_transport E) (cell_provider r) os" using env by blast
  let ?body = "bindE (stE (load_cell E (gxr_cell_id q))) (\<lambda>r.
     bindE (liftR (require_lifecycle_state r ''run a guest operation on'' [Cell_Running])) (\<lambda>_.
     if cell_phase r \<noteq> Phase_Ready then throw (EE_LifecycleConflict ''guest operations require a ready cell'')
     else
     bindE (stE (list_guest_operations E)) (\<lambda>ops.
     if in_flight ops (gxr_cell_id q)
     then throw (EE_LifecycleConflict
       ''guest operations require all earlier operations to be terminal; reconcile the cell operation history first'')
     else
     bindE (liftR (ok_or (bnd_guest_os (cell_image r))
       (EE_Integrity ''guest operations require a cell with a persisted guest OS''))) (\<lambda>guest_os.
     if \<not> gt_supports (en_transport E) (cell_provider r) guest_os
     then throw (EE_InvalidCellRequest ''selected guest transport is incompatible with the provider/guest OS'')
     else
     bindE (exact_owned_vm E r) (\<lambda>expected.
     if vm_power_state expected \<noteq> Power_Running then throw (EE_UnexpectedPowerState (vm_power_state expected))
     else
     bindE (utc_now E) (\<lambda>now.
     bindE (new_uuid E) (\<lambda>u.
     let op = intent_with_job (GuestOperationId u) (gxr_cell_id q) Kind_Exec now job in
     bindE (save_operation E op) (\<lambda>_.
     bindE (note_recorded (op_id op)) (\<lambda>_.
     perform_operation E cr (gxr_readiness q) r expected op ?act)))))))))"
  have body: "completes (at_start E r p g) ?body ?Q"
    by (rule completes_then [OF load], simp only:, rule completes_check, simp add: require_lifecycle_state_def assms(5) ensure_def,
        simp only: assms(6) simp_thms if_False, rule completes_then [OF list], simp only: if_False simp_thms,
        rule completes_check, simp add: os ok_or_def, simp only: os simp_thms if_False,
        rule completes_then [OF yields_start [OF own]], simp only: assms(10) simp_thms if_False,
        rule completes_then [OF now], rule start)
  have prov: "require_provider E = Inr ()" using assms(3) by (simp add: require_provider_def)
  have run: "exec_guest_with_ready_callback E cr q job (ret ()) = with_lock E ?body"
    unfolding exec_guest_with_ready_callback_def run_guest_operation_def assms(11,12) prov mapE_liftR_Inr bindE_liftR_Inr
      guest_operation_dispatch.simps guest_operation_plan.simps ..
  show ?thesis
    unfolding run exec_returns_def by (rule free_lock_completes [OF assms(1,2) body]) (auto simp: at_record_def)
qed

text \<open>
  C8: executing a command completes.  When the file system does not fail, no other process holds the lock, the machine of a
  ready and running cell is found and proven, every earlier operation of the cell is terminal, and the guest becomes ready and
  answers within the bounds of the request, then the command returns the guest's own result, the operation is
  durably completed with its exit code, and the lock is free again.
\<close>

theorem exec_completes:
  assumes "calm E" and "\<And>n. \<not> fs_busy E n" and "provider_name E \<in> {''hyperv'', ''qemu''}"
    and "scoped E r" and "cell_state r = Cell_Running" and "cell_phase r = Phase_Ready"
    and "cell_record.cell_id r = gxr_cell_id q" and "job = None \<or> map_option jc_job_id (cell_job r) = job"
    and "prove_ownership (fe_host E) r vm = Inr ()" and "vm_power_state vm = Power_Running"
    and "guest_command_validate (gxr_command q) = Inr ()" and "validate_readiness_policy (gxr_readiness q) = Inr ()"
    and "responsive E r vm a cr q result p g g1 g2" and "at_start E r p g w" and "\<not> w_locked w"
  shows "\<exists>v w'. exec_guest_with_ready_callback E cr q job (ret ()) w = (Inr v, w')
    \<and> exec_returns E r q result p g2 v w' \<and> \<not> w_locked w'"
  using completesD [OF exec_run_completes [OF assms(1-13)]] assms(14,15) by blast

subsection \<open>A worked command\<close>

definition running_cell :: cell_record where
  "running_cell = owned_cell\<lparr>cell_state := Cell_Running\<rparr>"

definition running_world :: "(provider_vm option, unit) guest_world" where
  "running_world = guest_world_of ((put_cell canonical_crates running_cell empty_store)\<lparr>sto_runtime := [CellId 7]\<rparr>) (Some running_vm)"

lemma cid_running [simp]: "cid running_cell = CellId 7"
  by (simp add: running_cell_def owned_cell_def sample_cell_def)

lemma running_cell_check: "save_cell_check canonical_crates ''/state'' empty_store running_cell = Inr running_cell"
proof (rule put_first_cell)
  show "validate_cell_schema canonical_crates (cell_path canonical_crates ''/state'' (cid running_cell)) running_cell = Inr ()"
    by (simp add: validate_cell_schema_def running_cell_def owned_cell_def sample_cell_def ensure_stem_def uuid_stem_state
        ensure_schema_one_of_def ensure_schema_def ensure_def cell_schema_defs cell_ownership_new_def)
qed (simp add: redact_cell_diagnostic_def running_cell_def owned_cell_def sample_cell_def)

lemma running_start: "at_start sample_guest running_cell (Some running_vm) () running_world"
proof -
  let ?st = "(put_cell canonical_crates running_cell empty_store)\<lparr>sto_runtime := [CellId 7]\<rparr>"
  have "load_cell_from canonical_crates ''/state'' ?st (CellId 7) = Inr running_cell"
    using cells.load_put [OF empty_store_ok running_cell_check] load_cell_runtime by simp
  moreover have "dir_ok (sto_cells ?st)"
    using dir_ok_put_cell [of canonical_crates empty_store running_cell] empty_store_ok by simp
  moreover have "installed sample_guest 5 ?st"
    by (simp add: installed_def load_installation_from_def put_cell_def empty_store_def read_doc_def ensure_schema_def Let_def
        INSTALL_SCHEMA_VERSION_def)
  moreover have "own_install_id (cell_ownership running_cell) = 5"
    by (simp add: running_cell_def owned_cell_def cell_ownership_new_def)
  moreover have "list_guest_operations_from canonical_crates ''/state'' ?st = Inr []"
    by (simp add: list_guest_operations_from_def put_cell_def empty_store_def read_json_directory_def json_names_def)
  ultimately show ?thesis
    by (simp add: at_start_def at_cell_def running_world_def guest_world_of_def canonical_uuid_laws in_flight_def)
      (simp add: put_cell_def empty_store_def)
qed

lemma running_authority:
  "\<exists>a. guest_authority_new \<lparr>gs_mutation_identity = True, gs_runtime_identity = True\<rparr> running_cell running_vm
     (own_installation running_cell) (own_runtime running_cell) = Inr a"
  by (simp add: guest_authority_new_def guest_authority_validate_def gid.same_refl running_cell_def owned_cell_def running_vm_def
      owned_vm_def cell_ownership_new_def sample_defs Let_def ok_or_def ensure_def)

lemma sample_guest_more [simp]:
  "fs_busy sample_guest n = False" "en_polls sample_guest = 4"
  "en_guards sample_guest = (\<lambda>_. \<lparr>gs_mutation_identity = True, gs_runtime_identity = True\<rparr>)"
  by (simp_all add: sample_guest_def sample_engine_def engine_env.defs guest_env.defs)

definition sample_result :: guest_command_result where
  "sample_result = \<lparr>gr_exit_code = 0, gr_stdout = ''ok'', gr_stderr = [], gr_encoding = ''utf-8'',
     gr_stdout_bytes = 2, gr_stderr_bytes = 0, gr_truncated = False\<rparr>"

lemma sample_exec_valid:
  "guest_command_validate (gxr_command sample_exec) = Inr ()" "validate_readiness_policy (gxr_readiness sample_exec) = Inr ()"
  "validate_guest_command_result (gxr_command sample_exec) sample_result = Inr ()"
proof -
  have "\<not> is_blank ''/bin/true''" "\<not> contains_char ''/bin/true'' nul" by code_simp+
  then show "guest_command_validate (gxr_command sample_exec) = Inr ()"
    by (simp add: guest_command_validate_def sample_exec_def duration_from_secs_def MAX_ACTION_TIMEOUT_SECONDS_def MAX_OUTPUT_BYTES_def)
  show "validate_readiness_policy (gxr_readiness sample_exec) = Inr ()"
    by (simp add: validate_readiness_policy_def sample_exec_def duration_from_secs_def MAX_ACTION_TIMEOUT_SECONDS_def)
  show "validate_guest_command_result (gxr_command sample_exec) sample_result = Inr ()"
    by (simp add: validate_guest_command_result_def sample_exec_def sample_result_def saturating_add_def checked_add_def)
qed

lemma sample_responsive:
  assumes "guest_authority_new \<lparr>gs_mutation_identity = True, gs_runtime_identity = True\<rparr> running_cell running_vm
     (own_installation running_cell) (own_runtime running_cell) = Inr a"
  shows "responsive sample_guest running_cell running_vm a sample_credentials sample_exec sample_result (Some running_vm) () () ()"
proof -
  have "cell_provider_object running_cell = Some \<lparr>poi_id = vm_id running_vm, poi_name = vm_name running_vm\<rparr>"
    using owned_proof by (simp add: prove_ownership_ok vm_identity_def running_cell_def running_vm_def)
  moreover have "bnd_guest_os (cell_image running_cell) = Some Os_Linux"
    by (simp add: running_cell_def owned_cell_def sample_cell_def)
  ultimately show ?thesis
    using assms sample_exec_valid(3)
    by (simp add: responsive_def one_vm_provider_def gets_def sample_transport_def ret_def sample_result_def)
      (simp add: sample_exec_def duration_from_secs_def)
qed

lemma sample_running:
  "calm sample_guest" "provider_name sample_guest \<in> {''hyperv'', ''qemu''}" "scoped sample_guest running_cell"
  "cell_state running_cell = Cell_Running" "cell_phase running_cell = Phase_Ready" "cid running_cell = gxr_cell_id sample_exec"
  "prove_ownership (fe_host sample_guest) running_cell running_vm = Inr ()" "vm_power_state running_vm = Power_Running"
  "\<not> w_locked running_world"
proof -
  have "scoped sample_guest owned_cell = scoped sample_engine owned_cell"
    by (simp add: scoped_def pinnable_def)
  then show "scoped sample_guest running_cell" using owned_scoped by (simp add: running_cell_def)
  show "prove_ownership (fe_host sample_guest) running_cell running_vm = Inr ()"
    using owned_proof by (simp add: running_vm_def running_cell_def prove_ownership_ok vm_identity_def)
qed (simp_all add: calm_def running_cell_def owned_cell_def sample_cell_def sample_exec_def running_vm_def running_world_def guest_world_of_def)

lemma sample_exec_runs:
  "\<exists>v w'. exec_guest_with_ready_callback sample_guest sample_credentials sample_exec None (ret ()) running_world = (Inr v, w')
     \<and> exec_returns sample_guest running_cell sample_exec sample_result (Some running_vm) () v w'"
proof -
  obtain a where a: "guest_authority_new \<lparr>gs_mutation_identity = True, gs_runtime_identity = True\<rparr> running_cell running_vm
     (own_installation running_cell) (own_runtime running_cell) = Inr a" using running_authority by blast
  show ?thesis
    using completesD [OF exec_run_completes [OF sample_running(1) _ sample_running(2-6) _ sample_running(7,8) sample_exec_valid(1,2)
        sample_responsive [OF a], of None], of running_world] running_start sample_running(9) by auto
qed

theorem exec_completes_witness:
  "\<exists>v w'. exec_guest_with_ready_callback sample_guest sample_credentials sample_exec None (ret ()) running_world = (Inr v, w')
     \<and> gxp_result v = sample_result \<and> \<not> w_locked w'"
proof -
  obtain a where a: "guest_authority_new \<lparr>gs_mutation_identity = True, gs_runtime_identity = True\<rparr> running_cell running_vm
     (own_installation running_cell) (own_runtime running_cell) = Inr a" using running_authority by blast
  show ?thesis
    using exec_completes [OF sample_running(1) _ sample_running(2-6) _ sample_running(7,8) sample_exec_valid(1,2)
        sample_responsive [OF a] running_start sample_running(9), of None] by (auto simp: exec_returns_def)
qed

subsection \<open>Reports\<close>

text \<open>
  C9: what a command report says is durable.  When executing a command in a guest returns a report, the store holds the
  operation the report names: of this cell and job, of kind exec, completed, with exactly the reported exit code and
  output sizes and no artifact; and the output is UTF-8 of exactly the reported sizes, not truncated, within the bound of the request.
\<close>

theorem exec_report_durable:
  assumes "files_ok E w" and "exec_guest_with_ready_callback E cr q job (ret ()) w = (Inr v, w')"
  shows "\<exists>op. op_doc (env_crates E) (w_store w') (gxp_operation_id v) = Some (Doc op)
    \<and> op_id op = gxp_operation_id v \<and> op_cell_id op = gxr_cell_id q \<and> op_job_id op = job \<and> op_kind op = Kind_Exec
    \<and> op_phase op = Op_Completed \<and> op_artifact_id op = None
    \<and> op_exit_code op = Some (gr_exit_code (gxp_result v))
    \<and> op_stdout_bytes op = Some (gr_stdout_bytes (gxp_result v))
    \<and> op_stderr_bytes op = Some (gr_stderr_bytes (gxp_result v))
    \<and> gxp_cell_id v = gxr_cell_id q
    \<and> validate_guest_command_result (gxr_command q) (gxp_result v) = Inr ()"
proof -
  from validE_okD [OF sound.exec_guest_with_ready_callback_valid [OF soft_basic(1)] assms] obtain op x where op: "op_doc (env_crates E) (w_store w') (op_id op) = Some (Doc op)" "op_cell_id op = gxr_cell_id q"
    "op_kind op = Kind_Exec" "op_job_id op = job" "records op x op" "exec_outcome q (op_id op) v x"
    unfolding sound.outcome_def by blast
  then show ?thesis
    by (intro exI [of _ op]) (auto simp: exec_outcome_def records_def)
qed

theorem exec_report_durable_witness:
  "\<exists>v w' op. exec_guest_with_ready_callback sample_guest sample_credentials sample_exec None (ret ()) running_world = (Inr v, w')
     \<and> gxp_result v = sample_result \<and> op_doc canonical_crates (w_store w') (gxp_operation_id v) = Some (Doc op)
     \<and> op_phase op = Op_Completed \<and> op_exit_code op = Some 0"
proof -
  obtain v w' where run: "exec_guest_with_ready_callback sample_guest sample_credentials sample_exec None (ret ()) running_world = (Inr v, w')"
    "gxp_result v = sample_result" using sample_exec_runs by (auto simp: exec_returns_def)
  have "files_ok sample_guest running_world"
    using running_start
    by (auto simp: files_ok_def at_start_def at_cell_def, simp add: running_world_def guest_world_of_def put_cell_def empty_store_def dir_ok_def)
  from exec_report_durable [OF this run(1)] run show ?thesis by (auto simp: sample_result_def)
qed

end
