(* ===== verification/RunTheorems.thy ===== *)
theory RunTheorems
  imports GuestTheorems
begin

section \<open>Theorems on runs and images\<close>

text \<open>
  Three more invariants of all commands (events shown to the observer are true; live cells keep their image; the history of a
  cell), what a run reports, and what registering and unregistering an image leaves behind.
\<close>

subsection \<open>Images of live cells\<close>

definition images_kept :: "('p, 'y) engine_env_scheme \<Rightarrow> store \<Rightarrow> bool" where
  "images_kept E st \<longleftrightarrow> (\<forall>c r. load_cell_from (env_crates E) (fe_root E) st c = Inr r \<longrightarrow> \<not> tombstoned r \<longrightarrow> image_bound E st r)"

lemma image_bound_mono:
  assumes "image_bound E st r"
    "\<And>img. load_image_from (fe_root E) st (bnd_image_id (cell_image r)) = Inr img \<Longrightarrow>
      load_image_from (fe_root E) st' (bnd_image_id (cell_image r)) = Inr img"
  shows "image_bound E st' r"
  using assms unfolding image_bound_def by blast

lemma images_kept_cong:
  "sto_cells st' = sto_cells st \<Longrightarrow> (\<And>i. load_image_from (fe_root E) st' i = load_image_from (fe_root E) st i) \<Longrightarrow>
    images_kept E st' = images_kept E st"
  using load_cell_from_cong [of st' st] by (simp add: images_kept_def image_bound_def)

lemma load_image_simps:
  "load_image_from root (put_cell X r st) = load_image_from root st"
  "load_image_from root (put_operation X op st) = load_image_from root st"
  "load_image_from root (st\<lparr>sto_installation := d\<rparr>) = load_image_from root st"
  "load_image_from root (st\<lparr>sto_artifacts := d'\<rparr>) = load_image_from root st"
  by (simp_all add: load_image_from_def put_cell_def put_operation_def fun_eq_iff)

lemma images_kept_simps:
  "images_kept E (put_operation X op st) = images_kept E st"
  "images_kept E (st\<lparr>sto_installation := d\<rparr>) = images_kept E st"
  "images_kept E (st\<lparr>sto_artifacts := d'\<rparr>) = images_kept E st"
  by (rule images_kept_cong, simp_all add: load_image_simps)+

text \<open>A save that is accepted found the directory sound; so it makes no other cell readable.\<close>

lemma save_cell_check_sound:
  assumes "uuid_laws X" "dir_ok (sto_cells st)" "save_cell_check X root st rec = Inr r"
  shows "cells_sound X root st"
proof (cases "load_cell_from X root st (cid r)")
  case (Inr x)
  then show ?thesis by (simp add: load_cell_from_ok [OF assms(1,2)])
next
  case (Inl e)
  have allowed: "cell_put_allowed X root st r" using save_cell_check_ok [OF assms] by blast
  have "cid r = cid rec" using conjunct1 [OF save_cell_check_ok [OF assms]] by simp
  with Inl assms(3) have "\<exists>p. e = SE_NotFound p"
    by (auto simp: save_cell_check_def Let_def split: state_error.splits sum.splits if_splits)
  with Inl have "map_of (sto_cells st) (cell_key X (cid r)) = None" by (auto simp: load_cell_from_not_found)
  then have "x \<in> dir_docs (sto_cells st) \<Longrightarrow> cid x \<noteq> cid r" for x
    using cell_docs_key [OF assms(1,2), of root x] allowed by (auto simp: cell_put_allowed_def)
  with allowed show ?thesis by (auto simp: cells_sound_def cell_put_allowed_def job_ids_unique_def)
qed

lemma load_put_cell_back:
  assumes "uuid_laws X" "dir_ok (sto_cells st)" "save_cell_check X root st rec = Inr r" "c \<noteq> cid r"
    and "load_cell_from X root (put_cell X r st) c = Inr x"
  shows "load_cell_from X root st c = Inr x"
proof -
  have "cell_key X (cid r) \<noteq> cell_key X c" using assms(1,4) by (auto simp: cell_id.expand)
  then show ?thesis
    using assms(5) save_cell_check_sound [OF assms(1-3)]
    by (auto simp: load_cell_from_ok [OF assms(1,2)] load_cell_from_ok [OF assms(1) dir_ok_put_cell [OF assms(1,2)]] map_of_put_cell)
qed

lemma images_kept_write:
  assumes ok: "files_ok E w" and kept: "images_kept E (w_store w)" and wr: "engine_write E P (w_store w) r"
    and chk: "save_cell_check (env_crates E) (fe_root E) (w_store w) r = Inr r'"
  shows "images_kept E (put_cell (env_crates E) r' (w_store w))"
proof (unfold images_kept_def, intro allI impI)
  fix c x assume x: "load_cell_from (env_crates E) (fe_root E) (put_cell (env_crates E) r' (w_store w)) c = Inr x" "\<not> tombstoned x"
  have cells: "cells_ok E w" using ok by (simp add: files_ok_def)
  have bound: "image_bound E (put_cell (env_crates E) r' (w_store w)) y = image_bound E (w_store w) y" for y
    by (simp add: image_bound_def load_image_simps)
  have r': "r' = redact_cell_diagnostic r" using save_cell_check_ok [OF _ _ chk] cells by simp
  show "image_bound E (put_cell (env_crates E) r' (w_store w)) x"
  proof (cases "c = cid r'")
    case False
    from load_put_cell_back [OF _ _ chk False x(1)] cells kept x(2) show ?thesis
      unfolding bound images_kept_def by blast
  next
    case True
    have "x = r'" using load_put_cell_same [OF _ _ chk] cells x(1) True by simp
    from wr have "image_bound E (w_store w) r"
      unfolding engine_write_def
    proof (elim disjE exE conjE)
      fix r0 assume r0: "load_cell_from (env_crates E) (fe_root E) (w_store w) (cid r) = Inr r0" "same_cell r0 r"
        "lifecycle_step (lifecycle_of r0) (lifecycle_of r)"
      have "\<not> tombstoned r0" using r0(3) lifecycle_step_final by (auto simp: tombstoned_def lifecycle_of_def)
      then show ?thesis
        using kept r0(1,2) by (auto simp: images_kept_def image_bound_def same_cell_def)
    qed
    then have "image_bound E (w_store w) r'" by (simp add: image_bound_def r')
    then show ?thesis unfolding bound \<open>x = r'\<close> .
  qed
qed

interpretation kept: system_invariant E "\<lambda>w. files_ok E w \<and> images_kept E (w_store w)" "\<lambda>_. True" "\<lambda>_. True" for E
proof
  fix w w' assume "files_ok E w \<and> images_kept E (w_store w)" "soft_step w w'"
  then show "files_ok E w' \<and> images_kept E (w_store w')"
    using images_kept_cong [of "w_store w'" "w_store w" E] by (simp add: files_ok_soft soft_step_store)
next
  fix w r r' assume "files_ok E w \<and> images_kept E (w_store w)" "engine_write E (\<lambda>_. True) (w_store w) r"
    "save_cell_check (env_crates E) (fe_root E) (w_store w) r = Inr r'"
  then show "files_ok E (w\<lparr>w_store := put_cell (env_crates E) r' (w_store w)\<rparr>)
      \<and> images_kept E (w_store (w\<lparr>w_store := put_cell (env_crates E) r' (w_store w)\<rparr>))"
    using images_kept_write files_ok_cell by auto
next
  fix w and r :: image_record assume I: "files_ok E w \<and> images_kept E (w_store w)"
    and free: "map_of (sto_images (w_store w)) (image_name (img_id r)) = None"
  have "image_bound E (put_image r (w_store w)) x" if "image_bound E (w_store w) x" for x
    by (rule image_bound_mono [OF that load_image_put [OF free]])
  then show "files_ok E (w\<lparr>w_store := put_image r (w_store w)\<rparr>) \<and> images_kept E (w_store (w\<lparr>w_store := put_image r (w_store w)\<rparr>))"
    using I load_cell_from_cong [of "put_image r (w_store w)" "w_store w"] by (simp add: files_ok_def images_kept_def)
next
  fix w i u assume I: "files_ok E w \<and> images_kept E (w_store w)" and un: "unblocked E (w_store w) i"
  let ?st = "retire_image (env_crates E) u i (w_store w)"
  have "image_bound E ?st r" if "load_cell_from (env_crates E) (fe_root E) (w_store w) c = Inr r" "\<not> tombstoned r" for c r
  proof (rule image_bound_mono [of E "w_store w"])
    show "image_bound E (w_store w) r" using I that by (auto simp: images_kept_def)
    have "bnd_image_id (cell_image r) \<noteq> i" using un that by (auto simp: unblocked_def)
    moreover have "uuid_laws (env_crates E)" using I by (simp add: files_ok_def)
    ultimately show "load_image_from (fe_root E) ?st (bnd_image_id (cell_image r)) = Inr img"
      if "load_image_from (fe_root E) (w_store w) (bnd_image_id (cell_image r)) = Inr img" for img
      using that by (simp add: load_image_retire)
  qed
  then show "files_ok E (w\<lparr>w_store := ?st\<rparr>) \<and> images_kept E (w_store (w\<lparr>w_store := ?st\<rparr>))"
    using I load_cell_from_cong [of ?st "w_store w"] by (simp add: files_ok_def images_kept_def)
qed (auto simp: files_ok_simps files_ok_operation images_kept_simps, auto simp: files_ok_def)

text \<open>
  C14: no live cell loses its image.  Suppose every readable cell that is no tombstone is bound to a registered image, with exactly
  the variant it was made from.  Then this holds after any sequence of commands (creating, running, collecting and destroying cells,
  guest operations, registering and unregistering images) with any failures.  Unregistering refuses while a cell depends on the image,
  a cell is only recorded once its image is, and a registration never replaces a record.
\<close>

theorem live_cells_keep_images:
  assumes "files_ok E w" and "images_kept E (w_store w)"
  shows "images_kept E (w_store (run_systems E cmds w))"
  using kept.run_systems_I [where E = E and w = w and cmds = cmds] assms by simp

definition imaged_store :: store where
  "imaged_store = job_store\<lparr>sto_images := [(''linux.json'', Doc sample_image)]\<rparr>"

lemma imaged_store_sel [simp]:
  "sto_cells imaged_store = sto_cells job_store" "sto_operations imaged_store = sto_operations job_store"
  by (simp_all add: imaged_store_def)

lemma imaged_store_files: "files_ok sample_guest (guest_world_of imaged_store vm)"
  using job_store_files [of vm] by (simp add: files_ok_def guest_world_of_def)

lemma job_store_only: "load_cell_from canonical_crates ''/state'' job_store c = Inr r \<Longrightarrow> r = job_cell"
proof -
  assume load: "load_cell_from canonical_crates ''/state'' job_store c = Inr r"
  then obtain r0 where "map_of (sto_cells job_store) (cell_key canonical_crates c) = Some (Doc r0)" "r = redact_cell_diagnostic r0"
    by (auto simp: load_cell_from_ok [OF canonical_uuid_laws job_store_ok])
  moreover from this have "r0 = job_cell"
    by (auto simp: job_store_def put_operation_def put_cell_def empty_store_def update_conv' split: if_splits)
  ultimately show ?thesis by (simp add: job_cell_def sample_cell_def redact_cell_diagnostic_def)
qed

lemma guest_world_store: "w_store (guest_world_of st vm) = st"
  by (simp add: guest_world_of_def)

lemma imaged_store_image: "load_image_from ''/state'' imaged_store (ImageId ''linux'') = Inr sample_image"
proof -
  have "file_stem (image_path ''/state'' (ImageId ''linux'')) = Some ''linux''" by code_simp
  then show ?thesis
    by (simp add: imaged_store_def sample_image_def load_image_from_def read_doc_def Let_def
        validate_image_schema_def ensure_schema_def ensure_stem_def IMAGE_SCHEMA_VERSION_def)
qed

lemma imaged_store_kept: "images_kept sample_guest imaged_store"
proof (unfold images_kept_def, intro allI impI)
  fix c r assume "load_cell_from (env_crates sample_guest) (fe_root sample_guest) imaged_store c = Inr r"
  then have "r = job_cell"
    using job_store_only [of c r] load_cell_from_cong [of imaged_store job_store canonical_crates "''/state''"] by (simp add: sample_env_def)
  then show "image_bound sample_guest imaged_store r"
    using imaged_store_image
    by (simp add: image_bound_def job_cell_def sample_cell_def) (simp add: sample_image_def binding_from_variant_def)
qed

theorem live_cells_keep_images_witness:
  "images_kept sample_guest (w_store (run_systems sample_guest
     [Sys_Unregister (ImageId ''linux''), Sys_Cell (Cmd_Destroy (CellId 7)), Sys_Unregister (ImageId ''linux'')]
     (guest_world_of imaged_store (Some owned_vm))))"
  by (rule live_cells_keep_images [OF imaged_store_files]) (simp add: guest_world_of_def imaged_store_kept)

subsection \<open>Histories of cells\<close>

definition fresh_cells :: "('p, 'y) engine_env_scheme \<Rightarrow> cell_id \<Rightarrow> bool" where
  "fresh_cells E c \<longleftrightarrow> (\<forall>n. fs_uuid E n \<noteq> cell_uuid c)"

lemma history_cong: "sto_cells (w_store w') = sto_cells (w_store w) \<Longrightarrow> history E r0 w' = history E r0 w"
  using load_cell_from_cong [of "w_store w'" "w_store w"] by (simp add: history_def)

lemma history_simps:
  "history E r0 (w\<lparr>w_store := put_operation X op (w_store w)\<rparr>) = history E r0 w"
  "history E r0 (w\<lparr>w_store := (w_store w)\<lparr>sto_installation := d\<rparr>\<rparr>) = history E r0 w"
  "history E r0 (w\<lparr>w_store := (w_store w)\<lparr>sto_artifacts := d'\<rparr>\<rparr>) = history E r0 w"
  "history E r0 (w\<lparr>w_store := put_image img (w_store w)\<rparr>) = history E r0 w"
  "history E r0 (w\<lparr>w_store := retire_image X u i (w_store w)\<rparr>) = history E r0 w"
  by (rule history_cong, simp)+

interpretation lived: system_invariant E
  "\<lambda>w. files_ok E w \<and> fresh_cells E (cid r0) \<and> history E r0 w" "\<lambda>c. c \<noteq> cid r0" "\<lambda>_. True" for E r0
proof
  fix w w' assume "files_ok E w \<and> fresh_cells E (cid r0) \<and> history E r0 w" "soft_step w w'"
  then show "files_ok E w' \<and> fresh_cells E (cid r0) \<and> history E r0 w'"
    using history_cong [of w' w E r0] by (simp add: files_ok_soft soft_step_store)
next
  fix w r r' assume "files_ok E w \<and> fresh_cells E (cid r0) \<and> history E r0 w" "engine_write E (\<lambda>c. c \<noteq> cid r0) (w_store w) r"
    "save_cell_check (env_crates E) (fe_root E) (w_store w) r = Inr r'"
  then show "files_ok E (w\<lparr>w_store := put_cell (env_crates E) r' (w_store w)\<rparr>) \<and> fresh_cells E (cid r0)
      \<and> history E r0 (w\<lparr>w_store := put_cell (env_crates E) r' (w_store w)\<rparr>)"
    using history_write [of E w r0 r r'] files_ok_cell [of E w r'] by (auto simp: files_ok_def)
next
  fix w n assume "files_ok E w \<and> fresh_cells E (cid r0) \<and> history E r0 w"
  then show "CellId (fs_uuid E n) \<noteq> cid r0" by (auto simp: fresh_cells_def) (metis cell_id.sel)
qed (auto simp: files_ok_simps files_ok_operation history_simps, auto simp: files_ok_def history_def)

text \<open>
  C2: the durable history of a cell.  Over any sequence of commands with any failures, other than one creating the
  same id again (a run draws a fresh id), a readable cell stays readable; its identity, specification, image binding, ownership, job, creation
  and expiry times never change; its state and phase move only along the engine's transition relation; once the
  provider object has been recorded it is never replaced; a cell being torn down never comes back; and a
  tombstone is never rewritten.
\<close>

theorem durable_history:
  assumes "files_ok E w" and "load_cell_from (env_crates E) (fe_root E) (w_store w) (cell_record.cell_id r0) = Inr r0"
    and "fresh_cells E (cell_record.cell_id r0)" and "Some (cell_record.cell_id r0) \<notin> names_cell ` set cmds"
  shows "\<exists>r. load_cell_from (env_crates E) (fe_root E) (w_store (run_systems E cmds w)) (cell_record.cell_id r0) = Inr r
    \<and> provisioned r0 r \<and> lifecycle_step\<^sup>*\<^sup>* (lifecycle_of r0) (lifecycle_of r)
    \<and> (\<not> before_object (cell_phase r0) \<longrightarrow> cell_provider_object r = cell_provider_object r0)
    \<and> (cell_state r0 \<in> {Cell_Destroying, Cell_Failed, Cell_Destroyed} \<longrightarrow>
         cell_state r \<in> {Cell_Destroying, Cell_Failed, Cell_Destroyed})
    \<and> (cell_state r0 = Cell_Destroyed \<longrightarrow> r = r0)"
proof -
  have "files_ok E (run_systems E cmds w) \<and> fresh_cells E (cid r0) \<and> history E r0 (run_systems E cmds w)"
    by (rule lived.run_systems_I) (use assms in \<open>auto simp: history_def image_iff\<close>)
  then obtain r where r: "load_cell_from (env_crates E) (fe_root E) (w_store (run_systems E cmds w)) (cid r0) = Inr r"
    "cell_step\<^sup>*\<^sup>* r0 r" by (auto simp: history_def)
  moreover note history_same [OF r(2)]
  moreover from this have "cell_state r \<in> {Cell_Destroying, Cell_Failed, Cell_Destroyed}"
    if "cell_state r0 \<in> {Cell_Destroying, Cell_Failed, Cell_Destroyed}"
    using lifecycle_steps_doomed that by (force simp: lifecycle_of_def)
  ultimately show ?thesis using history_object [OF r(2)] history_final [OF r(2)] by blast
qed

theorem durable_history_witness:
  "\<exists>r. load_cell_from canonical_crates ''/state'' (w_store (run_systems sample_guest sample_commands
      (guest_world_of job_store (Some owned_vm)))) (CellId 7) = Inr r
    \<and> provisioned job_cell r \<and> cell_provider_object r = cell_provider_object job_cell"
proof -
  have "\<not> before_object (cell_phase job_cell)" "fresh_cells sample_guest (cid job_cell)"
    by (simp_all add: job_cell_def sample_cell_def before_object_def fresh_cells_def)
  moreover have "Some (cid job_cell) \<notin> names_cell ` set sample_commands" by (simp add: sample_commands_def)
  moreover have "load_cell_from (env_crates sample_guest) (fe_root sample_guest) (w_store (guest_world_of job_store (Some owned_vm)))
      (cid job_cell) = Inr job_cell"
    using job_store_loads(1) by (simp add: guest_world_of_def sample_env_def)
  ultimately show ?thesis
    using durable_history [OF job_store_files, of "Some owned_vm" job_cell sample_commands] by (auto simp: sample_env_def)
qed

subsection \<open>What a run shows and reports\<close>

interpretation truthful: system_invariant E
  "\<lambda>w. files_ok E w \<and> (\<forall>(ev, x, st) \<in> set (ew_events w). event_ok E st ev)" "\<lambda>_. True" "\<lambda>_. True" for E
proof
  fix w w' assume I: "files_ok E w \<and> (\<forall>(ev, x, st) \<in> set (ew_events w). event_ok E st ev)" and "soft_step w w'"
  moreover have "note_only ev \<Longrightarrow> event_ok E st ev" for ev st by (cases ev) simp_all
  ultimately show "files_ok E w' \<and> (\<forall>(ev, x, st) \<in> set (ew_events w'). event_ok E st ev)"
    using files_ok_soft [of w w' E] unfolding soft_step_def only_notes_def list_all_iff by fastforce
qed (auto simp: files_ok_simps files_ok_cell files_ok_operation, auto simp: files_ok_def)


definition sample_run :: run_cell_request where
  "sample_run = \<lparr>rq_plan = sample_plan, rq_spec = cell_spec job_cell\<lparr>spec_accelerator := Some ''tcg'', spec_allow_tcg := True\<rparr>,
     rq_command = gxr_command sample_exec, rq_readiness = gxr_readiness sample_exec,
     rq_cleanup = \<lparr>rc_keep = False, rc_keep_on_failure = False\<rparr>\<rparr>"




subsection \<open>Registering and unregistering\<close>


definition sample_registration :: register_image_request where
  "sample_registration = \<lparr>ri_id = ImageId ''linux'', ri_guest_os = Os_Linux, ri_guest_arch = X86_64, ri_path = ''/images/linux.qcow2''\<rparr>"


end
