(* ===== verification/Json.thy ===== *)
theory Json
  imports RustStd
begin

section \<open>JSON values\<close>

text \<open>
  \<open>serde_json::Value\<close> and the accessors the program uses.  A number is what serde keeps of it: a non-negative integer
  of 64 bits, a negative one, or a float (its text).  An object is the list of its entries; objects built by serde have each key once.
\<close>

datatype json_number = PosInt u64 | NegInt int | Float string

datatype json =
  JNull | JBool bool | JNumber json_number | JString string | JArray "json list" | JObject "(string \<times> json) list"

fun json_get :: "json \<Rightarrow> string \<Rightarrow> json option" where
  "json_get (JObject entries) k = map_of entries k"
| "json_get _ k = None"

fun as_object :: "json \<Rightarrow> (string \<times> json) list option" where
  "as_object (JObject entries) = Some entries"
| "as_object _ = None"

fun as_array :: "json \<Rightarrow> json list option" where
  "as_array (JArray xs) = Some xs"
| "as_array _ = None"

fun as_str :: "json \<Rightarrow> string option" where
  "as_str (JString s) = Some s"
| "as_str _ = None"

fun as_bool :: "json \<Rightarrow> bool option" where
  "as_bool (JBool b) = Some b"
| "as_bool _ = None"

fun as_u64 :: "json \<Rightarrow> u64 option" where
  "as_u64 (JNumber (PosInt n)) = Some n"
| "as_u64 _ = None"

text \<open>\<open>i64::MAX\<close> bounds what a non-negative number yields.\<close>

fun as_i64 :: "json \<Rightarrow> int option" where
  "as_i64 (JNumber (PosInt n)) = (if uint n < 2 ^ 63 then Some (uint n) else None)"
| "as_i64 (JNumber (NegInt n)) = Some n"
| "as_i64 _ = None"

text \<open>\<open>v.get(k).and_then(f)\<close>.\<close>

definition json_field :: "json \<Rightarrow> string \<Rightarrow> (json \<Rightarrow> 'a option) \<Rightarrow> 'a option" where
  "json_field v k f = Option.bind (json_get v k) f"

definition json_u64 :: "u64 \<Rightarrow> json" where
  "json_u64 n = JNumber (PosInt n)"

definition json_i64 :: "int \<Rightarrow> json" where
  "json_i64 n = JNumber (if n < 0 then NegInt n else PosInt (word_of_int n))"

lemma json_field_Some: "json_field v k f = Some x \<longleftrightarrow> (\<exists>y. json_get v k = Some y \<and> f y = Some x)"
  by (auto simp: json_field_def bind_eq_Some_conv)

lemma as_u64_json [simp]: "as_u64 (json_u64 n) = Some n"
  by (simp add: json_u64_def)

text \<open>\<open>s.contains(p)\<close>.\<close>

fun contains_sub :: "string \<Rightarrow> string \<Rightarrow> bool" where
  "contains_sub [] p = (p = [])"
| "contains_sub (c # s) p = (starts_with (c # s) p \<or> contains_sub s p)"

lemma contains_sub_iff: "contains_sub s p \<longleftrightarrow> (\<exists>a b. s = a @ p @ b)"
proof (induction s)
  case (Cons c s)
  have "(\<exists>a b. c # s = a @ p @ b) \<longleftrightarrow> (\<exists>b. c # s = p @ b) \<or> (\<exists>a b. s = a @ p @ b)"
  proof
    assume "\<exists>a b. c # s = a @ p @ b"
    then obtain a b where eq: "c # s = a @ p @ b" by blast
    then show "(\<exists>b. c # s = p @ b) \<or> (\<exists>a b. s = a @ p @ b)" by (cases a) auto
  next
    assume "(\<exists>b. c # s = p @ b) \<or> (\<exists>a b. s = a @ p @ b)"
    then show "\<exists>a b. c # s = a @ p @ b" by (metis append.left_neutral append_Cons)
  qed
  then show ?case by (simp add: Cons starts_with_iff)
qed simp

end
