(* ===== verification/Receipt.thy ===== *)
theory Receipt
  imports Json CoreModel
begin

section \<open>Acceptance receipts\<close>

text \<open>
  The offline validation of \<open>core/acceptance_receipt.rs\<close>: bounds, the scan for duplicate keys and for disclosures, the
  binding checks and the terminal states.  The JSON parser and the deserialiser of the request are serde's and a parameter
  (\<open>receipt_serde\<close>): what the streaming parser delivers for a document, the value it builds, and the
  typed request of a value.
\<close>

subsection \<open>Data\<close>

definition ACCEPTANCE_RECEIPT_VALIDATION_CONTRACT :: string where
  "ACCEPTANCE_RECEIPT_VALIDATION_CONTRACT = ''vmcell.acceptance-receipt-validation.v1''"

definition REQUEST_CONTRACT :: string where
  "REQUEST_CONTRACT = ''vmcell.acceptance-receipt-validation-request.v1''"

definition RECEIPT_CONTRACT :: string where
  "RECEIPT_CONTRACT = ''vmcell.real-platform-acceptance-receipt.v1''"

definition SCHEMA_VERSION :: u32 where
  "SCHEMA_VERSION = 1"

definition MAX_ACCEPTANCE_RECEIPT_BYTES :: nat where
  "MAX_ACCEPTANCE_RECEIPT_BYTES = 256 * 1024"

definition MAX_VALUE_BYTES :: nat where
  "MAX_VALUE_BYTES = 256"

definition MAX_JSON_DEPTH :: nat where
  "MAX_JSON_DEPTH = 16"

definition MAX_JSON_OBJECT_FIELDS :: nat where
  "MAX_JSON_OBJECT_FIELDS = 32"

definition MAX_JSON_ARRAY_ITEMS :: nat where
  "MAX_JSON_ARRAY_ITEMS = 16"

definition V03_RELEASE_REF :: string where
  "V03_RELEASE_REF = ''release/v0.3.0''"

definition V03_CANDIDATE_SHA :: string where
  "V03_CANDIDATE_SHA = ''d0af04b2e84cf2226628173d2ed0d295aed01f2b''"

definition V03_CANDIDATE_VERSION :: string where
  "V03_CANDIDATE_VERSION = ''0.3.0''"

definition NOT_APPLICABLE :: string where
  "NOT_APPLICABLE = ''not_applicable''"

definition RESERVED_NON_EVIDENCE_IDS :: "string list" where
  "RESERVED_NON_EVIDENCE_IDS =
     [''blockedexternal'', ''developmentonly'', ''experimental'', ''notapplicable'', ''notevaluated'', ''notexecuted'',
      ''ownerdecisionrequired'', ''partial'', ''pass'', ''pendingrealplatformgate'', ''preflightpass'', ''supported'',
      ''untested'', ''unsupported'']"

datatype acceptance_receipt_disposition = Receipt_Pass | Receipt_PreflightOnly | Receipt_TerminalNotPass | Receipt_Rejected

record acceptance_receipt_report =
  arr_schema_version :: u32
  arr_contract :: string
  arr_authorizing :: bool
  arr_support_promotion :: string
  arr_document_sha256 :: string
  arr_document_valid :: bool
  arr_disposition :: acceptance_receipt_disposition
  arr_findings :: "string list"

record receipt_tuple =
  tu_host_os :: string
  tu_host_architecture :: string
  tu_provider :: string
  tu_accelerator :: string
  tu_guest_os :: string
  tu_guest_architecture :: string
  tu_guest_transport :: string

record expected_immutable_base =
  eib_format :: string
  eib_size_bytes :: u64
  eib_sha256 :: string

record expected_binding =
  eb_release_ref :: string
  eb_candidate_sha :: string
  eb_candidate_version :: string
  eb_candidate_binary_sha256 :: string
  eb_preflight_receipt_sha256 :: string
  eb_tuple :: receipt_tuple
  eb_immutable_base :: expected_immutable_base

datatype real_platform_acceptance = Acceptance_Pending | Acceptance_Completed

datatype terminal_result =
  Terminal_PreflightPass | Terminal_Pass | Terminal_Partial | Terminal_BlockedExternal | Terminal_OwnerDecisionRequired

record receipt_repository =
  rep_slug :: string
  rep_release_ref :: string
  rep_candidate_sha :: string
  rep_checkout_clean :: bool

record candidate_binary =
  cb_version :: string
  cb_sha256 :: string

record preflight_binding =
  pf_receipt_sha256 :: string
  pf_evidence_id :: string

record receipt_immutable_base =
  rib_format :: string
  rib_size_bytes :: u64
  rib_sha256_before :: string
  rib_sha256_after :: string
  rib_backing_parent :: "string option"

record overlay_binding =
  ob_base_sha256 :: string
  ob_identity_evidence_id :: string
  ob_cleanup_completed :: bool

datatype receipt_run_mode = Mode_ObserveOnlyPreflight | Mode_AuthorizedRealRun

record run_evidence =
  re_mode :: receipt_run_mode
  re_authorization_evidence_id :: string
  re_isolation_evidence_id :: string
  re_exact_owned_namespace :: string
  re_cell_id :: "string option"
  re_provider_object_evidence_id :: string
  re_runtime_receipt_evidence_id :: string
  re_lifecycle_evidence_id :: string
  re_guest_evidence_id :: string
  re_unknown_guest_effect_replayed :: bool

record cleanup_evidence =
  ce_policy :: string
  ce_evidence_id :: string
  ce_immutable_base_sha256_after :: string
  ce_foreign_state_unchanged :: bool
  ce_manual_review_retained :: bool

record filled_receipt =
  fr_schema_version :: u32
  fr_contract :: string
  fr_authorizing :: bool
  fr_real_platform_acceptance :: real_platform_acceptance
  fr_result :: terminal_result
  fr_repository :: receipt_repository
  fr_candidate_binary :: candidate_binary
  fr_tuple :: receipt_tuple
  fr_preflight :: preflight_binding
  fr_immutable_base :: receipt_immutable_base
  fr_overlay :: overlay_binding
  fr_run :: run_evidence
  fr_cleanup :: cleanup_evidence
  fr_support_status :: string
  fr_support_promotion :: string

record validation_request =
  vq_schema_version :: u32
  vq_contract :: string
  vq_expected_binding :: expected_binding
  vq_receipt :: filled_receipt

datatype input_scan_error = Scan_Disclosure | Scan_Limit

subsection \<open>The parser\<close>

text \<open>What the streaming parser delivers to a visitor, in document order: scalars, elements, keys with their values.
  \<open>Raw_Broken\<close> is a value at which the syntax fails; the flag of an object says that reading the key after its last entry fails.\<close>

datatype raw_json = Raw_Scalar | Raw_Array "raw_json list" | Raw_Object "(string \<times> raw_json) list" bool | Raw_Broken

record receipt_serde =
  sd_stream :: "string \<Rightarrow> raw_json"
  sd_end :: "string \<Rightarrow> bool"
  sd_value :: "string \<Rightarrow> json option"
  sd_request :: "json \<Rightarrow> validation_request option"

text \<open>\<open>DuplicateFreeJson\<close>: the error is whether it was a duplicate key.\<close>

fun duplicate_free :: "raw_json \<Rightarrow> bool + unit"
  and duplicate_free_entries :: "string list \<Rightarrow> bool \<Rightarrow> (string \<times> raw_json) list \<Rightarrow> bool + unit"
  and duplicate_free_elements :: "raw_json list \<Rightarrow> bool + unit" where
  "duplicate_free Raw_Scalar = Inr ()"
| "duplicate_free Raw_Broken = Inl False"
| "duplicate_free (Raw_Array xs) = duplicate_free_elements xs"
| "duplicate_free (Raw_Object entries broken) = duplicate_free_entries [] broken entries"
| "duplicate_free_elements [] = Inr ()"
| "duplicate_free_elements (x # xs) = res_bind (duplicate_free x) (\<lambda>_. duplicate_free_elements xs)"
| "duplicate_free_entries keys broken [] = (if broken then Inl False else Inr ())"
| "duplicate_free_entries keys broken ((k, x) # entries) =
     (if k \<in> set keys then Inl True
      else res_bind (duplicate_free x) (\<lambda>_. duplicate_free_entries (k # keys) broken entries))"

definition reject_duplicate_json_keys :: "receipt_serde \<Rightarrow> string \<Rightarrow> bool + unit" where
  "reject_duplicate_json_keys S bytes = res_bind (duplicate_free (sd_stream S bytes)) (\<lambda>_. ensure (sd_end S bytes) False)"

subsection \<open>Scanning for disclosures\<close>

definition BIDI_CONTROLS :: "nat list" where
  "BIDI_CONTROLS = [0x061c, 0x200e, 0x200f, 0x202a, 0x202b, 0x202c, 0x202d, 0x202e, 0x2066, 0x2067, 0x2068, 0x2069,
     0x206a, 0x206b, 0x206c, 0x206d, 0x206e, 0x206f]"

definition string_discloses_host_data :: "string \<Rightarrow> bool" where
  "string_discloses_host_data v \<longleftrightarrow>
     list_ex (\<lambda>c. char_is_control c \<or> c \<in> set BIDI_CONTROLS) (chars v)
     \<or> starts_with v ''/'' \<or> starts_with v [backslash, backslash] \<or> starts_with v ''file:''
     \<or> contains_sub v ''://'' \<or> (1 < length v \<and> v ! 1 = CHR '':'')"

definition FORBIDDEN_KEYS :: "string list" where
  "FORBIDDEN_KEYS = [''password'', ''credential'', ''secret'', ''command'', ''argv'', ''guestoutput'', ''hostpath'', ''canonicalpath'']"

definition key_discloses_forbidden_data :: "string \<Rightarrow> bool" where
  "key_discloses_forbidden_data k \<longleftrightarrow>
     (let normalized = map ascii_low (filter is_ascii_alphanumeric k) in list_ex (contains_sub normalized) FORBIDDEN_KEYS)"

fun scan_sanitized_json :: "json \<Rightarrow> nat \<Rightarrow> input_scan_error + unit"
  and scan_elements :: "json list \<Rightarrow> nat \<Rightarrow> input_scan_error + unit"
  and scan_entries :: "(string \<times> json) list \<Rightarrow> nat \<Rightarrow> input_scan_error + unit" where
  "scan_sanitized_json v depth =
     (if depth > MAX_JSON_DEPTH then Inl Scan_Limit
      else case v of
        JString s \<Rightarrow> res_bind (ensure (length s \<le> MAX_VALUE_BYTES) Scan_Limit) (\<lambda>_.
          ensure (\<not> string_discloses_host_data s) Scan_Disclosure)
      | JArray xs \<Rightarrow> res_bind (ensure (length xs \<le> MAX_JSON_ARRAY_ITEMS) Scan_Limit) (\<lambda>_. scan_elements xs depth)
      | JObject entries \<Rightarrow> res_bind (ensure (length entries \<le> MAX_JSON_OBJECT_FIELDS) Scan_Limit) (\<lambda>_. scan_entries entries depth)
      | _ \<Rightarrow> Inr ())"
| "scan_elements [] depth = Inr ()"
| "scan_elements (x # xs) depth = res_bind (scan_sanitized_json x (depth + 1)) (\<lambda>_. scan_elements xs depth)"
| "scan_entries [] depth = Inr ()"
| "scan_entries ((k, x) # entries) depth =
     (if key_discloses_forbidden_data k then Inl Scan_Disclosure
      else res_bind (scan_sanitized_json x (depth + 1)) (\<lambda>_. scan_entries entries depth))"

definition has_required_nullable_fields :: "json \<Rightarrow> bool" where
  "has_required_nullable_fields v =
     (case json_field v ''receipt'' as_object of None \<Rightarrow> False
      | Some receipt \<Rightarrow> (case Option.bind (map_of receipt ''immutable_base'') as_object of None \<Rightarrow> False
        | Some base \<Rightarrow> (case Option.bind (map_of receipt ''run'') as_object of None \<Rightarrow> False
          | Some run \<Rightarrow> map_of base ''backing_parent'' \<noteq> None \<and> map_of run ''cell_id'' \<noteq> None)))"

subsection \<open>Identifiers\<close>

definition is_lower_hex :: "string \<Rightarrow> nat \<Rightarrow> bool" where
  "is_lower_hex v n \<longleftrightarrow> length v = n \<and> list_all (\<lambda>c. is_ascii_digit c \<or> (97 \<le> byte c \<and> byte c \<le> 102)) v"

definition is_opaque_id :: "string \<Rightarrow> bool" where
  "is_opaque_id v =
     (if length v < 12 \<or> length v > 128 then False
      else
        let lower = to_ascii_lowercase v; collapsed = filter is_ascii_alphanumeric lower in
        if collapsed \<in> set RESERVED_NON_EVIDENCE_IDS \<or> starts_with collapsed ''required'' then False
        else if list_ex (contains_sub lower)
          [''required_'', ''password'', ''credential'', ''secret'', ''command'', ''guestoutput''] then False
        else list_all (\<lambda>c. is_ascii_alphanumeric c \<or> c \<in> set ''-_.'') v)"

definition is_opaque_or_not_applicable :: "string \<Rightarrow> bool" where
  "is_opaque_or_not_applicable v \<longleftrightarrow> v = NOT_APPLICABLE \<or> is_opaque_id v"

definition is_non_nil_uuid :: "crates \<Rightarrow> string \<Rightarrow> bool" where
  "is_non_nil_uuid X v = (case uuid_parse_str X v of None \<Rightarrow> False | Some u \<Rightarrow> u \<noteq> 0)"

definition is_registered_v03_qemu_tuple :: "receipt_tuple \<Rightarrow> bool" where
  "is_registered_v03_qemu_tuple t \<longleftrightarrow> tu_host_architecture t = ''x86_64'' \<and> tu_provider t = ''qemu'' \<and> tu_guest_os t = ''linux''
     \<and> tu_guest_architecture t = ''x86_64'' \<and> tu_guest_transport t = ''qga''
     \<and> (tu_host_os t, tu_accelerator t) \<in> {(''windows'', ''whpx''), (''linux'', ''kvm'')}"

subsection \<open>Checks\<close>

definition push_finding :: "string \<Rightarrow> string list \<Rightarrow> string list" where
  "push_finding code fs = (if code \<in> set fs then fs else fs @ [code])"

text \<open>The closure \<open>reject\<close> with the two variables it captures: whether the document is valid so far, and the findings.\<close>

type_synonym verdict = "bool \<times> string list"

definition reject_if :: "bool \<Rightarrow> string \<Rightarrow> verdict \<Rightarrow> verdict" where
  "reject_if b code v = (if b then (False, push_finding code (snd v)) else v)"

definition validate_binding :: "expected_binding \<Rightarrow> verdict \<Rightarrow> verdict" where
  "validate_binding b v =
     reject_if (\<not> is_lower_hex (eb_candidate_binary_sha256 b) 64 \<or> \<not> is_lower_hex (eb_preflight_receipt_sha256 b) 64
         \<or> eib_format (eb_immutable_base b) \<noteq> ''qcow2'' \<or> eib_size_bytes (eb_immutable_base b) = 0
         \<or> \<not> is_lower_hex (eib_sha256 (eb_immutable_base b)) 64) ''receipt.invalid_binding''
     (reject_if (eb_release_ref b \<noteq> V03_RELEASE_REF \<or> eb_candidate_sha b \<noteq> V03_CANDIDATE_SHA
         \<or> eb_candidate_version b \<noteq> V03_CANDIDATE_VERSION \<or> \<not> is_registered_v03_qemu_tuple (eb_tuple b))
       ''receipt.candidate_binding_mismatch'' v)"

definition validate_receipt_ids :: "crates \<Rightarrow> filled_receipt \<Rightarrow> verdict \<Rightarrow> verdict" where
  "validate_receipt_ids X r v =
     (let run = fr_run r;
          required = [pf_evidence_id (fr_preflight r), re_isolation_evidence_id run, re_exact_owned_namespace run];
          possibly_not_applicable = [ob_identity_evidence_id (fr_overlay r), re_authorization_evidence_id run,
            re_provider_object_evidence_id run, re_runtime_receipt_evidence_id run, re_lifecycle_evidence_id run,
            re_guest_evidence_id run, ce_evidence_id (fr_cleanup r)] in
      reject_if (list_ex (\<lambda>x. \<not> is_opaque_or_not_applicable x) possibly_not_applicable) ''receipt.required_evidence_missing''
      (reject_if (list_ex (\<lambda>x. \<not> is_opaque_id x) required
          \<or> (case re_cell_id run of None \<Rightarrow> False | Some i \<Rightarrow> \<not> is_non_nil_uuid X i)) ''receipt.required_evidence_missing'' v))"

definition validate_cross_fields :: "validation_request \<Rightarrow> verdict \<Rightarrow> verdict" where
  "validate_cross_fields q v =
     (let e = vq_expected_binding q; r = vq_receipt q; base = fr_immutable_base r; sha = eib_sha256 (eb_immutable_base e) in
      reject_if (ce_policy (fr_cleanup r) \<noteq> ''exact-owned-only'' \<or> \<not> ce_foreign_state_unchanged (fr_cleanup r)
          \<or> re_unknown_guest_effect_replayed (fr_run r)) ''receipt.state_contradiction''
      (reject_if (rib_format base \<noteq> ''qcow2'' \<or> rib_size_bytes base \<noteq> eib_size_bytes (eb_immutable_base e)
          \<or> rib_sha256_before base \<noteq> sha \<or> rib_sha256_after base \<noteq> sha \<or> rib_backing_parent base \<noteq> None
          \<or> ob_base_sha256 (fr_overlay r) \<noteq> sha \<or> ce_immutable_base_sha256_after (fr_cleanup r) \<noteq> sha
          \<or> \<not> is_lower_hex (rib_sha256_before base) 64 \<or> \<not> is_lower_hex (rib_sha256_after base) 64
          \<or> \<not> is_lower_hex (ob_base_sha256 (fr_overlay r)) 64
          \<or> \<not> is_lower_hex (ce_immutable_base_sha256_after (fr_cleanup r)) 64) ''receipt.base_binding_mismatch''
      (reject_if (pf_receipt_sha256 (fr_preflight r) \<noteq> eb_preflight_receipt_sha256 e
          \<or> \<not> is_lower_hex (pf_receipt_sha256 (fr_preflight r)) 64) ''receipt.preflight_binding_mismatch''
      (reject_if (fr_tuple r \<noteq> eb_tuple e) ''receipt.tuple_binding_mismatch''
      (reject_if (cb_version (fr_candidate_binary r) \<noteq> eb_candidate_version e
          \<or> cb_sha256 (fr_candidate_binary r) \<noteq> eb_candidate_binary_sha256 e
          \<or> \<not> is_lower_hex (cb_sha256 (fr_candidate_binary r)) 64) ''receipt.binary_binding_mismatch''
      (reject_if (\<not> rep_checkout_clean (fr_repository r)) ''receipt.checkout_not_clean''
      (reject_if (rep_slug (fr_repository r) \<noteq> ''JerrySkywalker/vm-cell-manager''
          \<or> rep_release_ref (fr_repository r) \<noteq> eb_release_ref e
          \<or> rep_candidate_sha (fr_repository r) \<noteq> eb_candidate_sha e) ''receipt.candidate_binding_mismatch'' v)))))))"

definition outcome_evidence :: "filled_receipt \<Rightarrow> string list" where
  "outcome_evidence r = [ob_identity_evidence_id (fr_overlay r), re_provider_object_evidence_id (fr_run r),
     re_runtime_receipt_evidence_id (fr_run r), re_lifecycle_evidence_id (fr_run r), re_guest_evidence_id (fr_run r),
     ce_evidence_id (fr_cleanup r)]"

definition validate_pass_terminal_state :: "filled_receipt \<Rightarrow> bool" where
  "validate_pass_terminal_state r \<longleftrightarrow> fr_real_platform_acceptance r = Acceptance_Completed
     \<and> re_mode (fr_run r) = Mode_AuthorizedRealRun \<and> is_opaque_id (re_authorization_evidence_id (fr_run r))
     \<and> re_cell_id (fr_run r) \<noteq> None \<and> list_all is_opaque_id (outcome_evidence r)
     \<and> ob_cleanup_completed (fr_overlay r) \<and> \<not> ce_manual_review_retained (fr_cleanup r)"

definition validate_preflight_terminal_state :: "filled_receipt \<Rightarrow> bool" where
  "validate_preflight_terminal_state r \<longleftrightarrow> fr_real_platform_acceptance r = Acceptance_Pending
     \<and> re_mode (fr_run r) = Mode_ObserveOnlyPreflight \<and> re_authorization_evidence_id (fr_run r) = NOT_APPLICABLE
     \<and> re_cell_id (fr_run r) = None \<and> list_all (\<lambda>x. x = NOT_APPLICABLE) (outcome_evidence r)
     \<and> \<not> ob_cleanup_completed (fr_overlay r) \<and> \<not> ce_manual_review_retained (fr_cleanup r)"

subsection \<open>Validation\<close>

definition receipt_report :: "string \<Rightarrow> acceptance_receipt_disposition \<Rightarrow> string list \<Rightarrow> acceptance_receipt_report" where
  "receipt_report sha disposition fs = \<lparr>arr_schema_version = SCHEMA_VERSION, arr_contract = ACCEPTANCE_RECEIPT_VALIDATION_CONTRACT,
     arr_authorizing = False, arr_support_promotion = ''not_evaluated'', arr_document_sha256 = sha,
     arr_document_valid = (disposition \<noteq> Receipt_Rejected), arr_disposition = disposition, arr_findings = fs\<rparr>"

definition rejected :: "string \<Rightarrow> string \<Rightarrow> acceptance_receipt_report" where
  "rejected sha code = receipt_report sha Receipt_Rejected [code]"

definition request_verdict :: "crates \<Rightarrow> validation_request \<Rightarrow> verdict" where
  "request_verdict X q =
     (let r = vq_receipt q in
      validate_cross_fields q (validate_receipt_ids X r (validate_binding (vq_expected_binding q)
      (reject_if (fr_support_status r \<noteq> ''untested'') ''receipt.support_status_mismatch''
      (reject_if (fr_support_promotion r \<noteq> ''not_evaluated'') ''receipt.support_promotion_claim''
      (reject_if (fr_authorizing r) ''receipt.authorizing_claim''
      (reject_if (vq_contract q \<noteq> REQUEST_CONTRACT \<or> fr_schema_version r \<noteq> SCHEMA_VERSION \<or> fr_contract r \<noteq> RECEIPT_CONTRACT)
        ''receipt.unsupported_contract''
      (reject_if (vq_schema_version q \<noteq> SCHEMA_VERSION) ''receipt.unsupported_schema'' (True, [])))))))))"

definition terminal_report :: "string \<Rightarrow> filled_receipt \<Rightarrow> string list \<Rightarrow> acceptance_receipt_report" where
  "terminal_report sha r fs = (case fr_result r of
      Terminal_Pass \<Rightarrow>
        if validate_pass_terminal_state r then receipt_report sha Receipt_Pass fs
        else receipt_report sha Receipt_Rejected (push_finding ''receipt.state_contradiction'' fs)
    | Terminal_PreflightPass \<Rightarrow>
        if validate_preflight_terminal_state r
        then receipt_report sha Receipt_PreflightOnly (push_finding ''receipt.preflight_only'' fs)
        else receipt_report sha Receipt_Rejected (push_finding ''receipt.state_contradiction'' fs)
    | _ \<Rightarrow>
        if fr_real_platform_acceptance r \<noteq> Acceptance_Pending
        then receipt_report sha Receipt_Rejected (push_finding ''receipt.state_contradiction'' fs)
        else receipt_report sha Receipt_TerminalNotPass (push_finding ''receipt.terminal_not_pass'' fs))"

definition validate_acceptance_receipt_bytes :: "crates \<Rightarrow> receipt_serde \<Rightarrow> string \<Rightarrow> acceptance_receipt_report" where
  "validate_acceptance_receipt_bytes X S bytes =
     (let sha = sha256_hex X bytes in
      if length bytes > MAX_ACCEPTANCE_RECEIPT_BYTES then rejected sha ''receipt.input_too_large''
      else if \<not> is_utf8 bytes then rejected sha ''receipt.invalid_utf8''
      else case reject_duplicate_json_keys S bytes of
        Inl duplicate \<Rightarrow> rejected sha (if duplicate then ''receipt.duplicate_key'' else ''receipt.invalid_json'')
      | Inr _ \<Rightarrow> (case sd_value S bytes of
          None \<Rightarrow> rejected sha ''receipt.invalid_json''
        | Some v \<Rightarrow> (case scan_sanitized_json v 0 of
            Inl Scan_Disclosure \<Rightarrow> rejected sha ''receipt.forbidden_disclosure''
          | Inl Scan_Limit \<Rightarrow> rejected sha ''receipt.input_limit_exceeded''
          | Inr _ \<Rightarrow>
            if \<not> has_required_nullable_fields v then rejected sha ''receipt.invalid_document''
            else (case sd_request S v of
                None \<Rightarrow> rejected sha ''receipt.invalid_document''
              | Some q \<Rightarrow>
                let (valid, fs) = request_verdict X q in
                if \<not> valid then receipt_report sha Receipt_Rejected fs
                else terminal_report sha (vq_receipt q) fs))))"

subsection \<open>What the scan accepts\<close>

text \<open>\<open>occurs d x v\<close>: the value \<open>x\<close> stands in \<open>v\<close> under \<open>d\<close> levels of arrays and objects.\<close>

inductive occurs :: "nat \<Rightarrow> json \<Rightarrow> json \<Rightarrow> bool" where
  here: "occurs 0 v v"
| element: "y \<in> set xs \<Longrightarrow> occurs d x y \<Longrightarrow> occurs (Suc d) x (JArray xs)"
| entry: "(k, y) \<in> set es \<Longrightarrow> occurs d x y \<Longrightarrow> occurs (Suc d) x (JObject es)"

inductive_simps occurs_simps:
  "occurs d x JNull" "occurs d x (JBool b)" "occurs d x (JNumber n)" "occurs d x (JString s)"
  "occurs d x (JArray xs)" "occurs d x (JObject es)"

definition node_ok :: "nat \<Rightarrow> json \<Rightarrow> bool" where
  "node_ok d x \<longleftrightarrow> d \<le> MAX_JSON_DEPTH \<and> (case x of
      JString s \<Rightarrow> length s \<le> MAX_VALUE_BYTES \<and> \<not> string_discloses_host_data s
    | JArray xs \<Rightarrow> length xs \<le> MAX_JSON_ARRAY_ITEMS
    | JObject es \<Rightarrow> length es \<le> MAX_JSON_OBJECT_FIELDS \<and> (\<forall>(k, y) \<in> set es. \<not> key_discloses_forbidden_data k)
    | _ \<Rightarrow> True)"

definition sanitized :: "json \<Rightarrow> bool" where
  "sanitized v \<longleftrightarrow> (\<forall>d x. occurs d x v \<longrightarrow> node_ok d x)"

lemma occurs_all:
  "(\<forall>d x. occurs d x (JArray xs) \<longrightarrow> P d x) \<longleftrightarrow> P 0 (JArray xs) \<and> (\<forall>y \<in> set xs. \<forall>d x. occurs d x y \<longrightarrow> P (Suc d) x)"
  "(\<forall>d x. occurs d x (JObject es) \<longrightarrow> P d x) \<longleftrightarrow> P 0 (JObject es) \<and> (\<forall>(k, y) \<in> set es. \<forall>d x. occurs d x y \<longrightarrow> P (Suc d) x)"
  unfolding occurs_simps by blast+

lemma scan_exact:
  "scan_sanitized_json v n = Inr () \<longleftrightarrow> (\<forall>d x. occurs d x v \<longrightarrow> node_ok (n + d) x)"
  "scan_elements xs n = Inr () \<longleftrightarrow> (\<forall>y \<in> set xs. \<forall>d x. occurs d x y \<longrightarrow> node_ok (Suc n + d) x)"
  "scan_entries es n = Inr () \<longleftrightarrow> (\<forall>(k, y) \<in> set es. \<not> key_discloses_forbidden_data k \<and> (\<forall>d x. occurs d x y \<longrightarrow> node_ok (Suc n + d) x))"
proof (induction v n and xs n and es n rule: scan_sanitized_json_scan_elements_scan_entries.induct)
  case (1 v depth)
  show ?case
  proof (cases "depth > MAX_JSON_DEPTH")
    case True
    then have "\<not> node_ok (depth + 0) v" by (simp add: node_ok_def)
    then have "\<not> (\<forall>d x. occurs d x v \<longrightarrow> node_ok (depth + d) x)" using occurs.here by blast
    with True show ?thesis by simp
  next
    case False
    note IH = 1 [OF False]
    show ?thesis
    proof (cases v)
      case (JArray xs)
      with False IH(1) [OF JArray] show ?thesis
        unfolding occurs_all JArray by (simp add: node_ok_def [of depth] ensure_def)
    next
      case (JObject es)
      with False IH(2) [OF JObject] show ?thesis
        unfolding occurs_all JObject by (auto simp: node_ok_def [of depth] ensure_def)
    qed (use False in \<open>auto simp: occurs_simps node_ok_def ensure_def\<close>)
  qed
qed (auto simp: ensure_def)

subsection \<open>What validation accepts\<close>

text \<open>A verdict is sound when its findings are distinct and there are none exactly when it is positive.\<close>

definition sound_verdict :: "verdict \<Rightarrow> bool" where
  "sound_verdict v \<longleftrightarrow> distinct (snd v) \<and> (fst v \<longleftrightarrow> snd v = [])"

lemma push_finding_distinct: "distinct fs \<Longrightarrow> distinct (push_finding c fs)"
  by (simp add: push_finding_def)

lemma push_finding_Nil [simp]: "push_finding c fs \<noteq> []" "push_finding c [] = [c]"
  by (auto simp: push_finding_def)

lemma reject_if_sound: "sound_verdict v \<Longrightarrow> sound_verdict (reject_if b c v)"
  by (auto simp: sound_verdict_def reject_if_def push_finding_distinct)

lemma fst_reject_if [simp]: "fst (reject_if b c v) \<longleftrightarrow> \<not> b \<and> fst v"
  by (simp add: reject_if_def)

lemma request_verdict_sound: "sound_verdict (request_verdict X q)"
  unfolding request_verdict_def validate_cross_fields_def validate_receipt_ids_def validate_binding_def Let_def
  by (intro reject_if_sound) (simp add: sound_verdict_def)

text \<open>A request whose receipt is bound to the frozen candidate, field by field.\<close>

definition registered_tuples :: "receipt_tuple set" where
  "registered_tuples = {\<lparr>tu_host_os = os, tu_host_architecture = ''x86_64'', tu_provider = ''qemu'', tu_accelerator = acc,
     tu_guest_os = ''linux'', tu_guest_architecture = ''x86_64'', tu_guest_transport = ''qga''\<rparr> |os acc.
     (os, acc) = (''windows'', ''whpx'') \<or> (os, acc) = (''linux'', ''kvm'')}"

definition bound_receipt :: "expected_binding \<Rightarrow> filled_receipt \<Rightarrow> bool" where
  "bound_receipt e r \<longleftrightarrow>
     (let sha = eib_sha256 (eb_immutable_base e); len = eib_size_bytes (eb_immutable_base e) in
      eb_release_ref e = V03_RELEASE_REF \<and> eb_candidate_sha e = V03_CANDIDATE_SHA \<and> eb_candidate_version e = V03_CANDIDATE_VERSION
      \<and> eb_tuple e \<in> registered_tuples \<and> eib_format (eb_immutable_base e) = ''qcow2'' \<and> len \<noteq> 0 \<and> is_lower_hex sha 64
      \<and> is_lower_hex (eb_candidate_binary_sha256 e) 64 \<and> is_lower_hex (eb_preflight_receipt_sha256 e) 64
      \<and> fr_repository r = \<lparr>rep_slug = ''JerrySkywalker/vm-cell-manager'', rep_release_ref = V03_RELEASE_REF,
          rep_candidate_sha = V03_CANDIDATE_SHA, rep_checkout_clean = True\<rparr>
      \<and> fr_candidate_binary r = \<lparr>cb_version = V03_CANDIDATE_VERSION, cb_sha256 = eb_candidate_binary_sha256 e\<rparr>
      \<and> fr_tuple r = eb_tuple e \<and> pf_receipt_sha256 (fr_preflight r) = eb_preflight_receipt_sha256 e
      \<and> fr_immutable_base r = \<lparr>rib_format = ''qcow2'', rib_size_bytes = len, rib_sha256_before = sha, rib_sha256_after = sha,
          rib_backing_parent = None\<rparr>
      \<and> ob_base_sha256 (fr_overlay r) = sha \<and> ce_immutable_base_sha256_after (fr_cleanup r) = sha
      \<and> ce_policy (fr_cleanup r) = ''exact-owned-only'' \<and> ce_foreign_state_unchanged (fr_cleanup r)
      \<and> \<not> re_unknown_guest_effect_replayed (fr_run r))"

definition evidenced_receipt :: "crates \<Rightarrow> filled_receipt \<Rightarrow> bool" where
  "evidenced_receipt X r \<longleftrightarrow> is_opaque_id (pf_evidence_id (fr_preflight r)) \<and> is_opaque_id (re_isolation_evidence_id (fr_run r))
     \<and> is_opaque_id (re_exact_owned_namespace (fr_run r)) \<and> is_opaque_or_not_applicable (re_authorization_evidence_id (fr_run r))
     \<and> list_all is_opaque_or_not_applicable (outcome_evidence r)
     \<and> (\<forall>i. re_cell_id (fr_run r) = Some i \<longrightarrow> (\<exists>u. uuid_parse_str X i = Some u \<and> u \<noteq> 0))"

definition modest_receipt :: "filled_receipt \<Rightarrow> bool" where
  "modest_receipt r \<longleftrightarrow> fr_schema_version r = 1 \<and> fr_contract r = RECEIPT_CONTRACT \<and> \<not> fr_authorizing r
     \<and> fr_support_promotion r = ''not_evaluated'' \<and> fr_support_status r = ''untested''"

lemma registered_tuples_iff: "is_registered_v03_qemu_tuple t \<longleftrightarrow> t \<in> registered_tuples"
  by (cases t) (auto simp: is_registered_v03_qemu_tuple_def registered_tuples_def)

lemma bound_receipt_iff:
  "fst (validate_cross_fields q (validate_binding (vq_expected_binding q) v)) \<longleftrightarrow>
     bound_receipt (vq_expected_binding q) (vq_receipt q) \<and> fst v"
  unfolding validate_cross_fields_def validate_binding_def bound_receipt_def Let_def fst_reject_if registered_tuples_iff
  by (cases "fr_repository (vq_receipt q)"; cases "fr_candidate_binary (vq_receipt q)"; cases "fr_immutable_base (vq_receipt q)") auto

lemma evidenced_receipt_iff:
  "fst (validate_receipt_ids X r v) \<longleftrightarrow> evidenced_receipt X r \<and> fst v"
  unfolding validate_receipt_ids_def evidenced_receipt_def Let_def fst_reject_if outcome_evidence_def is_non_nil_uuid_def
  by (auto split: option.splits)

lemma request_verdict_fst:
  "fst (request_verdict X q) \<longleftrightarrow> vq_schema_version q = 1 \<and> vq_contract q = REQUEST_CONTRACT \<and> modest_receipt (vq_receipt q)
     \<and> bound_receipt (vq_expected_binding q) (vq_receipt q) \<and> evidenced_receipt X (vq_receipt q)"
proof -
  define v0 where "v0 = reject_if (fr_support_status (vq_receipt q) \<noteq> ''untested'') ''receipt.support_status_mismatch''
      (reject_if (fr_support_promotion (vq_receipt q) \<noteq> ''not_evaluated'') ''receipt.support_promotion_claim''
      (reject_if (fr_authorizing (vq_receipt q)) ''receipt.authorizing_claim''
      (reject_if (vq_contract q \<noteq> REQUEST_CONTRACT \<or> fr_schema_version (vq_receipt q) \<noteq> SCHEMA_VERSION
          \<or> fr_contract (vq_receipt q) \<noteq> RECEIPT_CONTRACT) ''receipt.unsupported_contract''
      (reject_if (vq_schema_version q \<noteq> SCHEMA_VERSION) ''receipt.unsupported_schema'' (True, [])))))"
  have v0: "fst v0 \<longleftrightarrow> vq_schema_version q = 1 \<and> vq_contract q = REQUEST_CONTRACT \<and> modest_receipt (vq_receipt q)"
    by (auto simp: v0_def modest_receipt_def SCHEMA_VERSION_def)
  let ?b = "validate_binding (vq_expected_binding q)" and ?i = "validate_receipt_ids X (vq_receipt q)"
  have "fst (request_verdict X q) \<longleftrightarrow> fst (validate_cross_fields q (?i (?b v0)))"
    by (simp only: request_verdict_def v0_def Let_def)
  also have "\<dots> \<longleftrightarrow> fst (validate_cross_fields q (?b v0)) \<and> evidenced_receipt X (vq_receipt q)"
    by (auto simp: validate_cross_fields_def Let_def evidenced_receipt_iff)
  finally show ?thesis unfolding bound_receipt_iff v0 by blast
qed

lemma request_verdict_cases:
  obtains "request_verdict X q = (True, [])" | fs where "request_verdict X q = (False, fs)" "fs \<noteq> []" "distinct fs"
  using request_verdict_sound [of X q] by (cases "request_verdict X q") (auto simp: sound_verdict_def)

text \<open>A document without duplicate keys and without syntax errors.\<close>

fun raw_ok :: "raw_json \<Rightarrow> bool" where
  "raw_ok Raw_Scalar = True"
| "raw_ok Raw_Broken = False"
| "raw_ok (Raw_Array xs) = (\<forall>x \<in> set xs. raw_ok x)"
| "raw_ok (Raw_Object es broken) = (\<not> broken \<and> distinct (map fst es) \<and> (\<forall>(k, x) \<in> set es. raw_ok x))"

lemma duplicate_free_exact:
  "duplicate_free x = Inr () \<longleftrightarrow> raw_ok x"
  "duplicate_free_entries keys broken es = Inr () \<longleftrightarrow>
     \<not> broken \<and> distinct (map fst es) \<and> set keys \<inter> fst ` set es = {} \<and> (\<forall>(k, x) \<in> set es. raw_ok x)"
  "duplicate_free_elements xs = Inr () \<longleftrightarrow> (\<forall>x \<in> set xs. raw_ok x)"
  by (induction x and keys broken es and xs rule: duplicate_free_duplicate_free_entries_duplicate_free_elements.induct) auto

text \<open>
  C17: a receipt passes exactly when it should.  The report on a document says that the acceptance passed if and only if: the document is small
  valid UTF-8, one well-formed JSON value without duplicate keys that discloses nothing; its receipt makes no authorizing or promoting claim;
  it is bound field by field to the frozen candidate, binary, tuple, preflight receipt and base image, whose hash is unchanged from
  before the run through the overlay to after the cleanup; all evidence is identified; and it records a completed authorized run with
  finished cleanup.
\<close>

theorem receipt_pass_exact:
  "arr_disposition (validate_acceptance_receipt_bytes X S bytes) = Receipt_Pass \<longleftrightarrow>
     length bytes \<le> 256 * 1024 \<and> is_utf8 bytes \<and> raw_ok (sd_stream S bytes) \<and> sd_end S bytes
     \<and> (\<exists>v q. sd_value S bytes = Some v \<and> sanitized v \<and> has_required_nullable_fields v \<and> sd_request S v = Some q
        \<and> vq_schema_version q = 1 \<and> vq_contract q = REQUEST_CONTRACT \<and> modest_receipt (vq_receipt q)
        \<and> bound_receipt (vq_expected_binding q) (vq_receipt q) \<and> evidenced_receipt X (vq_receipt q)
        \<and> fr_result (vq_receipt q) = Terminal_Pass \<and> validate_pass_terminal_state (vq_receipt q))"
proof -
  have dup: "reject_duplicate_json_keys S bytes = Inr () \<longleftrightarrow> raw_ok (sd_stream S bytes) \<and> sd_end S bytes"
    by (simp add: reject_duplicate_json_keys_def duplicate_free_exact)
  have scan: "scan_sanitized_json v 0 = Inr () \<longleftrightarrow> sanitized v" for v
    unfolding scan_exact(1) sanitized_def by simp
  have verdict: "arr_disposition (case request_verdict X q of (valid, fs) \<Rightarrow>
      if \<not> valid then receipt_report sha Receipt_Rejected fs else terminal_report sha (vq_receipt q) fs) = Receipt_Pass \<longleftrightarrow>
    fst (request_verdict X q) \<and> fr_result (vq_receipt q) = Terminal_Pass \<and> validate_pass_terminal_state (vq_receipt q)" for q sha
    by (cases "request_verdict X q"; cases "fr_result (vq_receipt q)") (simp_all add: terminal_report_def receipt_report_def)
  show ?thesis
    using dup unfolding scan [symmetric]
    by (auto simp: verdict validate_acceptance_receipt_bytes_def Let_def rejected_def receipt_report_def MAX_ACCEPTANCE_RECEIPT_BYTES_def
        request_verdict_fst simp del: scan_sanitized_json.simps split: sum.split option.split input_scan_error.split)
qed

text \<open>
  A validation report never authorizes or promotes anything, carries the hash of the document, calls it valid exactly when it is not
  rejected, repeats no finding, and has no finding exactly when the receipt passed.
\<close>

theorem receipt_reports_consistent:
  "let rep = validate_acceptance_receipt_bytes X S bytes in
     \<not> arr_authorizing rep \<and> arr_support_promotion rep = ''not_evaluated'' \<and> arr_document_sha256 rep = sha256_hex X bytes
     \<and> (arr_document_valid rep \<longleftrightarrow> arr_disposition rep \<noteq> Receipt_Rejected)
     \<and> distinct (arr_findings rep) \<and> (arr_findings rep = [] \<longleftrightarrow> arr_disposition rep = Receipt_Pass)"
proof -
  define ok where "ok rep \<longleftrightarrow> \<not> arr_authorizing rep \<and> arr_support_promotion rep = ''not_evaluated'' \<and> arr_document_sha256 rep = sha256_hex X bytes
     \<and> (arr_document_valid rep \<longleftrightarrow> arr_disposition rep \<noteq> Receipt_Rejected)
     \<and> distinct (arr_findings rep) \<and> (arr_findings rep = [] \<longleftrightarrow> arr_disposition rep = Receipt_Pass)" for rep :: acceptance_receipt_report
  have rej: "ok (rejected (sha256_hex X bytes) c)" for c
    by (simp add: ok_def rejected_def receipt_report_def)
  have ver: "ok (case request_verdict X q of (valid, fs) \<Rightarrow>
      if \<not> valid then receipt_report (sha256_hex X bytes) Receipt_Rejected fs
      else terminal_report (sha256_hex X bytes) (vq_receipt q) fs)" for q
    by (cases rule: request_verdict_cases [of X q]; cases "fr_result (vq_receipt q)")
      (auto simp: ok_def terminal_report_def receipt_report_def)
  have "ok (validate_acceptance_receipt_bytes X S bytes)"
    unfolding validate_acceptance_receipt_bytes_def Let_def
    by (auto simp: rej ver simp del: scan_sanitized_json.simps split: sum.split option.split input_scan_error.split)
  then show ?thesis unfolding ok_def Let_def .
qed

end
