(* ===== verification/Config.thy ===== *)
theory Config
  imports EngineProofs GuestIo
begin

section \<open>Configuration\<close>

text \<open>
  The user configuration of \<open>config.rs\<close>: finding the file, refusing unsafe ones, and resolving its defaults.  The file system and the
  JSON decoder are a parameter (\<open>config_env\<close>); the permission checks of Unix are the flag \<open>of_private\<close> of an opened file.
\<close>

definition CONFIG_SCHEMA_VERSION :: u32 where "CONFIG_SCHEMA_VERSION = 1"
definition MAX_CONFIG_BYTES :: u64 where "MAX_CONFIG_BYTES = 65536"
definition DEFAULT_CPU_COUNT :: u16 where "DEFAULT_CPU_COUNT = 2"
definition DEFAULT_MEMORY_MIB :: u64 where "DEFAULT_MEMORY_MIB = 4096"

datatype config_provider = Config_Hyperv | Config_Qemu

fun config_provider_as_str :: "config_provider \<Rightarrow> string" where
  "config_provider_as_str Config_Hyperv = ''hyperv''"
| "config_provider_as_str Config_Qemu = ''qemu''"

datatype human_output_preference = Output_Normal | Output_Quiet

record user_defaults =
  ud_state_root :: "path option"
  ud_provider :: "config_provider option"
  ud_cpu_count :: "u16 option"
  ud_memory_mib :: "u64 option"
  ud_lock_timeout_ms :: "u64 option"
  ud_readiness_timeout_seconds :: "u64 option"
  ud_action_timeout_seconds :: "u64 option"
  ud_human_output :: "human_output_preference option"

record user_config =
  uc_schema_version :: u32
  uc_defaults :: user_defaults

record resolved_config =
  rcf_state_root :: "path option"
  rcf_provider :: config_provider
  rcf_provider_preference :: "config_provider option"
  rcf_cpu_count :: u16
  rcf_memory_mib :: u64
  rcf_lock_timeout_ms :: u64
  rcf_readiness_timeout_seconds :: u64
  rcf_action_timeout_seconds :: u64
  rcf_human_output :: human_output_preference

definition resolved_config_default :: resolved_config where
  "resolved_config_default =
     \<lparr>rcf_state_root = None, rcf_provider = Config_Hyperv, rcf_provider_preference = None, rcf_cpu_count = DEFAULT_CPU_COUNT,
      rcf_memory_mib = DEFAULT_MEMORY_MIB, rcf_lock_timeout_ms = 0,
      rcf_readiness_timeout_seconds = DEFAULT_READINESS_TIMEOUT_SECONDS,
      rcf_action_timeout_seconds = DEFAULT_ACTION_TIMEOUT_SECONDS, rcf_human_output = Output_Normal\<rparr>"

datatype config_error =
  CF_NotFound | CF_UnsafePath | CF_TooLarge | CF_Json | CF_UnsupportedSchema u32 u32 | CF_InvalidValue string | CF_Io

subsection \<open>Resolution\<close>

definition resolve_state_root :: "path \<Rightarrow> path option \<Rightarrow> config_error + path option" where
  "resolve_state_root config_path root = (case root of None \<Rightarrow> Inr None
     | Some root \<Rightarrow>
       if list_ex (\<lambda>c. c = CurDir \<or> c = ParentDir) (components root)
       then Inl (CF_InvalidValue ''state_root must not contain dot segments'')
       else if is_absolute root then Inr (Some root)
       else res_bind (ok_or (path_parent config_path) CF_UnsafePath) (\<lambda>parent. Inr (Some (path_join parent root))))"

definition within :: "('a \<Rightarrow> bool) \<Rightarrow> string \<Rightarrow> 'a \<Rightarrow> 'a option \<Rightarrow> config_error + 'a" where
  "within ok msg dflt v = (case v of None \<Rightarrow> Inr dflt
     | Some x \<Rightarrow> res_bind (ensure (ok x) (CF_InvalidValue msg)) (\<lambda>_. Inr x))"

definition resolve_config :: "user_defaults \<Rightarrow> path \<Rightarrow> config_error + resolved_config" where
  "resolve_config d config_path =
     (let r = resolved_config_default in
      res_bind (resolve_state_root config_path (ud_state_root d)) (\<lambda>root.
      let provider = (case ud_provider d of None \<Rightarrow> rcf_provider r | Some p \<Rightarrow> p) in
      res_bind (within (\<lambda>n. 1 \<le> n \<and> n \<le> MAX_CPU_COUNT) ''cpu_count is outside the engine-supported range''
        (rcf_cpu_count r) (ud_cpu_count d)) (\<lambda>cpu.
      res_bind (within (\<lambda>n. MIN_MEMORY_MIB \<le> n \<and> n \<le> MAX_MEMORY_MIB) ''memory_mib is outside the engine-supported range''
        (rcf_memory_mib r) (ud_memory_mib d)) (\<lambda>memory.
      res_bind (within (\<lambda>n. n \<le> 30000) ''lock_timeout_ms must be between 0 and 30000''
        (rcf_lock_timeout_ms r) (ud_lock_timeout_ms d)) (\<lambda>lock.
      res_bind (within (\<lambda>n. 1 \<le> n \<and> n \<le> 3600) ''readiness_timeout_seconds must be between 1 and 3600''
        (rcf_readiness_timeout_seconds r) (ud_readiness_timeout_seconds d)) (\<lambda>readiness.
      res_bind (within (\<lambda>n. 1 \<le> n \<and> n \<le> 3600) ''action_timeout_seconds must be between 1 and 3600''
        (rcf_action_timeout_seconds r) (ud_action_timeout_seconds d)) (\<lambda>action.
      Inr \<lparr>rcf_state_root = root, rcf_provider = provider, rcf_provider_preference = ud_provider d, rcf_cpu_count = cpu,
        rcf_memory_mib = memory, rcf_lock_timeout_ms = lock, rcf_readiness_timeout_seconds = readiness,
        rcf_action_timeout_seconds = action,
        rcf_human_output = (case ud_human_output d of None \<Rightarrow> rcf_human_output r | Some h \<Rightarrow> h)\<rparr>)))))))"

subsection \<open>The file\<close>

datatype file_stat = Stat_Missing | Stat_Error | Stat_Ok bool

record opened_file =
  of_regular :: bool
  of_private :: bool
  of_content :: "string option"

record config_env =
  cfe_default_path :: "path option"
  cfe_current_dir :: "path option"
  cfe_stat :: "path \<Rightarrow> file_stat"
  cfe_exists :: "path \<Rightarrow> bool"
  cfe_canonicalize :: "path \<Rightarrow> path option"
  cfe_open :: "path \<Rightarrow> opened_file option"
  cfe_decode :: "string \<Rightarrow> user_config option"

definition path_is_reparse :: "config_env \<Rightarrow> path \<Rightarrow> config_error + bool" where
  "path_is_reparse C p = (case cfe_stat C p of Stat_Ok symlink \<Rightarrow> Inr symlink | _ \<Rightarrow> Inl CF_Io)"

definition refuse_reparse_ancestors :: "config_env \<Rightarrow> path \<Rightarrow> config_error + unit" where
  "refuse_reparse_ancestors C p = res_for (ancestors p) (\<lambda>a.
     if a = [] \<or> \<not> cfe_exists C a then Inr ()
     else res_bind (path_is_reparse C a) (\<lambda>symlink. ensure (\<not> symlink) CF_UnsafePath))"

definition absolute_existing_config_path :: "config_env \<Rightarrow> path \<Rightarrow> bool \<Rightarrow> config_error + path option" where
  "absolute_existing_config_path C p required =
     res_bind (if is_absolute p then Inr p
       else res_bind (ok_or (cfe_current_dir C) CF_Io) (\<lambda>cwd. Inr (path_join cwd p))) (\<lambda>p.
     case cfe_stat C p of
       Stat_Ok _ \<Rightarrow> res_bind (refuse_reparse_ancestors C p) (\<lambda>_.
         res_bind (ok_or (cfe_canonicalize C p) CF_Io) (\<lambda>q. Inr (Some q)))
     | Stat_Missing \<Rightarrow> if \<not> required then Inr None else Inl CF_NotFound
     | Stat_Error \<Rightarrow> Inl CF_Io)"

definition open_config_file :: "config_env \<Rightarrow> path \<Rightarrow> config_error + opened_file" where
  "open_config_file C p =
     res_bind (refuse_reparse_ancestors C p) (\<lambda>_.
     res_bind (ok_or (cfe_open C p) CF_Io) (\<lambda>f.
     if \<not> of_regular f then Inl CF_UnsafePath
     else res_bind (path_is_reparse C p) (\<lambda>symlink.
       if symlink \<or> \<not> of_private f then Inl CF_UnsafePath else Inr f)))"

definition load_config :: "config_env \<Rightarrow> path option \<Rightarrow> config_error + resolved_config" where
  "load_config C explicit_path =
     (case (case explicit_path of Some p \<Rightarrow> Some (p, True) | None \<Rightarrow> map_option (\<lambda>p. (p, False)) (cfe_default_path C)) of
        None \<Rightarrow> Inr resolved_config_default
      | Some (p, required) \<Rightarrow>
        res_bind (absolute_existing_config_path C p required) (\<lambda>found. case found of
          None \<Rightarrow> Inr resolved_config_default
        | Some p \<Rightarrow>
          res_bind (open_config_file C p) (\<lambda>f.
          res_bind (ok_or (of_content f) CF_Io) (\<lambda>bytes.
          let bytes = take (unat MAX_CONFIG_BYTES + 1) bytes in
          if length bytes > unat MAX_CONFIG_BYTES then Inl CF_TooLarge
          else res_bind (ok_or (cfe_decode C bytes) CF_Json) (\<lambda>config.
            if uc_schema_version config \<noteq> CONFIG_SCHEMA_VERSION
            then Inl (CF_UnsupportedSchema CONFIG_SCHEMA_VERSION (uc_schema_version config))
            else resolve_config (uc_defaults config) p)))))"

subsection \<open>What a configuration can say\<close>

lemma within_ok: "within ok msg dflt v = Inr x \<longleftrightarrow> (case v of None \<Rightarrow> x = dflt | Some y \<Rightarrow> ok y \<and> x = y)"
  by (auto simp: within_def split: option.split)

definition config_in_bounds :: "resolved_config \<Rightarrow> bool" where
  "config_in_bounds c \<longleftrightarrow> validate_cell_resources (rcf_cpu_count c) (rcf_memory_mib c) None = Inr ()
     \<and> rcf_lock_timeout_ms c \<le> 30000 \<and> 1 \<le> rcf_readiness_timeout_seconds c \<and> rcf_readiness_timeout_seconds c \<le> MAX_ACTION_TIMEOUT_SECONDS
     \<and> 1 \<le> rcf_action_timeout_seconds c \<and> rcf_action_timeout_seconds c \<le> MAX_ACTION_TIMEOUT_SECONDS"

definition follows :: "'a \<Rightarrow> 'a option \<Rightarrow> 'a \<Rightarrow> bool" where
  "follows x v dflt \<longleftrightarrow> x = (case v of None \<Rightarrow> dflt | Some y \<Rightarrow> y)"

definition config_follows :: "resolved_config \<Rightarrow> user_defaults \<Rightarrow> bool" where
  "config_follows c d \<longleftrightarrow> rcf_provider_preference c = ud_provider d \<and> follows (rcf_provider c) (ud_provider d) Config_Hyperv
     \<and> follows (rcf_cpu_count c) (ud_cpu_count d) DEFAULT_CPU_COUNT \<and> follows (rcf_memory_mib c) (ud_memory_mib d) DEFAULT_MEMORY_MIB
     \<and> follows (rcf_lock_timeout_ms c) (ud_lock_timeout_ms d) 0
     \<and> follows (rcf_readiness_timeout_seconds c) (ud_readiness_timeout_seconds d) DEFAULT_READINESS_TIMEOUT_SECONDS
     \<and> follows (rcf_action_timeout_seconds c) (ud_action_timeout_seconds d) DEFAULT_ACTION_TIMEOUT_SECONDS
     \<and> follows (rcf_human_output c) (ud_human_output d) Output_Normal"

lemmas config_bounds = MAX_CPU_COUNT_def MIN_MEMORY_MIB_def MAX_MEMORY_MIB_def MAX_ACTION_TIMEOUT_SECONDS_def
  DEFAULT_CPU_COUNT_def DEFAULT_MEMORY_MIB_def DEFAULT_READINESS_TIMEOUT_SECONDS_def DEFAULT_ACTION_TIMEOUT_SECONDS_def

lemma default_in_bounds: "config_in_bounds resolved_config_default"
  by (simp add: config_in_bounds_def resolved_config_default_def validate_cell_resources_def config_bounds)

lemma within_follows: "within ok msg dflt v = Inr x \<Longrightarrow> ok dflt \<Longrightarrow> follows x v dflt \<and> ok x"
  by (auto simp: within_ok follows_def split: option.splits)

lemma resolve_config_ok:
  assumes "resolve_config d p = Inr c"
  shows "config_in_bounds c \<and> config_follows c d \<and> resolve_state_root p (ud_state_root d) = Inr (rcf_state_root c)"
proof -
  from assms obtain root cpu memory lock readiness action where
    root: "resolve_state_root p (ud_state_root d) = Inr root" and
    1: "within (\<lambda>n. 1 \<le> n \<and> n \<le> MAX_CPU_COUNT) ''cpu_count is outside the engine-supported range'' DEFAULT_CPU_COUNT (ud_cpu_count d) = Inr cpu" and
    2: "within (\<lambda>n. MIN_MEMORY_MIB \<le> n \<and> n \<le> MAX_MEMORY_MIB) ''memory_mib is outside the engine-supported range'' DEFAULT_MEMORY_MIB (ud_memory_mib d) = Inr memory" and
    3: "within (\<lambda>n. n \<le> 30000) ''lock_timeout_ms must be between 0 and 30000'' 0 (ud_lock_timeout_ms d) = Inr lock" and
    4: "within (\<lambda>n. 1 \<le> n \<and> n \<le> 3600) ''readiness_timeout_seconds must be between 1 and 3600'' DEFAULT_READINESS_TIMEOUT_SECONDS
      (ud_readiness_timeout_seconds d) = Inr readiness" and
    5: "within (\<lambda>n. 1 \<le> n \<and> n \<le> 3600) ''action_timeout_seconds must be between 1 and 3600'' DEFAULT_ACTION_TIMEOUT_SECONDS
      (ud_action_timeout_seconds d) = Inr action" and
    c: "c = \<lparr>rcf_state_root = root, rcf_provider = (case ud_provider d of None \<Rightarrow> Config_Hyperv | Some q \<Rightarrow> q),
        rcf_provider_preference = ud_provider d, rcf_cpu_count = cpu, rcf_memory_mib = memory, rcf_lock_timeout_ms = lock,
        rcf_readiness_timeout_seconds = readiness, rcf_action_timeout_seconds = action,
        rcf_human_output = (case ud_human_output d of None \<Rightarrow> Output_Normal | Some h \<Rightarrow> h)\<rparr>"
    unfolding resolve_config_def Let_def res_bind_Inr_iff resolved_config_default_def resolved_config.simps sum.inject by blast
  note facts = within_follows [OF 1] within_follows [OF 2] within_follows [OF 3] within_follows [OF 4] within_follows [OF 5]
  show ?thesis
    using facts root unfolding c config_in_bounds_def config_follows_def validate_cell_resources_def
    by (simp add: config_bounds) (simp add: follows_def)
qed

text \<open>A file that is safe to read: no existing ancestor is a link, and it is a private regular file.\<close>

definition safe_config_file :: "config_env \<Rightarrow> path \<Rightarrow> opened_file \<Rightarrow> bool" where
  "safe_config_file C p f \<longleftrightarrow> cfe_open C p = Some f \<and> of_regular f \<and> of_private f
     \<and> (\<forall>a \<in> set (ancestors p). a \<noteq> [] \<longrightarrow> cfe_exists C a \<longrightarrow> cfe_stat C a = Stat_Ok False)"

lemma refuse_reparse_ancestors_ok:
  "refuse_reparse_ancestors C p = Inr u \<longleftrightarrow> (\<forall>a \<in> set (ancestors p). a \<noteq> [] \<longrightarrow> cfe_exists C a \<longrightarrow> cfe_stat C a = Stat_Ok False)"
proof -
  have "is_ok (if a = [] \<or> \<not> cfe_exists C a then Inr () else res_bind (path_is_reparse C a) (\<lambda>symlink. ensure (\<not> symlink) CF_UnsafePath))
      \<longleftrightarrow> (a \<noteq> [] \<longrightarrow> cfe_exists C a \<longrightarrow> cfe_stat C a = Stat_Ok False)" for a
    by (cases "cfe_stat C a") (auto simp: path_is_reparse_def ensure_def)
  then show ?thesis by (simp add: refuse_reparse_ancestors_def res_for_ok_iff)
qed

lemma absolute_required: "absolute_existing_config_path C p True \<noteq> Inr None"
  by (auto simp: absolute_existing_config_path_def split: file_stat.splits)

lemma open_config_file_ok: "open_config_file C p = Inr f \<Longrightarrow> safe_config_file C p f"
  by (auto simp: open_config_file_def safe_config_file_def refuse_reparse_ancestors_ok split: if_splits)

text \<open>
  C28: a loaded configuration is within the engine's bounds and says only what its file says.  If loading succeeds, the processor count and memory
  pass the engine's own resource check and every timeout is in range; and either no file was named and there is none, and all settings are the
  built-in defaults, or the settings are those of a decoded document of the supported schema, with the built-in default for each absent field,
  read from a private regular file of at most 64 KiB no existing ancestor of which is a link.
\<close>

theorem config_loads_safely:
  assumes "load_config C explicit = Inr c"
  shows "config_in_bounds c \<and> (c = resolved_config_default \<and> explicit = None
     \<or> (\<exists>p f bytes config. safe_config_file C p f \<and> of_content f = Some bytes \<and> length bytes \<le> 65536
          \<and> cfe_decode C bytes = Some config \<and> uc_schema_version config = 1 \<and> config_follows c (uc_defaults config)
          \<and> resolve_state_root p (ud_state_root (uc_defaults config)) = Inr (rcf_state_root c)))"
proof (cases "c = resolved_config_default \<and> explicit = None")
  case True
  then show ?thesis using default_in_bounds by simp
next
  case False
  have short: "take n bytes = bytes" if "\<not> n - 1 < length (take n bytes)" "n > 0" for n and bytes :: string
    using that by (simp add: min_def split: if_splits)
  from assms False obtain p f bytes config where *: "open_config_file C p = Inr f" "of_content f = Some bytes"
    "\<not> unat MAX_CONFIG_BYTES < length (take (unat MAX_CONFIG_BYTES + 1) bytes)"
    "cfe_decode C (take (unat MAX_CONFIG_BYTES + 1) bytes) = Some config"
    "uc_schema_version config = 1" "resolve_config (uc_defaults config) p = Inr c"
  proof (cases explicit)
    case None
    with assms False that show thesis
      by (cases "cfe_default_path C") (auto simp: load_config_def Let_def CONFIG_SCHEMA_VERSION_def split: option.splits if_splits)
  next
    case (Some e)
    with assms that absolute_required [of C e] show thesis
      by (auto simp: load_config_def Let_def CONFIG_SCHEMA_VERSION_def split: option.splits if_splits)
  qed
  have "take (unat MAX_CONFIG_BYTES + 1) bytes = bytes" using short [of "unat MAX_CONFIG_BYTES + 1" bytes] *(3) by simp
  with * have "length bytes \<le> 65536" "cfe_decode C bytes = Some config" by (simp_all add: MAX_CONFIG_BYTES_def)
  with * open_config_file_ok [OF *(1)] resolve_config_ok [OF *(6)] show ?thesis by blast
qed

definition sample_defaults :: user_defaults where
  "sample_defaults = \<lparr>ud_state_root = Some ''state'', ud_provider = Some Config_Qemu, ud_cpu_count = Some 4, ud_memory_mib = None,
     ud_lock_timeout_ms = None, ud_readiness_timeout_seconds = None, ud_action_timeout_seconds = None, ud_human_output = None\<rparr>"

definition sample_config_env :: config_env where
  "sample_config_env = \<lparr>cfe_default_path = None, cfe_current_dir = None, cfe_stat = (\<lambda>_. Stat_Ok False), cfe_exists = (\<lambda>_. True),
     cfe_canonicalize = Some, cfe_open = (\<lambda>_. Some \<lparr>of_regular = True, of_private = True, of_content = Some ''{}''\<rparr>),
     cfe_decode = (\<lambda>_. Some \<lparr>uc_schema_version = 1, uc_defaults = sample_defaults\<rparr>)\<rparr>"

lemma sample_config_sel:
  "cfe_stat sample_config_env p = Stat_Ok False" "cfe_exists sample_config_env p" "cfe_canonicalize sample_config_env p = Some p"
  "cfe_open sample_config_env p = Some \<lparr>of_regular = True, of_private = True, of_content = Some ''{}''\<rparr>"
  "cfe_decode sample_config_env s = Some \<lparr>uc_schema_version = 1, uc_defaults = sample_defaults\<rparr>"
  by (simp_all add: sample_config_env_def)

lemma sample_config_loads:
  "load_config sample_config_env (Some ''/etc/vmcell/config.json'') = Inr (resolved_config_default
     \<lparr>rcf_state_root := Some ''/etc/vmcell/state'', rcf_provider := Config_Qemu, rcf_provider_preference := Some Config_Qemu, rcf_cpu_count := 4\<rparr>)"
proof -
  have root: "resolve_state_root ''/etc/vmcell/config.json'' (Some ''state'') = Inr (Some ''/etc/vmcell/state'')" by code_simp
  have resolved: "resolve_config sample_defaults ''/etc/vmcell/config.json'' = Inr (resolved_config_default
     \<lparr>rcf_state_root := Some ''/etc/vmcell/state'', rcf_provider := Config_Qemu, rcf_provider_preference := Some Config_Qemu, rcf_cpu_count := 4\<rparr>)"
    by (simp add: resolve_config_def sample_defaults_def root within_def resolved_config_default_def config_bounds ensure_def Let_def)
  have safe: "refuse_reparse_ancestors sample_config_env p = Inr ()" for p
    unfolding refuse_reparse_ancestors_ok by (simp add: sample_config_sel)
  have found: "absolute_existing_config_path sample_config_env ''/etc/vmcell/config.json'' True = Inr (Some ''/etc/vmcell/config.json'')"
    by (simp add: absolute_existing_config_path_def safe is_absolute_def sample_config_sel)
  have opened: "open_config_file sample_config_env ''/etc/vmcell/config.json'' = Inr \<lparr>of_regular = True, of_private = True, of_content = Some ''{}''\<rparr>"
    by (simp add: open_config_file_def safe path_is_reparse_def sample_config_sel)
  show ?thesis
    unfolding load_config_def option.case prod.case found opened res_bind_simps
    by (simp add: ok_or_def MAX_CONFIG_BYTES_def sample_config_sel CONFIG_SCHEMA_VERSION_def resolved)
qed

theorem config_loads_safely_witness: "config_in_bounds (resolved_config_default
     \<lparr>rcf_state_root := Some ''/etc/vmcell/state'', rcf_provider := Config_Qemu, rcf_provider_preference := Some Config_Qemu, rcf_cpu_count := 4\<rparr>)"
  using config_loads_safely [OF sample_config_loads] by blast

text \<open>The documentation says that dot segments are rejected; an interior one is not a component and is accepted.\<close>

lemma interior_dot_segment_accepted:
  "resolve_state_root ''/etc/vmcell/config.json'' (Some ''a/./b'') = Inr (Some ''/etc/vmcell/a/./b'')"
  by code_simp

end
