(* ===== verification/Qmp.thy ===== *)
theory Qmp
  imports Json Provider GuestIo
begin

section \<open>The control protocol of QEMU\<close>

text \<open>
  \<open>providers/qemu/protocol.rs\<close>: control endpoints, the line protocol with its message limit and deadlines, and the QMP client.  The peer at the
  other end of a stream is a parameter (\<open>link_env\<close>): connecting and writing yield what it sends from then on, in order; a read with nothing left blocks
  until the operation's deadline and times out.  The clock is read at every step (\<open>lk_instant\<close>).
  The JSON codec is serde's and a parameter.
\<close>

subsection \<open>Endpoints\<close>

definition PROTOCOL_MESSAGE_LIMIT :: nat where
  "PROTOCOL_MESSAGE_LIMIT = 1024 * 1024"

datatype control_endpoint = Ep_Unix path | Ep_WindowsPipe string

definition pipe_prefix :: string where
  "pipe_prefix = [backslash, backslash, CHR ''.'', backslash] @ ''pipe'' @ [backslash]"

definition endpoint_qmp :: "host_env \<Rightarrow> path \<Rightarrow> string \<Rightarrow> control_endpoint" where
  "endpoint_qmp H configuration_path i =
     (if he_windows H then Ep_WindowsPipe (pipe_prefix @ ''vmcell-qmp-'' @ i) else Ep_Unix (path_join configuration_path ''qmp.sock''))"

definition endpoint_qga :: "host_env \<Rightarrow> path \<Rightarrow> string \<Rightarrow> control_endpoint" where
  "endpoint_qga H configuration_path i =
     (if he_windows H then Ep_WindowsPipe (pipe_prefix @ ''vmcell-qga-'' @ i) else Ep_Unix (path_join configuration_path ''qga.sock''))"

definition strip_pipe_prefix :: "string \<Rightarrow> string" where
  "strip_pipe_prefix p = (if starts_with p pipe_prefix then drop (length pipe_prefix) p else p)"

fun qemu_argument :: "control_endpoint \<Rightarrow> string" where
  "qemu_argument (Ep_Unix p) = ''unix:'' @ p @ '',server=on,wait=off''"
| "qemu_argument (Ep_WindowsPipe p) = ''pipe:'' @ strip_pipe_prefix p @ '',server=on,wait=off''"

subsection \<open>Streams\<close>

datatype io_error = Io_TimedOut | Io_WouldBlock | Io_Other string

datatype read_event = Byte char | Eof | ReadError io_error

record 's link_world =
  lw_peer :: 's
  lw_input :: "read_event list"
  lw_tick :: nat

record 's link_env =
  lk_connect :: "control_endpoint \<Rightarrow> nat \<Rightarrow> 's \<Rightarrow> (io_error + read_event list) \<times> 's"
  lk_write :: "string \<Rightarrow> 's \<Rightarrow> (io_error + read_event list) \<times> 's"
  lk_set_timeout :: "nat \<Rightarrow> io_error option"
  lk_instant :: "nat \<Rightarrow> nat"
  lk_polls :: nat
  lk_encode :: "json \<Rightarrow> string + string"
  lk_decode :: "string \<Rightarrow> string + json"
  lk_uuid :: "nat \<Rightarrow> uuid"
  lk_b64_encode :: "string \<Rightarrow> string"
  lk_b64_decode :: "string \<Rightarrow> string option"

definition lk_now :: "('s, 'y) link_env_scheme \<Rightarrow> (('s, 'z) link_world_scheme, 'e, nat) eff" where
  "lk_now E = (\<lambda>w. (Inr (lk_instant E (lw_tick w)), w\<lparr>lw_tick := Suc (lw_tick w)\<rparr>))"

text \<open>\<open>remaining_duration\<close>.\<close>

definition remaining_duration :: "('s, 'y) link_env_scheme \<Rightarrow> nat \<Rightarrow> (('s, 'z) link_world_scheme, io_error, duration) eff" where
  "remaining_duration E deadline = bindE (lk_now E) (\<lambda>now.
     if now < deadline then ret (deadline - now) else throw Io_TimedOut)"

definition set_operation_deadline :: "('s, 'y) link_env_scheme \<Rightarrow> nat \<Rightarrow> (('s, 'z) link_world_scheme, io_error, unit) eff" where
  "set_operation_deadline E deadline = bindE (remaining_duration E deadline) (\<lambda>_.
     \<lambda>w. (case lk_set_timeout E (lw_tick w) of None \<Rightarrow> (Inr (), w) | Some e \<Rightarrow> (Inl e, w)))"

definition read_byte :: "(('s, 'z) link_world_scheme, io_error, char option) eff" where
  "read_byte = (\<lambda>w. case lw_input w of
      [] \<Rightarrow> (Inl Io_TimedOut, w)
    | Byte c # evs \<Rightarrow> (Inr (Some c), w\<lparr>lw_input := evs\<rparr>)
    | Eof # evs \<Rightarrow> (Inr None, w)
    | ReadError e # evs \<Rightarrow> (Inl e, w\<lparr>lw_input := evs\<rparr>))"

definition write_all :: "('s, 'y) link_env_scheme \<Rightarrow> string \<Rightarrow> (('s, 'z) link_world_scheme, io_error, unit) eff" where
  "write_all E bytes = (\<lambda>w. case lk_write E bytes (lw_peer w) of
      (Inl e, p) \<Rightarrow> (Inl e, w\<lparr>lw_peer := p\<rparr>)
    | (Inr evs, p) \<Rightarrow> (Inr (), w\<lparr>lw_peer := p, lw_input := lw_input w @ evs\<rparr>))"

definition connect_stream :: "('s, 'y) link_env_scheme \<Rightarrow> control_endpoint \<Rightarrow> (('s, 'z) link_world_scheme, io_error, unit) eff" where
  "connect_stream E ep = (\<lambda>w. case lk_connect E ep (lw_tick w) (lw_peer w) of
      (Inl e, p) \<Rightarrow> (Inl e, w\<lparr>lw_peer := p\<rparr>)
    | (Inr evs, p) \<Rightarrow> (Inr (), w\<lparr>lw_peer := p, lw_input := evs\<rparr>))"

fun connect_loop :: "nat \<Rightarrow> ('s, 'y) link_env_scheme \<Rightarrow> control_endpoint \<Rightarrow> nat \<Rightarrow> (('s, 'z) link_world_scheme, provider_error, unit) eff" where
  "connect_loop 0 E ep deadline = throw (PE_Timeout ''QEMU control endpoint connection timed out'')"
| "connect_loop (Suc n) E ep deadline =
     bindE (mapE (\<lambda>_. PE_Timeout ''QEMU control endpoint connection timed out'') (remaining_duration E deadline)) (\<lambda>_.
     bindE (attempt (connect_stream E ep)) (\<lambda>res. case res of
       Inr _ \<Rightarrow> ret ()
     | Inl _ \<Rightarrow> bindE (lk_now E) (\<lambda>now.
         if now < deadline then connect_loop n E ep deadline
         else throw (PE_Timeout ''QEMU control endpoint connection timed out''))))"

definition connect_endpoint :: "('s, 'y) link_env_scheme \<Rightarrow> control_endpoint \<Rightarrow> duration \<Rightarrow> (('s, 'z) link_world_scheme, provider_error, unit) eff" where
  "connect_endpoint E ep timeout = bindE (lk_now E) (\<lambda>now. connect_loop (lk_polls E) E ep (now + timeout))"

subsection \<open>The line protocol\<close>

definition protocol_io_error :: "string \<Rightarrow> io_error \<Rightarrow> provider_error" where
  "protocol_io_error operation e = (case e of
      Io_Other s \<Rightarrow> PE_Command (''QEMU protocol '' @ operation @ '' failed: '' @ s)
    | _ \<Rightarrow> PE_Timeout (''QEMU protocol '' @ operation @ '' timed out''))"

abbreviation newline :: char where
  "newline \<equiv> CHR 0x0A"

definition line_send :: "('s, 'y) link_env_scheme \<Rightarrow> json \<Rightarrow> nat \<Rightarrow> (('s, 'z) link_world_scheme, provider_error, unit) eff" where
  "line_send E v deadline =
     bindE (mapE PE_InvalidResponse (liftR (lk_encode E v))) (\<lambda>bytes.
     if length bytes > PROTOCOL_MESSAGE_LIMIT
     then throw (PE_InvalidResponse ''QEMU protocol request exceeded the message limit'')
     else mapE (protocol_io_error ''write'')
       (bindE (set_operation_deadline E deadline) (\<lambda>_. write_all E (bytes @ [newline]))))"

lemma set_operation_deadline_input:
  "set_operation_deadline E deadline w = (r, w') \<Longrightarrow> lw_input w' = lw_input w \<and> lw_peer w' = lw_peer w"
  by (auto simp: set_operation_deadline_def remaining_duration_def lk_now_def bindE_def ret_def throw_def
      split: if_splits option.splits)

lemma read_byte_input: "read_byte w = (Inr (Some c), w') \<Longrightarrow> lw_input w = Byte c # lw_input w' \<and> w' = w\<lparr>lw_input := lw_input w'\<rparr>"
  by (auto simp: read_byte_def split: list.splits read_event.splits)

lemma step_input:
  assumes "mapE g (bindE (set_operation_deadline E deadline) (\<lambda>_. read_byte)) w = (Inr (Some c), w')"
  shows "lw_input w = Byte c # lw_input w'"
  using assms by (auto simp: mapE_def bindE_ok split: prod.splits sum.splits dest!: set_operation_deadline_input read_byte_input)

function line_receive :: "('s, 'y) link_env_scheme \<Rightarrow> nat \<Rightarrow> string \<Rightarrow> (('s, 'z) link_world_scheme, provider_error, json) eff" where
  "line_receive E deadline bytes w =
     (case mapE (protocol_io_error ''read'') (bindE (set_operation_deadline E deadline) (\<lambda>_. read_byte)) w of
        (Inl e, w') \<Rightarrow> (Inl e, w')
      | (Inr None, w') \<Rightarrow> (Inl (PE_InvalidResponse ''QEMU protocol closed before a complete response''), w')
      | (Inr (Some c), w') \<Rightarrow>
          if c = newline then
            if bytes = [] then line_receive E deadline bytes w'
            else (res_map_err PE_InvalidResponse (lk_decode E bytes), w')
          else if length bytes \<ge> PROTOCOL_MESSAGE_LIMIT
          then (Inl (PE_OutputLimit ''QEMU protocol response exceeded the message limit''), w')
          else line_receive E deadline (bytes @ [c]) w')"
  by pat_completeness auto

termination
  by (relation "measure (\<lambda>(E, deadline, bytes, w). length (lw_input w))") (auto dest!: step_input [OF sym])

declare line_receive.simps [simp del]

subsection \<open>The QMP client\<close>

record qmp_client =
  qc_next_id :: u64
  qc_deadline :: nat

definition qmp_request :: "string \<Rightarrow> json option \<Rightarrow> u64 \<Rightarrow> json" where
  "qmp_request command arguments i = JObject ((case arguments of None \<Rightarrow> [] | Some a \<Rightarrow> [(''arguments'', a)])
     @ [(''execute'', JString command), (''id'', json_u64 i)])"

definition qmp_step ::
  "('s, 'y) link_env_scheme \<Rightarrow> string \<Rightarrow> u64 \<Rightarrow> nat \<Rightarrow> (('s, 'z) link_world_scheme, provider_error, json) eff
    \<Rightarrow> (('s, 'z) link_world_scheme, provider_error, json) eff" where
  "qmp_step E command i deadline after_event =
     bindE (lk_now E) (\<lambda>now.
     if deadline \<le> now then throw (PE_Timeout ''QMP operation exceeded its deadline'')
     else
     bindE (line_receive E deadline []) (\<lambda>response.
     if json_get response ''event'' \<noteq> None then after_event
     else if json_field response ''id'' as_u64 \<noteq> Some i
     then throw (PE_InvalidResponse ''QMP response id did not match the request'')
     else if json_get response ''error'' \<noteq> None then throw (PE_Command (''QMP command '' @ command @ '' failed''))
     else liftR (ok_or (json_get response ''return'') (PE_InvalidResponse ''QMP response omitted return''))))"

text \<open>The argument counts the events that may still arrive before the response.\<close>

primrec qmp_await ::
  "nat \<Rightarrow> ('s, 'y) link_env_scheme \<Rightarrow> string \<Rightarrow> u64 \<Rightarrow> nat \<Rightarrow> (('s, 'z) link_world_scheme, provider_error, json) eff" where
  "qmp_await 0 E command i deadline = qmp_step E command i deadline
     (throw (PE_InvalidResponse ''QMP emitted too many events before the response''))"
| "qmp_await (Suc n) E command i deadline = qmp_step E command i deadline (qmp_await n E command i deadline)"

definition qmp_execute ::
  "('s, 'y) link_env_scheme \<Rightarrow> qmp_client \<Rightarrow> string \<Rightarrow> json option
    \<Rightarrow> (('s, 'z) link_world_scheme, provider_error, json \<times> qmp_client) eff" where
  "qmp_execute E client command arguments =
     bindE (lk_now E) (\<lambda>now.
     if qc_deadline client \<le> now then throw (PE_Timeout ''QMP operation exceeded its deadline'')
     else
     let i = qc_next_id client in
     bindE (line_send E (qmp_request command arguments i) (qc_deadline client)) (\<lambda>_.
     bindE (qmp_await 64 E command i (qc_deadline client)) (\<lambda>v. ret (v, client\<lparr>qc_next_id := i + 1\<rparr>))))"

definition qmp_negotiate ::
  "('s, 'y) link_env_scheme \<Rightarrow> duration \<Rightarrow> (('s, 'z) link_world_scheme, provider_error, qmp_client) eff" where
  "qmp_negotiate E timeout =
     bindE (lk_now E) (\<lambda>now.
     let client = \<lparr>qc_next_id = 1, qc_deadline = now + timeout\<rparr> in
     bindE (line_receive E (qc_deadline client) []) (\<lambda>greeting.
     if json_field greeting ''QMP'' as_object = None then throw (PE_InvalidResponse ''QMP greeting was invalid'')
     else bindE (qmp_execute E client ''qmp_capabilities'' None) (\<lambda>(_, client). ret client)))"

subsection \<open>What is received\<close>

text \<open>A message the peer sent: the decoded bytes of one line within the limit, after some empty lines.\<close>

definition message_of :: "('s, 'y) link_env_scheme \<Rightarrow> string \<Rightarrow> read_event list \<Rightarrow> json \<Rightarrow> read_event list \<Rightarrow> bool" where
  "message_of E acc input v rest \<longleftrightarrow> (\<exists>skip line. input = map Byte (skip @ line @ [newline]) @ rest \<and> set skip \<subseteq> {newline}
     \<and> (acc \<noteq> [] \<longrightarrow> skip = []) \<and> newline \<notin> set line \<and> acc @ line \<noteq> [] \<and> length (acc @ line) \<le> PROTOCOL_MESSAGE_LIMIT
     \<and> lk_decode E (acc @ line) = Inr v)"

lemma message_of_skip: "message_of E [] input v rest \<Longrightarrow> message_of E [] (Byte newline # input) v rest"
proof -
  assume "message_of E [] input v rest"
  then obtain skip line where "input = map Byte (skip @ line @ [newline]) @ rest" "set skip \<subseteq> {newline}" "newline \<notin> set line"
    "line \<noteq> []" "length line \<le> PROTOCOL_MESSAGE_LIMIT" "lk_decode E line = Inr v" by (auto simp: message_of_def)
  then show ?thesis unfolding message_of_def by (intro exI [of _ "newline # skip"] exI [of _ line]) auto
qed

lemma message_of_byte:
  "message_of E (acc @ [c]) input v rest \<Longrightarrow> c \<noteq> newline \<Longrightarrow> message_of E acc (Byte c # input) v rest"
proof -
  assume c: "c \<noteq> newline" and "message_of E (acc @ [c]) input v rest"
  then obtain line where "input = map Byte (line @ [newline]) @ rest" "newline \<notin> set line"
    "length (acc @ c # line) \<le> PROTOCOL_MESSAGE_LIMIT" "lk_decode E (acc @ c # line) = Inr v" by (auto simp: message_of_def)
  with c show ?thesis unfolding message_of_def by (intro exI [of _ "[]"] exI [of _ "c # line"]) auto
qed

lemma line_receive_message:
  "line_receive E deadline acc w = (Inr v, w') \<Longrightarrow> length acc \<le> PROTOCOL_MESSAGE_LIMIT \<Longrightarrow>
     message_of E acc (lw_input w) v (lw_input w') \<and> lw_peer w' = lw_peer w"
proof (induction E deadline acc w rule: line_receive.induct)
  case (1 E deadline acc w)
  let ?m = "mapE (protocol_io_error ''read'') (bindE (set_operation_deadline E deadline) (\<lambda>_. read_byte))"
  obtain r w1 where m: "?m w = (r, w1)" by (cases "?m w") auto
  with 1(3) obtain c where r: "r = Inr (Some c)"
    by (subst (asm) line_receive.simps) (auto split: sum.splits option.splits)
  note m = m [unfolded r]
  have input: "lw_input w = Byte c # lw_input w1" by (rule step_input [OF m])
  have peer: "lw_peer w1 = lw_peer w"
    using m by (auto simp: mapE_def bindE_ok split: prod.splits sum.splits dest!: set_operation_deadline_input read_byte_input)
      (metis link_world.select_convs(1) link_world.surjective link_world.update_convs(2))
  note run = 1(3) [unfolded line_receive.simps [of E deadline acc w] m prod.case sum.case option.case]
  consider "c = newline" "acc = []" | "c = newline" "acc \<noteq> []" | "c \<noteq> newline" by blast
  then show ?case
  proof cases
    case 1
    with "1.IH"(1) [OF m [symmetric] refl refl] run message_of_skip show ?thesis by (auto simp: input peer)
  next
    case 2
    with run have "lk_decode E acc = Inr v" "w' = w1" by auto
    with 2 "1.prems"(2) show ?thesis
      unfolding message_of_def input by (intro conjI exI [of _ "[]"]) (auto simp: peer)
  next
    case 3
    with run have len: "\<not> PROTOCOL_MESSAGE_LIMIT \<le> length acc" by (auto split: if_splits)
    with "1.IH"(2) [OF m [symmetric] refl refl 3 len] 3 run message_of_byte show ?thesis by (auto simp: input peer)
  qed
qed

fun messages :: "('s, 'y) link_env_scheme \<Rightarrow> read_event list \<Rightarrow> json list \<Rightarrow> read_event list \<Rightarrow> bool" where
  "messages E input [] rest \<longleftrightarrow> input = rest"
| "messages E input (v # vs) rest \<longleftrightarrow> (\<exists>mid. message_of E [] input v mid \<and> messages E mid vs rest)"

text \<open>The response to a request: it carries the request's id and a result, and neither an error nor an event.\<close>

definition answers :: "u64 \<Rightarrow> json \<Rightarrow> json \<Rightarrow> bool" where
  "answers i v msg \<longleftrightarrow> json_get msg ''event'' = None \<and> json_field msg ''id'' as_u64 = Some i \<and> json_get msg ''error'' = None
     \<and> json_get msg ''return'' = Some v"

lemma lk_now_run: "lk_now E w = (Inr (lk_instant E (lw_tick w)), w\<lparr>lw_tick := Suc (lw_tick w)\<rparr>)"
  by (simp add: lk_now_def)

lemma qmp_step_ok:
  assumes "qmp_step E command i deadline k w = (Inr v, w')"
  shows "\<exists>msg w1. message_of E [] (lw_input w) msg (lw_input w1) \<and> lw_peer w1 = lw_peer w
     \<and> (if json_get msg ''event'' \<noteq> None then k w1 = (Inr v, w') else w' = w1 \<and> answers i v msg)"
proof -
  from assms obtain msg w1 where msg: "line_receive E deadline [] (w\<lparr>lw_tick := Suc (lw_tick w)\<rparr>) = (Inr msg, w1)"
    and rest: "(if json_get msg ''event'' \<noteq> None then k
     else if json_field msg ''id'' as_u64 \<noteq> Some i
     then throw (PE_InvalidResponse ''QMP response id did not match the request'')
     else if json_get msg ''error'' \<noteq> None then throw (PE_Command (''QMP command '' @ command @ '' failed''))
     else liftR (ok_or (json_get msg ''return'') (PE_InvalidResponse ''QMP response omitted return''))) w1 = (Inr v, w')"
    by (auto simp: qmp_step_def bindE_ok lk_now_run throw_def split: if_splits)
  from rest line_receive_message [OF msg] show ?thesis
    by (intro exI [of _ msg] exI [of _ w1]) (auto simp: answers_def throw_def split: if_splits)
qed

lemma qmp_await_ok:
  "qmp_await n E command i deadline w = (Inr v, w') \<Longrightarrow>
     \<exists>evs msg. length evs \<le> n \<and> messages E (lw_input w) (evs @ [msg]) (lw_input w') \<and> lw_peer w' = lw_peer w
       \<and> (\<forall>e \<in> set evs. json_get e ''event'' \<noteq> None) \<and> answers i v msg"
proof (induction n arbitrary: w)
  case 0
  from qmp_step_ok [OF 0 [simplified]] show ?case by (auto simp: throw_def intro!: exI [of _ "[]"] split: if_splits)
next
  case (Suc n)
  from qmp_step_ok [OF Suc.prems [simplified]] obtain msg w1 where 1: "message_of E [] (lw_input w) msg (lw_input w1)"
    "lw_peer w1 = lw_peer w" and 2: "if json_get msg ''event'' \<noteq> None then qmp_await n E command i deadline w1 = (Inr v, w')
      else w' = w1 \<and> answers i v msg" by blast
  show ?case
  proof (cases "json_get msg ''event'' = None")
    case True
    with 1 2 show ?thesis by (intro exI [of _ "[]"]) auto
  next
    case False
    with 2 Suc.IH [of w1] obtain evs m where "length evs \<le> n" "messages E (lw_input w1) (evs @ [m]) (lw_input w')"
      "lw_peer w' = lw_peer w1" "\<forall>e \<in> set evs. json_get e ''event'' \<noteq> None" "answers i v m" by auto
    with False 1 show ?thesis by (intro exI [of _ "msg # evs"] exI [of _ m]) auto
  qed
qed

lemma write_all_ok: "write_all E bytes w = (Inr u, w') \<longleftrightarrow>
    (\<exists>sent p. lk_write E bytes (lw_peer w) = (Inr sent, p) \<and> w' = w\<lparr>lw_peer := p, lw_input := lw_input w @ sent\<rparr>)"
  by (auto simp: write_all_def split: prod.splits sum.splits)

lemma mapE_Inr: "mapE g m w = (Inr x, w') \<longleftrightarrow> m w = (Inr x, w')"
  by (auto simp: mapE_def split: prod.splits sum.splits)

lemma line_send_ok:
  assumes "line_send E v deadline w = (Inr u, w')"
  shows "\<exists>bytes sent. lk_encode E v = Inr bytes \<and> length bytes \<le> PROTOCOL_MESSAGE_LIMIT
     \<and> lk_write E (bytes @ [newline]) (lw_peer w) = (Inr sent, lw_peer w') \<and> lw_input w' = lw_input w @ sent"
  using assms
  by (auto simp: line_send_def bindE_ok mapE_Inr write_all_ok throw_def dest!: set_operation_deadline_input split: if_splits)

text \<open>
  C26: a QMP result is the answer to its own request.  If executing a command returns a value, the request was sent with a fresh id in one line of at most
  1 MiB; of what the peer then sent, at most 64 events were skipped, and the value is the result of the first other message: a line of at most
  1 MiB that carries exactly this id and no error.  The client's next id is the successor, and what the peer sent after that line is left unread.
\<close>

theorem qmp_answers_match:
  assumes "qmp_execute E client command arguments w = (Inr (v, client'), w')"
  shows "client' = client\<lparr>qc_next_id := qc_next_id client + 1\<rparr>
    \<and> (\<exists>bytes sent evs msg. lk_encode E (qmp_request command arguments (qc_next_id client)) = Inr bytes
         \<and> length bytes \<le> PROTOCOL_MESSAGE_LIMIT \<and> lk_write E (bytes @ [newline]) (lw_peer w) = (Inr sent, lw_peer w')
         \<and> length evs \<le> 64 \<and> list_all (\<lambda>e. json_get e ''event'' \<noteq> None) evs
         \<and> messages E (lw_input w @ sent) (evs @ [msg]) (lw_input w') \<and> answers (qc_next_id client) v msg)"
proof -
  let ?i = "qc_next_id client" and ?w = "w\<lparr>lw_tick := Suc (lw_tick w)\<rparr>"
  from assms obtain w1 where send: "line_send E (qmp_request command arguments ?i) (qc_deadline client) ?w = (Inr (), w1)"
    and wait: "qmp_await 64 E command ?i (qc_deadline client) w1 = (Inr v, w')" and client: "client' = client\<lparr>qc_next_id := ?i + 1\<rparr>"
    by (auto simp: qmp_execute_def bindE_ok lk_now_run throw_def ret_def Let_def simp del: qmp_await.simps split: if_splits)
  from line_send_ok [OF send] qmp_await_ok [OF wait] client show ?thesis by (fastforce simp: list_all_iff)
qed

subsection \<open>A concrete exchange\<close>

text \<open>A peer that answers each line with an event and then the response to request 1, under a clock that does not advance.\<close>

definition sample_codec :: "(string \<times> json) list" where
  "sample_codec = [(''E'', JObject [(''event'', JString ''RESUME'')]),
     (''R'', JObject [(''id'', json_u64 1), (''return'', JString ''running'')])]"

definition sample_link :: "unit link_env" where
  "sample_link = \<lparr>lk_connect = (\<lambda>_ _ s. (Inr [], s)), lk_write = (\<lambda>bytes s. (Inr (map Byte [CHR ''E'', newline, CHR ''R'', newline]), s)),
     lk_set_timeout = (\<lambda>_. None), lk_instant = (\<lambda>_. 0), lk_polls = 1, lk_encode = (\<lambda>_. Inr ''Q''),
     lk_decode = (\<lambda>s. ok_or (map_of sample_codec s) ''syntax''), lk_uuid = of_nat,
     lk_b64_encode = id, lk_b64_decode = Some\<rparr>"

lemma sample_receive:
  assumes "map_of sample_codec [c] = Some v" "c \<noteq> newline"
  shows "line_receive sample_link 9 [] \<lparr>lw_peer = (), lw_input = Byte c # Byte newline # rest, lw_tick = t\<rparr>
     = (Inr v, \<lparr>lw_peer = (), lw_input = rest, lw_tick = Suc (Suc t)\<rparr>)"
  using assms
  by (simp add: line_receive.simps [of _ _ "[]"] line_receive.simps [of _ _ "[c]"] set_operation_deadline_def remaining_duration_def
      lk_now_def bindE_def ret_def mapE_def read_byte_def sample_link_def PROTOCOL_MESSAGE_LIMIT_def ok_or_def)

lemma sample_execute:
  "qmp_execute sample_link \<lparr>qc_next_id = 1, qc_deadline = 9\<rparr> ''query-status'' None \<lparr>lw_peer = (), lw_input = [], lw_tick = 0\<rparr>
     = (Inr (JString ''running'', \<lparr>qc_next_id = 2, qc_deadline = 9\<rparr>), \<lparr>lw_peer = (), lw_input = [], lw_tick = 8\<rparr>)"
proof -
  have send: "line_send sample_link v 9 \<lparr>lw_peer = (), lw_input = [], lw_tick = 1\<rparr>
      = (Inr (), \<lparr>lw_peer = (), lw_input = map Byte [CHR ''E'', newline, CHR ''R'', newline], lw_tick = 2\<rparr>)" for v
    by (simp add: line_send_def set_operation_deadline_def remaining_duration_def lk_now_def bindE_def ret_def mapE_def liftR_def
        write_all_def sample_link_def PROTOCOL_MESSAGE_LIMIT_def)
  have codec: "map_of sample_codec ''E'' = Some (JObject [(''event'', JString ''RESUME'')])"
    "map_of sample_codec ''R'' = Some (JObject [(''id'', json_u64 1), (''return'', JString ''running'')])"
    by (simp_all add: sample_codec_def)
  have clock: "lk_now sample_link w = (Inr 0, w\<lparr>lw_tick := Suc (lw_tick w)\<rparr>)" for w :: "unit link_world"
    by (simp add: lk_now_def sample_link_def)
  have first: "qmp_step sample_link c 1 9 k \<lparr>lw_peer = (), lw_input = map Byte [CHR ''E'', newline, CHR ''R'', newline], lw_tick = 2\<rparr>
      = k \<lparr>lw_peer = (), lw_input = map Byte [CHR ''R'', newline], lw_tick = 5\<rparr>" for c k
    by (simp add: qmp_step_def bindE_def clock sample_receive codec)
  have second: "qmp_step sample_link c 1 9 k \<lparr>lw_peer = (), lw_input = map Byte [CHR ''R'', newline], lw_tick = 5\<rparr>
      = (Inr (JString ''running''), \<lparr>lw_peer = (), lw_input = [], lw_tick = 8\<rparr>)" for c k
    by (simp add: qmp_step_def bindE_def clock sample_receive codec json_field_def liftR_def ok_or_def)
  have events: "qmp_await 64 sample_link c i d = qmp_step sample_link c i d (qmp_step sample_link c i d k)"
    if "k = (qmp_await 62 sample_link c i d :: (unit link_world, provider_error, json) eff)" for c i d k
    unfolding that by (simp add: qmp_await.simps(2) [of 63, simplified] qmp_await.simps(2) [of 62, simplified])
  have wait: "qmp_await 64 sample_link c 1 9 \<lparr>lw_peer = (), lw_input = map Byte [CHR ''E'', newline, CHR ''R'', newline], lw_tick = 2\<rparr>
      = (Inr (JString ''running''), \<lparr>lw_peer = (), lw_input = [], lw_tick = 8\<rparr>)" for c
    unfolding events [OF refl] first second by (rule refl)
  show ?thesis
    by (simp add: qmp_execute_def bindE_def clock send [unfolded One_nat_def] wait [simplified] ret_def Let_def)
qed

theorem qmp_answers_match_witness:
  "\<exists>sent evs msg. lk_write sample_link [CHR ''Q'', newline] () = (Inr sent, ()) \<and> length evs \<le> 64
     \<and> messages sample_link sent (evs @ [msg]) [] \<and> answers 1 (JString ''running'') msg"
  using qmp_answers_match [OF sample_execute] by (auto simp: sample_link_def)

end
