(* ===== verification/Qga.thy ===== *)
theory Qga
  imports Qmp GuestOps
begin

section \<open>The QEMU guest agent transport\<close>

text \<open>
  \<open>guest/qga/mod.rs\<close>: the guest agent client (framing, synchronisation, commands, file transfer), the proof that the machine behind the control socket
  is the expected one, and the transport the engine calls.  The transport runs over the streams of \<open>link_env\<close>; \<open>qe_guards\<close> tells whether the
  guards an authority pins still hold when it is validated.
  \<open>lk_polls\<close> bounds the polls of a guest process.
\<close>

definition QGA_FRAME_LIMIT :: nat where
  "QGA_FRAME_LIMIT = 24 * 1024 * 1024"

definition QGA_FILE_CHUNK :: nat where
  "QGA_FILE_CHUNK = 48 * 1024"

record 's qga_env = "'s link_env" +
  qe_host :: host_env
  qe_guards :: "nat \<Rightarrow> guard_status"

subsection \<open>Errors and durations\<close>

fun provider_to_guest :: "provider_error \<Rightarrow> guest_io_error" where
  "provider_to_guest (PE_OwnershipChanged _) = GE_OwnershipChanged"
| "provider_to_guest (PE_Authority _) = GE_OwnershipChanged"
| "provider_to_guest (PE_InvalidResponse _) = GE_InvalidResponse"
| "provider_to_guest _ = GE_GuestNotReady"

fun qga_io_error :: "io_error \<Rightarrow> guest_io_error" where
  "qga_io_error (Io_Other _) = GE_Transport"
| "qga_io_error _ = GE_Timeout"

definition remaining_guest_duration :: "('s, 'y) link_env_scheme \<Rightarrow> nat \<Rightarrow> (('s, 'z) link_world_scheme, guest_io_error, duration) eff" where
  "remaining_guest_duration E deadline = bindE (lk_now E) (\<lambda>now.
     if now < deadline then ret (deadline - now) else throw GE_Timeout)"

definition FIVE_SECONDS :: duration where
  "FIVE_SECONDS = duration_from_secs 5"

definition workspace_root :: "crates \<Rightarrow> cell_id \<Rightarrow> string" where
  "workspace_root X c = ''/var/lib/vmcell/'' @ uuid_to_string X (cell_uuid c)"

definition qga_provider_path_equal :: "host_env \<Rightarrow> path \<Rightarrow> path \<Rightarrow> bool" where
  "qga_provider_path_equal H l r =
     (if he_windows H then eq_ignore_ascii_case (canonical_or_self H l) (canonical_or_self H r)
      else path_eq (canonical_or_self H l) (canonical_or_self H r))"

subsection \<open>Frames\<close>

lemma mapE_ok_iff: "mapE g m w = (Inr x, w') \<longleftrightarrow> m w = (Inr x, w')"
  by (auto simp: mapE_def split: prod.splits sum.splits)

lemma qga_step_input:
  assumes "bindE (mapE f (set_operation_deadline E deadline)) (\<lambda>_. mapE g read_byte) w = (Inr (Some c), w')"
  shows "lw_input w = Byte c # lw_input w' \<and> lw_peer w' = lw_peer w"
  using assms by (auto simp: mapE_ok_iff bindE_ok dest!: set_operation_deadline_input read_byte_input)
    (metis link_world.select_convs(1) link_world.surjective link_world.update_convs(2))

text \<open>
  \<open>QgaClient::receive\<close>: what precedes the first brace is skipped, up to the frame limit; the frame ends at the newline.
\<close>

function qga_receive ::
  "('s, 'y) link_env_scheme \<Rightarrow> nat \<Rightarrow> bool \<Rightarrow> nat \<Rightarrow> string \<Rightarrow> (('s, 'z) link_world_scheme, guest_io_error, json) eff" where
  "qga_receive E deadline started skipped bytes w =
     (case bindE (mapE (\<lambda>_. GE_Timeout) (set_operation_deadline E deadline)) (\<lambda>_. mapE qga_io_error read_byte) w of
        (Inl e, w') \<Rightarrow> (Inl e, w')
      | (Inr None, w') \<Rightarrow> (Inl GE_InvalidResponse, w')
      | (Inr (Some c), w') \<Rightarrow>
          if \<not> started \<and> c \<noteq> CHR ''{'' then
            if skipped + 1 \<ge> QGA_FRAME_LIMIT then (Inl GE_OutputLimit, w')
            else qga_receive E deadline False (skipped + 1) bytes w'
          else if c = newline then (res_map_err (\<lambda>_. GE_InvalidResponse) (lk_decode E bytes), w')
          else if length bytes \<ge> QGA_FRAME_LIMIT then (Inl GE_OutputLimit, w')
          else qga_receive E deadline True skipped (bytes @ [c]) w')"
  by pat_completeness auto

termination
  by (relation "measure (\<lambda>(E, deadline, started, skipped, bytes, w). length (lw_input w))") (auto dest!: qga_step_input [OF sym])

declare qga_receive.simps [simp del]

definition qga_request :: "string \<Rightarrow> json option \<Rightarrow> json" where
  "qga_request command arguments = JObject ((case arguments of None \<Rightarrow> [] | Some a \<Rightarrow> [(''arguments'', a)])
     @ [(''execute'', JString command)])"

definition qga_execute ::
  "('s, 'y) link_env_scheme \<Rightarrow> nat \<Rightarrow> string \<Rightarrow> json option \<Rightarrow> (('s, 'z) link_world_scheme, guest_io_error, json) eff" where
  "qga_execute E deadline command arguments =
     bindE (lk_now E) (\<lambda>now.
     if deadline \<le> now then throw GE_Timeout
     else
     bindE (mapE (\<lambda>_. GE_InvalidResponse) (liftR (lk_encode E (qga_request command arguments)))) (\<lambda>bytes.
     if length bytes > QGA_FRAME_LIMIT then throw GE_OutputLimit
     else
     bindE (mapE (\<lambda>_. GE_Timeout) (set_operation_deadline E deadline)) (\<lambda>_.
     bindE (mapE qga_io_error (write_all E (bytes @ [newline]))) (\<lambda>_.
     bindE (qga_receive E deadline False 0 []) (\<lambda>response.
     bindE (lk_now E) (\<lambda>now.
     if deadline \<le> now then throw GE_Timeout
     else if json_get response ''error'' \<noteq> None then throw GE_Transport
     else liftR (ok_or (json_get response ''return'') GE_InvalidResponse)))))))"

text \<open>\<open>QgaClient::connect\<close> returns the client's deadline; its stream is the world's.\<close>

definition qga_connect ::
  "('s, 'y) link_env_scheme \<Rightarrow> control_endpoint \<Rightarrow> duration \<Rightarrow> (('s, 'z) link_world_scheme, guest_io_error, nat) eff" where
  "qga_connect E ep timeout =
     bindE (lk_now E) (\<lambda>now.
     let deadline = now + timeout in
     bindE (remaining_guest_duration E deadline) (\<lambda>remaining.
     bindE (mapE provider_to_guest (connect_endpoint E ep (min remaining FIVE_SECONDS))) (\<lambda>_.
     bindE (mapE (\<lambda>_. GE_Timeout) (set_operation_deadline E deadline)) (\<lambda>_.
     bindE (mapE qga_io_error (write_all E [CHR 0xFF])) (\<lambda>_.
     bindE (gets (\<lambda>w. ucast (lk_uuid E (lw_tick w)) :: u64)) (\<lambda>sync_id.
     bindE (qga_execute E deadline ''guest-sync-delimited'' (Some (JObject [(''id'', json_u64 sync_id)]))) (\<lambda>response.
     if as_u64 response \<noteq> Some sync_id then throw GE_InvalidResponse else ret deadline)))))))"

subsection \<open>Guest processes\<close>

definition saturating_mul :: "'a::len word \<Rightarrow> 'a word \<Rightarrow> 'a word" where
  "saturating_mul a b = (case checked_mul a b of Some c \<Rightarrow> c | None \<Rightarrow> - 1)"

definition decode_output :: "('s, 'y) link_env_scheme \<Rightarrow> json \<Rightarrow> string \<Rightarrow> u64 \<Rightarrow> guest_io_error + string" where
  "decode_output E status field limit =
     (case json_field status field as_str of
        None \<Rightarrow> Inr []
      | Some v \<Rightarrow>
          if unat (saturating_mul limit 2) < length v then Inl GE_OutputLimit
          else res_bind (ok_or (lk_b64_decode E v) GE_InvalidResponse) (\<lambda>bytes.
            if unat limit < length bytes then Inl GE_OutputLimit else Inr bytes))"

definition i32_try_from :: "int \<Rightarrow> i32 option" where
  "i32_try_from n = (if - (2 ^ 31) \<le> n \<and> n < 2 ^ 31 then Some n else None)"

definition not_truncated :: "json \<Rightarrow> string \<Rightarrow> bool" where
  "not_truncated status field \<longleftrightarrow> json_get status field = None \<or> json_get status field = Some (JBool False)"

text \<open>The result of a process that has exited.\<close>

definition exited_result :: "('s, 'y) link_env_scheme \<Rightarrow> guest_command \<Rightarrow> json \<Rightarrow> guest_io_error + guest_command_result" where
  "exited_result E command status =
     (let limit = gcmd_max_output_bytes command in
      res_bind (ensure (not_truncated status ''out-truncated'' \<and> not_truncated status ''err-truncated'') GE_InvalidResponse) (\<lambda>_.
      res_bind (decode_output E status ''out-data'' limit) (\<lambda>stdout.
      res_bind (decode_output E status ''err-data'' limit) (\<lambda>stderr.
      res_bind (ensure (length stdout + length stderr \<le> unat limit) GE_OutputLimit) (\<lambda>_.
      res_bind (ensure (is_utf8 stdout) GE_InvalidResponse) (\<lambda>_.
      res_bind (ensure (is_utf8 stderr) GE_InvalidResponse) (\<lambda>_.
      res_bind (ok_or (Option.bind (json_field status ''exitcode'' as_i64) i32_try_from) GE_InvalidResponse) (\<lambda>code.
      Inr \<lparr>gr_exit_code = code, gr_stdout = stdout, gr_stderr = stderr, gr_encoding = ''utf-8'',
           gr_stdout_bytes = word_of_nat (length stdout), gr_stderr_bytes = word_of_nat (length stderr),
           gr_truncated = False\<rparr>))))))))"

primrec exec_poll ::
  "nat \<Rightarrow> ('s, 'y) link_env_scheme \<Rightarrow> nat \<Rightarrow> u64 \<Rightarrow> guest_command \<Rightarrow> nat \<Rightarrow> (('s, 'z) link_world_scheme, guest_io_error, guest_command_result) eff" where
  "exec_poll 0 E client pid command deadline = throw GE_Timeout"
| "exec_poll (Suc n) E client pid command deadline =
     bindE (qga_execute E client ''guest-exec-status'' (Some (JObject [(''pid'', json_u64 pid)]))) (\<lambda>status.
     if json_field status ''exited'' as_bool = Some True then liftR (exited_result E command status)
     else bindE (lk_now E) (\<lambda>now. if deadline \<le> now then throw GE_Timeout else exec_poll n E client pid command deadline))"

definition exec_request :: "guest_command \<Rightarrow> json" where
  "exec_request command = JObject [(''arg'', JArray (map JString (gcmd_args command))), (''capture-output'', JBool True),
     (''path'', JString (gcmd_program command))]"

definition qga_exec ::
  "('s, 'y) link_env_scheme \<Rightarrow> nat \<Rightarrow> guest_command \<Rightarrow> (('s, 'z) link_world_scheme, guest_io_error, guest_command_result) eff" where
  "qga_exec E client command =
     bindE (qga_execute E client ''guest-exec'' (Some (exec_request command))) (\<lambda>response.
     bindE (liftR (ok_or (json_field response ''pid'' as_u64) GE_InvalidResponse)) (\<lambda>pid.
     bindE (lk_now E) (\<lambda>now. exec_poll (lk_polls E) E client pid command (now + gcmd_timeout command))))"

definition exec_exit_code ::
  "('s, 'y) link_env_scheme \<Rightarrow> nat \<Rightarrow> string \<Rightarrow> string list \<Rightarrow> duration \<Rightarrow> (('s, 'z) link_world_scheme, guest_io_error, i32) eff" where
  "exec_exit_code E client program args timeout =
     bindE (qga_exec E client \<lparr>gcmd_program = program, gcmd_args = args, gcmd_timeout = timeout, gcmd_max_output_bytes = 64 * 1024\<rparr>)
       (\<lambda>r. ret (gr_exit_code r))"

definition exec_simple ::
  "('s, 'y) link_env_scheme \<Rightarrow> nat \<Rightarrow> string \<Rightarrow> string list \<Rightarrow> duration \<Rightarrow> (('s, 'z) link_world_scheme, guest_io_error, unit) eff" where
  "exec_simple E client program args timeout =
     bindE (exec_exit_code E client program args timeout) (\<lambda>code. if code = 0 then ret () else throw GE_Transport)"

definition commit_copy_in ::
  "('s, 'y) link_env_scheme \<Rightarrow> nat \<Rightarrow> string \<Rightarrow> string \<Rightarrow> overwrite_policy \<Rightarrow> duration \<Rightarrow> (('s, 'z) link_world_scheme, guest_io_error, unit) eff" where
  "commit_copy_in E client temporary destination overwrite timeout =
     (if overwrite = Overwrite_Deny then
        bindE (exec_exit_code E client ''/bin/ln'' [''-T'', ''--'', temporary, destination] timeout) (\<lambda>committed.
        if committed \<noteq> 0 then
          bindE (exec_simple E client ''/bin/rm'' [''--'', temporary] timeout) (\<lambda>_. throw GE_PathViolation)
        else exec_simple E client ''/bin/rm'' [''--'', temporary] timeout)
      else exec_simple E client ''/bin/mv'' [''-f'', ''--'', temporary, destination] timeout)"

subsection \<open>Guest files\<close>

definition file_open ::
  "('s, 'y) link_env_scheme \<Rightarrow> nat \<Rightarrow> string \<Rightarrow> string \<Rightarrow> (('s, 'z) link_world_scheme, guest_io_error, int) eff" where
  "file_open E client p mode =
     bindE (qga_execute E client ''guest-file-open'' (Some (JObject [(''mode'', JString mode), (''path'', JString p)]))) (\<lambda>v.
     liftR (ok_or (as_i64 v) GE_InvalidResponse))"

definition file_close :: "('s, 'y) link_env_scheme \<Rightarrow> nat \<Rightarrow> int \<Rightarrow> (('s, 'z) link_world_scheme, guest_io_error, unit) eff" where
  "file_close E client handle =
     bindE (qga_execute E client ''guest-file-close'' (Some (JObject [(''handle'', json_i64 handle)]))) (\<lambda>_. ret ())"

text \<open>\<open>content.chunks(n)\<close>, for a positive size.\<close>

function chunks :: "nat \<Rightarrow> 'a list \<Rightarrow> 'a list list" where
  "chunks n xs = (if xs = [] \<or> n = 0 then [] else take n xs # chunks n (drop n xs))"
  by pat_completeness auto

termination
  by (relation "measure (\<lambda>(n, xs). length xs)") auto

declare chunks.simps [simp del]

definition write_request :: "('s, 'y) link_env_scheme \<Rightarrow> int \<Rightarrow> string \<Rightarrow> json" where
  "write_request E handle chunk = JObject [(''buf-b64'', JString (lk_b64_encode E chunk)), (''handle'', json_i64 handle)]"

primrec write_chunks ::
  "('s, 'y) link_env_scheme \<Rightarrow> nat \<Rightarrow> int \<Rightarrow> string list \<Rightarrow> (('s, 'z) link_world_scheme, guest_io_error, unit) eff" where
  "write_chunks E client handle [] = ret ()"
| "write_chunks E client handle (chunk # rest) =
     bindE (qga_execute E client ''guest-file-write'' (Some (write_request E handle chunk))) (\<lambda>response.
     if json_field response ''count'' as_u64 \<noteq> Some (word_of_nat (length chunk)) then throw GE_PartialCopy
     else write_chunks E client handle rest)"

definition file_write_all ::
  "('s, 'y) link_env_scheme \<Rightarrow> nat \<Rightarrow> int \<Rightarrow> string \<Rightarrow> (('s, 'z) link_world_scheme, guest_io_error, unit) eff" where
  "file_write_all E client handle content =
     bindE (write_chunks E client handle (chunks QGA_FILE_CHUNK content)) (\<lambda>_.
     bindE (qga_execute E client ''guest-file-flush'' (Some (JObject [(''handle'', json_i64 handle)]))) (\<lambda>_. ret ()))"

text \<open>One answer to a read: the decoded bytes and the end mark.\<close>

definition read_answer :: "('s, 'y) link_env_scheme \<Rightarrow> json \<Rightarrow> guest_io_error + string \<times> bool" where
  "read_answer E response =
     res_bind (case json_field response ''buf-b64'' as_str of None \<Rightarrow> Inr []
       | Some v \<Rightarrow> ok_or (lk_b64_decode E v) GE_InvalidResponse) (\<lambda>chunk.
     res_bind (ok_or (json_field response ''count'' as_u64) GE_InvalidResponse) (\<lambda>count.
     res_bind (ok_or (json_field response ''eof'' as_bool) GE_InvalidResponse) (\<lambda>eof.
     if unat count \<noteq> length chunk \<or> QGA_FILE_CHUNK < unat count then Inl GE_PartialCopy else Inr (chunk, eof))))"

definition read_request :: "int \<Rightarrow> json" where
  "read_request handle = JObject [(''count'', json_u64 (word_of_nat QGA_FILE_CHUNK)), (''handle'', json_i64 handle)]"

function file_read_all ::
  "('s, 'y) link_env_scheme \<Rightarrow> nat \<Rightarrow> int \<Rightarrow> u64 \<Rightarrow> string \<Rightarrow> (('s, 'z) link_world_scheme, guest_io_error, string) eff" where
  "file_read_all E client handle max_bytes output w =
     (case bindE (qga_execute E client ''guest-file-read'' (Some (read_request handle))) (\<lambda>v. liftR (read_answer E v)) w of
        (Inl e, w') \<Rightarrow> (Inl e, w')
      | (Inr (chunk, eof), w') \<Rightarrow>
          if unat max_bytes < length (output @ chunk) then (Inl GE_OutputLimit, w')
          else if eof then (Inr (output @ chunk), w')
          else if chunk = [] then (Inl GE_InvalidResponse, w')
          else file_read_all E client handle max_bytes (output @ chunk) w')"
  by pat_completeness auto

termination
  by (relation "measure (\<lambda>(E, client, handle, max_bytes, output, w). unat max_bytes - length output)")
    (auto simp: not_less neq_Nil_conv)

declare file_read_all.simps [simp del]

subsection \<open>The proof of the machine\<close>

definition snapshot_matches :: "host_env \<Rightarrow> provider_vm \<Rightarrow> json \<Rightarrow> json \<Rightarrow> json \<Rightarrow> json \<Rightarrow> json \<Rightarrow> json \<Rightarrow> json \<Rightarrow> bool" where
  "snapshot_matches H expected uuid name cpus memory network blocks status =
     (let block = (case as_array blocks of Some [b] \<Rightarrow> Some b | _ \<Rightarrow> None);
          inserted = Option.bind block (\<lambda>b. json_get b ''inserted'');
          attached = Option.bind inserted (\<lambda>i. json_field i ''file'' as_str)
      in \<not> (json_field uuid ''UUID'' as_str \<noteq> Some (vm_id expected)
        \<or> json_field name ''name'' as_str \<noteq> Some (vm_name expected)
        \<or> map_option length (as_array cpus) \<noteq> Some (unat (vm_cpu_count expected))
        \<or> json_field memory ''base-memory'' as_u64 \<noteq> Some (vm_memory_mib expected * 1024 * 1024)
        \<or> (case as_array network of None \<Rightarrow> True | Some items \<Rightarrow> items \<noteq> [])
        \<or> Option.bind inserted (\<lambda>i. json_field i ''drv'' as_str) \<noteq> Some ''qcow2''
        \<or> Option.bind inserted (\<lambda>i. json_field i ''backing_file_depth'' as_u64) \<noteq> Some 1
        \<or> (case attached of None \<Rightarrow> True | Some p \<Rightarrow>
            (case vm_attached_disks expected of [d] \<Rightarrow> \<not> qga_provider_path_equal H p d | _ \<Rightarrow> True))
        \<or> json_field status ''status'' as_str \<noteq> Some ''running''))"

definition qmp_query ::
  "('s, 'y) link_env_scheme \<Rightarrow> qmp_client \<Rightarrow> string \<Rightarrow> (('s, 'z) link_world_scheme, guest_io_error, json \<times> qmp_client) eff" where
  "qmp_query E q command = mapE provider_to_guest (qmp_execute E q command None)"

definition prove_qmp_snapshot ::
  "('s, 'y) qga_env_scheme \<Rightarrow> qmp_client \<Rightarrow> provider_vm \<Rightarrow> (('s, 'z) link_world_scheme, guest_io_error, unit) eff" where
  "prove_qmp_snapshot E q expected =
     bindE (qmp_query E q ''query-uuid'') (\<lambda>(uuid, q).
     bindE (qmp_query E q ''query-name'') (\<lambda>(name, q).
     bindE (qmp_query E q ''query-cpus-fast'') (\<lambda>(cpus, q).
     bindE (qmp_query E q ''query-memory-size-summary'') (\<lambda>(memory, q).
     bindE (qmp_query E q ''query-rx-filter'') (\<lambda>(network, q).
     bindE (qmp_query E q ''query-block'') (\<lambda>(blocks, q).
     bindE (qmp_query E q ''query-status'') (\<lambda>(status, q).
     if snapshot_matches (qe_host E) expected uuid name cpus memory network blocks status then ret ()
     else throw GE_OwnershipChanged)))))))"

subsection \<open>The executor\<close>

definition prove_vm ::
  "('s, 'y) qga_env_scheme \<Rightarrow> guest_action_authority \<Rightarrow> provider_vm \<Rightarrow> duration \<Rightarrow> (('s, 'z) link_world_scheme, guest_io_error, unit) eff" where
  "prove_vm E a expected timeout =
     bindE (lk_now E) (\<lambda>now.
     let deadline = now + timeout in
     bindE (remaining_guest_duration E deadline) (\<lambda>remaining.
     bindE (mapE provider_to_guest (connect_endpoint E (endpoint_qmp (qe_host E) (ga_configuration_path a) (ga_provider_id a))
       (min remaining FIVE_SECONDS))) (\<lambda>_.
     bindE (remaining_guest_duration E deadline) (\<lambda>remaining.
     bindE (mapE provider_to_guest (qmp_negotiate E remaining)) (\<lambda>q.
     prove_qmp_snapshot E q expected)))))"

definition executor_probe :: "('s, 'y) qga_env_scheme \<Rightarrow> control_endpoint \<Rightarrow> duration \<Rightarrow> (('s, 'z) link_world_scheme, guest_io_error, unit) eff" where
  "executor_probe E ep timeout =
     bindE (qga_connect E ep timeout) (\<lambda>client. bindE (qga_execute E client ''guest-info'' None) (\<lambda>_. ret ()))"

definition executor_exec ::
  "('s, 'y) qga_env_scheme \<Rightarrow> control_endpoint \<Rightarrow> guest_command \<Rightarrow> (('s, 'z) link_world_scheme, guest_io_error, guest_command_result) eff" where
  "executor_exec E ep command =
     bindE (liftR (guest_command_validate command)) (\<lambda>_.
     bindE (qga_connect E ep (gcmd_timeout command)) (\<lambda>client. qga_exec E client command))"

text \<open>What precedes the last slash; the destination always has one.\<close>

definition before_last_slash :: "string \<Rightarrow> string" where
  "before_last_slash s = rev (drop 1 (dropWhile (\<lambda>c. c \<noteq> CHR ''/'') (rev s)))"

definition executor_copy_in ::
  "('s, 'y) qga_env_scheme \<Rightarrow> control_endpoint \<Rightarrow> cell_id \<Rightarrow> guest_copy_in_action \<Rightarrow> (('s, 'z) link_world_scheme, guest_io_error, unit) eff" where
  "executor_copy_in E ep c action =
     bindE (qga_connect E ep (ci_timeout action)) (\<lambda>client.
     let X = he_crates (qe_host E);
         destination = workspace_root X c @ ''/'' @ as_posix (ci_destination action);
         parent = before_last_slash destination;
         temporary = destination @ ''.vmcell-'' @ uuid_to_string X (op_uuid (ci_operation_id action)) @ ''.tmp'' in
     bindE (exec_simple E client ''/bin/mkdir'' [''-p'', parent] (ci_timeout action)) (\<lambda>_.
     bindE (file_open E client temporary ''w'') (\<lambda>handle.
     bindE (attempt (file_write_all E client handle (ci_content action))) (\<lambda>write_result.
     bindE (attempt (file_close E client handle)) (\<lambda>close_result.
     bindE (liftR write_result) (\<lambda>_.
     bindE (liftR close_result) (\<lambda>_.
     commit_copy_in E client temporary destination (ci_overwrite action) (ci_timeout action))))))))"

definition executor_copy_out ::
  "('s, 'y) qga_env_scheme \<Rightarrow> control_endpoint \<Rightarrow> cell_id \<Rightarrow> guest_copy_out_action \<Rightarrow> (('s, 'z) link_world_scheme, guest_io_error, string) eff" where
  "executor_copy_out E ep c action =
     bindE (qga_connect E ep (cp_timeout action)) (\<lambda>client.
     let source = workspace_root (he_crates (qe_host E)) c @ ''/'' @ as_posix (cp_source action) in
     bindE (file_open E client source ''r'') (\<lambda>handle.
     bindE (attempt (file_read_all E client handle (cp_max_bytes action) [])) (\<lambda>read_result.
     bindE (attempt (file_close E client handle)) (\<lambda>close_result.
     bindE (liftR read_result) (\<lambda>bytes.
     bindE (liftR close_result) (\<lambda>_. ret bytes))))))"

subsection \<open>The transport\<close>

definition authority_current ::
  "('s, 'y) qga_env_scheme \<Rightarrow> guest_action_authority \<Rightarrow> provider_vm \<Rightarrow> (('s, 'z) link_world_scheme, guest_io_error, unit) eff" where
  "authority_current E a expected = (\<lambda>w. (guest_authority_validate (qe_guards E (lw_tick w)) a expected, w))"

definition agent_endpoint :: "('s, 'y) qga_env_scheme \<Rightarrow> guest_action_authority \<Rightarrow> control_endpoint" where
  "agent_endpoint E a = endpoint_qga (qe_host E) (ga_configuration_path a) (ga_provider_id a)"

definition qga_probe_ready ::
  "('s, 'y) qga_env_scheme \<Rightarrow> guest_action_authority \<Rightarrow> provider_vm \<Rightarrow> guest_credentials \<Rightarrow> duration
    \<Rightarrow> (('s, 'z) link_world_scheme, guest_io_error, guest_readiness) eff" where
  "qga_probe_ready E a expected cr timeout =
     bindE (authority_current E a expected) (\<lambda>_.
     if ga_provider a \<noteq> ''qemu'' then throw GE_OwnershipChanged
     else
     bindE (prove_vm E a expected timeout) (\<lambda>_.
     bindE (attempt (executor_probe E (agent_endpoint E a) timeout)) (\<lambda>res. case res of
       Inr () \<Rightarrow> ret GR_Ready
     | Inl GE_GuestNotReady \<Rightarrow> ret GR_GuestNotReady
     | Inl GE_Transport \<Rightarrow> ret GR_GuestNotReady
     | Inl e \<Rightarrow> throw e)))"

definition qga_transport_exec ::
  "('s, 'y) qga_env_scheme \<Rightarrow> guest_action_authority \<Rightarrow> provider_vm \<Rightarrow> guest_credentials \<Rightarrow> guest_command
    \<Rightarrow> (('s, 'z) link_world_scheme, guest_io_error, guest_command_result) eff" where
  "qga_transport_exec E a expected cr command =
     bindE (authority_current E a expected) (\<lambda>_.
     bindE (prove_vm E a expected (gcmd_timeout command)) (\<lambda>_.
     executor_exec E (agent_endpoint E a) command))"

definition qga_copy_in ::
  "('s, 'y) qga_env_scheme \<Rightarrow> guest_action_authority \<Rightarrow> provider_vm \<Rightarrow> guest_credentials \<Rightarrow> guest_copy_in_action
    \<Rightarrow> (('s, 'z) link_world_scheme, guest_io_error, unit) eff" where
  "qga_copy_in E a expected cr action =
     bindE (authority_current E a expected) (\<lambda>_.
     bindE (prove_vm E a expected (ci_timeout action)) (\<lambda>_.
     executor_copy_in E (agent_endpoint E a) (ga_cell_id a) action))"

definition qga_copy_out ::
  "('s, 'y) qga_env_scheme \<Rightarrow> guest_action_authority \<Rightarrow> provider_vm \<Rightarrow> guest_credentials \<Rightarrow> guest_copy_out_action
    \<Rightarrow> (('s, 'z) link_world_scheme, guest_io_error, string) eff" where
  "qga_copy_out E a expected cr action =
     bindE (authority_current E a expected) (\<lambda>_.
     bindE (prove_vm E a expected (cp_timeout action)) (\<lambda>_.
     executor_copy_out E (agent_endpoint E a) (ga_cell_id a) action))"

definition qga_transport :: "('s, 'y) qga_env_scheme \<Rightarrow> ('s, 'z) link_world_scheme guest_transport" where
  "qga_transport E = \<lparr>gt_name = ''qga'', gt_supports = (\<lambda>provider os. provider = ''qemu'' \<and> os = Os_Linux),
     gt_probe_ready = qga_probe_ready E, gt_exec = qga_transport_exec E, gt_copy_in = qga_copy_in E, gt_copy_out = qga_copy_out E\<rparr>"

end
