(* ===== verification/Qemu.thy ===== *)
theory Qemu
  imports Qga
begin

section \<open>The QEMU provider\<close>

text \<open>
  \<open>providers/qemu/mod.rs\<close>, the non-Windows build: machine configurations as private files, the launch command line, and the
  provider's operations, an instance of the provider record the engine takes.  The configuration files are part of the world (\<open>qw_files\<close>, by path
  components); before every file operation other processes may change them (\<open>qx_tamper\<close>) and the operation may fail (\<open>qx_fault\<close>).
  What the provider asks of its executor and of the host is the environment: running a command, spawning and activating a process, whether a process or
  its tree is proven absent or owned (\<open>qx_ask\<close>), file metadata, links and directories outside the configuration.  The trace lists the spawned, activated and
  terminated processes, control commands and configuration changes, each with the files at that moment.  An open handle is read through its path, after the
  identity check the code makes on it (\<open>private_file_check\<close>); whether a file is private, ordinary and still the opened one is part of its metadata.  The stop loop polls
  at most \<open>lk_polls\<close> times, as connecting does.
\<close>

subsection \<open>Constants and data\<close>

definition QEMU_CONFIG_SCHEMA :: u32 where "QEMU_CONFIG_SCHEMA = 2"
definition QEMU_LEGACY_CONFIG_SCHEMA :: u32 where "QEMU_LEGACY_CONFIG_SCHEMA = 1"
definition QEMU_CONFIG_MAX_BYTES :: nat where "QEMU_CONFIG_MAX_BYTES = 256 * 1024"
definition CONTROL_TIMEOUT :: duration where "CONTROL_TIMEOUT = duration_from_secs 5"
definition UNIX_CONTROL_ENDPOINT_LIMIT :: nat where "UNIX_CONTROL_ENDPOINT_LIMIT = 96"

definition milliseconds :: "nat \<Rightarrow> duration" where
  "milliseconds n = n * 1000000"

datatype kvm_device_status =
  Kvm_NotApplicable | Kvm_Usable | Kvm_Missing | Kvm_PermissionDenied | Kvm_NotCharacterDevice | Kvm_IdentityChanged | Kvm_Unavailable

definition kvm_usable :: "kvm_device_status \<Rightarrow> bool" where
  "kvm_usable s \<longleftrightarrow> s = Kvm_NotApplicable \<or> s = Kvm_Usable"

fun kvm_diagnostic :: "kvm_device_status \<Rightarrow> string" where
  "kvm_diagnostic Kvm_NotApplicable = ''not applicable on this host''"
| "kvm_diagnostic Kvm_Usable = ''read-write usable by the current identity''"
| "kvm_diagnostic Kvm_Missing = ''/dev/kvm is missing''"
| "kvm_diagnostic Kvm_PermissionDenied = ''/dev/kvm is not read-write usable by the current identity''"
| "kvm_diagnostic Kvm_NotCharacterDevice = ''/dev/kvm is not an ordinary character device''"
| "kvm_diagnostic Kvm_IdentityChanged = ''/dev/kvm identity changed while it was opened''"
| "kvm_diagnostic Kvm_Unavailable = ''/dev/kvm could not be opened read-write''"

record qemu_command_output =
  qo_success :: bool
  qo_stdout :: string

record qemu_spawn_receipt =
  sr_process_id :: u32
  sr_process_start_token :: u64
  sr_executable_sha256 :: string
  sr_command_sha256 :: string

record qemu_vm_config =
  qv_schema_version :: u32
  qv_id :: string
  qv_name :: string
  qv_ownership_marker :: string
  qv_configuration_path :: path
  qv_overlay_path :: path
  qv_parent_path :: path
  qv_cpu_count :: u16
  qv_memory_mib :: u64
  qv_accelerator :: string
  qv_qmp :: control_endpoint
  qv_qga :: control_endpoint
  qv_command_sha256 :: string
  qv_spawn_pending :: bool
  qv_process_id :: "u32 option"
  qv_process_start_token :: "u64 option"
  qv_process_executable_sha256 :: "string option"
  qv_process_job_name :: "string option"

record qemu_img_info =
  qi_format :: string
  qi_virtual_size :: u64
  qi_backing_filename :: "string option"
  qi_full_backing_filename :: "path option"

record qemu_config_snapshot =
  cs_config :: qemu_vm_config
  cs_bytes_sha256 :: string

subsection \<open>Environment and world\<close>

datatype process_query =
  Q_Matches u32 u64 string string string "string option"
| Q_Absent u32 u64
| Q_TreeAbsent "(u32 \<times> u64) option" "string option"
| Q_TreeOwned "string option"

record file_meta =
  fm_reparse :: bool
  fm_dir :: bool
  fm_file :: bool
  fm_private :: bool
  fm_identity :: nat

datatype meta_answer = Meta_NotFound | Meta_Error string | Meta_Ok file_meta

datatype link_error = Link_AlreadyExists | Link_Other string

datatype kvm_error_kind = Kind_NotFound | Kind_PermissionDenied | Kind_Other

record kvm_observation =
  ko_before :: "kvm_error_kind + nat option"
  ko_open :: "kvm_error_kind + unit"
  ko_opened :: "nat option option"
  ko_current :: "nat option option"

type_synonym config_files = "component list \<Rightarrow> string option"

datatype qemu_action =
  Act_Spawn string "string list" "string option" string
| Act_Activate qemu_spawn_receipt
| Act_Terminate "string option"
| Act_Control string
| Act_Write path
| Act_Remove path

record 's qemu_env = "'s link_env" +
  qx_host :: host_env
  qx_guards :: "nat \<Rightarrow> guard_status"
  qx_os :: string
  qx_arch :: string
  qx_runtime_root :: path
  qx_system_binary :: string
  qx_image_binary :: string
  qx_run :: "string \<Rightarrow> string list \<Rightarrow> 's \<Rightarrow> (provider_error + qemu_command_output) \<times> 's"
  qx_spawn :: "string \<Rightarrow> string list \<Rightarrow> string option \<Rightarrow> string \<Rightarrow> 's \<Rightarrow> (provider_error + qemu_spawn_receipt) \<times> 's"
  qx_activate :: "qemu_spawn_receipt \<Rightarrow> 's \<Rightarrow> (provider_error + unit) \<times> 's"
  qx_ask :: "process_query \<Rightarrow> 's \<Rightarrow> nat \<Rightarrow> bool"
  qx_terminate :: "string option \<Rightarrow> 's \<Rightarrow> (provider_error + unit) \<times> 's"
  qx_meta :: "path \<Rightarrow> 's \<Rightarrow> nat \<Rightarrow> meta_answer"
  qx_handle :: "path \<Rightarrow> 's \<Rightarrow> nat \<Rightarrow> file_meta option"
  qx_link :: "path \<Rightarrow> path \<Rightarrow> 's \<Rightarrow> (link_error + unit) \<times> 's"
  qx_unlink :: "path \<Rightarrow> 's \<Rightarrow> (string + unit) \<times> 's"
  qx_open :: "path \<Rightarrow> 's \<Rightarrow> (string + unit) \<times> 's"
  qx_set_private :: "path \<Rightarrow> 's \<Rightarrow> (string + unit) \<times> 's"
  qx_mkdir :: "path \<Rightarrow> 's \<Rightarrow> (string + unit) \<times> 's"
  qx_file_size :: "path \<Rightarrow> 's \<Rightarrow> nat \<Rightarrow> u64"
  qx_kvm :: "nat \<Rightarrow> kvm_observation"
  qx_tamper :: "nat \<Rightarrow> config_files \<Rightarrow> config_files"
  qx_fault :: "nat \<Rightarrow> string option"
  qx_encode :: "qemu_vm_config \<Rightarrow> string option"
  qx_decode :: "string \<Rightarrow> qemu_vm_config option"
  qx_image_info :: "string \<Rightarrow> qemu_img_info option"

record 's qemu_world = "'s link_world" +
  qw_files :: config_files
  qw_trace :: "(qemu_action \<times> config_files) list"

type_synonym ('s, 'z, 'a) qemu_eff = "(('s, 'z) qemu_world_scheme, provider_error, 'a) eff"

text \<open>A question about the host, an action on it, and an entry of the trace.\<close>

definition asking :: "('s \<Rightarrow> nat \<Rightarrow> 'a) \<Rightarrow> ('s, 'z, 'a) qemu_eff" where
  "asking f = (\<lambda>w. (Inr (f (lw_peer w) (lw_tick w)), w\<lparr>lw_tick := Suc (lw_tick w)\<rparr>))"

definition acting :: "('s \<Rightarrow> ('e + 'a) \<times> 's) \<Rightarrow> (('s, 'z) qemu_world_scheme, 'e, 'a) eff" where
  "acting f = (\<lambda>w. case f (lw_peer w) of (r, s) \<Rightarrow> (r, w\<lparr>lw_peer := s, lw_tick := Suc (lw_tick w)\<rparr>))"

definition logging :: "qemu_action \<Rightarrow> ('s, 'z, unit) qemu_eff" where
  "logging a = (\<lambda>w. (Inr (), w\<lparr>qw_trace := (a, qw_files w) # qw_trace w\<rparr>))"

text \<open>A file operation on the configuration files: what other processes did before it, a failure, or its effect.\<close>

definition file_op ::
  "('s, 'y) qemu_env_scheme \<Rightarrow> (string \<Rightarrow> provider_error) \<Rightarrow> (config_files \<Rightarrow> (provider_error + 'a) \<times> config_files) \<Rightarrow> ('s, 'z, 'a) qemu_eff" where
  "file_op E err f = (\<lambda>w.
     let t = lw_tick w; fs = qx_tamper E t (qw_files w); w1 = w\<lparr>lw_tick := Suc t, qw_files := fs\<rparr> in
     case qx_fault E t of
       Some m \<Rightarrow> (Inl (err m), w1)
     | None \<Rightarrow> (case f fs of (r, fs') \<Rightarrow> (r, w1\<lparr>qw_files := fs'\<rparr>)))"

definition authority_check :: "('s, 'y) qemu_env_scheme \<Rightarrow> (guard_status \<Rightarrow> provider_error + unit) \<Rightarrow> ('s, 'z, unit) qemu_eff" where
  "authority_check E f = (\<lambda>w. (f (qx_guards E (lw_tick w)), w))"

subsection \<open>Path safety\<close>

definition qemu_argument_path_is_safe :: "path \<Rightarrow> bool" where
  "qemu_argument_path_is_safe p \<longleftrightarrow> is_utf8 p
     \<and> \<not> list_ex (\<lambda>c. c = CHR '','' \<or> c = newline \<or> c = CHR 0x0D \<or> c = nul) p"

definition unix_control_endpoint_is_safe :: "path \<Rightarrow> bool" where
  "unix_control_endpoint_is_safe p \<longleftrightarrow> qemu_argument_path_is_safe p \<and> p \<noteq> [] \<and> length p \<le> UNIX_CONTROL_ENDPOINT_LIMIT"

fun control_endpoint_is_safe :: "control_endpoint \<Rightarrow> bool" where
  "control_endpoint_is_safe (Ep_Unix p) = unix_control_endpoint_is_safe p"
| "control_endpoint_is_safe (Ep_WindowsPipe v) =
     (starts_with v (pipe_prefix @ ''vmcell-'') \<and> length v \<le> 256 \<and> \<not> any_control v)"

fun ancestors_ordinary :: "(path \<Rightarrow> meta_answer) \<Rightarrow> nat \<Rightarrow> path list \<Rightarrow> provider_error + unit" where
  "ancestors_ordinary meta index [] = Inr ()"
| "ancestors_ordinary meta index (a # rest) =
     (if a = [] then ancestors_ordinary meta (Suc index) rest
      else case meta a of
        Meta_Ok m \<Rightarrow>
          if fm_reparse m \<or> (0 < index \<and> \<not> fm_dir m)
          then Inl (PE_OwnershipChanged ''QEMU path contains a reparse or non-directory ancestor'')
          else ancestors_ordinary meta (Suc index) rest
      | Meta_NotFound \<Rightarrow>
          if index = 0 then ancestors_ordinary meta (Suc index) rest
          else Inl (PE_OwnershipChanged ''QEMU path ancestor is unavailable'')
      | Meta_Error e \<Rightarrow> Inl (PE_Command (''failed to inspect QEMU path ancestry: '' @ e)))"

definition ancestors_check :: "(path \<Rightarrow> meta_answer) \<Rightarrow> path \<Rightarrow> provider_error + unit" where
  "ancestors_check meta p =
     res_bind (ensure (qemu_argument_path_is_safe p) (PE_Authority ''QEMU path contains an unsafe argument or Windows alias'')) (\<lambda>_.
     ancestors_ordinary meta 0 (ancestors p))"

definition ensure_existing_qemu_ancestors_are_ordinary :: "('s, 'y) qemu_env_scheme \<Rightarrow> path \<Rightarrow> ('s, 'z, unit) qemu_eff" where
  "ensure_existing_qemu_ancestors_are_ordinary E p =
     bindE (asking (\<lambda>s t. ancestors_check (\<lambda>q. qx_meta E q s t) p)) liftR"

definition private_directory_check :: "(path \<Rightarrow> meta_answer) \<Rightarrow> path \<Rightarrow> provider_error + unit" where
  "private_directory_check meta p =
     (case meta p of
        Meta_Ok m \<Rightarrow>
          res_bind (ensure (fm_dir m \<and> \<not> fm_reparse m) (PE_Authority ''QEMU configuration directory is not private and ordinary'')) (\<lambda>_.
          res_bind (ancestors_check meta p) (\<lambda>_.
          ensure (fm_private m) (PE_Authority ''QEMU configuration directory is not private and ordinary'')))
      | _ \<Rightarrow> Inl (PE_Authority ''QEMU configuration directory identity is unavailable''))"

definition ensure_private_qemu_directory :: "('s, 'y) qemu_env_scheme \<Rightarrow> path \<Rightarrow> ('s, 'z, unit) qemu_eff" where
  "ensure_private_qemu_directory E p = bindE (asking (\<lambda>s t. private_directory_check (\<lambda>q. qx_meta E q s t) p)) liftR"

definition private_file_check :: "(path \<Rightarrow> meta_answer) \<Rightarrow> file_meta option \<Rightarrow> path \<Rightarrow> provider_error + unit" where
  "private_file_check meta handle p =
     (case handle of
        None \<Rightarrow> Inl (PE_Authority ''QEMU configuration file identity is unavailable'')
      | Some opened \<Rightarrow> (case meta p of
          Meta_Ok current \<Rightarrow>
            res_bind (ensure (fm_file opened \<and> fm_file current \<and> \<not> fm_reparse opened \<and> \<not> fm_reparse current)
              (PE_Authority ''QEMU configuration file is not private, ordinary, and safe to use'')) (\<lambda>_.
            res_bind (ancestors_check meta p) (\<lambda>_.
            res_bind (ensure (fm_private opened) (PE_Authority ''QEMU configuration file is not private, ordinary, and safe to use'')) (\<lambda>_.
            ensure (fm_identity opened = fm_identity current)
              (PE_OwnershipChanged ''QEMU configuration file identity changed while it was opened''))))
        | _ \<Rightarrow> Inl (PE_Authority ''QEMU configuration file path is unavailable'')))"

definition ensure_private_qemu_file :: "('s, 'y) qemu_env_scheme \<Rightarrow> path \<Rightarrow> ('s, 'z, unit) qemu_eff" where
  "ensure_private_qemu_file E p = bindE (asking (\<lambda>s t. private_file_check (\<lambda>q. qx_meta E q s t) (qx_handle E p s t) p)) liftR"

definition prove_path_absent :: "('s, 'y) qemu_env_scheme \<Rightarrow> path \<Rightarrow> string \<Rightarrow> ('s, 'z, unit) qemu_eff" where
  "prove_path_absent E p label =
     bindE (ensure_existing_qemu_ancestors_are_ordinary E p) (\<lambda>_.
     bindE (asking (\<lambda>s t. qx_meta E p s t)) (\<lambda>m. case m of
       Meta_NotFound \<Rightarrow> ret ()
     | Meta_Ok _ \<Rightarrow> throw (PE_Collision (label @ '' path already exists''))
     | Meta_Error _ \<Rightarrow> throw (PE_OwnershipChanged (label @ '' absence could not be proven''))))"

subsection \<open>The launch command line\<close>

definition launch_args :: "qemu_vm_config \<Rightarrow> string list" where
  "launch_args c =
     [''-S'', ''-nodefaults'', ''-display'', ''none'', ''-serial'', ''none'', ''-monitor'', ''none'', ''-no-reboot'', ''-nic'', ''none'',
      ''-name'', qv_name c, ''-uuid'', qv_id c, ''-machine'', ''accel='' @ qv_accelerator c,
      ''-m'', dec_digits (unat (qv_memory_mib c)), ''-smp'', dec_digits (unat (qv_cpu_count c)),
      ''-drive'', ''file='' @ qv_overlay_path c @ '',if=virtio,format=qcow2,cache=none'',
      ''-qmp'', qemu_argument (qv_qmp c), ''-chardev'', ''socket,id=qga0,'' @ qemu_argument (qv_qga c),
      ''-device'', ''virtio-serial'', ''-device'', ''virtserialport,chardev=qga0,name=org.qemu.guest_agent.0'']"

text \<open>\<open>(len as u64).to_le_bytes()\<close>.\<close>

definition le_bytes :: "u64 \<Rightarrow> string" where
  "le_bytes n = map (\<lambda>i. char_of (unat n div 256 ^ i mod 256)) [0..<8]"

definition argument_digest :: "crates \<Rightarrow> string list \<Rightarrow> string" where
  "argument_digest X args = sha256_hex X (concat (map (\<lambda>a. le_bytes (word_of_nat (length a)) @ a) args))"

definition launch_digest :: "crates \<Rightarrow> qemu_vm_config \<Rightarrow> string" where
  "launch_digest X c = argument_digest X (launch_args c)"

subsection \<open>Configurations\<close>

fun control_endpoint_eq :: "control_endpoint \<Rightarrow> control_endpoint \<Rightarrow> bool" where
  "control_endpoint_eq (Ep_Unix p) (Ep_Unix q) = path_eq p q"
| "control_endpoint_eq (Ep_WindowsPipe v) (Ep_WindowsPipe u) = (v = u)"
| "control_endpoint_eq _ _ = False"

definition is_ascii_hexdigit :: "char \<Rightarrow> bool" where
  "is_ascii_hexdigit c \<longleftrightarrow> is_ascii_digit c \<or> c \<in> set ''abcdefABCDEF''"

definition qemu_config_path :: "path \<Rightarrow> path" where
  "qemu_config_path configuration_path = path_join configuration_path ''vm.json''"

definition qemu_job_receipt_is_valid :: "qemu_vm_config \<Rightarrow> bool" where
  "qemu_job_receipt_is_valid c \<longleftrightarrow> qv_process_job_name c = None"

definition qemu_config_validate :: "host_env \<Rightarrow> qemu_vm_config \<Rightarrow> path \<Rightarrow> provider_error + unit" where
  "qemu_config_validate H c p =
     (if (qv_schema_version c \<noteq> QEMU_LEGACY_CONFIG_SCHEMA \<and> qv_schema_version c \<noteq> QEMU_CONFIG_SCHEMA)
        \<or> uuid_parse_str (he_crates H) (qv_id c) = None
        \<or> qv_name c \<noteq> ''vmcell-'' @ qv_id c
        \<or> \<not> path_eq p (qemu_config_path (qv_configuration_path c))
        \<or> map_option components (path_parent (qv_overlay_path c)) \<noteq> map_option components (path_parent (qv_configuration_path c))
        \<or> \<not> control_endpoint_eq (qv_qmp c) (endpoint_qmp H (qv_configuration_path c) (qv_id c))
        \<or> \<not> control_endpoint_eq (qv_qga c) (endpoint_qga H (qv_configuration_path c) (qv_id c))
        \<or> qv_cpu_count c = 0 \<or> qv_memory_mib c = 0
        \<or> qv_accelerator c \<notin> {''whpx'', ''kvm'', ''hvf'', ''tcg''}
        \<or> \<not> qemu_argument_path_is_safe (qv_configuration_path c)
        \<or> \<not> qemu_argument_path_is_safe (qv_overlay_path c)
        \<or> \<not> qemu_argument_path_is_safe (qv_parent_path c)
        \<or> \<not> control_endpoint_is_safe (qv_qmp c) \<or> \<not> control_endpoint_is_safe (qv_qga c)
        \<or> qv_command_sha256 c \<noteq> launch_digest (he_crates H) c
        \<or> (qv_process_id c \<noteq> None) \<noteq> (qv_process_start_token c \<noteq> None)
        \<or> (qv_process_id c \<noteq> None) \<noteq> (qv_process_executable_sha256 c \<noteq> None)
        \<or> (qv_schema_version c = QEMU_LEGACY_CONFIG_SCHEMA \<and> qv_process_job_name c \<noteq> None)
        \<or> \<not> qemu_job_receipt_is_valid c
        \<or> qv_process_start_token c = Some 0
        \<or> (case qv_process_executable_sha256 c of None \<Rightarrow> False
            | Some v \<Rightarrow> length v \<noteq> 64 \<or> \<not> list_all is_ascii_hexdigit v)
      then Inl (PE_InvalidResponse ''QEMU configuration invariants failed'') else Inr ())"

definition qemu_snapshot :: "qemu_vm_config \<Rightarrow> provider_power_state \<Rightarrow> provider_vm" where
  "qemu_snapshot c state = \<lparr>vm_id = qv_id c, vm_name = qv_name c, vm_power_state = state, vm_ownership_marker = qv_ownership_marker c,
     vm_configuration_path = qv_configuration_path c, vm_attached_disks = [qv_overlay_path c], vm_network_adapter_count = 0,
     vm_cpu_count = qv_cpu_count c, vm_memory_mib = qv_memory_mib c\<rparr>"

definition validate_config_snapshot :: "qemu_vm_config \<Rightarrow> provider_vm \<Rightarrow> bool \<Rightarrow> provider_error + unit" where
  "validate_config_snapshot c expected require_marker =
     (if qv_id c \<noteq> vm_id expected \<or> qv_name c \<noteq> vm_name expected
        \<or> \<not> path_eq (qv_configuration_path c) (vm_configuration_path expected)
        \<or> map components (vm_attached_disks expected) \<noteq> [components (qv_overlay_path c)]
        \<or> qv_cpu_count c \<noteq> vm_cpu_count expected \<or> qv_memory_mib c \<noteq> vm_memory_mib expected
        \<or> vm_network_adapter_count expected \<noteq> 0
        \<or> (require_marker \<and> qv_ownership_marker c \<noteq> vm_ownership_marker expected)
        \<or> (\<not> require_marker \<and> qv_ownership_marker c \<noteq> [] \<and> qv_ownership_marker c \<noteq> vm_ownership_marker expected)
      then Inl (PE_OwnershipChanged ''QEMU configuration no longer matches the expected snapshot'') else Inr ())"

definition qemu_definition_of :: "qemu_vm_config \<Rightarrow> bool \<Rightarrow> qemu_definition" where
  "qemu_definition_of c require_marker = \<lparr>qd_provider_id = qv_id c, qd_provider_name = qv_name c, qd_provider_marker = qv_ownership_marker c,
     qd_configuration_path = qv_configuration_path c, qd_overlay_path = qv_overlay_path c, qd_parent_path = qv_parent_path c,
     qd_accelerator = qv_accelerator c, qd_cpu_count = qv_cpu_count c, qd_memory_mib = qv_memory_mib c, qd_require_marker = require_marker\<rparr>"

definition authorize_config ::
  "('s, 'y) qemu_env_scheme \<Rightarrow> provider_mutation_authority \<Rightarrow> qemu_vm_config \<Rightarrow> bool \<Rightarrow> ('s, 'z, unit) qemu_eff" where
  "authorize_config E a c require_marker =
     authority_check E (\<lambda>g. validate_qemu_definition (qx_host E) g a (qemu_definition_of c require_marker))"

subsection \<open>Configuration files\<close>

definition read_error :: "string \<Rightarrow> provider_error" where
  "read_error e = PE_Command (''failed to read QEMU configuration: '' @ e)"

definition open_file :: "('s, 'y) qemu_env_scheme \<Rightarrow> path \<Rightarrow> ('s, 'z, unit) qemu_eff" where
  "open_file E p = file_op E read_error (\<lambda>fs. (if fs (components p) = None then Inl (read_error ''not found'') else Inr (), fs))"

text \<open>\<open>Path::exists\<close>: an error counts as absence.\<close>

definition file_exists :: "('s, 'y) qemu_env_scheme \<Rightarrow> path \<Rightarrow> ('s, 'z, bool) qemu_eff" where
  "file_exists E p = bindE (attempt (file_op E read_error (\<lambda>fs. (Inr (fs (components p) \<noteq> None), fs)))) (\<lambda>r. ret (r = Inr True))"

definition read_qemu_config_bytes :: "('s, 'y) qemu_env_scheme \<Rightarrow> path \<Rightarrow> ('s, 'z, string) qemu_eff" where
  "read_qemu_config_bytes E p =
     bindE (file_op E read_error (\<lambda>fs. (ok_or (fs (components p)) (read_error ''not found''), fs))) (\<lambda>content.
     let bytes = take (QEMU_CONFIG_MAX_BYTES + 1) content in
     if length bytes > QEMU_CONFIG_MAX_BYTES then throw (PE_InvalidResponse ''QEMU configuration exceeds the maximum size'')
     else ret bytes)"

definition decode_qemu_config :: "('s, 'y) qemu_env_scheme \<Rightarrow> path \<Rightarrow> string \<Rightarrow> provider_error + qemu_vm_config" where
  "decode_qemu_config E p bytes =
     res_bind (ok_or (qx_decode E bytes) (PE_InvalidResponse ''QEMU configuration JSON is invalid'')) (\<lambda>c.
     res_bind (qemu_config_validate (qx_host E) c p) (\<lambda>_. Inr c))"

definition encode_qemu_config :: "('s, 'y) qemu_env_scheme \<Rightarrow> qemu_vm_config \<Rightarrow> provider_error + string" where
  "encode_qemu_config E c =
     res_bind (ok_or (qx_encode E c) (PE_InvalidResponse ''QEMU configuration could not be encoded'')) (\<lambda>bytes.
     if length bytes > QEMU_CONFIG_MAX_BYTES then Inl (PE_InvalidResponse ''QEMU configuration exceeds the maximum size'') else Inr bytes)"

definition qemu_config_bytes_sha256 :: "('s, 'y) qemu_env_scheme \<Rightarrow> string \<Rightarrow> string" where
  "qemu_config_bytes_sha256 E bytes = sha256_hex (he_crates (qx_host E)) bytes"

definition read_config_snapshot :: "('s, 'y) qemu_env_scheme \<Rightarrow> path \<Rightarrow> ('s, 'z, qemu_config_snapshot) qemu_eff" where
  "read_config_snapshot E p =
     bindE (ensure_existing_qemu_ancestors_are_ordinary E p) (\<lambda>_.
     bindE (open_file E p) (\<lambda>_.
     bindE (ensure_private_qemu_file E p) (\<lambda>_.
     bindE (read_qemu_config_bytes E p) (\<lambda>bytes.
     bindE (liftR (decode_qemu_config E p bytes)) (\<lambda>c.
     ret \<lparr>cs_config = c, cs_bytes_sha256 = qemu_config_bytes_sha256 E bytes\<rparr>)))))"

definition validate_pinned_qemu_config_bytes :: "('s, 'y) qemu_env_scheme \<Rightarrow> path \<Rightarrow> string \<Rightarrow> ('s, 'z, string) qemu_eff" where
  "validate_pinned_qemu_config_bytes E p expected_sha256 =
     bindE (ensure_private_qemu_file E p) (\<lambda>_.
     bindE (read_qemu_config_bytes E p) (\<lambda>bytes.
     if qemu_config_bytes_sha256 E bytes \<noteq> expected_sha256
     then throw (PE_OwnershipChanged ''QEMU configuration changed while it was pinned'') else ret bytes))"

definition validate_pinned_config_snapshot :: "('s, 'y) qemu_env_scheme \<Rightarrow> path \<Rightarrow> qemu_config_snapshot \<Rightarrow> ('s, 'z, unit) qemu_eff" where
  "validate_pinned_config_snapshot E p snap =
     bindE (validate_pinned_qemu_config_bytes E p (cs_bytes_sha256 snap)) (\<lambda>bytes.
     bindE (liftR (decode_qemu_config E p bytes)) (\<lambda>_. ret ()))"

definition sync_parent_directory :: "('s, 'y) qemu_env_scheme \<Rightarrow> string \<Rightarrow> ('s, 'z, unit) qemu_eff" where
  "sync_parent_directory E msg = file_op E (\<lambda>e. PE_Command (msg @ e)) (\<lambda>fs. (Inr (), fs))"

definition write_config_new_pinned :: "('s, 'y) qemu_env_scheme \<Rightarrow> path \<Rightarrow> qemu_vm_config \<Rightarrow> ('s, 'z, string) qemu_eff" where
  "write_config_new_pinned E p c =
     bindE (ensure_existing_qemu_ancestors_are_ordinary E p) (\<lambda>_.
     bindE (liftR (encode_qemu_config E c)) (\<lambda>bytes.
     bindE (file_op E (\<lambda>e. PE_Command (''failed to create QEMU configuration: '' @ e))
       (\<lambda>fs. if fs (components p) \<noteq> None then (Inl (PE_Command (''failed to create QEMU configuration: '' @ ''already exists'')), fs)
              else (Inr (), fs(components p \<mapsto> [])))) (\<lambda>_.
     bindE (ensure_private_qemu_file E p) (\<lambda>_.
     bindE (file_op E (\<lambda>e. PE_Command (''failed to persist QEMU configuration: '' @ e))
       (\<lambda>fs. (Inr (), fs(components p \<mapsto> bytes)))) (\<lambda>_.
     bindE (logging (Act_Write p)) (\<lambda>_.
     bindE (sync_parent_directory E ''failed to persist QEMU configuration directory: '') (\<lambda>_.
     ret (qemu_config_bytes_sha256 E bytes))))))))"

definition temporary_config_path :: "('s, 'y) qemu_env_scheme \<Rightarrow> path \<Rightarrow> nat \<Rightarrow> path" where
  "temporary_config_path E p t =
     (case (path_parent p, file_stem p) of
        (Some parent, Some stem) \<Rightarrow> path_join parent (stem @ ''.tmp-'' @ uuid_to_string (he_crates (qx_host E)) (lk_uuid E t))
      | _ \<Rightarrow> p)"

definition rename_file :: "('s, 'y) qemu_env_scheme \<Rightarrow> path \<Rightarrow> path \<Rightarrow> ('s, 'z, unit) qemu_eff" where
  "rename_file E source destination =
     file_op E (\<lambda>e. PE_Command (''failed to replace QEMU configuration: '' @ e)) (\<lambda>fs. case fs (components source) of
        None \<Rightarrow> (Inl (PE_Command (''failed to replace QEMU configuration: '' @ ''not found'')), fs)
      | Some bytes \<Rightarrow> (Inr (), fs(components source := None, components destination \<mapsto> bytes)))"

definition replace_config ::
  "('s, 'y) qemu_env_scheme \<Rightarrow> path \<Rightarrow> qemu_config_snapshot \<Rightarrow> qemu_vm_config \<Rightarrow> ('s, 'z, unit) qemu_eff" where
  "replace_config E p snap c =
     bindE (ensure_existing_qemu_ancestors_are_ordinary E p) (\<lambda>_.
     bindE (asking (\<lambda>s t. temporary_config_path E p t)) (\<lambda>temp.
     bindE (write_config_new_pinned E temp c) (\<lambda>expected_sha256.
     bindE (validate_pinned_config_snapshot E p snap) (\<lambda>_.
     bindE (validate_pinned_qemu_config_bytes E temp expected_sha256) (\<lambda>_.
     bindE (rename_file E temp p) (\<lambda>_.
     bindE (logging (Act_Write p)) (\<lambda>_.
     bindE (sync_parent_directory E ''failed to replace QEMU configuration: '') (\<lambda>_.
     bindE (read_config_snapshot E p) (\<lambda>written.
     if cs_bytes_sha256 written \<noteq> expected_sha256
     then throw (PE_OwnershipChanged ''QEMU configuration replacement did not bind the intended bytes'')
     else ret ())))))))))"

subsection \<open>Commands and accelerators\<close>

definition run_checked :: "('s, 'y) qemu_env_scheme \<Rightarrow> string \<Rightarrow> string list \<Rightarrow> ('s, 'z, qemu_command_output) qemu_eff" where
  "run_checked E program args =
     bindE (acting (qx_run E program args)) (\<lambda>out.
     if qo_success out then ret out else throw (PE_Command ''QEMU command exited unsuccessfully''))"

definition whitespace_encodings :: "string list" where
  "whitespace_encodings =
     [[CHR 0x09], [CHR 0x0A], [CHR 0x0B], [CHR 0x0C], [CHR 0x0D], [CHR 0x20], [CHR 0xC2, CHR 0x85], [CHR 0xC2, CHR 0xA0], [CHR 0xE1, CHR 0x9A, CHR 0x80]]
     @ map (\<lambda>b. [CHR 0xE2, CHR 0x80, char_of b]) ([0x80..<0x8B] @ [0xA8, 0xA9, 0xAF :: nat])
     @ [[CHR 0xE2, CHR 0x81, CHR 0x9F], [CHR 0xE3, CHR 0x80, CHR 0x80]]"

lemma find_SomeD: "find P xs = Some x \<Longrightarrow> P x"
  by (induction xs) (auto split: if_splits)

function trim_start :: "string \<Rightarrow> string" where
  "trim_start s = (case find (\<lambda>p. p \<noteq> [] \<and> starts_with s p) whitespace_encodings of None \<Rightarrow> s | Some p \<Rightarrow> trim_start (drop (length p) s))"
  by pat_completeness auto

termination
  by (relation "measure length") (auto dest!: find_SomeD simp: starts_with_iff)

function trim_end :: "string \<Rightarrow> string" where
  "trim_end s = (case find (\<lambda>p. p \<noteq> [] \<and> ends_with s p) whitespace_encodings of None \<Rightarrow> s | Some p \<Rightarrow> trim_end (take (length s - length p) s))"
  by pat_completeness auto

termination
  by (relation "measure length") (auto dest!: find_SomeD simp: ends_with_def intro!: diff_less order.strict_trans2 [of 0])

declare trim_start.simps [simp del] trim_end.simps [simp del]

text \<open>\<open>str::lines\<close>: split at newlines, without a last empty line, each without a trailing carriage return.\<close>

definition text_lines :: "string \<Rightarrow> string list" where
  "text_lines s = map (\<lambda>l. if l \<noteq> [] \<and> last l = CHR 0x0D then butlast l else l)
     (let ls = split_on newline s in if last ls = [] then butlast ls else ls)"

definition str_trim :: "string \<Rightarrow> string" where
  "str_trim s = trim_end (trim_start s)"

definition filter_usable_accelerators :: "string list \<Rightarrow> bool \<Rightarrow> string list" where
  "filter_usable_accelerators values usable = remdups_adj (sort (filter (\<lambda>v. v \<noteq> ''kvm'' \<or> usable) values))"

fun classify_kvm_error :: "kvm_error_kind \<Rightarrow> kvm_device_status" where
  "classify_kvm_error Kind_NotFound = Kvm_Missing"
| "classify_kvm_error Kind_PermissionDenied = Kvm_PermissionDenied"
| "classify_kvm_error Kind_Other = Kvm_Unavailable"

definition probe_kvm_device :: "kvm_observation \<Rightarrow> kvm_device_status" where
  "probe_kvm_device obs = (case ko_before obs of
      Inl k \<Rightarrow> classify_kvm_error k
    | Inr None \<Rightarrow> Kvm_NotCharacterDevice
    | Inr (Some before) \<Rightarrow> (case ko_open obs of
        Inl k \<Rightarrow> classify_kvm_error k
      | Inr _ \<Rightarrow> (case ko_opened obs of
          None \<Rightarrow> Kvm_Unavailable
        | Some opened \<Rightarrow> (case ko_current obs of
            None \<Rightarrow> Kvm_IdentityChanged
          | Some current \<Rightarrow> if opened = Some before \<and> current = Some before then Kvm_Usable else Kvm_IdentityChanged))))"

definition host_kvm_device_status :: "('s, 'y) qemu_env_scheme \<Rightarrow> ('s, 'z, kvm_device_status) qemu_eff" where
  "host_kvm_device_status E = asking (\<lambda>s t. if qx_os E = ''linux'' then probe_kvm_device (qx_kvm E t) else Kvm_NotApplicable)"

definition accelerator_inventory ::
  "('s, 'y) qemu_env_scheme \<Rightarrow> ('s, 'z, string list \<times> kvm_device_status option \<times> bool) qemu_eff" where
  "accelerator_inventory E =
     bindE (run_checked E (qx_system_binary E) [''-accel'', ''help'']) (\<lambda>out.
     if \<not> is_utf8 (qo_stdout out) then throw (PE_InvalidResponse ''QEMU accelerator output was not UTF-8'')
     else
     let compiled = filter (\<lambda>l. l \<in> {''whpx'', ''kvm'', ''hvf'', ''tcg''}) (map str_trim (text_lines (qo_stdout out)));
         kvm_advertised = list_ex (\<lambda>v. v = ''kvm'') compiled in
     bindE (if kvm_advertised then bindE (host_kvm_device_status E) (\<lambda>st. ret (Some st)) else ret None) (\<lambda>status.
     ret (filter_usable_accelerators compiled (case status of None \<Rightarrow> True | Some st \<Rightarrow> kvm_usable st), status, kvm_advertised)))"

definition host_accelerator :: "string \<Rightarrow> string" where
  "host_accelerator os = (if os = ''windows'' then ''whpx'' else if os = ''linux'' then ''kvm'' else if os = ''macos'' then ''hvf'' else [])"

definition choose_accelerator :: "string \<Rightarrow> string list \<Rightarrow> create_vm_request \<Rightarrow> provider_error + string" where
  "choose_accelerator hardware available q =
     (let requested = (case cv_accelerator q of None \<Rightarrow> ''auto'' | Some a \<Rightarrow> a) in
      if requested = ''auto'' then
        if hardware \<in> set available then Inr hardware
        else Inl (PE_Unsupported ''qemu'' ''hardware_acceleration_or_explicit_tcg'')
      else if requested = ''tcg'' \<and> cv_allow_tcg q \<and> ''tcg'' \<in> set available then Inr ''tcg''
      else if requested = hardware \<and> requested \<in> set available then Inr requested
      else Inl (PE_Command ''requested QEMU accelerator is unavailable or TCG was not explicitly allowed''))"

definition select_accelerator :: "('s, 'y) qemu_env_scheme \<Rightarrow> create_vm_request \<Rightarrow> ('s, 'z, string) qemu_eff" where
  "select_accelerator E q =
     bindE (accelerator_inventory E) (\<lambda>(available, _, _). liftR (choose_accelerator (host_accelerator (qx_os E)) available q))"

subsection \<open>Images\<close>

definition qemu_inspect_image :: "('s, 'y) qemu_env_scheme \<Rightarrow> path \<Rightarrow> ('s, 'z, provider_image_info) qemu_eff" where
  "qemu_inspect_image E p =
     (if \<not> qemu_argument_path_is_safe p then throw (PE_Authority ''QEMU image path contains an unsafe argument or Windows alias'')
      else
      bindE (run_checked E (qx_image_binary E) [''info'', ''--output=json'', p]) (\<lambda>out.
      bindE (liftR (ok_or (qx_image_info E (qo_stdout out)) (PE_InvalidResponse ''qemu-img info JSON was invalid''))) (\<lambda>info.
      bindE (asking (qx_file_size E p)) (\<lambda>len.
      ret \<lparr>pi_path = p, pi_disk_format = qi_format info,
           pi_disk_type = (if qi_backing_filename info \<noteq> None then ''overlay'' else ''base''),
           pi_parent_path = (case qi_full_backing_filename info of Some q \<Rightarrow> Some q | None \<Rightarrow> qi_backing_filename info),
           pi_file_size = len, pi_virtual_size = qi_virtual_size info\<rparr>))))"

definition qemu_path_equal :: "host_env \<Rightarrow> path \<Rightarrow> path \<Rightarrow> bool" where
  "qemu_path_equal H l r =
     (if he_windows H then eq_ignore_ascii_case (canonical_or_self H l) (canonical_or_self H r)
      else path_eq (canonical_or_self H l) (canonical_or_self H r))"

definition validate_overlay_chain :: "('s, 'y) qemu_env_scheme \<Rightarrow> qemu_vm_config \<Rightarrow> ('s, 'z, unit) qemu_eff" where
  "validate_overlay_chain E c =
     bindE (qemu_inspect_image E (qv_overlay_path c)) (\<lambda>overlay.
     bindE (qemu_inspect_image E (qv_parent_path c)) (\<lambda>base.
     if pi_disk_format overlay \<noteq> ''qcow2'' \<or> pi_disk_type overlay \<noteq> ''overlay''
       \<or> (case pi_parent_path overlay of None \<Rightarrow> True | Some p \<Rightarrow> \<not> qemu_path_equal (qx_host E) p (qv_parent_path c))
       \<or> pi_disk_format base \<noteq> ''qcow2'' \<or> pi_parent_path base \<noteq> None
     then throw (PE_OwnershipChanged ''QEMU QCOW2 backing chain is not exactly one overlay over the immutable base'')
     else ret ()))"

definition pin_staged_file :: "('s, 'y) qemu_env_scheme \<Rightarrow> path \<Rightarrow> ('s, 'z, unit) qemu_eff" where
  "pin_staged_file E p =
     bindE (ensure_existing_qemu_ancestors_are_ordinary E p) (\<lambda>_.
     bindE (asking (\<lambda>s t. qx_meta E p s t)) (\<lambda>m. case m of
       Meta_Ok current \<Rightarrow>
         if \<not> fm_file current \<or> fm_reparse current then throw (PE_OwnershipChanged ''QEMU staged overlay path is not an ordinary file'')
         else
         bindE (mapE (\<lambda>e. PE_OwnershipChanged (''QEMU staged overlay could not be pinned: '' @ e)) (acting (qx_open E p))) (\<lambda>_.
         bindE (asking (\<lambda>s t. qx_handle E p s t)) (\<lambda>h. case h of
           None \<Rightarrow> throw (PE_OwnershipChanged ''QEMU staged overlay metadata could not be pinned'')
         | Some opened \<Rightarrow>
             if \<not> fm_file opened \<or> fm_reparse opened then throw (PE_OwnershipChanged ''QEMU staged overlay is not an ordinary file'')
             else
             bindE (mapE (\<lambda>_. PE_OwnershipChanged ''QEMU staged overlay privacy could not be enforced'') (acting (qx_set_private E p))) (\<lambda>_.
             ensure_private_qemu_file E p)))
     | _ \<Rightarrow> throw (PE_OwnershipChanged ''QEMU staged overlay path metadata could not be pinned'')))"

definition remove_exact_outside_file :: "('s, 'y) qemu_env_scheme \<Rightarrow> path \<Rightarrow> ('s, 'z, unit) qemu_eff" where
  "remove_exact_outside_file E p =
     bindE (ensure_private_qemu_file E p) (\<lambda>_.
     mapE (\<lambda>e. PE_Command (''failed to remove exact QEMU file: '' @ e)) (acting (qx_unlink E p)))"

definition cleanup_then_fail :: "('s, 'y) qemu_env_scheme \<Rightarrow> path \<Rightarrow> provider_error \<Rightarrow> ('s, 'z, 'a) qemu_eff" where
  "cleanup_then_fail E p e = bindE (attempt (remove_exact_outside_file E p)) (\<lambda>_. throw e)"

definition overlay_matches :: "host_env \<Rightarrow> provider_image_info \<Rightarrow> path \<Rightarrow> bool" where
  "overlay_matches H staged parent \<longleftrightarrow> pi_disk_format staged = ''qcow2'' \<and> pi_disk_type staged = ''overlay''
     \<and> (case pi_parent_path staged of None \<Rightarrow> False | Some p \<Rightarrow> qemu_path_equal H p parent)"

definition publish_overlay ::
  "('s, 'y) qemu_env_scheme \<Rightarrow> provider_mutation_authority \<Rightarrow> create_overlay_request \<Rightarrow> path \<Rightarrow> ('s, 'z, provider_image_info) qemu_eff" where
  "publish_overlay E a q staged_path =
     bindE (ensure_private_qemu_file E staged_path) (\<lambda>_.
     bindE (prove_path_absent E (co_overlay_path q) ''QEMU overlay'') (\<lambda>_.
     bindE (attempt (acting (qx_link E staged_path (co_overlay_path q)))) (\<lambda>linked. case linked of
       Inl Link_AlreadyExists \<Rightarrow> cleanup_then_fail E staged_path (PE_Collision ''QEMU overlay already exists'')
     | Inl (Link_Other e) \<Rightarrow>
         cleanup_then_fail E staged_path (PE_Command (''failed to publish QEMU overlay without replacement: '' @ e))
     | Inr _ \<Rightarrow>
         bindE (ensure_private_qemu_file E (co_overlay_path q)) (\<lambda>_.
         bindE (authority_check E (\<lambda>g. validate_overlay_request (qx_host E) g a q)) (\<lambda>_.
         bindE (remove_exact_outside_file E staged_path) (\<lambda>_.
         bindE (sync_parent_directory E ''failed to persist QEMU overlay publication: '') (\<lambda>_.
         qemu_inspect_image E (co_overlay_path q))))))))"

definition qemu_create_overlay ::
  "('s, 'y) qemu_env_scheme \<Rightarrow> provider_mutation_authority \<Rightarrow> create_overlay_request \<Rightarrow> ('s, 'z, provider_image_info) qemu_eff" where
  "qemu_create_overlay E a q =
     bindE (authority_check E (\<lambda>g. validate_overlay_request (qx_host E) g a q)) (\<lambda>_.
     if \<not> qemu_argument_path_is_safe (co_parent_path q)
     then throw (PE_Authority ''QEMU parent image path contains an unsafe argument or Windows alias'')
     else
     bindE (prove_path_absent E (co_overlay_path q) ''QEMU overlay'') (\<lambda>_.
     bindE (liftR (ok_or (path_parent (co_overlay_path q)) (PE_Authority ''QEMU overlay path has no runtime parent''))) (\<lambda>parent.
     bindE (liftR (ok_or (file_name (co_overlay_path q)) (PE_Authority ''QEMU overlay filename is invalid''))) (\<lambda>name.
     bindE (asking (\<lambda>s t. path_join parent (''.'' @ name @ ''.'' @ uuid_to_string (he_crates (qx_host E)) (lk_uuid E t) @ ''.tmp''))) (\<lambda>staged_path.
     bindE (prove_path_absent E staged_path ''QEMU staged overlay'') (\<lambda>_.
     bindE (attempt (run_checked E (qx_image_binary E)
       [''create'', ''-f'', ''qcow2'', ''-F'', ''qcow2'', ''-b'', co_parent_path q, staged_path])) (\<lambda>created. case created of
       Inl e \<Rightarrow> bindE (attempt (bindE (pin_staged_file E staged_path) (\<lambda>_. remove_exact_outside_file E staged_path))) (\<lambda>_. throw e)
     | Inr _ \<Rightarrow>
         bindE (authority_check E (\<lambda>g. validate_overlay_request (qx_host E) g a q)) (\<lambda>_.
         bindE (pin_staged_file E staged_path) (\<lambda>_.
         bindE (attempt (qemu_inspect_image E staged_path)) (\<lambda>inspected. case inspected of
           Inl e \<Rightarrow> cleanup_then_fail E staged_path e
         | Inr staged \<Rightarrow>
             if \<not> overlay_matches (qx_host E) staged (co_parent_path q)
             then cleanup_then_fail E staged_path (PE_OwnershipChanged ''staged QEMU overlay did not bind the exact immutable parent'')
             else publish_overlay E a q staged_path))))))))))"

subsection \<open>The identity of a live machine\<close>

definition qmp_identity_named :: "qemu_vm_config \<Rightarrow> json \<Rightarrow> json \<Rightarrow> bool" where
  "qmp_identity_named c uuid name \<longleftrightarrow>
     json_field uuid ''UUID'' as_str = Some (qv_id c) \<and> json_field name ''name'' as_str = Some (qv_name c)"

definition qmp_identity_shaped :: "host_env \<Rightarrow> qemu_vm_config \<Rightarrow> json \<Rightarrow> json \<Rightarrow> json \<Rightarrow> json \<Rightarrow> bool" where
  "qmp_identity_shaped H c cpus memory network blocks =
     (let expected_memory = qv_memory_mib c * 1024 * 1024;
          block = (case as_array blocks of Some [b] \<Rightarrow> Some b | _ \<Rightarrow> None);
          inserted = Option.bind block (\<lambda>b. json_get b ''inserted'');
          attached = Option.bind inserted (\<lambda>i. json_field i ''file'' as_str)
      in \<not> (map_option length (as_array cpus) \<noteq> Some (unat (qv_cpu_count c))
        \<or> json_field memory ''base-memory'' as_u64 \<noteq> Some expected_memory
        \<or> (case as_array network of None \<Rightarrow> True | Some items \<Rightarrow> items \<noteq> [])
        \<or> Option.bind inserted (\<lambda>i. json_field i ''drv'' as_str) \<noteq> Some ''qcow2''
        \<or> Option.bind inserted (\<lambda>i. json_field i ''backing_file_depth'' as_u64) \<noteq> Some 1
        \<or> (case attached of None \<Rightarrow> True | Some p \<Rightarrow> \<not> qemu_path_equal H p (qv_overlay_path c))))"

definition validate_qmp_identity ::
  "('s, 'y) qemu_env_scheme \<Rightarrow> qmp_client \<Rightarrow> qemu_vm_config \<Rightarrow> ('s, 'z, qmp_client) qemu_eff" where
  "validate_qmp_identity E q c =
     bindE (qmp_execute E q ''query-uuid'' None) (\<lambda>(uuid, q).
     bindE (qmp_execute E q ''query-name'' None) (\<lambda>(name, q).
     if \<not> qmp_identity_named c uuid name then throw (PE_OwnershipChanged ''QMP UUID/name identity changed'')
     else
     bindE (qmp_execute E q ''query-cpus-fast'' None) (\<lambda>(cpus, q).
     bindE (qmp_execute E q ''query-memory-size-summary'' None) (\<lambda>(memory, q).
     bindE (qmp_execute E q ''query-rx-filter'' None) (\<lambda>(network, q).
     bindE (qmp_execute E q ''query-block'' None) (\<lambda>(blocks, q).
     if \<not> qmp_identity_shaped (qx_host E) c cpus memory network blocks
     then throw (PE_OwnershipChanged ''QMP CPU, memory, network, or disk definition changed'') else ret q))))))"

definition remaining_provider_duration :: "('s, 'y) qemu_env_scheme \<Rightarrow> nat \<Rightarrow> ('s, 'z, duration) qemu_eff" where
  "remaining_provider_duration E deadline = bindE (lk_now E) (\<lambda>now.
     if now < deadline then ret (deadline - now) else throw (PE_Timeout ''QEMU operation exceeded its deadline''))"

definition process_ask :: "('s, 'y) qemu_env_scheme \<Rightarrow> process_query \<Rightarrow> ('s, 'z, bool) qemu_eff" where
  "process_ask E q = asking (qx_ask E q)"

definition endpoint_absence :: "(path \<Rightarrow> meta_answer) \<Rightarrow> control_endpoint \<Rightarrow> provider_error + unit" where
  "endpoint_absence meta ep = (case ep of
      Ep_Unix p \<Rightarrow> (case meta p of
          Meta_NotFound \<Rightarrow> Inr ()
        | Meta_Ok _ \<Rightarrow> Inl (PE_OwnershipChanged
            ''QEMU control endpoint path already exists; stale or foreign state requires manual review'')
        | Meta_Error _ \<Rightarrow> Inl (PE_OwnershipChanged ''QEMU control endpoint absence could not be proven''))
    | Ep_WindowsPipe _ \<Rightarrow>
        Inl (PE_OwnershipChanged ''QEMU named-pipe control endpoint is live or its absence cannot be proven''))"

definition ensure_control_endpoint_absent :: "('s, 'y) qemu_env_scheme \<Rightarrow> control_endpoint \<Rightarrow> ('s, 'z, unit) qemu_eff" where
  "ensure_control_endpoint_absent E ep = bindE (asking (\<lambda>s t. endpoint_absence (\<lambda>p. qx_meta E p s t) ep)) liftR"

definition ensure_control_endpoints_absent :: "('s, 'y) qemu_env_scheme \<Rightarrow> qemu_vm_config \<Rightarrow> ('s, 'z, unit) qemu_eff" where
  "ensure_control_endpoints_absent E c =
     bindE (ensure_control_endpoint_absent E (qv_qmp c)) (\<lambda>_. ensure_control_endpoint_absent E (qv_qga c))"

definition power_of_status :: "json \<Rightarrow> provider_error + provider_power_state" where
  "power_of_status status = (case json_field status ''status'' as_str of
      None \<Rightarrow> Inl (PE_InvalidResponse ''QMP status response was invalid'')
    | Some v \<Rightarrow> Inr (if v = ''running'' then Power_Running
        else if v \<in> {''paused'', ''prelaunch'', ''inmigrate''} then Power_Paused else Power_Other v))"

definition process_receipt :: "qemu_vm_config \<Rightarrow> (u32 \<times> u64 \<times> string) option" where
  "process_receipt c = (case (qv_process_id c, qv_process_start_token c, qv_process_executable_sha256 c) of
      (Some pid, Some token, Some sha) \<Rightarrow> Some (pid, token, sha) | _ \<Rightarrow> None)"

definition inspect_live :: "('s, 'y) qemu_env_scheme \<Rightarrow> qemu_vm_config \<Rightarrow> ('s, 'z, provider_vm) qemu_eff" where
  "inspect_live E c =
     bindE (lk_now E) (\<lambda>now.
     bindE (attempt (connect_endpoint E (qv_qmp c) (milliseconds 100))) (\<lambda>connected. case connected of
       Inl _ \<Rightarrow> throw (PE_OwnershipChanged ''recorded QEMU process is alive but its QMP identity is unavailable'')
     | Inr _ \<Rightarrow>
         bindE (remaining_provider_duration E (now + CONTROL_TIMEOUT)) (\<lambda>remaining.
         bindE (qmp_negotiate E remaining) (\<lambda>q.
         bindE (validate_qmp_identity E q c) (\<lambda>q.
         bindE (qmp_execute E q ''query-status'' None) (\<lambda>(status, q).
         bindE (liftR (power_of_status status)) (\<lambda>state. ret (qemu_snapshot c state))))))))"

definition inspect_config :: "('s, 'y) qemu_env_scheme \<Rightarrow> qemu_vm_config \<Rightarrow> ('s, 'z, provider_vm) qemu_eff" where
  "inspect_config E c =
     (if qv_spawn_pending c then
        bindE (process_ask E (Q_TreeAbsent None (qv_process_job_name c))) (\<lambda>absent.
        if absent then bindE (ensure_control_endpoints_absent E c) (\<lambda>_. ret (qemu_snapshot c Power_Off))
        else throw (PE_OwnershipChanged ''QEMU launch may have started and its exact contained tree is not proven empty''))
      else case process_receipt c of
        None \<Rightarrow> bindE (ensure_control_endpoints_absent E c) (\<lambda>_. ret (qemu_snapshot c Power_Off))
      | Some (pid, token, sha) \<Rightarrow>
          bindE (process_ask E (Q_Matches pid token (qx_system_binary E) (qv_command_sha256 c) sha (qv_process_job_name c))) (\<lambda>matches.
          if matches then inspect_live E c
          else
          bindE (process_ask E (Q_Absent pid token)) (\<lambda>absent.
          if \<not> absent then throw (PE_OwnershipChanged ''recorded QEMU process absence cannot be proven'')
          else
          bindE (process_ask E (Q_TreeAbsent (Some (pid, token)) (qv_process_job_name c))) (\<lambda>tree_absent.
          if tree_absent then bindE (ensure_control_endpoints_absent E c) (\<lambda>_. ret (qemu_snapshot c Power_Off))
          else
          bindE (process_ask E (Q_TreeOwned (qv_process_job_name c))) (\<lambda>owned.
          if owned then ret (qemu_snapshot c Power_Running)
          else throw (PE_OwnershipChanged ''recorded QEMU process tree is not provably empty or exact-owned nonempty''))))))"

definition lookup_uuid :: "crates \<Rightarrow> vm_lookup \<Rightarrow> uuid option" where
  "lookup_uuid X l = (case l of
      Lookup_Id i \<Rightarrow> uuid_parse_str X i
    | Lookup_Name n \<Rightarrow> if starts_with n ''vmcell-'' then uuid_parse_str X (drop 7 n) else None)"

definition lookup_config_path :: "('s, 'y) qemu_env_scheme \<Rightarrow> uuid \<Rightarrow> path" where
  "lookup_config_path E u =
     path_join (path_join (path_join (qx_runtime_root E) (uuid_to_string (he_crates (qx_host E)) u)) ''qemu'') ''vm.json''"

definition config_for_lookup :: "('s, 'y) qemu_env_scheme \<Rightarrow> vm_lookup \<Rightarrow> ('s, 'z, qemu_vm_config option) qemu_eff" where
  "config_for_lookup E l =
     (let X = he_crates (qx_host E) in
      case lookup_uuid X l of
        None \<Rightarrow> ret None
      | Some u \<Rightarrow>
          let p = lookup_config_path E u in
          bindE (file_op E read_error (\<lambda>fs. (Inr (fs (components p) \<noteq> None), fs))) (\<lambda>present.
          if \<not> present then ret None
          else bindE (read_config_snapshot E p) (\<lambda>snap.
            let c = cs_config snap in
            if (case l of Lookup_Id i \<Rightarrow> uuid_parse_str X i = uuid_parse_str X (qv_id c) | Lookup_Name n \<Rightarrow> n = qv_name c)
            then ret (Some c) else ret None)))"

definition qemu_inspect_vm :: "('s, 'y) qemu_env_scheme \<Rightarrow> vm_lookup \<Rightarrow> ('s, 'z, provider_vm option) qemu_eff" where
  "qemu_inspect_vm E l =
     bindE (config_for_lookup E l) (\<lambda>found. case found of
       None \<Rightarrow> ret None
     | Some c \<Rightarrow> bindE (inspect_config E c) (\<lambda>vm. ret (Some vm)))"

definition validate_live_process_receipt :: "('s, 'y) qemu_env_scheme \<Rightarrow> qemu_vm_config \<Rightarrow> ('s, 'z, u32 \<times> u64) qemu_eff" where
  "validate_live_process_receipt E c =
     (if qv_spawn_pending c then throw (PE_OwnershipChanged ''QEMU launch intent has no durable process receipt'')
      else case (qv_process_id c, qv_process_start_token c) of
        (Some pid, Some token) \<Rightarrow> (case qv_process_executable_sha256 c of
            None \<Rightarrow> throw (PE_OwnershipChanged ''QEMU control requires a durable executable receipt'')
          | Some sha \<Rightarrow>
              bindE (process_ask E (Q_Matches pid token (qx_system_binary E) (qv_command_sha256 c) sha (qv_process_job_name c))) (\<lambda>matches.
              if matches then ret (pid, token)
              else throw (PE_OwnershipChanged ''QEMU process identity drifted from its durable receipt'')))
      | _ \<Rightarrow> throw (PE_OwnershipChanged ''QEMU control requires a durable process receipt''))"

subsection \<open>Creating, claiming and configuring\<close>

definition create_ordinary_directory :: "('s, 'y) qemu_env_scheme \<Rightarrow> path \<Rightarrow> ('s, 'z, unit) qemu_eff" where
  "create_ordinary_directory E p =
     bindE (ensure_existing_qemu_ancestors_are_ordinary E p) (\<lambda>_.
     bindE (asking (\<lambda>s t. qx_meta E p s t)) (\<lambda>m. case m of
       Meta_Ok meta \<Rightarrow>
         if fm_dir meta \<and> \<not> fm_reparse meta then ensure_private_qemu_directory E p
         else throw (PE_Authority ''QEMU configuration path is not an ordinary directory'')
     | Meta_NotFound \<Rightarrow>
         bindE (mapE (\<lambda>e. PE_Command (''failed to create QEMU configuration directory: '' @ e)) (acting (qx_mkdir E p))) (\<lambda>_.
         ensure_private_qemu_directory E p)
     | Meta_Error e \<Rightarrow> throw (PE_Command (''failed to inspect QEMU configuration directory: '' @ e))))"

definition new_qemu_config :: "host_env \<Rightarrow> create_vm_request \<Rightarrow> string \<Rightarrow> string \<Rightarrow> qemu_vm_config" where
  "new_qemu_config H q i accelerator =
     (let c = \<lparr>qv_schema_version = QEMU_CONFIG_SCHEMA, qv_id = i, qv_name = cv_name q, qv_ownership_marker = [],
        qv_configuration_path = cv_configuration_path q, qv_overlay_path = cv_overlay_path q, qv_parent_path = cv_parent_path q,
        qv_cpu_count = cv_cpu_count q, qv_memory_mib = cv_memory_mib q, qv_accelerator = accelerator,
        qv_qmp = endpoint_qmp H (cv_configuration_path q) i, qv_qga = endpoint_qga H (cv_configuration_path q) i,
        qv_command_sha256 = [], qv_spawn_pending = False, qv_process_id = None, qv_process_start_token = None,
        qv_process_executable_sha256 = None, qv_process_job_name = None\<rparr>
      in c\<lparr>qv_command_sha256 := launch_digest (he_crates H) c\<rparr>)"

definition qemu_create_vm ::
  "('s, 'y) qemu_env_scheme \<Rightarrow> provider_mutation_authority \<Rightarrow> create_vm_request \<Rightarrow> ('s, 'z, provider_vm_identity) qemu_eff" where
  "qemu_create_vm E a q =
     (let H = qx_host E; X = he_crates H in
      bindE (authority_check E (\<lambda>g. validate_create_request H g a q)) (\<lambda>_.
      bindE (liftR (ok_or (lookup_uuid X (Lookup_Name (cv_name q))) (PE_Authority ''QEMU VM name did not contain its CellId''))) (\<lambda>u.
      let i = uuid_to_string X u; p = qemu_config_path (cv_configuration_path q) in
      bindE (create_ordinary_directory E (cv_configuration_path q)) (\<lambda>_.
      bindE (file_exists E p) (\<lambda>present.
      if present then throw (PE_Collision ''QEMU provider configuration already exists'')
      else
      bindE (select_accelerator E q) (\<lambda>accelerator.
      let c = new_qemu_config H q i accelerator in
      bindE (liftR (qemu_config_validate H c p)) (\<lambda>_.
      bindE (write_config_new_pinned E p c) (\<lambda>_.
      ret \<lparr>vi_id = i, vi_name = cv_name q\<rparr>))))))))"

definition qemu_claim_vm ::
  "('s, 'y) qemu_env_scheme \<Rightarrow> provider_mutation_authority \<Rightarrow> claim_vm_request \<Rightarrow> ('s, 'z, provider_vm) qemu_eff" where
  "qemu_claim_vm E a q =
     bindE (authority_check E (\<lambda>g. validate_claim_request (qx_host E) g a q)) (\<lambda>_.
     let p = qemu_config_path (vm_configuration_path (cl_expected q)) in
     bindE (read_config_snapshot E p) (\<lambda>snap.
     let c = cs_config snap in
     bindE (authorize_config E a c False) (\<lambda>_.
     bindE (liftR (validate_config_snapshot c (cl_expected q) False)) (\<lambda>_.
     if qv_ownership_marker c \<noteq> [] \<and> qv_ownership_marker c \<noteq> cl_ownership_marker q
     then throw (PE_OwnershipChanged ''QEMU configuration marker changed'')
     else
     let c' = c\<lparr>qv_ownership_marker := cl_ownership_marker q\<rparr> in
     bindE (replace_config E p snap c') (\<lambda>_. inspect_config E c')))))"

definition qemu_configure_vm ::
  "('s, 'y) qemu_env_scheme \<Rightarrow> provider_mutation_authority \<Rightarrow> configure_vm_request \<Rightarrow> ('s, 'z, provider_vm) qemu_eff" where
  "qemu_configure_vm E a q =
     bindE (authority_check E (\<lambda>g. validate_configure_request (qx_host E) g a q)) (\<lambda>_.
     let p = qemu_config_path (vm_configuration_path (cf_expected q)) in
     bindE (read_config_snapshot E p) (\<lambda>snap.
     let c = cs_config snap in
     bindE (authorize_config E a c True) (\<lambda>_.
     bindE (liftR (validate_config_snapshot c (cf_expected q) True)) (\<lambda>_.
     let c1 = c\<lparr>qv_cpu_count := cf_cpu_count q\<rparr>; c' = c1\<lparr>qv_command_sha256 := launch_digest (he_crates (qx_host E)) c1\<rparr> in
     bindE (replace_config E p snap c') (\<lambda>_. inspect_config E c')))))"

subsection \<open>Starting\<close>

definition prior_launch_absent :: "('s, 'y) qemu_env_scheme \<Rightarrow> qemu_vm_config \<Rightarrow> ('s, 'z, unit) qemu_eff" where
  "prior_launch_absent E c =
     (if qv_spawn_pending c then
        bindE (process_ask E (Q_TreeAbsent None (qv_process_job_name c))) (\<lambda>absent.
        if absent then ret () else throw (PE_OwnershipChanged ''prior QEMU launch intent is not proven empty''))
      else case (qv_process_id c, qv_process_start_token c) of
        (Some pid, Some token) \<Rightarrow>
          bindE (process_ask E (Q_Absent pid token)) (\<lambda>absent.
          if \<not> absent then throw (PE_OwnershipChanged ''prior QEMU launch receipt is not proven empty'')
          else bindE (process_ask E (Q_TreeAbsent (Some (pid, token)) (qv_process_job_name c))) (\<lambda>tree_absent.
            if tree_absent then ret () else throw (PE_OwnershipChanged ''prior QEMU launch receipt is not proven empty'')))
      | _ \<Rightarrow> ret ())"

definition launch_intent :: "qemu_vm_config \<Rightarrow> qemu_vm_config" where
  "launch_intent c = c\<lparr>qv_schema_version := QEMU_CONFIG_SCHEMA, qv_process_id := None, qv_process_start_token := None,
     qv_process_executable_sha256 := None, qv_process_job_name := None, qv_spawn_pending := True\<rparr>"

definition launched_config :: "qemu_vm_config \<Rightarrow> qemu_spawn_receipt \<Rightarrow> qemu_vm_config" where
  "launched_config intent receipt = intent\<lparr>qv_process_id := Some (sr_process_id receipt),
     qv_process_start_token := Some (sr_process_start_token receipt), qv_process_executable_sha256 := Some (sr_executable_sha256 receipt),
     qv_spawn_pending := False\<rparr>"

text \<open>After the suspended process exists: its receipt is recorded over the unchanged intent, and only then is it activated.\<close>

definition record_launch ::
  "('s, 'y) qemu_env_scheme \<Rightarrow> path \<Rightarrow> qemu_vm_config \<Rightarrow> qemu_spawn_receipt \<Rightarrow> ('s, 'z, qemu_vm_config) qemu_eff" where
  "record_launch E p intent receipt =
     bindE (read_config_snapshot E p) (\<lambda>snap.
     bindE (liftR (encode_qemu_config E intent)) (\<lambda>bytes.
     if cs_bytes_sha256 snap \<noteq> qemu_config_bytes_sha256 E bytes
     then throw (PE_OwnershipChanged ''QEMU launch intent changed before its process receipt was recorded'')
     else if sr_command_sha256 receipt \<noteq> qv_command_sha256 intent
     then throw (PE_OwnershipChanged ''QEMU suspended launch receipt drifted from the durable launch digest'')
     else
     bindE (replace_config E p snap (launched_config intent receipt)) (\<lambda>_.
     bindE (logging (Act_Activate receipt)) (\<lambda>_.
     bindE (acting (qx_activate E receipt)) (\<lambda>_.
     ret (launched_config intent receipt))))))"

definition launch_vm ::
  "('s, 'y) qemu_env_scheme \<Rightarrow> path \<Rightarrow> qemu_config_snapshot \<Rightarrow> qemu_vm_config \<Rightarrow> ('s, 'z, qemu_vm_config) qemu_eff" where
  "launch_vm E p snap c =
     bindE (ensure_control_endpoints_absent E c) (\<lambda>_.
     bindE (prior_launch_absent E c) (\<lambda>_.
     let intent = launch_intent c in
     bindE (replace_config E p snap intent) (\<lambda>_.
     bindE (logging (Act_Spawn (qx_system_binary E) (launch_args intent) (qv_process_job_name intent) (qv_command_sha256 intent))) (\<lambda>_.
     bindE (acting (qx_spawn E (qx_system_binary E) (launch_args intent) (qv_process_job_name intent) (qv_command_sha256 intent))) (\<lambda>receipt.
     record_launch E p intent receipt)))))"

definition control_session :: "('s, 'y) qemu_env_scheme \<Rightarrow> qemu_vm_config \<Rightarrow> ('s, 'z, qmp_client) qemu_eff" where
  "control_session E c =
     bindE (lk_now E) (\<lambda>now.
     bindE (connect_endpoint E (qv_qmp c) CONTROL_TIMEOUT) (\<lambda>_.
     bindE (remaining_provider_duration E (now + CONTROL_TIMEOUT)) (\<lambda>remaining.
     bindE (qmp_negotiate E remaining) (\<lambda>q.
     validate_qmp_identity E q c))))"

definition control_command :: "('s, 'y) qemu_env_scheme \<Rightarrow> qmp_client \<Rightarrow> string \<Rightarrow> ('s, 'z, json \<times> qmp_client) qemu_eff" where
  "control_command E q command = bindE (logging (Act_Control command)) (\<lambda>_. qmp_execute E q command None)"

definition resume_vm :: "('s, 'y) qemu_env_scheme \<Rightarrow> qemu_vm_config \<Rightarrow> ('s, 'z, unit) qemu_eff" where
  "resume_vm E c =
     bindE (validate_live_process_receipt E c) (\<lambda>_.
     bindE (control_session E c) (\<lambda>q.
     bindE (control_command E q ''cont'') (\<lambda>(_, q).
     bindE (qmp_execute E q ''query-status'' None) (\<lambda>(status, q).
     if json_field status ''status'' as_str \<noteq> Some ''running''
     then throw (PE_InvalidResponse ''QEMU did not enter running state'') else ret ()))))"

text \<open>The checks that \<open>start_vm\<close>, \<open>stop_vm\<close> and \<open>remove_vm\<close> make on the durable configuration.\<close>

definition read_authorized ::
  "('s, 'y) qemu_env_scheme \<Rightarrow> provider_mutation_authority \<Rightarrow> provider_vm \<Rightarrow> ('s, 'z, qemu_config_snapshot) qemu_eff" where
  "read_authorized E a expected =
     bindE (read_config_snapshot E (qemu_config_path (vm_configuration_path expected))) (\<lambda>snap.
     bindE (authorize_config E a (cs_config snap) True) (\<lambda>_.
     bindE (liftR (validate_config_snapshot (cs_config snap) expected True)) (\<lambda>_. ret snap)))"

definition qemu_start_vm ::
  "('s, 'y) qemu_env_scheme \<Rightarrow> provider_mutation_authority \<Rightarrow> provider_vm \<Rightarrow> ('s, 'z, unit) qemu_eff" where
  "qemu_start_vm E a expected =
     bindE (authority_check E (\<lambda>g. validate_vm (qx_host E) g a expected)) (\<lambda>_.
     bindE (read_authorized E a expected) (\<lambda>snap.
     let c = cs_config snap in
     bindE (validate_overlay_chain E c) (\<lambda>_.
     if qv_command_sha256 c \<noteq> launch_digest (he_crates (qx_host E)) c
     then throw (PE_OwnershipChanged ''QEMU launch configuration digest changed'')
     else
     bindE (if vm_power_state expected = Power_Off then launch_vm E (qemu_config_path (vm_configuration_path expected)) snap c
            else if vm_power_state expected \<noteq> Power_Paused
            then throw (PE_OwnershipChanged ''QEMU start expected an off or prelaunch VM'')
            else ret c) (\<lambda>c. resume_vm E c))))"

subsection \<open>Stopping and removing\<close>

definition cleared_receipt :: "qemu_vm_config \<Rightarrow> qemu_vm_config" where
  "cleared_receipt c = c\<lparr>qv_process_id := None, qv_process_start_token := None, qv_process_executable_sha256 := None,
     qv_process_job_name := None, qv_spawn_pending := False\<rparr>"

definition terminate_tree :: "('s, 'y) qemu_env_scheme \<Rightarrow> string option \<Rightarrow> ('s, 'z, unit) qemu_eff" where
  "terminate_tree E job = bindE (logging (Act_Terminate job)) (\<lambda>_. acting (qx_terminate E job))"

text \<open>One round of the stop loop; \<open>again\<close> is the loop with its deadline and whether the tree was already terminated by force.\<close>

definition stop_round ::
  "('s, 'y) qemu_env_scheme \<Rightarrow> path \<Rightarrow> qemu_config_snapshot \<Rightarrow> u32 \<Rightarrow> u64 \<Rightarrow> nat \<Rightarrow> bool
    \<Rightarrow> (nat \<Rightarrow> bool \<Rightarrow> ('s, 'z, unit) qemu_eff) \<Rightarrow> ('s, 'z, unit) qemu_eff" where
  "stop_round E p snap pid token deadline forced again =
     (let c = cs_config snap; job = qv_process_job_name c in
      bindE (attempt (connect_endpoint E (qv_qmp c) (milliseconds 25))) (\<lambda>connected.
      bindE (if is_ok connected then ret False else process_ask E (Q_Absent pid token)) (\<lambda>gone.
      if gone then
        bindE (process_ask E (Q_TreeAbsent (Some (pid, token)) job)) (\<lambda>tree_absent.
        if tree_absent then
          bindE (ensure_control_endpoints_absent E c) (\<lambda>_. replace_config E p snap (cleared_receipt c))
        else if job = None \<or> forced
        then throw (PE_OwnershipChanged ''QEMU leader exited while its exact owned process tree remained live'')
        else bindE (terminate_tree E job) (\<lambda>_. bindE (lk_now E) (\<lambda>now. again (now + CONTROL_TIMEOUT) True)))
      else bindE (lk_now E) (\<lambda>now.
        if now < deadline then again deadline forced
        else if job \<noteq> None \<and> \<not> forced
        then bindE (terminate_tree E job) (\<lambda>_. bindE (lk_now E) (\<lambda>now. again (now + CONTROL_TIMEOUT) True))
        else throw (PE_Timeout ''QEMU did not terminate within the bounded stop window'')))))"

primrec stop_loop ::
  "nat \<Rightarrow> ('s, 'y) qemu_env_scheme \<Rightarrow> path \<Rightarrow> qemu_config_snapshot \<Rightarrow> u32 \<Rightarrow> u64 \<Rightarrow> nat \<Rightarrow> bool \<Rightarrow> ('s, 'z, unit) qemu_eff" where
  "stop_loop 0 E p snap pid token deadline forced = throw (PE_Timeout ''QEMU did not terminate within the bounded stop window'')"
| "stop_loop (Suc n) E p snap pid token deadline forced =
     stop_round E p snap pid token deadline forced (\<lambda>d f. stop_loop n E p snap pid token d f)"

definition recovering_exact_tree :: "('s, 'y) qemu_env_scheme \<Rightarrow> qemu_vm_config \<Rightarrow> u32 \<Rightarrow> u64 \<Rightarrow> ('s, 'z, bool) qemu_eff" where
  "recovering_exact_tree E c pid token =
     bindE (attempt (validate_live_process_receipt E c)) (\<lambda>live. case live of
       Inr _ \<Rightarrow> ret False
     | Inl e \<Rightarrow>
         bindE (process_ask E (Q_Absent pid token)) (\<lambda>absent.
         bindE (if absent then process_ask E (Q_TreeOwned (qv_process_job_name c)) else ret False) (\<lambda>owned.
         if owned then ret True else throw e)))"

definition qemu_stop_vm ::
  "('s, 'y) qemu_env_scheme \<Rightarrow> provider_mutation_authority \<Rightarrow> provider_vm \<Rightarrow> ('s, 'z, unit) qemu_eff" where
  "qemu_stop_vm E a expected =
     bindE (authority_check E (\<lambda>g. validate_vm (qx_host E) g a expected)) (\<lambda>_.
     bindE (read_authorized E a expected) (\<lambda>snap.
     let c = cs_config snap in
     case (qv_process_id c, qv_process_start_token c) of
       (Some pid, Some token) \<Rightarrow>
         bindE (recovering_exact_tree E c pid token) (\<lambda>recovering.
         bindE (if recovering then ret ()
                else bindE (control_session E c) (\<lambda>q. bindE (control_command E q ''quit'') (\<lambda>_. ret ()))) (\<lambda>_.
         bindE (lk_now E) (\<lambda>now.
         bindE (if recovering then terminate_tree E (qv_process_job_name c) else ret ()) (\<lambda>_.
         stop_loop (lk_polls E) E (qemu_config_path (vm_configuration_path expected)) snap pid token (now + CONTROL_TIMEOUT) recovering))))
     | _ \<Rightarrow> throw (PE_OwnershipChanged ''QEMU stop requires a complete process receipt'')))"

definition removal_process_absent :: "('s, 'y) qemu_env_scheme \<Rightarrow> qemu_vm_config \<Rightarrow> ('s, 'z, unit) qemu_eff" where
  "removal_process_absent E c = (case (qv_process_id c, qv_process_start_token c) of
      (Some pid, Some token) \<Rightarrow>
        bindE (process_ask E (Q_Matches pid token (qx_system_binary E) (qv_command_sha256 c)
          (case qv_process_executable_sha256 c of None \<Rightarrow> [] | Some v \<Rightarrow> v) (qv_process_job_name c))) (\<lambda>matches.
        if matches then throw (PE_OwnershipChanged ''QEMU process is still live'')
        else
        bindE (process_ask E (Q_Absent pid token)) (\<lambda>absent.
        if \<not> absent then throw (PE_OwnershipChanged ''QEMU process absence cannot be proven'')
        else
        bindE (process_ask E (Q_TreeAbsent (Some (pid, token)) (qv_process_job_name c))) (\<lambda>tree_absent.
        if tree_absent then ret () else throw (PE_OwnershipChanged ''QEMU process tree is still live or unprovable''))))
    | _ \<Rightarrow> ret ())"

definition remove_exact_config :: "('s, 'y) qemu_env_scheme \<Rightarrow> path \<Rightarrow> ('s, 'z, unit) qemu_eff" where
  "remove_exact_config E p =
     bindE (ensure_private_qemu_file E p) (\<lambda>_.
     bindE (file_op E (\<lambda>e. PE_Command (''failed to remove exact QEMU file: '' @ e)) (\<lambda>fs.
       if fs (components p) = None then (Inl (PE_Command (''failed to remove exact QEMU file: '' @ ''not found'')), fs)
       else (Inr (), fs(components p := None)))) (\<lambda>_.
     logging (Act_Remove p)))"

definition qemu_remove_vm ::
  "('s, 'y) qemu_env_scheme \<Rightarrow> provider_mutation_authority \<Rightarrow> provider_vm \<Rightarrow> ('s, 'z, unit) qemu_eff" where
  "qemu_remove_vm E a expected =
     bindE (authority_check E (\<lambda>g. validate_vm (qx_host E) g a expected)) (\<lambda>_.
     if vm_power_state expected \<noteq> Power_Off then throw (PE_OwnershipChanged ''QEMU remove expected an off VM'')
     else
     let p = qemu_config_path (vm_configuration_path expected) in
     bindE (read_authorized E a expected) (\<lambda>snap.
     let c = cs_config snap in
     bindE (if qv_spawn_pending c then process_ask E (Q_TreeAbsent None (qv_process_job_name c)) else ret True) (\<lambda>empty.
     if \<not> empty then throw (PE_OwnershipChanged ''QEMU launch intent has no durable empty-tree proof'')
     else
     bindE (attempt (connect_endpoint E (qv_qmp c) (milliseconds 50))) (\<lambda>connected.
     if is_ok connected then throw (PE_OwnershipChanged ''QEMU control endpoint is still live'')
     else
     bindE (removal_process_absent E c) (\<lambda>_.
     bindE (ensure_control_endpoints_absent E c) (\<lambda>_.
     bindE (validate_pinned_config_snapshot E p snap) (\<lambda>_.
     bindE (remove_exact_config E p) (\<lambda>_.
     sync_parent_directory E ''failed to persist QEMU configuration removal: ''))))))))"

subsection \<open>Probing and the provider\<close>

definition probe_version_line :: "string \<Rightarrow> string \<Rightarrow> string option" where
  "probe_version_line bytes expected_prefix =
     (if \<not> is_utf8 bytes then None
      else case text_lines bytes of
        [] \<Rightarrow> None
      | first # _ \<Rightarrow>
          let line = str_trim first in
          if line \<noteq> [] \<and> length line \<le> 256 \<and> starts_with line expected_prefix \<and> \<not> any_control line then Some line else None)"

definition qemu_probe_failure :: "provider_probe_status \<Rightarrow> string \<Rightarrow> provider_probe" where
  "qemu_probe_failure status detail = \<lparr>pp_name = ''qemu'', pp_status = status, pp_available = False, pp_detail = detail,
     pp_capabilities = capabilities_unavailable\<rparr>"

definition probe_binary ::
  "('s, 'y) qemu_env_scheme \<Rightarrow> string \<Rightarrow> string \<Rightarrow> string \<Rightarrow> string \<Rightarrow> (('s, 'z) qemu_world_scheme, provider_probe, string) eff" where
  "probe_binary E program label version_label expected_prefix =
     bindE (attempt (acting (qx_run E program [''--version'']))) (\<lambda>r. case r of
       Inl (PE_Command _) \<Rightarrow> throw (qemu_probe_failure Probe_Unavailable (label @ '' binary was not found''))
     | Inl _ \<Rightarrow> throw (qemu_probe_failure Probe_Failed (label @ '' binary did not complete its bounded probe''))
     | Inr out \<Rightarrow>
         if \<not> qo_success out then throw (qemu_probe_failure Probe_Failed (version_label @ '' version probe failed''))
         else liftR (ok_or (probe_version_line (qo_stdout out) expected_prefix)
           (qemu_probe_failure Probe_Failed (label @ '' version output was invalid''))))"

definition native_accelerator :: "string \<Rightarrow> bool \<Rightarrow> kvm_device_status option \<Rightarrow> bool \<Rightarrow> string" where
  "native_accelerator hardware hardware_available status kvm_advertised =
     (if hardware_available then ''available''
      else if hardware = ''kvm'' \<and> kvm_advertised
      then ''unavailable ('' @ (case status of Some st \<Rightarrow> kvm_diagnostic st | None \<Rightarrow> []) @ '')''
      else if hardware = ''kvm'' then ''unavailable (QEMU did not advertise KVM)''
      else ''unavailable'')"

definition qemu_probe_run :: "('s, 'y) qemu_env_scheme \<Rightarrow> (('s, 'z) qemu_world_scheme, provider_probe, provider_probe) eff" where
  "qemu_probe_run E =
     bindE (probe_binary E (qx_system_binary E) ''QEMU system'' ''QEMU'' ''QEMU emulator version'') (\<lambda>version_line.
     bindE (probe_binary E (qx_image_binary E) ''QEMU image'' ''QEMU image'' ''qemu-img version'') (\<lambda>_.
     bindE (mapE (\<lambda>_. qemu_probe_failure Probe_Failed ''QEMU accelerator discovery failed'') (accelerator_inventory E))
       (\<lambda>(accelerators, status, kvm_advertised).
     let hardware = host_accelerator (qx_os E); hardware_available = hardware \<in> set accelerators in
     ret \<lparr>pp_name = ''qemu'', pp_status = Probe_Ready, pp_available = True,
          pp_detail = version_line @ ''; native accelerator '' @ hardware @ '' ''
            @ native_accelerator hardware hardware_available status kvm_advertised,
          pp_capabilities = \<lparr>cap_schema_version = AUTOMATION_SCHEMA_VERSION, cap_full_system_vm = True, cap_cow_overlay = True,
            cap_hardware_acceleration = hardware_available, cap_accelerators = accelerators, cap_guest_os = [''windows'', ''linux''],
            cap_guest_arch = [qx_arch E], cap_guest_transports = [''qga''], cap_networkless_guest_exec = True\<rparr>\<rparr>)))"

definition qemu_probe :: "('s, 'y) qemu_env_scheme \<Rightarrow> ('s, 'z) qemu_world_scheme \<Rightarrow> provider_probe" where
  "qemu_probe E w = (case fst (qemu_probe_run E w) of Inl p \<Rightarrow> p | Inr p \<Rightarrow> p)"

definition qemu_provider :: "('s, 'y) qemu_env_scheme \<Rightarrow> ('s, 'z) qemu_world_scheme provider" where
  "qemu_provider E = \<lparr>pv_name = ''qemu'', pv_probe = qemu_probe E, pv_inspect_image = qemu_inspect_image E,
     pv_create_overlay = qemu_create_overlay E, pv_create_vm = qemu_create_vm E, pv_claim_vm = qemu_claim_vm E,
     pv_configure_vm = qemu_configure_vm E, pv_inspect_vm = qemu_inspect_vm E, pv_start_vm = qemu_start_vm E,
     pv_stop_vm = qemu_stop_vm E, pv_remove_vm = qemu_remove_vm E\<rparr>"

end
