(* ===== verification/QgaLaws.thy ===== *)
theory QgaLaws
  imports Qga
begin

section \<open>What the guest agent transport guarantees\<close>

text \<open>
  The transport opens the agent's channel only for a machine that was just proven, what it returns of a command is within the engine's own checks, its
  loops end, and file transfers are complete.
\<close>

subsection \<open>Properties of the peer kept by the control connection\<close>

text \<open>\<open>avoids E ep P\<close>: only connecting to \<open>ep\<close> can end \<open>P\<close>, for example \<open>the channel ep was never opened\<close>.\<close>

definition avoids :: "('s, 'y) link_env_scheme \<Rightarrow> control_endpoint \<Rightarrow> ('s \<Rightarrow> bool) \<Rightarrow> bool" where
  "avoids E ep P \<longleftrightarrow> (\<forall>other t s. P s \<longrightarrow> other \<noteq> ep \<longrightarrow> P (snd (lk_connect E other t s))) \<and> (\<forall>bytes s. P s \<longrightarrow> P (snd (lk_write E bytes s)))"

abbreviation keeps :: "('s \<Rightarrow> bool) \<Rightarrow> (('s, 'z) link_world_scheme, 'e, 'a) eff \<Rightarrow> bool" where
  "keeps P m \<equiv> preserves (\<lambda>w. P (lw_peer w)) m"

lemma keeps_bind: "keeps P m \<Longrightarrow> (\<And>x. keeps P (f x)) \<Longrightarrow> keeps P (bindE m f)"
  by (simp add: preserves_def bindE_def split: prod.split sum.split) (metis snd_conv)

lemma keeps_mapE: "keeps P m \<Longrightarrow> keeps P (mapE g m)"
  by (simp add: preserves_def mapE_def split: prod.split sum.split) (metis snd_conv)

lemma keeps_attempt: "keeps P m \<Longrightarrow> keeps P (attempt m)"
  by (simp add: preserves_def attempt_def split: prod.split) (metis snd_conv)

lemma keeps_pure: "keeps P (ret x)" "keeps P (throw e)" "keeps P (liftR r)" "keeps P (gets f)" "keeps P (lk_now E)"
  by (simp_all add: preserves_def ret_def throw_def liftR_def gets_def lk_now_def)

lemma keeps_if: "keeps P m \<Longrightarrow> keeps P n \<Longrightarrow> keeps P (if b then m else n)"
  by simp

lemmas keeps_basic = keeps_bind keeps_mapE keeps_attempt keeps_pure keeps_if

lemma keeps_deadline: "keeps P (set_operation_deadline E d)"
  unfolding preserves_def by (metis prod.collapse set_operation_deadline_input)

lemma keeps_remaining: "keeps P (remaining_duration E d)" "keeps P (remaining_guest_duration E d)"
  unfolding remaining_duration_def remaining_guest_duration_def by (intro keeps_basic)+

lemma keeps_read: "keeps P read_byte"
  by (auto simp: preserves_def read_byte_def split: list.splits read_event.splits)

lemma keeps_write: "avoids E ep P \<Longrightarrow> keeps P (write_all E bytes)"
  unfolding preserves_def write_all_def avoids_def by (auto split: prod.splits sum.splits) (metis snd_conv)+

lemma keeps_connect: "avoids E ep P \<Longrightarrow> other \<noteq> ep \<Longrightarrow> keeps P (connect_stream E other)"
  unfolding preserves_def connect_stream_def avoids_def by (auto split: prod.splits sum.splits) (metis snd_conv)+

lemma keeps_connect_loop: "avoids E ep P \<Longrightarrow> other \<noteq> ep \<Longrightarrow> keeps P (connect_loop n E other d)"
  by (induction n) (auto intro!: keeps_basic keeps_remaining keeps_connect split: sum.split)

lemma keeps_receive:
  fixes E :: "('s, 'y) link_env_scheme"
  shows "preserves (\<lambda>w :: ('s, 'z) link_world_scheme. P (lw_peer w)) (line_receive E d bytes)"
proof -
  have "P (lw_peer w) \<Longrightarrow> P (lw_peer (snd (line_receive E d bytes w)))" for w :: "('s, 'z) link_world_scheme"
  proof (induction E d bytes w rule: line_receive.induct)
    case (1 E d bytes w)
    let ?m = "mapE (protocol_io_error ''read'') (bindE (set_operation_deadline E d) (\<lambda>_. read_byte))"
    obtain r w1 where m: "?m w = (r, w1)" by (cases "?m w")
    have "keeps P ?m" by (intro keeps_basic keeps_deadline keeps_read)
    with m "1.prems" have "P (lw_peer w1)" unfolding preserves_def by (metis snd_conv)
    with m "1.IH" [OF m [symmetric]] show ?case
      by (subst line_receive.simps) (auto split: sum.split option.split)
  qed
  then show ?thesis by (simp add: preserves_def)
qed

lemma keeps_send: "avoids E ep P \<Longrightarrow> keeps P (line_send E v d)"
  unfolding line_send_def by (intro keeps_basic keeps_deadline keeps_write)

lemma keeps_step: "keeps P k \<Longrightarrow> keeps P (qmp_step E c i d k)"
  unfolding qmp_step_def by (intro keeps_basic keeps_receive)

lemma keeps_await: "keeps P (qmp_await n E c i d)"
  by (induction n) (auto intro!: keeps_basic keeps_step)

lemma keeps_qmp_execute: "avoids E ep P \<Longrightarrow> keeps P (qmp_execute E q c args)"
  unfolding qmp_execute_def Let_def by (intro keeps_basic keeps_send keeps_await)

lemma keeps_negotiate: "avoids E ep P \<Longrightarrow> keeps P (qmp_negotiate E t)"
  unfolding qmp_negotiate_def Let_def
  by (intro keeps_basic keeps_receive) (auto intro!: keeps_basic keeps_qmp_execute split: prod.split)

lemma keeps_query: "avoids E ep P \<Longrightarrow> keeps P (qmp_query E q c)"
  unfolding qmp_query_def by (intro keeps_basic keeps_qmp_execute)

lemma keeps_bind_pair: "keeps P m \<Longrightarrow> (\<And>x y. keeps P (f x y)) \<Longrightarrow> keeps P (bindE m (\<lambda>(x, y). f x y))"
  by (rule keeps_bind) (auto split: prod.split)

lemma keeps_snapshot: "avoids E ep P \<Longrightarrow> keeps P (prove_qmp_snapshot E q vm)"
  unfolding prove_qmp_snapshot_def by (intro keeps_bind_pair keeps_query keeps_if keeps_pure)

lemma endpoints_differ: "endpoint_qmp H p i \<noteq> endpoint_qga H p i"
  by (simp add: endpoint_qmp_def endpoint_qga_def path_join_def is_absolute_def)

lemma keeps_prove_vm:
  assumes "avoids E (agent_endpoint E a) P" shows "keeps P (prove_vm E a vm t)"
  using assms endpoints_differ unfolding prove_vm_def Let_def connect_endpoint_def agent_endpoint_def
  by (intro keeps_basic keeps_remaining keeps_negotiate keeps_snapshot keeps_connect_loop) auto

subsection \<open>The proven machine\<close>

text \<open>A dialogue on the control connection: each command is sent in turn and answered with the value beside it.\<close>

fun qmp_dialogue ::
  "('s, 'y) link_env_scheme \<Rightarrow> qmp_client \<Rightarrow> (string \<times> json) list \<Rightarrow> ('s, 'z) link_world_scheme \<Rightarrow> ('s, 'z) link_world_scheme \<Rightarrow> bool" where
  "qmp_dialogue E q [] w w' \<longleftrightarrow> w = w'"
| "qmp_dialogue E q ((c, v) # cs) w w' \<longleftrightarrow> (\<exists>q1 w1. qmp_execute E q c None w = (Inr (v, q1), w1) \<and> qmp_dialogue E q1 cs w1 w')"

text \<open>What the answers to the queries say of a machine: its identity, its resources, no network, one qcow2 overlay on one base, and that it runs.\<close>

definition machine_report :: "host_env \<Rightarrow> provider_vm \<Rightarrow> (string \<times> json) list \<Rightarrow> bool" where
  "machine_report H vm ds \<longleftrightarrow> (\<exists>u n cpus memory blocks status b i p d.
     ds = [(''query-uuid'', u), (''query-name'', n), (''query-cpus-fast'', JArray cpus), (''query-memory-size-summary'', memory),
       (''query-rx-filter'', JArray []), (''query-block'', blocks), (''query-status'', status)]
     \<and> json_field u ''UUID'' as_str = Some (vm_id vm) \<and> json_field n ''name'' as_str = Some (vm_name vm)
     \<and> length cpus = unat (vm_cpu_count vm) \<and> json_field memory ''base-memory'' as_u64 = Some (vm_memory_mib vm * 1024 * 1024)
     \<and> blocks = JArray [b] \<and> json_get b ''inserted'' = Some i \<and> json_field i ''drv'' as_str = Some ''qcow2''
     \<and> json_field i ''backing_file_depth'' as_u64 = Some 1 \<and> json_field i ''file'' as_str = Some p
     \<and> vm_attached_disks vm = [d] \<and> qga_provider_path_equal H p d \<and> json_field status ''status'' as_str = Some ''running'')"

lemma as_array_Some: "as_array v = Some xs \<longleftrightarrow> v = JArray xs"
  by (cases v) auto

lemma snapshot_matches_report:
  assumes "snapshot_matches H vm u n cpus memory network blocks status"
  shows "machine_report H vm [(''query-uuid'', u), (''query-name'', n), (''query-cpus-fast'', cpus), (''query-memory-size-summary'', memory),
    (''query-rx-filter'', network), (''query-block'', blocks), (''query-status'', status)]"
  using assms unfolding snapshot_matches_def machine_report_def Let_def
  by (auto simp: as_array_Some bind_eq_Some_conv split: option.splits list.splits)

text \<open>The control endpoint of the cell was connected to, negotiated with, and its answers describe the expected machine.\<close>

definition machine_proven ::
  "('s, 'y) qga_env_scheme \<Rightarrow> guest_action_authority \<Rightarrow> provider_vm \<Rightarrow> ('s, 'z) link_world_scheme \<Rightarrow> bool" where
  "machine_proven E a vm w' \<longleftrightarrow> (\<exists>t s w1 remaining q w2 ds.
     lk_connect E (endpoint_qmp (qe_host E) (ga_configuration_path a) (ga_provider_id a)) t s = (Inr (lw_input w1), lw_peer w1)
     \<and> qmp_negotiate E remaining w1 = (Inr q, w2) \<and> qmp_dialogue E q ds w2 w' \<and> machine_report (qe_host E) vm ds)"

lemma attempt_iff: "attempt m w = (res, w') \<longleftrightarrow> (\<exists>r. m w = (r, w') \<and> res = Inr r)"
  by (auto simp: attempt_def split: prod.splits)

lemma snapshot_ok:
  assumes "prove_qmp_snapshot E q vm w = (Inr u, w')"
  shows "\<exists>ds. qmp_dialogue E q ds w w' \<and> machine_report (qe_host E) vm ds"
proof -
  from assms obtain v1 q1 w1 v2 q2 w2 v3 q3 w3 v4 q4 w4 v5 q5 w5 v6 q6 w6 v7 q7 where
    "qmp_execute E q ''query-uuid'' None w = (Inr (v1, q1), w1)" "qmp_execute E q1 ''query-name'' None w1 = (Inr (v2, q2), w2)"
    "qmp_execute E q2 ''query-cpus-fast'' None w2 = (Inr (v3, q3), w3)"
    "qmp_execute E q3 ''query-memory-size-summary'' None w3 = (Inr (v4, q4), w4)"
    "qmp_execute E q4 ''query-rx-filter'' None w4 = (Inr (v5, q5), w5)" "qmp_execute E q5 ''query-block'' None w5 = (Inr (v6, q6), w6)"
    "qmp_execute E q6 ''query-status'' None w6 = (Inr (v7, q7), w')" "snapshot_matches (qe_host E) vm v1 v2 v3 v4 v5 v6 v7"
    by (auto simp: prove_qmp_snapshot_def qmp_query_def bindE_ok mapE_ok_iff ret_def throw_def split: if_splits)
  note run = this
  show ?thesis by (rule exI, rule conjI [rotated], rule snapshot_matches_report [OF run(8)]) (simp add: run(1-7))
qed

lemma connect_loop_ok:
  "connect_loop n E ep d w = (Inr u, w') \<Longrightarrow> \<exists>t s. lk_connect E ep t s = (Inr (lw_input w'), lw_peer w')"
proof (induction n arbitrary: w)
  case 0
  then show ?case by (simp add: throw_def)
next
  case (Suc n)
  then obtain r w1 w2 where c: "connect_stream E ep w1 = (r, w2)"
    and rest: "(case r of Inr x \<Rightarrow> ret x | Inl _ \<Rightarrow> bindE (lk_now E) (\<lambda>now. if now < d then connect_loop n E ep d
         else throw (PE_Timeout ''QEMU control endpoint connection timed out''))) w2 = (Inr u, w')"
    by (auto simp: bindE_ok attempt_iff)
  show ?case
  proof (cases r)
    case (Inl e)
    with rest Suc.IH show ?thesis by (auto simp: bindE_ok throw_def split: if_splits)
  next
    case (Inr x)
    with rest c show ?thesis
      by (auto simp: ret_def connect_stream_def split: prod.splits sum.splits intro!: exI)
  qed
qed

lemma prove_vm_ok:
  assumes "prove_vm E a vm t w = (Inr u, w')"
  shows "machine_proven E a vm w'"
proof -
  from assms obtain d r w0 w1 r' w2 q w3 where
    connect: "connect_endpoint E (endpoint_qmp (qe_host E) (ga_configuration_path a) (ga_provider_id a)) (min r FIVE_SECONDS) w0 = (Inr (), w1)"
    and wait: "remaining_guest_duration E d w1 = (Inr r', w2)" and negotiate: "qmp_negotiate E r' w2 = (Inr q, w3)"
    and snapshot: "prove_qmp_snapshot E q vm w3 = (Inr u, w')"
    by (auto simp: prove_vm_def Let_def bindE_ok mapE_ok_iff)
  from wait have w2: "lw_input w2 = lw_input w1" "lw_peer w2 = lw_peer w1"
    by (auto simp: remaining_guest_duration_def bindE_ok lk_now_run ret_def throw_def split: if_splits)
  from connect connect_loop_ok obtain t' s where
    "lk_connect E (endpoint_qmp (qe_host E) (ga_configuration_path a) (ga_provider_id a)) t' s = (Inr (lw_input w2), lw_peer w2)"
    by (fastforce simp: connect_endpoint_def bindE_ok w2)
  moreover from snapshot obtain ds where "qmp_dialogue E q ds w3 w'" "machine_report (qe_host E) vm ds"
    using snapshot_ok by blast
  ultimately show ?thesis using negotiate unfolding machine_proven_def by blast
qed

subsection \<open>The agent's channel\<close>

text \<open>The run \<open>m\<close> ends the property \<open>P\<close> of the peer, as opening the agent's channel does.\<close>

definition ends :: "('s \<Rightarrow> bool) \<Rightarrow> (('s, 'z) link_world_scheme, 'e, 'a) eff \<Rightarrow> ('s, 'z) link_world_scheme \<Rightarrow> bool" where
  "ends P m w \<longleftrightarrow> P (lw_peer w) \<and> \<not> P (lw_peer (snd (m w)))"

lemma ends_guarded:
  fixes w :: "('s, 'z) link_world_scheme"
  assumes "ends P (bindE (authority_current E a vm) (\<lambda>_. if b then throw e else bindE (prove_vm E a vm t) k)) w"
    and avoids: "avoids E (agent_endpoint E a) P"
  shows "\<not> b \<and> guest_authority_validate (qe_guards E (lw_tick w)) a vm = Inr () \<and> (\<exists>w1 :: ('s, 'z) link_world_scheme. machine_proven E a vm w1 \<and> P (lw_peer w1))"
proof -
  have P: "P (lw_peer w)" and not: "\<not> P (lw_peer (snd (bindE (authority_current E a vm)
      (\<lambda>_. if b then throw e else bindE (prove_vm E a vm t) k) w)))"
    using assms(1) by (auto simp: ends_def)
  then have valid: "guest_authority_validate (qe_guards E (lw_tick w)) a vm = Inr ()"
    by (cases "guest_authority_validate (qe_guards E (lw_tick w)) a vm") (auto simp: bindE_def authority_current_def)
  with P not have b: "\<not> b" and not: "\<not> P (lw_peer (snd (bindE (prove_vm E a vm t) k w)))"
    by (auto simp: bindE_def authority_current_def throw_def split: if_splits)
  obtain r w1 where run: "prove_vm E a vm t w = (r, w1)" by (cases "prove_vm E a vm t w")
  with keeps_prove_vm [OF avoids, of vm t] P have P1: "P (lw_peer w1)" unfolding preserves_def by (metis snd_conv)
  with not run obtain u where "r = Inr u" by (cases r) (auto simp: bindE_def)
  with run prove_vm_ok P1 b valid show ?thesis by blast
qed

text \<open>
  C20: the transport touches the guest only through a machine that was just proven.  Whatever property of the outside world only a connection to the
  cell's agent channel can end (as \<open>the channel was never opened\<close>): if probing, executing, copying in or copying out ends it, then the authority's
  guards held and bind it to the given machine, and before that the cell's own control endpoint was connected to, and answered with exactly the
  machine's id, name, processors, memory, no network, one qcow2 overlay with one base at the expected path, running.
\<close>

theorem qga_touches_only_proven:
  fixes w :: "('s, 'z) link_world_scheme"
  assumes "avoids E (agent_endpoint E a) P"
    and "ends P (gt_probe_ready (qga_transport E) a vm cr timeout) w \<or> ends P (gt_exec (qga_transport E) a vm cr command) w
      \<or> ends P (gt_copy_in (qga_transport E) a vm cr source) w \<or> ends P (gt_copy_out (qga_transport E) a vm cr target) w"
  shows "guest_authority_validate (qe_guards E (lw_tick w)) a vm = Inr ()
    \<and> (\<exists>w1 :: ('s, 'z) link_world_scheme. machine_proven E a vm w1 \<and> P (lw_peer w1))"
proof -
  note guard = ends_guarded [OF _ assms(1), where vm = vm and w = w]
  from assms(2) show ?thesis
  proof (elim disjE, goal_cases)
    case 1
    then show ?thesis by (auto simp: qga_transport_def qga_probe_ready_def dest!: guard)
  next
    case 2
    then show ?thesis using guard [of False] by (auto simp: qga_transport_def qga_transport_exec_def)
  next
    case 3
    then show ?thesis using guard [of False] by (auto simp: qga_transport_def qga_copy_in_def)
  next
    case 4
    then show ?thesis using guard [of False] by (auto simp: qga_transport_def qga_copy_out_def)
  qed
qed

subsection \<open>Command results\<close>

lemma decode_output_bound: "decode_output E status field limit = Inr bytes \<Longrightarrow> length bytes \<le> unat limit"
  by (auto simp: decode_output_def split: option.splits if_splits)

lemma exited_result_ok:
  assumes "exited_result E command status = Inr r"
  shows "is_utf8 (gr_stdout r) \<and> is_utf8 (gr_stderr r) \<and> length (gr_stdout r) + length (gr_stderr r) \<le> unat (gcmd_max_output_bytes command)
    \<and> validate_guest_command_result command r = Inr () \<and> json_field status ''exitcode'' as_i64 = Some (gr_exit_code r)
    \<and> - (2 ^ 31) \<le> gr_exit_code r \<and> gr_exit_code r < 2 ^ 31"
proof -
  obtain code stdout stderr where out: "length stdout + length stderr \<le> unat (gcmd_max_output_bytes command)" "is_utf8 stdout" "is_utf8 stderr"
    and code: "Option.bind (json_field status ''exitcode'' as_i64) i32_try_from = Some code"
    and r: "r = \<lparr>gr_exit_code = code, gr_stdout = stdout, gr_stderr = stderr, gr_encoding = ''utf-8'',
      gr_stdout_bytes = word_of_nat (length stdout), gr_stderr_bytes = word_of_nat (length stderr), gr_truncated = False\<rparr>"
    using assms by (auto simp: exited_result_def Let_def ensure_def ok_or_def split: if_splits option.splits)
  have "unat (saturating_add (word_of_nat (length stdout)) (word_of_nat (length stderr)) :: u64) \<le> unat (gcmd_max_output_bytes command)"
    using out(1) by (auto simp: saturating_add_eq unat_of_nat intro: order_trans [OF min.cobounded1] order_trans [OF add_mono [OF mod_less_eq_dividend mod_less_eq_dividend]])
  then have "\<not> gcmd_max_output_bytes command < saturating_add (word_of_nat (length stdout)) (word_of_nat (length stderr))"
    by (simp add: word_less_nat_alt)
  with out code show ?thesis
    by (auto simp: r validate_guest_command_result_def bind_eq_Some_conv i32_try_from_def split: if_splits)
qed

lemma exec_poll_ok:
  "exec_poll n E client pid command deadline w = (Inr r, w') \<Longrightarrow>
     \<exists>status w1. qga_execute E client ''guest-exec-status'' (Some (JObject [(''pid'', json_u64 pid)])) w1 = (Inr status, w')
       \<and> json_field status ''exited'' as_bool = Some True \<and> exited_result E command status = Inr r"
proof (induction n arbitrary: w)
  case 0
  then show ?case by (simp add: throw_def)
next
  case (Suc n)
  then obtain status w1 where 1: "qga_execute E client ''guest-exec-status'' (Some (JObject [(''pid'', json_u64 pid)])) w = (Inr status, w1)"
    and 2: "(if json_field status ''exited'' as_bool = Some True then liftR (exited_result E command status)
      else bindE (lk_now E) (\<lambda>now. if deadline \<le> now then throw GE_Timeout else exec_poll n E client pid command deadline)) w1 = (Inr r, w')"
    by (auto simp: bindE_ok)
  show ?case
  proof (cases "json_field status ''exited'' as_bool = Some True")
    case True
    with 1 2 show ?thesis by auto
  next
    case False
    with 2 Suc.IH show ?thesis by (auto simp: bindE_ok throw_def split: if_splits)
  qed
qed


subsection \<open>Waiting ends\<close>

text \<open>Every step of the client reads the clock or leaves it; \<open>tick_le\<close> says that it never goes back.\<close>

definition tick_le :: "(('s, 'z) link_world_scheme, 'e, 'a) eff \<Rightarrow> bool" where
  "tick_le m \<longleftrightarrow> (\<forall>w. lw_tick w \<le> lw_tick (snd (m w)))"

lemma tick_le_bind: "tick_le m \<Longrightarrow> (\<And>x. tick_le (f x)) \<Longrightarrow> tick_le (bindE m f)"
  by (simp add: tick_le_def bindE_def split: prod.split sum.split) (metis snd_conv order_trans)

lemma tick_le_mapE: "tick_le m \<Longrightarrow> tick_le (mapE g m)"
  by (simp add: tick_le_def mapE_def split: prod.split sum.split) (metis snd_conv)

lemma tick_le_pure: "tick_le (ret x)" "tick_le (throw e)" "tick_le (liftR r)" "tick_le (lk_now E)"
  by (simp_all add: tick_le_def ret_def throw_def liftR_def lk_now_def)

lemma tick_le_if: "tick_le m \<Longrightarrow> tick_le n \<Longrightarrow> tick_le (if b then m else n)"
  by simp

lemma tick_le_streams: "tick_le read_byte" "tick_le (write_all E bytes)" "tick_le (connect_stream E ep)" "tick_le (set_operation_deadline E d)"
  unfolding tick_le_def
  by (auto simp: read_byte_def write_all_def connect_stream_def set_operation_deadline_def remaining_duration_def lk_now_def bindE_def ret_def throw_def
      split: list.split read_event.split prod.split sum.split option.split)

lemma tick_le_receive:
  fixes E :: "('s, 'y) link_env_scheme"
  shows "tick_le (qga_receive E d started skipped bytes :: (('s, 'z) link_world_scheme, guest_io_error, json) eff)"
proof -
  have "lw_tick w \<le> lw_tick (snd (qga_receive E d started skipped bytes w))" for w :: "('s, 'z) link_world_scheme"
  proof (induction E d started skipped bytes w rule: qga_receive.induct)
    case (1 E d started skipped bytes w)
    let ?m = "bindE (mapE (\<lambda>_. GE_Timeout) (set_operation_deadline E d)) (\<lambda>_. mapE qga_io_error read_byte)"
    obtain r w1 where m: "?m w = (r, w1)" by (cases "?m w")
    have "tick_le ?m" by (intro tick_le_bind tick_le_mapE tick_le_streams)
    with m have le: "lw_tick w \<le> lw_tick w1" unfolding tick_le_def by (metis snd_conv)
    show ?case
    proof (cases r)
      case (Inl e)
      with m le show ?thesis by (subst qga_receive.simps) simp
    next
      case (Inr o')
      note IH = "1.IH" [OF m [symmetric] Inr]
      show ?thesis
      proof (cases o')
        case None
        with m le Inr show ?thesis by (subst qga_receive.simps) simp
      next
        case (Some c)
        show ?thesis
          using IH(1) [OF Some, THEN order_trans [OF le]] IH(2) [OF Some, THEN order_trans [OF le]] le
          by (subst qga_receive.simps) (auto simp: m Inr Some)
      qed
    qed
  qed
  then show ?thesis by (simp add: tick_le_def)
qed

lemma now_bind_tick: "(\<And>x. tick_le (f x)) \<Longrightarrow> lw_tick w < lw_tick (snd (bindE (lk_now E) f w))"
  by (simp add: tick_le_def bindE_def lk_now_run) (metis Suc_le_eq link_world.select_convs(3) link_world.surjective link_world.update_convs(3))

lemma qga_execute_tick: "qga_execute E client c args w = (Inr v, w') \<Longrightarrow> lw_tick w < lw_tick w'"
proof -
  assume run: "qga_execute E client c args w = (Inr v, w')"
  have "lw_tick w < lw_tick (snd (qga_execute E client c args w))" unfolding qga_execute_def
    by (rule now_bind_tick) (intro tick_le_bind tick_le_mapE tick_le_pure tick_le_if tick_le_streams tick_le_receive)
  with run show ?thesis by simp
qed

text \<open>Once the clock has passed the deadline for good after \<open>T\<close> readings, more polls than readings remain change nothing.\<close>

lemma exec_poll_fuel:
  "(\<And>t. T \<le> t \<Longrightarrow> deadline \<le> lk_instant E t) \<Longrightarrow> T - lw_tick w < n \<Longrightarrow> T - lw_tick w < m \<Longrightarrow>
     exec_poll n E client pid command deadline w = exec_poll m E client pid command deadline w"
proof (induction n arbitrary: m w)
  case (Suc n)
  then obtain m' where m: "m = Suc m'" by (cases m) auto
  let ?e = "qga_execute E client ''guest-exec-status'' (Some (JObject [(''pid'', json_u64 pid)])) w"
  show ?case
  proof (cases "fst ?e")
    case (Inl e)
    then show ?thesis by (cases ?e) (simp add: m bindE_def)
  next
    case (Inr status)
    then obtain w1 where e: "?e = (Inr status, w1)" by (cases ?e) auto
    note tick = qga_execute_tick [OF e]
    show ?thesis
    proof (cases "deadline \<le> lk_instant E (lw_tick w1)")
      case True
      with e show ?thesis by (simp add: m bindE_def lk_now_run)
    next
      case False
      with Suc.prems(1) have "lw_tick w1 < T" by (meson not_less)
      with tick Suc.prems(2,3) have "T - Suc (lw_tick w1) < n" "T - Suc (lw_tick w1) < m'" by (auto simp: m)
      with Suc.IH [OF Suc.prems(1), of "w1\<lparr>lw_tick := Suc (lw_tick w1)\<rparr>" m'] e show ?thesis
        by (simp add: m bindE_def lk_now_run)
    qed
  qed
qed simp

lemma connect_loop_fuel:
  "(\<And>t. T \<le> t \<Longrightarrow> deadline \<le> lk_instant E t) \<Longrightarrow> T - lw_tick w < n \<Longrightarrow> T - lw_tick w < m \<Longrightarrow>
     connect_loop n E ep deadline w = connect_loop m E ep deadline w"
proof (induction n arbitrary: m w)
  case (Suc n)
  then obtain m' where m: "m = Suc m'" by (cases m) auto
  let ?w = "w\<lparr>lw_tick := Suc (lw_tick w)\<rparr>"
  show ?case
  proof (cases "lk_instant E (lw_tick w) < deadline")
    case False
    then show ?thesis by (simp add: m bindE_def remaining_duration_def lk_now_run throw_def mapE_def)
  next
    case True
    obtain r w1 where c: "connect_stream E ep ?w = (r, w1)" by (cases "connect_stream E ep ?w")
    then have tick: "lw_tick w1 = Suc (lw_tick w)" by (auto simp: connect_stream_def split: prod.splits sum.splits)
    have step: "connect_loop (Suc k) E ep deadline w = (case r of Inr _ \<Rightarrow> (Inr (), w1) | Inl _ \<Rightarrow>
        if lk_instant E (lw_tick w1) < deadline then connect_loop k E ep deadline (w1\<lparr>lw_tick := Suc (lw_tick w1)\<rparr>)
        else (Inl (PE_Timeout ''QEMU control endpoint connection timed out''), w1\<lparr>lw_tick := Suc (lw_tick w1)\<rparr>))" for k
      using True c by (auto simp: bindE_def remaining_duration_def lk_now_run ret_def throw_def mapE_def attempt_def split: sum.split)
    show ?thesis
    proof (cases "lk_instant E (lw_tick w1) < deadline")
      case False
      with step show ?thesis unfolding m by (auto split: sum.split)
    next
      case True
      with Suc.prems(1) have "lw_tick w1 < T" by (meson not_less)
      with tick Suc.prems(2,3) have "T - Suc (lw_tick w1) < n" "T - Suc (lw_tick w1) < m'" by (auto simp: m)
      then have "connect_loop n E ep deadline (w1\<lparr>lw_tick := Suc (lw_tick w1)\<rparr>) = connect_loop m' E ep deadline (w1\<lparr>lw_tick := Suc (lw_tick w1)\<rparr>)"
        by (intro Suc.IH Suc.prems(1)) auto
      then show ?thesis unfolding m step by (simp split: sum.split)
    qed
  qed
qed simp

subsection \<open>File transfers\<close>

lemma chunks_concat: "0 < n \<Longrightarrow> concat (chunks n xs) = xs"
  by (induction n xs rule: chunks.induct) (subst chunks.simps, simp)

lemma chunks_length: "c \<in> set (chunks n xs) \<Longrightarrow> length c \<le> n"
  by (induction n xs rule: chunks.induct) (subst (asm) (2) chunks.simps, auto split: if_splits)

text \<open>
  What the guest agent documents of files: the count in the answer to a write is the number of bytes appended, a flush changes nothing, the answer to a read
  carries the next bytes, and its end mark is set only when nothing is left.  There is one answer to each request.
\<close>

definition honest_agent :: "('s, 'y) link_env_scheme \<Rightarrow> ('s \<Rightarrow> int \<Rightarrow> string) \<Rightarrow> ('s \<Rightarrow> int \<Rightarrow> string) \<Rightarrow> bool" where
  "honest_agent E written unread \<longleftrightarrow> (\<forall>client h (w :: 's link_world) v w'. lw_input w = [] \<longrightarrow>
     (\<forall>chunk n. qga_execute E client ''guest-file-write'' (Some (write_request E h chunk)) w = (Inr v, w') \<and> json_field v ''count'' as_u64 = Some n
        \<longrightarrow> written (lw_peer w') h = written (lw_peer w) h @ take (unat n) chunk \<and> lw_input w' = [])
     \<and> (qga_execute E client ''guest-file-flush'' (Some (JObject [(''handle'', json_i64 h)])) w = (Inr v, w')
        \<longrightarrow> written (lw_peer w') h = written (lw_peer w) h)
     \<and> (\<forall>chunk eof. qga_execute E client ''guest-file-read'' (Some (read_request h)) w = (Inr v, w') \<and> read_answer E v = Inr (chunk, eof)
        \<longrightarrow> unread (lw_peer w) h = chunk @ unread (lw_peer w') h \<and> (eof \<longrightarrow> unread (lw_peer w') h = []) \<and> lw_input w' = []))"

lemma honest_write:
  fixes w w' :: "'s link_world"
  shows "honest_agent E written unread \<Longrightarrow> lw_input w = [] \<Longrightarrow>
     qga_execute E client ''guest-file-write'' (Some (write_request E h chunk)) w = (Inr v, w') \<Longrightarrow> json_field v ''count'' as_u64 = Some n \<Longrightarrow>
     written (lw_peer w') h = written (lw_peer w) h @ take (unat n) chunk \<and> lw_input w' = []"
  unfolding honest_agent_def by blast

lemma honest_flush:
  fixes w w' :: "'s link_world"
  shows "honest_agent E written unread \<Longrightarrow> lw_input w = [] \<Longrightarrow>
     qga_execute E client ''guest-file-flush'' (Some (JObject [(''handle'', json_i64 h)])) w = (Inr v, w') \<Longrightarrow>
     written (lw_peer w') h = written (lw_peer w) h"
  unfolding honest_agent_def by blast

lemma honest_read:
  fixes w w' :: "'s link_world"
  shows "honest_agent E written unread \<Longrightarrow> lw_input w = [] \<Longrightarrow>
     qga_execute E client ''guest-file-read'' (Some (read_request h)) w = (Inr v, w') \<Longrightarrow> read_answer E v = Inr (chunk, eof) \<Longrightarrow>
     unread (lw_peer w) h = chunk @ unread (lw_peer w') h \<and> (eof \<longrightarrow> unread (lw_peer w') h = []) \<and> lw_input w' = []"
  unfolding honest_agent_def by blast

lemma write_chunks_complete:
  fixes w w' :: "'s link_world"
  assumes honest: "honest_agent E written unread"
  shows "write_chunks E client h cs w = (Inr u, w') \<Longrightarrow> lw_input w = [] \<Longrightarrow> (\<And>c. c \<in> set cs \<Longrightarrow> length c \<le> QGA_FILE_CHUNK) \<Longrightarrow>
    written (lw_peer w') h = written (lw_peer w) h @ concat cs \<and> lw_input w' = []"
proof (induction cs arbitrary: w)
  case Nil
  then show ?case by (simp add: ret_def)
next
  case (Cons c cs)
  from Cons.prems(1) obtain v w1 where e: "qga_execute E client ''guest-file-write'' (Some (write_request E h c)) w = (Inr v, w1)"
    and count: "json_field v ''count'' as_u64 = Some (word_of_nat (length c))" and rest: "write_chunks E client h cs w1 = (Inr u, w')"
    by (auto simp: bindE_ok throw_def split: if_splits)
  have "length c < 2 ^ 64" using Cons.prems(3) [of c] by (simp add: QGA_FILE_CHUNK_def)
  then have "unat (word_of_nat (length c) :: u64) = length c" by (simp add: unat_of_nat)
  with honest_write [OF honest Cons.prems(2) e count] have "written (lw_peer w1) h = written (lw_peer w) h @ c" "lw_input w1 = []" by simp_all
  with Cons.IH [OF rest] Cons.prems(3) show ?case by auto
qed

lemma read_all_complete:
  fixes w w' :: "'s link_world"
  assumes honest: "honest_agent E written unread"
  shows "file_read_all E client h max_bytes acc w = (Inr out, w') \<Longrightarrow> lw_input w = [] \<Longrightarrow>
    out = acc @ unread (lw_peer w) h \<and> length out \<le> unat max_bytes"
  using honest
proof (induction E client h max_bytes acc w rule: file_read_all.induct)
  case (1 E client h max_bytes acc w)
  let ?m = "bindE (qga_execute E client ''guest-file-read'' (Some (read_request h))) (\<lambda>v. liftR (read_answer E v))"
  from "1.prems"(1) obtain chunk eof w1 where m: "?m w = (Inr (chunk, eof), w1)"
    by (subst (asm) file_read_all.simps) (auto split: prod.splits sum.splits)
  then obtain v where "qga_execute E client ''guest-file-read'' (Some (read_request h)) w = (Inr v, w1)" "read_answer E v = Inr (chunk, eof)"
    by (auto simp: bindE_ok)
  with "1.prems"(2,3) have next_bytes: "unread (lw_peer w) h = chunk @ unread (lw_peer w1) h" "eof \<Longrightarrow> unread (lw_peer w1) h = []" "lw_input w1 = []"
    using honest_read by blast+
  note run = "1.prems"(1) [unfolded file_read_all.simps [of E client h max_bytes acc w] m prod.case sum.case]
  then have fits: "\<not> unat max_bytes < length (acc @ chunk)" by (auto split: if_splits)
  show ?case
  proof (cases eof)
    case True
    with run fits next_bytes show ?thesis by auto
  next
    case False
    with run fits have "chunk \<noteq> []" "file_read_all E client h max_bytes (acc @ chunk) w1 = (Inr out, w')" by (auto split: if_splits)
    with "1.IH" [OF m [symmetric] refl refl fits False] next_bytes "1.prems"(3) show ?thesis by force
  qed
qed

text \<open>
  C21: a file transfer through an honest guest agent is complete.  If writing a content returns success, exactly that content was appended to the file,
  whatever its length; if reading returns bytes, they are everything the file had left, in order and within the limit.
\<close>

theorem qga_transfers_complete:
  fixes w w1 w2 :: "'s link_world"
  assumes "honest_agent E written unread" and "lw_input w = []"
  shows "(file_write_all E client h content w = (Inr (), w1) \<longrightarrow> written (lw_peer w1) h = written (lw_peer w) h @ content)
    \<and> (file_read_all E client h max_bytes [] w = (Inr out, w2) \<longrightarrow> out = unread (lw_peer w) h \<and> length out \<le> unat max_bytes)"
proof (intro conjI impI)
  assume "file_write_all E client h content w = (Inr (), w1)"
  then obtain w0 v where parts: "write_chunks E client h (chunks QGA_FILE_CHUNK content) w = (Inr (), w0)"
    and flush: "qga_execute E client ''guest-file-flush'' (Some (JObject [(''handle'', json_i64 h)])) w0 = (Inr v, w1)"
    by (auto simp: file_write_all_def bindE_ok ret_def)
  have "concat (chunks QGA_FILE_CHUNK content) = content" by (rule chunks_concat) (simp add: QGA_FILE_CHUNK_def)
  with write_chunks_complete [OF assms(1) parts assms(2)] chunks_length
  have "written (lw_peer w0) h = written (lw_peer w) h @ content" "lw_input w0 = []" by auto
  with honest_flush [OF assms(1) _ flush] show "written (lw_peer w1) h = written (lw_peer w) h @ content" by simp
next
  assume "file_read_all E client h max_bytes [] w = (Inr out, w2)"
  from read_all_complete [OF assms(1) this assms(2)]
  show "out = unread (lw_peer w) h" "length out \<le> unat max_bytes" by auto
qed

subsection \<open>Concrete exchanges\<close>

definition still_clock :: "('s, 'y) link_env_scheme \<Rightarrow> bool" where
  "still_clock E \<longleftrightarrow> lk_instant E = (\<lambda>_. 0) \<and> lk_set_timeout E = (\<lambda>_. None)"

lemma calm_now: "still_clock E \<Longrightarrow> lk_now E w = (Inr 0, w\<lparr>lw_tick := Suc (lw_tick w)\<rparr>)"
  by (simp add: still_clock_def lk_now_def)

lemma calm_deadline: "still_clock E \<Longrightarrow> 0 < d \<Longrightarrow> set_operation_deadline E d w = (Inr (), w\<lparr>lw_tick := Suc (lw_tick w)\<rparr>)"
  by (simp add: set_operation_deadline_def remaining_duration_def bindE_def calm_now ret_def) (simp add: still_clock_def)

lemma calm_remaining:
  "still_clock E \<Longrightarrow> 0 < d \<Longrightarrow> remaining_duration E d w = (Inr d, w\<lparr>lw_tick := Suc (lw_tick w)\<rparr>)"
  "still_clock E \<Longrightarrow> 0 < d \<Longrightarrow> remaining_guest_duration E d w = (Inr d, w\<lparr>lw_tick := Suc (lw_tick w)\<rparr>)"
  by (simp_all add: remaining_duration_def remaining_guest_duration_def bindE_def calm_now ret_def)

lemma calm_line:
  assumes "still_clock E" "0 < d" "c \<noteq> newline" "lk_decode E [c] = Inr v"
  shows "line_receive E d [] \<lparr>lw_peer = s, lw_input = Byte c # Byte newline # rest, lw_tick = t\<rparr>
    = (Inr v, \<lparr>lw_peer = s, lw_input = rest, lw_tick = Suc (Suc t)\<rparr>)"
  using assms
  by (simp add: line_receive.simps [of _ _ "[]"] line_receive.simps [of _ _ "[c]"] calm_deadline bindE_def mapE_def read_byte_def
      PROTOCOL_MESSAGE_LIMIT_def)

lemma calm_qmp_execute:
  fixes E :: "('s, 'y) link_env_scheme"
  assumes still_clock: "still_clock E" "0 < d" and sent: "lk_encode E (qmp_request cmd args i) = Inr ''Q''"
    "lk_write E [CHR ''Q'', newline] s = (Inr [Byte c, Byte newline], s')" and reply: "c \<noteq> newline" "lk_decode E [c] = Inr msg" "answers i v msg"
  shows "qmp_execute E \<lparr>qc_next_id = i, qc_deadline = d\<rparr> cmd args \<lparr>lw_peer = s, lw_input = [], lw_tick = t\<rparr>
    = (Inr (v, \<lparr>qc_next_id = i + 1, qc_deadline = d\<rparr>), \<lparr>lw_peer = s', lw_input = [], lw_tick = t + 5\<rparr>)"
proof -
  have send: "line_send E (qmp_request cmd args i) d \<lparr>lw_peer = s, lw_input = [], lw_tick = Suc t\<rparr>
      = (Inr (), \<lparr>lw_peer = s', lw_input = [Byte c, Byte newline], lw_tick = Suc (Suc t)\<rparr>)"
    using still_clock sent by (simp add: line_send_def bindE_def mapE_def liftR_def PROTOCOL_MESSAGE_LIMIT_def calm_deadline write_all_def)
  have "qmp_step E cmd i d k \<lparr>lw_peer = s', lw_input = [Byte c, Byte newline], lw_tick = Suc (Suc t)\<rparr>
      = (Inr v, \<lparr>lw_peer = s', lw_input = [], lw_tick = t + 5\<rparr>)" for k :: "('s link_world, provider_error, json) eff"
    using still_clock reply by (simp add: qmp_step_def bindE_def calm_now calm_line answers_def liftR_def ok_or_def)
  moreover have "qmp_await 64 E cmd i d w = qmp_step E cmd i d (qmp_await 63 E cmd i d) w" for w :: "'s link_world"
    by (simp add: qmp_await.simps(2) [of 63, simplified])
  ultimately show ?thesis
    using still_clock by (simp add: qmp_execute_def bindE_def calm_now send ret_def Let_def)
qed

lemma calm_frame:
  assumes "still_clock E" "0 < d" "c \<noteq> newline" "lk_decode E [CHR ''{'', c] = Inr v"
  shows "qga_receive E d False 0 [] \<lparr>lw_peer = s, lw_input = [Byte CHR ''{'', Byte c, Byte newline], lw_tick = t\<rparr>
    = (Inr v, \<lparr>lw_peer = s, lw_input = [], lw_tick = t + 3\<rparr>)"
  using assms
  by (simp add: qga_receive.simps [of _ _ _ _ "[]"] qga_receive.simps [of _ _ _ _ "''{''"] qga_receive.simps [of _ _ _ _ "[CHR ''{'', c]"]
      calm_deadline bindE_def mapE_def read_byte_def QGA_FRAME_LIMIT_def)

lemma calm_qga_execute:
  assumes still_clock: "still_clock E" "0 < d" and sent: "lk_encode E (qga_request cmd args) = Inr bytes" "length bytes \<le> QGA_FRAME_LIMIT"
    "lk_write E (bytes @ [newline]) s = (Inr [Byte CHR ''{'', Byte c, Byte newline], s')"
    and reply: "c \<noteq> newline" "lk_decode E [CHR ''{'', c] = Inr msg"
  shows "qga_execute E d cmd args \<lparr>lw_peer = s, lw_input = [], lw_tick = t\<rparr>
    = (if json_get msg ''error'' \<noteq> None then Inl GE_Transport else ok_or (json_get msg ''return'') GE_InvalidResponse,
       \<lparr>lw_peer = s', lw_input = [], lw_tick = t + 6\<rparr>)"
  using assms by (simp add: qga_execute_def bindE_def mapE_def liftR_def calm_now calm_deadline write_all_def calm_frame throw_def)

definition script_codec :: "(string \<times> json) list" where
  "script_codec =
     [(''G'', JObject [(''QMP'', JObject [])]),
      (''C'', JObject [(''id'', json_u64 1), (''return'', JObject [])]),
      (''U'', JObject [(''id'', json_u64 2), (''return'', JObject [(''UUID'', JString (vm_id sample_vm))])]),
      (''N'', JObject [(''id'', json_u64 3), (''return'', JObject [(''name'', JString (vm_name sample_vm))])]),
      (''P'', JObject [(''id'', json_u64 4), (''return'', JArray [JNull, JNull])]),
      (''M'', JObject [(''id'', json_u64 5), (''return'', JObject [(''base-memory'', json_u64 (2048 * 1024 * 1024))])]),
      (''F'', JObject [(''id'', json_u64 6), (''return'', JArray [])]),
      (''B'', JObject [(''id'', json_u64 7), (''return'', JArray [JObject [(''inserted'', JObject
         [(''backing_file_depth'', json_u64 1), (''drv'', JString ''qcow2''), (''file'', JString ''/cells/7/overlay.qcow2'')])]])]),
      (''S'', JObject [(''id'', json_u64 8), (''return'', JObject [(''status'', JString ''running'')])]),
      (''{s'', JObject [(''return'', json_u64 0)]),
      (''{p'', JObject [(''return'', JObject [(''pid'', json_u64 4)])]),
      (''{x'', JObject [(''return'', JObject [(''exited'', JBool True), (''exitcode'', json_i64 0)])])]"

text \<open>The peer answers in the order of a script; its first component records whether the agent's channel was opened.\<close>

definition scripted :: "(bool \<times> string list) qga_env" where
  "scripted = \<lparr>lk_connect = (\<lambda>ep _ (opened, script). if ep = Ep_Unix ''/cells/7/config/qga.sock'' then (Inr [], (True, script))
        else (Inr [Byte CHR ''G'', Byte newline], (opened, script))),
     lk_write = (\<lambda>_ (opened, script). case script of [] \<Rightarrow> (Inr [], (opened, [])) | line # rest \<Rightarrow> (Inr (map Byte line), (opened, rest))),
     lk_set_timeout = (\<lambda>_. None), lk_instant = (\<lambda>_. 0), lk_polls = 1, lk_encode = (\<lambda>_. Inr ''Q''),
     lk_decode = (\<lambda>s. ok_or (map_of script_codec s) ''syntax''), lk_uuid = (\<lambda>_. 0), lk_b64_encode = id, lk_b64_decode = Some,
     qe_host = sample_env, qe_guards = (\<lambda>_. \<lparr>gs_mutation_identity = True, gs_runtime_identity = True\<rparr>)\<rparr>"

definition sample_authority :: guest_action_authority where
  "sample_authority = \<lparr>ga_install_id = 5, ga_cell_id = CellId 7, ga_provider_id = ''id-7'', ga_provider = ''qemu'',
     ga_provider_name = vm_name sample_vm, ga_provider_marker = vm_ownership_marker sample_vm, ga_configuration_path = ''/cells/7/config'',
     ga_overlay_path = ''/cells/7/overlay.qcow2'', ga_cpu_count = 2, ga_memory_mib = 2048, ga_installation = sample_installation,
     ga_runtime = sample_runtime\<rparr>"

definition sample_machine :: provider_vm where
  "sample_machine = sample_vm\<lparr>vm_power_state := Power_Running\<rparr>"

definition sample_command :: guest_command where
  "sample_command = \<lparr>gcmd_program = ''/bin/true'', gcmd_args = [], gcmd_timeout = 9, gcmd_max_output_bytes = 16\<rparr>"

abbreviation qmp_script :: "string list" where
  "qmp_script \<equiv> map (\<lambda>c. [c, newline]) ''CUNPMFBS''"

abbreviation qga_script :: "string list" where
  "qga_script \<equiv> [] # map (\<lambda>c. [CHR ''{'', c, newline]) ''spx''"

lemma scripted_simps:
  "still_clock scripted" "lk_encode scripted v = Inr ''Q''" "lk_decode scripted s = ok_or (map_of script_codec s) ''syntax''"
  "lk_write scripted bytes (opened, line # rest) = (Inr (map Byte line), (opened, rest))" "lk_polls scripted = Suc 0"
  "qe_host scripted = sample_env" "lk_uuid scripted = (\<lambda>_. 0)"
  by (simp_all add: scripted_def still_clock_def)

lemma scripted_connect:
  "0 < d \<Longrightarrow> connect_endpoint scripted (endpoint_qmp sample_env ''/cells/7/config'' i) d \<lparr>lw_peer = (opened, script), lw_input = input, lw_tick = t\<rparr>
     = (Inr (), \<lparr>lw_peer = (opened, script), lw_input = [Byte CHR ''G'', Byte newline], lw_tick = t + 2\<rparr>)"
  "0 < d \<Longrightarrow> connect_endpoint scripted (endpoint_qga sample_env ''/cells/7/config'' i) d \<lparr>lw_peer = (opened, script), lw_input = input, lw_tick = t\<rparr>
     = (Inr (), \<lparr>lw_peer = (True, script), lw_input = [], lw_tick = t + 2\<rparr>)"
  using scripted_simps(1)
  by (simp_all add: connect_endpoint_def bindE_def calm_now scripted_simps calm_remaining mapE_def attempt_def connect_stream_def)
    (simp_all add: scripted_def endpoint_qmp_def endpoint_qga_def sample_env_def path_join_def is_absolute_def ret_def)

lemma scripted_qmp:
  assumes "0 < d" "c \<noteq> newline" "map_of script_codec [c] = Some msg" "answers i v msg"
  shows "qmp_execute scripted \<lparr>qc_next_id = i, qc_deadline = d\<rparr> cmd args \<lparr>lw_peer = (opened, [c, newline] # rest), lw_input = [], lw_tick = t\<rparr>
    = (Inr (v, \<lparr>qc_next_id = i + 1, qc_deadline = d\<rparr>), \<lparr>lw_peer = (opened, rest), lw_input = [], lw_tick = t + 5\<rparr>)"
  using assms by (intro calm_qmp_execute) (auto simp: scripted_simps ok_or_def)

lemma scripted_agent:
  assumes "0 < d" "c \<noteq> newline" "map_of script_codec [CHR ''{'', c] = Some (JObject [(''return'', v)])"
  shows "qga_execute scripted d cmd args \<lparr>lw_peer = (opened, [CHR ''{'', c, newline] # rest), lw_input = [], lw_tick = t\<rparr>
    = (Inr v, \<lparr>lw_peer = (opened, rest), lw_input = [], lw_tick = t + 6\<rparr>)"
  using assms by (subst calm_qga_execute [where bytes = "''Q''" and c = c]) (auto simp: scripted_simps ok_or_def QGA_FRAME_LIMIT_def)

lemma scripted_negotiate:
  "0 < d \<Longrightarrow> qmp_negotiate scripted d \<lparr>lw_peer = (opened, qmp_script @ rest), lw_input = [Byte CHR ''G'', Byte newline], lw_tick = t\<rparr>
     = (Inr \<lparr>qc_next_id = 2, qc_deadline = d\<rparr>, \<lparr>lw_peer = (opened, tl qmp_script @ rest), lw_input = [], lw_tick = t + 8\<rparr>)"
  using scripted_simps(1)
  by (simp add: qmp_negotiate_def Let_def bindE_def calm_now calm_line [where v = "JObject [(''QMP'', JObject [])]"] scripted_simps ok_or_def script_codec_def
      json_field_def ret_def scripted_qmp [where v = "JObject []" and msg = "JObject [(''id'', json_u64 1), (''return'', JObject [])]"] answers_def)

lemma scripted_snapshot:
  assumes "0 < d"
  shows "prove_qmp_snapshot scripted \<lparr>qc_next_id = 2, qc_deadline = d\<rparr> sample_machine \<lparr>lw_peer = (opened, tl qmp_script @ rest), lw_input = [], lw_tick = t\<rparr>
    = (Inr (), \<lparr>lw_peer = (opened, rest), lw_input = [], lw_tick = t + 35\<rparr>)"
proof -
  have codec: "map_of script_codec ''U'' = Some (JObject [(''id'', json_u64 2), (''return'', JObject [(''UUID'', JString (vm_id sample_vm))])])"
    "map_of script_codec ''N'' = Some (JObject [(''id'', json_u64 3), (''return'', JObject [(''name'', JString (vm_name sample_vm))])])"
    "map_of script_codec ''P'' = Some (JObject [(''id'', json_u64 4), (''return'', JArray [JNull, JNull])])"
    "map_of script_codec ''M'' = Some (JObject [(''id'', json_u64 5), (''return'', JObject [(''base-memory'', json_u64 (2048 * 1024 * 1024))])])"
    "map_of script_codec ''F'' = Some (JObject [(''id'', json_u64 6), (''return'', JArray [])])"
    "map_of script_codec ''B'' = Some (JObject [(''id'', json_u64 7), (''return'', JArray [JObject [(''inserted'', JObject
         [(''backing_file_depth'', json_u64 1), (''drv'', JString ''qcow2''), (''file'', JString ''/cells/7/overlay.qcow2'')])]])])"
    "map_of script_codec ''S'' = Some (JObject [(''id'', json_u64 8), (''return'', JObject [(''status'', JString ''running'')])])"
    by (simp_all add: script_codec_def)
  note query = scripted_qmp [OF assms]
  have match: "snapshot_matches sample_env sample_machine (JObject [(''UUID'', JString (vm_id sample_vm))]) (JObject [(''name'', JString (vm_name sample_vm))])
      (JArray [JNull, JNull]) (JObject [(''base-memory'', json_u64 (2048 * 1024 * 1024))]) (JArray [])
      (JArray [JObject [(''inserted'', JObject [(''backing_file_depth'', json_u64 1), (''drv'', JString ''qcow2''),
        (''file'', JString ''/cells/7/overlay.qcow2'')])]]) (JObject [(''status'', JString ''running'')])"
    by (simp add: snapshot_matches_def sample_machine_def sample_vm_def json_field_def qga_provider_path_equal_def sample_env_def path_eq_def)
  have step: "qmp_query scripted \<lparr>qc_next_id = i, qc_deadline = d\<rparr> cmd \<lparr>lw_peer = (opened, [c, newline] # more), lw_input = [], lw_tick = n\<rparr>
      = (Inr (v, \<lparr>qc_next_id = i + 1, qc_deadline = d\<rparr>), \<lparr>lw_peer = (opened, more), lw_input = [], lw_tick = n + 5\<rparr>)"
    if "c \<noteq> newline" "map_of script_codec [c] = Some (JObject [(''id'', json_u64 i), (''return'', v)])" for i cmd c more n v
    using that by (simp add: qmp_query_def mapE_def query answers_def json_field_def)
  show ?thesis
    by (simp add: prove_qmp_snapshot_def bindE_def step codec scripted_simps match [simplified] ret_def add.commute)
qed

lemma sample_authority_valid:
  "guest_authority_validate \<lparr>gs_mutation_identity = True, gs_runtime_identity = True\<rparr> sample_authority sample_machine = Inr ()"
  by (simp add: guest_authority_validate_def sample_authority_def sample_machine_def gid.same_refl sample_defs ensure_def)

lemma scripted_prove:
  "prove_vm scripted sample_authority sample_machine 9 \<lparr>lw_peer = (opened, qmp_script @ rest), lw_input = [], lw_tick = t\<rparr>
    = (Inr (), \<lparr>lw_peer = (opened, rest), lw_input = [], lw_tick = t + 48\<rparr>)"
  using scripted_simps(1)
  by (simp add: prove_vm_def Let_def bindE_def calm_now calm_remaining mapE_def scripted_simps sample_authority_def FIVE_SECONDS_def duration_from_secs_def
      scripted_connect [simplified] scripted_negotiate [simplified] scripted_snapshot [simplified])

lemma scripted_agent_connect:
  "qga_connect scripted (agent_endpoint scripted sample_authority) 9 \<lparr>lw_peer = (opened, qga_script), lw_input = [], lw_tick = t\<rparr>
    = (Inr 9, \<lparr>lw_peer = (True, tl (tl qga_script)), lw_input = [], lw_tick = t + 11\<rparr>)"
  using scripted_simps(1) scripted_agent [of 9 "CHR ''s''" "json_u64 0"]
  by (simp add: qga_connect_def Let_def bindE_def calm_now calm_remaining calm_deadline mapE_def scripted_simps agent_endpoint_def sample_authority_def
      FIVE_SECONDS_def duration_from_secs_def scripted_connect [simplified] write_all_def gets_def ret_def script_codec_def)

lemma scripted_process:
  "qga_exec scripted 9 sample_command \<lparr>lw_peer = (opened, tl (tl qga_script)), lw_input = [], lw_tick = t\<rparr>
    = (Inr \<lparr>gr_exit_code = 0, gr_stdout = [], gr_stderr = [], gr_encoding = ''utf-8'', gr_stdout_bytes = 0, gr_stderr_bytes = 0, gr_truncated = False\<rparr>,
       \<lparr>lw_peer = (opened, []), lw_input = [], lw_tick = t + 13\<rparr>)"
  using scripted_simps(1) scripted_agent [of 9 "CHR ''p''" "JObject [(''pid'', json_u64 4)]"]
    scripted_agent [of 9 "CHR ''x''" "JObject [(''exited'', JBool True), (''exitcode'', json_i64 0)]"]
  by (simp add: qga_exec_def bindE_def calm_now scripted_simps script_codec_def liftR_def ok_or_def json_field_def exited_result_def Let_def ensure_def
      not_truncated_def decode_output_def json_i64_def i32_try_from_def is_utf8_def sample_command_def)

abbreviation sample_start :: "(bool \<times> string list) link_world" where
  "sample_start \<equiv> \<lparr>lw_peer = (False, qmp_script @ qga_script), lw_input = [], lw_tick = 0\<rparr>"

lemma scripted_exec:
  "gt_exec (qga_transport scripted) sample_authority sample_machine credentials_not_required sample_command sample_start
    = (Inr \<lparr>gr_exit_code = 0, gr_stdout = [], gr_stderr = [], gr_encoding = ''utf-8'', gr_stdout_bytes = 0, gr_stderr_bytes = 0, gr_truncated = False\<rparr>,
       \<lparr>lw_peer = (True, []), lw_input = [], lw_tick = 72\<rparr>)"
proof -
  have "\<not> is_blank ''/bin/true''" by code_simp
  then have "guest_command_validate sample_command = Inr ()"
    by (simp add: guest_command_validate_def sample_command_def duration_from_secs_def MAX_ACTION_TIMEOUT_SECONDS_def MAX_OUTPUT_BYTES_def
        contains_char_def nul_def)
  moreover have "gcmd_timeout sample_command = 9" by (simp add: sample_command_def)
  ultimately show ?thesis
    using scripted_prove [of False qga_script 0] scripted_agent_connect [of False 48] scripted_process [of True 59]
    by (simp add: qga_transport_def qga_transport_exec_def bindE_def authority_current_def sample_authority_valid executor_exec_def liftR_def
        scripted_def [THEN arg_cong, of qe_guards])
qed

theorem qga_touches_only_proven_witness:
  "\<exists>w1 :: (bool \<times> string list) link_world. machine_proven scripted sample_authority sample_machine w1 \<and> \<not> fst (lw_peer w1)"
proof -
  have avoids: "avoids scripted (agent_endpoint scripted sample_authority) (\<lambda>s. \<not> fst s)"
    by (auto simp: avoids_def scripted_def agent_endpoint_def endpoint_qga_def sample_env_def sample_authority_def path_join_def is_absolute_def
        split: list.split)
  have "ends (\<lambda>s. \<not> fst s) (gt_exec (qga_transport scripted) sample_authority sample_machine credentials_not_required sample_command) sample_start"
    unfolding ends_def scripted_exec by simp
  with qga_touches_only_proven [OF avoids] show ?thesis by blast
qed


text \<open>An agent with one file that takes and gives the two bytes \<open>hi\<close> and refuses everything else.\<close>

definition file_codec :: "(string \<times> json) list" where
  "file_codec =
     [(''{w'', JObject [(''return'', JObject [(''count'', json_u64 2)])]),
      (''{r'', JObject [(''return'', JObject [(''buf-b64'', JString ''hi''), (''count'', json_u64 2), (''eof'', JBool True)])]),
      (''{f'', JObject [(''return'', JObject [])])]"

definition file_reply :: "string \<Rightarrow> string \<Rightarrow> char \<times> string" where
  "file_reply bytes s =
     (if bytes = [CHR ''W'', CHR ''h'', CHR ''i'', newline] then (CHR ''w'', s @ ''hi'')
      else if bytes = [CHR ''R'', newline] \<and> s = ''hi'' then (CHR ''r'', [])
      else if bytes = [CHR ''F'', newline] then (CHR ''f'', s)
      else (CHR ''e'', s))"

definition file_encode :: "json \<Rightarrow> string" where
  "file_encode v = (case Option.bind (json_get v ''arguments'') (\<lambda>a. json_field a ''buf-b64'' as_str) of
      Some b \<Rightarrow> CHR ''W'' # b
    | None \<Rightarrow> if json_get v ''execute'' = Some (JString ''guest-file-read'') then ''R'' else ''F'')"

definition file_agent :: "string link_env" where
  "file_agent = \<lparr>lk_connect = (\<lambda>_ _ s. (Inr [], s)),
     lk_write = (\<lambda>bytes s. case file_reply bytes s of (c, s') \<Rightarrow> (Inr [Byte CHR ''{'', Byte c, Byte newline], s')),
     lk_set_timeout = (\<lambda>_. None), lk_instant = (\<lambda>_. 0), lk_polls = 1, lk_encode = (\<lambda>v. Inr (file_encode v)),
     lk_decode = (\<lambda>s. case map_of file_codec s of Some v \<Rightarrow> Inr v | None \<Rightarrow> Inr (JObject [(''error'', JNull)])), lk_uuid = (\<lambda>_. 0),
     lk_b64_encode = id, lk_b64_decode = Some\<rparr>"

lemma file_agent_execute:
  fixes w w' :: "string link_world"
  assumes "qga_execute file_agent d cmd args w = (Inr v, w')" "lw_input w = []"
  shows "\<exists>c. file_reply (file_encode (qga_request cmd args) @ [newline]) (lw_peer w) = (c, lw_peer w')
    \<and> map_of file_codec [CHR ''{'', c] = Some (JObject [(''return'', v)]) \<and> lw_input w' = []"
proof -
  obtain c s' where reply: "file_reply (file_encode (qga_request cmd args) @ [newline]) (lw_peer w) = (c, s')" by fastforce
  then have c: "c \<in> {CHR ''w'', CHR ''r'', CHR ''f'', CHR ''e''}" by (auto simp: file_reply_def split: if_splits)
  obtain msg where msg: "lk_decode file_agent [CHR ''{'', c] = Inr msg"
    by (cases "map_of file_codec [CHR ''{'', c]") (auto simp: file_agent_def)
  have "0 < d" "length (file_encode (qga_request cmd args)) \<le> QGA_FRAME_LIMIT"
    using assms(1) by (auto simp: qga_execute_def bindE_ok lk_now_run throw_def mapE_ok_iff file_agent_def split: if_splits)
  moreover have "still_clock file_agent" by (simp add: still_clock_def file_agent_def)
  moreover have "w = \<lparr>lw_peer = lw_peer w, lw_input = [], lw_tick = lw_tick w\<rparr>" using assms(2) by (cases w) simp
  moreover have "lk_encode file_agent (qga_request cmd args) = Inr (file_encode (qga_request cmd args))"
    "lk_write file_agent (file_encode (qga_request cmd args) @ [newline]) (lw_peer w) = (Inr [Byte CHR ''{'', Byte c, Byte newline], s')"
    using reply by (simp_all add: file_agent_def)
  moreover have "c \<noteq> newline" using c by auto
  ultimately have "qga_execute file_agent d cmd args w = (if json_get msg ''error'' \<noteq> None then Inl GE_Transport
      else ok_or (json_get msg ''return'') GE_InvalidResponse, \<lparr>lw_peer = s', lw_input = [], lw_tick = lw_tick w + 6\<rparr>)"
    using calm_qga_execute [of file_agent d cmd args _ "lw_peer w" c s' msg "lw_tick w"] msg by metis
  with assms(1) have "json_get msg ''error'' = None" "json_get msg ''return'' = Some v" and w': "lw_peer w' = s'" "lw_input w' = []"
    by (auto split: if_splits)
  then have "map_of file_codec [CHR ''{'', c] = Some (JObject [(''return'', v)])"
    using msg c by (auto simp: file_agent_def file_codec_def)
  with reply w' show ?thesis by auto
qed

lemma file_agent_honest: "honest_agent file_agent (\<lambda>s _. s) (\<lambda>s _. s)"
proof -
  have writes: "s' = s @ chunk \<and> v = JObject [(''count'', json_u64 2)] \<and> length chunk = 2"
    if "file_reply (file_encode (qga_request ''guest-file-write'' (Some (write_request file_agent h chunk))) @ [newline]) s = (c, s')"
      "map_of file_codec [CHR ''{'', c] = Some (JObject [(''return'', v)])" for h chunk s c s' v
    using that by (auto simp: file_reply_def file_encode_def qga_request_def write_request_def json_field_def file_agent_def file_codec_def split: if_splits)
  have flushes: "s' = s"
    if "file_reply (file_encode (qga_request ''guest-file-flush'' (Some (JObject [(''handle'', json_i64 h)]))) @ [newline]) s = (c, s')" for h s c s'
    using that by (auto simp: file_reply_def file_encode_def qga_request_def json_field_def split: if_splits)
  have reads: "s = ''hi'' \<and> s' = [] \<and> v = JObject [(''buf-b64'', JString ''hi''), (''count'', json_u64 2), (''eof'', JBool True)]"
    if "file_reply (file_encode (qga_request ''guest-file-read'' (Some (read_request h))) @ [newline]) s = (c, s')"
      "map_of file_codec [CHR ''{'', c] = Some (JObject [(''return'', v)])" for h s c s' v
    using that by (auto simp: file_reply_def file_encode_def qga_request_def read_request_def json_field_def file_codec_def split: if_splits)
  show ?thesis unfolding honest_agent_def
  proof ((intro allI impI conjI; (elim conjE)?), goal_cases)
    case (1 client h w v w' chunk n)
    from file_agent_execute [OF 1(2,1)] writes [of h chunk] have "lw_peer w' = lw_peer w @ chunk \<and> v = JObject [(''count'', json_u64 2)] \<and> length chunk = 2"
      by blast
    with 1(3) show ?case by (auto simp: json_field_def)
  next
    case (2 client h w v w' chunk n)
    from file_agent_execute [OF 2(2,1)] show ?case by blast
  next
    case (3 client h w v w')
    from file_agent_execute [OF 3(2,1)] flushes [of h] show ?case by blast
  next
    case (4 client h w v w' chunk eof)
    from file_agent_execute [OF 4(2,1)] reads [of h]
    have "lw_peer w = ''hi'' \<and> lw_peer w' = [] \<and> v = JObject [(''buf-b64'', JString ''hi''), (''count'', json_u64 2), (''eof'', JBool True)]" by blast
    with 4(3) show ?case by (auto simp: read_answer_def json_field_def file_agent_def ok_or_def split: if_splits)
  next
    case (5 client h w v w' chunk eof)
    from file_agent_execute [OF 5(3,1)] reads [of h] show ?case by blast
  next
    case (6 client h w v w' chunk eof)
    from file_agent_execute [OF 6(2,1)] show ?case by blast
  qed
qed

theorem qga_transfers_complete_witness:
  "(\<exists>w1. file_write_all file_agent 9 1 ''hi'' \<lparr>lw_peer = [], lw_input = [], lw_tick = 0\<rparr> = (Inr (), w1) \<and> lw_peer w1 = ''hi'')
   \<and> (\<exists>w2. file_read_all file_agent 9 1 16 [] \<lparr>lw_peer = ''hi'', lw_input = [], lw_tick = 0\<rparr> = (Inr ''hi'', w2))"
proof -
  have calm: "still_clock file_agent" by (simp add: still_clock_def file_agent_def)
  note answer = calm_qga_execute [OF calm, where d = 9, simplified]
  have parts: "chunks QGA_FILE_CHUNK ''hi'' = [''hi'']"
    by (simp add: chunks.simps [of _ "''hi''"] chunks.simps [of _ "[]"] QGA_FILE_CHUNK_def)
  have "qga_execute file_agent 9 ''guest-file-write'' (Some (write_request file_agent 1 ''hi'')) \<lparr>lw_peer = [], lw_input = [], lw_tick = 0\<rparr>
      = (Inr (JObject [(''count'', json_u64 2)]), \<lparr>lw_peer = ''hi'', lw_input = [], lw_tick = 6\<rparr>)"
    by (subst answer [where bytes = "''Whi''" and c = "CHR ''w''" and s' = "''hi''" and msg = "JObject [(''return'', JObject [(''count'', json_u64 2)])]"])
      (simp_all add: file_agent_def file_encode_def qga_request_def write_request_def json_field_def file_reply_def file_codec_def QGA_FRAME_LIMIT_def ok_or_def)
  moreover have "qga_execute file_agent 9 ''guest-file-flush'' (Some (JObject [(''handle'', json_i64 1)])) \<lparr>lw_peer = ''hi'', lw_input = [], lw_tick = 6\<rparr>
      = (Inr (JObject []), \<lparr>lw_peer = ''hi'', lw_input = [], lw_tick = 12\<rparr>)"
    by (subst answer [where bytes = "''F''" and c = "CHR ''f''" and s' = "''hi''" and msg = "JObject [(''return'', JObject [])]"])
      (simp_all add: file_agent_def file_encode_def qga_request_def json_field_def file_reply_def file_codec_def QGA_FRAME_LIMIT_def ok_or_def)
  ultimately have written: "file_write_all file_agent 9 1 ''hi'' \<lparr>lw_peer = [], lw_input = [], lw_tick = 0\<rparr>
      = (Inr (), \<lparr>lw_peer = ''hi'', lw_input = [], lw_tick = 12\<rparr>)"
    by (simp add: file_write_all_def parts bindE_def json_field_def ret_def)
  have "qga_execute file_agent 9 ''guest-file-read'' (Some (read_request 1)) \<lparr>lw_peer = ''hi'', lw_input = [], lw_tick = 0\<rparr>
      = (Inr (JObject [(''buf-b64'', JString ''hi''), (''count'', json_u64 2), (''eof'', JBool True)]), \<lparr>lw_peer = [], lw_input = [], lw_tick = 6\<rparr>)"
    by (subst answer [where bytes = "''R''" and c = "CHR ''r''" and s' = "[]"
        and msg = "JObject [(''return'', JObject [(''buf-b64'', JString ''hi''), (''count'', json_u64 2), (''eof'', JBool True)])]"])
      (simp_all add: file_agent_def file_encode_def qga_request_def read_request_def json_field_def file_reply_def file_codec_def QGA_FRAME_LIMIT_def ok_or_def)
  then have "file_read_all file_agent 9 1 16 [] \<lparr>lw_peer = ''hi'', lw_input = [], lw_tick = 0\<rparr> = (Inr ''hi'', \<lparr>lw_peer = [], lw_input = [], lw_tick = 6\<rparr>)"
    by (subst file_read_all.simps) (simp add: bindE_def liftR_def read_answer_def json_field_def ok_or_def QGA_FILE_CHUNK_def file_agent_def)
  with written qga_transfers_complete [OF file_agent_honest, where client = 9 and h = 1 and content = "''hi''"] show ?thesis by auto
qed

end
