(* ===== verification/QemuLaws.thy ===== *)
theory QemuLaws
  imports Qemu QgaLaws
begin

section \<open>What the QEMU provider guarantees\<close>

text \<open>
  Every process it spawns, activates, controls or terminates and every configuration it removes is justified at that moment by the authority and
  the durable configuration; what it reports of a machine's power state is what was proven; and its waits end.
\<close>

subsection \<open>Actions\<close>

definition authorized_config :: "('s, 'y) qemu_env_scheme \<Rightarrow> provider_mutation_authority \<Rightarrow> provider_vm \<Rightarrow> qemu_vm_config \<Rightarrow> bool" where
  "authorized_config E a vm c \<longleftrightarrow> (\<exists>g. validate_vm (qx_host E) g a vm = Inr ())
     \<and> (\<exists>g. validate_qemu_definition (qx_host E) g a (qemu_definition_of c True) = Inr ()) \<and> validate_config_snapshot c vm True = Inr ()"

text \<open>The configuration file of the machine has the hash of the encoded configuration.\<close>

definition durable_config :: "('s, 'y) qemu_env_scheme \<Rightarrow> provider_vm \<Rightarrow> qemu_vm_config \<Rightarrow> config_files \<Rightarrow> bool" where
  "durable_config E vm c fs \<longleftrightarrow> (\<exists>bytes file. qx_encode E c = Some bytes
     \<and> fs (components (qemu_config_path (vm_configuration_path vm))) = Some file
     \<and> qemu_config_bytes_sha256 E file = qemu_config_bytes_sha256 E bytes)"

definition live_receipt :: "('s, 'y) qemu_env_scheme \<Rightarrow> qemu_vm_config \<Rightarrow> bool" where
  "live_receipt E c \<longleftrightarrow> (\<exists>pid token sha s t. process_receipt c = Some (pid, token, sha) \<and> \<not> qv_spawn_pending c
     \<and> qx_ask E (Q_Matches pid token (qx_system_binary E) (qv_command_sha256 c) sha (qv_process_job_name c)) s t)"

definition identified :: "('s, 'y) qemu_env_scheme \<Rightarrow> qemu_vm_config \<Rightarrow> bool" where
  "identified E c \<longleftrightarrow> (\<exists>q q' (w :: 's qemu_world) w'. validate_qmp_identity E q c w = (Inr q', w'))"

definition proven_off :: "('s, 'y) qemu_env_scheme \<Rightarrow> qemu_vm_config \<Rightarrow> bool" where
  "proven_off E c \<longleftrightarrow>
     (qv_spawn_pending c \<longrightarrow> (\<exists>s t. qx_ask E (Q_TreeAbsent None (qv_process_job_name c)) s t))
     \<and> (\<forall>pid token sha. process_receipt c = Some (pid, token, sha) \<and> \<not> qv_spawn_pending c \<longrightarrow>
         (\<exists>s t. qx_ask E (Q_Absent pid token) s t) \<and> (\<exists>s t. qx_ask E (Q_TreeAbsent (Some (pid, token)) (qv_process_job_name c)) s t))
     \<and> (\<forall>ep \<in> {qv_qmp c, qv_qga c}. \<exists>s t. endpoint_absence (\<lambda>p. qx_meta E p s t) ep = Inr ())"

fun guarded :: "('s, 'y) qemu_env_scheme \<Rightarrow> provider_mutation_authority \<Rightarrow> provider_vm \<Rightarrow> qemu_action \<times> config_files \<Rightarrow> bool" where
  "guarded E a vm (Act_Spawn program args job digest, fs) \<longleftrightarrow>
     (\<exists>c. authorized_config E a vm c \<and> durable_config E vm c fs \<and> qv_spawn_pending c \<and> qv_process_id c = None
        \<and> program = qx_system_binary E \<and> args = launch_args c \<and> job = qv_process_job_name c
        \<and> digest = launch_digest (he_crates (qx_host E)) c)"
| "guarded E a vm (Act_Activate receipt, fs) \<longleftrightarrow>
     (\<exists>c. authorized_config E a vm c \<and> durable_config E vm c fs \<and> \<not> qv_spawn_pending c
        \<and> process_receipt c = Some (sr_process_id receipt, sr_process_start_token receipt, sr_executable_sha256 receipt)
        \<and> sr_command_sha256 receipt = launch_digest (he_crates (qx_host E)) c)"
| "guarded E a vm (Act_Control command, fs) \<longleftrightarrow>
     command \<in> {''cont'', ''quit''} \<and> (\<exists>c. authorized_config E a vm c \<and> live_receipt E c \<and> identified E c)"
| "guarded E a vm (Act_Terminate job, fs) \<longleftrightarrow> (\<exists>c. authorized_config E a vm c \<and> job = qv_process_job_name c \<and> process_receipt c \<noteq> None)"
| "guarded E a vm (Act_Remove p, fs) \<longleftrightarrow>
     p = qemu_config_path (vm_configuration_path vm) \<and> vm_power_state vm = Power_Off \<and> (\<exists>c. authorized_config E a vm c \<and> proven_off E c)"
| "guarded E a vm (Act_Write p, fs) \<longleftrightarrow> True"

subsection \<open>Reasoning about the trace\<close>

definition adds :: "(qemu_action \<times> config_files \<Rightarrow> bool) \<Rightarrow> ('s, 'z, 'a) qemu_eff \<Rightarrow> ('s, 'z) qemu_world_scheme \<Rightarrow> bool" where
  "adds G m w \<longleftrightarrow> (\<exists>l. qw_trace (snd (m w)) = l @ qw_trace w \<and> list_all G l)"

definition quiet :: "(('s, 'z) qemu_world_scheme, 'e, 'a) eff \<Rightarrow> bool" where
  "quiet m \<longleftrightarrow> (\<forall>w. qw_trace (snd (m w)) = qw_trace w)"

lemma adds_quiet: "quiet m \<Longrightarrow> adds G m w"
  by (auto simp: quiet_def adds_def)

lemma adds_bind:
  assumes "adds G m w" "\<And>x w'. m w = (Inr x, w') \<Longrightarrow> adds G (f x) w'"
  shows "adds G (bindE m f) w"
proof (cases "m w")
  case (Pair r w')
  with assms(1) obtain l where l: "qw_trace w' = l @ qw_trace w" "list_all G l" by (auto simp: adds_def)
  show ?thesis
  proof (cases r)
    case (Inl e)
    with Pair l show ?thesis by (auto simp: adds_def bindE_def)
  next
    case (Inr x)
    with assms(2) Pair obtain l' where "qw_trace (snd (f x w')) = l' @ qw_trace w'" "list_all G l'" unfolding adds_def by blast
    with l Pair Inr show ?thesis by (auto simp: adds_def bindE_def intro!: exI [of _ "l' @ l"])
  qed
qed

lemma adds_logging: "G (act, qw_files w) \<Longrightarrow> adds G (logging act) w"
  by (auto simp: adds_def logging_def)

lemma adds_if: "(b \<Longrightarrow> adds G m w) \<Longrightarrow> (\<not> b \<Longrightarrow> adds G n w) \<Longrightarrow> adds G (if b then m else n) w"
  by simp

lemma adds_attempt: "adds G m w \<Longrightarrow> adds G (attempt m) w"
  by (auto simp: adds_def attempt_def split: prod.splits)

lemma quiet_bind: "quiet m \<Longrightarrow> (\<And>x. quiet (f x)) \<Longrightarrow> quiet (bindE m f)"
  by (simp add: quiet_def bindE_def split: prod.split sum.split) (metis snd_conv)

lemma quiet_mapE: "quiet m \<Longrightarrow> quiet (mapE g m)"
  by (simp add: quiet_def mapE_def split: prod.split sum.split) (metis snd_conv)

lemma quiet_attempt: "quiet m \<Longrightarrow> quiet (attempt m)"
  by (simp add: quiet_def attempt_def split: prod.split) (metis snd_conv)

lemma quiet_pure: "quiet (ret x)" "quiet (throw e)" "quiet (liftR r)" "quiet (lk_now E)" "quiet (asking f)" "quiet (authority_check E' f')"
  by (simp_all add: quiet_def ret_def throw_def liftR_def lk_now_def asking_def authority_check_def)

lemma quiet_acting: "quiet (acting f)"
  by (simp add: quiet_def acting_def split: prod.split)

lemma quiet_file_op: "quiet (file_op E err f)"
  by (simp add: quiet_def file_op_def Let_def split: prod.split option.split)

lemma quiet_if: "quiet m \<Longrightarrow> quiet n \<Longrightarrow> quiet (if b then m else n)"
  by simp

lemma quiet_bind_pair: "quiet m \<Longrightarrow> (\<And>x y. quiet (f x y)) \<Longrightarrow> quiet (bindE m (\<lambda>(x, y). f x y))"
  by (rule quiet_bind) (auto split: prod.split)

lemmas quiet_basic = quiet_bind_pair quiet_bind quiet_mapE quiet_attempt quiet_pure quiet_acting quiet_file_op quiet_if

lemma quiet_streams: "quiet (set_operation_deadline E d)" "quiet read_byte" "quiet (write_all E bytes)" "quiet (connect_stream E ep)"
    "quiet (remaining_duration E d)" "quiet (remaining_provider_duration E' d)"
  by (auto simp: quiet_def set_operation_deadline_def remaining_duration_def remaining_provider_duration_def read_byte_def write_all_def connect_stream_def
      lk_now_def bindE_def ret_def throw_def split: list.split read_event.split prod.split sum.split option.split)

lemma quiet_connect_loop: "quiet (connect_loop n E ep d)"
  by (induction n) (auto intro!: quiet_basic quiet_streams split: sum.split)

lemma quiet_connect: "quiet (connect_endpoint E ep t)"
  unfolding connect_endpoint_def by (intro quiet_basic quiet_connect_loop)

lemma quiet_receive:
  fixes E :: "('s, 'y) link_env_scheme"
  shows "quiet (line_receive E d bytes :: (('s, 'z) qemu_world_scheme, provider_error, json) eff)"
proof -
  have "qw_trace (snd (line_receive E d bytes w)) = qw_trace w" for w :: "('s, 'z) qemu_world_scheme"
  proof (induction E d bytes w rule: line_receive.induct)
    case (1 E d bytes w)
    let ?m = "mapE (protocol_io_error ''read'') (bindE (set_operation_deadline E d) (\<lambda>_. read_byte))"
    obtain r w1 where m: "?m w = (r, w1)" by (cases "?m w")
    have "quiet ?m" by (intro quiet_basic quiet_streams)
    with m have "qw_trace w1 = qw_trace w" unfolding quiet_def by (metis snd_conv)
    with m "1.IH" [OF m [symmetric]] show ?case
      by (subst line_receive.simps) (auto split: sum.split option.split)
  qed
  then show ?thesis by (simp add: quiet_def)
qed

lemma quiet_send: "quiet (line_send E v d)"
  unfolding line_send_def by (intro quiet_basic quiet_streams)

lemma quiet_step: "quiet k \<Longrightarrow> quiet (qmp_step E c i d k)"
  unfolding qmp_step_def by (intro quiet_basic quiet_receive)

lemma quiet_await: "quiet (qmp_await n E c i d)"
  by (induction n) (auto intro!: quiet_basic quiet_step)

lemma quiet_qmp_execute: "quiet (qmp_execute E q c args)"
  unfolding qmp_execute_def Let_def by (intro quiet_basic quiet_send quiet_await)

lemma quiet_negotiate: "quiet (qmp_negotiate E t)"
  unfolding qmp_negotiate_def Let_def by (intro quiet_basic quiet_receive quiet_qmp_execute)

lemma quiet_identity: "quiet (validate_qmp_identity E q c)"
  unfolding validate_qmp_identity_def by (intro quiet_basic quiet_qmp_execute)

lemma quiet_session: "quiet (control_session E c)"
  unfolding control_session_def by (intro quiet_basic quiet_connect quiet_negotiate quiet_identity quiet_streams)

lemma quiet_checks: "quiet (ensure_existing_qemu_ancestors_are_ordinary E p)" "quiet (ensure_private_qemu_file E p)"
    "quiet (ensure_private_qemu_directory E p)" "quiet (process_ask E q)" "quiet (ensure_control_endpoints_absent E c)"
    "quiet (authorize_config E a c b)"
  unfolding ensure_existing_qemu_ancestors_are_ordinary_def ensure_private_qemu_file_def ensure_private_qemu_directory_def process_ask_def
    ensure_control_endpoints_absent_def ensure_control_endpoint_absent_def authorize_config_def
  by (intro quiet_basic)+

lemma quiet_read_bytes: "quiet (read_qemu_config_bytes E p)"
  unfolding read_qemu_config_bytes_def Let_def by (intro quiet_basic)

lemma quiet_read_snapshot: "quiet (read_config_snapshot E p)"
  unfolding read_config_snapshot_def open_file_def by (intro quiet_basic quiet_checks quiet_read_bytes)

lemma quiet_pinned: "quiet (validate_pinned_qemu_config_bytes E p sha)" "quiet (validate_pinned_config_snapshot E p snap)"
  unfolding validate_pinned_config_snapshot_def validate_pinned_qemu_config_bytes_def
  by (intro quiet_basic quiet_checks quiet_read_bytes)+

lemma quiet_inspect_image: "quiet (qemu_inspect_image E p)"
  unfolding qemu_inspect_image_def run_checked_def by (intro quiet_basic)

lemma quiet_overlay_chain: "quiet (validate_overlay_chain E c)"
  unfolding validate_overlay_chain_def by (intro quiet_basic quiet_inspect_image)

lemma quiet_live_receipt: "quiet (validate_live_process_receipt E c)"
  unfolding validate_live_process_receipt_def by (auto intro!: quiet_basic quiet_checks split: option.split)

lemma quiet_prior: "quiet (prior_launch_absent E c)"
  unfolding prior_launch_absent_def by (auto intro!: quiet_basic quiet_checks split: option.split)

lemma quiet_read_authorized: "quiet (read_authorized E a vm)"
  unfolding read_authorized_def by (intro quiet_basic quiet_checks quiet_read_snapshot)

lemma quiet_recovering: "quiet (recovering_exact_tree E c pid token)"
  unfolding recovering_exact_tree_def by (auto intro!: quiet_basic quiet_checks quiet_live_receipt split: sum.split)

lemma quiet_removal: "quiet (removal_process_absent E c)"
  unfolding removal_process_absent_def by (auto intro!: quiet_basic quiet_checks split: option.split)

lemma quiet_sync: "quiet (sync_parent_directory E msg)"
  unfolding sync_parent_directory_def by (intro quiet_basic)

lemma adds_replace: "(\<And>p fs. G (Act_Write p, fs)) \<Longrightarrow> adds G (replace_config E p snap c) w"
  unfolding replace_config_def write_config_new_pinned_def rename_file_def
  by (intro adds_bind adds_if adds_logging adds_quiet quiet_checks quiet_basic quiet_pinned quiet_read_snapshot quiet_sync)

subsection \<open>What the steps establish\<close>

lemma asking_ok: "asking f w = (Inr x, w') \<longleftrightarrow> x = f (lw_peer w) (lw_tick w) \<and> w' = w\<lparr>lw_tick := Suc (lw_tick w)\<rparr>"
  by (auto simp: asking_def)

lemma authority_check_ok: "authority_check E f w = (Inr x, w') \<longleftrightarrow> f (qx_guards E (lw_tick w)) = Inr x \<and> w' = w"
  by (auto simp: authority_check_def)

text \<open>Reading keeps the files it has read.\<close>

lemma read_bytes_ok:
  assumes "read_qemu_config_bytes E p w = (Inr bytes, w')"
  shows "qw_files w' (components p) = Some bytes \<and> length bytes \<le> QEMU_CONFIG_MAX_BYTES"
proof -
  from assms obtain content where "qw_files w' (components p) = Some content" "bytes = take (QEMU_CONFIG_MAX_BYTES + 1) content"
    "\<not> length bytes > QEMU_CONFIG_MAX_BYTES"
    by (auto simp: read_qemu_config_bytes_def bindE_ok file_op_def Let_def ret_def throw_def split: option.splits if_splits)
  then show ?thesis by (auto simp: min_def split: if_splits)
qed

lemma read_snapshot_ok:
  assumes "read_config_snapshot E p w = (Inr snap, w')"
  shows "\<exists>bytes. qw_files w' (components p) = Some bytes \<and> cs_bytes_sha256 snap = qemu_config_bytes_sha256 E bytes
    \<and> qx_decode E bytes = Some (cs_config snap) \<and> qemu_config_validate (qx_host E) (cs_config snap) p = Inr ()"
  using assms by (auto simp: read_config_snapshot_def bindE_ok decode_qemu_config_def ret_def dest!: read_bytes_ok)

lemma replace_config_ok:
  fixes w w' :: "('s, 'z) qemu_world_scheme"
  assumes "replace_config E p snap c w = (Inr u, w')"
  shows "\<exists>bytes file. qx_encode E c = Some bytes \<and> qw_files w' (components p) = Some file
    \<and> qemu_config_bytes_sha256 E file = qemu_config_bytes_sha256 E bytes"
proof -
  from assms obtain temp and w1 w2 :: "('s, 'z) qemu_world_scheme" and sha w3 written w4 where wrote: "write_config_new_pinned E temp c w1 = (Inr sha, w2)"
    and again: "read_config_snapshot E p w3 = (Inr written, w4)" and eq: "cs_bytes_sha256 written = sha" and w': "w' = w4"
    by (auto simp: replace_config_def bindE_ok ret_def throw_def split: if_splits)
  from wrote obtain bytes where "qx_encode E c = Some bytes" "sha = qemu_config_bytes_sha256 E bytes"
    by (auto simp: write_config_new_pinned_def bindE_ok ret_def encode_qemu_config_def split: if_splits)
  with read_snapshot_ok [OF again] eq w' show ?thesis by auto
qed

lemma read_authorized_ok:
  assumes "read_authorized E a vm w = (Inr snap, w')" "validate_vm (qx_host E) g a vm = Inr ()"
  shows "authorized_config E a vm (cs_config snap)"
    "qemu_config_validate (qx_host E) (cs_config snap) (qemu_config_path (vm_configuration_path vm)) = Inr ()"
  using assms
  by (auto simp: read_authorized_def bindE_ok authorize_config_def authority_check_ok ret_def authorized_config_def dest!: read_snapshot_ok)

lemma replace_config_durable:
  "replace_config E (qemu_config_path (vm_configuration_path vm)) snap c w = (Inr u, w') \<Longrightarrow> durable_config E vm c (qw_files w')"
  unfolding durable_config_def by (rule replace_config_ok)

lemma adds_replace_guarded: "adds (guarded E a vm) (replace_config E p snap c) w"
  by (rule adds_replace) simp

lemma launch_intent_sel [simp]:
  "qv_spawn_pending (launch_intent c)" "qv_process_id (launch_intent c) = None" "qv_process_job_name (launch_intent c) = None"
  "qv_command_sha256 (launch_intent c) = qv_command_sha256 c" "launch_args (launch_intent c) = launch_args c"
  "authorized_config E a vm (launch_intent c) = authorized_config E a vm c"
  by (simp_all add: launch_intent_def launch_args_def authorized_config_def qemu_definition_of_def validate_config_snapshot_def)

lemma launched_config_sel [simp]:
  "\<not> qv_spawn_pending (launched_config c r)" "qv_command_sha256 (launched_config c r) = qv_command_sha256 c"
  "launch_args (launched_config c r) = launch_args c"
  "process_receipt (launched_config c r) = Some (sr_process_id r, sr_process_start_token r, sr_executable_sha256 r)"
  "authorized_config E a vm (launched_config c r) = authorized_config E a vm c"
  by (simp_all add: launched_config_def launch_args_def process_receipt_def authorized_config_def qemu_definition_of_def
      validate_config_snapshot_def)

lemma adds_record_launch:
  fixes E :: "('s, 'y) qemu_env_scheme" and w :: "('s, 'z) qemu_world_scheme"
  assumes auth: "authorized_config E a vm c" and digest: "qv_command_sha256 c = launch_digest (he_crates (qx_host E)) c"
  shows "adds (guarded E a vm) (record_launch E (qemu_config_path (vm_configuration_path vm)) c receipt) w"
  unfolding record_launch_def
proof (intro adds_bind adds_if adds_logging adds_replace_guarded; (rule adds_quiet, intro quiet_basic quiet_read_snapshot)?, goal_cases)
  case (1 snap w1 bytes w2 u w3)
  then have "durable_config E vm (launched_config c receipt) (qw_files w3)"
    by (blast intro: replace_config_durable)
  with 1 auth digest show ?case
    by (auto simp: launch_digest_def intro!: exI [of _ "launched_config c receipt"])
qed

lemma adds_launch:
  fixes E :: "('s, 'y) qemu_env_scheme" and w :: "('s, 'z) qemu_world_scheme"
  assumes auth: "authorized_config E a vm c" and digest: "qv_command_sha256 c = launch_digest (he_crates (qx_host E)) c"
  shows "adds (guarded E a vm) (launch_vm E (qemu_config_path (vm_configuration_path vm)) snap c) w"
  unfolding launch_vm_def Let_def
proof (intro adds_bind adds_if adds_logging adds_replace_guarded adds_record_launch; (rule adds_quiet, intro quiet_basic quiet_checks quiet_prior)?, goal_cases)
  case (1 u1 w1 u2 w2 u3 w3)
  then have "durable_config E vm (launch_intent c) (qw_files w3)"
    by (blast intro: replace_config_durable)
  with 1 auth digest show ?case
    by (auto simp: launch_digest_def intro!: exI [of _ "launch_intent c"])
qed (auto simp: auth digest launch_digest_def)

lemma live_receipt_ok: "validate_live_process_receipt E c w = (Inr r, w') \<Longrightarrow> live_receipt E c"
  by (auto simp: validate_live_process_receipt_def live_receipt_def process_receipt_def process_ask_def bindE_ok asking_ok throw_def ret_def
      split: if_splits option.splits)

lemma session_identified:
  fixes w w' :: "'s qemu_world"
  shows "control_session E c w = (Inr q, w') \<Longrightarrow> identified E c"
  by (auto simp: control_session_def bindE_ok identified_def)

lemma launch_vm_ok: "launch_vm E p snap c w = (Inr c', w') \<Longrightarrow> \<exists>r. c' = launched_config (launch_intent c) r"
  by (auto simp: launch_vm_def record_launch_def Let_def bindE_ok ret_def throw_def split: if_splits)

lemma adds_control:
  fixes E :: "('s, 'y) qemu_env_scheme" and w :: "'s qemu_world"
  assumes "authorized_config E a vm c" "live_receipt E c" "identified E c" "command \<in> {''cont'', ''quit''}"
  shows "adds (guarded E a vm) (control_command E q command) w"
  unfolding control_command_def using assms
  by (intro adds_bind adds_logging) (auto intro: adds_quiet quiet_qmp_execute)

lemma adds_resume:
  fixes E :: "('s, 'y) qemu_env_scheme" and w :: "'s qemu_world"
  assumes "authorized_config E a vm c"
  shows "adds (guarded E a vm) (resume_vm E c) w"
  unfolding resume_vm_def
proof (intro adds_bind, goal_cases)
  case 1
  show ?case by (intro adds_quiet quiet_live_receipt)
next
  case (2 r w1)
  show ?case by (intro adds_quiet quiet_session)
next
  case (3 r w1 q w2)
  from adds_control [OF assms live_receipt_ok [OF 3(1)] session_identified [OF 3(2)]] show ?case by simp
next
  case (4 r w1 q w2 v w3)
  show ?case by (cases v) (auto intro!: adds_quiet quiet_basic quiet_qmp_execute)
qed

lemma adds_start:
  fixes E :: "('s, 'y) qemu_env_scheme" and w :: "'s qemu_world"
  shows "adds (guarded E a vm) (qemu_start_vm E a vm) w"
  unfolding qemu_start_vm_def Let_def
proof (intro adds_bind adds_if, goal_cases)
  case 1
  show ?case by (intro adds_quiet quiet_basic)
next
  case 2
  show ?case by (intro adds_quiet quiet_read_authorized)
next
  case 3
  show ?case by (intro adds_quiet quiet_overlay_chain)
next
  case 4
  show ?case by (intro adds_quiet quiet_basic)
next
  case (5 u w1 snap w2 u' w3)
  from 5(1) have "validate_vm (qx_host E) (qx_guards E (lw_tick w)) a vm = Inr ()" by (simp add: authority_check_ok)
  with read_authorized_ok(1) [OF 5(2)] have "authorized_config E a vm (cs_config snap)" by simp
  with 5(4) show ?case by (intro adds_launch) auto
next
  case 6
  show ?case by (intro adds_quiet quiet_basic)
next
  case 7
  show ?case by (intro adds_quiet quiet_basic)
next
  case (8 u w1 snap w2 u' w3 c w4)
  from 8(1) have "validate_vm (qx_host E) (qx_guards E (lw_tick w)) a vm = Inr ()" by (simp add: authority_check_ok)
  with read_authorized_ok(1) [OF 8(2)] have "authorized_config E a vm (cs_config snap)" by simp
  with 8(5) have "authorized_config E a vm c" by (auto simp: ret_def throw_def split: if_splits dest!: launch_vm_ok)
  then show ?case by (rule adds_resume)
qed

lemma valid_receipt_complete:
  "qemu_config_validate H c p = Inr () \<Longrightarrow> qv_process_id c = Some pid \<Longrightarrow> qv_process_start_token c = Some token \<Longrightarrow>
     \<exists>sha. process_receipt c = Some (pid, token, sha)"
  by (auto simp: qemu_config_validate_def process_receipt_def split: if_splits option.splits)

lemma adds_terminate:
  assumes "authorized_config E a vm c" "process_receipt c \<noteq> None"
  shows "adds (guarded E a vm) (terminate_tree E (qv_process_job_name c)) w"
  unfolding terminate_tree_def using assms
  by (intro adds_bind adds_logging) (auto intro: adds_quiet quiet_acting)

lemma adds_stop_loop:
  assumes "authorized_config E a vm (cs_config snap)" "process_receipt (cs_config snap) \<noteq> None"
  shows "adds (guarded E a vm) (stop_loop n E p snap pid token deadline forced) w"
proof (induction n arbitrary: deadline forced w)
  case 0
  show ?case by (simp add: adds_quiet quiet_pure)
next
  case (Suc n)
  show ?case unfolding stop_loop.simps stop_round_def Let_def
    by (intro adds_bind adds_if adds_attempt adds_terminate [OF assms] adds_replace_guarded Suc)
      (intro adds_quiet quiet_basic quiet_connect quiet_checks)+
qed

lemma recovering_live: "recovering_exact_tree E c pid token w = (Inr False, w') \<Longrightarrow> live_receipt E c"
  by (auto simp: recovering_exact_tree_def bindE_ok attempt_def ret_def throw_def split: prod.splits sum.splits if_splits intro: live_receipt_ok)

lemma adds_stop:
  fixes E :: "('s, 'y) qemu_env_scheme" and w :: "'s qemu_world"
  shows "adds (guarded E a vm) (qemu_stop_vm E a vm) w"
  unfolding qemu_stop_vm_def Let_def
proof (intro adds_bind, goal_cases)
  case 1
  show ?case by (intro adds_quiet quiet_basic)
next
  case 2
  show ?case by (intro adds_quiet quiet_read_authorized)
next
  case (3 u w1 snap w2)
  let ?c = "cs_config snap"
  from 3(1) have valid: "validate_vm (qx_host E) (qx_guards E (lw_tick w)) a vm = Inr ()" by (simp add: authority_check_ok)
  note auth = read_authorized_ok [OF 3(2) valid]
  show ?case
  proof (cases "\<exists>pid token. qv_process_id ?c = Some pid \<and> qv_process_start_token ?c = Some token")
    case True
    then obtain pid token where ids: "qv_process_id ?c = Some pid" "qv_process_start_token ?c = Some token" by blast
    then have receipt: "process_receipt ?c \<noteq> None" using valid_receipt_complete [OF auth(2)] by blast
    show ?thesis unfolding ids prod.case option.case
    proof (intro adds_bind adds_if adds_terminate auth(1) receipt adds_stop_loop, goal_cases)
      case 1
      show ?case by (intro adds_quiet quiet_recovering)
    next
      case (4 recovering w3 q w4)
      from 4(1,2) have "live_receipt E ?c" by (auto dest: recovering_live)
      with adds_control [OF auth(1) _ session_identified [OF 4(3)]] show ?case by simp
    qed (intro adds_quiet quiet_basic quiet_session)+
  next
    case False
    then show ?thesis by (auto split: option.split intro!: adds_quiet quiet_basic)
  qed
qed

lemma endpoint_absent_ok:
  "ensure_control_endpoints_absent E c w = (Inr u, w') \<Longrightarrow> \<forall>ep \<in> {qv_qmp c, qv_qga c}. \<exists>s t. endpoint_absence (\<lambda>p. qx_meta E p s t) ep = Inr ()"
  by (auto simp: ensure_control_endpoints_absent_def ensure_control_endpoint_absent_def bindE_ok asking_ok)

lemma removal_absent_ok:
  "removal_process_absent E c w = (Inr u, w') \<Longrightarrow> process_receipt c = Some (pid, token, sha) \<Longrightarrow>
     (\<exists>s t. qx_ask E (Q_Absent pid token) s t) \<and> (\<exists>s t. qx_ask E (Q_TreeAbsent (Some (pid, token)) (qv_process_job_name c)) s t)"
  by (auto simp: removal_process_absent_def process_receipt_def process_ask_def bindE_ok asking_ok throw_def split: option.splits if_splits)

lemma adds_remove:
  fixes E :: "('s, 'y) qemu_env_scheme" and w :: "('s, 'z) qemu_world_scheme"
  shows "adds (guarded E a vm) (qemu_remove_vm E a vm) w"
  unfolding qemu_remove_vm_def Let_def remove_exact_config_def
proof (intro adds_bind adds_if adds_logging; (rule adds_quiet,
    intro quiet_basic quiet_read_authorized quiet_checks quiet_connect quiet_removal quiet_pinned quiet_sync)?, goal_cases)
  case (1 u w1 snap w2 empty w3 connected w4 u5 w5 u6 w6 u7 w7 u8 w8 u9 w9)
  let ?c = "cs_config snap"
  from 1(1) have valid: "validate_vm (qx_host E) (qx_guards E (lw_tick w)) a vm = Inr ()" by (simp add: authority_check_ok)
  have "qv_spawn_pending ?c \<longrightarrow> (\<exists>s t. qx_ask E (Q_TreeAbsent None (qv_process_job_name ?c)) s t)"
    using 1(4,5) by (auto simp: process_ask_def asking_ok) blast
  with endpoint_absent_ok removal_absent_ok 1 have "proven_off E ?c" unfolding proven_off_def by blast
  with read_authorized_ok(1) [OF 1(3) valid] 1(2) show ?case by auto
qed

subsection \<open>The other operations only write configurations\<close>

definition only_writes :: "qemu_action \<times> config_files \<Rightarrow> bool" where
  "only_writes e \<longleftrightarrow> (\<exists>p. fst e = Act_Write p)"

lemma adds_replace_only: "adds only_writes (replace_config E p snap c) w"
  by (rule adds_replace) (simp add: only_writes_def)

lemma quiet_inspect_config: "quiet (inspect_config E c)"
  unfolding inspect_config_def inspect_live_def
  by (auto intro!: quiet_basic quiet_checks quiet_connect quiet_streams quiet_negotiate quiet_identity quiet_qmp_execute split: option.split sum.split)

lemma quiet_inspect_vm: "quiet (qemu_inspect_vm E l)"
  unfolding qemu_inspect_vm_def config_for_lookup_def Let_def
  by (auto intro!: quiet_basic quiet_inspect_config quiet_read_snapshot split: option.split)

lemma quiet_outside: "quiet (prove_path_absent E p label)" "quiet (remove_exact_outside_file E p)" "quiet (cleanup_then_fail E p e)"
    "quiet (pin_staged_file E p)" "quiet (create_ordinary_directory E p)" "quiet (run_checked E program args)"
  unfolding prove_path_absent_def remove_exact_outside_file_def cleanup_then_fail_def pin_staged_file_def create_ordinary_directory_def run_checked_def
  by (auto intro!: quiet_basic quiet_checks split: meta_answer.split option.split)

lemma quiet_create_overlay: "quiet (qemu_create_overlay E a q)"
  unfolding qemu_create_overlay_def publish_overlay_def
  by (auto intro!: quiet_basic quiet_checks quiet_outside quiet_inspect_image quiet_sync split: sum.split link_error.split)

lemma quiet_select: "quiet (select_accelerator E q)"
  unfolding select_accelerator_def accelerator_inventory_def host_kvm_device_status_def Let_def
  by (auto intro!: quiet_basic quiet_outside)

lemma adds_create: "adds only_writes (qemu_create_vm E a q) w"
  unfolding qemu_create_vm_def Let_def write_config_new_pinned_def file_exists_def
  by (intro adds_bind adds_if adds_logging; (rule adds_quiet, intro quiet_basic quiet_checks quiet_outside quiet_select quiet_sync)?)
    (simp add: only_writes_def)

lemma adds_claim: "adds only_writes (qemu_claim_vm E a q) w"
  unfolding qemu_claim_vm_def Let_def
  by (intro adds_bind adds_if adds_replace_only; (rule adds_quiet, intro quiet_basic quiet_checks quiet_read_snapshot quiet_inspect_config))

lemma adds_configure: "adds only_writes (qemu_configure_vm E a q) w"
  unfolding qemu_configure_vm_def Let_def
  by (intro adds_bind adds_if adds_replace_only; (rule adds_quiet, intro quiet_basic quiet_checks quiet_read_snapshot quiet_inspect_config))

text \<open>
  C18: the QEMU provider acts only on what the authority and the durable configuration justify.  On any host, with other processes changing
  its files and with any failures: in starting, stopping and removing a machine, a process is spawned only with the command line of an
  authorized configuration whose file, at that moment, holds the recorded intent to launch; it is activated only when the file holds its receipt; control
  commands go only to a live process that matches the receipt and identified itself as the machine; a process tree is terminated only for an
  authorized configuration with a receipt; and a configuration is removed only for an authorized machine that is proven off.  The other
  operations do none of this: creating, claiming and configuring write configurations, inspecting and creating an overlay do not even that.
\<close>

theorem qemu_actions_guarded:
  fixes E :: "('s, 'y) qemu_env_scheme" and w :: "'s qemu_world"
  shows "adds (guarded E a vm) (pv_start_vm (qemu_provider E) a vm) w \<and> adds (guarded E a vm) (pv_stop_vm (qemu_provider E) a vm) w
    \<and> adds (guarded E a vm) (pv_remove_vm (qemu_provider E) a vm) w
    \<and> adds only_writes (pv_create_vm (qemu_provider E) a create) w \<and> adds only_writes (pv_claim_vm (qemu_provider E) a claim) w
    \<and> adds only_writes (pv_configure_vm (qemu_provider E) a configure) w
    \<and> quiet (pv_create_overlay (qemu_provider E) a overlay :: ('s, unit, provider_image_info) qemu_eff)
    \<and> quiet (pv_inspect_image (qemu_provider E) p :: ('s, unit, provider_image_info) qemu_eff)
    \<and> quiet (pv_inspect_vm (qemu_provider E) l :: ('s, unit, provider_vm option) qemu_eff)"
  by (simp add: qemu_provider_def adds_start adds_stop adds_remove adds_create adds_claim adds_configure quiet_create_overlay quiet_inspect_image
      quiet_inspect_vm)

subsection \<open>Reported power states\<close>

definition owned_remainder :: "('s, 'y) qemu_env_scheme \<Rightarrow> qemu_vm_config \<Rightarrow> bool" where
  "owned_remainder E c \<longleftrightarrow> (\<exists>pid token sha. process_receipt c = Some (pid, token, sha)
     \<and> (\<exists>s t. qx_ask E (Q_Absent pid token) s t) \<and> (\<exists>s t. qx_ask E (Q_TreeOwned (qv_process_job_name c)) s t))"

lemma power_of_status_live: "power_of_status status = Inr state \<Longrightarrow> state \<noteq> Power_Off"
  by (auto simp: power_of_status_def split: option.splits if_splits)

lemma inspect_live_ok:
  fixes w w' :: "'s qemu_world"
  assumes "inspect_live E c w = (Inr vm, w')"
  shows "identified E c \<and> (\<exists>state. vm = qemu_snapshot c state \<and> state \<noteq> Power_Off)"
proof -
  from assms obtain now and connected :: "provider_error + unit" and w2 :: "'s qemu_world" where
    rest: "(case connected of
       Inl _ \<Rightarrow> throw (PE_OwnershipChanged ''recorded QEMU process is alive but its QMP identity is unavailable'')
     | Inr _ \<Rightarrow>
         bindE (remaining_provider_duration E (now + CONTROL_TIMEOUT)) (\<lambda>remaining.
         bindE (qmp_negotiate E remaining) (\<lambda>q.
         bindE (validate_qmp_identity E q c) (\<lambda>q.
         bindE (qmp_execute E q ''query-status'' None) (\<lambda>(status, q).
         bindE (liftR (power_of_status status)) (\<lambda>state. ret (qemu_snapshot c state))))))) w2 = (Inr vm, w')"
    unfolding inspect_live_def bindE_ok by blast
  then obtain x where "connected = Inr x" by (cases connected) (auto simp: throw_def)
  with rest obtain q q' status state and w3 w4 :: "'s qemu_world"
    where "validate_qmp_identity E q c w3 = (Inr q', w4)" "power_of_status status = Inr state" "vm = qemu_snapshot c state"
    by (auto simp: bindE_ok ret_def)
  with power_of_status_live show ?thesis unfolding identified_def by blast
qed

lemma snapshot_power [simp]: "vm_power_state (qemu_snapshot c state) = state"
  by (simp add: qemu_snapshot_def)

lemma inspect_config_ok:
  fixes w w' :: "'s qemu_world"
  assumes "inspect_config E c w = (Inr vm, w')"
  shows "vm = qemu_snapshot c (vm_power_state vm) \<and> (vm_power_state vm = Power_Off \<longrightarrow> proven_off E c)
    \<and> (vm_power_state vm \<noteq> Power_Off \<longrightarrow> live_receipt E c \<and> identified E c \<or> owned_remainder E c)"
proof (cases "qv_spawn_pending c")
  case True
  with assms have "vm = qemu_snapshot c Power_Off" "\<exists>s t. qx_ask E (Q_TreeAbsent None (qv_process_job_name c)) s t"
    "\<exists>w1 w2 :: 's qemu_world. ensure_control_endpoints_absent E c w1 = (Inr (), w2)"
    by (auto simp: inspect_config_def bindE_ok process_ask_def asking_ok ret_def throw_def split: if_splits)
  with True endpoint_absent_ok show ?thesis unfolding proven_off_def by fastforce
next
  case False
  show ?thesis
  proof (cases "process_receipt c")
    case None
    with False assms have "vm = qemu_snapshot c Power_Off" "\<exists>w1 w2 :: 's qemu_world. ensure_control_endpoints_absent E c w1 = (Inr (), w2)"
      by (auto simp: inspect_config_def bindE_ok ret_def)
    with None False endpoint_absent_ok show ?thesis unfolding proven_off_def by fastforce
  next
    case (Some r)
    then obtain pid token sha where r: "process_receipt c = Some (pid, token, sha)" by (cases r) auto
    let ?ask = "\<lambda>q w. process_ask E q (w :: 's qemu_world)"
    from assms False r obtain matches w1 where m: "?ask (Q_Matches pid token (qx_system_binary E) (qv_command_sha256 c) sha (qv_process_job_name c)) w = (Inr matches, w1)"
      and run1: "(if matches then inspect_live E c
          else
          bindE (process_ask E (Q_Absent pid token)) (\<lambda>absent.
          if \<not> absent then throw (PE_OwnershipChanged ''recorded QEMU process absence cannot be proven'')
          else
          bindE (process_ask E (Q_TreeAbsent (Some (pid, token)) (qv_process_job_name c))) (\<lambda>tree_absent.
          if tree_absent then bindE (ensure_control_endpoints_absent E c) (\<lambda>_. ret (qemu_snapshot c Power_Off))
          else
          bindE (process_ask E (Q_TreeOwned (qv_process_job_name c))) (\<lambda>owned.
          if owned then ret (qemu_snapshot c Power_Running)
          else throw (PE_OwnershipChanged ''recorded QEMU process tree is not provably empty or exact-owned nonempty''))))) w1 = (Inr vm, w')"
      unfolding inspect_config_def by (simp add: bindE_ok) blast
    consider
        (live) "matches" "inspect_live E c w1 = (Inr vm, w')"
      | (off) w2 w3 where "vm = qemu_snapshot c Power_Off" "\<exists>s t. qx_ask E (Q_Absent pid token) s t"
          "\<exists>s t. qx_ask E (Q_TreeAbsent (Some (pid, token)) (qv_process_job_name c)) s t"
          "ensure_control_endpoints_absent E c (w2 :: 's qemu_world) = (Inr (), w3)"
      | (remainder) "vm = qemu_snapshot c Power_Running" "\<exists>s t. qx_ask E (Q_Absent pid token) s t"
          "\<exists>s t. qx_ask E (Q_TreeOwned (qv_process_job_name c)) s t"
    proof (cases matches)
      case True
      with run1 live show ?thesis by simp
    next
      case False
      with run1 obtain absent w2 where a: "?ask (Q_Absent pid token) w1 = (Inr absent, w2)"
        and run2: "(if \<not> absent then throw (PE_OwnershipChanged ''recorded QEMU process absence cannot be proven'')
          else
          bindE (process_ask E (Q_TreeAbsent (Some (pid, token)) (qv_process_job_name c))) (\<lambda>tree_absent.
          if tree_absent then bindE (ensure_control_endpoints_absent E c) (\<lambda>_. ret (qemu_snapshot c Power_Off))
          else
          bindE (process_ask E (Q_TreeOwned (qv_process_job_name c))) (\<lambda>owned.
          if owned then ret (qemu_snapshot c Power_Running)
          else throw (PE_OwnershipChanged ''recorded QEMU process tree is not provably empty or exact-owned nonempty'')))) w2 = (Inr vm, w')"
        by (simp add: bindE_ok) blast
      then have absent: absent by (cases absent) (auto simp: throw_def)
      with a have pa: "\<exists>s t. qx_ask E (Q_Absent pid token) s t" by (auto simp: process_ask_def asking_ok)
      from run2 absent obtain tree w3 where t: "?ask (Q_TreeAbsent (Some (pid, token)) (qv_process_job_name c)) w2 = (Inr tree, w3)"
        and run3: "(if tree then bindE (ensure_control_endpoints_absent E c) (\<lambda>_. ret (qemu_snapshot c Power_Off))
          else
          bindE (process_ask E (Q_TreeOwned (qv_process_job_name c))) (\<lambda>owned.
          if owned then ret (qemu_snapshot c Power_Running)
          else throw (PE_OwnershipChanged ''recorded QEMU process tree is not provably empty or exact-owned nonempty''))) w3 = (Inr vm, w')"
        by (simp add: bindE_ok) blast
      show ?thesis
      proof (cases tree)
        case True
        with t have "\<exists>s t. qx_ask E (Q_TreeAbsent (Some (pid, token)) (qv_process_job_name c)) s t" by (auto simp: process_ask_def asking_ok)
        moreover from run3 True obtain w4 where "ensure_control_endpoints_absent E c w3 = (Inr (), w4)" "vm = qemu_snapshot c Power_Off"
          by (auto simp: bindE_ok ret_def)
        ultimately show ?thesis using off pa by blast
      next
        case False
        with run3 obtain owned w4 where "?ask (Q_TreeOwned (qv_process_job_name c)) w3 = (Inr owned, w4)" "owned" "vm = qemu_snapshot c Power_Running"
          by (auto simp: bindE_ok ret_def throw_def split: if_splits)
        with remainder pa show ?thesis by (auto simp: process_ask_def asking_ok)
      qed
    qed
    then show ?thesis
    proof cases
      case live
      with r False m have "live_receipt E c" unfolding live_receipt_def process_ask_def asking_ok by blast
      with inspect_live_ok [OF live(2)] show ?thesis by auto
    next
      case off
      with r False endpoint_absent_ok [OF off(4)] show ?thesis unfolding proven_off_def by auto
    next
      case remainder
      with r show ?thesis by (auto simp: owned_remainder_def)
    qed
  qed
qed

definition power_proven :: "('s, 'y) qemu_env_scheme \<Rightarrow> qemu_vm_config \<Rightarrow> provider_power_state \<Rightarrow> bool" where
  "power_proven E c state \<longleftrightarrow> (if state = Power_Off then proven_off E c else live_receipt E c \<and> identified E c \<or> owned_remainder E c)"

definition found_config :: "('s, 'y) qemu_env_scheme \<Rightarrow> vm_lookup \<Rightarrow> qemu_vm_config \<Rightarrow> bool" where
  "found_config E l c \<longleftrightarrow> (\<exists>u bytes. lookup_uuid (he_crates (qx_host E)) l = Some u \<and> qx_decode E bytes = Some c
     \<and> qemu_config_validate (qx_host E) c (lookup_config_path E u) = Inr ()
     \<and> (case l of Lookup_Id i \<Rightarrow> uuid_parse_str (he_crates (qx_host E)) i = uuid_parse_str (he_crates (qx_host E)) (qv_id c)
          | Lookup_Name n \<Rightarrow> n = qv_name c))"

lemma inspect_vm_ok:
  fixes w w' :: "'s qemu_world"
  assumes "qemu_inspect_vm E l w = (Inr (Some vm), w')"
  shows "\<exists>c w1. found_config E l c \<and> inspect_config E c (w1 :: 's qemu_world) = (Inr vm, w')"
proof -
  from assms obtain c and w1 :: "'s qemu_world" where c: "config_for_lookup E l w = (Inr (Some c), w1)" and i: "inspect_config E c w1 = (Inr vm, w')"
    by (auto simp: qemu_inspect_vm_def bindE_ok ret_def split: option.splits)
  from c obtain u where u: "lookup_uuid (he_crates (qx_host E)) l = Some u"
    by (cases "lookup_uuid (he_crates (qx_host E)) l") (auto simp: config_for_lookup_def ret_def)
  with c obtain snap and w2 w3 :: "'s qemu_world" where r: "read_config_snapshot E (lookup_config_path E u) w2 = (Inr snap, w3)" and s: "c = cs_config snap"
    and l: "case l of Lookup_Id i \<Rightarrow> uuid_parse_str (he_crates (qx_host E)) i = uuid_parse_str (he_crates (qx_host E)) (qv_id c)
          | Lookup_Name n \<Rightarrow> n = qv_name c"
    by (auto simp: config_for_lookup_def Let_def bindE_ok ret_def split: if_splits)
  from read_snapshot_ok [OF r] u s l have "found_config E l c" by (auto simp: found_config_def)
  with i show ?thesis by blast
qed

lemma resume_ok:
  fixes w w' :: "'s qemu_world"
  assumes "resume_vm E c w = (Inr u, w')"
  shows "live_receipt E c \<and> identified E c"
  using assms by (auto simp: resume_vm_def bindE_ok dest: live_receipt_ok session_identified)

lemma start_ok:
  fixes w w' :: "'s qemu_world"
  assumes "qemu_start_vm E a vm w = (Inr u, w')"
  shows "\<exists>c. authorized_config E a vm c \<and> live_receipt E c \<and> identified E c"
proof -
  from assms obtain snap c and w1 w2 w3 w4 :: "'s qemu_world" where v: "validate_vm (qx_host E) (qx_guards E (lw_tick w)) a vm = Inr ()"
    and r: "read_authorized E a vm w = (Inr snap, w2)" and c: "(if vm_power_state vm = Power_Off then launch_vm E (qemu_config_path (vm_configuration_path vm)) snap (cs_config snap)
            else if vm_power_state vm \<noteq> Power_Paused
            then throw (PE_OwnershipChanged ''QEMU start expected an off or prelaunch VM'')
            else ret (cs_config snap)) w3 = (Inr c, w4)"
    and resume: "resume_vm E c w4 = (Inr u, w')"
    unfolding qemu_start_vm_def bindE_ok Let_def by (auto simp: authority_check_ok throw_def bindE_ok split: if_splits)
  from c have "authorized_config E a vm c" using read_authorized_ok(1) [OF r v]
    by (auto simp: ret_def throw_def split: if_splits dest!: launch_vm_ok)
  with resume_ok [OF resume] show ?thesis by blast
qed

definition proven_stopped :: "('s, 'y) qemu_env_scheme \<Rightarrow> qemu_vm_config \<Rightarrow> bool" where
  "proven_stopped E c \<longleftrightarrow> (\<exists>pid token. qv_process_id c = Some pid \<and> qv_process_start_token c = Some token
     \<and> (\<exists>s t. qx_ask E (Q_Absent pid token) s t) \<and> (\<exists>s t. qx_ask E (Q_TreeAbsent (Some (pid, token)) (qv_process_job_name c)) s t)
     \<and> (\<forall>ep \<in> {qv_qmp c, qv_qga c}. \<exists>s t. endpoint_absence (\<lambda>p. qx_meta E p s t) ep = Inr ()))"

lemma stop_loop_ok:
  fixes w w' :: "'s qemu_world"
  assumes "stop_loop n E p snap pid token deadline forced w = (Inr u, w')"
  shows "(\<exists>s t. qx_ask E (Q_Absent pid token) s t)
    \<and> (\<exists>s t. qx_ask E (Q_TreeAbsent (Some (pid, token)) (qv_process_job_name (cs_config snap))) s t)
    \<and> (\<exists>w1 w2 :: 's qemu_world. ensure_control_endpoints_absent E (cs_config snap) w1 = (Inr (), w2))
    \<and> (\<exists>w1 :: 's qemu_world. replace_config E p snap (cleared_receipt (cs_config snap)) w1 = (Inr u, w'))"
  using assms
proof (induction n arbitrary: deadline forced w)
  case 0
  then show ?case by (simp add: throw_def)
next
  case (Suc n)
  then obtain connected :: "provider_error + unit" and gone and w1 w2 :: "'s qemu_world" where
    g: "(if is_ok connected then ret False else process_ask E (Q_Absent pid token)) w1 = (Inr gone, w2)" and
    rest: "(if gone then
        bindE (process_ask E (Q_TreeAbsent (Some (pid, token)) (qv_process_job_name (cs_config snap)))) (\<lambda>tree_absent.
        if tree_absent then
          bindE (ensure_control_endpoints_absent E (cs_config snap)) (\<lambda>_. replace_config E p snap (cleared_receipt (cs_config snap)))
        else if qv_process_job_name (cs_config snap) = None \<or> forced
        then throw (PE_OwnershipChanged ''QEMU leader exited while its exact owned process tree remained live'')
        else bindE (terminate_tree E (qv_process_job_name (cs_config snap)))
          (\<lambda>_. bindE (lk_now E) (\<lambda>now. stop_loop n E p snap pid token (now + CONTROL_TIMEOUT) True)))
      else bindE (lk_now E) (\<lambda>now.
        if now < deadline then stop_loop n E p snap pid token deadline forced
        else if qv_process_job_name (cs_config snap) \<noteq> None \<and> \<not> forced
        then bindE (terminate_tree E (qv_process_job_name (cs_config snap)))
          (\<lambda>_. bindE (lk_now E) (\<lambda>now. stop_loop n E p snap pid token (now + CONTROL_TIMEOUT) True))
        else throw (PE_Timeout ''QEMU did not terminate within the bounded stop window''))) w2 = (Inr u, w')"
    unfolding stop_loop.simps stop_round_def Let_def bindE_ok by blast
  show ?case
  proof (cases gone)
    case False
    with rest show ?thesis using Suc.IH by (auto simp: bindE_ok throw_def split: if_splits)
  next
    case True
    with g have absent: "\<exists>s t. qx_ask E (Q_Absent pid token) s t"
      by (auto simp: ret_def process_ask_def asking_ok split: if_splits)
    from True rest obtain tree and w3 :: "'s qemu_world" where
      t: "process_ask E (Q_TreeAbsent (Some (pid, token)) (qv_process_job_name (cs_config snap))) w2 = (Inr tree, w3)" and
      rest': "(if tree then
          bindE (ensure_control_endpoints_absent E (cs_config snap)) (\<lambda>_. replace_config E p snap (cleared_receipt (cs_config snap)))
        else if qv_process_job_name (cs_config snap) = None \<or> forced
        then throw (PE_OwnershipChanged ''QEMU leader exited while its exact owned process tree remained live'')
        else bindE (terminate_tree E (qv_process_job_name (cs_config snap)))
          (\<lambda>_. bindE (lk_now E) (\<lambda>now. stop_loop n E p snap pid token (now + CONTROL_TIMEOUT) True))) w3 = (Inr u, w')"
      by (simp add: bindE_ok) blast
    show ?thesis
    proof (cases tree)
      case False
      with rest' show ?thesis using Suc.IH by (auto simp: bindE_ok throw_def split: if_splits)
    next
      case True
      with t have "\<exists>s t. qx_ask E (Q_TreeAbsent (Some (pid, token)) (qv_process_job_name (cs_config snap))) s t"
        by (auto simp: process_ask_def asking_ok)
      moreover from True rest' obtain w4 where "ensure_control_endpoints_absent E (cs_config snap) w3 = (Inr (), w4)"
        "replace_config E p snap (cleared_receipt (cs_config snap)) w4 = (Inr u, w')"
        by (auto simp: bindE_ok)
      ultimately show ?thesis using absent by blast
    qed
  qed
qed

lemma stop_ok:
  fixes w w' :: "'s qemu_world"
  assumes "qemu_stop_vm E a vm w = (Inr u, w')"
  shows "\<exists>c. authorized_config E a vm c \<and> proven_stopped E c \<and> durable_config E vm (cleared_receipt c) (qw_files w')"
proof -
  from assms obtain snap and w2 :: "'s qemu_world" where v: "validate_vm (qx_host E) (qx_guards E (lw_tick w)) a vm = Inr ()"
    and r: "read_authorized E a vm w = (Inr snap, w2)" and rest: "(case (qv_process_id (cs_config snap), qv_process_start_token (cs_config snap)) of
       (Some pid, Some token) \<Rightarrow>
         bindE (recovering_exact_tree E (cs_config snap) pid token) (\<lambda>recovering.
         bindE (if recovering then ret ()
                else bindE (control_session E (cs_config snap)) (\<lambda>q. bindE (control_command E q ''quit'') (\<lambda>_. ret ()))) (\<lambda>_.
         bindE (lk_now E) (\<lambda>now.
         bindE (if recovering then terminate_tree E (qv_process_job_name (cs_config snap)) else ret ()) (\<lambda>_.
         stop_loop (lk_polls E) E (qemu_config_path (vm_configuration_path vm)) snap pid token (now + CONTROL_TIMEOUT) recovering))))
     | _ \<Rightarrow> throw (PE_OwnershipChanged ''QEMU stop requires a complete process receipt'')) w2 = (Inr u, w')"
    unfolding qemu_stop_vm_def bindE_ok Let_def by (auto simp: authority_check_ok)
  from rest obtain pid token where ids: "qv_process_id (cs_config snap) = Some pid" "qv_process_start_token (cs_config snap) = Some token"
    by (auto simp: throw_def split: option.splits)
  from rest ids obtain d f and w3 :: "'s qemu_world" where
    "stop_loop (lk_polls E) E (qemu_config_path (vm_configuration_path vm)) snap pid token d f w3 = (Inr u, w')"
    unfolding ids prod.case option.case bindE_ok by blast
  note stopped = stop_loop_ok [OF this]
  then have "proven_stopped E (cs_config snap)" unfolding proven_stopped_def using ids endpoint_absent_ok by blast
  moreover from stopped have "durable_config E vm (cleared_receipt (cs_config snap)) (qw_files w')" using replace_config_durable by blast
  ultimately show ?thesis using read_authorized_ok(1) [OF r v] by blast
qed

text \<open>
  C19: what the QEMU provider reports was proven.  Inspection finds a machine only through a decoded configuration that satisfies all
  invariants at the path of the requested uuid and names the requested machine; it reports it off only with the process, its tree and both control endpoints proven
  absent, and otherwise only when a live process matches the receipt and identified itself over QMP, or the
  leader is gone and its owned tree remains.  A start succeeds only for an authorized configuration with a live, identified process.  A stop succeeds only when the process,
  its tree and the endpoints are proven absent and the configuration without the receipt is durable.
\<close>

theorem qemu_reports_truthful:
  fixes E :: "('s, 'y) qemu_env_scheme" and w :: "'s qemu_world"
  shows "(case pv_inspect_vm (qemu_provider E) l w of
       (Inr (Some vm), _) \<Rightarrow> \<exists>c. found_config E l c \<and> vm = qemu_snapshot c (vm_power_state vm)
         \<and> power_proven E c (vm_power_state vm)
     | _ \<Rightarrow> True)
    \<and> (case pv_start_vm (qemu_provider E) a vm w of
       (Inr _, _) \<Rightarrow> \<exists>c. authorized_config E a vm c \<and> live_receipt E c \<and> identified E c | _ \<Rightarrow> True)
    \<and> (case pv_stop_vm (qemu_provider E) a vm w of
       (Inr _, w') \<Rightarrow> \<exists>c. authorized_config E a vm c \<and> proven_stopped E c \<and> durable_config E vm (cleared_receipt c) (qw_files w') | _ \<Rightarrow> True)"
proof (intro conjI)
  have "\<exists>c. found_config E l c \<and> vm = qemu_snapshot c (vm_power_state vm)
      \<and> power_proven E c (vm_power_state vm)"
    if run: "qemu_inspect_vm E l w = (Inr (Some vm), w')" for vm w'
  proof -
    from inspect_vm_ok [OF run] obtain c and w1 :: "'s qemu_world" where "found_config E l c" "inspect_config E c w1 = (Inr vm, w')" by blast
    with inspect_config_ok [of E c w1 vm w'] show ?thesis by (auto simp: power_proven_def)
  qed
  then show "case pv_inspect_vm (qemu_provider E) l w of
       (Inr (Some vm), _) \<Rightarrow> \<exists>c. found_config E l c \<and> vm = qemu_snapshot c (vm_power_state vm)
         \<and> power_proven E c (vm_power_state vm)
     | _ \<Rightarrow> True"
    unfolding qemu_provider_def by (auto split: prod.split sum.split option.split)
  show "case pv_start_vm (qemu_provider E) a vm w of
       (Inr _, _) \<Rightarrow> \<exists>c. authorized_config E a vm c \<and> live_receipt E c \<and> identified E c | _ \<Rightarrow> True"
    by (auto simp: qemu_provider_def split: prod.split sum.split intro: start_ok)
  show "case pv_stop_vm (qemu_provider E) a vm w of
       (Inr _, w') \<Rightarrow> \<exists>c. authorized_config E a vm c \<and> proven_stopped E c \<and> durable_config E vm (cleared_receipt c) (qw_files w') | _ \<Rightarrow> True"
    by (auto simp: qemu_provider_def split: prod.split sum.split intro: stop_ok)
qed

subsection \<open>The stop loop\<close>

lemma tick_le_attempt: "tick_le m \<Longrightarrow> tick_le (attempt m)"
  by (simp add: tick_le_def attempt_def split: prod.split) (metis snd_conv)

lemma tick_le_asking: "tick_le (process_ask E q)"
  by (simp add: tick_le_def process_ask_def asking_def)

lemma tick_le_connect_loop: "tick_le (connect_loop n E ep d)"
proof (induction n)
  case (Suc n)
  show ?case unfolding connect_loop.simps remaining_duration_def
    by (intro tick_le_bind tick_le_mapE tick_le_attempt tick_le_pure tick_le_if tick_le_streams)
      (auto split: sum.split intro!: tick_le_bind tick_le_pure tick_le_if Suc)
qed (simp add: tick_le_pure)

lemma tick_le_connect: "tick_le (connect_endpoint E ep t)"
  unfolding connect_endpoint_def by (intro tick_le_bind tick_le_pure tick_le_connect_loop)

definition stop_observation :: "('s, 'y) qemu_env_scheme \<Rightarrow> qemu_vm_config \<Rightarrow> u32 \<Rightarrow> u64 \<Rightarrow> ('s, 'z, bool) qemu_eff" where
  "stop_observation E c pid token =
     bindE (attempt (connect_endpoint E (qv_qmp c) (milliseconds 25))) (\<lambda>connected.
     if is_ok connected then ret False else process_ask E (Q_Absent pid token))"

lemma tick_le_observation: "tick_le (stop_observation E c pid token)"
  unfolding stop_observation_def by (intro tick_le_bind tick_le_attempt tick_le_connect tick_le_if tick_le_pure tick_le_asking)

lemma stop_round_observed:
  "stop_round E p snap pid token deadline forced again = bindE (stop_observation E (cs_config snap) pid token) (\<lambda>gone.
     let c = cs_config snap; job = qv_process_job_name c in
     if gone then
        bindE (process_ask E (Q_TreeAbsent (Some (pid, token)) job)) (\<lambda>tree_absent.
        if tree_absent then
          bindE (ensure_control_endpoints_absent E c) (\<lambda>_. replace_config E p snap (cleared_receipt c))
        else if job = None \<or> forced
        then throw (PE_OwnershipChanged ''QEMU leader exited while its exact owned process tree remained live'')
        else bindE (terminate_tree E job) (\<lambda>_. bindE (lk_now E) (\<lambda>now. again (now + CONTROL_TIMEOUT) True)))
      else bindE (lk_now E) (\<lambda>now.
        if now < deadline then again deadline forced
        else if job \<noteq> None \<and> \<not> forced
        then bindE (terminate_tree E job) (\<lambda>_. bindE (lk_now E) (\<lambda>now. again (now + CONTROL_TIMEOUT) True))
        else throw (PE_Timeout ''QEMU did not terminate within the bounded stop window'')))"
  by (rule ext) (simp add: stop_round_def stop_observation_def Let_def bindE_def split: prod.split sum.split)

lemma stop_loop_fuel:
  fixes w :: "('s, 'z) qemu_world_scheme"
  assumes job: "qv_process_job_name (cs_config snap) = None"
  shows "(\<And>t. T \<le> t \<Longrightarrow> deadline \<le> lk_instant E t) \<Longrightarrow> T - lw_tick w < n \<Longrightarrow> T - lw_tick w < m \<Longrightarrow>
     stop_loop n E p snap pid token deadline forced w = stop_loop m E p snap pid token deadline forced w"
proof (induction n arbitrary: m w)
  case (Suc n)
  then obtain m' where m: "m = Suc m'" by (cases m) auto
  let ?o = "stop_observation E (cs_config snap) pid token"
  show ?case
  proof (cases "fst (?o w)")
    case (Inl e)
    then show ?thesis unfolding m stop_loop.simps stop_round_observed by (cases "?o w") (simp add: bindE_def)
  next
    case (Inr gone)
    then obtain w1 where o: "?o w = (Inr gone, w1)" by (cases "?o w") auto
    with tick_le_observation have tick: "lw_tick w \<le> lw_tick w1" unfolding tick_le_def by (metis snd_conv)
    show ?thesis
    proof (cases "gone \<or> \<not> lk_instant E (lw_tick w1) < deadline")
      case True
      with o show ?thesis unfolding m stop_loop.simps stop_round_observed by (auto simp: bindE_def lk_now_run Let_def job)
    next
      case False
      with Suc.prems(1) have "lw_tick w1 < T" by (meson not_less)
      with tick Suc.prems(2,3) have "T - Suc (lw_tick w1) < n" "T - Suc (lw_tick w1) < m'" by (auto simp: m)
      then have "stop_loop n E p snap pid token deadline forced (w1\<lparr>lw_tick := Suc (lw_tick w1)\<rparr>)
          = stop_loop m' E p snap pid token deadline forced (w1\<lparr>lw_tick := Suc (lw_tick w1)\<rparr>)"
        by (intro Suc.IH Suc.prems(1)) auto
      with o False show ?thesis unfolding m stop_loop.simps stop_round_observed by (simp add: bindE_def lk_now_run Let_def job)
    qed
  qed
qed simp

text \<open>
  C27: the waits of the QEMU control code end with the clock.  If the clock has passed the deadline for good after \<open>T\<close> readings, polling a guest process,
  connecting to an endpoint and waiting for a machine without a Windows job to stop (as every valid configuration of this build is)
  give the same result for every bound on the iterations above the readings that are left: the bound of the model is never what ends them, and the
  loops of the code return.
\<close>

theorem control_waits_end:
  fixes w :: "('s, 'z) qemu_world_scheme"
  assumes "\<And>t. T \<le> t \<Longrightarrow> deadline \<le> lk_instant E t" and "T - lw_tick w < n" and "T - lw_tick w < m"
    and "qv_process_job_name (cs_config snap) = None"
  shows "exec_poll n E client pid command deadline w = exec_poll m E client pid command deadline w
    \<and> connect_loop n E ep deadline w = connect_loop m E ep deadline w
    \<and> stop_loop n E p snap pid' token deadline forced w = stop_loop m E p snap pid' token deadline forced w"
  using exec_poll_fuel [OF assms(1-3)] connect_loop_fuel [OF assms(1-3)] stop_loop_fuel [OF assms(4,1-3)] by blast

subsection \<open>A concrete inspection\<close>

text \<open>A host with one configured machine that was never started: its directories and its configuration file exist, its sockets do not.\<close>

definition sample_qemu_crates :: crates where
  "sample_qemu_crates = \<lparr>uuid_to_string = (\<lambda>_. ''7''), uuid_parse_str = (\<lambda>s. if s = ''7'' then Some 7 else None), sha256_hex = (\<lambda>_. ''d'')\<rparr>"

definition sample_qemu_config :: qemu_vm_config where
  "sample_qemu_config = \<lparr>qv_schema_version = QEMU_CONFIG_SCHEMA, qv_id = ''7'', qv_name = ''vmcell-7'', qv_ownership_marker = [],
     qv_configuration_path = ''/r/7/qemu'', qv_overlay_path = ''/r/7/overlay.qcow2'',
     qv_parent_path = ''/base.qcow2'', qv_cpu_count = 2, qv_memory_mib = 512, qv_accelerator = ''tcg'',
     qv_qmp = Ep_Unix ''/r/7/qemu/qmp.sock'', qv_qga = Ep_Unix ''/r/7/qemu/qga.sock'',
     qv_command_sha256 = ''d'', qv_spawn_pending = False, qv_process_id = None, qv_process_start_token = None,
     qv_process_executable_sha256 = None, qv_process_job_name = None\<rparr>"

definition sample_meta :: "path \<Rightarrow> meta_answer" where
  "sample_meta p =
     (if drop (length p - 5) p = ''.sock'' then Meta_NotFound
      else Meta_Ok \<lparr>fm_reparse = False, fm_dir = drop (length p - 5) p \<noteq> ''.json'', fm_file = drop (length p - 5) p = ''.json'',
        fm_private = True, fm_identity = 1\<rparr>)"

definition sample_qemu :: "unit qemu_env" where
  "sample_qemu = \<lparr>lk_connect = (\<lambda>_ _ s. (Inr [], s)), lk_write = (\<lambda>_ s. (Inr [], s)), lk_set_timeout = (\<lambda>_. None), lk_instant = (\<lambda>_. 0),
     lk_polls = 1, lk_encode = (\<lambda>_. Inr []), lk_decode = (\<lambda>_. Inl []), lk_uuid = of_nat, lk_b64_encode = id, lk_b64_decode = Some,
     qx_host = \<lparr>he_windows = False, he_crates = sample_qemu_crates, he_canonicalize = Some\<rparr>,
     qx_guards = (\<lambda>_. undefined), qx_os = ''linux'', qx_arch = ''x86_64'', qx_runtime_root = ''/r'',
     qx_system_binary = ''qemu-system-x86_64'', qx_image_binary = ''qemu-img'',
     qx_run = (\<lambda>_ _ s. (Inl (PE_Command []), s)), qx_spawn = (\<lambda>_ _ _ _ s. (Inl (PE_Command []), s)), qx_activate = (\<lambda>_ s. (Inr (), s)),
     qx_ask = (\<lambda>_ _ _. False), qx_terminate = (\<lambda>_ s. (Inr (), s)), qx_meta = (\<lambda>p _ _. sample_meta p),
     qx_handle = (\<lambda>p _ _. case sample_meta p of Meta_Ok m \<Rightarrow> Some m | _ \<Rightarrow> None),
     qx_link = (\<lambda>_ _ s. (Inr (), s)), qx_unlink = (\<lambda>_ s. (Inr (), s)), qx_open = (\<lambda>_ s. (Inr (), s)),
     qx_set_private = (\<lambda>_ s. (Inr (), s)), qx_mkdir = (\<lambda>_ s. (Inr (), s)), qx_file_size = (\<lambda>_ _ _. 0),
     qx_kvm = (\<lambda>_. undefined), qx_tamper = (\<lambda>_ fs. fs), qx_fault = (\<lambda>_. None),
     qx_encode = (\<lambda>_. None), qx_decode = (\<lambda>bytes. if bytes = ''config'' then Some sample_qemu_config else None), qx_image_info = (\<lambda>_. None)\<rparr>"

definition sample_files :: config_files where
  "sample_files = (\<lambda>p. if p = components ''/r/7/qemu/vm.json'' then Some ''config'' else None)"

definition sample_world :: "nat \<Rightarrow> unit qemu_world" where
  "sample_world t = \<lparr>lw_peer = (), lw_input = [], lw_tick = t, qw_files = sample_files, qw_trace = []\<rparr>"

lemma sample_host: "qx_host sample_qemu = \<lparr>he_windows = False, he_crates = sample_qemu_crates, he_canonicalize = Some\<rparr>"
  by (simp add: sample_qemu_def)

lemma sample_config_path: "lookup_config_path sample_qemu 7 = ''/r/7/qemu/vm.json''"
  by (simp add: lookup_config_path_def sample_qemu_def sample_qemu_crates_def path_join_def is_absolute_def starts_with_def)

lemma sample_paths:
  "ancestors_check sample_meta ''/r/7/qemu/vm.json'' = Inr ()"
  "sample_meta ''/r/7/qemu/vm.json'' = Meta_Ok \<lparr>fm_reparse = False, fm_dir = False, fm_file = True, fm_private = True, fm_identity = 1\<rparr>"
  "endpoint_absence sample_meta (qv_qmp sample_qemu_config) = Inr ()" 
  "endpoint_absence sample_meta (qv_qga sample_qemu_config) = Inr ()"
  by code_simp+

lemma sample_endpoints:
  "control_endpoint_eq (qv_qmp sample_qemu_config) (endpoint_qmp (qx_host sample_qemu) ''/r/7/qemu'' ''7'')"
  "control_endpoint_eq (qv_qga sample_qemu_config) (endpoint_qga (qx_host sample_qemu) ''/r/7/qemu'' ''7'')"
  "control_endpoint_is_safe (qv_qmp sample_qemu_config)" "control_endpoint_is_safe (qv_qga sample_qemu_config)"
  "path_eq ''/r/7/qemu/vm.json'' (qemu_config_path ''/r/7/qemu'')"
  "qemu_argument_path_is_safe ''/r/7/qemu''" "qemu_argument_path_is_safe ''/r/7/overlay.qcow2''" "qemu_argument_path_is_safe ''/base.qcow2''"
  "map_option components (path_parent ''/r/7/overlay.qcow2'') = map_option components (path_parent ''/r/7/qemu'')"
  unfolding sample_host by code_simp+

lemma sample_digest: "launch_digest sample_qemu_crates c = ''d''"
  by (simp add: launch_digest_def argument_digest_def sample_qemu_crates_def)

lemma sample_config_valid: "qemu_config_validate (qx_host sample_qemu) sample_qemu_config ''/r/7/qemu/vm.json'' = Inr ()"
proof -
  have "uuid_parse_str sample_qemu_crates ''7'' = Some 7" by (simp add: sample_qemu_crates_def)
  with sample_endpoints show ?thesis
    by (simp add: qemu_config_validate_def sample_host sample_qemu_config_def sample_digest QEMU_CONFIG_SCHEMA_def qemu_job_receipt_is_valid_def)
qed

lemma sample_env:
  "qx_meta sample_qemu p s t = sample_meta p" "qx_tamper sample_qemu t fs = fs" "qx_fault sample_qemu t = None"
  "qx_decode sample_qemu ''config'' = Some sample_qemu_config" "qemu_config_bytes_sha256 sample_qemu bytes = ''d''"
  "qx_handle sample_qemu ''/r/7/qemu/vm.json'' s t = Some \<lparr>fm_reparse = False, fm_dir = False, fm_file = True, fm_private = True, fm_identity = 1\<rparr>"
  by (simp_all add: sample_qemu_def sample_paths qemu_config_bytes_sha256_def sample_qemu_crates_def)

lemma sample_steps:
  "asking f (sample_world t) = (Inr (f () t), sample_world (Suc t))"
  "file_op sample_qemu err (\<lambda>fs. (g fs, fs)) (sample_world t) = (g sample_files, sample_world (Suc t))"
  "sample_files (components ''/r/7/qemu/vm.json'') = Some ''config''"
  by (simp_all add: asking_def file_op_def sample_env sample_world_def sample_files_def)

lemma sample_read:
  "read_config_snapshot sample_qemu ''/r/7/qemu/vm.json'' (sample_world t)
     = (Inr \<lparr>cs_config = sample_qemu_config, cs_bytes_sha256 = ''d''\<rparr>, sample_world (t + 4))"
proof -
  have ancestors: "ensure_existing_qemu_ancestors_are_ordinary sample_qemu ''/r/7/qemu/vm.json'' (sample_world t) = (Inr (), sample_world (Suc t))" for t
    by (simp add: ensure_existing_qemu_ancestors_are_ordinary_def bindE_def sample_steps sample_env sample_paths liftR_def)
  have open_ok: "open_file sample_qemu ''/r/7/qemu/vm.json'' (sample_world t) = (Inr (), sample_world (Suc t))" for t
    by (simp add: open_file_def sample_steps)
  have check: "ensure_private_qemu_file sample_qemu ''/r/7/qemu/vm.json'' (sample_world t) = (Inr (), sample_world (Suc t))" for t
    by (simp add: ensure_private_qemu_file_def bindE_def sample_steps sample_env liftR_def private_file_check_def sample_paths ensure_def)
  have bytes: "read_qemu_config_bytes sample_qemu ''/r/7/qemu/vm.json'' (sample_world t) = (Inr ''config'', sample_world (Suc t))" for t
    by (simp add: read_qemu_config_bytes_def bindE_def sample_steps ok_or_def Let_def QEMU_CONFIG_MAX_BYTES_def ret_def)
  have decode: "decode_qemu_config sample_qemu ''/r/7/qemu/vm.json'' ''config'' = Inr sample_qemu_config"
    by (simp add: decode_qemu_config_def sample_env sample_config_valid ok_or_def)
  show ?thesis
    by (simp add: read_config_snapshot_def bindE_def ancestors open_ok check bytes decode liftR_def ret_def sample_env eval_nat_numeral)
qed

lemma sample_inspection:
  "qemu_inspect_vm sample_qemu (Lookup_Id ''7'') (sample_world 0) = (Inr (Some (qemu_snapshot sample_qemu_config Power_Off)), sample_world 7)"
proof -
  have uuid: "lookup_uuid sample_qemu_crates (Lookup_Id ''7'') = Some 7"
    "uuid_parse_str sample_qemu_crates ''7'' = uuid_parse_str sample_qemu_crates (qv_id sample_qemu_config)"
    by (simp_all add: lookup_uuid_def sample_qemu_crates_def sample_qemu_config_def)
  have look: "config_for_lookup sample_qemu (Lookup_Id ''7'') (sample_world 0) = (Inr (Some sample_qemu_config), sample_world 5)"
    by (simp add: config_for_lookup_def sample_host uuid sample_config_path bindE_def Let_def sample_steps sample_read ret_def)
  have "process_receipt sample_qemu_config = None" "\<not> qv_spawn_pending sample_qemu_config"
    by (simp_all add: process_receipt_def sample_qemu_config_def)
  then have "inspect_config sample_qemu sample_qemu_config (sample_world t) = (Inr (qemu_snapshot sample_qemu_config Power_Off), sample_world (t + 2))"
    for t
    by (simp add: inspect_config_def ensure_control_endpoints_absent_def ensure_control_endpoint_absent_def bindE_def sample_steps sample_env sample_paths
        liftR_def ret_def)
  then show ?thesis unfolding qemu_inspect_vm_def by (simp add: bindE_def look ret_def)
qed

theorem qemu_reports_truthful_witness:
  "\<exists>c. found_config sample_qemu (Lookup_Id ''7'') c \<and> qemu_snapshot sample_qemu_config Power_Off = qemu_snapshot c Power_Off \<and> proven_off sample_qemu c"
  using qemu_reports_truthful [of sample_qemu "Lookup_Id ''7''" "sample_world 0"]
  by (simp add: qemu_provider_def sample_inspection power_proven_def)

theorem control_waits_end_witness:
  "stop_loop 4 (sample_qemu\<lparr>lk_instant := id\<rparr>) ''/r/7/qemu/vm.json'' \<lparr>cs_config = sample_qemu_config, cs_bytes_sha256 = ''d''\<rparr> 1 2 3 False (sample_world 0)
     = stop_loop 100 (sample_qemu\<lparr>lk_instant := id\<rparr>) ''/r/7/qemu/vm.json'' \<lparr>cs_config = sample_qemu_config, cs_bytes_sha256 = ''d''\<rparr> 1 2 3 False (sample_world 0)"
  using control_waits_end [of 3 3 "sample_qemu\<lparr>lk_instant := id\<rparr>" "sample_world 0" 4 100
      "\<lparr>cs_config = sample_qemu_config, cs_bytes_sha256 = ''d''\<rparr>"]
  by (simp add: sample_world_def sample_qemu_config_def)

end
