(* ===== verification/Powershell.thy ===== *)
theory Powershell
  imports Qemu
begin

section \<open>PowerShell child processes\<close>

text \<open>
  What the two Windows executors (\<open>providers/hyperv/executor.rs\<close> and \<open>guest/powershell_direct/executor.rs\<close>) share: starting a PowerShell child, writing
  its input, waiting for it under a deadline and reading its pipes under a limit; and the lossy decoding of its error output.  The child is a parameter: how it starts, what it
  answers to every poll, what the clock shows then, and what its pipes deliver.  The world keeps the list of started children with their arguments and input.
\<close>

subsection \<open>Lossy decoding\<close>

text \<open>The length of the first character or of the maximal invalid prefix, and whether it is valid: what \<open>String::from_utf8_lossy\<close> does with each chunk.\<close>

fun utf8_second :: "nat \<Rightarrow> nat \<Rightarrow> bool" where
  "utf8_second b c \<longleftrightarrow> utf8_cont c \<and> (b = 0xE0 \<longrightarrow> 0xA0 \<le> c) \<and> (b = 0xED \<longrightarrow> c < 0xA0) \<and> (b = 0xF0 \<longrightarrow> 0x90 \<le> c) \<and> (b = 0xF4 \<longrightarrow> c < 0x90)"

definition cont_at :: "nat list \<Rightarrow> nat \<Rightarrow> bool" where
  "cont_at bs i \<longleftrightarrow> i < length bs \<and> utf8_cont (bs ! i)"

definition utf8_chunk :: "nat \<Rightarrow> nat list \<Rightarrow> nat \<times> bool" where
  "utf8_chunk b bs =
     (if b < 0x80 then (1, True)
      else if b < 0xC2 \<or> 0xF4 < b \<or> bs = [] \<or> \<not> utf8_second b (hd bs) then (1, False)
      else if b < 0xE0 then (2, True)
      else if \<not> cont_at bs 1 then (2, False)
      else if b < 0xF0 then (3, True)
      else if \<not> cont_at bs 2 then (3, False) else (4, True))"

function utf8_lossy :: "nat list \<Rightarrow> nat list" where
  "utf8_lossy [] = []"
| "utf8_lossy (b # bs) =
     (case utf8_chunk b bs of (n, valid) \<Rightarrow>
       (if valid then take n (b # bs) else [0xEF, 0xBF, 0xBD]) @ utf8_lossy (drop (n - 1) bs))"
  by pat_completeness auto

termination
  by (relation "measure length") auto

definition from_utf8_lossy :: "string \<Rightarrow> string" where
  "from_utf8_lossy s = map char_of (utf8_lossy (map byte s))"

definition str_contains :: "string \<Rightarrow> string \<Rightarrow> bool" where
  "str_contains s pat \<longleftrightarrow> list_ex (\<lambda>i. starts_with (drop i s) pat) [0..<Suc (length s)]"

subsection \<open>Pipes\<close>

datatype pipe_read = Pipe_Data string | Pipe_Failed

text \<open>Reading to the end of a pipe; \<open>failed\<close> and \<open>exceeded\<close> are the errors of the caller.\<close>

fun read_pipe :: "'e \<Rightarrow> 'e \<Rightarrow> nat \<Rightarrow> string \<Rightarrow> pipe_read list \<Rightarrow> 'e + string" where
  "read_pipe failed exceeded limit bytes [] = Inr bytes"
| "read_pipe failed exceeded limit bytes (Pipe_Failed # _) = Inl failed"
| "read_pipe failed exceeded limit bytes (Pipe_Data chunk # rest) =
     (if chunk = [] then Inr bytes
      else if limit < length bytes + length chunk then Inl exceeded
      else read_pipe failed exceeded limit (bytes @ chunk) rest)"

subsection \<open>Waiting for a child\<close>

datatype wait_answer = Wait_Error | Wait_Running | Wait_Exited bool string

datatype wait_result = Waited_Error | Waited_Timeout | Waited bool string

record child_process =
  ch_waits :: "nat \<Rightarrow> wait_answer"
  ch_instant :: "nat \<Rightarrow> nat"
  ch_stdin_ok :: bool
  ch_stdout :: "pipe_read list"
  ch_stderr :: "pipe_read list"

primrec wait_child :: "nat \<Rightarrow> child_process \<Rightarrow> nat \<Rightarrow> nat \<Rightarrow> wait_result" where
  "wait_child 0 c deadline i = Waited_Timeout"
| "wait_child (Suc n) c deadline i = (case ch_waits c i of
      Wait_Error \<Rightarrow> Waited_Error
    | Wait_Exited success status \<Rightarrow> Waited success status
    | Wait_Running \<Rightarrow> if deadline \<le> ch_instant c (Suc i) then Waited_Timeout else wait_child n c deadline (Suc i))"

record 'e child_errors =
  ce_wait :: 'e
  ce_timeout :: 'e
  ce_stdin :: 'e
  ce_pipe :: 'e
  ce_limit :: 'e

text \<open>The deadline is set at clock reading 0; the results of the writer and the two readers are taken in this order after the child has exited.\<close>

definition bounded_child ::
  "'e child_errors \<Rightarrow> nat \<Rightarrow> duration \<Rightarrow> nat \<Rightarrow> nat \<Rightarrow> child_process \<Rightarrow> 'e + bool \<times> string \<times> string \<times> string" where
  "bounded_child errs polls timeout stdout_limit stderr_limit c =
     (case wait_child polls c (ch_instant c 0 + timeout) 0 of
        Waited_Error \<Rightarrow> Inl (ce_wait errs)
      | Waited_Timeout \<Rightarrow> Inl (ce_timeout errs)
      | Waited success status \<Rightarrow>
          res_bind (ensure (ch_stdin_ok c) (ce_stdin errs)) (\<lambda>_.
          res_bind (read_pipe (ce_pipe errs) (ce_limit errs) stdout_limit [] (ch_stdout c)) (\<lambda>stdout.
          res_bind (read_pipe (ce_pipe errs) (ce_limit errs) stderr_limit [] (ch_stderr c)) (\<lambda>stderr.
          Inr (success, status, stdout, stderr)))))"

subsection \<open>Starting a child\<close>

datatype job_failure = Job_Creation | Job_Limits | Job_Assignment

datatype child_start = Spawn_Failed string | Job_Failed job_failure | Started child_process

record 's ps_env =
  px_start :: "string list \<Rightarrow> string \<Rightarrow> 's \<Rightarrow> child_start \<times> 's"
  px_polls :: nat
  px_decode :: "string \<Rightarrow> string + json"

record 's ps_world =
  pw_host :: 's
  pw_children :: "(string list \<times> string) list"

type_synonym ('s, 'z, 'e, 'a) ps_eff = "(('s, 'z) ps_world_scheme, 'e, 'a) eff"

definition start_child :: "('s, 'y) ps_env_scheme \<Rightarrow> string list \<Rightarrow> string \<Rightarrow> ('s, 'z, 'e, child_start) ps_eff" where
  "start_child P args input = (\<lambda>w. case px_start P args input (pw_host w) of (r, s) \<Rightarrow>
     (Inr r, w\<lparr>pw_host := s, pw_children := (args, input) # pw_children w\<rparr>))"

subsection \<open>Lemmas\<close>

definition pipe_bytes :: "pipe_read list \<Rightarrow> string" where
  "pipe_bytes rs = concat (map (\<lambda>r. case r of Pipe_Data s \<Rightarrow> s | Pipe_Failed \<Rightarrow> []) (takeWhile (\<lambda>r. r \<noteq> Pipe_Data []) rs))"

lemma pipe_bytes_simps [simp]:
  "pipe_bytes [] = []" "pipe_bytes (Pipe_Data chunk # rs) = (if chunk = [] then [] else chunk @ pipe_bytes rs)" "pipe_bytes (Pipe_Failed # rs) = pipe_bytes rs"
  by (simp_all add: pipe_bytes_def)

lemma read_pipe_iff:
  "read_pipe failed exceeded limit bytes rs = Inr out \<longleftrightarrow>
     Pipe_Failed \<notin> set (takeWhile (\<lambda>r. r \<noteq> Pipe_Data []) rs) \<and> out = bytes @ pipe_bytes rs
     \<and> (length out \<le> limit \<or> pipe_bytes rs = [])"
proof (induction rs arbitrary: bytes)
  case (Cons r rs)
  show ?case
  proof (cases r)
    case (Pipe_Data chunk)
    then show ?thesis using Cons.IH [of "bytes @ chunk"] by (cases "chunk = []"; cases "limit < length bytes + length chunk") auto
  qed simp
qed auto

lemma wait_child_fuel:
  "(\<And>i. T \<le> i \<Longrightarrow> deadline \<le> ch_instant c i) \<Longrightarrow> T - i < n \<Longrightarrow> T - i < m \<Longrightarrow> wait_child n c deadline i = wait_child m c deadline i"
proof (induction n arbitrary: m i)
  case (Suc n)
  then obtain m' where m: "m = Suc m'" by (cases m) auto
  show ?case
  proof (cases "deadline \<le> ch_instant c (Suc i)")
    case False
    with Suc.prems(1) have "Suc i < T" by (meson not_less)
    with Suc.prems(2,3) have "T - Suc i < n" "T - Suc i < m'" by (auto simp: m)
    with Suc.IH [OF Suc.prems(1), of "Suc i" m'] show ?thesis by (simp add: m split: wait_answer.split)
  qed (simp add: m split: wait_answer.split)
qed simp

lemma bounded_child_ok:
  assumes "bounded_child errs polls timeout stdout_limit stderr_limit c = Inr (success, status, stdout, stderr)"
  shows "wait_child polls c (ch_instant c 0 + timeout) 0 = Waited success status \<and> stdout = pipe_bytes (ch_stdout c) \<and> length stdout \<le> stdout_limit
    \<and> stderr = pipe_bytes (ch_stderr c) \<and> length stderr \<le> stderr_limit"
  using assms by (auto simp: bounded_child_def ensure_def read_pipe_iff split: wait_result.splits if_splits)

subsection \<open>The interface of an executor\<close>

definition starts :: "(string list \<times> string \<Rightarrow> bool) \<Rightarrow> ('s, 'z, 'e, 'a) ps_eff \<Rightarrow> ('s, 'z) ps_world_scheme \<Rightarrow> bool" where
  "starts G m w \<longleftrightarrow> (\<exists>l. pw_children (snd (m w)) = l @ pw_children w \<and> length l \<le> 1 \<and> list_all G l)"

lemma starts_none: "pw_children (snd (m w)) = pw_children w \<Longrightarrow> starts G m w"
  by (auto simp: starts_def)

lemma starts_pure: "starts G (ret x) w" "starts G (throw e) w" "starts G (liftR r) w"
  by (simp_all add: starts_none ret_def throw_def liftR_def)

lemma starts_mapE: "starts G m w \<Longrightarrow> starts G (mapE f m) w"
  by (auto simp: starts_def mapE_def split: prod.split sum.split)

lemma starts_weaken: "starts G m w \<Longrightarrow> (\<And>c. G c \<Longrightarrow> G' c) \<Longrightarrow> starts G' m w"
  by (auto simp: starts_def list_all_iff)

text \<open>A step before which, or after which, no child is started.\<close>

lemma starts_before:
  "pw_children (snd (m w)) = pw_children w \<Longrightarrow> (\<And>x w'. m w = (Inr x, w') \<Longrightarrow> starts G (f x) w') \<Longrightarrow> starts G (bindE m f) w"
  by (cases "m w"; cases "fst (m w)") (auto simp: starts_def bindE_def)

lemma starts_after:
  "starts G m w \<Longrightarrow> (\<And>x w'. pw_children (snd (f x w')) = pw_children w') \<Longrightarrow> starts G (bindE m f) w"
  by (cases "m w"; cases "fst (m w)") (auto simp: starts_def bindE_def)

lemma starts_child: "G (args, input) \<Longrightarrow> starts G (start_child P args input) w"
  by (auto simp: starts_def start_child_def split: prod.split)

locale script_executor =
  fixes execute :: "'act \<Rightarrow> ('s, 'z, 'e, 'v) ps_eff"
    and command :: "'act \<Rightarrow> string list \<times> string \<Rightarrow> bool"
  assumes one_child: "starts (command act) (execute act) w"
begin

text \<open>A client that checks an authority, executes one action and decodes the answer starts at most one child, of an action the check allowed.\<close>

lemma checked_starts:
  assumes "\<And>x. check w = Inr x \<Longrightarrow> allowed act"
  shows "starts (\<lambda>c. \<exists>act. allowed act \<and> command act c) (bindE (\<lambda>w. (check w, w)) (\<lambda>_. bindE (execute act) (\<lambda>v. liftR (decode v)))) w"
proof (rule starts_before, goal_cases)
  case (2 x w')
  then have "allowed act" "w' = w" using assms by auto
  then show ?case
    by (intro starts_after starts_weaken [OF one_child]) (auto simp: liftR_def)
qed simp

lemma plain_starts: "starts (command act) (bindE (execute act) (\<lambda>v. liftR (decode v))) w"
  by (intro starts_after one_child) (simp add: liftR_def)

end

end
