(* ===== verification/HyperV.thy ===== *)
theory HyperV
  imports Powershell
begin

section \<open>The Hyper-V provider\<close>

text \<open>
  \<open>providers/hyperv/mod.rs\<close>: a provider that turns every operation into one typed action for its executor, after the check of the authority; and
  \<open>providers/hyperv/executor.rs\<close>: the executor that runs the script of an action in a PowerShell child.  The executor is a parameter of the provider
  (\<open>hx_execute\<close>), as in the code; serde's encoding and decoding and the texts of the scripts are parameters; \<open>hx_guards\<close> tells in each world whether the files behind the
  authority are still the ones it was made for.
\<close>

subsection \<open>Actions and the provider\<close>

datatype hyperv_action =
  Hv_Probe
| Hv_InspectVhd path
| Hv_CreateDifferencingVhd path path
| Hv_CreateVm create_vm_request
| Hv_ClaimVm claim_vm_request
| Hv_ConfigureVm configure_vm_request
| Hv_InspectVm vm_lookup
| Hv_StartVm provider_vm
| Hv_StopVm provider_vm
| Hv_RemoveVm provider_vm

record probe_response =
  pr_available :: bool
  pr_detail :: string

record 'w hyperv_env =
  hx_host :: host_env
  hx_arch :: string
  hx_guards :: "'w \<Rightarrow> guard_status"
  hx_execute :: "hyperv_action \<Rightarrow> ('w, provider_error, json) eff"
  hx_probe_response :: "json \<Rightarrow> string + probe_response"
  hx_image_info :: "json \<Rightarrow> string + provider_image_info"
  hx_identity :: "json \<Rightarrow> string + provider_vm_identity"
  hx_vm :: "json \<Rightarrow> string + provider_vm"
  hx_vm_envelope :: "json \<Rightarrow> string + provider_vm option"
  hx_empty :: "json \<Rightarrow> string + bool"

definition decoded :: "(json \<Rightarrow> string + 'a) \<Rightarrow> json \<Rightarrow> provider_error + 'a" where
  "decoded decode v = (case decode v of Inl e \<Rightarrow> Inl (PE_InvalidResponse e) | Inr x \<Rightarrow> Inr x)"

definition hyperv_execute :: "('w, 'y) hyperv_env_scheme \<Rightarrow> (json \<Rightarrow> string + 'a) \<Rightarrow> hyperv_action \<Rightarrow> ('w, provider_error, 'a) eff" where
  "hyperv_execute E decode action = bindE (hx_execute E action) (\<lambda>v. liftR (decoded decode v))"

definition hyperv_check :: "('w, 'y) hyperv_env_scheme \<Rightarrow> (guard_status \<Rightarrow> provider_error + unit) \<Rightarrow> ('w, provider_error, unit) eff" where
  "hyperv_check E f = (\<lambda>w. (f (hx_guards E w), w))"

definition hyperv_probe_failure :: "provider_probe_status \<Rightarrow> string \<Rightarrow> provider_probe" where
  "hyperv_probe_failure status detail = \<lparr>pp_name = ''hyperv'', pp_status = status, pp_available = False, pp_detail = detail,
     pp_capabilities = capabilities_unavailable\<rparr>"

fun provider_error_text :: "provider_error \<Rightarrow> string" where
  "provider_error_text (PE_Unsupported p operation) = ''provider '' @ p @ '' does not support '' @ operation"
| "provider_error_text (PE_Command s) = ''provider command failed: '' @ s"
| "provider_error_text (PE_Timeout s) = ''provider operation timed out: '' @ s"
| "provider_error_text (PE_OutputLimit s) = ''provider output exceeded its limit: '' @ s"
| "provider_error_text (PE_InvalidResponse s) = ''provider returned invalid data: '' @ s"
| "provider_error_text (PE_NotFound s) = ''provider object not found: '' @ s"
| "provider_error_text (PE_Collision s) = ''provider object collision: '' @ s"
| "provider_error_text (PE_OwnershipChanged s) = ''provider ownership precondition changed: '' @ s"
| "provider_error_text (PE_Authority s) = ''provider mutation authority rejected: '' @ s"

definition hyperv_probe :: "('w, 'y) hyperv_env_scheme \<Rightarrow> 'w \<Rightarrow> provider_probe" where
  "hyperv_probe E w =
     (if \<not> he_windows (hx_host E) then hyperv_probe_failure Probe_UnsupportedHost ''Hyper-V provider is only available on Windows hosts''
      else case fst (hyperv_execute E (hx_probe_response E) Hv_Probe w) of
        Inr response \<Rightarrow>
          if pr_available response
          then \<lparr>pp_name = ''hyperv'', pp_status = Probe_Ready, pp_available = True, pp_detail = pr_detail response,
            pp_capabilities = \<lparr>cap_schema_version = AUTOMATION_SCHEMA_VERSION, cap_full_system_vm = True, cap_cow_overlay = True,
              cap_hardware_acceleration = True, cap_accelerators = [''hyper-v''], cap_guest_os = [''windows'', ''linux''],
              cap_guest_arch = [hx_arch E], cap_guest_transports = [''powershell-direct''], cap_networkless_guest_exec = True\<rparr>\<rparr>
          else hyperv_probe_failure Probe_Unavailable (pr_detail response)
      | Inl e \<Rightarrow> hyperv_probe_failure Probe_Failed (''failed to probe Hyper-V: '' @ provider_error_text e))"

definition hyperv_inspect_image :: "('w, 'y) hyperv_env_scheme \<Rightarrow> path \<Rightarrow> ('w, provider_error, provider_image_info) eff" where
  "hyperv_inspect_image E p = hyperv_execute E (hx_image_info E) (Hv_InspectVhd p)"

definition hyperv_create_overlay ::
  "('w, 'y) hyperv_env_scheme \<Rightarrow> provider_mutation_authority \<Rightarrow> create_overlay_request \<Rightarrow> ('w, provider_error, provider_image_info) eff" where
  "hyperv_create_overlay E a q =
     bindE (hyperv_check E (\<lambda>g. validate_overlay_request (hx_host E) g a q)) (\<lambda>_.
     hyperv_execute E (hx_image_info E) (Hv_CreateDifferencingVhd (co_parent_path q) (co_overlay_path q)))"

definition hyperv_create_vm ::
  "('w, 'y) hyperv_env_scheme \<Rightarrow> provider_mutation_authority \<Rightarrow> create_vm_request \<Rightarrow> ('w, provider_error, provider_vm_identity) eff" where
  "hyperv_create_vm E a q =
     bindE (hyperv_check E (\<lambda>g. validate_create_request (hx_host E) g a q)) (\<lambda>_. hyperv_execute E (hx_identity E) (Hv_CreateVm q))"

definition hyperv_claim_vm ::
  "('w, 'y) hyperv_env_scheme \<Rightarrow> provider_mutation_authority \<Rightarrow> claim_vm_request \<Rightarrow> ('w, provider_error, provider_vm) eff" where
  "hyperv_claim_vm E a q =
     bindE (hyperv_check E (\<lambda>g. validate_claim_request (hx_host E) g a q)) (\<lambda>_. hyperv_execute E (hx_vm E) (Hv_ClaimVm q))"

definition hyperv_configure_vm ::
  "('w, 'y) hyperv_env_scheme \<Rightarrow> provider_mutation_authority \<Rightarrow> configure_vm_request \<Rightarrow> ('w, provider_error, provider_vm) eff" where
  "hyperv_configure_vm E a q =
     bindE (hyperv_check E (\<lambda>g. validate_configure_request (hx_host E) g a q)) (\<lambda>_. hyperv_execute E (hx_vm E) (Hv_ConfigureVm q))"

definition hyperv_inspect_vm :: "('w, 'y) hyperv_env_scheme \<Rightarrow> vm_lookup \<Rightarrow> ('w, provider_error, provider_vm option) eff" where
  "hyperv_inspect_vm E l = hyperv_execute E (hx_vm_envelope E) (Hv_InspectVm l)"

text \<open>The answer of the three actions on a running machine is decoded and not looked at.\<close>

definition ignored :: "(json \<Rightarrow> string + bool) \<Rightarrow> json \<Rightarrow> string + unit" where
  "ignored decode v = (case decode v of Inl e \<Rightarrow> Inl e | Inr _ \<Rightarrow> Inr ())"

definition hyperv_start_vm ::
  "('w, 'y) hyperv_env_scheme \<Rightarrow> provider_mutation_authority \<Rightarrow> provider_vm \<Rightarrow> ('w, provider_error, unit) eff" where
  "hyperv_start_vm E a vm =
     bindE (hyperv_check E (\<lambda>g. validate_vm (hx_host E) g a vm)) (\<lambda>_. hyperv_execute E (ignored (hx_empty E)) (Hv_StartVm vm))"

definition hyperv_stop_vm ::
  "('w, 'y) hyperv_env_scheme \<Rightarrow> provider_mutation_authority \<Rightarrow> provider_vm \<Rightarrow> ('w, provider_error, unit) eff" where
  "hyperv_stop_vm E a vm =
     bindE (hyperv_check E (\<lambda>g. validate_vm (hx_host E) g a vm)) (\<lambda>_. hyperv_execute E (ignored (hx_empty E)) (Hv_StopVm vm))"

definition hyperv_remove_vm ::
  "('w, 'y) hyperv_env_scheme \<Rightarrow> provider_mutation_authority \<Rightarrow> provider_vm \<Rightarrow> ('w, provider_error, unit) eff" where
  "hyperv_remove_vm E a vm =
     bindE (hyperv_check E (\<lambda>g. validate_vm (hx_host E) g a vm)) (\<lambda>_. hyperv_execute E (ignored (hx_empty E)) (Hv_RemoveVm vm))"

definition hyperv_provider :: "('w, 'y) hyperv_env_scheme \<Rightarrow> 'w provider" where
  "hyperv_provider E = \<lparr>pv_name = ''hyperv'', pv_probe = hyperv_probe E, pv_inspect_image = hyperv_inspect_image E,
     pv_create_overlay = hyperv_create_overlay E, pv_create_vm = hyperv_create_vm E, pv_claim_vm = hyperv_claim_vm E,
     pv_configure_vm = hyperv_configure_vm E, pv_inspect_vm = hyperv_inspect_vm E, pv_start_vm = hyperv_start_vm E,
     pv_stop_vm = hyperv_stop_vm E, pv_remove_vm = hyperv_remove_vm E\<rparr>"

subsection \<open>The PowerShell executor\<close>

record 's hyperv_shell = "'s ps_env" +
  hs_encode :: "hyperv_action \<Rightarrow> string + string"
  hs_script_file :: "string \<Rightarrow> string"

definition PROVIDER_COMMAND_TIMEOUT :: duration where "PROVIDER_COMMAND_TIMEOUT = duration_from_secs 120"
definition PROVIDER_OUTPUT_LIMIT :: nat where "PROVIDER_OUTPUT_LIMIT = 1024 * 1024"

fun script_name :: "hyperv_action \<Rightarrow> string" where
  "script_name Hv_Probe = ''probe.ps1''"
| "script_name (Hv_InspectVhd _) = ''inspect_vhd.ps1''"
| "script_name (Hv_CreateDifferencingVhd _ _) = ''create_differencing_vhd.ps1''"
| "script_name (Hv_CreateVm _) = ''create_vm.ps1''"
| "script_name (Hv_ClaimVm _) = ''claim_vm.ps1''"
| "script_name (Hv_ConfigureVm _) = ''configure_vm.ps1''"
| "script_name (Hv_InspectVm _) = ''inspect_vm.ps1''"
| "script_name (Hv_StartVm _) = ''start_vm.ps1''"
| "script_name (Hv_StopVm _) = ''stop_vm.ps1''"
| "script_name (Hv_RemoveVm _) = ''remove_vm.ps1''"

definition powershell_args :: "string \<Rightarrow> string list" where
  "powershell_args script = [''-NoLogo'', ''-NoProfile'', ''-NonInteractive'', ''-Command'', script]"

definition provider_child_errors :: "provider_error child_errors" where
  "provider_child_errors = \<lparr>ce_wait = PE_Command ''PowerShell wait failed'', ce_timeout = PE_Timeout ''PowerShell provider command timed out'',
     ce_stdin = PE_Command ''PowerShell stdin write failed'', ce_pipe = PE_Command ''PowerShell pipe read failed'',
     ce_limit = PE_OutputLimit ''PowerShell provider output exceeded the limit''\<rparr>"

definition wait_for_bounded_provider_child :: "nat \<Rightarrow> child_process \<Rightarrow> provider_error + bool \<times> string \<times> string \<times> string" where
  "wait_for_bounded_provider_child polls c =
     bounded_child provider_child_errors polls PROVIDER_COMMAND_TIMEOUT PROVIDER_OUTPUT_LIMIT PROVIDER_OUTPUT_LIMIT c"

definition script_failure :: "string \<Rightarrow> string \<Rightarrow> provider_error" where
  "script_failure status stderr =
     (let detail = str_trim (from_utf8_lossy stderr); marker = ''OWNERSHIP_CHANGED: '' in
      if starts_with detail marker then PE_OwnershipChanged (drop (length marker) detail)
      else PE_Command (if detail = [] then ''PowerShell exited with '' @ status else detail))"

definition provider_answer :: "('s, 'y) hyperv_shell_scheme \<Rightarrow> child_start \<Rightarrow> provider_error + json" where
  "provider_answer P started = (case started of
       Spawn_Failed e \<Rightarrow> Inl (PE_Command (''failed to launch PowerShell: '' @ e))
     | Job_Failed Job_Assignment \<Rightarrow> Inl (PE_Command ''PowerShell process job assignment failed'')
     | Job_Failed _ \<Rightarrow> Inl (PE_Command ''PowerShell process job creation failed'')
     | Started c \<Rightarrow>
         res_bind (wait_for_bounded_provider_child (px_polls P) c) (\<lambda>(success, status, stdout, stderr).
         if \<not> success then Inl (script_failure status stderr)
         else case px_decode P stdout of
           Inl e \<Rightarrow> Inl (PE_InvalidResponse (''PowerShell JSON decode failed: '' @ e))
         | Inr v \<Rightarrow> Inr v))"

definition execute_powershell :: "('s, 'y) hyperv_shell_scheme \<Rightarrow> hyperv_action \<Rightarrow> ('s, 'z, provider_error, json) ps_eff" where
  "execute_powershell P action =
     bindE (mapE (\<lambda>e. PE_Command (''failed to encode request: '' @ e)) (liftR (hs_encode P action))) (\<lambda>input.
     bindE (start_child P (powershell_args (hs_script_file P (script_name action))) input) (\<lambda>started. liftR (provider_answer P started)))"

definition hyperv_system_execute :: "host_env \<Rightarrow> ('s, 'y) hyperv_shell_scheme \<Rightarrow> hyperv_action \<Rightarrow> ('s, 'z, provider_error, json) ps_eff" where
  "hyperv_system_execute H P action =
     (if he_windows H then execute_powershell P action else throw (PE_Unsupported ''hyperv'' ''powershell_command''))"

text \<open>\<open>HyperVProvider::system\<close>.\<close>

definition hyperv_system ::
  "(('s, 'z) ps_world_scheme, 'x) hyperv_env_scheme \<Rightarrow> ('s, 'y) hyperv_shell_scheme \<Rightarrow> ('s, 'z) ps_world_scheme provider" where
  "hyperv_system E P = hyperv_provider (E\<lparr>hx_execute := hyperv_system_execute (hx_host E) P\<rparr>)"

subsection \<open>What the children are given\<close>

definition hyperv_child :: "host_env \<Rightarrow> ('s, 'y) hyperv_shell_scheme \<Rightarrow> hyperv_action \<Rightarrow> string list \<times> string \<Rightarrow> bool" where
  "hyperv_child H P action child \<longleftrightarrow> he_windows H \<and> fst child = powershell_args (hs_script_file P (script_name action))
     \<and> hs_encode P action = Inr (snd child)"

fun hyperv_entitled :: "host_env \<Rightarrow> provider_mutation_authority \<Rightarrow> hyperv_action \<Rightarrow> bool" where
  "hyperv_entitled H a (Hv_CreateDifferencingVhd parent overlay) \<longleftrightarrow>
     (\<exists>g. validate_overlay_request H g a \<lparr>co_parent_path = parent, co_overlay_path = overlay\<rparr> = Inr ())"
| "hyperv_entitled H a (Hv_CreateVm q) \<longleftrightarrow> (\<exists>g. validate_create_request H g a q = Inr ())"
| "hyperv_entitled H a (Hv_ClaimVm q) \<longleftrightarrow> (\<exists>g. validate_claim_request H g a q = Inr ())"
| "hyperv_entitled H a (Hv_ConfigureVm q) \<longleftrightarrow> (\<exists>g. validate_configure_request H g a q = Inr ())"
| "hyperv_entitled H a (Hv_StartVm vm) \<longleftrightarrow> (\<exists>g. validate_vm H g a vm = Inr ())"
| "hyperv_entitled H a (Hv_StopVm vm) \<longleftrightarrow> (\<exists>g. validate_vm H g a vm = Inr ())"
| "hyperv_entitled H a (Hv_RemoveVm vm) \<longleftrightarrow> (\<exists>g. validate_vm H g a vm = Inr ())"
| "hyperv_entitled H a _ \<longleftrightarrow> False"

definition entitled_child :: "host_env \<Rightarrow> ('s, 'y) hyperv_shell_scheme \<Rightarrow> provider_mutation_authority \<Rightarrow> string list \<times> string \<Rightarrow> bool" where
  "entitled_child H P a child \<longleftrightarrow> (\<exists>action. hyperv_entitled H a action \<and> hyperv_child H P action child)"

lemma overlay_request_eta [simp]: "\<lparr>co_parent_path = co_parent_path q, co_overlay_path = co_overlay_path q\<rparr> = (q :: create_overlay_request)"
  by simp

lemma execute_one_child: "starts (hyperv_child H P action) (hyperv_system_execute H P action) w"
proof (cases "he_windows H")
  case True
  have "starts (hyperv_child H P action) (bindE (start_child P (powershell_args (hs_script_file P (script_name action))) input)
      (\<lambda>started. liftR (provider_answer P started))) w'" if "hs_encode P action = Inr input" for input w'
    using True that by (intro starts_after starts_child) (auto simp: hyperv_child_def liftR_def)
  then have "starts (hyperv_child H P action) (execute_powershell P action) w" unfolding execute_powershell_def
    by (rule starts_before [rotated]) (auto simp: mapE_def liftR_def split: sum.splits)
  with True show ?thesis by (simp add: hyperv_system_execute_def)
qed (simp add: hyperv_system_execute_def starts_pure)

interpretation hyperv: script_executor "hyperv_system_execute H P" "hyperv_child H P" for H P
  by unfold_locales (rule execute_one_child)

lemma operation_starts:
  assumes "\<And>g. f g = Inr () \<Longrightarrow> hyperv_entitled (hx_host E) a action"
  shows "starts (entitled_child (hx_host E) P a)
    (bindE (hyperv_check (E\<lparr>hx_execute := hyperv_system_execute (hx_host E) P\<rparr>) f)
      (\<lambda>_. hyperv_execute (E\<lparr>hx_execute := hyperv_system_execute (hx_host E) P\<rparr>) decode action)) w"
  unfolding hyperv_check_def hyperv_execute_def
  using hyperv.checked_starts [of "\<lambda>w. f (hx_guards E w)" w "hyperv_entitled (hx_host E) a" action "hx_host E" P "decoded decode"] assms
  by (simp add: entitled_child_def [abs_def])

lemma provider_answer_ok:
  assumes "provider_answer P started = Inr v"
  shows "\<exists>c status stdout. started = Started c
    \<and> wait_child (px_polls P) c (ch_instant c 0 + PROVIDER_COMMAND_TIMEOUT) 0 = Waited True status
    \<and> stdout = pipe_bytes (ch_stdout c) \<and> length stdout \<le> PROVIDER_OUTPUT_LIMIT \<and> px_decode P stdout = Inr v"
proof -
  from assms obtain c where c: "started = Started c"
    by (auto simp: provider_answer_def split: child_start.splits job_failure.splits)
  with assms obtain status stdout stderr where "wait_for_bounded_provider_child (px_polls P) c = Inr (True, status, stdout, stderr)"
    "px_decode P stdout = Inr v"
    by (auto simp: provider_answer_def split: if_splits sum.splits)
  with c bounded_child_ok [of provider_child_errors "px_polls P"] show ?thesis unfolding wait_for_bounded_provider_child_def by blast
qed


end
