(* ===== verification/PsDirect.thy ===== *)
theory PsDirect
  imports Powershell
begin

section \<open>The PowerShell Direct transport\<close>

text \<open>
  \<open>guest/powershell_direct/mod.rs\<close>: the guest transport of Windows guests, which turns every call into one typed action for its executor, and the quoting of command lines;
  \<open>guest/powershell_direct/executor.rs\<close>: the executor, which frames the action, the credentials and the payload for a PowerShell child, with the limits on its
  output and the classification of its errors.  \<open>read_frames\<close> is the reader of these frames in \<open>scripts/common.ps1\<close>; \<open>windows_arguments\<close> is the documented rule by which
  a Windows program splits its command line.  Serde, base64 and the texts of the scripts are parameters.
\<close>

subsection \<open>Command lines\<close>

abbreviation dquote :: char where "dquote \<equiv> CHR 0x22"

text \<open>The loop of \<open>quote_windows_argument\<close>: \<open>n\<close> backslashes are pending.\<close>

fun quote_body :: "nat \<Rightarrow> string \<Rightarrow> string" where
  "quote_body n [] = replicate (n * 2) backslash @ [dquote]"
| "quote_body n (c # cs) =
     (if c = backslash then quote_body (Suc n) cs
      else if c = dquote then replicate (n * 2 + 1) backslash @ dquote # quote_body 0 cs
      else replicate n backslash @ c # quote_body 0 cs)"

definition quote_windows_argument :: "string \<Rightarrow> string" where
  "quote_windows_argument argument =
     (if argument \<noteq> [] \<and> \<not> list_ex (\<lambda>v. char_is_whitespace v \<or> v = 0x22) (chars argument) then argument
      else dquote # quote_body 0 argument)"

definition windows_command_line :: "string list \<Rightarrow> string" where
  "windows_command_line arguments = join_with '' '' (map quote_windows_argument arguments)"

text \<open>\<open>encode_utf16().count()\<close>.\<close>

definition utf16_count :: "string \<Rightarrow> nat" where
  "utf16_count s = sum_list (map (\<lambda>c. if c < 0x10000 then 1 else 2) (chars s))"

text \<open>
  How a Windows program splits its command line: blanks outside quotes separate arguments; 2n backslashes before a quote are n backslashes and the quote opens or closes;
  2n + 1 are n backslashes and a literal quote; other backslashes are literal.  \<open>inside\<close>: within quotes; \<open>n\<close>: pending backslashes; \<open>cur\<close>: the argument that is being read.
\<close>

definition argument_end :: "nat \<Rightarrow> string option \<Rightarrow> string list" where
  "argument_end n cur = (if n = 0 \<and> cur = None then [] else [case_option [] id cur @ replicate n backslash])"

fun windows_arguments :: "bool \<Rightarrow> nat \<Rightarrow> string option \<Rightarrow> string \<Rightarrow> string list" where
  "windows_arguments inside n cur [] = argument_end n cur"
| "windows_arguments inside n cur (c # cs) =
     (if c = backslash then windows_arguments inside (Suc n) cur cs
      else if c = dquote then
        (if even n then windows_arguments (\<not> inside) 0 (Some (case_option [] id cur @ replicate (n div 2) backslash)) cs
         else windows_arguments inside 0 (Some (case_option [] id cur @ replicate (n div 2) backslash @ [dquote])) cs)
      else if \<not> inside \<and> (c = CHR '' '' \<or> c = CHR 0x09) then argument_end n cur @ windows_arguments False 0 None cs
      else windows_arguments inside 0 (Some (case_option [] id cur @ replicate n backslash @ [c])) cs)"

subsection \<open>Actions and the transport\<close>

datatype direct_action =
  Pd_ProbeReady cell_id provider_vm
| Pd_Exec cell_id provider_vm string string u64 u64
| Pd_CopyIn cell_id guest_operation_id provider_vm string overwrite_policy
| Pd_CopyOut cell_id guest_operation_id provider_vm string u64

record exec_response =
  er_exit_code :: i32
  er_stdout :: string
  er_stderr :: string
  er_stdout_bytes :: u64
  er_stderr_bytes :: u64
  er_timed_out :: bool

record copy_out_response =
  cr_content_base64 :: string
  cr_size :: u64

type_synonym 'w direct_executor = "direct_action \<Rightarrow> guest_credentials \<Rightarrow> string option \<Rightarrow> duration \<Rightarrow> ('w, guest_io_error, json) eff"

record 'w direct_env =
  dx_guards :: "'w \<Rightarrow> guard_status"
  dx_execute :: "'w direct_executor"
  dx_readiness :: "json \<Rightarrow> guest_readiness option"
  dx_exec_response :: "json \<Rightarrow> exec_response option"
  dx_copy_out_response :: "json \<Rightarrow> copy_out_response option"
  dx_empty_response :: "json \<Rightarrow> bool option"
  dx_b64_decode :: "string \<Rightarrow> string option"

definition authority_valid :: "('w, 'y) direct_env_scheme \<Rightarrow> guest_action_authority \<Rightarrow> provider_vm \<Rightarrow> 'w \<Rightarrow> guest_io_error + unit" where
  "authority_valid E a expected w = guest_authority_validate (dx_guards E w) a expected"

definition execute_transport ::
  "('w, 'y) direct_env_scheme \<Rightarrow> (json \<Rightarrow> guest_io_error + 'a) \<Rightarrow> direct_action \<Rightarrow> guest_credentials \<Rightarrow> string option \<Rightarrow> duration
    \<Rightarrow> ('w, guest_io_error, 'a) eff" where
  "execute_transport E answer action credentials payload timeout = bindE (dx_execute E action credentials payload timeout) (\<lambda>v. liftR (answer v))"

definition duration_millis :: "duration \<Rightarrow> guest_io_error + u64" where
  "duration_millis d = (if d div 1000000 < 2 ^ 64 then Inr (word_of_nat (d div 1000000))
     else Inl (GE_InvalidRequest ''guest timeout cannot be represented in milliseconds''))"

definition direct_probe_ready ::
  "('w, 'y) direct_env_scheme \<Rightarrow> guest_action_authority \<Rightarrow> provider_vm \<Rightarrow> guest_credentials \<Rightarrow> duration \<Rightarrow> ('w, guest_io_error, guest_readiness) eff" where
  "direct_probe_ready E a expected cr timeout =
     bindE (\<lambda>w. (authority_valid E a expected w, w)) (\<lambda>_.
     execute_transport E (\<lambda>v. ok_or (dx_readiness E v) GE_InvalidResponse) (Pd_ProbeReady (ga_cell_id a) expected) cr None timeout)"

definition exec_answer :: "('w, 'y) direct_env_scheme \<Rightarrow> json \<Rightarrow> guest_io_error + guest_command_result" where
  "exec_answer E v =
     res_bind (ok_or (dx_exec_response E v) GE_InvalidResponse) (\<lambda>response.
     if er_timed_out response then Inl GE_Timeout
     else Inr \<lparr>gr_exit_code = er_exit_code response, gr_stdout = er_stdout response, gr_stderr = er_stderr response, gr_encoding = ''utf-8'',
       gr_stdout_bytes = er_stdout_bytes response, gr_stderr_bytes = er_stderr_bytes response, gr_truncated = False\<rparr>)"

definition exec_admitted :: "guest_command \<Rightarrow> guest_io_error + string \<times> u64" where
  "exec_admitted command =
     res_bind (guest_command_validate command) (\<lambda>_.
     let command_line = windows_command_line (gcmd_args command) in
     if utf16_count (gcmd_program command) > 32766 \<or> utf16_count command_line > 32766
     then Inl (GE_InvalidRequest ''guest command exceeds the Windows process command-line limit'')
     else res_bind (duration_millis (gcmd_timeout command)) (\<lambda>ms. Inr (command_line, ms)))"

definition direct_exec ::
  "('w, 'y) direct_env_scheme \<Rightarrow> guest_action_authority \<Rightarrow> provider_vm \<Rightarrow> guest_credentials \<Rightarrow> guest_command
    \<Rightarrow> ('w, guest_io_error, guest_command_result) eff" where
  "direct_exec E a expected cr command =
     bindE (\<lambda>w. (authority_valid E a expected w, w)) (\<lambda>_.
     bindE (liftR (exec_admitted command)) (\<lambda>(command_line, ms).
     execute_transport E (exec_answer E)
       (Pd_Exec (ga_cell_id a) expected (gcmd_program command) command_line ms (gcmd_max_output_bytes command))
       cr None (gcmd_timeout command + duration_from_secs 5)))"

definition direct_copy_in ::
  "('w, 'y) direct_env_scheme \<Rightarrow> guest_action_authority \<Rightarrow> provider_vm \<Rightarrow> guest_credentials \<Rightarrow> guest_copy_in_action \<Rightarrow> ('w, guest_io_error, unit) eff" where
  "direct_copy_in E a expected cr action =
     bindE (\<lambda>w. (authority_valid E a expected w, w)) (\<lambda>_.
     execute_transport E (\<lambda>v. res_bind (ok_or (dx_empty_response E v) GE_InvalidResponse) (\<lambda>ok. ensure ok GE_InvalidResponse))
       (Pd_CopyIn (ga_cell_id a) (ci_operation_id action) expected (guest_path_str (ci_destination action)) (ci_overwrite action))
       cr (Some (ci_content action)) (ci_timeout action))"

definition copy_out_answer :: "('w, 'y) direct_env_scheme \<Rightarrow> u64 \<Rightarrow> json \<Rightarrow> guest_io_error + string" where
  "copy_out_answer E max_bytes v =
     res_bind (ok_or (dx_copy_out_response E v) GE_InvalidResponse) (\<lambda>response.
     res_bind (ok_or (dx_b64_decode E (cr_content_base64 response)) GE_InvalidResponse) (\<lambda>bytes.
     if word_of_nat (length bytes) \<noteq> cr_size response \<or> word_of_nat (length bytes) > max_bytes then Inl GE_InvalidResponse else Inr bytes))"

definition direct_copy_out ::
  "('w, 'y) direct_env_scheme \<Rightarrow> guest_action_authority \<Rightarrow> provider_vm \<Rightarrow> guest_credentials \<Rightarrow> guest_copy_out_action \<Rightarrow> ('w, guest_io_error, string) eff" where
  "direct_copy_out E a expected cr action =
     bindE (\<lambda>w. (authority_valid E a expected w, w)) (\<lambda>_.
     execute_transport E (copy_out_answer E (cp_max_bytes action))
       (Pd_CopyOut (ga_cell_id a) (cp_operation_id action) expected (guest_path_str (cp_source action)) (cp_max_bytes action))
       cr None (cp_timeout action))"

definition direct_transport :: "('w, 'y) direct_env_scheme \<Rightarrow> 'w guest_transport" where
  "direct_transport E = \<lparr>gt_name = ''powershell-direct'', gt_supports = (\<lambda>provider os. provider = ''hyperv'' \<and> os = Os_Windows),
     gt_probe_ready = direct_probe_ready E, gt_exec = direct_exec E, gt_copy_in = direct_copy_in E, gt_copy_out = direct_copy_out E\<rparr>"

subsection \<open>The executor\<close>

definition SMALL_RESPONSE_LIMIT :: u64 where "SMALL_RESPONSE_LIMIT = 65536"
definition STDERR_LIMIT :: nat where "STDERR_LIMIT = 65536"

record 's direct_shell = "'s ps_env" +
  ds_windows :: bool
  ds_encode :: "direct_action \<Rightarrow> string option"
  ds_script_file :: "string \<Rightarrow> string"

text \<open>\<open>u32::to_le_bytes\<close> of a length.\<close>

definition le_bytes4 :: "nat \<Rightarrow> string" where
  "le_bytes4 n = map (\<lambda>i. char_of (n div 256 ^ i mod 256)) [0..<4]"

definition append_frame :: "string \<Rightarrow> string \<Rightarrow> guest_io_error + string" where
  "append_frame target bytes = (if length bytes < 2 ^ 32 then Inr (target @ le_bytes4 (length bytes) @ bytes) else Inl GE_Transport)"

definition framed_input :: "string \<Rightarrow> guest_credentials \<Rightarrow> string option \<Rightarrow> guest_io_error + string" where
  "framed_input action_json credentials payload =
     res_bind (append_frame [] action_json) (\<lambda>input.
     res_bind (append_frame input (gc_username credentials)) (\<lambda>input.
     res_bind (append_frame input (gc_password credentials)) (\<lambda>input.
     append_frame input (case payload of None \<Rightarrow> [] | Some p \<Rightarrow> p))))"

fun stdout_limit :: "direct_action \<Rightarrow> guest_io_error + u64" where
  "stdout_limit (Pd_Exec _ _ _ _ _ max_output_bytes) =
     ok_or (Option.bind (checked_mul max_output_bytes 6) (\<lambda>v. checked_add v SMALL_RESPONSE_LIMIT)) GE_OutputLimit"
| "stdout_limit (Pd_CopyOut _ _ _ _ max_bytes) =
     ok_or (Option.bind (map_option (\<lambda>v. v div 3) (checked_add max_bytes 2)) (\<lambda>v.
       Option.bind (checked_mul v 4) (\<lambda>v. checked_add v SMALL_RESPONSE_LIMIT))) GE_OutputLimit"
| "stdout_limit _ = Inr SMALL_RESPONSE_LIMIT"

definition classify_stderr :: "string \<Rightarrow> guest_io_error" where
  "classify_stderr stderr =
     (let text = from_utf8_lossy stderr in
      if str_contains text ''OWNERSHIP_CHANGED:'' then GE_OwnershipChanged
      else if str_contains text ''GUEST_AUTHENTICATION_FAILED:'' then GE_AuthenticationFailed
      else if str_contains text ''GUEST_NOT_READY:'' then GE_GuestNotReady
      else if str_contains text ''GUEST_SESSION_FAILED:'' then GE_SessionFailed
      else if str_contains text ''GUEST_TIMEOUT:'' \<or> str_contains text ''GUEST_UNKNOWN:'' then GE_Timeout
      else if str_contains text ''GUEST_OUTPUT_LIMIT:'' then GE_OutputLimit
      else if str_contains text ''GUEST_INVALID_ENCODING:'' then GE_InvalidResponse
      else if str_contains text ''GUEST_PATH_VIOLATION:'' then GE_PathViolation
      else if str_contains text ''GUEST_PARTIAL_COPY:'' then GE_PartialCopy
      else GE_Transport)"

fun direct_script_name :: "direct_action \<Rightarrow> string" where
  "direct_script_name (Pd_ProbeReady _ _) = ''probe_ready.ps1''"
| "direct_script_name (Pd_Exec _ _ _ _ _ _) = ''exec.ps1''"
| "direct_script_name (Pd_CopyIn _ _ _ _ _) = ''copy_in.ps1''"
| "direct_script_name (Pd_CopyOut _ _ _ _ _) = ''copy_out.ps1''"

definition direct_child_errors :: "guest_io_error child_errors" where
  "direct_child_errors = \<lparr>ce_wait = GE_Transport, ce_timeout = GE_Timeout, ce_stdin = GE_Transport, ce_pipe = GE_Transport, ce_limit = GE_OutputLimit\<rparr>"

definition direct_args :: "('s, 'y) direct_shell_scheme \<Rightarrow> direct_action \<Rightarrow> string list" where
  "direct_args P action = [''-NoLogo'', ''-NoProfile'', ''-NonInteractive'', ''-Command'',
     ds_script_file P ''common.ps1'' @ [newline] @ ds_script_file P (direct_script_name action)]"

definition direct_answer :: "('s, 'y) direct_shell_scheme \<Rightarrow> direct_action \<Rightarrow> duration \<Rightarrow> child_start \<Rightarrow> guest_io_error + json" where
  "direct_answer P action timeout started = (case started of
       Started c \<Rightarrow>
         res_bind (stdout_limit action) (\<lambda>limit.
         res_bind (bounded_child direct_child_errors (px_polls P) timeout (unat limit) STDERR_LIMIT c) (\<lambda>(success, status, stdout, stderr).
         if \<not> success then Inl (classify_stderr stderr)
         else case px_decode P stdout of Inl _ \<Rightarrow> Inl GE_InvalidResponse | Inr v \<Rightarrow> Inr v))
     | _ \<Rightarrow> Inl GE_Transport)"

definition execute_powershell_direct :: "('s, 'y) direct_shell_scheme \<Rightarrow> ('s, 'z) ps_world_scheme direct_executor" where
  "execute_powershell_direct P action credentials payload timeout =
     bindE (liftR (ok_or (ds_encode P action) GE_Transport)) (\<lambda>action_json.
     bindE (liftR (framed_input action_json credentials payload)) (\<lambda>input.
     bindE (start_child P (direct_args P action) input) (\<lambda>started. liftR (direct_answer P action timeout started))))"

definition direct_system_execute :: "('s, 'y) direct_shell_scheme \<Rightarrow> ('s, 'z) ps_world_scheme direct_executor" where
  "direct_system_execute P action credentials payload timeout =
     (if ds_windows P then execute_powershell_direct P action credentials payload timeout else throw (GE_NotImplemented ''powershell-direct''))"

definition direct_system :: "(('s, 'z) ps_world_scheme, 'x) direct_env_scheme \<Rightarrow> ('s, 'y) direct_shell_scheme \<Rightarrow> ('s, 'z) ps_world_scheme guest_transport" where
  "direct_system E P = direct_transport (E\<lparr>dx_execute := direct_system_execute P\<rparr>)"

subsection \<open>The reader of the frames\<close>

definition read_frame :: "nat \<Rightarrow> string \<Rightarrow> (string \<times> string) option" where
  "read_frame limit s =
     (if length s < 4 then None
      else let n = sum_list (map (\<lambda>i. byte (s ! i) * 256 ^ i) [0..<4]); rest = drop 4 s in
        if limit < n \<or> length rest < n then None else Some (take n rest, drop n rest))"

definition read_frames :: "string \<Rightarrow> (string \<times> string \<times> string \<times> string) option" where
  "read_frames s =
     Option.bind (read_frame 1048576 s) (\<lambda>(action, s).
     Option.bind (read_frame 256 s) (\<lambda>(username, s).
     Option.bind (read_frame 4096 s) (\<lambda>(password, s).
     Option.bind (read_frame 67108864 s) (\<lambda>(payload, _). Some (action, username, password, payload)))))"

subsection \<open>Quoting is inverted by the Windows rule\<close>

lemma arguments_backslashes: "windows_arguments inside m cur (replicate k backslash @ cs) = windows_arguments inside (m + k) cur cs"
  by (induction k arbitrary: m) auto

lemma arguments_quoted:
  "windows_arguments True 0 (Some acc) (quote_body n s @ rest) = windows_arguments False 0 (Some (acc @ replicate n backslash @ s)) rest"
proof (induction n s arbitrary: acc rule: quote_body.induct)
  case (2 n c cs)
  have "dquote \<noteq> backslash" by (simp add: backslash_def)
  consider "c = backslash" | "c = dquote" "c \<noteq> backslash" | "c \<noteq> backslash" "c \<noteq> dquote" by blast
  then show ?case
  proof cases
    case 1
    with 2 show ?thesis by (simp add: replicate_app_Cons_same)
  next
    case 2
    with "2.IH"(2) \<open>dquote \<noteq> backslash\<close> show ?thesis by (simp add: arguments_backslashes del: replicate_Suc)
  next
    case 3
    with "2.IH"(3) show ?thesis by (simp add: arguments_backslashes)
  qed
next
  case (1 n)
  show ?case by (simp add: arguments_backslashes) (simp add: backslash_def)
qed

definition plain_char :: "char \<Rightarrow> bool" where
  "plain_char c \<longleftrightarrow> c \<noteq> dquote \<and> c \<noteq> CHR '' '' \<and> c \<noteq> CHR 0x09"

lemma arguments_plain:
  "list_all plain_char s \<Longrightarrow> rest = [] \<or> rest = CHR '' '' # rest' \<Longrightarrow>
     windows_arguments False n cur (s @ rest) = (if s = [] then argument_end n cur else [case_option [] id cur @ replicate n backslash @ s])
       @ (if rest = [] then [] else windows_arguments False 0 None rest')"
proof (induction s arbitrary: n cur)
  case (Cons c s)
  then show ?case
    by (cases "c = backslash"; cases "s = []")
      (auto simp: plain_char_def argument_end_def replicate_app_Cons_same backslash_def)
qed (auto simp: backslash_def)

lemma utf8_ascii_char: "utf8_valid bs \<Longrightarrow> b \<in> set bs \<Longrightarrow> b < 0x80 \<Longrightarrow> b \<in> set (utf8_chars bs)"
  by (induction bs rule: utf8_valid.induct) (auto simp: utf8_cont_def split: if_splits list.splits)

lemma unquoted_plain:
  assumes "is_utf8 s" "\<not> list_ex (\<lambda>v. char_is_whitespace v \<or> v = 0x22) (chars s)"
  shows "list_all plain_char s"
proof -
  have "byte c \<in> set (chars s)" if "c \<in> set s" "byte c < 0x80" for c
    using utf8_ascii_char [of "map byte s" "byte c"] assms(1) that by (auto simp: is_utf8_def chars_def)
  with assms(2) have no: "\<not> (char_is_whitespace (byte c) \<or> byte c = 0x22)" if "c \<in> set s" "byte c < 0x80" for c
    using that by (auto simp: list_ex_iff)
  have "byte dquote = 0x22" "byte (CHR '' '') = 32" "byte (CHR 0x09) = 9" by (simp_all add: byte_def)
  moreover have "char_is_whitespace 32" "char_is_whitespace 9" by (simp_all add: char_is_whitespace_def)
  ultimately show ?thesis using no by (fastforce simp: list_all_iff plain_char_def)
qed

lemma argument_read:
  assumes "is_utf8 s" "rest = [] \<or> rest = CHR '' '' # rest'"
  shows "windows_arguments False 0 None (quote_windows_argument s @ rest) = s # (if rest = [] then [] else windows_arguments False 0 None rest')"
proof (cases "s \<noteq> [] \<and> \<not> list_ex (\<lambda>v. char_is_whitespace v \<or> v = 0x22) (chars s)")
  case True
  with arguments_plain [OF unquoted_plain assms(2), of s 0 None] assms(1) show ?thesis by (simp add: quote_windows_argument_def)
next
  case False
  then have "quote_windows_argument s = dquote # quote_body 0 s" unfolding quote_windows_argument_def by (simp only: if_False)
  moreover have "windows_arguments False 0 None (dquote # quote_body 0 s @ rest) = windows_arguments False 0 (Some s) rest"
    using arguments_quoted [of "[]" 0 s rest] by (simp add: backslash_def)
  ultimately show ?thesis using assms(2) by (auto simp: argument_end_def backslash_def)
qed

text \<open>
  C23: quoting a command line loses nothing.  For every list of arguments, which are Rust strings and so valid UTF-8, the program that is started in the guest reads from
  the command line exactly these arguments, whatever blanks, quotes and backslashes they contain, empty arguments included.
\<close>

theorem windows_command_line_roundtrip:
  assumes "list_all is_utf8 arguments"
  shows "windows_arguments False 0 None (windows_command_line arguments) = arguments"
  using assms
proof (induction arguments)
  case Nil
  then show ?case by (simp add: windows_command_line_def argument_end_def)
next
  case (Cons s ss)
  show ?case
  proof (cases ss)
    case Nil
    with Cons.prems argument_read [of s "[]"] show ?thesis by (simp add: windows_command_line_def)
  next
    case (Cons t ts)
    then have "windows_command_line (s # ss) = quote_windows_argument s @ CHR '' '' # windows_command_line ss" by (simp add: windows_command_line_def)
    with Cons.IH Cons.prems argument_read [of s "CHR '' '' # windows_command_line ss"] show ?thesis by simp
  qed
qed

theorem windows_command_line_roundtrip_witness:
  "windows_arguments False 0 None (windows_command_line [''a'', [], [CHR ''b'', CHR '' '', dquote], [CHR '' '', backslash]])
     = [''a'', [], [CHR ''b'', CHR '' '', dquote], [CHR '' '', backslash]]"
  using windows_command_line_roundtrip [of "[''a'', [], [CHR ''b'', CHR '' '', dquote], [CHR '' '', backslash]]"]
  by (simp add: is_utf8_def byte_def backslash_def)

subsection \<open>Frames are read back\<close>

lemma le_bytes4_value:
  assumes "n < 2 ^ 32"
  shows "sum_list (map (\<lambda>i. byte ((le_bytes4 n @ xs) ! i) * 256 ^ i) [0..<4]) = n"
proof -
  have "[0..<4] = [0, 1, 2, 3 :: nat]" by (simp add: upt_rec)
  then have "sum_list (map (\<lambda>i. byte ((le_bytes4 n @ xs) ! i) * 256 ^ i) [0..<4])
      = n mod 256 + (n div 256 mod 256) * 256 + (n div 65536 mod 256) * 65536 + (n div 16777216 mod 256) * 16777216"
    by (simp add: le_bytes4_def byte_def)
  also have "\<dots> = n"
  proof -
    have "n = n mod 256 + n div 256 * 256" by simp
    moreover have "n div 256 = n div 256 mod 256 + n div 65536 * 256" using div_mult2_eq [of n 256 256] mod_div_mult_eq [of "n div 256" 256] by simp
    moreover have "n div 65536 = n div 65536 mod 256 + n div 16777216 * 256"
      using div_mult2_eq [of n 65536 256] mod_div_mult_eq [of "n div 65536" 256] by simp
    moreover have "n div 16777216 mod 256 = n div 16777216" using assms by (simp add: less_mult_imp_div_less)
    ultimately show ?thesis by linarith
  qed
  finally show ?thesis .
qed

lemma read_frame_append:
  assumes "length bytes < 2 ^ 32"
  shows "read_frame limit (le_bytes4 (length bytes) @ bytes @ rest) = (if limit < length bytes then None else Some (bytes, rest))"
proof -
  have "length (le_bytes4 n) = 4" for n by (simp add: le_bytes4_def)
  then show ?thesis using le_bytes4_value [OF assms, of "bytes @ rest"] by (simp add: read_frame_def Let_def)
qed

definition frames_within :: "string \<Rightarrow> guest_credentials \<Rightarrow> string \<Rightarrow> bool" where
  "frames_within action_json cr payload \<longleftrightarrow> length action_json \<le> 1048576 \<and> length (gc_username cr) \<le> 256 \<and> length (gc_password cr) \<le> 4096
     \<and> length payload \<le> 67108864"

lemma framed_input_read:
  assumes "framed_input action_json cr payload = Inr input"
  shows "read_frames input = (let bytes = case payload of None \<Rightarrow> [] | Some p \<Rightarrow> p in
    if frames_within action_json cr bytes then Some (action_json, gc_username cr, gc_password cr, bytes) else None)"
proof -
  define bytes where "bytes = (case payload of None \<Rightarrow> [] | Some p \<Rightarrow> p)"
  let ?f = "\<lambda>s. le_bytes4 (length s) @ s"
  from assms have len: "length action_json < 2 ^ 32" "length (gc_username cr) < 2 ^ 32" "length (gc_password cr) < 2 ^ 32" "length bytes < 2 ^ 32"
    and "input = ?f action_json @ ?f (gc_username cr) @ ?f (gc_password cr) @ ?f bytes @ []"
    by (auto simp: framed_input_def append_frame_def bytes_def [symmetric] split: if_splits)
  then show ?thesis
    unfolding bytes_def [symmetric] Let_def
    by (simp add: read_frames_def read_frame_append [OF len(1)] read_frame_append [OF len(2)] read_frame_append [OF len(3)]
        read_frame_append [OF len(4), of _ "[]", simplified] frames_within_def not_le)
qed

subsection \<open>What the children are given\<close>

definition direct_child ::
  "('s, 'y) direct_shell_scheme \<Rightarrow> direct_action \<Rightarrow> guest_credentials \<Rightarrow> string option \<Rightarrow> string list \<times> string \<Rightarrow> bool" where
  "direct_child P action cr payload child \<longleftrightarrow> ds_windows P \<and> fst child = direct_args P action \<and> (\<exists>action_json. ds_encode P action = Some action_json
     \<and> read_frames (snd child) = (let bytes = case payload of None \<Rightarrow> [] | Some p \<Rightarrow> p in
         if frames_within action_json cr bytes then Some (action_json, gc_username cr, gc_password cr, bytes) else None))"

lemma direct_one_child: "starts (direct_child P action cr payload) (direct_system_execute P action cr payload timeout) w"
proof (cases "ds_windows P")
  case True
  have child: "starts (direct_child P action cr payload) (bindE (start_child P (direct_args P action) input) (\<lambda>started. liftR (direct_answer P action timeout started))) w'"
    if "ds_encode P action = Some action_json" "framed_input action_json cr payload = Inr input" for action_json input w'
    using True that framed_input_read [OF that(2)] by (intro starts_after starts_child) (auto simp: direct_child_def liftR_def)
  have "starts (direct_child P action cr payload) (execute_powershell_direct P action cr payload timeout) w"
    unfolding execute_powershell_direct_def
  proof (rule starts_before, goal_cases)
    case (2 action_json w1)
    then have encoded: "ds_encode P action = Some action_json" by (auto simp: liftR_def ok_or_def split: option.splits)
    show ?case by (rule starts_before, simp add: liftR_def, rule child [OF encoded]) (simp add: liftR_def)
  qed (simp add: liftR_def)
  with True show ?thesis by (simp add: direct_system_execute_def)
qed (simp add: direct_system_execute_def starts_pure)

interpretation direct: script_executor "\<lambda>(action, cr, payload, timeout). direct_system_execute P action cr payload timeout"
    "\<lambda>(action, cr, payload, _ :: duration). direct_child P action cr payload" for P
  by unfold_locales (auto intro: direct_one_child)

definition direct_given ::
  "('s, 'y) direct_shell_scheme \<Rightarrow> guest_action_authority \<Rightarrow> provider_vm \<Rightarrow> guest_credentials \<Rightarrow> direct_action \<Rightarrow> string option
    \<Rightarrow> string list \<times> string \<Rightarrow> bool" where
  "direct_given P a vm cr action payload child \<longleftrightarrow> (\<exists>g. guest_authority_validate g a vm = Inr ()) \<and> direct_child P action cr payload child"

lemma transport_starts:
  "starts (direct_given P a vm cr action payload) (bindE (\<lambda>w. (authority_valid E a vm w, w)) (\<lambda>_.
     execute_transport (E\<lparr>dx_execute := direct_system_execute P\<rparr>) answer action cr payload timeout)) w"
  using direct.checked_starts [of "authority_valid E a vm" w
      "\<lambda>act. act = (action, cr, payload, timeout) \<and> (\<exists>g. guest_authority_validate g a vm = Inr ())" "(action, cr, payload, timeout)" P answer]
  by (auto simp: execute_transport_def authority_valid_def direct_given_def [abs_def] elim!: starts_weaken)

lemma authority_update [simp]: "authority_valid (E\<lparr>dx_execute := f\<rparr>) = authority_valid E"
  by (simp add: authority_valid_def fun_eq_iff)

lemma exec_admitted_line: "exec_admitted command = Inr (line, ms) \<Longrightarrow> line = windows_command_line (gcmd_args command)"
  by (auto simp: exec_admitted_def Let_def split: if_splits)

lemma exec_starts:
  "starts (\<lambda>child. \<exists>ms. exec_admitted command = Inr (windows_command_line (gcmd_args command), ms)
      \<and> direct_given P a vm cr (Pd_Exec (ga_cell_id a) vm (gcmd_program command) (windows_command_line (gcmd_args command)) ms
          (gcmd_max_output_bytes command)) None child)
    (direct_exec (E\<lparr>dx_execute := direct_system_execute P\<rparr>) a vm cr command) w"
proof (cases "exec_admitted command")
  case (Inl e)
  then show ?thesis by (simp add: direct_exec_def bindE_def liftR_def starts_none split: sum.split)
next
  case (Inr r)
  then obtain ms where r: "exec_admitted command = Inr (windows_command_line (gcmd_args command), ms)" by (cases r) (auto dest: exec_admitted_line)
  let ?E = "E\<lparr>dx_execute := direct_system_execute P\<rparr>"
  let ?act = "Pd_Exec (ga_cell_id a) vm (gcmd_program command) (windows_command_line (gcmd_args command)) ms (gcmd_max_output_bytes command)"
  have "direct_exec ?E a vm cr command = bindE (\<lambda>w. (authority_valid E a vm w, w)) (\<lambda>_.
      execute_transport ?E (exec_answer ?E) ?act cr None (gcmd_timeout command + duration_from_secs 5))"
    by (simp add: direct_exec_def r bindE_def liftR_def)
  with r show ?thesis by (auto intro: starts_weaken [OF transport_starts])
qed

text \<open>The limit on the output of a copy is the length of the base64 text of the largest admitted content and room for the rest of the answer.\<close>

lemma copy_out_limit:
  assumes "unat max_bytes \<le> unat MAX_COPY_BYTES"
  shows "\<exists>limit. stdout_limit (Pd_CopyOut c i vm source max_bytes) = Inr limit \<and> unat limit = (unat max_bytes + 2) div 3 * 4 + unat SMALL_RESPONSE_LIMIT"
proof -
  have bound: "unat max_bytes \<le> 67108864" using assms by (simp add: MAX_COPY_BYTES_def)
  have limit: "unat SMALL_RESPONSE_LIMIT = 65536" by (simp add: SMALL_RESPONSE_LIMIT_def)
  have "unat (max_bytes + 2) = unat max_bytes + 2" using bound by (simp add: unat_word_ariths)
  moreover from this have d: "unat ((max_bytes + 2) div 3) = (unat max_bytes + 2) div 3" by (simp add: unat_div)
  moreover from d have m: "unat ((max_bytes + 2) div 3 * 4) = (unat max_bytes + 2) div 3 * 4" using bound by (simp add: unat_word_ariths)
  moreover from m have "unat ((max_bytes + 2) div 3 * 4 + SMALL_RESPONSE_LIMIT) = (unat max_bytes + 2) div 3 * 4 + 65536"
    using bound by (simp add: unat_word_ariths limit)
  ultimately show ?thesis using bound by (simp add: checked_add_def checked_mul_def ok_or_def limit)
qed

text \<open>
  C24: the PowerShell Direct transport gives its children only what the authority allows, and they read what was meant.  With any behaviour of the children: every call starts
  at most one child, only on Windows and only under an authority that was valid for the expected machine; the reader of the common script recovers from its input exactly the encoded action of
  this call, with the machine, the command line or the path, the limits, the credentials and the payload, or refuses it when one of them exceeds its limit.
\<close>

theorem direct_children_authorized:
  fixes E :: "(('s, 'z) ps_world_scheme, 'x) direct_env_scheme" and P :: "('s, 'y) direct_shell_scheme"
  shows "starts (direct_given P a vm cr (Pd_ProbeReady (ga_cell_id a) vm) None) (gt_probe_ready (direct_system E P) a vm cr timeout) w
    \<and> starts (\<lambda>child. \<exists>ms. exec_admitted command = Inr (windows_command_line (gcmd_args command), ms)
          \<and> direct_given P a vm cr (Pd_Exec (ga_cell_id a) vm (gcmd_program command) (windows_command_line (gcmd_args command)) ms
              (gcmd_max_output_bytes command)) None child)
        (gt_exec (direct_system E P) a vm cr command) w
    \<and> starts (direct_given P a vm cr (Pd_CopyIn (ga_cell_id a) (ci_operation_id copy_in) vm (guest_path_str (ci_destination copy_in)) (ci_overwrite copy_in))
          (Some (ci_content copy_in)))
        (gt_copy_in (direct_system E P) a vm cr copy_in) w
    \<and> starts (direct_given P a vm cr (Pd_CopyOut (ga_cell_id a) (cp_operation_id copy_out) vm (guest_path_str (cp_source copy_out)) (cp_max_bytes copy_out)) None)
        (gt_copy_out (direct_system E P) a vm cr copy_out) w"
proof (intro conjI)
  show "starts (\<lambda>child. \<exists>ms. exec_admitted command = Inr (windows_command_line (gcmd_args command), ms)
          \<and> direct_given P a vm cr (Pd_Exec (ga_cell_id a) vm (gcmd_program command) (windows_command_line (gcmd_args command)) ms
              (gcmd_max_output_bytes command)) None child)
        (gt_exec (direct_system E P) a vm cr command) w"
    by (simp add: direct_system_def direct_transport_def exec_starts)
qed (simp_all add: direct_system_def direct_transport_def direct_probe_ready_def direct_copy_in_def direct_copy_out_def authority_update transport_starts)

end
