(* ===== verification/Spec2Isabelle.thy ===== *)
theory Spec2Isabelle
  imports JobSpec ArtifactLaws GuestPruning GuestLiveness RunTheorems Receipt Config QemuLaws HyperV PsDirect
begin

text \<open>
  A verification development for \<^verbatim>\<open>vmcell\<close>, a manager of disposable virtual-machine cells.  The program
  (Rust, under \<^verbatim>\<open>src/src\<close>) turns a registered base image into short-lived virtual machines
  (cells), runs commands in them through a guest transport, collects artifacts and destroys them.  Its
  correctness argument is about ownership: a virtual machine is started, stopped or removed only
  when the durable record of a cell proves that it belongs to this installation.

  \<^bold>\<open>Parts and theories.\<close>

  \<^item> \<^verbatim>\<open>Prelude\<close>: results (\<open>error + value\<close>), effects as state passing with errors (\<open>eff\<close>), the triples
    \<open>validE\<close> and \<open>preserves\<close>, generic lemmas.  \<^verbatim>\<open>RustStd\<close>: the strings, byte classes, saturating and checked integers
    and Unix paths of the Rust standard library the program uses.
  \<^item> \<^verbatim>\<open>CoreModel\<close>: the records and enums of \<^verbatim>\<open>core/{cell,image,guest,job,ownership,capability,automation}.rs\<close>.
    The crates \<open>uuid\<close> and \<open>sha2\<close> are a parameter \<open>crates\<close>; \<open>uuid_laws\<close> is the documented behaviour of the first
    (printing is injective, 36 characters over hexadecimal digits and hyphens, parsing inverts it).
  \<^item> \<^verbatim>\<open>Lifecycle\<close>: the transition table of \<^verbatim>\<open>core/lifecycle.rs\<close>.  \<^verbatim>\<open>Support\<close>: the platform support matrix of
    \<^verbatim>\<open>core/support.rs\<close>.  \<^verbatim>\<open>RunSelection\<close>: the choice of provider, accelerator and transport of
    \<^verbatim>\<open>core/run_selection.rs\<close>.  \<^verbatim>\<open>JobSpec\<close>: job documents and plans of \<^verbatim>\<open>core/{job_spec,job_plan}.rs\<close>.
  \<^item> \<^verbatim>\<open>Provider\<close>: the provider trait of \<^verbatim>\<open>providers/mod.rs\<close> as a record of operations, with mutation
    authorities and the checks providers make on them.  \<^verbatim>\<open>GuestIo\<close>: guest paths and guest authorities of \<^verbatim>\<open>guest/mod.rs\<close>.
  \<^item> \<^verbatim>\<open>StateStore\<close>, \<^verbatim>\<open>ArtifactStore\<close>: the durable store of \<^verbatim>\<open>state/mod.rs\<close>.  The directory tree is the record \<open>store\<close>:
    one association list from file names to documents per directory.  \<^verbatim>\<open>StoreLaws\<close>, \<^verbatim>\<open>StoreOps\<close> and \<^verbatim>\<open>ArtifactLaws\<close> hold its laws: the
    locale \<open>record_store\<close> is the contract of a validated record store and is interpreted on cells and on guest operations.
  \<^item> \<^verbatim>\<open>EngineProofs\<close>: the pure decisions of \<^verbatim>\<open>engine/mod.rs\<close> (ownership proofs, drift, request checks, error codes).
    \<^verbatim>\<open>Engine\<close>: its operations on cells.  \<^verbatim>\<open>EngineSafety\<close>: the locale \<open>engine_invariant\<close>, the interface between the
    engine and any invariant of the world; every engine operation is proved once inside it.
    \<^verbatim>\<open>EngineProperties\<close> has its commands, the invariants and an interpretation for collections (untouched cells);
    \<^verbatim>\<open>EngineLiveness\<close> shows that teardown finishes; \<^verbatim>\<open>EngineTheorems\<close> has the theorems on single commands.
  \<^item> \<^verbatim>\<open>GuestOps\<close>: the guest operations of \<^verbatim>\<open>engine/mod.rs\<close>: the readiness wait, \<open>exec\<close>, \<open>copy_to\<close>, \<open>copy_from\<close>, artifact collection,
    completion records, and the pruning of artifacts.  \<^verbatim>\<open>GuestSafety\<close>: the locale \<open>guest_invariant\<close>, which extends
    \<open>store_invariant\<close> (the part of the engine's interface that concerns the store and the lock) by the laws a guest
    operation relies on; \<^verbatim>\<open>GuestPruning\<close> and \<^verbatim>\<open>GuestLiveness\<close> treat the crash safety of pruning and the completion of \<open>exec\<close>.
  \<^item> \<^verbatim>\<open>ImageOps\<close>: validation, registration and removal of base images; \<^verbatim>\<open>ImageSafety\<close>: the locale \<open>image_invariant\<close>.
    \<^verbatim>\<open>RunOps\<close>: runs (\<^verbatim>\<open>run_cell_observed_with_job\<close> and its stages), their reports, and the requests built from job documents;
    \<^verbatim>\<open>RunSafety\<close>: the locale \<open>run_invariant\<close>, which joins \<open>engine_invariant\<close> and \<open>guest_invariant\<close> with the laws on what the observer is shown.
  \<^item> \<^verbatim>\<open>System\<close>: every command that changes durable state, sequences of them, and the locale \<open>system_invariant\<close> that joins the interfaces.
    \<^verbatim>\<open>GuestTheorems\<close> and \<^verbatim>\<open>RunTheorems\<close> interpret it on seven invariants and have the theorems on sequences of commands.
  \<^item> \<^verbatim>\<open>Json\<close>: JSON values and their accessors.  \<^verbatim>\<open>Receipt\<close>: the acceptance receipts of \<^verbatim>\<open>core/acceptance_receipt.rs\<close>; serde's reader is the
    parameter \<open>receipt_serde\<close>.  \<^verbatim>\<open>Config\<close>: the user configuration of \<^verbatim>\<open>config.rs\<close>; the file system and the decoder are the parameter \<open>config_env\<close>.
  \<^item> \<^verbatim>\<open>Qmp\<close>: the control protocol of \<^verbatim>\<open>providers/qemu/protocol.rs\<close>.  \<^verbatim>\<open>Qga\<close>: the guest agent transport of \<^verbatim>\<open>guest/qga/mod.rs\<close>, an instance of
    the transport record the engine takes; \<^verbatim>\<open>QgaLaws\<close> has its theorems.  The peer of a stream, the JSON codec and base64 are the parameter \<open>link_env\<close>.
  \<^item> \<^verbatim>\<open>Qemu\<close>: the QEMU provider of \<^verbatim>\<open>providers/qemu/mod.rs\<close> (the non-Windows build), an instance of the provider record the engine takes, over the parameter
    \<open>qemu_env\<close>: the executor of the code (\<open>QemuCommandExecutor\<close>), the file metadata the host shows, other processes that change the configuration
    files, and failures.  Its world adds the configuration files and a ghost trace of spawned, activated, controlled and terminated processes and of changed configurations, each with
    the files at that moment.  \<^verbatim>\<open>QemuLaws\<close> has its theorems.
  \<^item> \<^verbatim>\<open>Powershell\<close>: the PowerShell children of the two Windows executors, and the locale \<open>script_executor\<close>: executing an action starts at most one child, given what the action says.
    \<^verbatim>\<open>HyperV\<close>: the Hyper-V provider and its executor (\<^verbatim>\<open>providers/hyperv\<close>); \<^verbatim>\<open>PsDirect\<close>: the PowerShell Direct transport, its quoting of command lines and its executor
    (\<^verbatim>\<open>guest/powershell_direct\<close>), with the frame reader of \<^verbatim>\<open>scripts/common.ps1\<close>.  Both interpret the locale.  How a child starts, answers polls and fills its pipes is the parameter
    \<open>ps_env\<close>; a wait polls at most \<open>px_polls\<close> times (\<open>wait_child_fuel\<close>: every bound above the readings left before the deadline gives the same result).

  \<^bold>\<open>State and effects.\<close>  An operation is a function from the world to a result and a world.  The world has
  the store, a step counter, the mutation lock of the process, the provider's own state and a ghost
  trace of mutating provider calls, each with the store at that moment.  What the operating system answers is the
  environment: for every step whether it fails (\<open>fs_fault\<close>), on which side of its commit point a write fails
  (\<open>fs_write\<close>), whether another process holds the lock (\<open>fs_busy\<close>), the clock, fresh uuids, and what opening and hashing
  a base image yields.  All theorems are for every environment unless they say that nothing fails (\<open>calm\<close>).
  \<open>write_atomic\<close> models \<^verbatim>\<open>write_json_atomic\<close>: the rename is the commit point.  Guards are released when their scope ends,
  on every exit path (\<open>with_lock\<close>).  The lock is polled a bounded number of times, \<open>fs_lock_retries\<close>, the quotient of
  the configured timeout and the poll interval; it is a parameter, and termination is proved for every value.
  Guest operations extend the world by the transport's own state and a ghost trace \<open>gw_calls\<close> of
  transport calls with the store at that moment.  The readiness loop is bounded by the deadline; its number of polls is a
  parameter of the environment (\<open>en_polls\<close>), and \<open>readiness_loop_ends\<close> shows that every bound above the number of steps to the deadline gives the same result.
  A run's observer is the function \<open>en_observe\<close> of the environment; \<open>ew_events\<close> lists the events shown to it with its answers and the
  store at that moment, and \<open>ew_recorded\<close> is the operation id the last guest operation handed to its caller.

  In the control protocol, the agent transport and the QEMU provider the world is the peer's state, the bytes it has sent and a count of clock readings; reading
  loops end because each step consumes a byte, reading a file because each chunk adds to a bounded output, and \<open>lk_polls\<close> bounds the three loops that wait
  (\<open>control_waits_end\<close> shows that every bound above the readings left before the deadline gives the same result).

  \<^bold>\<open>What is shown.\<close>  Engine: over any sequence of commands and failures, no mutating provider call without a durable record and an ownership proof of the right phase; the durable history of a cell refines a transition relation with immutable
  identity and final tombstones; teardown completes from every recorded phase after the claim; returned results are
  durable; collection spares live cells; the lock is released on every exit; inspection is read-only and sound.
  Guest operations: the transport is called only for a running cell with a durable intent record of that very operation; the durable history of an operation
  refines the relation from intent through phases to one final completion; a cell has at most one open operation; pruning
  never loses an artifact that a record still claims; \<open>exec\<close> completes and its report is the durable record.
  Images and runs: a live cell keeps the registered image it was made from; a registration describes the file that was hashed, a removal leaves no
  dependent cell; the events and the report of a run, on every exit, are true of the durable store.
  Store: writes are atomic and faulty histories refine fault-free ones; job correlations are immutable; loaded
  records and artifacts are well formed and verified; the lock terminates and excludes.  Decisions: ownership is
  exclusive, implies the provider's own check, and emulation needs an opt-in.  Core: the support matrix, run selection (complete
  and minimal), job bounds, guest path confinement, provider authorities.  Receipts: a document passes exactly under the spelled-out conditions, and no report
  authorizes anything.  Configuration: what is loaded is within the engine's bounds and from a safe file.  QEMU control: a result answers its own request; the agent's
  channel is opened only for a machine that was just proven; command results pass the engine's check; file transfers through an honest agent are complete.
  QEMU provider: processes are spawned, activated, controlled and terminated and configurations removed only as the authority and the durable configuration
  justify at that moment; reported power states and the success of start and stop were proven.
  Windows hosts: PowerShell children are started only for authorized requests and read exactly what was meant; quoted command lines are split back into the given arguments.

  \<^bold>\<open>Not modelled.\<close>  Serialisation (serde) is the identity on documents, with unreadable or unsafe files as \<open>BadJson\<close> and \<open>UnsafeFile\<close>.  File handles,
  reparse points, permissions and \<^verbatim>\<open>fsync\<close> appear only as points that may fail.  Paths follow the Unix rules; Windows-only
  branches of path comparison are modelled where they are pure functions of strings.  The system executor of QEMU (spawning and
  observing processes, in \<^verbatim>\<open>providers/qemu/mod.rs\<close> and \<^verbatim>\<open>windows_job.rs\<close>) is a parameter of the QEMU provider; the texts of the PowerShell scripts, apart from the frame reader, are parameters
  of their executors; \<^verbatim>\<open>guest/ssh\<close> is a
  placeholder.  The overlapped I/O of Windows pipes is an answer of the peer.  \<^verbatim>\<open>process.rs\<close>, \<^verbatim>\<open>main.rs\<close> and \<^verbatim>\<open>cli\<close> are operating-system and command-line glue.
\<close>

end
